(* ===== verification/Prelude.thy ===== *)
theory Prelude
  imports Main "HOL-Library.Char_ord" "HOL-Library.List_Lexorder" "HOL-Library.Product_Lexorder"
    "HOL-Library.AList"
begin

text \<open>
  What every component shares: the Python exceptions the service raises as values of one
  datatype, results as a sum of an exception and a value, computations that thread a state
  and may raise (an exception keeps the state reached so far, as it does for the mutated
  objects of the source), UUIDs as an ordered type, the truth value of optional strings,
  and the generic lemmas on stable sorting, on lists and on results that the component
  theories use.
\<close>

named_theorems model_defs \<open>definitions of the model that the component proofs unfold\<close>
named_theorems eff_simps \<open>unfolding of the state and exception threading\<close>

section \<open>Exceptions and results\<close>

text \<open>
  The exception classes that the modelled code raises or tells apart. The first group are
  Python's and the libraries' own; the \<open>G301\<close> group is declared in
  \<^verbatim>\<open>app/g301_adapter\<close>, \<open>ClockMappingRequired\<close> in \<^verbatim>\<open>app/clock/interface.py\<close>.
  \<open>OtherError\<close> carries the class name of any further exception.
\<close>

datatype pyexc =
    ValueError string
  | ValidationError string
  | UnicodeDecodeError
  | TypeError string
  | KeyError string
  | RuntimeError string
  | AssertionError
  | OverflowError string
  | TimeoutError
  | G301PlanningError string
  | G301TransportError string
  | G301TransportTimeout string
  | G301ModbusException string "int option"
  | G301DeviceOffline string
  | G301ProtocolError string
  | ClockMappingRequired string
  | OtherError string

type_synonym 'a result = "pyexc + 'a"

text \<open>\<^verbatim>\<open>isinstance(exc, ValueError)\<close>: pydantic's ValidationError, UnicodeDecodeError and
  G301PlanningError are subclasses of ValueError.\<close>

fun is_ValueError :: "pyexc \<Rightarrow> bool" where
  "is_ValueError (ValueError _) = True"
| "is_ValueError (ValidationError _) = True"
| "is_ValueError UnicodeDecodeError = True"
| "is_ValueError (G301PlanningError _) = True"
| "is_ValueError _ = False"

definition is_Inl :: "'a + 'b \<Rightarrow> bool" where
  "is_Inl r = (case r of Inl _ \<Rightarrow> True | Inr _ \<Rightarrow> False)"

definition is_Inr :: "'a + 'b \<Rightarrow> bool" where
  "is_Inr r = (case r of Inl _ \<Rightarrow> False | Inr _ \<Rightarrow> True)"

lemma is_Inl_simps [simp]: "is_Inl (Inl e)" "\<not> is_Inl (Inr v)"
  by (simp_all add: is_Inl_def)

lemma is_Inr_simps [simp]: "is_Inr (Inr v)" "\<not> is_Inr (Inl e)"
  by (simp_all add: is_Inr_def)

lemma is_Inr_iff: "is_Inr r \<longleftrightarrow> (\<exists>v. r = Inr v)"
  by (cases r) auto

lemma not_is_Inl: "\<not> is_Inl r \<longleftrightarrow> is_Inr r"
  by (cases r) auto

definition bind_result :: "'a result \<Rightarrow> ('a \<Rightarrow> 'b result) \<Rightarrow> 'b result" where
  "bind_result r f = (case r of Inl e \<Rightarrow> Inl e | Inr v \<Rightarrow> f v)"

lemma bind_result_simps [simp]:
  "bind_result (Inl e) f = Inl e" "bind_result (Inr v) f = f v"
  by (simp_all add: bind_result_def)

lemma bind_result_Inr: "bind_result r f = Inr w \<longleftrightarrow> (\<exists>v. r = Inr v \<and> f v = Inr w)"
  by (cases r) auto

text \<open>A comprehension whose element expression may raise: the first exception wins.\<close>

fun map_result :: "('a \<Rightarrow> 'b result) \<Rightarrow> 'a list \<Rightarrow> 'b list result" where
  "map_result f [] = Inr []"
| "map_result f (x # xs) =
     bind_result (f x) (\<lambda>y. bind_result (map_result f xs) (\<lambda>ys. Inr (y # ys)))"

lemma map_result_Inr:
  "map_result f xs = Inr ys \<Longrightarrow> length ys = length xs \<and> (\<forall>i < length xs. f (xs ! i) = Inr (ys ! i))"
proof (induction xs arbitrary: ys)
  case Nil
  then show ?case by simp
next
  case (Cons x xs)
  from Cons.prems obtain z zs where z: "f x = Inr z" and zs: "map_result f xs = Inr zs"
    and ys: "ys = z # zs"
    by (auto simp: bind_result_Inr)
  from Cons.IH [OF zs] z ys show ?case
    by (auto simp: nth_Cons split: nat.splits)
qed

lemma map_result_set:
  assumes "map_result f xs = Inr ys" and "y \<in> set ys"
  shows "\<exists>x \<in> set xs. f x = Inr y"
proof -
  from assms(2) obtain i where i: "i < length ys" "ys ! i = y"
    by (auto simp: in_set_conv_nth)
  with map_result_Inr [OF assms(1)] have "xs ! i \<in> set xs" and "f (xs ! i) = Inr y"
    by auto
  then show ?thesis by blast
qed

section \<open>Computations that mutate a state and may raise\<close>

type_synonym ('s, 'a) eff = "'s \<Rightarrow> 'a result \<times> 's"

definition ret :: "'a \<Rightarrow> ('s, 'a) eff" where
  "ret v s = (Inr v, s)"

definition raise :: "pyexc \<Rightarrow> ('s, 'a) eff" where
  "raise e s = (Inl e, s)"

definition bindE :: "('s, 'a) eff \<Rightarrow> ('a \<Rightarrow> ('s, 'b) eff) \<Rightarrow> ('s, 'b) eff" where
  "bindE m f s = (case m s of (Inl e, s') \<Rightarrow> (Inl e, s') | (Inr v, s') \<Rightarrow> f v s')"

text \<open>\<^verbatim>\<open>try: m except ...: h\<close>: the handler sees the exception and the state reached.\<close>

definition catchE :: "('s, 'a) eff \<Rightarrow> (pyexc \<Rightarrow> ('s, 'a) eff) \<Rightarrow> ('s, 'a) eff" where
  "catchE m h s = (case m s of (Inl e, s') \<Rightarrow> h e s' | (Inr v, s') \<Rightarrow> (Inr v, s'))"

lemma ret_simp [simp]: "ret v s = (Inr v, s)"
  by (simp add: ret_def)

lemma raise_simp [simp]: "raise e s = (Inl e, s)"
  by (simp add: raise_def)

lemma bindE_Inr [simp]: "m s = (Inr v, s') \<Longrightarrow> bindE m f s = f v s'"
  by (simp add: bindE_def)

lemma bindE_Inl [simp]: "m s = (Inl e, s') \<Longrightarrow> bindE m f s = (Inl e, s')"
  by (simp add: bindE_def)

lemma catchE_Inr [simp]: "m s = (Inr v, s') \<Longrightarrow> catchE m h s = (Inr v, s')"
  by (simp add: catchE_def)

lemma catchE_Inl [simp]: "m s = (Inl e, s') \<Longrightarrow> catchE m h s = h e s'"
  by (simp add: catchE_def)

lemmas eff_defs [eff_simps] = bindE_def catchE_def

lemma bindE_Inr_E:
  assumes "bindE m f s = (Inr w, s'')"
  obtains v s' where "m s = (Inr v, s')" and "f v s' = (Inr w, s'')"
  using assms by (auto simp: bindE_def split: prod.splits sum.splits)

text \<open>Reading and updating the state, a value that may be an exception, and \<^verbatim>\<open>try\<close> with a
  handler that inspects the outcome.\<close>

definition gets :: "('s \<Rightarrow> 'a) \<Rightarrow> ('s, 'a) eff" where
  "gets f s = (Inr (f s), s)"

definition modify :: "('s \<Rightarrow> 's) \<Rightarrow> ('s, unit) eff" where
  "modify f s = (Inr (), f s)"

definition lift_result :: "'a result \<Rightarrow> ('s, 'a) eff" where
  "lift_result r s = (r, s)"

definition attemptE :: "('s, 'a) eff \<Rightarrow> ('s, 'a result) eff" where
  "attemptE m s = (case m s of (r, s') \<Rightarrow> (Inr r, s'))"

lemma gets_simp [simp]: "gets f s = (Inr (f s), s)"
  by (simp add: gets_def)

lemma modify_simp [simp]: "modify f s = (Inr (), f s)"
  by (simp add: modify_def)

lemma lift_result_simp [simp]: "lift_result r s = (r, s)"
  by (simp add: lift_result_def)

lemma attemptE_simp [simp]: "m s = (r, s') \<Longrightarrow> attemptE m s = (Inr r, s')"
  by (simp add: attemptE_def)

lemma bindE_gets [simp]: "bindE (gets f) g s = g (f s) s"
  by (simp add: bindE_def)

lemma bindE_modify [simp]: "bindE (modify f) g s = g () (f s)"
  by (simp add: bindE_def)

lemma bindE_ret [simp]: "bindE (ret v) g s = g v s"
  by (simp add: bindE_def)

lemma bindE_lift_Inr [simp]: "bindE (lift_result (Inr v)) g s = g v s"
  by (simp add: bindE_def)

lemma bindE_attemptE: "bindE (attemptE m) g s = (case m s of (r, s') \<Rightarrow> g r s')"
  by (simp add: bindE_def attemptE_def split: prod.splits)

text \<open>
  A state relation that every computation of a group keeps: reflexive and transitive
  relations between the state before and after carry through sequencing and handlers.
\<close>

definition keeps :: "('s \<Rightarrow> 's \<Rightarrow> bool) \<Rightarrow> ('s, 'a) eff \<Rightarrow> bool" where
  "keeps R m \<longleftrightarrow> (\<forall>s. R s (snd (m s)))"

lemma keepsI: "(\<And>s. R s (snd (m s))) \<Longrightarrow> keeps R m"
  by (simp add: keeps_def)

lemma keepsD: "keeps R m \<Longrightarrow> R s (snd (m s))"
  by (simp add: keeps_def)

lemma keeps_eqD: "keeps R m \<Longrightarrow> m s = (r, s') \<Longrightarrow> R s s'"
  using keepsD [of R m s] by simp

lemma keeps_ret: "reflp R \<Longrightarrow> keeps R (ret v)"
  by (simp add: keeps_def reflp_def)

lemma keeps_raise: "reflp R \<Longrightarrow> keeps R (raise e)"
  by (simp add: keeps_def reflp_def)

lemma keeps_bindE:
  assumes "transp R" and "keeps R m" and "\<And>v. keeps R (f v)"
  shows "keeps R (bindE m f)"
proof (rule keepsI)
  fix s
  obtain r s' where m: "m s = (r, s')" by fastforce
  then have 1: "R s s'" using assms(2) by (metis keeps_eqD)
  show "R s (snd (bindE m f s))"
  proof (cases r)
    case (Inl e)
    then show ?thesis using m 1 by simp
  next
    case (Inr v)
    have "R s' (snd (f v s'))" using assms(3) by (rule keepsD)
    then show ?thesis using m 1 Inr assms(1) by (auto dest: transpD)
  qed
qed

lemma keeps_catchE:
  assumes "transp R" and "keeps R m" and "\<And>e. keeps R (h e)"
  shows "keeps R (catchE m h)"
proof (rule keepsI)
  fix s
  obtain r s' where m: "m s = (r, s')" by fastforce
  then have 1: "R s s'" using assms(2) by (metis keeps_eqD)
  show "R s (snd (catchE m h s))"
  proof (cases r)
    case (Inl e)
    have "R s' (snd (h e s'))" using assms(3) by (rule keepsD)
    then show ?thesis using m 1 Inl assms(1) by (auto dest: transpD)
  next
    case (Inr v)
    then show ?thesis using m 1 by simp
  qed
qed

lemma keeps_gets: "reflp R \<Longrightarrow> keeps R (gets f)"
  by (simp add: keeps_def reflp_def)

lemma keeps_lift: "reflp R \<Longrightarrow> keeps R (lift_result r)"
  by (simp add: keeps_def reflp_def)

lemma keeps_modify: "(\<And>s. R s (f s)) \<Longrightarrow> keeps R (modify f)"
  by (simp add: keeps_def)

lemma keeps_attemptE: "keeps R m \<Longrightarrow> keeps R (attemptE m)"
  by (simp add: keeps_def attemptE_def split_def)

text \<open>The exceptions a computation can raise.\<close>

definition raises_only :: "(pyexc \<Rightarrow> bool) \<Rightarrow> ('s, 'a) eff \<Rightarrow> bool" where
  "raises_only P m \<longleftrightarrow> (\<forall>s e s'. m s = (Inl e, s') \<longrightarrow> P e)"

lemma raises_onlyD: "raises_only P m \<Longrightarrow> m s = (Inl e, s') \<Longrightarrow> P e"
  by (auto simp: raises_only_def)

lemma raises_only_simps [simp]:
  "raises_only P (ret v)" "raises_only P (gets f)" "raises_only P (modify g)"
  "raises_only P (attemptE m)" "raises_only P (raise e) \<longleftrightarrow> P e"
  by (auto simp: raises_only_def attemptE_def split: prod.splits)

lemma raises_only_bindE:
  "raises_only P m \<Longrightarrow> (\<And>v. raises_only P (f v)) \<Longrightarrow> raises_only P (bindE m f)"
  by (auto simp: raises_only_def bindE_def split: prod.splits sum.splits)

lemma raises_only_weaken: "raises_only P m \<Longrightarrow> (\<And>e. P e \<Longrightarrow> Q e) \<Longrightarrow> raises_only Q m"
  by (auto simp: raises_only_def)

section \<open>Triples\<close>

text \<open>
  A Hoare triple with two postconditions: \<open>Q\<close> of the value and the state when the computation
  returns, \<open>E\<close> of the exception and the state it was raised in.
\<close>

definition triple ::
  "('s \<Rightarrow> bool) \<Rightarrow> ('s, 'a) eff \<Rightarrow> ('a \<Rightarrow> 's \<Rightarrow> bool) \<Rightarrow> (pyexc \<Rightarrow> 's \<Rightarrow> bool) \<Rightarrow> bool" where
  "triple P m Q E \<longleftrightarrow>
     (\<forall>s. P s \<longrightarrow> (case m s of (Inr v, s') \<Rightarrow> Q v s' | (Inl e, s') \<Rightarrow> E e s'))"

lemma tripleI:
  "(\<And>s r s'. P s \<Longrightarrow> m s = (r, s') \<Longrightarrow> case r of Inr v \<Rightarrow> Q v s' | Inl e \<Rightarrow> E e s') \<Longrightarrow> triple P m Q E"
  by (fastforce simp: triple_def split: prod.splits sum.splits)

lemma tripleD_Inr: "triple P m Q E \<Longrightarrow> P s \<Longrightarrow> m s = (Inr v, s') \<Longrightarrow> Q v s'"
  by (fastforce simp: triple_def)

lemma tripleD_Inl: "triple P m Q E \<Longrightarrow> P s \<Longrightarrow> m s = (Inl e, s') \<Longrightarrow> E e s'"
  by (fastforce simp: triple_def)

lemma triple_bindE:
  assumes "triple P m R E" and "\<And>v. triple (R v) (f v) Q E"
  shows "triple P (bindE m f) Q E"
proof (rule tripleI)
  fix s r s'' assume P: "P s" and b: "bindE m f s = (r, s'')"
  obtain r1 s1 where m: "m s = (r1, s1)" by fastforce
  show "case r of Inr v \<Rightarrow> Q v s'' | Inl e \<Rightarrow> E e s''"
  proof (cases r1)
    case (Inl e)
    with m b assms(1) P show ?thesis by (auto dest: tripleD_Inl)
  next
    case (Inr v)
    with m assms(1) P have "R v s1" by (auto dest: tripleD_Inr)
    moreover from Inr m b have "f v s1 = (r, s'')" by simp
    ultimately show ?thesis
      using assms(2) [of v] by (auto dest: tripleD_Inr tripleD_Inl split: sum.splits)
  qed
qed

lemma triple_weaken:
  assumes "triple P' m Q' E'" and "\<And>s. P s \<Longrightarrow> P' s" and "\<And>v s. Q' v s \<Longrightarrow> Q v s" and "\<And>e s. E' e s \<Longrightarrow> E e s"
  shows "triple P m Q E"
  using assms by (fastforce simp: triple_def split: prod.splits sum.splits)

lemma triple_pre: "triple P' m Q E \<Longrightarrow> (\<And>s. P s \<Longrightarrow> P' s) \<Longrightarrow> triple P m Q E"
  by (erule triple_weaken) auto

lemma triple_ret: "(\<And>s. P s \<Longrightarrow> Q v s) \<Longrightarrow> triple P (ret v) Q E"
  by (simp add: triple_def)

lemma triple_raise: "(\<And>s. P s \<Longrightarrow> E e s) \<Longrightarrow> triple P (raise e) Q E"
  by (simp add: triple_def)

text \<open>The same after simplification has unfolded a return or a raise.\<close>

lemma triple_Pair:
  "(\<And>s. P s \<Longrightarrow> Q v s) \<Longrightarrow> triple P (Pair (Inr v)) Q E"
  "(\<And>s. P s \<Longrightarrow> E e s) \<Longrightarrow> triple P (Pair (Inl e)) Q E"
  by (simp_all add: triple_def)

lemmas triple_ends = triple_ret triple_raise triple_Pair

lemma triple_gets: "(\<And>s. P s \<Longrightarrow> Q (f s) s) \<Longrightarrow> triple P (gets f) Q E"
  by (simp add: triple_def)

lemma triple_modify: "(\<And>s. P s \<Longrightarrow> Q () (f s)) \<Longrightarrow> triple P (modify f) Q E"
  by (simp add: triple_def)

lemma triple_attemptE:
  assumes "triple P m Q E"
  shows "triple P (attemptE m) (\<lambda>r s. case r of Inr v \<Rightarrow> Q v s | Inl e \<Rightarrow> E e s) E'"
  using assms by (fastforce simp: triple_def attemptE_def split: prod.splits sum.splits)

lemma triple_bind_gets: "(\<And>v. triple (\<lambda>s. P s \<and> f s = v) (g v) Q E) \<Longrightarrow> triple P (bindE (gets f) g) Q E"
  by (simp add: triple_def)

lemma triple_conj_pre: "(P0 \<Longrightarrow> triple P m Q E) \<Longrightarrow> triple (\<lambda>s. P s \<and> P0) m Q E"
  by (auto simp: triple_def)

section \<open>UUIDs\<close>

text \<open>
  A UUID is 128 bits; what the code uses of it is equality, and its order, both as a column
  of an \<^verbatim>\<open>ORDER BY\<close> and as \<^verbatim>\<open>sorted(ids, key=str)\<close>: the textual form has a fixed width, so
  its order is the numeric one.
\<close>

datatype uuid = UUID (uuid_int: nat)

instantiation uuid :: linorder
begin

definition less_eq_uuid :: "uuid \<Rightarrow> uuid \<Rightarrow> bool" where
  "less_eq_uuid a b \<longleftrightarrow> uuid_int a \<le> uuid_int b"

definition less_uuid :: "uuid \<Rightarrow> uuid \<Rightarrow> bool" where
  "less_uuid a b \<longleftrightarrow> uuid_int a < uuid_int b"

instance
  by standard (auto simp: less_eq_uuid_def less_uuid_def uuid.expand)

end

lemma uuid_less_eq_simp [simp]: "UUID a \<le> UUID b \<longleftrightarrow> a \<le> b"
  by (simp add: less_eq_uuid_def)

lemma uuid_less_simp [simp]: "UUID a < UUID b \<longleftrightarrow> a < b"
  by (simp add: less_uuid_def)

section \<open>Truth values, strings\<close>

text \<open>\<^verbatim>\<open>bool(value)\<close> of an optional string: None and the empty string are false.\<close>

fun truthy :: "string option \<Rightarrow> bool" where
  "truthy None = False"
| "truthy (Some s) = (s \<noteq> [])"

lemma truthy_iff: "truthy v \<longleftrightarrow> (\<exists>s. v = Some s \<and> s \<noteq> [])"
  by (cases v) auto

definition starts_with :: "string \<Rightarrow> string \<Rightarrow> bool" where
  "starts_with p s = (take (length p) s = p)"

text \<open>\<^verbatim>\<open>marker in text\<close> on strings.\<close>

fun contains_str :: "string \<Rightarrow> string \<Rightarrow> bool" where
  "contains_str p [] = (p = [])"
| "contains_str p (c # cs) = (starts_with p (c # cs) \<or> contains_str p cs)"

text \<open>\<^verbatim>\<open>str.lower\<close> on the ASCII letters.\<close>

definition lower_char :: "char \<Rightarrow> char" where
  "lower_char c = (if CHR ''A'' \<le> c \<and> c \<le> CHR ''Z'' then char_of (of_char c + (32 :: nat)) else c)"

definition lower :: "string \<Rightarrow> string" where
  "lower = map lower_char"

fun join_with :: "string \<Rightarrow> string list \<Rightarrow> string" where
  "join_with sep [] = []"
| "join_with sep [x] = x"
| "join_with sep (x # xs) = x @ sep @ join_with sep xs"

text \<open>Decimal rendering of a natural number and of an integer, as \<^verbatim>\<open>str\<close> does it.\<close>

fun show_nat :: "nat \<Rightarrow> string" where
  "show_nat n = (if n < 10 then [char_of (48 + n)] else show_nat (n div 10) @ [char_of (48 + n mod 10)])"

declare show_nat.simps [simp del]

definition show_int :: "int \<Rightarrow> string" where
  "show_int i = (if i < 0 then CHR ''-'' # show_nat (nat (- i)) else show_nat (nat i))"

text \<open>The \<^verbatim>\<open>04X\<close> rendering of a non-negative integer.\<close>

definition hex_digit :: "nat \<Rightarrow> char" where
  "hex_digit d = (if d < 10 then char_of (48 + d) else char_of (55 + d))"

fun show_hex :: "nat \<Rightarrow> string" where
  "show_hex n = (if n < 16 then [hex_digit n] else show_hex (n div 16) @ [hex_digit (n mod 16)])"

declare show_hex.simps [simp del]

definition show_hex4 :: "int \<Rightarrow> string" where
  "show_hex4 i = (let s = show_hex (nat i) in replicate (4 - length s) CHR ''0'' @ s)"

section \<open>Dictionaries\<close>

text \<open>A dict as an association list in insertion order, and a dict comprehension over pairs:
  a later value of a key replaces the earlier one in its place.\<close>

definition dict_of :: "('k \<times> 'v) list \<Rightarrow> ('k \<times> 'v) list" where
  "dict_of kvs = foldl (\<lambda>d kv. AList.update (fst kv) (snd kv) d) [] kvs"

lemma map_of_foldl_update:
  "map_of (foldl (\<lambda>d kv. AList.update (fst kv) (snd kv) d) d0 kvs) = map_of d0 ++ map_of (rev kvs)"
  by (induction kvs arbitrary: d0) (auto simp: update_conv')

lemma map_of_dict_of: "map_of (dict_of kvs) = map_of (rev kvs)"
  by (simp add: dict_of_def map_of_foldl_update)

section \<open>Lists\<close>

text \<open>\<^verbatim>\<open>sorted(xs, key=k)[0]\<close>: Isabelle's \<open>sort_key\<close> is stable, as Python's sort is.\<close>

lemma sort_key_hd_least:
  assumes "x \<in> set xs"
  shows "k (hd (sort_key k xs)) \<le> k x"
proof -
  from assms have ne: "sort_key k xs \<noteq> []" by (metis empty_iff set_empty set_sort)
  then obtain y ys where s: "sort_key k xs = y # ys" by (cases "sort_key k xs") auto
  have "sorted (map k (sort_key k xs))" by (rule sorted_sort_key)
  with s have "\<forall>z \<in> set ys. k y \<le> k z" by simp
  moreover have "x \<in> set (y # ys)" using assms s by (metis set_sort)
  ultimately show ?thesis using s by auto
qed

lemma hd_sort_key_in: "xs \<noteq> [] \<Longrightarrow> hd (sort_key k xs) \<in> set xs"
  by (metis hd_in_set set_empty set_sort)

text \<open>\<^verbatim>\<open>len(keys) != len(set(keys))\<close> is how the code tests for duplicates.\<close>

lemma length_card_distinct: "length xs = card (set xs) \<longleftrightarrow> distinct xs"
  by (metis card_distinct distinct_card)

text \<open>Ordered pairs \<^verbatim>\<open>(xs[i], xs[j])\<close> with \<open>i < j\<close>, in the order of the nested loop.\<close>

fun ordered_pairs :: "'a list \<Rightarrow> ('a \<times> 'a) list" where
  "ordered_pairs [] = []"
| "ordered_pairs (x # xs) = map (Pair x) xs @ ordered_pairs xs"

lemma set_ordered_pairs:
  "(a, b) \<in> set (ordered_pairs xs) \<longleftrightarrow> (\<exists>i j. i < j \<and> j < length xs \<and> xs ! i = a \<and> xs ! j = b)"
proof (induction xs)
  case Nil
  then show ?case by simp
next
  case (Cons x xs)
  have "(\<exists>i j. i < j \<and> j < length (x # xs) \<and> (x # xs) ! i = a \<and> (x # xs) ! j = b)
      \<longleftrightarrow> (x = a \<and> b \<in> set xs) \<or> (\<exists>i j. i < j \<and> j < length xs \<and> xs ! i = a \<and> xs ! j = b)"
    (is "?L \<longleftrightarrow> ?R")
  proof
    assume ?L
    then obtain i j where ij: "i < j" "j < Suc (length xs)" "(x # xs) ! i = a" "(x # xs) ! j = b"
      by auto
    then obtain j' where j': "j = Suc j'" by (cases j) auto
    show ?R
    proof (cases i)
      case 0
      with ij j' show ?thesis by auto
    next
      case (Suc i')
      with ij j' show ?thesis by auto
    qed
  next
    assume ?R
    then show ?L
    proof
      assume A: "x = a \<and> b \<in> set xs"
      then obtain j where "j < length xs" "xs ! j = b" by (auto simp: in_set_conv_nth)
      then show ?L using A by (intro exI [of _ 0] exI [of _ "Suc j"]) simp
    next
      assume "\<exists>i j. i < j \<and> j < length xs \<and> xs ! i = a \<and> xs ! j = b"
      then obtain i j where "i < j" "j < length xs" "xs ! i = a" "xs ! j = b" by blast
      then show ?L by (intro exI [of _ "Suc i"] exI [of _ "Suc j"]) simp
    qed
  qed
  then show ?case using Cons.IH by auto
qed

lemma find_None_iff2: "find P xs = None \<longleftrightarrow> (\<forall>x \<in> set xs. \<not> P x)"
  by (auto simp: find_None_iff)

lemma find_SomeD: "find P xs = Some x \<Longrightarrow> x \<in> set xs \<and> P x"
  by (metis find_Some_iff nth_mem)

end
