(* ===== verification/PyFloat.thy ===== *)
theory PyFloat
  imports Prelude Complex_Main "HOL-Library.Log_Nat"
begin

text \<open>
  Python's \<open>float\<close>: IEEE binary64 values. A finite value is the rational it denotes
  (the two zeros are one value, which no code of the repository tells apart); the infinities
  and NaN are values of their own, because comparisons with NaN are false and the policy's
  clamp and the validators are built from comparisons. Arithmetic rounds to the nearest
  representable value, ties to even (\<open>round64\<close>); comparisons are exact.
\<close>

datatype pyfloat = Fin rat | NaN | PInf | NInf

fun is_nan :: "pyfloat \<Rightarrow> bool" where
  "is_nan NaN = True"
| "is_nan _ = False"

fun is_finite :: "pyfloat \<Rightarrow> bool" where
  "is_finite (Fin _) = True"
| "is_finite _ = False"

section \<open>Comparison\<close>

fun f_less :: "pyfloat \<Rightarrow> pyfloat \<Rightarrow> bool" where
  "f_less (Fin a) (Fin b) = (a < b)"
| "f_less (Fin _) PInf = True"
| "f_less NInf (Fin _) = True"
| "f_less NInf PInf = True"
| "f_less _ _ = False"

fun f_le :: "pyfloat \<Rightarrow> pyfloat \<Rightarrow> bool" where
  "f_le (Fin a) (Fin b) = (a \<le> b)"
| "f_le (Fin _) PInf = True"
| "f_le NInf (Fin _) = True"
| "f_le NInf PInf = True"
| "f_le PInf PInf = True"
| "f_le NInf NInf = True"
| "f_le _ _ = False"

text \<open>
  \<^verbatim>\<open>max(a, b)\<close> keeps the first argument unless the second is greater; \<^verbatim>\<open>min(a, b)\<close> keeps
  it unless the second is smaller. So a NaN first argument survives both.
\<close>

definition py_max :: "pyfloat \<Rightarrow> pyfloat \<Rightarrow> pyfloat" where
  "py_max a b = (if f_less a b then b else a)"

definition py_min :: "pyfloat \<Rightarrow> pyfloat \<Rightarrow> pyfloat" where
  "py_min a b = (if f_less b a then b else a)"

text \<open>\<^verbatim>\<open>bool(x)\<close>: only zero is false.\<close>

definition f_truthy :: "pyfloat \<Rightarrow> bool" where
  "f_truthy x = (x \<noteq> Fin 0)"

lemma f_less_irrefl [simp]: "\<not> f_less a a"
  by (cases a) auto

lemma f_less_trans: "f_less a b \<Longrightarrow> f_less b c \<Longrightarrow> f_less a c"
  by (cases a; cases b; cases c) auto

lemma f_le_less: "\<not> is_nan a \<Longrightarrow> \<not> is_nan b \<Longrightarrow> f_le a b \<longleftrightarrow> \<not> f_less b a"
  by (cases a; cases b) auto

lemma f_le_refl: "f_le a a \<longleftrightarrow> \<not> is_nan a"
  by (cases a) auto

lemma f_le_trans: "f_le a b \<Longrightarrow> f_le b c \<Longrightarrow> f_le a c"
  by (cases a; cases b; cases c) auto

lemma f_le_not_nan: "f_le a b \<Longrightarrow> \<not> is_nan a \<and> \<not> is_nan b"
  by (cases a; cases b) auto

lemma f_less_imp_le: "f_less a b \<Longrightarrow> f_le a b"
  by (cases a; cases b) auto

lemma f_nan_less [simp]: "\<not> f_less NaN a" "\<not> f_less a NaN"
  by (cases a; simp)+

lemma f_nan_le [simp]: "\<not> f_le NaN a" "\<not> f_le a NaN"
  by (cases a; simp)+

lemma f_between_Fin:
  assumes "f_le (Fin a) x" and "f_le x (Fin b)"
  obtains q where "x = Fin q" and "a \<le> q" and "q \<le> b"
  using assms by (cases x) auto

section \<open>Rounding\<close>

text \<open>\<^verbatim>\<open>round(x)\<close>: to the nearest integer, a tie to the even one.\<close>

definition round_half_even :: "rat \<Rightarrow> int" where
  "round_half_even x =
     (let n = \<lfloor>x\<rfloor>; d = x - of_int n in
      if d < 1 / 2 then n else if 1 / 2 < d then n + 1 else if even n then n else n + 1)"

lemma round_half_even_of_int [simp]: "round_half_even (of_int n) = n"
  by (simp add: round_half_even_def)

lemma round_half_even_of_nat [simp]: "round_half_even (of_nat n) = int n"
  using round_half_even_of_int [of "int n"] by simp

lemma round_half_even_numeral [simp]: "round_half_even (numeral n) = numeral n"
  using round_half_even_of_int [of "numeral n"] by simp

lemma round_half_even_error: "\<bar>of_int (round_half_even x) - x\<bar> \<le> 1 / 2"
proof -
  let ?d = "x - of_int \<lfloor>x\<rfloor>"
  have d: "0 \<le> ?d" "?d < 1" by linarith+
  consider "?d < 1 / 2" | "1 / 2 < ?d" | "?d = 1 / 2" by linarith
  then show ?thesis
  proof cases
    case 1
    then have "round_half_even x = \<lfloor>x\<rfloor>" by (simp add: round_half_even_def Let_def)
    with 1 d show ?thesis by simp
  next
    case 2
    then have "round_half_even x = \<lfloor>x\<rfloor> + 1" by (simp add: round_half_even_def Let_def)
    with 2 d show ?thesis by simp
  next
    case 3
    then have "round_half_even x = \<lfloor>x\<rfloor> \<or> round_half_even x = \<lfloor>x\<rfloor> + 1"
      by (simp add: round_half_even_def Let_def)
    with 3 show ?thesis by auto
  qed
qed

lemma round_half_even_nearest:
  assumes "\<bar>x - of_int n\<bar> < 1 / 2"
  shows "round_half_even x = n"
proof -
  have "\<bar>of_int (round_half_even x) - of_int n :: rat\<bar> < 1"
    using round_half_even_error [of x] assms by linarith
  then have "\<bar>of_int (round_half_even x - n) :: rat\<bar> < 1" by simp
  then show ?thesis by linarith
qed

lemma round_half_even_ge: "of_int n \<le> x \<Longrightarrow> n \<le> round_half_even x"
proof -
  assume "of_int n \<le> x"
  then have "n \<le> \<lfloor>x\<rfloor>" by (simp add: le_floor_iff)
  then show ?thesis by (simp add: round_half_even_def Let_def)
qed

lemma round_half_even_le: "x \<le> of_int n \<Longrightarrow> round_half_even x \<le> n"
proof -
  assume x: "x \<le> of_int n"
  show ?thesis
  proof (cases "x = of_int n")
    case True
    then show ?thesis by simp
  next
    case False
    with x have "\<lfloor>x\<rfloor> < n" by (simp add: floor_less_iff)
    then show ?thesis by (simp add: round_half_even_def Let_def)
  qed
qed

text \<open>
  The binary exponent of a non-zero rational: the greatest \<open>e\<close> with \<open>2 ^ e \<le> \<bar>x\<bar>\<close>, read
  off the bit lengths of numerator and denominator. A finite binary64 value with that
  exponent is a multiple of \<open>2 ^ (e - 52)\<close>, and of \<open>2 ^ -1074\<close> in the subnormal range.
\<close>

definition bin_exponent :: "rat \<Rightarrow> int" where
  "bin_exponent x =
     (let (p, q) = quotient_of x;
          e = int (floorlog 2 (nat \<bar>p\<bar>)) - int (floorlog 2 (nat q))
      in if (2 :: rat) powi e \<le> \<bar>x\<bar> then e else e - 1)"

definition ulp64 :: "rat \<Rightarrow> rat" where
  "ulp64 x = 2 powi (max (bin_exponent x - 52) (- 1074))"

definition round64 :: "rat \<Rightarrow> pyfloat" where
  "round64 x =
     (if x = 0 then Fin 0
      else let y = of_int (round_half_even (x / ulp64 x)) * ulp64 x in
           if y \<ge> 2 ^ 1024 then PInf else if y \<le> - (2 ^ 1024) then NInf else Fin y)"

lemma ulp64_pos: "0 < ulp64 x"
  by (simp add: ulp64_def)

lemma bin_exponent_le:
  assumes "x \<noteq> 0"
  shows "(2 :: rat) powi (bin_exponent x) \<le> \<bar>x\<bar>"
proof -
  obtain p q where pq: "quotient_of x = (p, q)" by fastforce
  then have q: "0 < q" by (rule quotient_of_denom_pos)
  from pq have x: "x = of_int p / of_int q" by (rule quotient_of_div)
  with assms have p: "p \<noteq> 0" by auto
  let ?bp = "floorlog 2 (nat \<bar>p\<bar>)" and ?bq = "floorlog 2 (nat q)"
  have p0: "0 < nat \<bar>p\<bar>" and q0: "0 < nat q" using p q by auto
  have bp: "2 ^ (?bp - 1) \<le> nat \<bar>p\<bar>" using floorlog_bounds [OF p0, of 2] by simp
  have bq: "nat q < 2 ^ ?bq" using floorlog_bounds [OF q0, of 2] by simp
  have bp1: "0 < ?bp" using p0 by (simp add: floorlog_def)
  have P: "(2 :: rat) ^ (?bp - 1) \<le> \<bar>of_int p\<bar>"
  proof -
    have "(of_nat (2 ^ (?bp - 1)) :: rat) \<le> of_nat (nat \<bar>p\<bar>)" using bp by (rule of_nat_mono)
    then show ?thesis by simp
  qed
  have Q: "(of_int q :: rat) < 2 ^ ?bq"
  proof -
    have "(of_nat (nat q) :: rat) < of_nat (2 ^ ?bq)" using bq by (simp only: of_nat_less_iff)
    then show ?thesis using q by simp
  qed
  have Q0: "(0 :: rat) < of_int q" using q by simp
  have "(2 :: rat) powi (int ?bp - int ?bq - 1) = 2 ^ (?bp - 1) / 2 ^ ?bq"
  proof -
    have e: "int ?bp - int ?bq - 1 = int (?bp - 1) - int ?bq" using bp1 by simp
    have "(2 :: rat) powi (int (?bp - 1) - int ?bq) = 2 powi int (?bp - 1) / 2 powi int ?bq"
      by (rule power_int_diff) simp
    then show ?thesis unfolding e power_int_of_nat .
  qed
  also have "\<dots> \<le> \<bar>of_int p\<bar> / of_int q"
    using P Q Q0 by (intro frac_le) auto
  also have "\<dots> = \<bar>x\<bar>" using x Q0 by (simp add: abs_divide)
  finally have "(2 :: rat) powi (int ?bp - int ?bq - 1) \<le> \<bar>x\<bar>" .
  then show ?thesis by (simp add: bin_exponent_def pq Let_def)
qed

text \<open>The relative error of a rounded operation whose exact result is neither tiny nor huge.\<close>

lemma ulp64_le:
  assumes "x \<noteq> 0"
  shows "ulp64 x \<le> \<bar>x\<bar> / 2 ^ 52 + 1 / 2 ^ 60"
proof (cases "bin_exponent x - 52 \<ge> - 1074")
  case True
  then have "max (bin_exponent x - 52) (- 1074) = bin_exponent x - 52" by simp
  then have "ulp64 x = 2 powi (bin_exponent x - 52)" by (simp only: ulp64_def)
  also have "\<dots> = 2 powi (bin_exponent x) / 2 ^ 52" by (simp add: power_int_diff)
  also have "\<dots> \<le> \<bar>x\<bar> / 2 ^ 52"
    using bin_exponent_le [OF assms] by (simp add: divide_right_mono)
  finally show ?thesis by (simp add: add_increasing2)
next
  case False
  then have "ulp64 x = 2 powi (- 1074)" by (simp add: ulp64_def max_def)
  also have "\<dots> \<le> 2 powi (- 60)" by (rule power_int_increasing) auto
  also have "\<dots> = 1 / 2 ^ 60" by (simp add: power_int_minus inverse_eq_divide)
  finally show ?thesis by (simp add: add_increasing)
qed

lemma abs_le_plus: "\<bar>y\<bar> \<le> \<bar>x\<bar> + \<bar>y - x\<bar>" for x y :: rat
  by simp

lemma round64_bounded:
  assumes "\<bar>x\<bar> \<le> 2 ^ 52"
  obtains y where "round64 x = Fin y" and "\<bar>y - x\<bar> \<le> \<bar>x\<bar> / 2 ^ 53 + 1 / 2 ^ 61"
proof (cases "x = 0")
  case True
  then show thesis by (intro that [of 0]) (simp_all add: round64_def)
next
  case x0: False
  let ?u = "ulp64 x" and ?n = "round_half_even (x / ulp64 x)"
  have u: "0 < ?u" by (rule ulp64_pos)
  have "of_int ?n * ?u - x = (of_int ?n - x / ?u) * ?u"
    using u by (simp add: left_diff_distrib)
  then have "\<bar>of_int ?n * ?u - x\<bar> = \<bar>of_int ?n - x / ?u\<bar> * ?u"
    using u by (simp add: abs_mult)
  also have "\<dots> \<le> 1 / 2 * ?u"
    using round_half_even_error [of "x / ?u"] u by (intro mult_right_mono) auto
  also have "\<dots> \<le> 1 / 2 * (\<bar>x\<bar> / 2 ^ 52 + 1 / 2 ^ 60)"
    using ulp64_le [OF x0] by (intro mult_left_mono) auto
  finally have err: "\<bar>of_int ?n * ?u - x\<bar> \<le> \<bar>x\<bar> / 2 ^ 53 + 1 / 2 ^ 61" by simp
  have "\<bar>x\<bar> / 2 ^ 53 \<le> 1" using assms by (simp add: field_simps)
  moreover have "(1 :: rat) / 2 ^ 61 \<le> 1" by simp
  ultimately have e2: "\<bar>of_int ?n * ?u - x\<bar> \<le> 2" using err by linarith
  have "\<bar>of_int ?n * ?u\<bar> \<le> \<bar>x\<bar> + \<bar>of_int ?n * ?u - x\<bar>" by (rule abs_le_plus)
  then have "\<bar>of_int ?n * ?u\<bar> \<le> 2 ^ 52 + 2" using e2 assms by (meson add_mono order_trans)
  also have "(2 :: rat) ^ 52 + 2 < 2 ^ 1024" by simp
  finally have "\<bar>of_int ?n * ?u\<bar> < 2 ^ 1024" .
  then have "round64 x = Fin (of_int ?n * ?u)"
    using x0 unfolding round64_def Let_def by (auto simp: abs_less_iff)
  then show thesis using err that by blast
qed

text \<open>The bound that the temperature codecs need: a value below a thousand moves by less than a millionth.\<close>

lemma round64_small:
  assumes "\<bar>x\<bar> \<le> 2000"
  obtains y where "round64 x = Fin y" and "\<bar>y - x\<bar> < 1 / 1000000"
proof -
  have "\<bar>x\<bar> \<le> 2 ^ 52" using assms by simp
  then obtain y where y: "round64 x = Fin y" "\<bar>y - x\<bar> \<le> \<bar>x\<bar> / 2 ^ 53 + 1 / 2 ^ 61"
    by (rule round64_bounded)
  have "\<bar>x\<bar> / 2 ^ 53 \<le> 2000 / 2 ^ 53" using assms by (intro divide_right_mono) auto
  then have "\<bar>x\<bar> / 2 ^ 53 + 1 / 2 ^ 61 < (1 / 1000000 :: rat)" by simp
  with y that show thesis by (meson le_less_trans)
qed

text \<open>Integers up to \<open>2 ^ 52\<close> are represented exactly.\<close>

lemma round64_of_int:
  assumes "\<bar>n\<bar> \<le> 2 ^ 52"
  shows "round64 (of_int n) = Fin (of_int n)"
proof (cases "n = 0")
  case True
  then show ?thesis by (simp add: round64_def)
next
  case False
  let ?x = "of_int n :: rat"
  have x1: "1 \<le> \<bar>?x\<bar>"
  proof -
    have "1 \<le> \<bar>n\<bar>" using False by simp
    then show ?thesis by (metis of_int_1 of_int_abs of_int_le_iff)
  qed
  have x2: "\<bar>?x\<bar> \<le> 2 ^ 52"
  proof -
    have "of_int \<bar>n\<bar> \<le> (of_int (2 ^ 52) :: rat)" using assms by (simp only: of_int_le_iff)
    then show ?thesis by simp
  qed
  let ?k = "max (bin_exponent ?x - 52) (- 1074)"
  have e52: "bin_exponent ?x \<le> 52"
  proof (rule ccontr)
    assume "\<not> bin_exponent ?x \<le> 52"
    then have "(2 :: rat) powi 53 \<le> 2 powi (bin_exponent ?x)"
      by (intro power_int_increasing) auto
    also have "\<dots> \<le> \<bar>?x\<bar>" by (rule bin_exponent_le) (use False in simp)
    finally show False using x2 by simp
  qed
  then have k: "?k \<le> 0" by simp
  have dvd: "?x / ulp64 ?x = of_int (n * 2 ^ nat (- ?k))"
  proof -
    have m: "?k = - int (nat (- ?k))" using k by simp
    have "ulp64 ?x = 2 powi (- int (nat (- ?k)))" unfolding ulp64_def using m by (rule arg_cong)
    then have "ulp64 ?x = inverse (2 ^ nat (- ?k))"
      by (simp only: power_int_minus power_int_of_nat)
    then show ?thesis by (simp add: divide_inverse)
  qed
  have "of_int (round_half_even (?x / ulp64 ?x)) * ulp64 ?x = ?x"
    unfolding dvd round_half_even_of_int
    unfolding dvd [symmetric] using ulp64_pos [of ?x] by simp
  moreover have "\<bar>?x\<bar> < 2 ^ 1024"
  proof -
    have "(2 :: rat) ^ 52 < 2 ^ 1024" by simp
    with x2 show ?thesis by linarith
  qed
  ultimately show ?thesis
    unfolding round64_def Let_def using False by (simp add: abs_less_iff)
qed

text \<open>For evaluation: an integer of at most 52 bits is a float as it is.\<close>

lemma round64_code [code]:
  "round64 x =
     (if snd (quotient_of x) = 1 \<and> \<bar>fst (quotient_of x)\<bar> \<le> 4503599627370496 then Fin x
      else if x = 0 then Fin 0
      else let y = of_int (round_half_even (x / ulp64 x)) * ulp64 x in
           if y \<ge> 2 ^ 1024 then PInf else if y \<le> - (2 ^ 1024) then NInf else Fin y)"
proof (cases "snd (quotient_of x) = 1 \<and> \<bar>fst (quotient_of x)\<bar> \<le> 4503599627370496")
  case True
  then obtain p where p: "quotient_of x = (p, 1)" "\<bar>p\<bar> \<le> 2 ^ 52" by (cases "quotient_of x") auto
  from quotient_of_div [OF p(1)] have "x = of_int p" by simp
  with True round64_of_int [OF p(2)] show ?thesis by simp
next
  case False
  then show ?thesis unfolding round64_def by (simp only: if_False)
qed

section \<open>Arithmetic\<close>

fun f_neg :: "pyfloat \<Rightarrow> pyfloat" where
  "f_neg (Fin a) = Fin (- a)"
| "f_neg NaN = NaN"
| "f_neg PInf = NInf"
| "f_neg NInf = PInf"

text \<open>Multiplication and division by a positive integer constant, addition of one.\<close>

fun f_times_int :: "pyfloat \<Rightarrow> int \<Rightarrow> pyfloat" where
  "f_times_int (Fin a) k = round64 (a * of_int k)"
| "f_times_int x k = x"

fun f_over_int :: "pyfloat \<Rightarrow> int \<Rightarrow> pyfloat" where
  "f_over_int (Fin a) k = round64 (a / of_int k)"
| "f_over_int x k = x"

fun f_plus_int :: "pyfloat \<Rightarrow> int \<Rightarrow> pyfloat" where
  "f_plus_int (Fin a) k = round64 (a + of_int k)"
| "f_plus_int x k = x"

text \<open>\<^verbatim>\<open>int(round(x))\<close>: rounding NaN is a ValueError, rounding an infinity an OverflowError.\<close>

fun f_round :: "pyfloat \<Rightarrow> int result" where
  "f_round (Fin a) = Inr (round_half_even a)"
| "f_round NaN = Inl (ValueError ''cannot convert float NaN to integer'')"
| "f_round _ = Inl (OverflowError ''cannot convert float infinity to integer'')"

end
