(* ===== verification/PyTime.thy ===== *)
theory PyTime
  imports PyFloat
begin

text \<open>
  Python's \<open>date\<close>, \<open>time\<close>, \<open>timedelta\<close> and \<open>datetime\<close> as the service uses them. A date is
  its proleptic ordinal, a time of day and a timedelta are counts of microseconds, and an
  aware datetime is its wall clock reading, its tzinfo and its fold. Two rules of Python
  matter for the service and are written out: adding a timedelta moves the wall clock and
  keeps the zone, and two datetimes of the same tzinfo object are compared by their wall
  clocks, two of different zones by their UTC instants. The zone database is data outside
  the repository: it is the parameter \<open>tzdb\<close> of every definition that converts between
  zones. Overflow of the years 1 to 9999 is not modelled.

  \<open>datetime\<close> is the aware kind. Where the code tests for a missing tzinfo the raw value is
  a \<open>py_datetime\<close>, which may be naive.
\<close>

type_synonym date = int
type_synonym timedelta = int
type_synonym time_of_day = int

abbreviation second_us :: int where "second_us \<equiv> 1000000"
abbreviation minute_us :: int where "minute_us \<equiv> 60000000"
abbreviation hour_us :: int where "hour_us \<equiv> 3600000000"
abbreviation day_us :: int where "day_us \<equiv> 86400000000"

text \<open>
  \<open>UTC\<close> is \<^verbatim>\<open>datetime.UTC\<close>, \<open>FixedOffset\<close> a \<^verbatim>\<open>timezone(timedelta(...))\<close> as ISO parsing makes
  it, \<open>Zone\<close> a \<^verbatim>\<open>ZoneInfo(key)\<close>, of which Python caches one object per key.
\<close>

datatype tzinfo = UTC | FixedOffset int | Zone string

record datetime =
  dt_wall :: int
  dt_zone :: tzinfo
  dt_fold :: bool

datatype py_datetime = Naive int | Aware datetime

text \<open>
  The zone database: the UTC offset of a wall clock reading and its fold, the offset and
  fold of a UTC instant, and the zone of the host, which \<^verbatim>\<open>astimezone\<close> assumes for a naive
  value.
\<close>

record tzdb =
  zone_offset :: "string \<Rightarrow> int \<Rightarrow> bool \<Rightarrow> int"
  zone_of_utc :: "string \<Rightarrow> int \<Rightarrow> int \<times> bool"
  system_zone :: string

text \<open>PEP 495: the wall clock and fold that an instant is shown as lead back to it.\<close>

definition tzdb_ok :: "tzdb \<Rightarrow> bool" where
  "tzdb_ok db \<longleftrightarrow> (\<forall>z u. case zone_of_utc db z u of (off, fd) \<Rightarrow> zone_offset db z (u + off) fd = off)"

text \<open>A zone database that keeps every zone at one offset, for closed examples.\<close>

definition fixed_tzdb :: "int \<Rightarrow> tzdb" where
  "fixed_tzdb off = \<lparr>zone_offset = (\<lambda>_ _ _. off), zone_of_utc = (\<lambda>_ _. (off, False)), system_zone = ''UTC''\<rparr>"

lemma fixed_tzdb_ok: "tzdb_ok (fixed_tzdb off)"
  by (simp add: tzdb_ok_def fixed_tzdb_def)

fun utc_offset :: "tzdb \<Rightarrow> datetime \<Rightarrow> int" where
  "utc_offset db d =
     (case dt_zone d of UTC \<Rightarrow> 0 | FixedOffset k \<Rightarrow> k | Zone z \<Rightarrow> zone_offset db z (dt_wall d) (dt_fold d))"

declare utc_offset.simps [simp del]

definition instant :: "tzdb \<Rightarrow> datetime \<Rightarrow> int" where
  "instant db d = dt_wall d - utc_offset db d"

definition utc_at :: "int \<Rightarrow> datetime" where
  "utc_at u = \<lparr>dt_wall = u, dt_zone = UTC, dt_fold = False\<rparr>"

fun from_utc :: "tzdb \<Rightarrow> tzinfo \<Rightarrow> int \<Rightarrow> datetime" where
  "from_utc db UTC u = utc_at u"
| "from_utc db (FixedOffset k) u = \<lparr>dt_wall = u + k, dt_zone = FixedOffset k, dt_fold = False\<rparr>"
| "from_utc db (Zone z) u =
     (case zone_of_utc db z u of (off, fd) \<Rightarrow> \<lparr>dt_wall = u + off, dt_zone = Zone z, dt_fold = fd\<rparr>)"

text \<open>\<^verbatim>\<open>d.astimezone(tz)\<close> of an aware value: unchanged in its own zone.\<close>

definition astimezone :: "tzdb \<Rightarrow> datetime \<Rightarrow> tzinfo \<Rightarrow> datetime" where
  "astimezone db d z = (if dt_zone d = z then d else from_utc db z (instant db d))"

definition dt_less :: "tzdb \<Rightarrow> datetime \<Rightarrow> datetime \<Rightarrow> bool" where
  "dt_less db a b = (if dt_zone a = dt_zone b then dt_wall a < dt_wall b else instant db a < instant db b)"

definition dt_le :: "tzdb \<Rightarrow> datetime \<Rightarrow> datetime \<Rightarrow> bool" where
  "dt_le db a b = (if dt_zone a = dt_zone b then dt_wall a \<le> dt_wall b else instant db a \<le> instant db b)"

definition dt_plus :: "datetime \<Rightarrow> timedelta \<Rightarrow> datetime" where
  "dt_plus d t = \<lparr>dt_wall = dt_wall d + t, dt_zone = dt_zone d, dt_fold = False\<rparr>"

definition dt_minus :: "datetime \<Rightarrow> timedelta \<Rightarrow> datetime" where
  "dt_minus d t = dt_plus d (- t)"

text \<open>\<^verbatim>\<open>a - b\<close>: the difference of the wall clocks in one zone, of the instants otherwise.\<close>

definition dt_diff :: "tzdb \<Rightarrow> datetime \<Rightarrow> datetime \<Rightarrow> timedelta" where
  "dt_diff db a b = (if dt_zone a = dt_zone b then dt_wall a - dt_wall b else instant db a - instant db b)"

definition dt_date :: "datetime \<Rightarrow> date" where
  "dt_date d = dt_wall d div day_us"

text \<open>\<^verbatim>\<open>datetime.combine(date, time, tzinfo=tz)\<close>\<close>

definition combine :: "date \<Rightarrow> time_of_day \<Rightarrow> tzinfo \<Rightarrow> datetime" where
  "combine d t z = \<lparr>dt_wall = d * day_us + t, dt_zone = z, dt_fold = False\<rparr>"

text \<open>
  \<^verbatim>\<open>_to_utc\<close>, which \<^verbatim>\<open>app/policy/control.py\<close> and \<^verbatim>\<open>app/clock/db_sync.py\<close> both define: a naive
  value is taken to be UTC already.
\<close>

fun to_utc :: "tzdb \<Rightarrow> py_datetime \<Rightarrow> datetime" where
  "to_utc db (Naive w) = utc_at w"
| "to_utc db (Aware d) = astimezone db d UTC"

fun optional_to_utc :: "tzdb \<Rightarrow> py_datetime option \<Rightarrow> datetime option" where
  "optional_to_utc db None = None"
| "optional_to_utc db (Some v) = Some (to_utc db v)"

text \<open>\<^verbatim>\<open>value.utcoffset() is None\<close>\<close>

fun is_naive :: "py_datetime \<Rightarrow> bool" where
  "is_naive (Naive _) = True"
| "is_naive (Aware _) = False"

text \<open>\<^verbatim>\<open>timedelta(seconds=x)\<close> for a rational number of seconds: to the nearest microsecond.\<close>

definition td_seconds :: "rat \<Rightarrow> timedelta" where
  "td_seconds x = round_half_even (x * 1000000)"

section \<open>ISO format\<close>

text \<open>
  \<^verbatim>\<open>date.isoformat\<close> and \<^verbatim>\<open>datetime.isoformat\<close>: the civil date of a proleptic ordinal is
  found as \<^verbatim>\<open>_ord2ymd\<close> of the standard library does it, by cycles of 400, 100, 4 and 1 years.
\<close>

definition is_leap :: "int \<Rightarrow> bool" where
  "is_leap y = (y mod 4 = 0 \<and> (y mod 100 \<noteq> 0 \<or> y mod 400 = 0))"

definition days_in_months :: "bool \<Rightarrow> int list" where
  "days_in_months leap = [31, if leap then 29 else 28, 31, 30, 31, 30, 31, 31, 30, 31, 30, 31]"

fun month_day :: "int list \<Rightarrow> int \<Rightarrow> int \<Rightarrow> int \<times> int" where
  "month_day [] m n = (m, n + 1)"
| "month_day (d # ds) m n = (if n < d then (m, n + 1) else month_day ds (m + 1) (n - d))"

definition civil_date :: "date \<Rightarrow> int \<times> int \<times> int" where
  "civil_date ordinal =
     (let n = ordinal - 1;
          n400 = n div 146097; r400 = n mod 146097;
          n100 = r400 div 36524; r100 = r400 mod 36524;
          n4 = r100 div 1461; r4 = r100 mod 1461;
          n1 = r4 div 365; r1 = r4 mod 365;
          year = n400 * 400 + n100 * 100 + n4 * 4 + n1 + 1
      in if n1 = 4 \<or> n100 = 4 then (year - 1, 12, 31)
         else (year, month_day (days_in_months (is_leap year)) 1 r1))"

definition pad :: "nat \<Rightarrow> int \<Rightarrow> string" where
  "pad k n = (let s = show_int n in replicate (k - length s) CHR ''0'' @ s)"

definition date_iso :: "date \<Rightarrow> string" where
  "date_iso d = (case civil_date d of (y, m, dd) \<Rightarrow> pad 4 y @ ''-'' @ pad 2 m @ ''-'' @ pad 2 dd)"

definition time_iso :: "int \<Rightarrow> string" where
  "time_iso t =
     pad 2 (t div hour_us) @ '':'' @ pad 2 (t div minute_us mod 60) @ '':'' @ pad 2 (t div second_us mod 60)
     @ (if t mod second_us = 0 then [] else ''.'' @ pad 6 (t mod second_us))"

definition offset_iso :: "int \<Rightarrow> string" where
  "offset_iso off =
     (let a = \<bar>off\<bar> in
      (if off < 0 then ''-'' else ''+'') @ pad 2 (a div hour_us) @ '':'' @ pad 2 (a div minute_us mod 60)
      @ (if a mod minute_us = 0 then []
         else '':'' @ pad 2 (a div second_us mod 60)
              @ (if a mod second_us = 0 then [] else ''.'' @ pad 6 (a mod second_us))))"

definition isoformat :: "tzdb \<Rightarrow> datetime \<Rightarrow> string" where
  "isoformat db d =
     date_iso (dt_date d) @ ''T'' @ time_iso (dt_wall d mod day_us) @ offset_iso (utc_offset db d)"

section \<open>Facts\<close>

lemma dt_le_refl [simp]: "dt_le db d d"
  by (simp add: dt_le_def)

lemma dt_less_irrefl [simp]: "\<not> dt_less db d d"
  by (simp add: dt_less_def)

lemma dt_not_less: "\<not> dt_less db a b \<longleftrightarrow> dt_le db b a"
  by (auto simp: dt_less_def dt_le_def)

lemma dt_not_le: "\<not> dt_le db a b \<longleftrightarrow> dt_less db b a"
  by (auto simp: dt_less_def dt_le_def)

lemma dt_less_imp_le: "dt_less db a b \<Longrightarrow> dt_le db a b"
  by (auto simp: dt_less_def dt_le_def split: if_splits)

lemma zone_utc_at [simp]: "dt_zone (utc_at u) = UTC" "dt_wall (utc_at u) = u"
  by (simp_all add: utc_at_def)

lemma instant_UTC: "dt_zone d = UTC \<Longrightarrow> instant db d = dt_wall d"
  by (simp add: instant_def utc_offset.simps)

lemma instant_utc_at [simp]: "instant db (utc_at u) = u"
  by (simp add: instant_UTC)

lemma zone_from_utc [simp]: "dt_zone (from_utc db z u) = z"
  by (cases z) (auto split: prod.splits)

lemma zone_astimezone [simp]: "dt_zone (astimezone db d z) = z"
  by (simp add: astimezone_def)

lemma zone_to_utc [simp]: "dt_zone (to_utc db v) = UTC"
  by (cases v) simp_all

lemma instant_from_utc:
  assumes "tzdb_ok db"
  shows "instant db (from_utc db z u) = u"
proof (cases z)
  case (Zone k)
  obtain off fd where z: "zone_of_utc db k u = (off, fd)" by fastforce
  with assms have "zone_offset db k (u + off) fd = off"
    unfolding tzdb_ok_def by (metis (mono_tags, lifting) case_prod_conv)
  with Zone z show ?thesis by (simp add: instant_def utc_offset.simps)
qed (simp_all add: instant_def utc_offset.simps utc_at_def)

lemma instant_astimezone: "tzdb_ok db \<Longrightarrow> instant db (astimezone db d z) = instant db d"
  by (simp add: astimezone_def instant_from_utc)

lemma zone_dt_plus [simp]: "dt_zone (dt_plus d t) = dt_zone d" "dt_zone (dt_minus d t) = dt_zone d"
  by (simp_all add: dt_plus_def dt_minus_def)

lemma wall_dt_plus [simp]: "dt_wall (dt_plus d t) = dt_wall d + t" "dt_wall (dt_minus d t) = dt_wall d - t"
  by (simp_all add: dt_plus_def dt_minus_def)

lemma zone_combine [simp]: "dt_zone (combine d t z) = z" "dt_wall (combine d t z) = d * day_us + t"
  by (simp_all add: combine_def)

lemma dt_le_same_zone: "dt_zone a = dt_zone b \<Longrightarrow> dt_le db a b \<longleftrightarrow> dt_wall a \<le> dt_wall b"
  by (simp add: dt_le_def)

lemma dt_less_same_zone: "dt_zone a = dt_zone b \<Longrightarrow> dt_less db a b \<longleftrightarrow> dt_wall a < dt_wall b"
  by (simp add: dt_less_def)

lemma dt_le_trans_same_zone:
  "dt_zone a = dt_zone b \<Longrightarrow> dt_zone b = dt_zone c \<Longrightarrow> dt_le db a b \<Longrightarrow> dt_le db b c \<Longrightarrow> dt_le db a c"
  by (simp add: dt_le_def)

lemma td_seconds_of_int [simp]: "td_seconds (of_int n) = n * 1000000"
proof -
  have "(of_int n * 1000000 :: rat) = of_int (n * 1000000)" by simp
  then show ?thesis by (simp only: td_seconds_def round_half_even_of_int)
qed

lemma td_seconds_numeral [simp]: "td_seconds (numeral n) = numeral n * 1000000"
  using td_seconds_of_int [of "numeral n"] by simp

lemma td_seconds_0 [simp]: "td_seconds 0 = 0"
  using td_seconds_of_int [of 0] by simp

lemma round_half_even_mono: "x \<le> y \<Longrightarrow> round_half_even x \<le> round_half_even y"
proof (rule ccontr)
  assume le: "x \<le> y" and "\<not> round_half_even x \<le> round_half_even y"
  then have gt: "round_half_even y + 1 \<le> round_half_even x" by simp
  then have "(of_int (round_half_even y) :: rat) + 1 \<le> of_int (round_half_even x)"
    by (metis of_int_1 of_int_add of_int_le_iff)
  with round_half_even_error [of x] round_half_even_error [of y] le
  have "x = y" by linarith
  with gt show False by simp
qed

lemma td_seconds_mono: "x \<le> y \<Longrightarrow> td_seconds x \<le> td_seconds y"
  by (simp add: td_seconds_def round_half_even_mono)

end
