(* ===== verification/Domain_Enums.thy ===== *)
theory Domain_Enums
  imports PyTime
begin

text \<open>
  The string enums of \<^verbatim>\<open>app/domain/enums.py\<close>, each with the value its members are stored
  and published as, and the lookup by value that \<^verbatim>\<open>StrEnum(value)\<close> does (a ValueError for a
  string that is no member's value), and the JSON documents that payloads are made of.
\<close>

section \<open>Enums\<close>

datatype booking_status =
  BS_EXPECTED | BS_CHECKED_IN | BS_CHECKED_OUT | BS_CANCELED | BS_NO_SHOW | BS_UNKNOWN

datatype automation_phase =
    PH_VACANT | PH_RESERVED | PH_AWAITING_ASSIGNMENT | PH_PRE_ARRIVAL | PH_OCCUPIED
  | PH_CHECKOUT_DUE | PH_MANUAL_OVERRIDE | PH_DISABLED | PH_CONFLICT | PH_UNKNOWN

datatype control_mode = CM_AUTOMATIC | CM_MANUAL | CM_OFF

datatype manual_hvac_mode = HV_OFF | HV_HEAT | HV_COOL | HV_AUTO

datatype attention_reason =
    AR_NONE | AR_UNKNOWN_CLOCK_STATUS | AR_MISSING_PHYSICAL_ROOM | AR_OVERLAPPING_ACTIVE_BOOKINGS
  | AR_INVALID_POLICY | AR_REJECTED_MANUAL_COMMAND | AR_CLOCK_SYNC_STALE

fun booking_status_value :: "booking_status \<Rightarrow> string" where
  "booking_status_value BS_EXPECTED = ''expected''"
| "booking_status_value BS_CHECKED_IN = ''checked_in''"
| "booking_status_value BS_CHECKED_OUT = ''checked_out''"
| "booking_status_value BS_CANCELED = ''canceled''"
| "booking_status_value BS_NO_SHOW = ''no_show''"
| "booking_status_value BS_UNKNOWN = ''unknown''"

fun automation_phase_value :: "automation_phase \<Rightarrow> string" where
  "automation_phase_value PH_VACANT = ''vacant''"
| "automation_phase_value PH_RESERVED = ''reserved''"
| "automation_phase_value PH_AWAITING_ASSIGNMENT = ''awaiting_assignment''"
| "automation_phase_value PH_PRE_ARRIVAL = ''pre_arrival''"
| "automation_phase_value PH_OCCUPIED = ''occupied''"
| "automation_phase_value PH_CHECKOUT_DUE = ''checkout_due''"
| "automation_phase_value PH_MANUAL_OVERRIDE = ''manual_override''"
| "automation_phase_value PH_DISABLED = ''disabled''"
| "automation_phase_value PH_CONFLICT = ''conflict''"
| "automation_phase_value PH_UNKNOWN = ''unknown''"

fun control_mode_value :: "control_mode \<Rightarrow> string" where
  "control_mode_value CM_AUTOMATIC = ''automatic''"
| "control_mode_value CM_MANUAL = ''manual''"
| "control_mode_value CM_OFF = ''off''"

fun manual_hvac_mode_value :: "manual_hvac_mode \<Rightarrow> string" where
  "manual_hvac_mode_value HV_OFF = ''off''"
| "manual_hvac_mode_value HV_HEAT = ''heat''"
| "manual_hvac_mode_value HV_COOL = ''cool''"
| "manual_hvac_mode_value HV_AUTO = ''auto''"

fun attention_reason_value :: "attention_reason \<Rightarrow> string" where
  "attention_reason_value AR_NONE = ''none''"
| "attention_reason_value AR_UNKNOWN_CLOCK_STATUS = ''unknown_clock_status''"
| "attention_reason_value AR_MISSING_PHYSICAL_ROOM = ''missing_physical_room''"
| "attention_reason_value AR_OVERLAPPING_ACTIVE_BOOKINGS = ''overlapping_active_bookings''"
| "attention_reason_value AR_INVALID_POLICY = ''invalid_policy''"
| "attention_reason_value AR_REJECTED_MANUAL_COMMAND = ''rejected_manual_command''"
| "attention_reason_value AR_CLOCK_SYNC_STALE = ''clock_sync_stale''"

definition all_booking_status :: "booking_status list" where
  "all_booking_status =
     [BS_EXPECTED, BS_CHECKED_IN, BS_CHECKED_OUT, BS_CANCELED, BS_NO_SHOW, BS_UNKNOWN]"

definition all_automation_phase :: "automation_phase list" where
  "all_automation_phase =
     [PH_VACANT, PH_RESERVED, PH_AWAITING_ASSIGNMENT, PH_PRE_ARRIVAL, PH_OCCUPIED,
      PH_CHECKOUT_DUE, PH_MANUAL_OVERRIDE, PH_DISABLED, PH_CONFLICT, PH_UNKNOWN]"

definition all_control_mode :: "control_mode list" where
  "all_control_mode = [CM_AUTOMATIC, CM_MANUAL, CM_OFF]"

definition all_manual_hvac_mode :: "manual_hvac_mode list" where
  "all_manual_hvac_mode = [HV_OFF, HV_HEAT, HV_COOL, HV_AUTO]"

definition all_attention_reason :: "attention_reason list" where
  "all_attention_reason =
     [AR_NONE, AR_UNKNOWN_CLOCK_STATUS, AR_MISSING_PHYSICAL_ROOM, AR_OVERLAPPING_ACTIVE_BOOKINGS,
      AR_INVALID_POLICY, AR_REJECTED_MANUAL_COMMAND, AR_CLOCK_SYNC_STALE]"

text \<open>\<^verbatim>\<open>StrEnum(value)\<close>\<close>

definition enum_of_value :: "'a list \<Rightarrow> ('a \<Rightarrow> string) \<Rightarrow> string \<Rightarrow> 'a result" where
  "enum_of_value members val s =
     (case find (\<lambda>m. val m = s) members of
        Some m \<Rightarrow> Inr m
      | None \<Rightarrow> Inl (ValueError (s @ '' is not a valid member'')))"

text \<open>
  The contract of a string enum: its value function is injective on the listed members and
  the list is complete. Lookup by value then inverts rendering, in both directions.
\<close>

locale string_enum =
  fixes members :: "'a list" and val :: "'a \<Rightarrow> string"
  assumes complete: "m \<in> set members"
    and injective: "val m = val m' \<Longrightarrow> m = m'"
begin

lemma of_value_value: "enum_of_value members val (val m) = Inr m"
proof -
  have "find (\<lambda>m'. val m' = val m) members \<noteq> None"
    using complete [of m] by (auto simp: find_None_iff)
  then obtain m' where m': "find (\<lambda>m'. val m' = val m) members = Some m'" by blast
  then have "val m' = val m" by (auto dest: find_SomeD)
  then have "m' = m" by (rule injective)
  with m' show ?thesis by (simp add: enum_of_value_def)
qed

lemma value_of_value: "enum_of_value members val s = Inr m \<Longrightarrow> val m = s"
  by (auto simp: enum_of_value_def split: option.splits dest: find_SomeD)

lemma of_value_iff: "enum_of_value members val s = Inr m \<longleftrightarrow> s = val m"
  using of_value_value value_of_value by metis

lemma of_value_error: "enum_of_value members val s = Inl e \<Longrightarrow> is_ValueError e \<and> (\<forall>m. val m \<noteq> s)"
  using complete by (auto simp: enum_of_value_def find_None_iff split: option.splits)

end

interpretation bs: string_enum all_booking_status booking_status_value
proof
  show "m \<in> set all_booking_status" for m by (cases m) (simp_all add: all_booking_status_def)
  show "booking_status_value m = booking_status_value m' \<Longrightarrow> m = m'" for m m'
    by (cases m; cases m') simp_all
qed

interpretation ph: string_enum all_automation_phase automation_phase_value
proof
  show "m \<in> set all_automation_phase" for m by (cases m) (simp_all add: all_automation_phase_def)
  show "automation_phase_value m = automation_phase_value m' \<Longrightarrow> m = m'" for m m'
    by (cases m; cases m') simp_all
qed

interpretation cm: string_enum all_control_mode control_mode_value
proof
  show "m \<in> set all_control_mode" for m by (cases m) (simp_all add: all_control_mode_def)
  show "control_mode_value m = control_mode_value m' \<Longrightarrow> m = m'" for m m'
    by (cases m; cases m') simp_all
qed

interpretation hv: string_enum all_manual_hvac_mode manual_hvac_mode_value
proof
  show "m \<in> set all_manual_hvac_mode" for m by (cases m) (simp_all add: all_manual_hvac_mode_def)
  show "manual_hvac_mode_value m = manual_hvac_mode_value m' \<Longrightarrow> m = m'" for m m'
    by (cases m; cases m') simp_all
qed

interpretation ar: string_enum all_attention_reason attention_reason_value
proof
  show "m \<in> set all_attention_reason" for m by (cases m) (simp_all add: all_attention_reason_def)
  show "attention_reason_value m = attention_reason_value m' \<Longrightarrow> m = m'" for m m'
    by (cases m; cases m') simp_all
qed

definition booking_status_of :: "string \<Rightarrow> booking_status result" where
  "booking_status_of = enum_of_value all_booking_status booking_status_value"

definition automation_phase_of :: "string \<Rightarrow> automation_phase result" where
  "automation_phase_of = enum_of_value all_automation_phase automation_phase_value"

definition control_mode_of :: "string \<Rightarrow> control_mode result" where
  "control_mode_of = enum_of_value all_control_mode control_mode_value"

definition manual_hvac_mode_of :: "string \<Rightarrow> manual_hvac_mode result" where
  "manual_hvac_mode_of = enum_of_value all_manual_hvac_mode manual_hvac_mode_value"

definition attention_reason_of :: "string \<Rightarrow> attention_reason result" where
  "attention_reason_of = enum_of_value all_attention_reason attention_reason_value"

lemmas enum_of_defs =
  booking_status_of_def automation_phase_of_def control_mode_of_def manual_hvac_mode_of_def
  attention_reason_of_def

lemma enum_roundtrips [simp]:
  "booking_status_of (booking_status_value b) = Inr b"
  "automation_phase_of (automation_phase_value p) = Inr p"
  "control_mode_of (control_mode_value c) = Inr c"
  "manual_hvac_mode_of (manual_hvac_mode_value h) = Inr h"
  "attention_reason_of (attention_reason_value a) = Inr a"
  by (simp_all add: enum_of_defs bs.of_value_value ph.of_value_value cm.of_value_value
      hv.of_value_value ar.of_value_value)

section \<open>JSON documents\<close>

text \<open>
  The values of a payload dict, in insertion order. A date, a datetime and a UUID are kept
  as such: serialisation renders them in ISO form and as the hexadecimal text.
\<close>

datatype json =
    JNull
  | JBool bool
  | JInt int
  | JFloat pyfloat
  | JStr string
  | JDate date
  | JDateTime py_datetime
  | JUuid uuid
  | JList "json list"
  | JDict "(string \<times> json) list"

type_synonym payload = "(string \<times> json) list"

definition json_opt :: "('a \<Rightarrow> json) \<Rightarrow> 'a option \<Rightarrow> json" where
  "json_opt f v = (case v of None \<Rightarrow> JNull | Some x \<Rightarrow> f x)"

lemma json_opt_simps [simp]: "json_opt f None = JNull" "json_opt f (Some x) = f x"
  by (simp_all add: json_opt_def)

end
