(* ===== verification/Domain_Models.thy ===== *)
theory Domain_Models
  imports Domain_Enums
begin

text \<open>
  The pydantic models of \<^verbatim>\<open>app/domain/models.py\<close>: a record per model, and for each model with
  constraints or validators a checking function that returns the value or the
  ValidationError its construction raises. Field constraints are checked before the
  \<^verbatim>\<open>mode="after"\<close> validators, as pydantic does.
\<close>

section \<open>Bookings\<close>

record normalized_booking =
  nb_property_id :: string
  nb_clock_booking_id :: string
  nb_booking_number :: "string option"
  nb_external_source :: "string option"
  nb_external_reference :: "string option"
  nb_booking_status :: booking_status
  nb_source_booking_status :: string
  nb_arrival_date :: date
  nb_departure_date :: date
  nb_created_at :: "py_datetime option"
  nb_updated_at :: "py_datetime option"
  nb_status_changed_at :: "py_datetime option"
  nb_room_type_id :: "string option"
  nb_room_type_name :: "string option"
  nb_physical_room_id :: "string option"
  nb_physical_room_number :: "string option"
  nb_adults :: "int option"
  nb_children :: "int option"
  nb_first_seen_at :: "py_datetime option"
  nb_last_seen_at :: "py_datetime option"
  nb_payload_hash :: string
  nb_needs_attention :: bool
  nb_attention_reason :: attention_reason

definition ge_zero :: "int option \<Rightarrow> bool" where
  "ge_zero v = (case v of None \<Rightarrow> True | Some n \<Rightarrow> 0 \<le> n)"

definition mk_normalized_booking :: "normalized_booking \<Rightarrow> normalized_booking result" where
  "mk_normalized_booking b =
     (if \<not> ge_zero (nb_adults b) \<or> \<not> ge_zero (nb_children b)
      then Inl (ValidationError ''Input should be greater than or equal to 0'')
      else if nb_departure_date b < nb_arrival_date b
      then Inl (ValidationError ''departure_date cannot be before arrival_date'')
      else if nb_booking_status b = BS_UNKNOWN \<and> \<not> nb_needs_attention b
      then Inl (ValidationError ''unknown Clock status must require attention'')
      else Inr b)"

definition valid_booking :: "normalized_booking \<Rightarrow> bool" where
  "valid_booking b \<longleftrightarrow>
     ge_zero (nb_adults b) \<and> ge_zero (nb_children b) \<and> nb_arrival_date b \<le> nb_departure_date b
     \<and> (nb_booking_status b = BS_UNKNOWN \<longrightarrow> nb_needs_attention b)"

lemma mk_normalized_booking_Inr: "mk_normalized_booking b = Inr b' \<longleftrightarrow> b' = b \<and> valid_booking b"
  by (auto simp: mk_normalized_booking_def valid_booking_def)

definition has_physical_room :: "normalized_booking \<Rightarrow> bool" where
  "has_physical_room b = (truthy (nb_physical_room_id b) \<or> truthy (nb_physical_room_number b))"

definition active_for_automation :: "normalized_booking \<Rightarrow> bool" where
  "active_for_automation b = (nb_booking_status b \<in> {BS_EXPECTED, BS_CHECKED_IN})"

section \<open>The registry of entrances and rooms\<close>

record entrance =
  en_key :: string
  en_name :: string
  en_gateway_host :: "string option"
  en_gateway_port :: "int option"
  en_enabled :: bool

definition mk_entrance :: "entrance \<Rightarrow> entrance result" where
  "mk_entrance e =
     (if (case en_gateway_port e of None \<Rightarrow> False | Some p \<Rightarrow> \<not> (1 \<le> p \<and> p \<le> 65535))
      then Inl (ValidationError ''gateway_port out of range'')
      else if (en_gateway_host e = None) \<noteq> (en_gateway_port e = None)
      then Inl (ValidationError ''gateway_host and gateway_port must be configured together'')
      else Inr e)"

record g301_room_mapping =
  gm_slave_address :: int

definition mk_g301_room_mapping :: "int \<Rightarrow> g301_room_mapping result" where
  "mk_g301_room_mapping a =
     (if 1 \<le> a \<and> a \<le> 255 then Inr \<lparr>gm_slave_address = a\<rparr>
      else Inl (ValidationError ''slave_address out of range''))"

record room =
  rm_key :: string
  rm_name :: string
  rm_entrance_key :: string
  rm_floor :: "string option"
  rm_clock_room_id :: "string option"
  rm_g301 :: "g301_room_mapping option"
  rm_enabled :: bool

record property_registry =
  pr_key :: string
  pr_name :: string
  pr_timezone :: string

record room_registry =
  rr_property :: property_registry
  rr_entrances :: "entrance list"
  rr_rooms :: "room list"

definition has_duplicates :: "'a list \<Rightarrow> bool" where
  "has_duplicates xs = (length xs \<noteq> length (remdups xs))"

lemma has_duplicates_iff: "has_duplicates xs \<longleftrightarrow> \<not> distinct xs"
proof -
  have "has_duplicates xs \<longleftrightarrow> length (remdups xs) \<noteq> length xs"
    unfolding has_duplicates_def by (subst eq_commute) (rule refl)
  then show ?thesis by simp
qed

definition clock_ids :: "room list \<Rightarrow> string option list" where
  "clock_ids rooms = filter truthy (map rm_clock_room_id rooms)"

definition require_unique_room_keys :: "room list \<Rightarrow> room list result" where
  "require_unique_room_keys rooms =
     (if has_duplicates (map rm_key rooms) then Inl (ValidationError ''room keys must be unique'')
      else if has_duplicates (clock_ids rooms)
      then Inl (ValidationError ''clock_room_id values must be unique'')
      else Inr rooms)"

definition g301_addresses :: "room list \<Rightarrow> (string \<times> int) list" where
  "g301_addresses rooms =
     List.map_filter
       (\<lambda>r. map_option (\<lambda>g. (rm_entrance_key r, gm_slave_address g)) (rm_g301 r)) rooms"

definition missing_entrances :: "room_registry \<Rightarrow> string list" where
  "missing_entrances reg =
     sort (remdups (filter (\<lambda>k. k \<notin> set (map en_key (rr_entrances reg)))
                      (map rm_entrance_key (rr_rooms reg))))"

definition validate_registry :: "room_registry \<Rightarrow> room_registry result" where
  "validate_registry reg =
     (if has_duplicates (map en_key (rr_entrances reg))
      then Inl (ValidationError ''entrance keys must be unique'')
      else if missing_entrances reg \<noteq> []
      then Inl (ValidationError
             (''room entrance_key values must reference configured entrances: ''
              @ join_with '', '' (missing_entrances reg)))
      else if has_duplicates (g301_addresses (rr_rooms reg))
      then Inl (ValidationError ''G301 slave addresses must be unique within each entrance'')
      else Inr reg)"

definition mk_room_registry :: "room_registry \<Rightarrow> room_registry result" where
  "mk_room_registry reg =
     bind_result (require_unique_room_keys (rr_rooms reg)) (\<lambda>_. validate_registry reg)"

text \<open>What an accepted registry guarantees.\<close>

definition registry_ok :: "room_registry \<Rightarrow> bool" where
  "registry_ok reg \<longleftrightarrow>
     distinct (map rm_key (rr_rooms reg))
     \<and> distinct (clock_ids (rr_rooms reg))
     \<and> distinct (map en_key (rr_entrances reg))
     \<and> (\<forall>r \<in> set (rr_rooms reg). rm_entrance_key r \<in> set (map en_key (rr_entrances reg)))
     \<and> distinct (g301_addresses (rr_rooms reg))"

lemma missing_entrances_Nil:
  "missing_entrances reg = [] \<longleftrightarrow>
     (\<forall>r \<in> set (rr_rooms reg). rm_entrance_key r \<in> set (map en_key (rr_entrances reg)))"
proof -
  have "missing_entrances reg = [] \<longleftrightarrow> set (missing_entrances reg) = {}" by simp
  also have "\<dots> \<longleftrightarrow> (\<forall>r \<in> set (rr_rooms reg). rm_entrance_key r \<in> set (map en_key (rr_entrances reg)))"
    unfolding missing_entrances_def by (auto simp: image_iff)
  finally show ?thesis .
qed

lemma mk_room_registry_Inr: "mk_room_registry reg = Inr reg' \<longleftrightarrow> reg' = reg \<and> registry_ok reg"
  unfolding mk_room_registry_def require_unique_room_keys_def validate_registry_def registry_ok_def
    missing_entrances_Nil has_duplicates_iff
  by (auto simp: bind_result_def split: if_splits)

text \<open>\<^verbatim>\<open>by_key\<close>: a later room of the same key would replace an earlier one.\<close>

definition by_key :: "room_registry \<Rightarrow> string \<rightharpoonup> room" where
  "by_key reg = map_of (rev (map (\<lambda>r. (rm_key r, r)) (rr_rooms reg)))"

definition rooms_by_entrance :: "room_registry \<Rightarrow> (string \<times> room list) list" where
  "rooms_by_entrance reg =
     map (\<lambda>e. (en_key e,
               sort_key rm_key (filter (\<lambda>r. rm_entrance_key r = en_key e) (rr_rooms reg))))
       (rr_entrances reg)"

lemma by_key_SomeD: "by_key reg k = Some r \<Longrightarrow> r \<in> set (rr_rooms reg) \<and> rm_key r = k"
  unfolding by_key_def by (drule map_of_SomeD) auto

lemma by_key_room:
  assumes "registry_ok reg" and "r \<in> set (rr_rooms reg)"
  shows "by_key reg (rm_key r) = Some r"
proof -
  let ?xs = "rev (map (\<lambda>r. (rm_key r, r)) (rr_rooms reg))"
  have "distinct (map fst ?xs)"
    using assms(1) by (simp add: registry_ok_def rev_map [symmetric] comp_def)
  moreover have "(rm_key r, r) \<in> set ?xs" using assms(2) by auto
  ultimately show ?thesis unfolding by_key_def by (rule map_of_is_SomeI)
qed

section \<open>Policies\<close>

record property_policy =
  pp_timezone :: string
  pp_default_check_in_time :: time_of_day
  pp_default_check_out_time :: time_of_day

definition default_property_policy :: property_policy where
  "default_property_policy =
     \<lparr>pp_timezone = ''Europe/Sofia'', pp_default_check_in_time = 15 * hour_us,
      pp_default_check_out_time = 11 * hour_us\<rparr>"

record automation_policy =
  ap_pre_arrival_lead_minutes :: int
  ap_default_heating_target_c :: pyfloat
  ap_default_cooling_target_c :: pyfloat
  ap_vacant_heating_setback_c :: pyfloat
  ap_occupied_minimum_target_c :: pyfloat
  ap_occupied_maximum_target_c :: pyfloat
  ap_manual_override_max_minutes :: int
  ap_turn_on_water_heater_pre_arrival :: bool
  ap_enable_convectors_pre_arrival :: bool

definition default_automation_policy :: automation_policy where
  "default_automation_policy =
     \<lparr>ap_pre_arrival_lead_minutes = 240, ap_default_heating_target_c = Fin 22,
      ap_default_cooling_target_c = Fin 24, ap_vacant_heating_setback_c = Fin 16,
      ap_occupied_minimum_target_c = Fin 19, ap_occupied_maximum_target_c = Fin 24,
      ap_manual_override_max_minutes = 720, ap_turn_on_water_heater_pre_arrival = True,
      ap_enable_convectors_pre_arrival = True\<rparr>"

definition mk_automation_policy :: "automation_policy \<Rightarrow> automation_policy result" where
  "mk_automation_policy p =
     (if ap_pre_arrival_lead_minutes p < 0
      then Inl (ValidationError ''Input should be greater than or equal to 0'')
      else if ap_manual_override_max_minutes p < 1
      then Inl (ValidationError ''Input should be greater than or equal to 1'')
      else if f_less (ap_occupied_maximum_target_c p) (ap_occupied_minimum_target_c p)
      then Inl (ValidationError
             ''occupied_minimum_target_c cannot exceed occupied_maximum_target_c'')
      else Inr p)"

definition clamp_temperature :: "automation_policy \<Rightarrow> pyfloat \<Rightarrow> pyfloat" where
  "clamp_temperature p v =
     py_min (py_max v (ap_occupied_minimum_target_c p)) (ap_occupied_maximum_target_c p)"

record hotel_policy =
  hp_property :: property_policy
  hp_automation :: automation_policy

definition default_hotel_policy :: hotel_policy where
  "default_hotel_policy =
     \<lparr>hp_property = default_property_policy, hp_automation = default_automation_policy\<rparr>"

text \<open>The tzinfo property of a policy.\<close>

definition policy_tz :: "hotel_policy \<Rightarrow> tzinfo" where
  "policy_tz p = Zone (pp_timezone (hp_property p))"

text \<open>The bounds a usable policy has: real numbers in order.\<close>

definition bounds_ok :: "automation_policy \<Rightarrow> bool" where
  "bounds_ok p \<longleftrightarrow> f_le (ap_occupied_minimum_target_c p) (ap_occupied_maximum_target_c p)"

lemma clamp_between:
  assumes "bounds_ok p" and "\<not> is_nan v"
  shows "f_le (ap_occupied_minimum_target_c p) (clamp_temperature p v)"
    and "f_le (clamp_temperature p v) (ap_occupied_maximum_target_c p)"
  using assms unfolding clamp_temperature_def bounds_ok_def py_max_def py_min_def
  by (auto simp: f_le_refl f_le_less dest: f_le_not_nan intro: f_less_imp_le)

lemma clamp_id:
  assumes "f_le (ap_occupied_minimum_target_c p) v" and "f_le v (ap_occupied_maximum_target_c p)"
  shows "clamp_temperature p v = v"
  using assms unfolding clamp_temperature_def py_max_def py_min_def
  by (metis f_le_less f_le_not_nan)

lemma clamp_idem:
  assumes "bounds_ok p"
  shows "clamp_temperature p (clamp_temperature p v) = clamp_temperature p v"
proof (cases "is_nan v")
  case True
  then have "clamp_temperature p v = v" by (cases v) (simp_all add: clamp_temperature_def py_max_def py_min_def)
  then show ?thesis by simp
next
  case False
  with assms show ?thesis by (intro clamp_id clamp_between)
qed

section \<open>Overrides, intents, evaluations\<close>

record manual_override =
  mo_control_mode :: control_mode
  mo_clock_booking_id :: "string option"
  mo_hvac_mode :: manual_hvac_mode
  mo_target_temperature_c :: "pyfloat option"
  mo_water_heater_enabled :: "bool option"
  mo_expires_at :: "datetime option"
  mo_checkout_at :: "datetime option"
  mo_until_checkout :: bool
  mo_command_id :: uuid

definition is_active :: "tzdb \<Rightarrow> manual_override \<Rightarrow> datetime \<Rightarrow> string option \<Rightarrow> bool" where
  "is_active db ov now clock_booking_id =
     (if mo_control_mode ov = CM_AUTOMATIC then False
      else if mo_until_checkout ov then
        (if mo_clock_booking_id ov \<noteq> None \<and> mo_clock_booking_id ov \<noteq> clock_booking_id then False
         else case mo_checkout_at ov of None \<Rightarrow> False | Some c \<Rightarrow> dt_less db now c)
      else case mo_expires_at ov of None \<Rightarrow> False | Some e \<Rightarrow> dt_less db now e)"

record hvac_intent =
  hi_enabled :: bool
  hi_mode :: manual_hvac_mode
  hi_target_temperature_c :: "pyfloat option"

definition mk_hvac_intent :: "bool \<Rightarrow> manual_hvac_mode \<Rightarrow> pyfloat option \<Rightarrow> hvac_intent result" where
  "mk_hvac_intent en m t =
     (if en then
        (if m = HV_OFF then Inl (ValidationError ''enabled HVAC intent cannot use off mode'')
         else if t = None then Inl (ValidationError ''enabled HVAC intent requires target_temperature_c'')
         else Inr \<lparr>hi_enabled = en, hi_mode = m, hi_target_temperature_c = t\<rparr>)
      else
        (if m \<noteq> HV_OFF then Inl (ValidationError ''disabled HVAC intent must use off mode'')
         else if t \<noteq> None then Inl (ValidationError ''disabled HVAC intent cannot set target_temperature_c'')
         else Inr \<lparr>hi_enabled = en, hi_mode = m, hi_target_temperature_c = t\<rparr>))"

definition hvac_ok :: "hvac_intent \<Rightarrow> bool" where
  "hvac_ok h \<longleftrightarrow>
     (hi_enabled h \<longleftrightarrow> hi_mode h \<noteq> HV_OFF) \<and> (hi_enabled h \<longleftrightarrow> hi_target_temperature_c h \<noteq> None)"

lemma mk_hvac_intent_Inr:
  "mk_hvac_intent en m t = Inr h \<longleftrightarrow>
     h = \<lparr>hi_enabled = en, hi_mode = m, hi_target_temperature_c = t\<rparr> \<and> hvac_ok h"
  by (auto simp: mk_hvac_intent_def hvac_ok_def)

record binary_intent =
  bi_enabled :: bool

record desired_room_intent =
  di_schema_version :: int
  di_room_key :: string
  di_intent_version :: int
  di_automation_phase :: automation_phase
  di_control_mode :: control_mode
  di_effective_from :: datetime
  di_expires_at :: "datetime option"
  di_hvac :: hvac_intent
  di_water_heater :: binary_intent
  di_convectors :: binary_intent
  di_reason :: string
  di_correlation_id :: uuid

definition mk_desired_room_intent ::
  "tzdb \<Rightarrow> int \<Rightarrow> string \<Rightarrow> int \<Rightarrow> automation_phase \<Rightarrow> control_mode \<Rightarrow> py_datetime \<Rightarrow> py_datetime option
   \<Rightarrow> hvac_intent \<Rightarrow> binary_intent \<Rightarrow> binary_intent \<Rightarrow> string \<Rightarrow> uuid \<Rightarrow> desired_room_intent result" where
  "mk_desired_room_intent db schema rkey version phase mode eff expires hvac wh conv reason corr =
     (if schema \<noteq> 1 then Inl (ValidationError ''Input should be 1'')
      else if rkey = [] \<or> reason = []
      then Inl (ValidationError ''String should have at least 1 character'')
      else if version < 1 then Inl (ValidationError ''Input should be greater than or equal to 1'')
      else case eff of
        Naive _ \<Rightarrow> Inl (ValidationError ''effective_from must be timezone-aware'')
      | Aware e \<Rightarrow>
          (case expires of
             None \<Rightarrow>
               Inr \<lparr>di_schema_version = schema, di_room_key = rkey, di_intent_version = version,
                 di_automation_phase = phase, di_control_mode = mode, di_effective_from = e,
                 di_expires_at = None, di_hvac = hvac, di_water_heater = wh, di_convectors = conv,
                 di_reason = reason, di_correlation_id = corr\<rparr>
           | Some (Naive _) \<Rightarrow> Inl (ValidationError ''expires_at must be timezone-aware'')
           | Some (Aware x) \<Rightarrow>
               (if dt_le db x e
                then Inl (ValidationError ''expires_at must be after effective_from'')
                else
                  Inr \<lparr>di_schema_version = schema, di_room_key = rkey, di_intent_version = version,
                    di_automation_phase = phase, di_control_mode = mode, di_effective_from = e,
                    di_expires_at = Some x, di_hvac = hvac, di_water_heater = wh,
                    di_convectors = conv, di_reason = reason, di_correlation_id = corr\<rparr>)))"

definition intent_ok :: "tzdb \<Rightarrow> desired_room_intent \<Rightarrow> bool" where
  "intent_ok db i \<longleftrightarrow>
     di_schema_version i = 1 \<and> di_room_key i \<noteq> [] \<and> di_reason i \<noteq> [] \<and> 1 \<le> di_intent_version i
     \<and> hvac_ok (di_hvac i)
     \<and> (case di_expires_at i of None \<Rightarrow> True | Some x \<Rightarrow> dt_less db (di_effective_from i) x)"

lemma mk_desired_room_intent_ok:
  assumes "mk_desired_room_intent db schema rkey version phase mode eff expires hvac wh conv reason corr = Inr i"
    and "hvac_ok hvac"
  shows "intent_ok db i"
  using assms
  by (auto simp: mk_desired_room_intent_def intent_ok_def dt_not_le
      split: if_splits py_datetime.splits option.splits)

text \<open>\<^verbatim>\<open>stable_payload\<close>: the JSON dump without the correlation id, with the version zeroed.\<close>

definition hvac_payload :: "hvac_intent \<Rightarrow> payload" where
  "hvac_payload h =
     [(''enabled'', JBool (hi_enabled h)),
      (''mode'', JStr (manual_hvac_mode_value (hi_mode h))),
      (''target_temperature_c'', json_opt JFloat (hi_target_temperature_c h))]"

definition binary_payload :: "binary_intent \<Rightarrow> payload" where
  "binary_payload b = [(''enabled'', JBool (bi_enabled b))]"

definition intent_payload :: "desired_room_intent \<Rightarrow> payload" where
  "intent_payload i =
     [(''schema_version'', JInt (di_schema_version i)),
      (''room_key'', JStr (di_room_key i)),
      (''intent_version'', JInt (di_intent_version i)),
      (''automation_phase'', JStr (automation_phase_value (di_automation_phase i))),
      (''control_mode'', JStr (control_mode_value (di_control_mode i))),
      (''effective_from'', JDateTime (Aware (di_effective_from i))),
      (''expires_at'', json_opt (JDateTime \<circ> Aware) (di_expires_at i)),
      (''hvac'', JDict (hvac_payload (di_hvac i))),
      (''water_heater'', JDict (binary_payload (di_water_heater i))),
      (''convectors'', JDict (binary_payload (di_convectors i))),
      (''reason'', JStr (di_reason i)),
      (''correlation_id'', JUuid (di_correlation_id i))]"

definition dict_pop :: "string \<Rightarrow> payload \<Rightarrow> payload" where
  "dict_pop k d = filter (\<lambda>kv. fst kv \<noteq> k) d"

definition dict_set :: "string \<Rightarrow> json \<Rightarrow> payload \<Rightarrow> payload" where
  "dict_set k v d =
     (if k \<in> set (map fst d) then map (\<lambda>kv. if fst kv = k then (k, v) else kv) d else d @ [(k, v)])"

definition stable_payload :: "desired_room_intent \<Rightarrow> payload" where
  "stable_payload i =
     dict_set ''intent_version'' (JInt 0) (dict_pop ''correlation_id'' (intent_payload i))"

lemma stable_payload_eq:
  "stable_payload i =
     [(''schema_version'', JInt (di_schema_version i)),
      (''room_key'', JStr (di_room_key i)),
      (''intent_version'', JInt 0),
      (''automation_phase'', JStr (automation_phase_value (di_automation_phase i))),
      (''control_mode'', JStr (control_mode_value (di_control_mode i))),
      (''effective_from'', JDateTime (Aware (di_effective_from i))),
      (''expires_at'', json_opt (JDateTime \<circ> Aware) (di_expires_at i)),
      (''hvac'', JDict (hvac_payload (di_hvac i))),
      (''water_heater'', JDict (binary_payload (di_water_heater i))),
      (''convectors'', JDict (binary_payload (di_convectors i))),
      (''reason'', JStr (di_reason i))]"
  by (simp add: stable_payload_def intent_payload_def dict_set_def dict_pop_def)

record room_state_evaluation =
  rs_room_key :: "string option"
  rs_phase :: automation_phase
  rs_booking :: "normalized_booking option"
  rs_needs_attention :: bool
  rs_attention_reason :: attention_reason
  rs_reason :: string
  rs_effective_from :: datetime
  rs_expires_at :: "datetime option"

end
