(* ===== verification/Room_State_Machine.thy ===== *)
theory Room_State_Machine
  imports Domain_Models
begin

text \<open>
  The deterministic state machine of \<^verbatim>\<open>app/domain/state_machine.py\<close>: from a room, the
  bookings of the property, the hotel's current time, the policy and an active override it
  derives the room's automation phase. First the code's functions in their order, then the
  facts about the candidates, the conflict search and the selection that the properties
  rest on.
\<close>

section \<open>The functions\<close>

definition arrival_at :: "normalized_booking \<Rightarrow> hotel_policy \<Rightarrow> datetime" where
  "arrival_at b p =
     combine (nb_arrival_date b) (pp_default_check_in_time (hp_property p)) (policy_tz p)"

definition checkout_at :: "normalized_booking \<Rightarrow> hotel_policy \<Rightarrow> datetime" where
  "checkout_at b p =
     combine (nb_departure_date b) (pp_default_check_out_time (hp_property p)) (policy_tz p)"

definition bookings_overlap :: "normalized_booking \<Rightarrow> normalized_booking \<Rightarrow> bool" where
  "bookings_overlap l r \<longleftrightarrow>
     nb_arrival_date l < nb_departure_date r \<and> nb_arrival_date r < nb_departure_date l"

text \<open>\<^verbatim>\<open>room_ids = {value for value in (room.clock_room_id, room.key) if value}\<close>\<close>

definition room_ids :: "room \<Rightarrow> string option set" where
  "room_ids rm = {v \<in> {rm_clock_room_id rm, Some (rm_key rm)}. truthy v}"

definition assigned_to :: "room \<Rightarrow> normalized_booking \<Rightarrow> bool" where
  "assigned_to rm b \<longleftrightarrow>
     \<not> (nb_physical_room_id b \<notin> room_ids rm \<and> nb_physical_room_number b \<noteq> Some (rm_key rm))"

definition active_bookings_for_room ::
  "room \<Rightarrow> normalized_booking list \<Rightarrow> date \<Rightarrow> normalized_booking list" where
  "active_bookings_for_room rm bookings on_date =
     filter (\<lambda>b. active_for_automation b \<and> assigned_to rm b \<and> on_date \<le> nb_departure_date b) bookings"

definition lead :: "hotel_policy \<Rightarrow> timedelta" where
  "lead p = ap_pre_arrival_lead_minutes (hp_automation p) * minute_us"

definition lead_start :: "normalized_booking \<Rightarrow> hotel_policy \<Rightarrow> datetime" where
  "lead_start b p = dt_minus (arrival_at b p) (lead p)"

definition approaching_unassigned_arrivals ::
  "tzdb \<Rightarrow> normalized_booking list \<Rightarrow> datetime \<Rightarrow> hotel_policy \<Rightarrow> normalized_booking list" where
  "approaching_unassigned_arrivals db bookings now p =
     filter (\<lambda>b. \<not> (nb_booking_status b \<noteq> BS_EXPECTED \<or> has_physical_room b)
                \<and> dt_le db (dt_minus (arrival_at b p) (lead p)) now) bookings"

definition evaluate_unassigned_booking ::
  "tzdb \<Rightarrow> normalized_booking \<Rightarrow> datetime \<Rightarrow> hotel_policy \<Rightarrow> room_state_evaluation option" where
  "evaluate_unassigned_booking db b now p =
     (if nb_booking_status b \<noteq> BS_EXPECTED \<or> has_physical_room b then None
      else if dt_le db (lead_start b p) now then
        Some \<lparr>rs_room_key = None, rs_phase = PH_AWAITING_ASSIGNMENT, rs_booking = Some b,
          rs_needs_attention = True, rs_attention_reason = AR_MISSING_PHYSICAL_ROOM,
          rs_reason = ''expected_arrival_inside_preparation_window_without_physical_room'',
          rs_effective_from = now, rs_expires_at = Some (checkout_at b p)\<rparr>
      else None)"

definition select_relevant_booking ::
  "normalized_booking list \<Rightarrow> hotel_policy \<Rightarrow> normalized_booking option" where
  "select_relevant_booking bookings p =
     (if bookings = [] then None
      else let checked_in = filter (\<lambda>b. nb_booking_status b = BS_CHECKED_IN) bookings;
               expected = filter (\<lambda>b. nb_booking_status b = BS_EXPECTED) bookings
      in if checked_in \<noteq> [] then Some (hd (sort_key (\<lambda>b. dt_wall (checkout_at b p)) checked_in))
         else if expected \<noteq> [] then Some (hd (sort_key (\<lambda>b. dt_wall (arrival_at b p)) expected))
         else Some (hd (sort_key nb_arrival_date bookings)))"

text \<open>
  The bookings of unknown status that the room's evaluation looks for. The comparison is
  the code's \<^verbatim>\<open>==\<close> of two optional ids, so two missing ids are equal.
\<close>

definition unknown_for_room :: "room \<Rightarrow> normalized_booking list \<Rightarrow> normalized_booking list" where
  "unknown_for_room rm bookings =
     filter (\<lambda>b. nb_booking_status b = BS_UNKNOWN
                \<and> (nb_physical_room_id b = rm_clock_room_id rm
                   \<or> nb_physical_room_number b = Some (rm_key rm))) bookings"

definition plain_evaluation ::
  "room \<Rightarrow> automation_phase \<Rightarrow> normalized_booking option \<Rightarrow> string \<Rightarrow> datetime \<Rightarrow> datetime option
   \<Rightarrow> room_state_evaluation" where
  "plain_evaluation rm ph b why eff expires =
     \<lparr>rs_room_key = Some (rm_key rm), rs_phase = ph, rs_booking = b, rs_needs_attention = False,
      rs_attention_reason = AR_NONE, rs_reason = why, rs_effective_from = eff,
      rs_expires_at = expires\<rparr>"

definition attention_evaluation ::
  "room \<Rightarrow> automation_phase \<Rightarrow> normalized_booking option \<Rightarrow> attention_reason \<Rightarrow> string \<Rightarrow> datetime
   \<Rightarrow> room_state_evaluation" where
  "attention_evaluation rm ph b att why eff =
     \<lparr>rs_room_key = Some (rm_key rm), rs_phase = ph, rs_booking = b, rs_needs_attention = True,
      rs_attention_reason = att, rs_reason = why, rs_effective_from = eff, rs_expires_at = None\<rparr>"

text \<open>What the evaluation does with the booking it selected.\<close>

definition evaluate_selected ::
  "tzdb \<Rightarrow> room \<Rightarrow> normalized_booking \<Rightarrow> datetime \<Rightarrow> hotel_policy \<Rightarrow> manual_override option
   \<Rightarrow> room_state_evaluation" where
  "evaluate_selected db rm b now p override =
     (if (case override of None \<Rightarrow> False
          | Some ov \<Rightarrow> is_active db ov now (Some (nb_clock_booking_id b)))
      then plain_evaluation rm PH_MANUAL_OVERRIDE (Some b) ''valid_manual_override_active'' now
             (case override of None \<Rightarrow> None | Some ov \<Rightarrow> mo_expires_at ov)
      else if nb_booking_status b = BS_CHECKED_IN then
        (if dt_le db (checkout_at b p) now
         then plain_evaluation rm PH_CHECKOUT_DUE (Some b)
                ''departure_time_passed_without_clock_checkout'' now None
         else plain_evaluation rm PH_OCCUPIED (Some b) ''clock_reports_guest_checked_in'' now
                (Some (checkout_at b p)))
      else if nb_booking_status b = BS_EXPECTED then
        (if dt_le db (lead_start b p) now
         then plain_evaluation rm PH_PRE_ARRIVAL (Some b)
                ''expected_arrival_inside_preparation_window'' (lead_start b p)
                (Some (checkout_at b p))
         else plain_evaluation rm PH_RESERVED (Some b)
                ''future_assigned_reservation_outside_preparation_window'' now
                (Some (lead_start b p)))
      else plain_evaluation rm PH_VACANT (Some b) ''booking_inactive_for_automation'' now None)"

definition evaluate_room ::
  "tzdb \<Rightarrow> room \<Rightarrow> normalized_booking list \<Rightarrow> datetime \<Rightarrow> hotel_policy \<Rightarrow> manual_override option
   \<Rightarrow> room_state_evaluation" where
  "evaluate_room db rm bookings now p override =
     (if \<not> rm_enabled rm
      then plain_evaluation rm PH_DISABLED None ''room_disabled_by_configuration'' now None
      else
        let candidates = active_bookings_for_room rm bookings (dt_date now);
            unknown = unknown_for_room rm bookings
        in if unknown \<noteq> []
           then attention_evaluation rm PH_UNKNOWN (Some (hd unknown)) AR_UNKNOWN_CLOCK_STATUS
                  ''unknown_clock_status_suppresses_automatic_actions'' now
           else case find (\<lambda>(l, r). bookings_overlap l r) (ordered_pairs candidates) of
             Some (l, r) \<Rightarrow>
               attention_evaluation rm PH_CONFLICT (Some l) AR_OVERLAPPING_ACTIVE_BOOKINGS
                 ''overlapping_active_bookings_assigned_to_room'' now
           | None \<Rightarrow>
               (case select_relevant_booking candidates p of
                  None \<Rightarrow> plain_evaluation rm PH_VACANT None ''no_active_assigned_reservation'' now None
                | Some b \<Rightarrow> evaluate_selected db rm b now p override))"

section \<open>Facts about the parts\<close>

lemma plain_evaluation_simps [simp]:
  "rs_phase (plain_evaluation rm ph b why eff expires) = ph"
  "rs_booking (plain_evaluation rm ph b why eff expires) = b"
  "rs_room_key (plain_evaluation rm ph b why eff expires) = Some (rm_key rm)"
  "rs_needs_attention (plain_evaluation rm ph b why eff expires) = False"
  "rs_attention_reason (plain_evaluation rm ph b why eff expires) = AR_NONE"
  "rs_reason (plain_evaluation rm ph b why eff expires) = why"
  "rs_effective_from (plain_evaluation rm ph b why eff expires) = eff"
  "rs_expires_at (plain_evaluation rm ph b why eff expires) = expires"
  by (simp_all add: plain_evaluation_def)

lemma attention_evaluation_simps [simp]:
  "rs_phase (attention_evaluation rm ph b att why eff) = ph"
  "rs_booking (attention_evaluation rm ph b att why eff) = b"
  "rs_room_key (attention_evaluation rm ph b att why eff) = Some (rm_key rm)"
  "rs_needs_attention (attention_evaluation rm ph b att why eff) = True"
  "rs_attention_reason (attention_evaluation rm ph b att why eff) = att"
  "rs_reason (attention_evaluation rm ph b att why eff) = why"
  "rs_effective_from (attention_evaluation rm ph b att why eff) = eff"
  "rs_expires_at (attention_evaluation rm ph b att why eff) = None"
  by (simp_all add: attention_evaluation_def)

lemma bookings_overlap_sym: "bookings_overlap l r \<longleftrightarrow> bookings_overlap r l"
  by (auto simp: bookings_overlap_def)

lemma zone_booking_times [simp]:
  "dt_zone (arrival_at b p) = policy_tz p" "dt_zone (checkout_at b p) = policy_tz p"
  "dt_zone (lead_start b p) = policy_tz p"
  by (simp_all add: arrival_at_def checkout_at_def lead_start_def)

lemma wall_booking_times:
  "dt_wall (arrival_at b p) = nb_arrival_date b * day_us + pp_default_check_in_time (hp_property p)"
  "dt_wall (checkout_at b p) = nb_departure_date b * day_us + pp_default_check_out_time (hp_property p)"
  "dt_wall (lead_start b p) =
     nb_arrival_date b * day_us + pp_default_check_in_time (hp_property p) - lead p"
  by (simp_all add: arrival_at_def checkout_at_def lead_start_def)

lemma room_ids_iff: "v \<in> room_ids rm \<longleftrightarrow> truthy v \<and> (v = rm_clock_room_id rm \<or> v = Some (rm_key rm))"
  by (auto simp: room_ids_def)

lemma candidate_iff:
  "b \<in> set (active_bookings_for_room rm bookings d) \<longleftrightarrow>
     b \<in> set bookings \<and> active_for_automation b \<and> assigned_to rm b \<and> d \<le> nb_departure_date b"
  by (auto simp: active_bookings_for_room_def)

lemma candidate_status:
  "b \<in> set (active_bookings_for_room rm bookings d) \<Longrightarrow>
     nb_booking_status b = BS_EXPECTED \<or> nb_booking_status b = BS_CHECKED_IN"
  by (auto simp: candidate_iff active_for_automation_def)

text \<open>The conflict search finds a pair exactly when two candidates overlap.\<close>

definition has_conflict :: "normalized_booking list \<Rightarrow> bool" where
  "has_conflict cs \<longleftrightarrow>
     (\<exists>i j. i < j \<and> j < length cs \<and> bookings_overlap (cs ! i) (cs ! j))"

lemma find_conflict_None:
  "find (\<lambda>(l, r). bookings_overlap l r) (ordered_pairs cs) = None \<longleftrightarrow> \<not> has_conflict cs"
  unfolding find_None_iff2 has_conflict_def
  using set_ordered_pairs [of _ _ cs] by fastforce

lemma find_conflict_Some:
  assumes "find (\<lambda>(l, r). bookings_overlap l r) (ordered_pairs cs) = Some (l, r)"
  shows "has_conflict cs" "l \<in> set cs" "bookings_overlap l r"
proof -
  from assms have "(l, r) \<in> set (ordered_pairs cs)" and o: "bookings_overlap l r"
    by (auto dest: find_SomeD)
  then obtain i j where "i < j" "j < length cs" "cs ! i = l" "cs ! j = r"
    by (auto simp: set_ordered_pairs)
  then show "has_conflict cs" "l \<in> set cs" "bookings_overlap l r"
    using o by (auto simp: has_conflict_def)
qed

text \<open>The selection: checked-in bookings first, the earliest of them.\<close>

lemma select_None [simp]: "select_relevant_booking cs p = None \<longleftrightarrow> cs = []"
  by (simp add: select_relevant_booking_def Let_def)

lemma select_Nil [simp]: "select_relevant_booking [] p = None"
  by simp

lemma select_in:
  assumes "select_relevant_booking cs p = Some b"
  shows "b \<in> set cs"
proof -
  have "hd (sort_key k xs) \<in> set cs" if "set xs \<subseteq> set cs" "xs \<noteq> []" for xs and k :: "_ \<Rightarrow> int"
    using that hd_sort_key_in [of xs k] by blast
  then show ?thesis
    using assms unfolding select_relevant_booking_def Let_def
    by (auto split: if_splits simp del: filter_empty_conv)
qed

lemma select_checked_in:
  assumes "c \<in> set cs" and "nb_booking_status c = BS_CHECKED_IN"
  obtains b where "select_relevant_booking cs p = Some b" "b \<in> set cs" "nb_booking_status b = BS_CHECKED_IN"
    "\<And>c. c \<in> set cs \<Longrightarrow> nb_booking_status c = BS_CHECKED_IN \<Longrightarrow>
       nb_departure_date b \<le> nb_departure_date c"
proof -
  let ?xs = "filter (\<lambda>b. nb_booking_status b = BS_CHECKED_IN) cs"
  let ?b = "hd (sort_key (\<lambda>b. dt_wall (checkout_at b p)) ?xs)"
  have ne: "?xs \<noteq> []" using assms by (auto simp: filter_empty_conv)
  have b: "?b \<in> set ?xs" using ne by (rule hd_sort_key_in)
  show thesis
  proof (rule that)
    show "select_relevant_booking cs p = Some ?b"
      using ne assms(1) unfolding select_relevant_booking_def Let_def
      by (auto simp del: filter_empty_conv)
    show "?b \<in> set cs" "nb_booking_status ?b = BS_CHECKED_IN" using b by auto
    fix c assume "c \<in> set cs" "nb_booking_status c = BS_CHECKED_IN"
    then have "c \<in> set ?xs" by simp
    from sort_key_hd_least [OF this, of "\<lambda>b. dt_wall (checkout_at b p)"]
    show "nb_departure_date ?b \<le> nb_departure_date c" by (simp add: wall_booking_times)
  qed
qed

lemma select_expected:
  assumes "cs \<noteq> []" and "\<forall>c \<in> set cs. nb_booking_status c = BS_EXPECTED"
  obtains b where "select_relevant_booking cs p = Some b" "b \<in> set cs"
    "\<And>c. c \<in> set cs \<Longrightarrow> nb_arrival_date b \<le> nb_arrival_date c"
proof -
  let ?b = "hd (sort_key (\<lambda>b. dt_wall (arrival_at b p)) cs)"
  have f: "filter (\<lambda>b. nb_booking_status b = BS_EXPECTED) cs = cs"
    "filter (\<lambda>b. nb_booking_status b = BS_CHECKED_IN) cs = []"
    using assms(2) by (auto simp: filter_id_conv filter_empty_conv)
  show thesis
  proof (rule that)
    show "select_relevant_booking cs p = Some ?b"
      using assms(1) unfolding select_relevant_booking_def Let_def f by simp
    show "?b \<in> set cs" using assms(1) by (rule hd_sort_key_in)
    fix c assume "c \<in> set cs"
    from sort_key_hd_least [OF this, of "\<lambda>b. dt_wall (arrival_at b p)"]
    show "nb_arrival_date ?b \<le> nb_arrival_date c" by (simp add: wall_booking_times)
  qed
qed

end
