(* ===== verification/Policy_Engine.thy ===== *)
theory Policy_Engine
  imports Room_State_Machine
begin

text \<open>
  The intent derivation of \<^verbatim>\<open>app/policy/engine.py\<close> and the command conversion of
  \<^verbatim>\<open>app/policy/commands.py\<close>. Building an intent runs the validators of the domain models, so
  deriving one is a computation that may raise a ValidationError. A correlation id that is
  not given is drawn by \<^verbatim>\<open>uuid4\<close>: the drawn id is the parameter \<open>fresh\<close>.
\<close>

section \<open>Deriving the desired intent\<close>

definition SUPPRESS_AUTOMATION_PHASES :: "automation_phase set" where
  "SUPPRESS_AUTOMATION_PHASES = {PH_AWAITING_ASSIGNMENT, PH_CONFLICT, PH_DISABLED, PH_UNKNOWN}"

definition build_intent ::
  "tzdb \<Rightarrow> room_state_evaluation \<Rightarrow> control_mode \<Rightarrow> hvac_intent \<Rightarrow> binary_intent \<Rightarrow> binary_intent
   \<Rightarrow> string \<Rightarrow> uuid option \<Rightarrow> uuid \<Rightarrow> desired_room_intent option result" where
  "build_intent db st mode hvac wh conv why corr fresh =
     bind_result
       (mk_desired_room_intent db 1 (case rs_room_key st of None \<Rightarrow> [] | Some k \<Rightarrow> k) 1 (rs_phase st)
          mode (Aware (rs_effective_from st)) (map_option Aware (rs_expires_at st)) hvac wh conv why
          (case corr of None \<Rightarrow> fresh | Some c \<Rightarrow> c))
       (\<lambda>i. Inr (Some i))"

definition derive_room_intent ::
  "tzdb \<Rightarrow> room_state_evaluation \<Rightarrow> hotel_policy \<Rightarrow> datetime \<Rightarrow> manual_override option
   \<Rightarrow> uuid option \<Rightarrow> uuid \<Rightarrow> desired_room_intent option result" where
  "derive_room_intent db st p now override corr fresh =
     (let ap = hp_automation p; ph = rs_phase st;
          build = (\<lambda>mode en m t wh conv why.
            bind_result (mk_hvac_intent en m t)
              (\<lambda>hvac. build_intent db st mode hvac \<lparr>bi_enabled = wh\<rparr> \<lparr>bi_enabled = conv\<rparr> why corr fresh))
      in
      if rs_room_key st = None then Inr None
      else if ph = PH_MANUAL_OVERRIDE \<and> override \<noteq> None then
        (let ov = the override in
         build (mo_control_mode ov) (mo_hvac_mode ov \<noteq> HV_OFF) (mo_hvac_mode ov)
           (map_option (clamp_temperature ap) (mo_target_temperature_c ov))
           (mo_water_heater_enabled ov = Some True) (mo_hvac_mode ov \<noteq> HV_OFF) (rs_reason st))
      else if ph \<in> SUPPRESS_AUTOMATION_PHASES then
        build CM_OFF False HV_OFF None False False (rs_reason st)
      else if ph = PH_VACANT then
        build CM_AUTOMATIC True HV_HEAT (Some (ap_vacant_heating_setback_c ap)) False False (rs_reason st)
      else if ph \<in> {PH_PRE_ARRIVAL, PH_RESERVED} then
        (let pre = (ph = PH_PRE_ARRIVAL) in
         build CM_AUTOMATIC pre (if pre then HV_HEAT else HV_OFF)
           (if pre then Some (ap_default_heating_target_c ap) else None)
           (pre \<and> ap_turn_on_water_heater_pre_arrival ap) (pre \<and> ap_enable_convectors_pre_arrival ap)
           (rs_reason st))
      else if ph \<in> {PH_OCCUPIED, PH_CHECKOUT_DUE} then
        build CM_AUTOMATIC True HV_AUTO
          (Some (clamp_temperature ap (ap_default_heating_target_c ap))) True True (rs_reason st)
      else build CM_OFF False HV_OFF None False False ''unhandled_phase_suppressed'')"

section \<open>Commands\<close>

record manual_control_command =
  mc_command_id :: uuid
  mc_control_mode :: control_mode
  mc_manual_hvac_mode :: manual_hvac_mode
  mc_manual_target_temperature_c :: "pyfloat option"
  mc_override_duration :: string
  mc_manual_water_heater_enabled :: "bool option"
  mc_schema_version :: int

definition override_durations :: "string list" where
  "override_durations = [''60'', ''240'', ''720'', ''until_checkout'']"

definition mk_manual_control_command :: "manual_control_command \<Rightarrow> manual_control_command result" where
  "mk_manual_control_command c =
     (if mc_override_duration c \<notin> set override_durations
      then Inl (ValidationError ''override_duration is not a supported literal'')
      else if mc_schema_version c < 1
      then Inl (ValidationError ''Input should be greater than or equal to 1'')
      else if mc_control_mode c = CM_MANUAL \<and> mc_manual_hvac_mode c \<noteq> HV_OFF
              \<and> mc_manual_target_temperature_c c = None
      then Inl (ValidationError ''manual target temperature is required when manual HVAC is active'')
      else Inr c)"

text \<open>\<^verbatim>\<open>int(text)\<close> of a string of decimal digits.\<close>

definition int_of_digits :: "string \<Rightarrow> int" where
  "int_of_digits s = foldl (\<lambda>a c. 10 * a + (of_char c - 48)) 0 s"

definition duration_minutes :: "string \<Rightarrow> automation_policy \<Rightarrow> int option result" where
  "duration_minutes d ap =
     (if d = ''until_checkout'' then Inr None
      else if ap_manual_override_max_minutes ap < int_of_digits d
      then Inl (ValueError ''manual override duration exceeds policy maximum'')
      else Inr (Some (int_of_digits d)))"

definition command_to_override ::
  "manual_control_command \<Rightarrow> automation_policy \<Rightarrow> datetime \<Rightarrow> manual_override result" where
  "command_to_override c ap now =
     (if mc_schema_version c \<noteq> 1 then Inl (ValueError ''unsupported command schema version'')
      else if mc_control_mode c = CM_AUTOMATIC then
        Inr \<lparr>mo_control_mode = CM_AUTOMATIC, mo_clock_booking_id = None, mo_hvac_mode = HV_OFF,
          mo_target_temperature_c = None, mo_water_heater_enabled = None, mo_expires_at = None,
          mo_checkout_at = None, mo_until_checkout = False, mo_command_id = mc_command_id c\<rparr>
      else if mc_control_mode c = CM_OFF then
        bind_result (duration_minutes (mc_override_duration c) ap) (\<lambda>minutes.
          Inr \<lparr>mo_control_mode = CM_OFF, mo_clock_booking_id = None, mo_hvac_mode = HV_OFF,
            mo_target_temperature_c = None, mo_water_heater_enabled = None,
            mo_expires_at = map_option (\<lambda>m. dt_plus now (m * minute_us)) minutes,
            mo_checkout_at = None, mo_until_checkout = (minutes = None),
            mo_command_id = mc_command_id c\<rparr>)
      else
        bind_result (duration_minutes (mc_override_duration c) ap) (\<lambda>minutes.
          Inr \<lparr>mo_control_mode = CM_MANUAL, mo_clock_booking_id = None,
            mo_hvac_mode = mc_manual_hvac_mode c,
            mo_target_temperature_c =
              map_option (clamp_temperature ap) (mc_manual_target_temperature_c c),
            mo_water_heater_enabled = mc_manual_water_heater_enabled c,
            mo_expires_at = map_option (\<lambda>m. dt_plus now (m * minute_us)) minutes,
            mo_checkout_at = None, mo_until_checkout = (minutes = None),
            mo_command_id = mc_command_id c\<rparr>))"

section \<open>Facts\<close>

lemma build_intent_Inr:
  assumes "build_intent db st mode hvac wh conv why corr fresh = Inr r" and "hvac_ok hvac"
  obtains i where "r = Some i" "intent_ok db i" "di_hvac i = hvac" "di_water_heater i = wh"
    "di_convectors i = conv" "di_control_mode i = mode" "di_automation_phase i = rs_phase st"
    "rs_room_key st = Some (di_room_key i)" "di_intent_version i = 1"
    "di_effective_from i = rs_effective_from st" "di_expires_at i = rs_expires_at st"
    "di_correlation_id i = (case corr of None \<Rightarrow> fresh | Some c \<Rightarrow> c)"
proof -
  let ?k = "case rs_room_key st of None \<Rightarrow> [] | Some k \<Rightarrow> k"
  from assms(1) obtain i where r: "r = Some i" and
    mk: "mk_desired_room_intent db 1 ?k 1 (rs_phase st)
          mode (Aware (rs_effective_from st)) (map_option Aware (rs_expires_at st)) hvac wh conv why
          (case corr of None \<Rightarrow> fresh | Some c \<Rightarrow> c) = Inr i"
    by (auto simp: build_intent_def bind_result_Inr)
  from mk have k: "?k \<noteq> []" by (auto simp: mk_desired_room_intent_def)
  show thesis
  proof (rule that [OF r])
    show "intent_ok db i" using mk assms(2) by (rule mk_desired_room_intent_ok)
    show "rs_room_key st = Some (di_room_key i)"
      using mk k by (auto simp: mk_desired_room_intent_def split: if_splits option.splits py_datetime.splits)
  qed (use mk in \<open>auto simp: mk_desired_room_intent_def split: if_splits option.splits py_datetime.splits\<close>)
qed

text \<open>When building an intent succeeds.\<close>

lemma build_intent_total:
  assumes "rs_room_key st = Some k" "k \<noteq> []" "why \<noteq> []"
    and "\<And>x. rs_expires_at st = Some x \<Longrightarrow> dt_less db (rs_effective_from st) x"
  shows "is_Inr (build_intent db st mode hvac wh conv why corr fresh)"
proof (cases "rs_expires_at st")
  case None
  with assms(1-3) show ?thesis
    by (simp add: build_intent_def mk_desired_room_intent_def)
next
  case (Some x)
  from assms(4) [OF Some] have "\<not> dt_le db x (rs_effective_from st)" by (simp add: dt_not_le)
  with assms(1-3) Some show ?thesis
    by (simp add: build_intent_def mk_desired_room_intent_def)
qed


text \<open>
  The table that the engine's branches amount to: control mode, HVAC (enabled, mode, target),
  water heater and convectors for every phase.
\<close>

definition override_hvac_ok :: "manual_override \<Rightarrow> bool" where
  "override_hvac_ok ov \<longleftrightarrow> (mo_hvac_mode ov = HV_OFF \<longleftrightarrow> mo_target_temperature_c ov = None)"

record intent_row =
  ir_mode :: control_mode
  ir_enabled :: bool
  ir_hvac :: manual_hvac_mode
  ir_target :: "pyfloat option"
  ir_heater :: bool
  ir_convectors :: bool

definition all_off :: "intent_row" where
  "all_off = \<lparr>ir_mode = CM_OFF, ir_enabled = False, ir_hvac = HV_OFF, ir_target = None,
     ir_heater = False, ir_convectors = False\<rparr>"

fun intent_table :: "automation_policy \<Rightarrow> manual_override option \<Rightarrow> automation_phase \<Rightarrow> intent_row" where
  "intent_table ap (Some ov) PH_MANUAL_OVERRIDE =
     \<lparr>ir_mode = mo_control_mode ov, ir_enabled = (mo_hvac_mode ov \<noteq> HV_OFF),
      ir_hvac = mo_hvac_mode ov,
      ir_target = map_option (clamp_temperature ap) (mo_target_temperature_c ov),
      ir_heater = (mo_water_heater_enabled ov = Some True),
      ir_convectors = (mo_hvac_mode ov \<noteq> HV_OFF)\<rparr>"
| "intent_table ap ov PH_VACANT =
     \<lparr>ir_mode = CM_AUTOMATIC, ir_enabled = True, ir_hvac = HV_HEAT,
      ir_target = Some (ap_vacant_heating_setback_c ap), ir_heater = False, ir_convectors = False\<rparr>"
| "intent_table ap ov PH_RESERVED =
     \<lparr>ir_mode = CM_AUTOMATIC, ir_enabled = False, ir_hvac = HV_OFF, ir_target = None,
      ir_heater = False, ir_convectors = False\<rparr>"
| "intent_table ap ov PH_PRE_ARRIVAL =
     \<lparr>ir_mode = CM_AUTOMATIC, ir_enabled = True, ir_hvac = HV_HEAT,
      ir_target = Some (ap_default_heating_target_c ap),
      ir_heater = ap_turn_on_water_heater_pre_arrival ap,
      ir_convectors = ap_enable_convectors_pre_arrival ap\<rparr>"
| "intent_table ap ov PH_OCCUPIED =
     \<lparr>ir_mode = CM_AUTOMATIC, ir_enabled = True, ir_hvac = HV_AUTO,
      ir_target = Some (clamp_temperature ap (ap_default_heating_target_c ap)),
      ir_heater = True, ir_convectors = True\<rparr>"
| "intent_table ap ov PH_CHECKOUT_DUE =
     \<lparr>ir_mode = CM_AUTOMATIC, ir_enabled = True, ir_hvac = HV_AUTO,
      ir_target = Some (clamp_temperature ap (ap_default_heating_target_c ap)),
      ir_heater = True, ir_convectors = True\<rparr>"
| "intent_table ap ov ph = all_off"

definition intent_reason :: "room_state_evaluation \<Rightarrow> manual_override option \<Rightarrow> string" where
  "intent_reason st ov =
     (if rs_phase st = PH_MANUAL_OVERRIDE \<and> ov = None then ''unhandled_phase_suppressed'' else rs_reason st)"

definition row_hvac :: "intent_row \<Rightarrow> hvac_intent" where
  "row_hvac r =
     \<lparr>hi_enabled = ir_enabled r, hi_mode = ir_hvac r, hi_target_temperature_c = ir_target r\<rparr>"

lemma derive_room_intent_table:
  "derive_room_intent db st p now ov corr fresh =
     (if rs_room_key st = None then Inr None
      else let r = intent_table (hp_automation p) ov (rs_phase st) in
        bind_result (mk_hvac_intent (ir_enabled r) (ir_hvac r) (ir_target r))
          (\<lambda>h. build_intent db st (ir_mode r) h \<lparr>bi_enabled = ir_heater r\<rparr>
                 \<lparr>bi_enabled = ir_convectors r\<rparr> (intent_reason st ov) corr fresh))"
  by (cases "rs_phase st"; cases ov)
     (simp_all add: derive_room_intent_def Let_def intent_reason_def all_off_def
       SUPPRESS_AUTOMATION_PHASES_def)

lemma derived_intent:
  assumes "derive_room_intent db st p now ov corr fresh = Inr (Some i)"
  defines "r \<equiv> intent_table (hp_automation p) ov (rs_phase st)"
  shows "intent_ok db i" "di_hvac i = row_hvac r" "bi_enabled (di_water_heater i) = ir_heater r"
    "bi_enabled (di_convectors i) = ir_convectors r" "di_control_mode i = ir_mode r"
    "di_automation_phase i = rs_phase st" "rs_room_key st = Some (di_room_key i)"
    "di_intent_version i = 1" "di_effective_from i = rs_effective_from st"
    "di_expires_at i = rs_expires_at st"
proof -
  from assms(1) obtain h where
    h: "mk_hvac_intent (ir_enabled r) (ir_hvac r) (ir_target r) = Inr h" and
    b: "build_intent db st (ir_mode r) h \<lparr>bi_enabled = ir_heater r\<rparr>
          \<lparr>bi_enabled = ir_convectors r\<rparr> (intent_reason st ov) corr fresh = Inr (Some i)"
    unfolding derive_room_intent_table r_def Let_def
    by (auto simp: bind_result_Inr split: if_splits)
  from h have hr: "h = row_hvac r" and ok: "hvac_ok h" by (auto simp: mk_hvac_intent_Inr row_hvac_def)
  from b ok show "intent_ok db i" "di_hvac i = row_hvac r" "bi_enabled (di_water_heater i) = ir_heater r"
    "bi_enabled (di_convectors i) = ir_convectors r" "di_control_mode i = ir_mode r"
    "di_automation_phase i = rs_phase st" "rs_room_key st = Some (di_room_key i)"
    "di_intent_version i = 1" "di_effective_from i = rs_effective_from st"
    "di_expires_at i = rs_expires_at st"
    unfolding hr by (auto elim!: build_intent_Inr)
qed

lemma intent_table_hvac:
  assumes "\<And>v. ov = Some v \<Longrightarrow> override_hvac_ok v"
  shows "hvac_ok (row_hvac (intent_table ap ov ph))"
  using assms
  by (cases ph; cases ov)
     (auto simp: hvac_ok_def row_hvac_def all_off_def override_hvac_ok_def)

lemma derive_total:
  assumes key: "rs_room_key st = Some k" "k \<noteq> []" and why: "rs_reason st \<noteq> []"
    and ov: "\<And>v. ov = Some v \<Longrightarrow> override_hvac_ok v"
    and win: "\<And>x. rs_expires_at st = Some x \<Longrightarrow> dt_less db (rs_effective_from st) x"
  obtains i where "derive_room_intent db st p now ov corr fresh = Inr (Some i)"
proof -
  let ?r = "intent_table (hp_automation p) ov (rs_phase st)"
  have "hvac_ok (row_hvac ?r)" using ov by (rule intent_table_hvac)
  then have h: "mk_hvac_intent (ir_enabled ?r) (ir_hvac ?r) (ir_target ?r) = Inr (row_hvac ?r)"
    by (simp add: mk_hvac_intent_Inr row_hvac_def)
  have "intent_reason st ov \<noteq> []" using why by (simp add: intent_reason_def)
  then have "is_Inr (build_intent db st (ir_mode ?r) (row_hvac ?r) \<lparr>bi_enabled = ir_heater ?r\<rparr>
      \<lparr>bi_enabled = ir_convectors ?r\<rparr> (intent_reason st ov) corr fresh)"
    using key win by (intro build_intent_total)
  then obtain w where b: "build_intent db st (ir_mode ?r) (row_hvac ?r) \<lparr>bi_enabled = ir_heater ?r\<rparr>
      \<lparr>bi_enabled = ir_convectors ?r\<rparr> (intent_reason st ov) corr fresh = Inr w"
    by (auto simp: is_Inr_iff)
  then obtain i where "w = Some i" by (auto simp: build_intent_def bind_result_Inr)
  with b h key(1) show thesis
    by (intro that [of i]) (simp add: derive_room_intent_table Let_def)
qed

end
