(* ===== verification/Room_State_Properties.thy ===== *)
theory Room_State_Properties
  imports Room_State_Machine "HOL-Library.Multiset"
begin

text \<open>
  What the room state machine guarantees: which bookings a guest phase rests on, that the
  result does not depend on the order in which the database returns the bookings, how the
  phase of one stay moves with time, the validity window of an evaluation, and two
  behaviours that the comparisons of the code bring with them (a booking of unknown status
  without room id, and a guest who stays past the departure date).
\<close>

section \<open>Case analysis of an evaluation\<close>

lemma evaluate_room_cases:
  fixes db rm bks now p ov
  defines "e \<equiv> evaluate_room db rm bks now p ov"
    and "cs \<equiv> active_bookings_for_room rm bks (dt_date now)"
  obtains
    (disabled) "\<not> rm_enabled rm" "rs_phase e = PH_DISABLED" "rs_booking e = None"
      "\<not> rs_needs_attention e" "rs_expires_at e = None" "rs_effective_from e = now"
  | (unknown) "rm_enabled rm" "unknown_for_room rm bks \<noteq> []" "rs_phase e = PH_UNKNOWN"
      "rs_needs_attention e" "rs_attention_reason e = AR_UNKNOWN_CLOCK_STATUS" "rs_expires_at e = None"
      "rs_effective_from e = now"
  | (conflict) "rm_enabled rm" "unknown_for_room rm bks = []" "has_conflict cs"
      "rs_phase e = PH_CONFLICT" "rs_needs_attention e"
      "rs_attention_reason e = AR_OVERLAPPING_ACTIVE_BOOKINGS" "rs_expires_at e = None"
      "rs_effective_from e = now"
  | (vacant) "rm_enabled rm" "unknown_for_room rm bks = []" "cs = []"
      "rs_phase e = PH_VACANT" "rs_booking e = None" "\<not> rs_needs_attention e" "rs_expires_at e = None"
      "rs_effective_from e = now"
  | (selected) b where "rm_enabled rm" "unknown_for_room rm bks = []" "\<not> has_conflict cs"
      "select_relevant_booking cs p = Some b" "e = evaluate_selected db rm b now p ov"
proof (cases "rm_enabled rm")
  case False
  then show thesis by (intro disabled) (simp_all add: e_def evaluate_room_def)
next
  case en: True
  show thesis
  proof (cases "unknown_for_room rm bks = []")
    case False
    with en show thesis by (intro unknown) (simp_all add: e_def evaluate_room_def)
  next
    case unk: True
    show thesis
    proof (cases "find (\<lambda>(l, r). bookings_overlap l r) (ordered_pairs cs)")
      case (Some pr)
      obtain l r where "pr = (l, r)" by fastforce
      with Some have f: "find (\<lambda>(l, r). bookings_overlap l r) (ordered_pairs cs) = Some (l, r)" by simp
      from f en unk find_conflict_Some(1) [OF f] show thesis
        by (intro conflict) (simp_all add: e_def evaluate_room_def cs_def)
    next
      case None
      then have nc: "\<not> has_conflict cs" by (simp add: find_conflict_None)
      show thesis
      proof (cases "select_relevant_booking cs p")
        case sel: None
        from None sel en unk show thesis
          by (intro vacant) (simp_all add: e_def evaluate_room_def cs_def)
      next
        case (Some b)
        from None Some en unk nc show thesis
          by (intro selected [of b]) (simp_all add: e_def evaluate_room_def cs_def)
      qed
    qed
  qed
qed

lemma evaluate_selected_phase:
  "rs_phase (evaluate_selected db rm b now p ov) \<in>
     {PH_MANUAL_OVERRIDE, PH_CHECKOUT_DUE, PH_OCCUPIED, PH_PRE_ARRIVAL, PH_RESERVED, PH_VACANT}"
  by (simp add: evaluate_selected_def)

lemma evaluate_selected_booking [simp]:
  "rs_booking (evaluate_selected db rm b now p ov) = Some b"
  "rs_needs_attention (evaluate_selected db rm b now p ov) = False"
  "rs_room_key (evaluate_selected db rm b now p ov) = Some (rm_key rm)"
  by (simp_all add: evaluate_selected_def)

lemma evaluate_room_key [simp]: "rs_room_key (evaluate_room db rm bks now p ov) = Some (rm_key rm)"
  by (simp add: evaluate_room_def Let_def split: option.split prod.split)

definition guest_phases :: "automation_phase set" where
  "guest_phases = {PH_OCCUPIED, PH_CHECKOUT_DUE, PH_PRE_ARRIVAL, PH_RESERVED, PH_MANUAL_OVERRIDE}"

section \<open>Properties\<close>

text \<open>C15. A phase in which the room is prepared or heated for a guest is derived from one
  unambiguous booking: the room is enabled, no booking of unknown status names it, no two of
  its active bookings overlap, and the booking reported is an active one assigned to the
  room and not yet departed; when some candidate is checked in it is a checked-in one with
  the earliest departure, otherwise one with the earliest arrival.\<close>

theorem guest_phase_unambiguous:
  assumes "rs_phase (evaluate_room db rm bks now p ov) \<in> guest_phases"
  shows "rm_enabled rm \<and> unknown_for_room rm bks = [] \<and>
    (let cs = active_bookings_for_room rm bks (dt_date now) in
     \<not> has_conflict cs \<and>
     (\<exists>b. rs_booking (evaluate_room db rm bks now p ov) = Some b \<and> b \<in> set bks
        \<and> active_for_automation b \<and> assigned_to rm b \<and> dt_date now \<le> nb_departure_date b
        \<and> (if \<exists>c \<in> set cs. nb_booking_status c = BS_CHECKED_IN
            then nb_booking_status b = BS_CHECKED_IN \<and>
                 (\<forall>c \<in> set cs. nb_booking_status c = BS_CHECKED_IN \<longrightarrow>
                    nb_departure_date b \<le> nb_departure_date c)
            else \<forall>c \<in> set cs. nb_arrival_date b \<le> nb_arrival_date c)))"
proof -
  let ?cs = "active_bookings_for_room rm bks (dt_date now)"
  from assms show ?thesis
  proof (cases rule: evaluate_room_cases [of rm db bks now p ov])
    case (selected b)
    then have b: "b \<in> set ?cs" using select_in by blast
    have "if \<exists>c \<in> set ?cs. nb_booking_status c = BS_CHECKED_IN
          then nb_booking_status b = BS_CHECKED_IN \<and>
               (\<forall>c \<in> set ?cs. nb_booking_status c = BS_CHECKED_IN \<longrightarrow>
                  nb_departure_date b \<le> nb_departure_date c)
          else \<forall>c \<in> set ?cs. nb_arrival_date b \<le> nb_arrival_date c"
    proof (cases "\<exists>c \<in> set ?cs. nb_booking_status c = BS_CHECKED_IN")
      case True
      then obtain c where "c \<in> set ?cs" "nb_booking_status c = BS_CHECKED_IN" by blast
      then show ?thesis using selected(4) by (rule_tac select_checked_in [of c ?cs p]) auto
    next
      case False
      then have "\<forall>c \<in> set ?cs. nb_booking_status c = BS_EXPECTED" using candidate_status by blast
      then show ?thesis
        using selected(4) b False by (rule_tac select_expected [of ?cs p]) auto
    qed
    then show ?thesis using selected b by (auto simp: candidate_iff Let_def)
  qed (auto simp: guest_phases_def)
qed

text \<open>An instance: a room with two consecutive stays, the first of them checked in.\<close>

definition sample_booking :: "string \<Rightarrow> booking_status \<Rightarrow> date \<Rightarrow> date \<Rightarrow> string option \<Rightarrow> string option
    \<Rightarrow> normalized_booking" where
  "sample_booking bid st arr dep rid rnum =
     \<lparr>nb_property_id = ''hotel'', nb_clock_booking_id = bid, nb_booking_number = None,
      nb_external_source = None, nb_external_reference = None, nb_booking_status = st,
      nb_source_booking_status = booking_status_value st, nb_arrival_date = arr,
      nb_departure_date = dep, nb_created_at = None, nb_updated_at = None,
      nb_status_changed_at = None, nb_room_type_id = None, nb_room_type_name = None,
      nb_physical_room_id = rid, nb_physical_room_number = rnum, nb_adults = None,
      nb_children = None, nb_first_seen_at = None, nb_last_seen_at = None,
      nb_payload_hash = ''h'', nb_needs_attention = (st = BS_UNKNOWN),
      nb_attention_reason = (if st = BS_UNKNOWN then AR_UNKNOWN_CLOCK_STATUS else AR_NONE)\<rparr>"

definition sample_room :: "string \<Rightarrow> string option \<Rightarrow> room" where
  "sample_room k cid =
     \<lparr>rm_key = k, rm_name = k, rm_entrance_key = ''entrance_a'', rm_floor = None,
      rm_clock_room_id = cid, rm_g301 = None, rm_enabled = True\<rparr>"

definition hotel_time :: "date \<Rightarrow> time_of_day \<Rightarrow> datetime" where
  "hotel_time d t = combine d t (policy_tz default_hotel_policy)"

lemmas sample_defs = sample_booking_def sample_room_def hotel_time_def default_hotel_policy_def
  default_property_policy_def default_automation_policy_def policy_tz_def

lemmas evaluation_defs = evaluate_room_def evaluate_selected_def active_bookings_for_room_def
  unknown_for_room_def select_relevant_booking_def assigned_to_def room_ids_iff
  active_for_automation_def bookings_overlap_def arrival_at_def checkout_at_def lead_start_def
  lead_def dt_date_def dt_le_def dt_less_def Let_def

lemma sample_conflict_free_phase:
  "rs_phase (evaluate_room (fixed_tzdb 0) (sample_room ''101'' None)
     [sample_booking ''b2'' BS_EXPECTED 14 17 None (Some ''101''),
      sample_booking ''b1'' BS_CHECKED_IN 10 14 None (Some ''101'')]
     (hotel_time 12 (9 * hour_us)) default_hotel_policy None) = PH_OCCUPIED"
  by (simp add: evaluation_defs sample_defs)

theorem guest_phase_unambiguous_witness:
  "\<not> has_conflict (active_bookings_for_room (sample_room ''101'' None)
     [sample_booking ''b2'' BS_EXPECTED 14 17 None (Some ''101''),
      sample_booking ''b1'' BS_CHECKED_IN 10 14 None (Some ''101'')]
     (dt_date (hotel_time 12 (9 * hour_us))))"
  using guest_phase_unambiguous [of "fixed_tzdb 0" "sample_room ''101'' None"
      "[sample_booking ''b2'' BS_EXPECTED 14 17 None (Some ''101''),
        sample_booking ''b1'' BS_CHECKED_IN 10 14 None (Some ''101'')]"
      "hotel_time 12 (9 * hour_us)" default_hotel_policy None] sample_conflict_free_phase
  by (simp add: guest_phases_def Let_def)

section \<open>Independence of the order of the bookings\<close>

lemma pair_submset_add:
  "{#l, r#} \<subseteq># add_mset x M \<longleftrightarrow>
     {#l, r#} \<subseteq># M \<or> (l = x \<and> r \<in># M) \<or> (r = x \<and> l \<in># M)"
proof (cases "l = x \<or> r = x")
  case True
  then show ?thesis
    by (auto simp: insert_subset_eq_iff dest: mset_subset_eqD in_diffD)
next
  case False
  then show ?thesis
    by (auto simp: insert_subset_eq_iff subset_eq_diff_conv add_mset_commute)
qed

lemma ordered_pairs_mset:
  assumes sym: "\<And>l r. Q l r \<Longrightarrow> Q r l"
  shows "(\<exists>(l, r) \<in> set (ordered_pairs xs). Q l r) \<longleftrightarrow> (\<exists>l r. {#l, r#} \<subseteq># mset xs \<and> Q l r)"
proof (induction xs)
  case Nil
  then show ?case by simp
next
  case (Cons x xs)
  have "(\<exists>(l, r) \<in> set (ordered_pairs (x # xs)). Q l r) \<longleftrightarrow>
      (\<exists>r \<in> set xs. Q x r) \<or> (\<exists>l r. {#l, r#} \<subseteq># mset xs \<and> Q l r)"
    using Cons.IH by auto
  also have "\<dots> \<longleftrightarrow> (\<exists>l r. {#l, r#} \<subseteq># mset (x # xs) \<and> Q l r)"
    unfolding mset.simps pair_submset_add using sym by auto
  finally show ?case .
qed

lemma has_conflict_mset:
  "has_conflict cs \<longleftrightarrow> (\<exists>l r. {#l, r#} \<subseteq># mset cs \<and> bookings_overlap l r)"
proof -
  have "has_conflict cs \<longleftrightarrow> (\<exists>(l, r) \<in> set (ordered_pairs cs). bookings_overlap l r)"
    unfolding has_conflict_def using set_ordered_pairs [of _ _ cs] by fastforce
  also have "\<dots> \<longleftrightarrow> (\<exists>l r. {#l, r#} \<subseteq># mset cs \<and> bookings_overlap l r)"
    by (rule ordered_pairs_mset) (simp add: bookings_overlap_sym)
  finally show ?thesis .
qed

text \<open>Two permutations of the candidates select bookings that are evaluated alike.\<close>

definition alike :: "normalized_booking \<Rightarrow> normalized_booking \<Rightarrow> bool" where
  "alike b c \<longleftrightarrow> nb_booking_status b = nb_booking_status c \<and>
     (nb_booking_status b = BS_CHECKED_IN \<and> nb_departure_date b = nb_departure_date c
      \<or> nb_booking_status b = BS_EXPECTED \<and> nb_arrival_date b = nb_arrival_date c)"

lemma select_alike:
  assumes "mset cs = mset cs'" and st: "\<forall>c \<in> set cs. nb_booking_status c = BS_EXPECTED \<or> nb_booking_status c = BS_CHECKED_IN"
    and b: "select_relevant_booking cs p = Some b" and b': "select_relevant_booking cs' p = Some b'"
  shows "alike b b'"
proof -
  have eq: "set cs = set cs'" using assms(1) by (rule mset_eq_setD)
  show ?thesis
  proof (cases "\<exists>c \<in> set cs. nb_booking_status c = BS_CHECKED_IN")
    case True
    then obtain c where c: "c \<in> set cs" "nb_booking_status c = BS_CHECKED_IN" by blast
    then have c': "c \<in> set cs'" using eq by simp
    from c have 1: "b \<in> set cs" "nb_booking_status b = BS_CHECKED_IN"
      "\<forall>c \<in> set cs. nb_booking_status c = BS_CHECKED_IN \<longrightarrow> nb_departure_date b \<le> nb_departure_date c"
      using b by (rule_tac select_checked_in [of c cs p]; auto)+
    from c' c(2) have 2: "b' \<in> set cs'" "nb_booking_status b' = BS_CHECKED_IN"
      "\<forall>c \<in> set cs'. nb_booking_status c = BS_CHECKED_IN \<longrightarrow> nb_departure_date b' \<le> nb_departure_date c"
      using b' by (rule_tac select_checked_in [of c cs' p]; auto)+
    from 1 2 eq show ?thesis unfolding alike_def by (metis order_antisym)
  next
    case False
    with st have ex: "\<forall>c \<in> set cs. nb_booking_status c = BS_EXPECTED" by blast
    have ne: "cs \<noteq> []" "cs' \<noteq> []" using b b' by auto
    have 1: "b \<in> set cs" "\<forall>c \<in> set cs. nb_arrival_date b \<le> nb_arrival_date c"
      using b ne ex by (rule_tac select_expected [of cs p]; auto)+
    have 2: "b' \<in> set cs'" "\<forall>c \<in> set cs'. nb_arrival_date b' \<le> nb_arrival_date c"
      using b' ne ex eq by (rule_tac select_expected [of cs' p]; auto)+
    from 1 2 eq ex show ?thesis unfolding alike_def by (metis order_antisym)
  qed
qed

lemma alike_evaluated:
  "alike b c \<Longrightarrow>
     rs_phase (evaluate_selected db rm b now p None) = rs_phase (evaluate_selected db rm c now p None)
     \<and> rs_reason (evaluate_selected db rm b now p None) = rs_reason (evaluate_selected db rm c now p None)"
  by (auto simp: alike_def evaluate_selected_def checkout_at_def lead_start_def arrival_at_def)

lemma unknown_mset: "mset bks = mset bks' \<Longrightarrow> unknown_for_room rm bks = [] \<longleftrightarrow> unknown_for_room rm bks' = []"
  unfolding unknown_for_room_def filter_empty_conv by (auto dest: mset_eq_setD)

lemma active_mset:
  "mset bks = mset bks' \<Longrightarrow>
     mset (active_bookings_for_room rm bks d) = mset (active_bookings_for_room rm bks' d)"
  unfolding active_bookings_for_room_def by (simp add: mset_filter)

text \<open>C36. The database returns the bookings in no particular order, and it does not matter:
  two permutations of the same bookings give a room without override the same phase, the same
  reason and the same attention flag and reason.\<close>

theorem evaluation_order_independent:
  assumes perm: "mset bks = mset bks'"
  shows "rs_phase (evaluate_room db rm bks now p None) = rs_phase (evaluate_room db rm bks' now p None)
    \<and> rs_reason (evaluate_room db rm bks now p None) = rs_reason (evaluate_room db rm bks' now p None)
    \<and> rs_needs_attention (evaluate_room db rm bks now p None)
        = rs_needs_attention (evaluate_room db rm bks' now p None)
    \<and> rs_attention_reason (evaluate_room db rm bks now p None)
        = rs_attention_reason (evaluate_room db rm bks' now p None)"
proof -
  let ?cs = "active_bookings_for_room rm bks (dt_date now)"
  let ?cs' = "active_bookings_for_room rm bks' (dt_date now)"
  have m: "mset ?cs = mset ?cs'" using perm by (rule active_mset)
  have unk: "unknown_for_room rm bks = [] \<longleftrightarrow> unknown_for_room rm bks' = []"
    using perm by (rule unknown_mset)
  have con: "(find (\<lambda>(l, r). bookings_overlap l r) (ordered_pairs ?cs) = None)
      \<longleftrightarrow> (find (\<lambda>(l, r). bookings_overlap l r) (ordered_pairs ?cs') = None)"
    unfolding find_conflict_None has_conflict_mset m ..
  have st: "\<forall>c \<in> set ?cs. nb_booking_status c = BS_EXPECTED \<or> nb_booking_status c = BS_CHECKED_IN"
    using candidate_status by blast
  have nil: "?cs = [] \<longleftrightarrow> ?cs' = []" using m by (metis mset_zero_iff)
  show ?thesis
  proof (cases "rm_enabled rm \<and> unknown_for_room rm bks = []
      \<and> find (\<lambda>(l, r). bookings_overlap l r) (ordered_pairs ?cs) = None \<and> ?cs \<noteq> []")
    case False
    then show ?thesis using unk con nil
      by (auto simp: evaluate_room_def Let_def split: option.split)
  next
    case True
    then obtain b b' where b: "select_relevant_booking ?cs p = Some b"
      and b': "select_relevant_booking ?cs' p = Some b'"
      using nil by (metis not_None_eq select_None)
    from select_alike [OF m st b b'] have "alike b b'" .
    from alike_evaluated [OF this, of db rm now p] show ?thesis
      using True b b' unk con
      by (auto simp: evaluate_room_def Let_def evaluate_selected_def)
  qed
qed

theorem evaluation_order_independent_witness:
  "rs_phase (evaluate_room (fixed_tzdb 0) (sample_room ''101'' None)
     [sample_booking ''b1'' BS_CHECKED_IN 10 14 None (Some ''101''),
      sample_booking ''b2'' BS_EXPECTED 14 17 None (Some ''101'')]
     (hotel_time 12 (9 * hour_us)) default_hotel_policy None) = PH_OCCUPIED"
  using evaluation_order_independent [of
      "[sample_booking ''b1'' BS_CHECKED_IN 10 14 None (Some ''101''),
        sample_booking ''b2'' BS_EXPECTED 14 17 None (Some ''101'')]"
      "[sample_booking ''b2'' BS_EXPECTED 14 17 None (Some ''101''),
        sample_booking ''b1'' BS_CHECKED_IN 10 14 None (Some ''101'')]"
      "fixed_tzdb 0" "sample_room ''101'' None" "hotel_time 12 (9 * hour_us)" default_hotel_policy]
    sample_conflict_free_phase
  by (simp add: add_mset_commute)

section \<open>One stay over time\<close>

lemma single_expected:
  assumes "rm_enabled rm" "nb_booking_status b = BS_EXPECTED" "assigned_to rm b"
  shows "evaluate_room db rm [b] now p None =
    (if nb_departure_date b < dt_date now
     then plain_evaluation rm PH_VACANT None ''no_active_assigned_reservation'' now None
     else evaluate_selected db rm b now p None)"
  using assms
  by (simp add: evaluate_room_def active_bookings_for_room_def unknown_for_room_def
      active_for_automation_def select_relevant_booking_def)

lemma single_checked_in:
  assumes "rm_enabled rm" "nb_booking_status b = BS_CHECKED_IN" "assigned_to rm b"
  shows "evaluate_room db rm [b] now p None =
    (if nb_departure_date b < dt_date now
     then plain_evaluation rm PH_VACANT None ''no_active_assigned_reservation'' now None
     else evaluate_selected db rm b now p None)"
  using assms
  by (simp add: evaluate_room_def active_bookings_for_room_def unknown_for_room_def
      active_for_automation_def select_relevant_booking_def)

fun phase_rank :: "automation_phase \<Rightarrow> nat" where
  "phase_rank PH_RESERVED = 0"
| "phase_rank PH_PRE_ARRIVAL = 1"
| "phase_rank PH_OCCUPIED = 2"
| "phase_rank PH_CHECKOUT_DUE = 3"
| "phase_rank _ = 4"

text \<open>The phase of a room with one assigned expected or checked-in stay moves one way with
  hotel time: reserved, then pre-arrival from the lead time before check-in on; occupied,
  then checkout due from the checkout time on; and vacant once the departure date has
  passed. At no later time does it fall back.\<close>

theorem stay_phase_monotone:
  assumes room: "rm_enabled rm" "assigned_to rm b" "active_for_automation b"
    and zone: "dt_zone now = policy_tz p" "dt_zone later = policy_tz p"
    and le: "dt_wall now \<le> dt_wall later"
  shows "phase_rank (rs_phase (evaluate_room db rm [b] now p None))
      \<le> phase_rank (rs_phase (evaluate_room db rm [b] later p None))"
proof -
  have day: "dt_date now \<le> dt_date later"
    using le by (simp add: dt_date_def zdiv_mono1)
  have mono: "dt_le db d later" if "dt_zone d = policy_tz p" "dt_le db d now" for d
    using that zone le by (simp add: dt_le_same_zone)
  show ?thesis
  proof (cases "nb_booking_status b = BS_CHECKED_IN")
    case True
    with day mono [of "checkout_at b p"] show ?thesis
      unfolding single_checked_in [OF room(1) True room(2)]
      by (simp add: evaluate_selected_def)
  next
    case False
    then have ex: "nb_booking_status b = BS_EXPECTED"
      using room(3) by (simp add: active_for_automation_def)
    with day mono [of "lead_start b p"] show ?thesis
      unfolding single_expected [OF room(1) ex room(2)]
      by (simp add: evaluate_selected_def)
  qed
qed

lemma sample_reserved:
  "rs_phase (evaluate_room (fixed_tzdb 0) (sample_room ''101'' None)
     [sample_booking ''b'' BS_EXPECTED 14 17 None (Some ''101'')]
     (hotel_time 14 (10 * hour_us)) default_hotel_policy None) = PH_RESERVED"
  by (simp add: evaluation_defs sample_defs)

lemma sample_pre_arrival:
  "rs_phase (evaluate_room (fixed_tzdb 0) (sample_room ''101'' None)
     [sample_booking ''b'' BS_EXPECTED 14 17 None (Some ''101'')]
     (hotel_time 14 (11 * hour_us)) default_hotel_policy None) = PH_PRE_ARRIVAL"
  by (simp add: evaluation_defs sample_defs)

theorem stay_phase_monotone_witness:
  "phase_rank PH_RESERVED \<le> phase_rank PH_PRE_ARRIVAL \<and>
   phase_rank (rs_phase (evaluate_room (fixed_tzdb 0) (sample_room ''101'' None)
     [sample_booking ''b'' BS_EXPECTED 14 17 None (Some ''101'')]
     (hotel_time 14 (11 * hour_us)) default_hotel_policy None)) = 1"
  using stay_phase_monotone [of "sample_room ''101'' None"
      "sample_booking ''b'' BS_EXPECTED 14 17 None (Some ''101'')"
      "hotel_time 14 (10 * hour_us)" default_hotel_policy "hotel_time 14 (11 * hour_us)"
      "fixed_tzdb 0"] sample_reserved sample_pre_arrival
  by (simp add: assigned_to_def active_for_automation_def sample_defs)

text \<open>A checked-in guest who has not been checked out by the end of the departure date is no
  longer a candidate: from midnight on the room is evaluated as vacant, although the code has
  a phase (checkout due) for a departure that passed without checkout.\<close>

theorem overstaying_guest_evaluated_vacant:
  assumes "rm_enabled rm" and "assigned_to rm b" and "nb_booking_status b = BS_CHECKED_IN"
    and "nb_departure_date b < dt_date now"
  shows "rs_phase (evaluate_room db rm [b] now p None) = PH_VACANT
    \<and> rs_booking (evaluate_room db rm [b] now p None) = None
    \<and> \<not> rs_needs_attention (evaluate_room db rm [b] now p None)"
  using assms by (simp add: single_checked_in)

theorem overstaying_guest_evaluated_vacant_witness:
  "rs_phase (evaluate_room (fixed_tzdb 0) (sample_room ''101'' None)
     [sample_booking ''b'' BS_CHECKED_IN 10 14 None (Some ''101'')]
     (hotel_time 15 0) default_hotel_policy None) = PH_VACANT"
  using overstaying_guest_evaluated_vacant [of "sample_room ''101'' None"
      "sample_booking ''b'' BS_CHECKED_IN 10 14 None (Some ''101'')" "hotel_time 15 0" "fixed_tzdb 0"
      default_hotel_policy]
  by (simp add: assigned_to_def dt_date_def sample_defs)

section \<open>Bookings of unknown status\<close>

text \<open>The search for bookings of unknown status compares optional ids with \<open>==\<close>, so a booking
  without physical room id matches every room whose registry entry has no Clock room id,
  even when the booking's room number names another room: all of them are evaluated as
  unknown, and automation is suppressed for all of them.\<close>

theorem unknown_booking_without_room_id_matches:
  assumes "b \<in> set bks" and "nb_booking_status b = BS_UNKNOWN" and "nb_physical_room_id b = None"
    and "rm_enabled rm" and "rm_clock_room_id rm = None"
  shows "rs_phase (evaluate_room db rm bks now p ov) = PH_UNKNOWN"
proof -
  have "b \<in> set (unknown_for_room rm bks)" using assms by (simp add: unknown_for_room_def)
  then have "unknown_for_room rm bks \<noteq> []" by auto
  with assms(4) show ?thesis by (simp add: evaluate_room_def Let_def)
qed

theorem unknown_booking_without_room_id_matches_witness:
  "rs_phase (evaluate_room (fixed_tzdb 0) (sample_room ''101'' None)
     [sample_booking ''b'' BS_UNKNOWN 10 14 None (Some ''214'')]
     (hotel_time 12 0) default_hotel_policy None) = PH_UNKNOWN"
  using unknown_booking_without_room_id_matches [of
      "sample_booking ''b'' BS_UNKNOWN 10 14 None (Some ''214'')"
      "[sample_booking ''b'' BS_UNKNOWN 10 14 None (Some ''214'')]" "sample_room ''101'' None"
      "fixed_tzdb 0" "hotel_time 12 0" default_hotel_policy None]
  by (simp add: sample_defs)

section \<open>Validity windows\<close>

definition policy_times_ok :: "hotel_policy \<Rightarrow> bool" where
  "policy_times_ok p \<longleftrightarrow>
     pp_default_check_in_time (hp_property p) < day_us \<and> 0 \<le> pp_default_check_out_time (hp_property p)
     \<and> 0 \<le> ap_pre_arrival_lead_minutes (hp_automation p)"

lemma lead_before_checkout:
  assumes "policy_times_ok p" and "nb_arrival_date b < nb_departure_date b"
  shows "dt_less db (lead_start b p) (checkout_at b p)"
proof -
  have "(nb_arrival_date b + 1) * day_us \<le> nb_departure_date b * day_us"
    using assms(2) by (intro mult_right_mono) auto
  moreover have "0 \<le> lead p" using assms(1) by (simp add: lead_def policy_times_ok_def)
  ultimately show ?thesis
    using assms(1) by (simp add: dt_less_same_zone wall_booking_times policy_times_ok_def algebra_simps)
qed

lemma evaluate_selected_window:
  assumes p: "policy_times_ok p" and night: "nb_arrival_date b < nb_departure_date b"
    and ov: "\<And>v. ov = Some v \<Longrightarrow> mo_until_checkout v \<Longrightarrow> mo_expires_at v = None"
    and x: "rs_expires_at (evaluate_selected db rm b now p ov) = Some x"
  shows "dt_less db (rs_effective_from (evaluate_selected db rm b now p ov)) x"
proof -
  have act: "dt_less db now y"
    if "ov = Some v" "is_active db v now cb" "mo_expires_at v = Some y" for v cb y
    using that ov [of v] by (auto simp: is_active_def split: if_splits)
  show ?thesis
    using x act lead_before_checkout [OF p night, of db]
    by (auto simp: evaluate_selected_def split: if_splits option.splits intro: dt_not_le [THEN iffD1])
qed

lemma evaluate_selected_covers:
  assumes ov: "\<And>v. ov = Some v \<Longrightarrow> mo_until_checkout v \<Longrightarrow> mo_expires_at v = None"
  shows "dt_le db (rs_effective_from (evaluate_selected db rm b now p ov)) now"
    and "rs_expires_at (evaluate_selected db rm b now p ov) = Some x \<Longrightarrow>
      dt_less db now x \<or> rs_phase (evaluate_selected db rm b now p ov) = PH_PRE_ARRIVAL \<and> x = checkout_at b p"
proof -
  have act: "dt_less db now y"
    if "ov = Some v" "is_active db v now cb" "mo_expires_at v = Some y" for v cb y
    using that ov [of v] by (auto simp: is_active_def split: if_splits)
  show "dt_le db (rs_effective_from (evaluate_selected db rm b now p ov)) now"
    by (simp add: evaluate_selected_def dt_le_refl)
  show "rs_expires_at (evaluate_selected db rm b now p ov) = Some x \<Longrightarrow>
      dt_less db now x \<or> rs_phase (evaluate_selected db rm b now p ov) = PH_PRE_ARRIVAL \<and> x = checkout_at b p"
    using act
    by (auto simp: evaluate_selected_def split: if_splits option.splits intro: dt_not_le [THEN iffD1])
qed

lemma evaluate_room_window:
  assumes p: "policy_times_ok p" and nights: "\<forall>b \<in> set bks. nb_arrival_date b < nb_departure_date b"
    and ov: "\<forall>v. ov = Some v \<longrightarrow> mo_until_checkout v \<longrightarrow> mo_expires_at v = None"
    and x: "rs_expires_at (evaluate_room db rm bks now p ov) = Some x"
  shows "dt_less db (rs_effective_from (evaluate_room db rm bks now p ov)) x"
proof (cases rule: evaluate_room_cases [of rm db bks now p ov])
  case (selected b)
  then have "b \<in> set bks" using select_in [OF selected(4)] by (simp add: candidate_iff)
  with nights have "nb_arrival_date b < nb_departure_date b" by blast
  from evaluate_selected_window [OF p this, of ov db rm now x] ov x selected(5)
  show ?thesis by simp
qed (use x in auto)

lemma evaluate_room_covers:
  assumes "\<forall>v. ov = Some v \<longrightarrow> mo_until_checkout v \<longrightarrow> mo_expires_at v = None"
  shows "dt_le db (rs_effective_from (evaluate_room db rm bks now p ov)) now"
    and "rs_expires_at (evaluate_room db rm bks now p ov) = Some x \<Longrightarrow>
      dt_less db now x \<or> rs_phase (evaluate_room db rm bks now p ov) = PH_PRE_ARRIVAL"
proof -
  have "dt_le db (rs_effective_from (evaluate_room db rm bks now p ov)) now
    \<and> (rs_expires_at (evaluate_room db rm bks now p ov) = Some x \<longrightarrow>
      dt_less db now x \<or> rs_phase (evaluate_room db rm bks now p ov) = PH_PRE_ARRIVAL)"
  proof (cases rule: evaluate_room_cases [of rm db bks now p ov])
    case (selected b)
    with evaluate_selected_covers [of ov db rm b now p] assms show ?thesis by auto
  qed (auto simp: dt_le_refl)
  then show "dt_le db (rs_effective_from (evaluate_room db rm bks now p ov)) now"
    "rs_expires_at (evaluate_room db rm bks now p ov) = Some x \<Longrightarrow>
      dt_less db now x \<or> rs_phase (evaluate_room db rm bks now p ov) = PH_PRE_ARRIVAL" by auto
qed

text \<open>Every room evaluation takes effect no later than the time of the evaluation, and its expiry,
  if it has one, lies after its start and still in the future; only a prepared arrival whose
  guest never came is evaluated with an expiry, the checkout, that can have passed. It takes
  bookings of at least one night, and an until-checkout override without an expiry.\<close>

theorem evaluation_window:
  assumes "policy_times_ok p" and "\<forall>b \<in> set bks. nb_arrival_date b < nb_departure_date b"
    and "\<forall>v. ov = Some v \<longrightarrow> mo_until_checkout v \<longrightarrow> mo_expires_at v = None"
  shows "dt_le db (rs_effective_from (evaluate_room db rm bks now p ov)) now
    \<and> (\<forall>x. rs_expires_at (evaluate_room db rm bks now p ov) = Some x \<longrightarrow>
          dt_less db (rs_effective_from (evaluate_room db rm bks now p ov)) x
          \<and> (dt_less db now x \<or> rs_phase (evaluate_room db rm bks now p ov) = PH_PRE_ARRIVAL))"
  using evaluate_room_window [OF assms] evaluate_room_covers [OF assms(3)] by blast

theorem evaluation_window_witness:
  "dt_less (fixed_tzdb 0) (hotel_time 14 (11 * hour_us)) (hotel_time 17 (11 * hour_us))"
  using evaluation_window [of default_hotel_policy
      "[sample_booking ''b'' BS_EXPECTED 14 17 None (Some ''101'')]" None "fixed_tzdb 0"
      "sample_room ''101'' None" "hotel_time 14 (12 * hour_us)"]
  by (simp add: evaluation_defs policy_times_ok_def sample_defs dt_minus_def dt_plus_def combine_def)

section \<open>Unassigned arrivals\<close>

text \<open>The two functions about arrivals without a room agree: a booking is listed as approaching
  exactly when its own evaluation exists, and that evaluation asks for attention because of
  the missing room and names no room.\<close>

theorem approaching_iff_evaluated:
  "b \<in> set (approaching_unassigned_arrivals db bks now p) \<longleftrightarrow>
     b \<in> set bks \<and>
     (\<exists>e. evaluate_unassigned_booking db b now p = Some e \<and> rs_phase e = PH_AWAITING_ASSIGNMENT
        \<and> rs_room_key e = None \<and> rs_needs_attention e
        \<and> rs_attention_reason e = AR_MISSING_PHYSICAL_ROOM)"
  by (auto simp: approaching_unassigned_arrivals_def evaluate_unassigned_booking_def lead_start_def)

end
