(* ===== verification/Policy_Properties.thy ===== *)
theory Policy_Properties
  imports Policy_Engine Room_State_Properties
begin

text \<open>
  What the policy engine guarantees, on its own and composed with the room state machine as
  the synchronisation service composes them: deriving an intent does not raise for stays of
  at least one night, unsafe phases switch everything off, temperatures stay inside the
  policy's bounds, and what the commands of \<^verbatim>\<open>app/policy/commands.py\<close> turn into. Two
  properties state where the code's checks stop short: a day-use stay makes the derivation
  raise, and a NaN temperature passes the clamp.
\<close>

section \<open>Evaluation and derivation composed\<close>

lemma evaluate_room_reason: "rs_reason (evaluate_room db rm bks now p ov) \<noteq> []"
  by (simp add: evaluate_room_def evaluate_selected_def Let_def split: option.split prod.split)

lemma evaluated_intent:
  assumes p: "policy_times_ok p" and nights: "\<forall>b \<in> set bks. nb_arrival_date b < nb_departure_date b"
    and ov: "\<forall>v. ov = Some v \<longrightarrow> override_hvac_ok v \<and> (mo_until_checkout v \<longrightarrow> mo_expires_at v = None)"
    and key: "rm_key rm \<noteq> []"
  shows "\<exists>i. derive_room_intent db (evaluate_room db rm bks now p ov) p now ov corr fresh = Inr (Some i)
    \<and> intent_ok db i \<and> di_room_key i = rm_key rm \<and> di_intent_version i = 1
    \<and> di_automation_phase i = rs_phase (evaluate_room db rm bks now p ov)"
proof -
  let ?e = "evaluate_room db rm bks now p ov"
  have win: "dt_less db (rs_effective_from ?e) x" if "rs_expires_at ?e = Some x" for x
    using evaluate_room_window [OF p nights] ov that by blast
  obtain i where i: "derive_room_intent db ?e p now ov corr fresh = Inr (Some i)"
    using derive_total [of ?e "rm_key rm" ov db p now corr fresh] key ov win evaluate_room_reason
    by (metis evaluate_room_key)
  from derived_intent [OF i] i show ?thesis by auto
qed

lemma keyless_intent:
  assumes "\<And>v. ov = Some v \<Longrightarrow> override_hvac_ok v" and "rm_key rm = []"
  shows "derive_room_intent db (evaluate_room db rm bks now p ov) p now ov corr fresh
    = Inl (ValidationError ''String should have at least 1 character'')"
proof -
  let ?e = "evaluate_room db rm bks now p ov"
  let ?r = "intent_table (hp_automation p) ov (rs_phase ?e)"
  have "hvac_ok (row_hvac ?r)" using assms(1) by (rule intent_table_hvac)
  then have "mk_hvac_intent (ir_enabled ?r) (ir_hvac ?r) (ir_target ?r) = Inr (row_hvac ?r)"
    by (simp add: mk_hvac_intent_Inr row_hvac_def)
  then show ?thesis
    by (simp add: derive_room_intent_table Let_def build_intent_def mk_desired_room_intent_def evaluate_room_key assms(2))
qed

text \<open>C10. Evaluating a room, enabled or disabled, and deriving its intent raises exactly when the room's key
is empty, which the registry accepts and the intent's validator does not. For every other room it gives
an intent that satisfies every validator, for the room evaluated and the phase found. This holds when
the policy is valid (times within the day, a lead that is not negative), the property's bookings last at least one night and the
override is of the shape the command service stores.\<close>

theorem room_intent_total:
  assumes p: "policy_times_ok p" and nights: "\<forall>b \<in> set bks. nb_arrival_date b < nb_departure_date b"
    and ov: "\<forall>v. ov = Some v \<longrightarrow> override_hvac_ok v \<and> (mo_until_checkout v \<longrightarrow> mo_expires_at v = None)"
  shows "if rm_key rm = []
    then derive_room_intent db (evaluate_room db rm bks now p ov) p now ov corr fresh
        = Inl (ValidationError ''String should have at least 1 character'')
    else \<exists>i. derive_room_intent db (evaluate_room db rm bks now p ov) p now ov corr fresh = Inr (Some i)
        \<and> intent_ok db i \<and> di_room_key i = rm_key rm \<and> di_intent_version i = 1
        \<and> di_automation_phase i = rs_phase (evaluate_room db rm bks now p ov)"
  using keyless_intent [of ov rm] evaluated_intent [OF assms] ov by auto

text \<open>The registry accepts a room with an empty key.\<close>

definition keyless_registry :: room_registry where
  "keyless_registry =
     \<lparr>rr_property = \<lparr>pr_key = ''p'', pr_name = ''H'', pr_timezone = ''Europe/Sofia''\<rparr>,
      rr_entrances = [\<lparr>en_key = ''entrance_a'', en_name = ''A'', en_gateway_host = None, en_gateway_port = None, en_enabled = True\<rparr>],
      rr_rooms = [sample_room [] None]\<rparr>"

lemma keyless_registry_accepted: "mk_room_registry keyless_registry = Inr keyless_registry"
  by (simp add: mk_room_registry_Inr registry_ok_def clock_ids_def g301_addresses_def map_filter_simps
      keyless_registry_def sample_room_def)

definition sample_override :: "manual_hvac_mode \<Rightarrow> pyfloat option \<Rightarrow> datetime option \<Rightarrow> manual_override" where
  "sample_override m t x =
     \<lparr>mo_control_mode = CM_MANUAL, mo_clock_booking_id = None, mo_hvac_mode = m,
      mo_target_temperature_c = t, mo_water_heater_enabled = Some True, mo_expires_at = x,
      mo_checkout_at = None, mo_until_checkout = False, mo_command_id = UUID 7\<rparr>"

theorem room_intent_total_witness:
  "\<exists>i. derive_room_intent (fixed_tzdb 0)
     (evaluate_room (fixed_tzdb 0) (sample_room ''101'' None)
        [sample_booking ''b'' BS_EXPECTED 14 17 None (Some ''101'')]
        (hotel_time 14 (12 * hour_us)) default_hotel_policy None)
     default_hotel_policy (hotel_time 14 (12 * hour_us)) None None (UUID 1) = Inr (Some i)"
  using room_intent_total [of default_hotel_policy
      "[sample_booking ''b'' BS_EXPECTED 14 17 None (Some ''101'')]" None "sample_room ''101'' None"
      "fixed_tzdb 0" "hotel_time 14 (12 * hour_us)" None "UUID 1"]
  by (auto simp: policy_times_ok_def sample_defs)

text \<open>A day-use stay (arrival and departure on one date), which the booking model accepts,
  makes the derivation raise under the default policy: from 11:00 on the pre-arrival window
  starts no earlier than it ends, and the intent's validator rejects it.\<close>

theorem day_use_stay_raises:
  assumes "rm_enabled rm" "rm_key rm \<noteq> []" and "nb_booking_status b = BS_EXPECTED" "assigned_to rm b"
    and "nb_departure_date b = nb_arrival_date b"
    and "dt_zone now = policy_tz default_hotel_policy"
    and "nb_arrival_date b * day_us + 11 * hour_us \<le> dt_wall now"
    and "dt_wall now < (nb_arrival_date b + 1) * day_us"
    and "mk_normalized_booking b = Inr b"
  shows "derive_room_intent db (evaluate_room db rm [b] now default_hotel_policy None)
      default_hotel_policy now None corr fresh
      = Inl (ValidationError ''expires_at must be after effective_from'')"
proof -
  have "dt_date now = nb_arrival_date b"
    using assms(7,8) unfolding dt_date_def
    by (intro int_div_pos_eq [of _ _ _ "dt_wall now - nb_arrival_date b * day_us"])
       (auto simp: algebra_simps)
  then have 1: "evaluate_room db rm [b] now default_hotel_policy None
      = evaluate_selected db rm b now default_hotel_policy None"
    unfolding single_expected [OF assms(1,3,4)] using assms(5) by simp
  have 2: "dt_le db (lead_start b default_hotel_policy) now"
    using assms(6,7)
    by (simp add: dt_le_same_zone wall_booking_times lead_def default_hotel_policy_def
        default_property_policy_def default_automation_policy_def)
  have 3: "dt_le db (checkout_at b default_hotel_policy) (lead_start b default_hotel_policy)"
    using assms(5)
    by (simp add: dt_le_same_zone wall_booking_times lead_def default_hotel_policy_def
        default_property_policy_def default_automation_policy_def)
  show "derive_room_intent db (evaluate_room db rm [b] now default_hotel_policy None)
      default_hotel_policy now None corr fresh
      = Inl (ValidationError ''expires_at must be after effective_from'')"
    unfolding 1 derive_room_intent_table using assms(2,3) 2 3
    by (simp add: evaluate_selected_def Let_def mk_hvac_intent_def build_intent_def
        mk_desired_room_intent_def intent_reason_def)
qed

theorem day_use_stay_raises_witness:
  "is_Inl (derive_room_intent (fixed_tzdb 0)
     (evaluate_room (fixed_tzdb 0) (sample_room ''101'' None)
        [sample_booking ''b'' BS_EXPECTED 14 14 None (Some ''101'')]
        (hotel_time 14 (12 * hour_us)) default_hotel_policy None)
     default_hotel_policy (hotel_time 14 (12 * hour_us)) None None (UUID 1))"
  using day_use_stay_raises [of "sample_room ''101'' None"
      "sample_booking ''b'' BS_EXPECTED 14 14 None (Some ''101'')" "hotel_time 14 (12 * hour_us)"
      "fixed_tzdb 0" None "UUID 1"]
  by (simp add: assigned_to_def mk_normalized_booking_def ge_zero_def sample_defs)

section \<open>Safety of the contents\<close>

lemma unsafe_room_row:
  assumes "\<not> rm_enabled rm \<or> unknown_for_room rm bks \<noteq> []
         \<or> has_conflict (active_bookings_for_room rm bks (dt_date now))"
  shows "intent_table ap ov (rs_phase (evaluate_room db rm bks now p ov)) = all_off"
proof -
  have "rs_phase (evaluate_room db rm bks now p ov) \<in> {PH_DISABLED, PH_UNKNOWN, PH_CONFLICT}"
    by (cases rule: evaluate_room_cases [of rm db bks now p ov])
       (use assms in \<open>auto simp: has_conflict_def\<close>)
  then show ?thesis by auto
qed

text \<open>A disabled room, a room named by a booking of unknown status and a room with overlapping
  active bookings all get the intent that switches everything off: control mode off, HVAC
  disabled without a target, water heater and convectors off, whatever override is active.\<close>

theorem unsafe_room_all_off:
  assumes "derive_room_intent db (evaluate_room db rm bks now p ov) p now ov corr fresh = Inr (Some i)"
    and "\<not> rm_enabled rm \<or> unknown_for_room rm bks \<noteq> []
         \<or> has_conflict (active_bookings_for_room rm bks (dt_date now))"
  shows "di_control_mode i = CM_OFF \<and> \<not> hi_enabled (di_hvac i) \<and> hi_mode (di_hvac i) = HV_OFF
    \<and> hi_target_temperature_c (di_hvac i) = None \<and> \<not> bi_enabled (di_water_heater i)
    \<and> \<not> bi_enabled (di_convectors i)"
  using derived_intent [OF assms(1)] unsafe_room_row [OF assms(2)] by (simp add: row_hvac_def all_off_def)

theorem unsafe_room_all_off_witness:
  "\<exists>i. di_control_mode i = CM_OFF \<and> \<not> bi_enabled (di_water_heater i) \<and>
     derive_room_intent (fixed_tzdb 0)
      (evaluate_room (fixed_tzdb 0) (sample_room ''101'' None)
         [sample_booking ''b1'' BS_EXPECTED 14 17 None (Some ''101''),
          sample_booking ''b2'' BS_EXPECTED 16 18 None (Some ''101'')]
         (hotel_time 14 (12 * hour_us)) default_hotel_policy None)
      default_hotel_policy (hotel_time 14 (12 * hour_us)) None None (UUID 1) = Inr (Some i)"
proof -
  let ?bks = "[sample_booking ''b1'' BS_EXPECTED 14 17 None (Some ''101''),
          sample_booking ''b2'' BS_EXPECTED 16 18 None (Some ''101'')]"
  have c: "has_conflict (active_bookings_for_room (sample_room ''101'' None) ?bks
      (dt_date (hotel_time 14 (12 * hour_us))))"
    unfolding has_conflict_def
    by (intro exI [of _ 0] exI [of _ 1]) (simp add: evaluation_defs sample_defs)
  obtain i where i: "derive_room_intent (fixed_tzdb 0)
      (evaluate_room (fixed_tzdb 0) (sample_room ''101'' None) ?bks
         (hotel_time 14 (12 * hour_us)) default_hotel_policy None)
      default_hotel_policy (hotel_time 14 (12 * hour_us)) None None (UUID 1) = Inr (Some i)"
    by (rule derive_total [of "evaluate_room (fixed_tzdb 0) (sample_room ''101'' None) ?bks
         (hotel_time 14 (12 * hour_us)) default_hotel_policy None" "''101''" None "fixed_tzdb 0"])
       (simp_all add: evaluation_defs sample_defs)
  from unsafe_room_all_off [OF i] c i show ?thesis by blast
qed

text \<open>The target temperature of an occupied room, of a room due for checkout and of a manual
  override lies within the policy's occupied bounds, unless it is NaN.\<close>

theorem comfort_target_within_bounds:
  assumes "derive_room_intent db st p now ov corr fresh = Inr (Some i)"
    and "rs_phase st \<in> {PH_OCCUPIED, PH_CHECKOUT_DUE, PH_MANUAL_OVERRIDE}"
    and "bounds_ok (hp_automation p)"
    and "hi_target_temperature_c (di_hvac i) = Some t" and "\<not> is_nan t"
  shows "f_le (ap_occupied_minimum_target_c (hp_automation p)) t
    \<and> f_le t (ap_occupied_maximum_target_c (hp_automation p))"
proof -
  let ?ap = "hp_automation p"
  have "\<exists>v. t = clamp_temperature ?ap v"
    using derived_intent(2) [OF assms(1)] assms(2,4)
    by (cases ov) (auto simp: row_hvac_def all_off_def)
  then obtain v where t: "t = clamp_temperature ?ap v" ..
  have "\<not> is_nan v"
    using assms(5) t by (cases v) (auto simp: clamp_temperature_def py_max_def py_min_def)
  then show ?thesis using clamp_between [OF assms(3)] t by blast
qed

theorem comfort_target_within_bounds_witness:
  "f_le (Fin 19) (Fin 22) \<and> f_le (Fin 22) (Fin 24) \<and>
   (\<exists>i. derive_room_intent (fixed_tzdb 0)
      (plain_evaluation (sample_room ''101'' None) PH_OCCUPIED None ''r'' (hotel_time 14 0) None)
      default_hotel_policy (hotel_time 14 0) None None (UUID 1) = Inr (Some i)
      \<and> hi_target_temperature_c (di_hvac i) = Some (Fin 22))"
proof -
  let ?st = "plain_evaluation (sample_room ''101'' None) PH_OCCUPIED None ''r'' (hotel_time 14 0) None"
  obtain i where i: "derive_room_intent (fixed_tzdb 0) ?st default_hotel_policy (hotel_time 14 0) None None (UUID 1)
      = Inr (Some i)"
    by (rule derive_total [of ?st "''101''" None "fixed_tzdb 0"]) (simp_all add: sample_defs)
  have t: "hi_target_temperature_c (di_hvac i) = Some (Fin 22)"
    using derived_intent(2) [OF i]
    by (simp add: row_hvac_def default_hotel_policy_def default_automation_policy_def
        clamp_temperature_def py_max_def py_min_def)
  from comfort_target_within_bounds [OF i _ _ t] i t show ?thesis
    by (auto simp: bounds_ok_def default_hotel_policy_def default_automation_policy_def)
qed

text \<open>The clamp lets a NaN target through unchanged, so a manual override with a NaN target is
  published with it: neither the clamp nor the intent's validators reject it.\<close>

theorem nan_target_published:
  assumes "rs_room_key st = Some k" "k \<noteq> []" "rs_reason st \<noteq> []" "rs_expires_at st = None"
    and "rs_phase st = PH_MANUAL_OVERRIDE" and "mo_hvac_mode v \<noteq> HV_OFF"
    and "mo_target_temperature_c v = Some NaN"
  shows "\<exists>i. derive_room_intent db st p now (Some v) corr fresh = Inr (Some i)
    \<and> hi_target_temperature_c (di_hvac i) = Some NaN"
proof -
  have "override_hvac_ok v" using assms(6,7) by (simp add: override_hvac_ok_def)
  then obtain i where i: "derive_room_intent db st p now (Some v) corr fresh = Inr (Some i)"
    using derive_total [of st k "Some v" db p now corr fresh] assms(1-4) by (metis option.distinct(1) option.inject)
  from derived_intent(2) [OF i] assms(5,7) show ?thesis
    by (intro exI [of _ i]) (simp add: i row_hvac_def clamp_temperature_def py_max_def py_min_def)
qed

theorem nan_target_published_witness:
  "\<exists>i. derive_room_intent (fixed_tzdb 0)
     (plain_evaluation (sample_room ''101'' None) PH_MANUAL_OVERRIDE None ''r'' (hotel_time 14 0) None)
     default_hotel_policy (hotel_time 14 0) (Some (sample_override HV_HEAT (Some NaN) None)) None (UUID 1)
     = Inr (Some i) \<and> hi_target_temperature_c (di_hvac i) = Some NaN"
  by (rule nan_target_published [of _ "''101''"])
     (simp_all add: sample_override_def sample_defs)

text \<open>The water heater is only ever asked for in a room that is being prepared for an arrival,
  is occupied, is due for checkout or is under a manual override.\<close>

theorem water_heater_only_for_guests:
  assumes "derive_room_intent db st p now ov corr fresh = Inr (Some i)"
    and "bi_enabled (di_water_heater i)"
  shows "rs_phase st \<in> {PH_PRE_ARRIVAL, PH_OCCUPIED, PH_CHECKOUT_DUE, PH_MANUAL_OVERRIDE}"
  using derived_intent(3) [OF assms(1)] assms(2)
  by (cases "rs_phase st"; cases ov) (simp_all add: all_off_def)

theorem water_heater_only_for_guests_witness:
  "PH_OCCUPIED \<in> {PH_PRE_ARRIVAL, PH_OCCUPIED, PH_CHECKOUT_DUE, PH_MANUAL_OVERRIDE} \<and>
   (\<exists>i. derive_room_intent (fixed_tzdb 0)
      (plain_evaluation (sample_room ''101'' None) PH_OCCUPIED None ''r'' (hotel_time 14 0) None)
      default_hotel_policy (hotel_time 14 0) None None (UUID 1) = Inr (Some i)
      \<and> bi_enabled (di_water_heater i))"
proof -
  let ?st = "plain_evaluation (sample_room ''101'' None) PH_OCCUPIED None ''r'' (hotel_time 14 0) None"
  obtain i where i: "derive_room_intent (fixed_tzdb 0) ?st default_hotel_policy (hotel_time 14 0) None None (UUID 1)
      = Inr (Some i)"
    by (rule derive_total [of ?st "''101''" None "fixed_tzdb 0"]) (simp_all add: sample_defs)
  have w: "bi_enabled (di_water_heater i)" using derived_intent(3) [OF i] by simp
  from water_heater_only_for_guests [OF i w] i w show ?thesis by auto
qed

section \<open>Commands\<close>

lemma timed_duration:
  assumes "mk_manual_control_command c = Inr c'" and "mc_override_duration c \<noteq> ''until_checkout''"
  shows "int_of_digits (mc_override_duration c) \<in> {60, 240, 720}"
  using assms by (auto simp: mk_manual_control_command_def override_durations_def int_of_digits_def
      split: if_splits)

text \<open>A valid command for a timed manual or off override gives an override that is active at
  once, for any booking, whose expiry is one of the supported durations away and no further
  than the policy's maximum, and whose target is the clamped one.\<close>

theorem timed_command_active:
  assumes "mk_manual_control_command c = Inr c" and "mc_override_duration c \<noteq> ''until_checkout''"
    and "mc_control_mode c \<noteq> CM_AUTOMATIC" and "command_to_override c ap now = Inr ov"
  shows "is_active db ov now cb \<and>
    (\<exists>m \<in> {60, 240, 720}. m \<le> ap_manual_override_max_minutes ap
       \<and> mo_expires_at ov = Some (dt_plus now (m * minute_us)))
    \<and> (mo_target_temperature_c ov = None \<or>
       (\<exists>t. mc_manual_target_temperature_c c = Some t
          \<and> mo_target_temperature_c ov = Some (clamp_temperature ap t)))"
  using timed_duration [OF assms(1,2)] assms(2-4)
  by (cases "mc_control_mode c")
     (auto simp: command_to_override_def duration_minutes_def is_active_def dt_less_same_zone
       bind_result_Inr split: if_splits)

definition sample_command :: "string \<Rightarrow> manual_control_command" where
  "sample_command d =
     \<lparr>mc_command_id = UUID 5, mc_control_mode = CM_MANUAL, mc_manual_hvac_mode = HV_HEAT,
      mc_manual_target_temperature_c = Some (Fin 30), mc_override_duration = d,
      mc_manual_water_heater_enabled = None, mc_schema_version = 1\<rparr>"

theorem timed_command_active_witness:
  "\<exists>ov. command_to_override (sample_command ''240'') default_automation_policy (hotel_time 14 0) = Inr ov
     \<and> is_active (fixed_tzdb 0) ov (hotel_time 14 0) None
     \<and> mo_target_temperature_c ov = Some (Fin 24)"
proof -
  have c: "mk_manual_control_command (sample_command ''240'') = Inr (sample_command ''240'')"
    by (simp add: mk_manual_control_command_def sample_command_def override_durations_def)
  obtain ov where ov: "command_to_override (sample_command ''240'') default_automation_policy (hotel_time 14 0)
      = Inr ov" and t: "mo_target_temperature_c ov = Some (Fin 24)"
    by (simp add: command_to_override_def sample_command_def duration_minutes_def int_of_digits_def
        default_automation_policy_def clamp_temperature_def py_max_def py_min_def)
  from timed_command_active [OF c _ _ ov, of "fixed_tzdb 0" None] ov t show ?thesis
    by (auto simp: sample_command_def)
qed

text \<open>The override that an until-checkout command converts to carries no checkout time, so it
  is never active, at no time and for no booking.\<close>

theorem until_checkout_command_never_active:
  assumes "mc_override_duration c = ''until_checkout''" and "command_to_override c ap now = Inr ov"
  shows "\<not> is_active db ov t cb"
  using assms
  by (cases "mc_control_mode c")
     (auto simp: command_to_override_def duration_minutes_def is_active_def split: if_splits)

theorem until_checkout_command_never_active_witness:
  "\<exists>ov. command_to_override (sample_command ''until_checkout'') default_automation_policy (hotel_time 14 0)
      = Inr ov \<and> \<not> is_active (fixed_tzdb 0) ov (hotel_time 14 0) None"
proof -
  obtain ov where ov: "command_to_override (sample_command ''until_checkout'') default_automation_policy
      (hotel_time 14 0) = Inr ov"
    by (simp add: command_to_override_def sample_command_def duration_minutes_def)
  from until_checkout_command_never_active [OF _ ov] ov show ?thesis
    by (auto simp: sample_command_def)
qed

end
