(* ===== verification/G301_Registers.thy ===== *)
theory G301_Registers
  imports Domain_Models "HOL-Library.Word"
begin

text \<open>
  The register map and codecs of \<^verbatim>\<open>app/g301_adapter/registers.py\<close> (TCL G301, Version G):
  register addresses, operating modes, the capability bits, the device profile with its
  range checks, the indoor fault bits, and the temperature encodings, whose float
  arithmetic is the rounding one of the library theory on floats. Python's ints are
  unbounded, so raw register values are \<open>int\<close>.
\<close>

unbundle bit_operations_syntax

section \<open>Registers and modes\<close>

datatype g301_register =
    REG_POWER | REG_MODE | REG_SET_TEMPERATURE | REG_FAN_SPEED | REG_MODE_LIMITATION
  | REG_TEMPERATURE_UPPER_LIMIT | REG_TEMPERATURE_LOWER_LIMIT | REG_IFEEL_SWITCH
  | REG_IFEEL_AMBIENT_TEMPERATURE | REG_CAPABILITIES | REG_POWER_STATUS | REG_MODE_STATUS
  | REG_FAN_STATUS | REG_ACCESS_CONTROL_STATUS | REG_AMBIENT_TEMPERATURE | REG_INDOOR_FAULT_FLAG
  | REG_INDOOR_FAULT_BITS

fun reg :: "g301_register \<Rightarrow> int" where
  "reg REG_POWER = 0x0201"
| "reg REG_MODE = 0x0202"
| "reg REG_SET_TEMPERATURE = 0x0203"
| "reg REG_FAN_SPEED = 0x0204"
| "reg REG_MODE_LIMITATION = 0x0214"
| "reg REG_TEMPERATURE_UPPER_LIMIT = 0x0215"
| "reg REG_TEMPERATURE_LOWER_LIMIT = 0x0216"
| "reg REG_IFEEL_SWITCH = 0x0219"
| "reg REG_IFEEL_AMBIENT_TEMPERATURE = 0x021A"
| "reg REG_CAPABILITIES = 0x030E"
| "reg REG_POWER_STATUS = 0x030F"
| "reg REG_MODE_STATUS = 0x0310"
| "reg REG_FAN_STATUS = 0x0311"
| "reg REG_ACCESS_CONTROL_STATUS = 0x0315"
| "reg REG_AMBIENT_TEMPERATURE = 0x0318"
| "reg REG_INDOOR_FAULT_FLAG = 0x0321"
| "reg REG_INDOOR_FAULT_BITS = 0x0322"

datatype g301_mode = GM_COOL | GM_DRY | GM_FAN | GM_HEAT | GM_AUTO

fun g301_mode_value :: "g301_mode \<Rightarrow> int" where
  "g301_mode_value GM_COOL = 1"
| "g301_mode_value GM_DRY = 2"
| "g301_mode_value GM_FAN = 3"
| "g301_mode_value GM_HEAT = 4"
| "g301_mode_value GM_AUTO = 5"

datatype g301_mode_limitation = ML_NONE | ML_HEAT_PROHIBITED | ML_COOL_DRY_PROHIBITED

definition g301_mode_limitation_of :: "int \<Rightarrow> g301_mode_limitation option" where
  "g301_mode_limitation_of raw =
     (if raw = 0 then Some ML_NONE else if raw = 1 then Some ML_HEAT_PROHIBITED
      else if raw = 2 then Some ML_COOL_DRY_PROHIBITED else None)"

fun mode_from_hvac_mode :: "manual_hvac_mode \<Rightarrow> g301_mode option" where
  "mode_from_hvac_mode HV_OFF = None"
| "mode_from_hvac_mode HV_HEAT = Some GM_HEAT"
| "mode_from_hvac_mode HV_COOL = Some GM_COOL"
| "mode_from_hvac_mode HV_AUTO = Some GM_AUTO"

section \<open>Bits\<close>

text \<open>\<^verbatim>\<open>bool(value & (1 << bit))\<close>\<close>

definition bit_set :: "int \<Rightarrow> nat \<Rightarrow> bool" where
  "bit_set v b = (v AND push_bit b 1 \<noteq> 0)"

record g301_capabilities =
  gc_up_down_swing :: bool
  gc_left_right_swing :: bool
  gc_electric_aux_heating :: bool
  gc_self_cleaning :: bool
  gc_gentle_breeze :: bool
  gc_energy_saving :: bool
  gc_health :: bool
  gc_access_control :: bool

definition parse_capabilities :: "int \<Rightarrow> g301_capabilities" where
  "parse_capabilities raw =
     \<lparr>gc_up_down_swing = bit_set raw 0, gc_left_right_swing = bit_set raw 1,
      gc_electric_aux_heating = bit_set raw 2, gc_self_cleaning = bit_set raw 3,
      gc_gentle_breeze = bit_set raw 4, gc_energy_saving = bit_set raw 5,
      gc_health = bit_set raw 6, gc_access_control = bit_set raw 7\<rparr>"

record g301_fault =
  gf_bit :: nat
  gf_code :: "string option"
  gf_description :: string

definition INDOOR_FAULTS :: "(nat \<times> string option \<times> string) list" where
  "INDOOR_FAULTS =
     [(15, Some ''E6'', ''interior fan malfunction''),
      (14, Some ''d4'', ''water full fault''),
      (13, Some ''PA'', ''mode conflict''),
      (12, Some ''Fu'', ''anti-freeze protection''),
      (11, Some ''b5'', ''interior fan drive failure''),
      (10, Some ''Eb'', ''communication failure between main control board and display screen''),
      (9, Some ''E0'', ''communication failure between indoor and outdoor units''),
      (8, Some ''E1'', ''ambient temperature sensor fault''),
      (7, None, ''reserved fault bit 7''),
      (6, Some ''E2'', ''middle tube temperature sensor fault''),
      (5, None, ''reserved fault bit 5''),
      (4, None, ''reserved fault bit 4''),
      (3, None, ''reserved fault bit 3''),
      (2, None, ''EEPROM communication failure''),
      (1, None, ''reserved fault bit 1''),
      (0, None, ''capacity DIP switch malfunction'')]"

definition decode_indoor_faults :: "int \<Rightarrow> g301_fault list" where
  "decode_indoor_faults raw =
     map (\<lambda>(b, c, d). \<lparr>gf_bit = b, gf_code = c, gf_description = d\<rparr>)
       (filter (\<lambda>(b, c, d). bit_set raw b) INDOOR_FAULTS)"

section \<open>The device profile\<close>

record g301_device_profile =
  dp_capabilities :: g301_capabilities
  dp_mode_limitation :: g301_mode_limitation
  dp_lower_temperature_c :: pyfloat
  dp_upper_temperature_c :: pyfloat

definition build_device_profile :: "int \<Rightarrow> int \<Rightarrow> int \<Rightarrow> int \<Rightarrow> g301_device_profile result" where
  "build_device_profile capabilities_raw mode_limitation_raw upper_raw lower_raw =
     (case g301_mode_limitation_of mode_limitation_raw of
        None \<Rightarrow> Inl (ValueError (''unsupported G301 mode limitation: '' @ show_int mode_limitation_raw))
      | Some lmt \<Rightarrow>
          (if \<not> (16 \<le> lower_raw \<and> lower_raw \<le> 25)
           then Inl (ValueError (''invalid G301 lower temperature limit: '' @ show_int lower_raw))
           else if \<not> (26 \<le> upper_raw \<and> upper_raw \<le> 31)
           then Inl (ValueError (''invalid G301 upper temperature limit: '' @ show_int upper_raw))
           else if upper_raw < lower_raw
           then Inl (ValueError ''G301 lower temperature limit exceeds upper limit'')
           else Inr \<lparr>dp_capabilities = parse_capabilities capabilities_raw, dp_mode_limitation = lmt,
                  dp_lower_temperature_c = Fin (of_int lower_raw),
                  dp_upper_temperature_c = Fin (of_int upper_raw)\<rparr>))"

section \<open>Temperature codecs\<close>

definition encode_set_temperature_c :: "pyfloat \<Rightarrow> int result" where
  "encode_set_temperature_c v =
     (if \<not> (f_le (Fin 16) v \<and> f_le v (Fin 31))
      then Inl (ValueError ''G301 set temperature must be 16-31 C'')
      else f_round (f_times_int v 10))"

definition decode_set_temperature_c :: "int \<Rightarrow> pyfloat" where
  "decode_set_temperature_c raw = f_over_int (Fin (of_int raw)) 10"

definition encode_ifeel_ambient_temperature_c :: "pyfloat \<Rightarrow> int result" where
  "encode_ifeel_ambient_temperature_c v =
     (if \<not> (f_le (Fin 0) v \<and> f_le v (Fin 50))
      then Inl (ValueError ''G301 iFeel ambient temperature must be 0-50 C'')
      else f_round (f_plus_int (f_times_int v 10) 1000))"

definition decode_offset_temperature_c :: "int \<Rightarrow> pyfloat" where
  "decode_offset_temperature_c raw = f_over_int (Fin (of_int (raw - 1000))) 10"

section \<open>Facts\<close>

lemma bit_set_iff: "bit_set v b \<longleftrightarrow> bit v b"
  by (simp add: bit_set_def bit_iff_and_push_bit_not_eq_0)

lemma fault_bits: "map fst INDOOR_FAULTS = rev [0..<16]"
  by (simp add: INDOOR_FAULTS_def upt_rec)

lemma build_device_profile_Inr:
  assumes "build_device_profile caps lmt ur lr = Inr pr"
  shows "dp_lower_temperature_c pr = Fin (of_int lr) \<and> dp_upper_temperature_c pr = Fin (of_int ur)
    \<and> 16 \<le> lr \<and> lr \<le> 25 \<and> 26 \<le> ur \<and> ur \<le> 31
    \<and> g301_mode_limitation_of lmt = Some (dp_mode_limitation pr)
    \<and> dp_capabilities pr = parse_capabilities caps"
  using assms by (auto simp: build_device_profile_def split: option.splits if_splits)

lemma build_device_profile_error:
  "build_device_profile caps lmt ur lr = Inl e \<Longrightarrow> \<exists>m. e = ValueError m"
  by (auto simp: build_device_profile_def split: option.splits if_splits)

text \<open>A setpoint inside the encoder's range: a finite number of tenths up to rounding.\<close>

lemma encode_set_temperature_Fin:
  assumes "16 \<le> q" and "q \<le> 31"
  obtains n where "encode_set_temperature_c (Fin q) = Inr n" "160 \<le> n" "n \<le> 310"
    "\<bar>of_int n - q * 10\<bar> \<le> 1 / 2 + 1 / 1000000"
proof -
  have "\<bar>q * 10\<bar> \<le> 2000" using assms by simp
  then obtain z where z: "round64 (q * 10) = Fin z" "\<bar>z - q * 10\<bar> < 1 / 1000000"
    by (rule round64_small)
  let ?n = "round_half_even z"
  have e: "\<bar>of_int ?n - z\<bar> \<le> 1 / 2" by (rule round_half_even_error)
  have "(159 :: rat) < of_int ?n" using e z(2) assms(1) by linarith
  then have lo: "160 \<le> ?n" by linarith
  have "(of_int ?n :: rat) < 311" using e z(2) assms(2) by linarith
  then have hi: "?n \<le> 310" by linarith
  have err: "\<bar>of_int ?n - q * 10\<bar> \<le> 1 / 2 + 1 / 1000000" using e z(2) by linarith
  have "encode_set_temperature_c (Fin q) = Inr ?n"
    using assms z(1) by (simp add: encode_set_temperature_c_def)
  with lo hi err that show thesis by blast
qed

lemma encode_set_temperature_Inr:
  assumes "encode_set_temperature_c v = Inr n"
  obtains q where "v = Fin q" "16 \<le> q" "q \<le> 31" "160 \<le> n" "n \<le> 310"
    "\<bar>of_int n - q * 10\<bar> \<le> 1 / 2 + 1 / 1000000"
proof -
  from assms have "f_le (Fin 16) v" "f_le v (Fin 31)"
    by (auto simp: encode_set_temperature_c_def split: if_splits)
  then obtain q where q: "v = Fin q" "16 \<le> q" "q \<le> 31" by (rule f_between_Fin)
  from encode_set_temperature_Fin [OF q(2,3)] assms q that show thesis by (metis sum.inject(2))
qed

lemma encode_set_temperature_total: "f_le (Fin 16) v \<Longrightarrow> f_le v (Fin 31) \<Longrightarrow> is_Inr (encode_set_temperature_c v)"
  by (erule (1) f_between_Fin) (metis encode_set_temperature_Fin is_Inr_iff)

lemma encode_set_temperature_of_int:
  assumes "16 \<le> k" and "k \<le> 31"
  shows "encode_set_temperature_c (Fin (of_int k)) = Inr (k * 10)"
proof -
  have "(of_int k * of_int 10 :: rat) = of_int (k * 10)" by simp
  moreover have "round64 (of_int (k * 10)) = Fin (of_int (k * 10))"
    using assms by (intro round64_of_int) simp
  ultimately have "f_times_int (Fin (of_int k)) 10 = Fin (of_int (k * 10))"
    by (simp only: f_times_int.simps)
  moreover have "f_le (Fin 16) (Fin (of_int k))" "f_le (Fin (of_int k)) (Fin 31)"
    using assms by simp_all
  ultimately show ?thesis
    unfolding encode_set_temperature_c_def
    by (simp only: f_round.simps round_half_even_of_int simp_thms if_False not_True_eq_False)
qed

section \<open>Properties of the codecs\<close>

lemma all_in_fault_bits: "map (\<lambda>(b, c, d). b) INDOOR_FAULTS = rev [0..<16]"
  by (simp add: INDOOR_FAULTS_def upt_rec)

text \<open>The decoded indoor faults are the set bits of the fault register, each once and from
  bit 15 down, whatever the other bits of the raw value are.\<close>

theorem indoor_faults_are_set_bits:
  "map gf_bit (decode_indoor_faults raw) = filter (bit raw) (rev [0..<16])"
proof -
  have "map gf_bit (decode_indoor_faults raw) =
      map (\<lambda>(b, c, d). b) (filter (\<lambda>(b, c, d). bit raw b) INDOOR_FAULTS)"
    unfolding decode_indoor_faults_def by (simp add: bit_set_iff split_def comp_def)
  also have "\<dots> = filter (bit raw) (map (\<lambda>(b, c, d). b) INDOOR_FAULTS)"
    by (simp add: filter_map split_def comp_def)
  finally show ?thesis by (simp only: all_in_fault_bits)
qed

text \<open>The capability profile reads the low byte of the capability word and all of it: two
  words give one profile exactly when they agree modulo 256.\<close>

theorem capabilities_are_low_byte:
  "parse_capabilities a = parse_capabilities b \<longleftrightarrow> a mod 256 = b mod 256"
proof -
  have "(\<forall>n < 8. bit a n = bit b n) \<longleftrightarrow> (\<forall>n \<in> set [0..<8]. bit a n = bit b n)" by auto
  also have "\<dots> \<longleftrightarrow> parse_capabilities a = parse_capabilities b"
    by (simp add: parse_capabilities_def bit_set_iff upt_rec numeral_eq_Suc)
  finally have "parse_capabilities a = parse_capabilities b \<longleftrightarrow> (\<forall>n < 8. bit a n = bit b n)" by blast
  also have "\<dots> \<longleftrightarrow> take_bit 8 a = take_bit 8 b"
    by (auto simp add: bit_eq_iff [of "take_bit 8 a"] bit_take_bit_iff possible_bit_def)
  finally show ?thesis by (simp add: take_bit_eq_mod)
qed

lemma f_over_int_near:
  assumes "\<bar>q\<bar> \<le> 2000"
  obtains y where "f_over_int (Fin (q * 10)) 10 = Fin y" "\<bar>y - q\<bar> < 1 / 1000000"
  using round64_small [OF assms] by (metis f_over_int.simps(1) nonzero_mult_div_cancel_right of_int_numeral zero_neq_numeral)

lemma decode_tenths:
  assumes "\<bar>raw\<bar> \<le> 20000"
  obtains y where "f_over_int (Fin (of_int raw)) 10 = Fin y" "\<bar>y - of_int raw / 10\<bar> < 1 / 1000000"
proof -
  have "\<bar>of_int raw / 10 :: rat\<bar> \<le> 2000"
  proof -
    have "of_int \<bar>raw\<bar> \<le> (of_int 20000 :: rat)" using assms by (simp only: of_int_le_iff)
    then show ?thesis by (simp add: abs_divide)
  qed
  then show thesis
    using f_over_int_near [of "of_int raw / 10"] that by auto
qed

text \<open>Decoded tenths of an interval with whole degrees as its ends stay inside the interval.\<close>

lemma decode_tenths_between:
  assumes "10 * a \<le> raw" and "raw \<le> 10 * b" and "\<bar>a\<bar> \<le> 100" and "\<bar>b\<bar> \<le> 100"
  obtains y where "f_over_int (Fin (of_int raw)) 10 = Fin y" "\<bar>y - of_int raw / 10\<bar> < 1 / 1000000"
    "of_int a \<le> y" "y \<le> of_int b"
proof -
  have "\<bar>raw\<bar> \<le> 20000" using assms by linarith
  then obtain y where y: "f_over_int (Fin (of_int raw)) 10 = Fin y"
      "\<bar>y - of_int raw / 10\<bar> < 1 / 1000000"
    by (rule decode_tenths)
  have exact: "y = of_int k" if "raw = 10 * k" for k
  proof -
    have "\<bar>k\<bar> \<le> 2 ^ 52" using that assms by simp
    from round64_of_int [OF this] y(1) that show ?thesis by simp
  qed
  have "of_int a \<le> y"
  proof (cases "raw = 10 * a")
    case True
    then show ?thesis using exact by simp
  next
    case False
    then have "10 * a + 1 \<le> raw" using assms by linarith
    then have "of_int (10 * a + 1) \<le> (of_int raw :: rat)" by (simp only: of_int_le_iff)
    then have "of_int a * 10 + 1 \<le> (of_int raw :: rat)" by simp
    then show ?thesis using y(2) by linarith
  qed
  moreover have "y \<le> of_int b"
  proof (cases "raw = 10 * b")
    case True
    then show ?thesis using exact by simp
  next
    case False
    then have "raw \<le> 10 * b - 1" using assms by linarith
    then have "(of_int raw :: rat) \<le> of_int (10 * b - 1)" by (simp only: of_int_le_iff)
    then have "(of_int raw :: rat) \<le> of_int b * 10 - 1" by simp
    then show ?thesis using y(2) by linarith
  qed
  ultimately show thesis using y that by blast
qed

lemma round64_then_round:
  assumes "\<bar>x - of_int n\<bar> < 1 / 1000" and "\<bar>x\<bar> \<le> 2000"
  shows "f_round (round64 x) = Inr n"
proof -
  obtain z where z: "round64 x = Fin z" "\<bar>z - x\<bar> < 1 / 1000000"
    using assms(2) by (rule round64_small)
  then have "\<bar>z - of_int n\<bar> < 1 / 2" using assms(1) by linarith
  then have "round_half_even z = n" by (rule round_half_even_nearest)
  with z show ?thesis by simp
qed

text \<open>C40. Round trip of the setpoint encoding: every raw setpoint the encoder can produce (160 to
  310 tenths) decodes to a float that encodes back to it, although a tenth of a degree has
  no exact binary representation.\<close>

theorem set_temperature_roundtrip:
  assumes "160 \<le> raw" and "raw \<le> 310"
  shows "encode_set_temperature_c (decode_set_temperature_c raw) = Inr raw"
proof -
  obtain y where y: "f_over_int (Fin (of_int raw)) 10 = Fin y" "\<bar>y - of_int raw / 10\<bar> < 1 / 1000000"
      "of_int 16 \<le> y" "y \<le> of_int 31"
    using decode_tenths_between [of 16 raw 31] assms by auto
  have "\<bar>y * 10 - of_int raw\<bar> < 1 / 1000" using y(2) by linarith
  moreover have "\<bar>y * 10\<bar> \<le> 2000" using y(3,4) by simp
  ultimately have "f_round (round64 (y * 10)) = Inr raw" by (rule round64_then_round)
  with y show ?thesis
    by (simp add: encode_set_temperature_c_def decode_set_temperature_c_def del: f_over_int.simps)
qed

theorem set_temperature_roundtrip_witness:
  "encode_set_temperature_c (decode_set_temperature_c 225) = Inr 225"
  by (rule set_temperature_roundtrip) simp_all

lemma set_temperature_encoded:
  shows "case encode_set_temperature_c v of
      Inr n \<Rightarrow> 160 \<le> n \<and> n \<le> 310 \<and> (\<exists>q. v = Fin q \<and> \<bar>of_int n / 10 - q\<bar> \<le> 1 / 20 + 1 / 10000000)
    | Inl e \<Rightarrow> is_ValueError e \<and> \<not> (f_le (Fin 16) v \<and> f_le v (Fin 31))"
proof (cases "f_le (Fin 16) v \<and> f_le v (Fin 31)")
  case True
  then obtain q where q: "v = Fin q" "16 \<le> q" "q \<le> 31" using f_between_Fin by blast
  obtain n where n: "encode_set_temperature_c (Fin q) = Inr n" "160 \<le> n" "n \<le> 310"
    "\<bar>of_int n - q * 10\<bar> \<le> 1 / 2 + 1 / 1000000"
    using q(2,3) by (rule encode_set_temperature_Fin)
  have "\<bar>of_int n / 10 - q\<bar> \<le> 1 / 20 + 1 / 10000000" using n(4) by linarith
  with n q show ?thesis by simp
next
  case False
  then have "encode_set_temperature_c v = Inl (ValueError ''G301 set temperature must be 16-31 C'')"
    by (simp only: encode_set_temperature_c_def if_True simp_thms)
  with False show ?thesis by simp
qed

lemma encoded_within:
  assumes "encode_set_temperature_c v = Inr n"
  shows "160 \<le> n" "n \<le> 310" "\<exists>q. v = Fin q \<and> \<bar>of_int n / 10 - q\<bar> \<le> 1 / 20 + 1 / 10000000"
  using set_temperature_encoded [of v] unfolding assms by simp_all

text \<open>The setpoint a G301 is given is within a twentieth of a degree (and the rounding of the
  product) of the requested temperature, always a register value from 160 to 310; a request
  outside 16 to 31 degrees, infinite or NaN is a ValueError and encodes nothing.\<close>

theorem set_temperature_encoding:
  shows "case encode_set_temperature_c v of
      Inr n \<Rightarrow> 160 \<le> n \<and> n \<le> 310 \<and> (\<exists>q. v = Fin q \<and> \<bar>of_int n / 10 - q\<bar> \<le> 1 / 20 + 1 / 10000000)
    | Inl e \<Rightarrow> is_ValueError e \<and> \<not> (f_le (Fin 16) v \<and> f_le v (Fin 31))"
  by (rule set_temperature_encoded)

text \<open>Round trip of the offset encoding of the ambient temperature sent to the iFeel register:
  raw values 1000 to 1500 (0 to 50 degrees) decode and encode back unchanged.\<close>

theorem ifeel_temperature_roundtrip:
  assumes "1000 \<le> raw" and "raw \<le> 1500"
  shows "encode_ifeel_ambient_temperature_c (decode_offset_temperature_c raw) = Inr raw"
proof -
  obtain y where y: "f_over_int (Fin (of_int (raw - 1000))) 10 = Fin y"
      "\<bar>y - of_int (raw - 1000) / 10\<bar> < 1 / 1000000" "of_int 0 \<le> y" "y \<le> of_int 50"
    using decode_tenths_between [of 0 "raw - 1000" 50] assms by auto
  have "\<bar>y * 10\<bar> \<le> 2000" using y(3,4) by simp
  then obtain z where z: "round64 (y * 10) = Fin z" "\<bar>z - y * 10\<bar> < 1 / 1000000"
    by (rule round64_small)
  have "of_int (raw - 1000) / 10 = (of_int raw / 10 - 100 :: rat)" by (simp add: diff_divide_distrib)
  then have "\<bar>y - (of_int raw / 10 - 100)\<bar> < 1 / 1000000" using y(2) by metis
  then have "\<bar>z + 1000 - of_int raw\<bar> < 1 / 1000" using z(2) by linarith
  moreover have "\<bar>z + 1000\<bar> \<le> 2000"
  proof -
    have "0 \<le> y" "y \<le> 50" using y(3,4) by simp_all
    with z(2) show ?thesis by linarith
  qed
  ultimately have "f_round (round64 (z + 1000)) = Inr raw" by (rule round64_then_round)
  with y z show ?thesis
    by (simp add: encode_ifeel_ambient_temperature_c_def decode_offset_temperature_c_def)
qed

theorem ifeel_temperature_roundtrip_witness:
  "encode_ifeel_ambient_temperature_c (decode_offset_temperature_c 1213) = Inr 1213"
  by (rule ifeel_temperature_roundtrip) simp_all

end
