(* ===== verification/G301_Planner.thy ===== *)
theory G301_Planner
  imports G301_Registers
begin

text \<open>
  \<^verbatim>\<open>app/g301_adapter/planner.py\<close>: the register writes that bring a G301 unit to a room intent,
  the readback each write is verified with, and the comparison of a readback with the plan.
  The exceptions of planning are \<open>G301PlanningError\<close> values; a setpoint the codec refuses
  would be its ValueError, which the device limits exclude.
\<close>

section \<open>Plans\<close>

record register_write =
  rw_address :: int
  rw_value :: int
  rw_reason :: string

record readback_expectation =
  re_address :: int
  re_expected :: int
  re_description :: string

record readback_mismatch =
  mm_address :: int
  mm_expected :: int
  mm_observed :: "int option"
  mm_description :: string

record g301_plan =
  pl_room_key :: string
  pl_slave_address :: int
  pl_intent_version :: int
  pl_correlation_id :: uuid
  pl_writes :: "register_write list"
  pl_readback_expectations :: "readback_expectation list"

definition status_addresses :: "int \<rightharpoonup> int \<times> string" where
  "status_addresses =
     [reg REG_POWER \<mapsto> (reg REG_POWER_STATUS, ''actual power status''),
      reg REG_MODE \<mapsto> (reg REG_MODE_STATUS, ''actual operating mode''),
      reg REG_SET_TEMPERATURE \<mapsto> (reg REG_SET_TEMPERATURE, ''accepted target temperature''),
      reg REG_FAN_SPEED \<mapsto> (reg REG_FAN_STATUS, ''actual fan status'')]"

definition readback_expectation_for :: "register_write \<Rightarrow> readback_expectation" where
  "readback_expectation_for w =
     (case (case status_addresses (rw_address w) of
              Some found \<Rightarrow> found
            | None \<Rightarrow> (rw_address w, ''command register readback'')) of
        (address, description) \<Rightarrow>
          \<lparr>re_address = address, re_expected = rw_value w, re_description = description\<rparr>)"

definition plan_of :: "desired_room_intent \<Rightarrow> int \<Rightarrow> register_write list \<Rightarrow> g301_plan" where
  "plan_of intent slave writes =
     \<lparr>pl_room_key = di_room_key intent, pl_slave_address = slave,
      pl_intent_version = di_intent_version intent, pl_correlation_id = di_correlation_id intent,
      pl_writes = writes, pl_readback_expectations = map readback_expectation_for writes\<rparr>"

definition validate_mode :: "int \<Rightarrow> g301_device_profile \<Rightarrow> unit result" where
  "validate_mode mode profile =
     (if dp_mode_limitation profile = ML_HEAT_PROHIBITED \<and> mode \<in> {4, 5}
      then Inl (G301PlanningError ''G301 device prohibits heat/auto mode'')
      else if dp_mode_limitation profile = ML_COOL_DRY_PROHIBITED \<and> mode \<in> {1, 2, 5}
      then Inl (G301PlanningError ''G301 device prohibits cool/dry/auto mode'')
      else Inr ())"

text \<open>The \<^verbatim>\<open>:g\<close> rendering of a device limit, which is a whole number of degrees.\<close>

fun show_degrees :: "pyfloat \<Rightarrow> string" where
  "show_degrees (Fin q) = show_int \<lfloor>q\<rfloor>"
| "show_degrees NaN = ''nan''"
| "show_degrees PInf = ''inf''"
| "show_degrees NInf = ''-inf''"

definition disabled_writes :: "register_write list" where
  "disabled_writes =
     [\<lparr>rw_address = reg REG_POWER, rw_value = 0, rw_reason = ''desired HVAC is disabled''\<rparr>]"

definition mode_write :: "manual_hvac_mode \<Rightarrow> g301_mode \<Rightarrow> register_write" where
  "mode_write hv mode =
     \<lparr>rw_address = reg REG_MODE, rw_value = g301_mode_value mode,
      rw_reason = ''desired HVAC mode is '' @ manual_hvac_mode_value hv\<rparr>"

definition setpoint_write :: "int \<Rightarrow> register_write" where
  "setpoint_write raw =
     \<lparr>rw_address = reg REG_SET_TEMPERATURE, rw_value = raw,
      rw_reason = ''desired HVAC target temperature''\<rparr>"

definition power_on_write :: register_write where
  "power_on_write = \<lparr>rw_address = reg REG_POWER, rw_value = 1, rw_reason = ''desired HVAC is enabled''\<rparr>"

definition enabled_writes ::
  "hvac_intent \<Rightarrow> g301_mode \<Rightarrow> g301_device_profile \<Rightarrow> register_write list result" where
  "enabled_writes hvac mode profile =
     bind_result (validate_mode (g301_mode_value mode) profile) (\<lambda>_.
     case hi_target_temperature_c hvac of
       None \<Rightarrow> Inl (G301PlanningError ''enabled G301 HVAC intent requires target_temperature_c'')
     | Some t \<Rightarrow>
         if \<not> (f_le (dp_lower_temperature_c profile) t \<and> f_le t (dp_upper_temperature_c profile))
         then Inl (G301PlanningError
                (''desired target temperature is outside G301 device limits (''
                 @ show_degrees (dp_lower_temperature_c profile) @ ''-''
                 @ show_degrees (dp_upper_temperature_c profile) @ '' C)''))
         else bind_result (encode_set_temperature_c t) (\<lambda>raw.
                Inr [mode_write (hi_mode hvac) mode, setpoint_write raw, power_on_write]))"

definition plan_room_intent ::
  "desired_room_intent \<Rightarrow> int \<Rightarrow> g301_device_profile option \<Rightarrow> g301_plan result" where
  "plan_room_intent intent slave profile_opt =
     (if \<not> (1 \<le> slave \<and> slave \<le> 255)
      then Inl (G301PlanningError ''G301 slave_address must be in the confirmed 1-255 range'')
      else if \<not> hi_enabled (di_hvac intent) \<or> hi_mode (di_hvac intent) = HV_OFF
      then Inr (plan_of intent slave disabled_writes)
      else case mode_from_hvac_mode (hi_mode (di_hvac intent)) of
        None \<Rightarrow> Inl (G301PlanningError
            (''unsupported enabled HVAC mode: '' @ manual_hvac_mode_value (hi_mode (di_hvac intent))))
      | Some mode \<Rightarrow>
          (case profile_opt of
             None \<Rightarrow> Inl (G301PlanningError
                 ''enabled G301 HVAC intent requires a device capability profile'')
           | Some profile \<Rightarrow>
               bind_result (enabled_writes (di_hvac intent) mode profile)
                 (\<lambda>writes. Inr (plan_of intent slave writes))))"

definition compare_readback :: "g301_plan \<Rightarrow> (int \<rightharpoonup> int) \<Rightarrow> readback_mismatch list" where
  "compare_readback plan observed =
     map (\<lambda>e. \<lparr>mm_address = re_address e, mm_expected = re_expected e,
               mm_observed = observed (re_address e), mm_description = re_description e\<rparr>)
       (filter (\<lambda>e. observed (re_address e) \<noteq> Some (re_expected e)) (pl_readback_expectations plan))"

section \<open>Facts\<close>

definition profile_ok :: "g301_device_profile \<Rightarrow> bool" where
  "profile_ok p \<longleftrightarrow>
     f_le (Fin 16) (dp_lower_temperature_c p) \<and> f_le (dp_upper_temperature_c p) (Fin 31)"

lemma build_device_profile_ok: "build_device_profile caps lmt ur lr = Inr p \<Longrightarrow> profile_ok p"
  by (drule build_device_profile_Inr) (auto simp: profile_ok_def)

lemma mode_from_hvac_mode_None: "mode_from_hvac_mode m = None \<longleftrightarrow> m = HV_OFF"
  by (cases m) simp_all

lemma readback_of_writes [simp]:
  "readback_expectation_for (mode_write hv m) =
     \<lparr>re_address = reg REG_MODE_STATUS, re_expected = g301_mode_value m, re_description = ''actual operating mode''\<rparr>"
  "readback_expectation_for (setpoint_write raw) =
     \<lparr>re_address = reg REG_SET_TEMPERATURE, re_expected = raw, re_description = ''accepted target temperature''\<rparr>"
  "readback_expectation_for power_on_write =
     \<lparr>re_address = reg REG_POWER_STATUS, re_expected = 1, re_description = ''actual power status''\<rparr>"
  "map readback_expectation_for disabled_writes =
     [\<lparr>re_address = reg REG_POWER_STATUS, re_expected = 0, re_description = ''actual power status''\<rparr>]"
  by (simp_all add: readback_expectation_for_def status_addresses_def mode_write_def setpoint_write_def
      power_on_write_def disabled_writes_def)

lemma compare_readback_Nil:
  "compare_readback plan observed = [] \<longleftrightarrow>
     (\<forall>e \<in> set (pl_readback_expectations plan). observed (re_address e) = Some (re_expected e))"
  by (auto simp: compare_readback_def filter_empty_conv)

lemma plan_of_simps [simp]:
  "pl_slave_address (plan_of i s ws) = s" "pl_writes (plan_of i s ws) = ws"
  "pl_readback_expectations (plan_of i s ws) = map readback_expectation_for ws"
  "pl_room_key (plan_of i s ws) = di_room_key i" "pl_intent_version (plan_of i s ws) = di_intent_version i"
  by (simp_all add: plan_of_def)

lemma enabled_writes_Inr:
  assumes "enabled_writes hvac mode profile = Inr ws"
  obtains t raw where "hi_target_temperature_c hvac = Some t"
    "validate_mode (g301_mode_value mode) profile = Inr ()"
    "f_le (dp_lower_temperature_c profile) t" "f_le t (dp_upper_temperature_c profile)"
    "encode_set_temperature_c t = Inr raw"
    "ws = [mode_write (hi_mode hvac) mode, setpoint_write raw, power_on_write]"
  using assms unfolding enabled_writes_def
  by (auto simp: bind_result_Inr split: option.splits if_splits)

lemma plan_room_intent_cases:
  assumes "plan_room_intent intent slave profile_opt = Inr plan"
  obtains (off) "\<not> hi_enabled (di_hvac intent) \<or> hi_mode (di_hvac intent) = HV_OFF"
      "1 \<le> slave" "slave \<le> 255" "plan = plan_of intent slave disabled_writes"
  | (on) mode profile ws where "hi_enabled (di_hvac intent)" "hi_mode (di_hvac intent) \<noteq> HV_OFF"
      "1 \<le> slave" "slave \<le> 255" "mode_from_hvac_mode (hi_mode (di_hvac intent)) = Some mode"
      "profile_opt = Some profile" "enabled_writes (di_hvac intent) mode profile = Inr ws"
      "plan = plan_of intent slave ws"
  using assms unfolding plan_room_intent_def
  by (auto simp: bind_result_Inr split: option.splits if_splits)

section \<open>Properties of planning\<close>

definition mode_allowed :: "g301_mode_limitation \<Rightarrow> g301_mode \<Rightarrow> bool" where
  "mode_allowed l m \<longleftrightarrow>
     (l = ML_HEAT_PROHIBITED \<longrightarrow> m \<notin> {GM_HEAT, GM_AUTO})
     \<and> (l = ML_COOL_DRY_PROHIBITED \<longrightarrow> m \<notin> {GM_COOL, GM_DRY, GM_AUTO})"

lemma validate_mode_Inr:
  "validate_mode (g301_mode_value m) p = (if mode_allowed (dp_mode_limitation p) m then Inr ()
     else Inl (G301PlanningError (if dp_mode_limitation p = ML_HEAT_PROHIBITED
            then ''G301 device prohibits heat/auto mode'' else ''G301 device prohibits cool/dry/auto mode'')))"
  by (cases "dp_mode_limitation p"; cases m) (simp_all add: validate_mode_def mode_allowed_def)

lemma profile_ok_encode:
  assumes "profile_ok p" and "f_le (dp_lower_temperature_c p) t" and "f_le t (dp_upper_temperature_c p)"
  obtains n where "encode_set_temperature_c t = Inr n" "160 \<le> n" "n \<le> 310"
proof -
  have "f_le (Fin 16) t" "f_le t (Fin 31)"
    using assms unfolding profile_ok_def by (meson f_le_trans)+
  then obtain n where "encode_set_temperature_c t = Inr n"
    using encode_set_temperature_total is_Inr_iff by metis
  with encode_set_temperature_Inr that show thesis by metis
qed

text \<open>Intents and profiles for the closed examples.\<close>

definition sample_intent :: "hvac_intent \<Rightarrow> desired_room_intent" where
  "sample_intent h =
     \<lparr>di_schema_version = 1, di_room_key = ''101'', di_intent_version = 4,
      di_automation_phase = PH_OCCUPIED, di_control_mode = CM_AUTOMATIC, di_effective_from = utc_at 0,
      di_expires_at = None, di_hvac = h, di_water_heater = \<lparr>bi_enabled = True\<rparr>,
      di_convectors = \<lparr>bi_enabled = False\<rparr>, di_reason = ''occupied'', di_correlation_id = UUID 7\<rparr>"

definition heat_22 :: hvac_intent where
  "heat_22 = \<lparr>hi_enabled = True, hi_mode = HV_HEAT, hi_target_temperature_c = Some (Fin 22)\<rparr>"

definition hvac_off :: hvac_intent where
  "hvac_off = \<lparr>hi_enabled = False, hi_mode = HV_OFF, hi_target_temperature_c = None\<rparr>"

definition sample_profile :: g301_device_profile where
  "sample_profile =
     \<lparr>dp_capabilities = parse_capabilities 0, dp_mode_limitation = ML_NONE,
      dp_lower_temperature_c = Fin 16, dp_upper_temperature_c = Fin 31\<rparr>"

lemmas planner_samples = sample_intent_def heat_22_def hvac_off_def sample_profile_def

lemma sample_profile_ok: "profile_ok sample_profile"
  by (simp add: profile_ok_def sample_profile_def)

lemma encode_22: "encode_set_temperature_c (Fin 22) = Inr 220"
  using encode_set_temperature_of_int [of 22] by simp

lemma sample_plan:
  "plan_room_intent (sample_intent heat_22) 3 (Some sample_profile) =
     Inr (plan_of (sample_intent heat_22) 3 [mode_write HV_HEAT GM_HEAT, setpoint_write 220, power_on_write])"
  by (simp add: plan_room_intent_def enabled_writes_def planner_samples encode_22 validate_mode_def
      del: plan_of_simps)

lemma planned_writes_safe:
  assumes "plan_room_intent intent slave profile_opt = Inr plan"
    and "case profile_opt of None \<Rightarrow> True | Some p \<Rightarrow> profile_ok p"
  shows "pl_slave_address plan = slave \<and> 1 \<le> slave \<and> slave \<le> 255
    \<and> (\<forall>w \<in> set (pl_writes plan). rw_address w \<in> {reg REG_MODE, reg REG_SET_TEMPERATURE, reg REG_POWER}
          \<and> 0 \<le> rw_value w \<and> rw_value w \<le> 0xFFFF)
    \<and> distinct (map rw_address (pl_writes plan))
    \<and> pl_writes plan \<noteq> [] \<and> rw_address (last (pl_writes plan)) = reg REG_POWER
    \<and> rw_value (last (pl_writes plan)) =
        (if hi_enabled (di_hvac intent) \<and> hi_mode (di_hvac intent) \<noteq> HV_OFF then 1 else 0)"
  using assms(1)
proof (cases rule: plan_room_intent_cases)
  case off
  then show ?thesis by (auto simp: disabled_writes_def)
next
  case (on mode profile ws)
  from on(6) assms(2) have ok: "profile_ok profile" by simp
  from on(7) obtain t raw where t: "f_le (dp_lower_temperature_c profile) t"
      "f_le t (dp_upper_temperature_c profile)" "encode_set_temperature_c t = Inr raw"
    and ws: "ws = [mode_write (hi_mode (di_hvac intent)) mode, setpoint_write raw, power_on_write]"
    by (rule enabled_writes_Inr)
  from profile_ok_encode [OF ok t(1,2)] t(3) have "160 \<le> raw" "raw \<le> 310" by auto
  moreover have "0 \<le> g301_mode_value mode" "g301_mode_value mode \<le> 5" by (cases mode; simp)+
  ultimately show ?thesis
    using on(1-4) unfolding on(8) ws
    by (simp add: mode_write_def setpoint_write_def power_on_write_def)
qed

text \<open>C34. Every plan is safe to put on the bus: it addresses the slave it was asked for, in the
  range 1 to 255. For an enabled intent it is exactly three writes in this order: the mode the
  intent names, the intent's target temperature in tenths of a degree, between 160 and 310, and
  power on, so a unit is switched on only after its mode and setpoint are in place, and only when
  the device's profile was read and allows the mode and the temperature. For a disabled intent it
  is the one write that switches the unit off.\<close>

theorem plan_safe:
  assumes "plan_room_intent intent slave profile_opt = Inr plan"
  shows "pl_slave_address plan = slave \<and> 1 \<le> slave \<and> slave \<le> 255
    \<and> (if hi_enabled (di_hvac intent) \<and> hi_mode (di_hvac intent) \<noteq> HV_OFF
       then \<exists>profile mode t raw. profile_opt = Some profile
         \<and> mode_from_hvac_mode (hi_mode (di_hvac intent)) = Some mode
         \<and> hi_target_temperature_c (di_hvac intent) = Some t
         \<and> mode_allowed (dp_mode_limitation profile) mode
         \<and> f_le (dp_lower_temperature_c profile) t \<and> f_le t (dp_upper_temperature_c profile)
         \<and> encode_set_temperature_c t = Inr raw \<and> 160 \<le> raw \<and> raw \<le> 310
         \<and> map (\<lambda>w. (rw_address w, rw_value w)) (pl_writes plan)
             = [(reg REG_MODE, g301_mode_value mode), (reg REG_SET_TEMPERATURE, raw), (reg REG_POWER, 1)]
       else map (\<lambda>w. (rw_address w, rw_value w)) (pl_writes plan) = [(reg REG_POWER, 0)])"
  using assms
proof (cases rule: plan_room_intent_cases)
  case off
  then show ?thesis by (auto simp: disabled_writes_def)
next
  case (on mode profile ws)
  from on(7) obtain t raw where t: "hi_target_temperature_c (di_hvac intent) = Some t"
      "validate_mode (g301_mode_value mode) profile = Inr ()"
      "f_le (dp_lower_temperature_c profile) t" "f_le t (dp_upper_temperature_c profile)"
      "encode_set_temperature_c t = Inr raw"
    and ws: "ws = [mode_write (hi_mode (di_hvac intent)) mode, setpoint_write raw, power_on_write]"
    by (rule enabled_writes_Inr)
  have "mode_allowed (dp_mode_limitation profile) mode"
    using t(2) by (simp add: validate_mode_Inr split: if_splits)
  moreover have "160 \<le> raw" "raw \<le> 310" by (rule encode_set_temperature_Inr [OF t(5)], simp)+
  ultimately show ?thesis
    using on(1-6) t unfolding on(8) ws
    by (simp add: mode_write_def setpoint_write_def power_on_write_def)
qed

theorem plan_safe_witness:
  "map (\<lambda>w. (rw_address w, rw_value w)) [mode_write HV_HEAT GM_HEAT, setpoint_write 220, power_on_write]
     = [(reg REG_MODE, 4), (reg REG_SET_TEMPERATURE, 220), (reg REG_POWER, 1)]"
  using plan_safe [OF sample_plan] by (simp add: planner_samples encode_22 del: reg.simps)

lemma plan_enabled_eq:
  assumes "1 \<le> slave" and "slave \<le> 255" and "hi_enabled (di_hvac intent)"
    and "mode_from_hvac_mode (hi_mode (di_hvac intent)) = Some mode"
  shows "plan_room_intent intent slave (Some p) =
    bind_result (enabled_writes (di_hvac intent) mode p) (\<lambda>ws. Inr (plan_of intent slave ws))"
  using assms mode_from_hvac_mode_None [of "hi_mode (di_hvac intent)"]
  by (auto simp: plan_room_intent_def)

lemma plan_enabled_allowed:
  assumes "1 \<le> slave" and "slave \<le> 255" and "hi_enabled (di_hvac intent)"
    and "mode_from_hvac_mode (hi_mode (di_hvac intent)) = Some mode"
    and "hi_target_temperature_c (di_hvac intent) = Some t" and "profile_ok p"
    and "mode_allowed (dp_mode_limitation p) mode"
    and "f_le (dp_lower_temperature_c p) t" and "f_le t (dp_upper_temperature_c p)"
  obtains raw where "encode_set_temperature_c t = Inr raw"
    "plan_room_intent intent slave (Some p) =
       Inr (plan_of intent slave [mode_write (hi_mode (di_hvac intent)) mode, setpoint_write raw, power_on_write])"
proof -
  obtain raw where "encode_set_temperature_c t = Inr raw"
    using profile_ok_encode [OF assms(6)] assms(8,9) by metis
  with that assms(5,7-9) show thesis
    unfolding plan_enabled_eq [OF assms(1-4), of p] by (simp add: enabled_writes_def validate_mode_Inr)
qed

text \<open>Planning an enabled intent is decided by the device: with a profile as the device read
  yields it, the plan exists exactly when the device's mode limitation allows the mode and
  the target lies within the device's limits, it is then the mode, the encoded setpoint and
  power on, in this order, and every refusal is a G301PlanningError.\<close>

theorem plan_enabled_decided:
  assumes "1 \<le> slave" and "slave \<le> 255" and "hvac_ok (di_hvac intent)"
    and "mode_from_hvac_mode (hi_mode (di_hvac intent)) = Some mode"
    and "hi_target_temperature_c (di_hvac intent) = Some t" and "profile_ok p"
  shows "if mode_allowed (dp_mode_limitation p) mode
            \<and> f_le (dp_lower_temperature_c p) t \<and> f_le t (dp_upper_temperature_c p)
    then \<exists>raw. encode_set_temperature_c t = Inr raw
           \<and> plan_room_intent intent slave (Some p) =
               Inr (plan_of intent slave
                      [mode_write (hi_mode (di_hvac intent)) mode, setpoint_write raw, power_on_write])
    else \<exists>m. plan_room_intent intent slave (Some p) = Inl (G301PlanningError m)"
proof -
  have en: "hi_enabled (di_hvac intent)"
    using assms(3,4) mode_from_hvac_mode_None [of "hi_mode (di_hvac intent)"] by (auto simp: hvac_ok_def)
  note plan = plan_enabled_eq [OF assms(1,2) en assms(4), of p]
  show ?thesis
  proof (cases "mode_allowed (dp_mode_limitation p) mode
      \<and> f_le (dp_lower_temperature_c p) t \<and> f_le t (dp_upper_temperature_c p)")
    case True
    then show ?thesis
      using plan_enabled_allowed [OF assms(1,2) en assms(4-6)] by auto
  next
    case False
    with assms(5) show ?thesis
      unfolding plan by (auto simp: enabled_writes_def validate_mode_Inr)
  qed
qed

theorem plan_enabled_decided_witness:
  "\<exists>raw. plan_room_intent (sample_intent heat_22) 3 (Some sample_profile) =
     Inr (plan_of (sample_intent heat_22) 3 [mode_write HV_HEAT GM_HEAT, setpoint_write raw, power_on_write])"
  using plan_enabled_decided [of 3 "sample_intent heat_22" GM_HEAT "Fin 22" sample_profile]
  by (simp add: planner_samples hvac_ok_def profile_ok_def mode_allowed_def) blast

text \<open>C30. A readback confirms a plan exactly when the status registers show the intended unit: whatever
  was observed, the comparison is free of mismatches if and only if, for an intent that is enabled with a mode
  other than off, the power status is 1, the mode status is the one of the intended mode and the setpoint
  register holds the encoded target, and for every other intent the power status is 0. A register that
  was not observed never counts as confirmed. The only condition is that the intent could be planned.\<close>

theorem readback_confirms:
  assumes "plan_room_intent intent slave (Some p) = Inr plan"
  shows "compare_readback plan observed = [] \<longleftrightarrow>
    (if hi_enabled (di_hvac intent) \<and> hi_mode (di_hvac intent) \<noteq> HV_OFF
     then observed (reg REG_POWER_STATUS) = Some 1
       \<and> observed (reg REG_MODE_STATUS) =
           map_option g301_mode_value (mode_from_hvac_mode (hi_mode (di_hvac intent)))
       \<and> (\<exists>t raw. hi_target_temperature_c (di_hvac intent) = Some t
             \<and> encode_set_temperature_c t = Inr raw \<and> observed (reg REG_SET_TEMPERATURE) = Some raw)
     else observed (reg REG_POWER_STATUS) = Some 0)"
  using assms
proof (cases rule: plan_room_intent_cases)
  case off
  then show ?thesis by (auto simp: compare_readback_Nil)
next
  case (on mode profile ws)
  from on(7) obtain t raw where t: "hi_target_temperature_c (di_hvac intent) = Some t"
      "encode_set_temperature_c t = Inr raw"
    and ws: "ws = [mode_write (hi_mode (di_hvac intent)) mode, setpoint_write raw, power_on_write]"
    by (rule enabled_writes_Inr)
  show ?thesis
    using on(1,2,5) t unfolding on(8) ws by (auto simp: compare_readback_Nil)
qed

theorem readback_confirms_witness:
  "compare_readback (plan_of (sample_intent heat_22) 3
       [mode_write HV_HEAT GM_HEAT, setpoint_write 220, power_on_write])
     [0x030F \<mapsto> 1, 0x0310 \<mapsto> 4, 0x0203 \<mapsto> 220] = []"
  using readback_confirms [OF sample_plan] by (simp add: planner_samples encode_22)

end
