(* ===== verification/G301_Transport.thy ===== *)
theory G301_Transport
  imports PyTime
begin

text \<open>
  \<^verbatim>\<open>app/g301_adapter/transport.py\<close>: the exception classes of the transport with their
  \<^verbatim>\<open>retryable\<close> attribute, and the \<^verbatim>\<open>G301RegisterClient\<close> protocol the worker is written against,
  as a locale. An operation of a client changes the state of whatever is behind it and
  returns or raises; the first argument is the deadline in seconds under which the worker
  awaits it, and an operation that does not finish in time raises \<open>TimeoutError\<close>, as
  \<^verbatim>\<open>asyncio.wait_for\<close> does.
\<close>

section \<open>Exceptions\<close>

fun is_transport_error :: "pyexc \<Rightarrow> bool" where
  "is_transport_error (G301TransportError _) = True"
| "is_transport_error (G301TransportTimeout _) = True"
| "is_transport_error (G301ModbusException _ _) = True"
| "is_transport_error (G301DeviceOffline _) = True"
| "is_transport_error (G301ProtocolError _) = True"
| "is_transport_error _ = False"

text \<open>The class attribute \<^verbatim>\<open>retryable\<close>: True on the base class, False on the two that override it.\<close>

fun exc_retryable :: "pyexc \<Rightarrow> bool" where
  "exc_retryable (G301ModbusException _ _) = False"
| "exc_retryable (G301ProtocolError _) = False"
| "exc_retryable _ = True"

text \<open>\<^verbatim>\<open>str(exc)\<close>. The worker reports the text of transport errors and of ValueErrors only, and its client
decodes no text; the text of a KeyError is the quoted key.\<close>

fun exc_message :: "pyexc \<Rightarrow> string" where
  "exc_message (ValueError m) = m"
| "exc_message (ValidationError m) = m"
| "exc_message (TypeError m) = m"
| "exc_message (KeyError m) = CHR 0x27 # m @ [CHR 0x27]"
| "exc_message (RuntimeError m) = m"
| "exc_message (OverflowError m) = m"
| "exc_message (G301PlanningError m) = m"
| "exc_message (G301TransportError m) = m"
| "exc_message (G301TransportTimeout m) = m"
| "exc_message (G301ModbusException m _) = m"
| "exc_message (G301DeviceOffline m) = m"
| "exc_message (G301ProtocolError m) = m"
| "exc_message (ClockMappingRequired m) = m"
| "exc_message (OtherError m) = m"
| "exc_message _ = []"

lemma transport_not_ValueError: "is_transport_error e \<Longrightarrow> \<not> is_ValueError e"
  by (cases e) simp_all

section \<open>The client protocol\<close>

type_synonym 'c write_op = "rat \<Rightarrow> int \<Rightarrow> int \<Rightarrow> int \<Rightarrow> ('c, unit) eff"
type_synonym 'c read_op = "rat \<Rightarrow> int \<Rightarrow> int \<Rightarrow> int \<Rightarrow> ('c, int list) eff"

text \<open>
  What a client may raise: a transport error, the deadline's TimeoutError, or an error of
  \<open>refused\<close>, the ValueErrors with which it refuses its arguments. No client fails with the
  worker's own internal errors.
\<close>

definition client_error :: "(pyexc \<Rightarrow> bool) \<Rightarrow> pyexc \<Rightarrow> bool" where
  "client_error refused e \<longleftrightarrow> is_transport_error e \<or> e = TimeoutError \<or> refused e"

locale register_client =
  fixes write_register :: "'c write_op"
    and read_holding_registers :: "'c read_op"
    and refused :: "pyexc \<Rightarrow> bool"
  assumes write_errors: "raises_only (client_error refused) (write_register timeout slave address value)"
    and read_errors: "raises_only (client_error refused) (read_holding_registers timeout slave address count)"
    and refused_ValueError: "refused e \<Longrightarrow> is_ValueError e"

end
