(* ===== verification/G301_Simulator.thy ===== *)
theory G301_Simulator
  imports G301_Planner G301_Transport
begin

text \<open>
  \<^verbatim>\<open>app/g301_adapter/simulator.py\<close>: the register simulator of one unit, whose power and mode
  status follow a control write after a number of reads, and the simulator of an entrance,
  which keeps one simulator per slave address and the log of the operations on the bus. Both
  are clients of the worker: their interpretations of the client protocol stand at the end.
\<close>

section \<open>One unit\<close>

record g301_sim =
  sm_slave_address :: int
  sm_status_delay_reads :: int
  sm_registers :: "int \<rightharpoonup> int"
  sm_pending_status :: "int \<rightharpoonup> int \<times> int"

definition default_registers :: "(int \<rightharpoonup> int) result" where
  "default_registers =
     bind_result (encode_set_temperature_c (Fin 22)) (\<lambda>setpoint.
       Inr [reg REG_POWER \<mapsto> 0, reg REG_MODE \<mapsto> 0, reg REG_SET_TEMPERATURE \<mapsto> setpoint,
            reg REG_MODE_LIMITATION \<mapsto> 0, reg REG_TEMPERATURE_UPPER_LIMIT \<mapsto> 31,
            reg REG_TEMPERATURE_LOWER_LIMIT \<mapsto> 16, reg REG_CAPABILITIES \<mapsto> 0,
            reg REG_POWER_STATUS \<mapsto> 0, reg REG_MODE_STATUS \<mapsto> 0, reg REG_FAN_STATUS \<mapsto> 0,
            reg REG_INDOOR_FAULT_FLAG \<mapsto> 0, reg REG_INDOOR_FAULT_BITS \<mapsto> 0])"

definition mk_g301_sim :: "int \<Rightarrow> (int \<rightharpoonup> int) option \<Rightarrow> int \<Rightarrow> g301_sim result" where
  "mk_g301_sim slave initial delay =
     (if \<not> (1 \<le> slave \<and> slave \<le> 255)
      then Inl (ValueError ''G301 slave_address must be in the confirmed 1-255 range'')
      else if delay < 0 then Inl (ValueError ''status_delay_reads cannot be negative'')
      else bind_result default_registers (\<lambda>regs.
        Inr \<lparr>sm_slave_address = slave, sm_status_delay_reads = delay,
             sm_registers = (case initial of None \<Rightarrow> regs | Some i \<Rightarrow> regs ++ i),
             sm_pending_status = Map.empty\<rparr>))"

definition advance_pending :: "int \<Rightarrow> g301_sim \<Rightarrow> g301_sim" where
  "advance_pending a s =
     (case sm_pending_status s a of
        None \<Rightarrow> s
      | Some (v, remaining) \<Rightarrow>
          (if remaining - 1 \<le> 0
           then s\<lparr>sm_registers := (sm_registers s)(a \<mapsto> v), sm_pending_status := (sm_pending_status s)(a := None)\<rparr>
           else s\<lparr>sm_pending_status := (sm_pending_status s)(a \<mapsto> (v, remaining - 1))\<rparr>))"

definition address_range :: "int \<Rightarrow> int \<Rightarrow> int list" where
  "address_range address count = map (\<lambda>k. address + int k) [0..<nat count]"

definition advance_pending_status :: "int \<Rightarrow> int \<Rightarrow> g301_sim \<Rightarrow> g301_sim" where
  "advance_pending_status address count s = foldl (\<lambda>s a. advance_pending a s) s (address_range address count)"

definition offline_error :: "int \<Rightarrow> pyexc" where
  "offline_error slave = G301DeviceOffline (''G301 slave '' @ show_int slave @ '' is not present'')"

definition sim_read :: "int \<Rightarrow> int \<Rightarrow> int \<Rightarrow> (g301_sim, int list) eff" where
  "sim_read slave address count s =
     (if slave \<noteq> sm_slave_address s then (Inl (offline_error slave), s)
      else if count < 1 then (Inl (ValueError ''count must be at least 1''), s)
      else (Inr (map (\<lambda>a. case sm_registers s a of None \<Rightarrow> 0 | Some v \<Rightarrow> v) (address_range address count)),
            advance_pending_status address count s))"

definition set_status :: "int \<Rightarrow> int \<Rightarrow> g301_sim \<Rightarrow> g301_sim" where
  "set_status address v s =
     (if sm_status_delay_reads s \<noteq> 0
      then s\<lparr>sm_pending_status := (sm_pending_status s)(address \<mapsto> (v, sm_status_delay_reads s))\<rparr>
      else s\<lparr>sm_registers := (sm_registers s)(address \<mapsto> v)\<rparr>)"

definition mirror_control_to_status :: "int \<Rightarrow> int \<Rightarrow> g301_sim \<Rightarrow> g301_sim" where
  "mirror_control_to_status address v s =
     (if address = reg REG_POWER then set_status (reg REG_POWER_STATUS) v s
      else if address = reg REG_MODE then set_status (reg REG_MODE_STATUS) v s
      else s)"

definition sim_write :: "int \<Rightarrow> int \<Rightarrow> int \<Rightarrow> (g301_sim, unit) eff" where
  "sim_write slave address v s =
     (if slave \<noteq> sm_slave_address s then (Inl (offline_error slave), s)
      else if \<not> (0 \<le> v \<and> v \<le> 0xFFFF)
      then (Inl (ValueError ''Modbus register values must fit in one unsigned word''), s)
      else (Inr (), mirror_control_to_status address v (s\<lparr>sm_registers := (sm_registers s)(address \<mapsto> v)\<rparr>)))"

fun sim_write_all :: "int \<Rightarrow> register_write list \<Rightarrow> (g301_sim, unit) eff" where
  "sim_write_all slave [] = ret ()"
| "sim_write_all slave (w # ws) =
     bindE (sim_write slave (rw_address w) (rw_value w)) (\<lambda>_. sim_write_all slave ws)"

fun sim_read_expected :: "int \<Rightarrow> readback_expectation list \<Rightarrow> (g301_sim, (int \<times> int) list) eff" where
  "sim_read_expected slave [] = ret []"
| "sim_read_expected slave (e # es) =
     bindE (sim_read slave (re_address e) 1) (\<lambda>vs.
     bindE (sim_read_expected slave es) (\<lambda>rest. ret ((re_address e, hd vs) # rest)))"

definition sim_apply_plan :: "g301_plan \<Rightarrow> (g301_sim, (int \<times> int) list) eff" where
  "sim_apply_plan plan s =
     (if pl_slave_address plan \<noteq> sm_slave_address s
      then (Inl (ValueError ''plan slave_address does not match simulator slave_address''), s)
      else bindE (sim_write_all (pl_slave_address plan) (pl_writes plan)) (\<lambda>_.
           bindE (sim_read_expected (pl_slave_address plan) (pl_readback_expectations plan)) (\<lambda>kvs.
             ret (dict_of kvs))) s)"

section \<open>An entrance\<close>

record entrance_sim =
  es_devices :: "int \<rightharpoonup> g301_sim"
  es_operations :: "(string \<times> int \<times> int) list"

definition on_device :: "int \<Rightarrow> (g301_sim, 'a) eff \<Rightarrow> (entrance_sim, 'a) eff" where
  "on_device slave m s =
     (case es_devices s slave of
        None \<Rightarrow> (Inl (offline_error slave), s)
      | Some d \<Rightarrow> (case m d of (r, d') \<Rightarrow> (r, s\<lparr>es_devices := (es_devices s)(slave \<mapsto> d')\<rparr>)))"

definition entrance_read :: "entrance_sim read_op" where
  "entrance_read timeout slave address count s =
     on_device slave (sim_read slave address count)
       (s\<lparr>es_operations := es_operations s @ [(''read'', slave, address)]\<rparr>)"

definition entrance_write :: "entrance_sim write_op" where
  "entrance_write timeout slave address v s =
     on_device slave (sim_write slave address v)
       (s\<lparr>es_operations := es_operations s @ [(''write'', slave, address)]\<rparr>)"

section \<open>The simulators are clients\<close>

lemma sim_read_errors: "sim_read slave address count s = (Inl e, s') \<Longrightarrow> client_error is_ValueError e"
  by (auto simp: sim_read_def client_error_def offline_error_def split: if_splits)

lemma sim_write_errors: "sim_write slave address v s = (Inl e, s') \<Longrightarrow> client_error is_ValueError e"
  by (auto simp: sim_write_def client_error_def offline_error_def split: if_splits)

lemma on_device_errors:
  "on_device slave m s = (Inl e, s') \<Longrightarrow> raises_only (client_error is_ValueError) m \<Longrightarrow> client_error is_ValueError e"
  by (auto simp: on_device_def client_error_def offline_error_def raises_only_def
      split: option.splits prod.splits)

interpretation sim_client: register_client "\<lambda>timeout. sim_write" "\<lambda>timeout. sim_read" is_ValueError
  by unfold_locales (auto simp: raises_only_def intro: sim_read_errors sim_write_errors)

interpretation entrance_client: register_client entrance_write entrance_read is_ValueError
proof
  fix timeout slave address count
  show "raises_only (client_error is_ValueError) (entrance_read timeout slave address count)"
    unfolding raises_only_def entrance_read_def
    by (blast intro: on_device_errors sim_client.read_errors)
next
  fix timeout slave address v
  show "raises_only (client_error is_ValueError) (entrance_write timeout slave address v)"
    unfolding raises_only_def entrance_write_def
    by (blast intro: on_device_errors sim_client.write_errors)
qed

end
