(* ===== verification/G301_Worker.thy ===== *)
theory G301_Worker
  imports G301_Planner G301_Transport
begin

text \<open>
  \<^verbatim>\<open>app/g301_adapter/worker.py\<close>: the worker of one entrance, which applies room intents to
  the units on one Modbus bus. Per room it keeps the seen, terminal and applied version
  watermarks and the current attempt; per slave the failure count and the end of its
  cooldown. \<open>apply_intent\<close> holds the bus lock for its whole run, so a call is one step of the
  state; an exception leaves the state as it was when it was raised.

  The worker record is the object: its configuration, and what is behind it as parameters:
  the two client operations awaited under the operation deadline, the clock, sleeping, the
  wall clock of a result's \<^verbatim>\<open>applied_at\<close>, the zone database, and the fingerprint, the SHA-256
  of the sorted JSON text of a payload. Delays in seconds are rationals: the configured
  floats are finite and a product with a power of two is exact.
\<close>

section \<open>Execution results\<close>

datatype execution_status =
    ES_ACCEPTED | ES_QUEUED | ES_WRITING | ES_APPLIED | ES_APPLIED_UNCONFIRMED | ES_REJECTED
  | ES_TIMEOUT | ES_MODBUS_EXCEPTION | ES_READBACK_MISMATCH | ES_DEVICE_OFFLINE
  | ES_NOT_YET_EFFECTIVE | ES_EXPIRED | ES_STALE | ES_FAILED | ES_SKIPPED

record register_write_result =
  wr_address :: string
  wr_value :: int

record intent_execution_result =
  er_schema_version :: int
  er_room_key :: string
  er_intent_version :: int
  er_adapter_key :: string
  er_handled_components :: "string list"
  er_status :: execution_status
  er_message :: "string option"
  er_applied_at :: datetime
  er_register_writes :: "register_write_result list"
  er_mismatches :: "(string \<times> int \<times> int option \<times> string) list"
  er_correlation_id :: uuid

section \<open>The state of the worker\<close>

datatype attempt_phase = AT_RETRYABLE | AT_WRITING | AT_VERIFICATION_PENDING | AT_TERMINAL

record intent_attempt =
  at_version :: int
  at_payload_fingerprint :: string
  at_phase :: attempt_phase
  at_plan :: "g301_plan option"
  at_completed_writes :: "register_write_result list"
  at_cached_result :: "intent_execution_result option"

record room_intent_state =
  ri_last_seen_version :: "int option"
  ri_last_terminal_version :: "int option"
  ri_last_applied_version :: "int option"
  ri_current_attempt :: "intent_attempt option"

definition empty_intent_state :: room_intent_state where
  "empty_intent_state =
     \<lparr>ri_last_seen_version = None, ri_last_terminal_version = None, ri_last_applied_version = None,
      ri_current_attempt = None\<rparr>"

record slave_failure =
  sf_consecutive_failures :: int
  sf_retry_after :: "datetime option"

record 'c worker_state =
  ws_intent_states :: "string \<rightharpoonup> room_intent_state"
  ws_slave_failures :: "int \<rightharpoonup> slave_failure"
  ws_env :: 'c

record 'c g301_worker =
  wk_entrance_key :: string
  wk_room_slave_addresses :: "string \<rightharpoonup> int"
  wk_operation_timeout_seconds :: rat
  wk_max_operation_attempts :: int
  wk_retry_backoff_seconds :: rat
  wk_readback_attempts :: int
  wk_readback_delay_seconds :: rat
  wk_slave_retry_base_seconds :: rat
  wk_slave_retry_max_seconds :: rat
  wk_validity_clock_skew_seconds :: rat
  wk_write_register :: "'c write_op"
  wk_read_holding_registers :: "'c read_op"
  wk_clock :: "'c \<Rightarrow> datetime \<times> 'c"
  wk_utc_now :: "'c \<Rightarrow> datetime \<times> 'c"
  wk_sleep :: "rat \<Rightarrow> 'c \<Rightarrow> 'c"
  wk_tzdb :: tzdb
  wk_hash :: "payload \<Rightarrow> string"

text \<open>The constructor: the configuration checks, the entrance, and the rooms it serves.\<close>

definition room_slaves :: "room_registry \<Rightarrow> string \<Rightarrow> string \<rightharpoonup> int" where
  "room_slaves registry entrance_key =
     map_of (rev (List.map_filter
       (\<lambda>r. if rm_enabled r \<and> rm_entrance_key r = entrance_key
            then map_option (\<lambda>g. (rm_key r, gm_slave_address g)) (rm_g301 r) else None)
       (rr_rooms registry)))"

definition mk_g301_worker :: "room_registry \<Rightarrow> 'c g301_worker \<Rightarrow> 'c g301_worker result" where
  "mk_g301_worker registry w =
     (if wk_operation_timeout_seconds w \<le> 0
      then Inl (ValueError ''operation_timeout_seconds must be positive'')
      else if wk_max_operation_attempts w < 1
      then Inl (ValueError ''max_operation_attempts must be at least 1'')
      else if wk_readback_attempts w < 1 then Inl (ValueError ''readback_attempts must be at least 1'')
      else if wk_retry_backoff_seconds w < 0 \<or> wk_readback_delay_seconds w < 0
      then Inl (ValueError ''retry and readback delays cannot be negative'')
      else if wk_slave_retry_base_seconds w \<le> 0
              \<or> wk_slave_retry_max_seconds w < wk_slave_retry_base_seconds w
      then Inl (ValueError ''slave retry delays are invalid'')
      else if wk_validity_clock_skew_seconds w < 0
      then Inl (ValueError ''validity_clock_skew_seconds cannot be negative'')
      else case map_of (rev (map (\<lambda>e. (en_key e, e)) (rr_entrances registry))) (wk_entrance_key w) of
        None \<Rightarrow> Inl (ValueError (''unknown entrance_key: '' @ wk_entrance_key w))
      | Some e \<Rightarrow>
          (if \<not> en_enabled e then Inl (ValueError (''entrance is disabled: '' @ wk_entrance_key w))
           else Inr (w\<lparr>wk_room_slave_addresses := room_slaves registry (wk_entrance_key w)\<rparr>)))"

definition initial_worker_state :: "'c \<Rightarrow> 'c worker_state" where
  "initial_worker_state c = \<lparr>ws_intent_states = Map.empty, ws_slave_failures = Map.empty, ws_env = c\<rparr>"

section \<open>Reading and updating the state\<close>

definition on_env :: "('c, 'a) eff \<Rightarrow> ('c worker_state, 'a) eff" where
  "on_env m s = (case m (ws_env s) of (r, c) \<Rightarrow> (r, s\<lparr>ws_env := c\<rparr>))"

definition read_clock :: "'c g301_worker \<Rightarrow> ('c worker_state, datetime) eff" where
  "read_clock w = on_env (\<lambda>c. case wk_clock w c of (now, c') \<Rightarrow> (Inr now, c'))"

definition sleep_for :: "'c g301_worker \<Rightarrow> rat \<Rightarrow> ('c worker_state, unit) eff" where
  "sleep_for w seconds = on_env (\<lambda>c. (Inr (), wk_sleep w seconds c))"

definition update_room :: "string \<Rightarrow> (room_intent_state \<Rightarrow> room_intent_state) \<Rightarrow> 'c worker_state \<Rightarrow> 'c worker_state" where
  "update_room k f s =
     (case ws_intent_states s k of
        None \<Rightarrow> s
      | Some st \<Rightarrow> s\<lparr>ws_intent_states := (ws_intent_states s)(k \<mapsto> f st)\<rparr>)"

definition update_attempt :: "string \<Rightarrow> (intent_attempt \<Rightarrow> intent_attempt) \<Rightarrow> 'c worker_state \<Rightarrow> 'c worker_state" where
  "update_attempt k f = update_room k (\<lambda>st. st\<lparr>ri_current_attempt := map_option f (ri_current_attempt st)\<rparr>)"

definition setdefault_room :: "string \<Rightarrow> 'c worker_state \<Rightarrow> 'c worker_state" where
  "setdefault_room k s =
     (case ws_intent_states s k of
        None \<Rightarrow> s\<lparr>ws_intent_states := (ws_intent_states s)(k \<mapsto> empty_intent_state)\<rparr>
      | Some _ \<Rightarrow> s)"

definition room_state :: "string \<Rightarrow> 'c worker_state \<Rightarrow> room_intent_state" where
  "room_state k s = (case ws_intent_states s k of None \<Rightarrow> empty_intent_state | Some st \<Rightarrow> st)"

definition attempt_plan :: "string \<Rightarrow> 'c worker_state \<Rightarrow> g301_plan option" where
  "attempt_plan k s = Option.bind (ri_current_attempt (room_state k s)) at_plan"

definition attempt_writes :: "string \<Rightarrow> 'c worker_state \<Rightarrow> register_write_result list" where
  "attempt_writes k s =
     (case ri_current_attempt (room_state k s) of None \<Rightarrow> [] | Some a \<Rightarrow> at_completed_writes a)"

record intent_version_state =
  iv_last_seen_version :: "int option"
  iv_last_terminal_version :: "int option"
  iv_last_applied_version :: "int option"
  iv_current_phase :: "attempt_phase option"

definition intent_version_state :: "string \<Rightarrow> 'c worker_state \<Rightarrow> intent_version_state" where
  "intent_version_state k s =
     (let st = room_state k s in
      \<lparr>iv_last_seen_version = ri_last_seen_version st, iv_last_terminal_version = ri_last_terminal_version st,
       iv_last_applied_version = ri_last_applied_version st,
       iv_current_phase = map_option at_phase (ri_current_attempt st)\<rparr>)"

definition slave_failure_state :: "int \<Rightarrow> 'c worker_state \<Rightarrow> slave_failure" where
  "slave_failure_state a s =
     (case ws_slave_failures s a of
        None \<Rightarrow> \<lparr>sf_consecutive_failures = 0, sf_retry_after = None\<rparr>
      | Some f \<Rightarrow> f)"

definition slave_retry_delay :: "'c g301_worker \<Rightarrow> int \<Rightarrow> rat" where
  "slave_retry_delay w failures =
     min (wk_slave_retry_base_seconds w * 2 ^ nat (min (failures - 1) 16)) (wk_slave_retry_max_seconds w)"

definition record_slave_failure :: "'c g301_worker \<Rightarrow> int \<Rightarrow> ('c worker_state, unit) eff" where
  "record_slave_failure w a =
     bindE (gets (slave_failure_state a)) (\<lambda>previous.
     let failures = sf_consecutive_failures previous + 1 in
     bindE (read_clock w) (\<lambda>now.
       modify (\<lambda>s. s\<lparr>ws_slave_failures := (ws_slave_failures s)(a \<mapsto>
          \<lparr>sf_consecutive_failures = failures,
           sf_retry_after = Some (dt_plus now (td_seconds (slave_retry_delay w failures)))\<rparr>)\<rparr>)))"

definition record_slave_success :: "int \<Rightarrow> ('c worker_state, unit) eff" where
  "record_slave_success a = modify (\<lambda>s. s\<lparr>ws_slave_failures := (ws_slave_failures s)(a := None)\<rparr>)"

section \<open>Results\<close>

definition make_result ::
  "'c g301_worker \<Rightarrow> desired_room_intent \<Rightarrow> execution_status \<Rightarrow> string option \<Rightarrow> register_write_result list
   \<Rightarrow> (string \<times> int \<times> int option \<times> string) list \<Rightarrow> ('c worker_state, intent_execution_result) eff" where
  "make_result w intent status message writes mismatches =
     bindE (on_env (\<lambda>c. case wk_utc_now w c of (now, c') \<Rightarrow> (Inr now, c'))) (\<lambda>now.
       ret \<lparr>er_schema_version = 1, er_room_key = di_room_key intent,
            er_intent_version = di_intent_version intent, er_adapter_key = ''g301'',
            er_handled_components = [''hvac''], er_status = status, er_message = message,
            er_applied_at = now, er_register_writes = writes, er_mismatches = mismatches,
            er_correlation_id = di_correlation_id intent\<rparr>)"

fun transport_failure_status :: "pyexc \<Rightarrow> execution_status" where
  "transport_failure_status (G301DeviceOffline _) = ES_DEVICE_OFFLINE"
| "transport_failure_status (G301TransportTimeout _) = ES_TIMEOUT"
| "transport_failure_status (G301ModbusException _ _) = ES_MODBUS_EXCEPTION"
| "transport_failure_status e = (if is_ValueError e then ES_REJECTED else ES_FAILED)"

definition transport_failure_result ::
  "'c g301_worker \<Rightarrow> desired_room_intent \<Rightarrow> pyexc \<Rightarrow> register_write_result list
   \<Rightarrow> ('c worker_state, intent_execution_result) eff" where
  "transport_failure_result w intent e writes =
     make_result w intent (transport_failure_status e) (Some (exc_message e)) writes []"

definition mark_terminal ::
  "string \<Rightarrow> intent_execution_result \<Rightarrow> bool \<Rightarrow> ('c worker_state, intent_execution_result) eff" where
  "mark_terminal k result applied =
     bindE (modify (update_room k (\<lambda>st.
       case ri_current_attempt st of
         None \<Rightarrow> st
       | Some a \<Rightarrow>
           st\<lparr>ri_current_attempt := Some (a\<lparr>at_phase := AT_TERMINAL, at_cached_result := Some result\<rparr>),
              ri_last_terminal_version := Some (at_version a),
              ri_last_applied_version :=
                (if applied then Some (at_version a) else ri_last_applied_version st)\<rparr>))) (\<lambda>_.
     ret result)"

section \<open>Operations on the bus\<close>

text \<open>
  \<^verbatim>\<open>_with_retry\<close>: \<open>k\<close> is the loop variable, \<open>n\<close> what is left of the range, \<open>last_error\<close> the last
  error. A timeout of the deadline becomes a G301TransportTimeout, a transport error that is
  not retryable leaves the loop, any other exception passes through.
\<close>

definition retry_backoff :: "'c g301_worker \<Rightarrow> nat \<Rightarrow> ('c worker_state, unit) eff" where
  "retry_backoff w k =
     (if int k + 1 < wk_max_operation_attempts w \<and> wk_retry_backoff_seconds w \<noteq> 0
      then sleep_for w (wk_retry_backoff_seconds w * 2 ^ k) else ret ())"

fun with_retry_from ::
  "'c g301_worker \<Rightarrow> ('c, 'a) eff \<Rightarrow> nat \<Rightarrow> nat \<Rightarrow> pyexc option \<Rightarrow> ('c worker_state, 'a) eff" where
  "with_retry_from w operation k 0 last_error = (case last_error of None \<Rightarrow> raise AssertionError | Some e \<Rightarrow> raise e)"
| "with_retry_from w operation k (Suc n) last_error =
     bindE (attemptE (on_env operation)) (\<lambda>r.
       case r of
         Inr v \<Rightarrow> ret v
       | Inl e \<Rightarrow>
           (if e = TimeoutError
            then bindE (retry_backoff w k) (\<lambda>_.
                   with_retry_from w operation (Suc k) n
                     (Some (G301TransportTimeout ''G301 operation timed out'')))
            else if is_transport_error e \<and> exc_retryable e
            then bindE (retry_backoff w k) (\<lambda>_. with_retry_from w operation (Suc k) n (Some e))
            else raise e))"

definition with_retry :: "'c g301_worker \<Rightarrow> ('c, 'a) eff \<Rightarrow> ('c worker_state, 'a) eff" where
  "with_retry w operation = with_retry_from w operation 0 (nat (wk_max_operation_attempts w)) None"

definition write_one :: "'c g301_worker \<Rightarrow> int \<Rightarrow> register_write \<Rightarrow> ('c worker_state, unit) eff" where
  "write_one w slave wr =
     with_retry w (wk_write_register w (wk_operation_timeout_seconds w) slave (rw_address wr) (rw_value wr))"

definition read_one :: "'c g301_worker \<Rightarrow> int \<Rightarrow> int \<Rightarrow> ('c worker_state, int) eff" where
  "read_one w slave address =
     bindE (with_retry w (wk_read_holding_registers w (wk_operation_timeout_seconds w) slave address 1)) (\<lambda>vs.
       if length vs \<noteq> 1
       then raise (G301ProtocolError ''G301 register read returned an incomplete response'')
       else ret (hd vs))"

definition read_device_profile :: "'c g301_worker \<Rightarrow> int \<Rightarrow> ('c worker_state, g301_device_profile) eff" where
  "read_device_profile w slave =
     bindE (read_one w slave (reg REG_CAPABILITIES)) (\<lambda>capabilities_raw.
     bindE (with_retry w (wk_read_holding_registers w (wk_operation_timeout_seconds w) slave
              (reg REG_MODE_LIMITATION) 3)) (\<lambda>limits.
       if length limits \<noteq> 3
       then raise (G301ProtocolError ''G301 limit read returned an incomplete response'')
       else case build_device_profile capabilities_raw (limits ! 0) (limits ! 1) (limits ! 2) of
         Inl e \<Rightarrow> raise (G301PlanningError (exc_message e))
       | Inr profile \<Rightarrow> ret profile))"

fun observe_all ::
  "'c g301_worker \<Rightarrow> int \<Rightarrow> readback_expectation list \<Rightarrow> (int \<rightharpoonup> int) \<Rightarrow> ('c worker_state, int \<rightharpoonup> int) eff" where
  "observe_all w slave [] observed = ret observed"
| "observe_all w slave (e # es) observed =
     bindE (read_one w slave (re_address e)) (\<lambda>v. observe_all w slave es (observed(re_address e \<mapsto> v)))"

text \<open>\<^verbatim>\<open>_readback\<close>: up to \<^verbatim>\<open>readback_attempts\<close> rounds of reading every expectation; \<open>k\<close> is the
  round, \<open>n\<close> what is left of the range.\<close>

fun readback_from ::
  "'c g301_worker \<Rightarrow> g301_plan \<Rightarrow> nat \<Rightarrow> nat \<Rightarrow> (int \<rightharpoonup> int) \<Rightarrow> ('c worker_state, int \<rightharpoonup> int) eff" where
  "readback_from w plan k 0 observed = ret observed"
| "readback_from w plan k (Suc n) observed =
     bindE (observe_all w (pl_slave_address plan) (pl_readback_expectations plan) Map.empty) (\<lambda>observed'.
       if compare_readback plan observed' = [] then ret observed'
       else bindE (if int k + 1 < wk_readback_attempts w \<and> wk_readback_delay_seconds w \<noteq> 0
                   then sleep_for w (wk_readback_delay_seconds w) else ret ()) (\<lambda>_.
              readback_from w plan (Suc k) n observed'))"

definition readback :: "'c g301_worker \<Rightarrow> g301_plan \<Rightarrow> ('c worker_state, int \<rightharpoonup> int) eff" where
  "readback w plan = readback_from w plan 0 (nat (wk_readback_attempts w)) Map.empty"

section \<open>Verification\<close>

definition mismatch_payload :: "readback_mismatch list \<Rightarrow> (string \<times> int \<times> int option \<times> string) list" where
  "mismatch_payload ms =
     dict_of (map (\<lambda>m. (''0x'' @ show_hex4 (mm_address m),
                        (mm_expected m, mm_observed m, mm_description m))) ms)"

definition verify_attempt ::
  "'c g301_worker \<Rightarrow> desired_room_intent \<Rightarrow> bool \<Rightarrow> ('c worker_state, intent_execution_result option) eff" where
  "verify_attempt w intent terminal_on_mismatch =
     (let k = di_room_key intent in
      bindE (gets (\<lambda>s. (attempt_plan k s, attempt_writes k s))) (\<lambda>(plan_opt, writes).
      case plan_opt of
        None \<Rightarrow> raise AssertionError
      | Some plan \<Rightarrow>
          bindE (attemptE (readback w plan)) (\<lambda>outcome.
          case outcome of
            Inl e \<Rightarrow>
              (if is_transport_error e
               then bindE (make_result w intent ES_APPLIED_UNCONFIRMED
                      (Some (''write outcome is uncertain and status verification failed: '' @ exc_message e))
                      writes []) (\<lambda>result.
                    if exc_retryable e then ret (Some result)
                    else bindE (mark_terminal k result False) (\<lambda>r. ret (Some r)))
               else raise e)
          | Inr observed \<Rightarrow>
              (let mismatches = compare_readback plan observed in
               if mismatches \<noteq> [] \<and> \<not> terminal_on_mismatch then ret None
               else bindE (make_result w intent
                      (if mismatches \<noteq> [] then ES_READBACK_MISMATCH else ES_APPLIED)
                      (if mismatches = [] then None
                       else Some ''G301 actual state did not match the desired state'')
                      writes (mismatch_payload mismatches)) (\<lambda>result.
                    bindE (mark_terminal k result (mismatches = [])) (\<lambda>r. ret (Some r)))))))"

section \<open>Execution\<close>

text \<open>The result of a slave in cooldown, None when it may be addressed.\<close>

definition cooldown_result ::
  "'c g301_worker \<Rightarrow> desired_room_intent \<Rightarrow> int \<Rightarrow> datetime \<Rightarrow> ('c worker_state, intent_execution_result option) eff" where
  "cooldown_result w intent slave now =
     bindE (gets (slave_failure_state slave)) (\<lambda>failure.
     case sf_retry_after failure of
       None \<Rightarrow> ret None
     | Some retry_after \<Rightarrow>
         (if dt_less (wk_tzdb w) now retry_after
          then bindE (make_result w intent ES_DEVICE_OFFLINE
                 (Some (''G301 slave is in retry cooldown until '' @ isoformat (wk_tzdb w) retry_after))
                 [] []) (\<lambda>r. ret (Some r))
          else ret None))"

fun write_all ::
  "'c g301_worker \<Rightarrow> string \<Rightarrow> int \<Rightarrow> register_write list \<Rightarrow> ('c worker_state, unit) eff" where
  "write_all w k slave [] = ret ()"
| "write_all w k slave (wr # wrs) =
     bindE (write_one w slave wr) (\<lambda>_.
     bindE (modify (update_attempt k (\<lambda>a. a\<lparr>at_completed_writes := at_completed_writes a
              @ [\<lparr>wr_address = ''0x'' @ show_hex4 (rw_address wr), wr_value = rw_value wr\<rparr>]\<rparr>))) (\<lambda>_.
     write_all w k slave wrs))"

definition set_phase :: "string \<Rightarrow> attempt_phase \<Rightarrow> ('c worker_state, unit) eff" where
  "set_phase k ph = modify (update_attempt k (\<lambda>a. a\<lparr>at_phase := ph\<rparr>))"

text \<open>The part of \<^verbatim>\<open>_execute_intent\<close> that reads the profile and plans.\<close>

definition make_plan :: "'c g301_worker \<Rightarrow> desired_room_intent \<Rightarrow> int \<Rightarrow> ('c worker_state, g301_plan) eff" where
  "make_plan w intent slave =
     bindE (if hi_enabled (di_hvac intent) \<and> hi_mode (di_hvac intent) \<noteq> HV_OFF
            then bindE (read_device_profile w slave) (\<lambda>p. ret (Some p)) else ret None) (\<lambda>profile.
       lift_result (plan_room_intent intent slave profile))"

text \<open>Its part from the plan on: the writes, then the verification.\<close>

definition carry_out_plan ::
  "'c g301_worker \<Rightarrow> desired_room_intent \<Rightarrow> int \<Rightarrow> g301_plan \<Rightarrow> ('c worker_state, intent_execution_result) eff" where
  "carry_out_plan w intent slave plan =
     (let k = di_room_key intent in
      bindE (modify (update_attempt k (\<lambda>a. a\<lparr>at_plan := Some plan, at_phase := AT_WRITING\<rparr>))) (\<lambda>_.
      bindE (attemptE (write_all w k slave (pl_writes plan))) (\<lambda>outcome.
      case outcome of
        Inl e \<Rightarrow>
          (if is_transport_error e
           then bindE (gets (attempt_writes k)) (\<lambda>writes.
                bindE (transport_failure_result w intent e writes) (\<lambda>result.
                if \<not> exc_retryable e then mark_terminal k result False
                else bindE (set_phase k AT_VERIFICATION_PENDING) (\<lambda>_.
                     bindE (record_slave_failure w slave) (\<lambda>_. ret result))))
           else raise e)
      | Inr _ \<Rightarrow>
          bindE (set_phase k AT_VERIFICATION_PENDING) (\<lambda>_.
          bindE (verify_attempt w intent True) (\<lambda>verified.
          case verified of
            None \<Rightarrow> raise AssertionError
          | Some result \<Rightarrow>
              bindE (if er_status result \<in> {ES_APPLIED, ES_READBACK_MISMATCH} then record_slave_success slave
                     else if er_status result = ES_APPLIED_UNCONFIRMED then record_slave_failure w slave
                     else ret ()) (\<lambda>_. ret result))))))"

definition planning_failed ::
  "'c g301_worker \<Rightarrow> desired_room_intent \<Rightarrow> int \<Rightarrow> pyexc \<Rightarrow> ('c worker_state, intent_execution_result) eff" where
  "planning_failed w intent slave e =
     (let k = di_room_key intent in
      case e of
        G301PlanningError m \<Rightarrow>
          bindE (make_result w intent ES_REJECTED (Some m) [] []) (\<lambda>result. mark_terminal k result False)
      | _ \<Rightarrow>
          (if is_ValueError e
           then bindE (transport_failure_result w intent e []) (\<lambda>result. mark_terminal k result False)
           else if is_transport_error e
           then bindE (transport_failure_result w intent e []) (\<lambda>result.
                if \<not> exc_retryable e then mark_terminal k result False
                else bindE (record_slave_failure w slave) (\<lambda>_. ret result))
           else raise e))"

definition plan_and_carry_out ::
  "'c g301_worker \<Rightarrow> desired_room_intent \<Rightarrow> int \<Rightarrow> ('c worker_state, intent_execution_result) eff" where
  "plan_and_carry_out w intent slave =
     bindE (attemptE (make_plan w intent slave)) (\<lambda>planned.
       case planned of
         Inr plan \<Rightarrow> carry_out_plan w intent slave plan
       | Inl e \<Rightarrow> planning_failed w intent slave e)"

definition execute_intent ::
  "'c g301_worker \<Rightarrow> desired_room_intent \<Rightarrow> int \<Rightarrow> ('c worker_state, intent_execution_result) eff" where
  "execute_intent w intent slave =
     (let k = di_room_key intent; skew = td_seconds (wk_validity_clock_skew_seconds w) in
      bindE (modify (update_attempt k (\<lambda>a. a\<lparr>at_phase := AT_RETRYABLE, at_plan := None, at_completed_writes := []\<rparr>))) (\<lambda>_.
      bindE (read_clock w) (\<lambda>now.
      if (case di_expires_at intent of None \<Rightarrow> False | Some x \<Rightarrow> dt_le (wk_tzdb w) x (dt_minus now skew))
      then bindE (make_result w intent ES_EXPIRED (Some ''intent validity window has expired'') [] [])
             (\<lambda>result. mark_terminal k result False)
      else if dt_less (wk_tzdb w) (dt_plus now skew) (di_effective_from intent)
      then make_result w intent ES_NOT_YET_EFFECTIVE (Some ''intent effective_from is in the future'') [] []
      else
        bindE (cooldown_result w intent slave now) (\<lambda>cooldown.
        case cooldown of
          Some result \<Rightarrow> ret result
        | None \<Rightarrow>
            plan_and_carry_out w intent slave))))"

text \<open>\<^verbatim>\<open>_resume_verification\<close>: verify what an interrupted attempt wrote before writing again.\<close>

definition resume_verification ::
  "'c g301_worker \<Rightarrow> desired_room_intent \<Rightarrow> int \<Rightarrow> ('c worker_state, intent_execution_result) eff" where
  "resume_verification w intent slave =
     (let k = di_room_key intent in
      bindE (read_clock w) (\<lambda>now.
      bindE (cooldown_result w intent slave now) (\<lambda>cooldown.
      case cooldown of
        Some result \<Rightarrow> ret result
      | None \<Rightarrow>
          bindE (gets (attempt_plan k)) (\<lambda>plan_opt.
          if plan_opt = None
          then bindE (set_phase k AT_RETRYABLE) (\<lambda>_. execute_intent w intent slave)
          else
            bindE (verify_attempt w intent False) (\<lambda>verified.
            case verified of
              Some result \<Rightarrow>
                bindE (if er_status result = ES_APPLIED then record_slave_success slave
                       else if er_status result = ES_APPLIED_UNCONFIRMED then record_slave_failure w slave
                       else ret ()) (\<lambda>_. ret result)
            | None \<Rightarrow>
                bindE (set_phase k AT_RETRYABLE) (\<lambda>_. execute_intent w intent slave))))))"

section \<open>Applying an intent\<close>

definition intent_fingerprint :: "'c g301_worker \<Rightarrow> desired_room_intent \<Rightarrow> string" where
  "intent_fingerprint w intent = wk_hash w (stable_payload intent)"

definition new_attempt :: "int \<Rightarrow> string \<Rightarrow> intent_attempt" where
  "new_attempt version fingerprint =
     \<lparr>at_version = version, at_payload_fingerprint = fingerprint, at_phase = AT_RETRYABLE,
      at_plan = None, at_completed_writes = [], at_cached_result = None\<rparr>"

definition redelivered ::
  "'c g301_worker \<Rightarrow> desired_room_intent \<Rightarrow> int \<Rightarrow> room_intent_state \<Rightarrow> ('c worker_state, intent_execution_result) eff" where
  "redelivered w intent slave st =
     (case ri_current_attempt st of
        None \<Rightarrow> raise (RuntimeError ''G301 intent version state is inconsistent'')
      | Some a \<Rightarrow>
          (if at_version a \<noteq> di_intent_version intent
           then raise (RuntimeError ''G301 intent version state is inconsistent'')
           else if at_payload_fingerprint a \<noteq> intent_fingerprint w intent
           then make_result w intent ES_REJECTED
                  (Some ''same intent version was received with a different payload'') [] []
           else if at_phase a = AT_TERMINAL
           then (case at_cached_result a of
                   None \<Rightarrow> raise AssertionError
                 | Some r \<Rightarrow> ret (r\<lparr>er_correlation_id := di_correlation_id intent\<rparr>))
           else if at_phase a \<in> {AT_WRITING, AT_VERIFICATION_PENDING}
           then resume_verification w intent slave
           else execute_intent w intent slave))"

definition apply_intent ::
  "'c g301_worker \<Rightarrow> desired_room_intent \<Rightarrow> ('c worker_state, intent_execution_result) eff" where
  "apply_intent w intent =
     (let k = di_room_key intent; v = di_intent_version intent in
      case wk_room_slave_addresses w k of
        None \<Rightarrow> make_result w intent ES_SKIPPED
                  (Some ''room has no configured G301 slave address for this entrance'') [] []
      | Some slave \<Rightarrow>
          bindE (modify (setdefault_room k)) (\<lambda>_.
          bindE (gets (room_state k)) (\<lambda>st.
          case ri_last_seen_version st of
            Some seen \<Rightarrow>
              (if v < seen
               then make_result w intent ES_STALE
                      (Some (''intent version is older than seen version '' @ show_int seen)) [] []
               else if seen < v
               then bindE (modify (update_room k (\<lambda>st. st\<lparr>ri_last_seen_version := Some v,
                            ri_current_attempt := Some (new_attempt v (intent_fingerprint w intent))\<rparr>))) (\<lambda>_.
                    execute_intent w intent slave)
               else redelivered w intent slave st)
          | None \<Rightarrow>
              bindE (modify (update_room k (\<lambda>st. st\<lparr>ri_last_seen_version := Some v,
                       ri_current_attempt := Some (new_attempt v (intent_fingerprint w intent))\<rparr>))) (\<lambda>_.
              execute_intent w intent slave))))"

text \<open>The deliveries of an intent topic, one after the other under the bus lock.\<close>

fun apply_intents ::
  "'c g301_worker \<Rightarrow> desired_room_intent list \<Rightarrow> 'c worker_state \<Rightarrow> intent_execution_result result list \<times> 'c worker_state" where
  "apply_intents w [] s = ([], s)"
| "apply_intents w (i # is) s =
     (case apply_intent w i s of (r, s') \<Rightarrow>
      case apply_intents w is s' of (rs, s'') \<Rightarrow> (r # rs, s''))"

end
