(* ===== verification/G301_Worker_Invariant.thy ===== *)
theory G301_Worker_Invariant
  imports G301_Worker
begin

text \<open>
  The invariant of the entrance worker's state, that every operation keeps it whatever the
  client does, and which exceptions can leave an operation. The lemmas are triples over the
  parts of \<open>apply_intent\<close>, proved in a locale that extends the client protocol.
\<close>

section \<open>The invariant\<close>

definition opt_le :: "int option \<Rightarrow> int option \<Rightarrow> bool" where
  "opt_le a b = (case a of None \<Rightarrow> True | Some x \<Rightarrow> (case b of None \<Rightarrow> False | Some y \<Rightarrow> x \<le> y))"

lemma opt_le_refl [simp]: "opt_le a a"
  by (cases a) (simp_all add: opt_le_def)

lemma opt_le_simps [simp]: "opt_le None b" "opt_le (Some x) (Some y) \<longleftrightarrow> x \<le> y" "\<not> opt_le (Some x) None"
  by (simp_all add: opt_le_def)

lemma opt_le_trans: "opt_le a b \<Longrightarrow> opt_le b c \<Longrightarrow> opt_le a c"
  by (cases a; cases b; cases c) auto

text \<open>What the attempt of a room's current version satisfies.\<close>

definition attempt_inv :: "string \<Rightarrow> room_intent_state \<Rightarrow> intent_attempt \<Rightarrow> bool" where
  "attempt_inv k st a \<longleftrightarrow>
     ri_last_seen_version st = Some (at_version a)
     \<and> (at_phase a = AT_TERMINAL \<longrightarrow>
          ri_last_terminal_version st = Some (at_version a)
          \<and> (\<exists>r. at_cached_result a = Some r \<and> er_room_key r = k \<and> er_intent_version r = at_version a
                 \<and> er_adapter_key r = ''g301'' \<and> er_handled_components r = [''hvac'']))
     \<and> (at_phase a \<in> {AT_WRITING, AT_VERIFICATION_PENDING} \<longrightarrow> at_plan a \<noteq> None)"

definition room_inv :: "string \<Rightarrow> room_intent_state \<Rightarrow> bool" where
  "room_inv k st \<longleftrightarrow>
     opt_le (ri_last_terminal_version st) (ri_last_seen_version st)
     \<and> opt_le (ri_last_applied_version st) (ri_last_terminal_version st)
     \<and> (case ri_current_attempt st of
          None \<Rightarrow> ri_last_seen_version st = None
        | Some a \<Rightarrow> attempt_inv k st a)"

definition worker_inv :: "'c worker_state \<Rightarrow> bool" where
  "worker_inv s \<longleftrightarrow>
     (\<forall>k st. ws_intent_states s k = Some st \<longrightarrow> room_inv k st)
     \<and> (\<forall>a f. ws_slave_failures s a = Some f \<longrightarrow> 1 \<le> sf_consecutive_failures f \<and> sf_retry_after f \<noteq> None)"

text \<open>The room of the intent has an attempt for the intent's version; it has a plan.\<close>

definition ready :: "desired_room_intent \<Rightarrow> 'c worker_state \<Rightarrow> bool" where
  "ready intent s \<longleftrightarrow> worker_inv s
     \<and> (\<exists>st a. ws_intent_states s (di_room_key intent) = Some st \<and> ri_current_attempt st = Some a
            \<and> at_version a = di_intent_version intent)"

definition planned :: "desired_room_intent \<Rightarrow> 'c worker_state \<Rightarrow> bool" where
  "planned intent s \<longleftrightarrow> ready intent s \<and> attempt_plan (di_room_key intent) s \<noteq> None"

definition answers :: "desired_room_intent \<Rightarrow> intent_execution_result \<Rightarrow> bool" where
  "answers intent r \<longleftrightarrow>
     er_room_key r = di_room_key intent \<and> er_intent_version r = di_intent_version intent
     \<and> er_correlation_id r = di_correlation_id intent \<and> er_adapter_key r = ''g301''
     \<and> er_handled_components r = [''hvac'']"

definition env_free :: "('c worker_state \<Rightarrow> bool) \<Rightarrow> bool" where
  "env_free P \<longleftrightarrow> (\<forall>s c. P (s\<lparr>ws_env := c\<rparr>) = P s)"

lemma env_free_inv [simp]: "env_free worker_inv" "env_free (ready intent)" "env_free (planned intent)"
  by (simp_all add: env_free_def worker_inv_def ready_def planned_def attempt_plan_def room_state_def)

lemma worker_inv_initial: "worker_inv (initial_worker_state c)"
  by (simp add: worker_inv_def initial_worker_state_def)

lemma worker_inv_roomD: "worker_inv s \<Longrightarrow> ws_intent_states s k = Some st \<Longrightarrow> room_inv k st"
  by (simp add: worker_inv_def)

text \<open>Updating one room keeps the invariant when the new state of the room satisfies it.\<close>

lemma worker_inv_put:
  "worker_inv s \<Longrightarrow> room_inv k st \<Longrightarrow> worker_inv (s\<lparr>ws_intent_states := (ws_intent_states s)(k \<mapsto> st)\<rparr>)"
  by (auto simp: worker_inv_def)

lemma readyE:
  assumes "ready intent s"
  obtains st a where "worker_inv s" "ws_intent_states s (di_room_key intent) = Some st"
    "ri_current_attempt st = Some a" "at_version a = di_intent_version intent"
    "room_inv (di_room_key intent) st" "attempt_inv (di_room_key intent) st a"
proof -
  from assms obtain st a where s: "worker_inv s" "ws_intent_states s (di_room_key intent) = Some st"
    "ri_current_attempt st = Some a" "at_version a = di_intent_version intent"
    by (auto simp: ready_def)
  moreover have r: "room_inv (di_room_key intent) st" using s(1,2) by (rule worker_inv_roomD)
  moreover have "attempt_inv (di_room_key intent) st a" using r s(3) by (simp add: room_inv_def)
  ultimately show thesis using that by blast
qed

text \<open>An attempt moves to another phase, or changes its plan and writes, in place.\<close>

lemma ready_update_attempt:
  assumes "ready intent s"
    and "\<And>a. at_version (f a) = at_version a"
    and "\<And>a. at_version a = di_intent_version intent \<Longrightarrow> at_phase (f a) = AT_TERMINAL \<Longrightarrow>
            at_phase a = AT_TERMINAL \<and> at_cached_result (f a) = at_cached_result a"
    and "\<And>a. Option.bind (Some a) at_plan = attempt_plan (di_room_key intent) s \<Longrightarrow>
            at_phase (f a) \<in> {AT_WRITING, AT_VERIFICATION_PENDING} \<Longrightarrow> at_plan (f a) \<noteq> None"
  shows "ready intent (update_attempt (di_room_key intent) f s)"
proof -
  let ?k = "di_room_key intent"
  from assms(1) obtain st a where s: "worker_inv s" "ws_intent_states s ?k = Some st"
    "ri_current_attempt st = Some a" "at_version a = di_intent_version intent"
    "room_inv ?k st" "attempt_inv ?k st a" by (rule readyE)
  let ?st = "st\<lparr>ri_current_attempt := Some (f a)\<rparr>"
  have u: "update_attempt ?k f s = s\<lparr>ws_intent_states := (ws_intent_states s)(?k \<mapsto> ?st)\<rparr>"
    using s by (simp add: update_attempt_def update_room_def)
  have plan: "Option.bind (Some a) at_plan = attempt_plan ?k s"
    using s by (simp add: attempt_plan_def room_state_def)
  have ai: "attempt_inv ?k ?st (f a)"
    using s(6) assms(2) [of a] assms(3) [OF s(4)] assms(4) [OF plan]
    unfolding attempt_inv_def by auto
  then have "room_inv ?k ?st" using s(5) by (simp add: room_inv_def)
  with s(1) have "worker_inv (update_attempt ?k f s)" unfolding u by (rule worker_inv_put)
  with s(4) assms(2) [of a] show ?thesis unfolding ready_def u by simp
qed

lemma attempt_plan_update:
  assumes "ready intent s"
  shows "attempt_plan (di_room_key intent) (update_attempt (di_room_key intent) f s) =
    (case ri_current_attempt (room_state (di_room_key intent) s) of
       None \<Rightarrow> None | Some a \<Rightarrow> at_plan (f a))"
  using assms
  by (elim readyE) (simp add: attempt_plan_def room_state_def update_attempt_def update_room_def)

section \<open>Triples over the operations\<close>

lemma triple_on_env:
  "env_free P \<Longrightarrow> raises_only V m \<Longrightarrow> triple P (on_env m) (\<lambda>_. P) (\<lambda>e s. V e \<and> P s)"
  unfolding triple_def on_env_def env_free_def raises_only_def
  by (auto split: prod.splits sum.splits) metis

lemma triple_env_step: "env_free P \<Longrightarrow> triple P (on_env (\<lambda>c. case f c of (v, c') \<Rightarrow> (Inr v, c'))) (\<lambda>_. P) E"
  by (auto simp: triple_def on_env_def env_free_def split: prod.splits)

lemma triple_read_clock: "env_free P \<Longrightarrow> triple P (read_clock w) (\<lambda>_. P) E"
  unfolding read_clock_def by (rule triple_env_step)

lemma triple_sleep_for: "env_free P \<Longrightarrow> triple P (sleep_for w t) (\<lambda>_. P) E"
  by (auto simp: triple_def sleep_for_def on_env_def env_free_def)

lemma triple_retry_backoff: "env_free P \<Longrightarrow> triple P (retry_backoff w k) (\<lambda>_. P) E"
  unfolding retry_backoff_def by (auto intro: triple_sleep_for triple_ends)

lemma triple_make_result:
  "env_free P \<Longrightarrow>
   triple P (make_result w intent status msg writes ms)
     (\<lambda>r s. P s \<and> answers intent r \<and> er_status r = status) E"
  unfolding make_result_def
  by (rule triple_bindE [where R = "\<lambda>_. P"], erule triple_env_step)
    (auto intro!: triple_ends simp: answers_def)

locale served_bus =
  register_client "wk_write_register w" "wk_read_holding_registers w" refused
  for w :: "'c g301_worker" and refused +
  assumes attempts: "1 \<le> wk_max_operation_attempts w"
begin

definition op_error :: "pyexc \<Rightarrow> bool" where
  "op_error e \<longleftrightarrow> is_transport_error e \<or> refused e"

lemma op_error_kind: "op_error e \<Longrightarrow> is_transport_error e \<or> is_ValueError e"
  using refused_ValueError by (auto simp: op_error_def)

lemma triple_with_retry_from:
  assumes "env_free P" and "raises_only (client_error refused) m"
  shows "(case last_error of None \<Rightarrow> n \<noteq> 0 | Some e \<Rightarrow> op_error e) \<Longrightarrow>
    triple P (with_retry_from w m k n last_error) (\<lambda>_. P) (\<lambda>e s. op_error e \<and> P s)"
proof (induction n arbitrary: k last_error)
  case 0
  then show ?case by (auto intro!: triple_ends split: option.splits)
next
  case (Suc n)
  have again: "triple P (bindE (retry_backoff w k) (\<lambda>_. with_retry_from w m (Suc k) n (Some e)))
      (\<lambda>_. P) (\<lambda>e s. op_error e \<and> P s)" if "op_error e" for e
    by (rule triple_bindE, rule triple_retry_backoff [OF assms(1)]) (use Suc.IH that in simp)
  have step: "triple (\<lambda>s. case r of Inr v \<Rightarrow> P s | Inl e \<Rightarrow> client_error refused e \<and> P s)
     (case r of Inr v \<Rightarrow> ret v
      | Inl e \<Rightarrow>
          (if e = TimeoutError
           then bindE (retry_backoff w k) (\<lambda>_. with_retry_from w m (Suc k) n
                  (Some (G301TransportTimeout ''G301 operation timed out'')))
           else if is_transport_error e \<and> exc_retryable e
           then bindE (retry_backoff w k) (\<lambda>_. with_retry_from w m (Suc k) n (Some e))
           else raise e)) (\<lambda>_. P) (\<lambda>e s. op_error e \<and> P s)" for r
  proof (cases r)
    case (Inr v)
    then show ?thesis by (auto intro: triple_ends)
  next
    case (Inl e)
    have timed: "op_error (G301TransportTimeout ''G301 operation timed out'')" by (simp add: op_error_def)
    have "client_error refused e \<Longrightarrow> e \<noteq> TimeoutError \<Longrightarrow> op_error e"
      by (auto simp: client_error_def op_error_def)
    moreover have "is_transport_error e \<Longrightarrow> op_error e" by (simp add: op_error_def)
    ultimately show ?thesis
      using again [OF timed] again [of e] Inl
      by (auto simp: triple_def split: prod.splits sum.splits)
  qed
  show ?case
    unfolding with_retry_from.simps
    by (rule triple_bindE [OF _ step])
      (rule triple_attemptE [OF triple_on_env [OF assms]])
qed

lemma triple_with_retry:
  "env_free P \<Longrightarrow> raises_only (client_error refused) m \<Longrightarrow>
   triple P (with_retry w m) (\<lambda>_. P) (\<lambda>e s. op_error e \<and> P s)"
  unfolding with_retry_def using attempts by (intro triple_with_retry_from) auto

lemma op_error_protocol: "op_error (G301ProtocolError m)"
  by (simp add: op_error_def)

lemma triple_write_one: "env_free P \<Longrightarrow> triple P (write_one w slave wr) (\<lambda>_. P) (\<lambda>e s. op_error e \<and> P s)"
  unfolding write_one_def by (erule triple_with_retry) (rule write_errors)

lemma triple_read_registers:
  "env_free P \<Longrightarrow>
   triple P (with_retry w (wk_read_holding_registers w t slave a n)) (\<lambda>_. P) (\<lambda>e s. op_error e \<and> P s)"
  by (erule triple_with_retry) (rule read_errors)

lemma triple_read_one: "env_free P \<Longrightarrow> triple P (read_one w slave a) (\<lambda>_. P) (\<lambda>e s. op_error e \<and> P s)"
  unfolding read_one_def
  by (rule triple_bindE, erule triple_read_registers)
    (auto intro!: triple_ends op_error_protocol)

lemma triple_read_device_profile:
  assumes "env_free P"
  shows "triple P (read_device_profile w slave) (\<lambda>p s. P s \<and> profile_ok p)
     (\<lambda>e s. (op_error e \<or> (\<exists>m. e = G301PlanningError m)) \<and> P s)"
proof -
  let ?E = "\<lambda>e s. (op_error e \<or> (\<exists>m. e = G301PlanningError m)) \<and> P s"
  have capabilities: "triple P (read_one w slave a) (\<lambda>_. P) ?E" for a
    by (rule triple_weaken [OF triple_read_one [OF assms]]) auto
  have limits: "triple P (with_retry w (wk_read_holding_registers w t slave a n)) (\<lambda>_. P) ?E" for t a n
    by (rule triple_weaken [OF triple_read_registers [OF assms]]) auto
  have rest: "triple P
      (if length ls \<noteq> 3 then raise (G301ProtocolError ''G301 limit read returned an incomplete response'')
       else case build_device_profile c (ls ! 0) (ls ! 1) (ls ! 2) of
         Inl e \<Rightarrow> raise (G301PlanningError (exc_message e)) | Inr profile \<Rightarrow> ret profile)
      (\<lambda>p s. P s \<and> profile_ok p) ?E" for c ls
    by (auto intro!: triple_ends op_error_protocol intro: build_device_profile_ok split: sum.splits)
  show ?thesis
    unfolding read_device_profile_def
    by (rule triple_bindE [OF capabilities triple_bindE [OF limits rest]])
qed

lemma triple_observe_all:
  "env_free P \<Longrightarrow> triple P (observe_all w slave es obs) (\<lambda>_. P) (\<lambda>e s. op_error e \<and> P s)"
proof (induction es arbitrary: obs)
  case Nil
  show ?case by (auto intro: triple_ends)
next
  case (Cons e es)
  show ?case
    unfolding observe_all.simps
    by (rule triple_bindE [OF triple_read_one [OF Cons.prems] Cons.IH [OF Cons.prems]])
qed

lemma triple_readback_from:
  "env_free P \<Longrightarrow> triple P (readback_from w plan k n obs) (\<lambda>_. P) (\<lambda>e s. op_error e \<and> P s)"
proof (induction n arbitrary: k obs)
  case 0
  show ?case by (auto intro: triple_ends)
next
  case (Suc n)
  show ?case
    unfolding readback_from.simps
    apply (rule triple_bindE [OF triple_observe_all [OF Suc.prems]])
    using Suc by (auto intro!: triple_ends triple_bindE [where R = "\<lambda>_. P"] intro: triple_sleep_for)
qed

lemma triple_readback: "env_free P \<Longrightarrow> triple P (readback w plan) (\<lambda>_. P) (\<lambda>e s. op_error e \<and> P s)"
  unfolding readback_def by (rule triple_readback_from)

lemma triple_make_plan:
  assumes "env_free P"
  shows "triple P (make_plan w intent slave) (\<lambda>_. P)
     (\<lambda>e s. (op_error e \<or> (\<exists>m. e = G301PlanningError m)) \<and> P s)"
proof -
  have planning: "\<exists>m. e = G301PlanningError m"
    if "plan_room_intent intent slave prof = Inl e" "case prof of None \<Rightarrow> True | Some p \<Rightarrow> profile_ok p" for prof e
    using that profile_ok_encode
    by (auto simp: plan_room_intent_def enabled_writes_def validate_mode_Inr bind_result_def
        split: if_splits option.splits sum.splits) (metis Inl_Inr_False)
  show ?thesis
    unfolding make_plan_def
    apply (rule triple_bindE [where R = "\<lambda>prof s. P s \<and> (case prof of None \<Rightarrow> True | Some p \<Rightarrow> profile_ok p)"])
     apply (auto intro!: triple_ends triple_bindE [OF triple_read_device_profile [OF assms]]) [1]
    apply (auto simp: triple_def split: sum.splits dest: planning)
    done
qed

end

section \<open>The parts of an execution keep the invariant\<close>

lemma triple_update_attempt:
  assumes "\<And>a. at_version (f a) = at_version a"
    and "\<And>a. at_phase (f a) = AT_TERMINAL \<Longrightarrow> at_phase a = AT_TERMINAL \<and> at_cached_result (f a) = at_cached_result a"
    and "\<And>a. at_phase (f a) \<in> {AT_WRITING, AT_VERIFICATION_PENDING} \<Longrightarrow> at_plan (f a) \<noteq> None"
  shows "triple (ready intent) (modify (update_attempt (di_room_key intent) f)) (\<lambda>_. ready intent) E"
  by (rule triple_modify, rule ready_update_attempt) (use assms in auto)

lemma planned_update_attempt:
  assumes "planned intent s"
    and "\<And>a. at_version (f a) = at_version a"
    and "\<And>a. at_phase (f a) = AT_TERMINAL \<Longrightarrow> at_phase a = AT_TERMINAL \<and> at_cached_result (f a) = at_cached_result a"
    and "\<And>a. at_plan a \<noteq> None \<Longrightarrow> at_plan (f a) \<noteq> None"
  shows "planned intent (update_attempt (di_room_key intent) f s)"
proof -
  from assms(1) have r: "ready intent s" and p: "attempt_plan (di_room_key intent) s \<noteq> None"
    by (simp_all add: planned_def)
  have "ready intent (update_attempt (di_room_key intent) f s)"
    using p assms(4) by (intro ready_update_attempt [OF r assms(2)] assms(3)) auto
  moreover have "attempt_plan (di_room_key intent) (update_attempt (di_room_key intent) f s) \<noteq> None"
    unfolding attempt_plan_update [OF r]
    using p assms(4)
    by (cases "ri_current_attempt (room_state (di_room_key intent) s)") (auto simp: attempt_plan_def)
  ultimately show ?thesis by (simp add: planned_def)
qed

lemma triple_start_writing:
  "triple (ready intent)
     (modify (update_attempt (di_room_key intent) (\<lambda>a. a\<lparr>at_plan := Some plan, at_phase := AT_WRITING\<rparr>)))
     (\<lambda>_. planned intent) E"
proof (rule triple_modify)
  fix s assume r: "ready intent s"
  let ?f = "\<lambda>a. a\<lparr>at_plan := Some plan, at_phase := AT_WRITING\<rparr> :: intent_attempt"
  have "ready intent (update_attempt (di_room_key intent) ?f s)"
    by (rule ready_update_attempt [OF r]) auto
  moreover have "ri_current_attempt (room_state (di_room_key intent) s) \<noteq> None"
    using r by (elim readyE) (simp add: room_state_def)
  ultimately show "planned intent (update_attempt (di_room_key intent) ?f s)"
    unfolding planned_def attempt_plan_update [OF r] by (auto split: option.splits)
qed

lemma triple_set_phase_pending:
  "triple (planned intent) (set_phase (di_room_key intent) AT_VERIFICATION_PENDING) (\<lambda>_. planned intent) E"
  unfolding set_phase_def by (rule triple_modify, erule planned_update_attempt) auto

lemma triple_set_phase_retryable:
  "triple (ready intent) (set_phase (di_room_key intent) AT_RETRYABLE) (\<lambda>_. ready intent) E"
  unfolding set_phase_def by (rule triple_update_attempt) auto

lemma triple_mark_terminal:
  assumes "answers intent result"
  shows "triple (ready intent) (mark_terminal (di_room_key intent) result applied)
     (\<lambda>r s. r = result \<and> ready intent s) E"
  unfolding mark_terminal_def
proof (rule triple_bindE [OF triple_modify])
  fix s :: "'c worker_state" assume "ready intent s"
  then obtain st a where s: "worker_inv s" "ws_intent_states s (di_room_key intent) = Some st"
    "ri_current_attempt st = Some a" "at_version a = di_intent_version intent"
    "room_inv (di_room_key intent) st" "attempt_inv (di_room_key intent) st a" by (rule readyE)
  let ?f = "\<lambda>st. case ri_current_attempt st of
         None \<Rightarrow> st
       | Some a \<Rightarrow>
           st\<lparr>ri_current_attempt := Some (a\<lparr>at_phase := AT_TERMINAL, at_cached_result := Some result\<rparr>),
              ri_last_terminal_version := Some (at_version a),
              ri_last_applied_version :=
                (if applied then Some (at_version a) else ri_last_applied_version st)\<rparr>"
  have t: "opt_le (ri_last_applied_version st) (Some (at_version a))"
    using s(5,6) opt_le_trans unfolding room_inv_def attempt_inv_def by metis
  have "room_inv (di_room_key intent) (?f st)"
    using s(3-6) t assms by (auto simp: room_inv_def attempt_inv_def answers_def)
  then have "worker_inv (update_room (di_room_key intent) ?f s)"
    using s(1,2) by (simp add: update_room_def worker_inv_put del: option.case_eq_if)
  then show "ready intent (update_room (di_room_key intent) ?f s)"
    using s by (simp add: ready_def update_room_def)
next
  show "triple (ready intent) (ret result) (\<lambda>r s. r = result \<and> ready intent s) E"
    by (rule triple_ret) simp
qed

lemma ready_failures:
  "ready intent s \<Longrightarrow> 1 \<le> sf_consecutive_failures f \<Longrightarrow> sf_retry_after f \<noteq> None \<Longrightarrow>
   ready intent (s\<lparr>ws_slave_failures := (ws_slave_failures s)(a \<mapsto> f)\<rparr>)"
  "ready intent s \<Longrightarrow> ready intent (s\<lparr>ws_slave_failures := (ws_slave_failures s)(a := None)\<rparr>)"
  by (auto simp: ready_def worker_inv_def split: if_splits)

lemma slave_failure_nonneg: "worker_inv s \<Longrightarrow> 0 \<le> sf_consecutive_failures (slave_failure_state a s)"
  by (auto simp: slave_failure_state_def worker_inv_def split: option.splits) (metis int_one_le_iff_zero_less less_le_not_le linorder_le_cases)

lemma triple_record_slave_failure:
  "triple (ready intent) (record_slave_failure w a) (\<lambda>_. ready intent) E"
  unfolding record_slave_failure_def Let_def
proof (rule triple_bind_gets)
  fix previous :: slave_failure
  let ?P = "\<lambda>s :: 'a worker_state. ready intent s \<and> 0 \<le> sf_consecutive_failures previous"
  have free: "env_free ?P" by (simp add: env_free_def ready_def worker_inv_def)
  show "triple (\<lambda>s. ready intent s \<and> slave_failure_state a s = previous)
     (bindE (read_clock w) (\<lambda>now. modify (\<lambda>s. s\<lparr>ws_slave_failures := (ws_slave_failures s)(a \<mapsto>
          \<lparr>sf_consecutive_failures = sf_consecutive_failures previous + 1,
           sf_retry_after = Some (dt_plus now (td_seconds (slave_retry_delay w (sf_consecutive_failures previous + 1))))\<rparr>)\<rparr>)))
     (\<lambda>_. ready intent) E"
    apply (rule triple_bindE [OF triple_pre [OF triple_read_clock [OF free]]])
    using slave_failure_nonneg apply (auto simp: ready_def) [1]
    apply (auto intro!: triple_modify intro: ready_failures)
    done
qed

lemma triple_record_slave_success: "triple (ready intent) (record_slave_success a) (\<lambda>_. ready intent) E"
  unfolding record_slave_success_def by (rule triple_modify) (rule ready_failures(2))

lemma planned_ready: "planned intent s \<Longrightarrow> ready intent s"
  by (simp add: planned_def)

section \<open>Applying an intent keeps the invariant\<close>

lemma triple_or: "triple P m Q E \<Longrightarrow> triple P' m Q E \<Longrightarrow> triple (\<lambda>s. P s \<or> P' s) m Q E"
  by (auto simp: triple_def)

lemma triple_If:
  "(b \<Longrightarrow> triple P m Q E) \<Longrightarrow> (\<not> b \<Longrightarrow> triple P m' Q E) \<Longrightarrow> triple P (if b then m else m') Q E"
  by simp

lemma triple_False: "triple (\<lambda>s. False) m Q E"
  by (simp add: triple_def)

lemma env_free_conj: "env_free P \<Longrightarrow> env_free (\<lambda>s. P s \<and> c)"
  by (simp add: env_free_def)

text \<open>A result is made and returned, or made and recorded as terminal.\<close>

lemma triple_result_then:
  assumes "env_free P" and "\<And>r. answers intent r \<Longrightarrow> er_status r = status \<Longrightarrow> triple P (f r) Q E"
  shows "triple P (bindE (make_result w intent status msg writes ms) f) Q E"
proof (rule triple_bindE [OF triple_make_result [OF assms(1)]])
  fix r
  show "triple (\<lambda>s. P s \<and> answers intent r \<and> er_status r = status) (f r) Q E"
    using assms(2) [of r] by (auto simp: triple_def)
qed

definition done_with :: "desired_room_intent \<Rightarrow> intent_execution_result \<Rightarrow> 'c worker_state \<Rightarrow> bool" where
  "done_with intent r s \<longleftrightarrow> answers intent r \<and> ready intent s"

lemma triple_mark_done:
  "answers intent r \<Longrightarrow> triple (ready intent) (mark_terminal (di_room_key intent) r applied) (done_with intent) E"
  by (rule triple_weaken [OF triple_mark_terminal]) (auto simp: done_with_def)

lemma triple_ret_done: "answers intent r \<Longrightarrow> triple (ready intent) (ret r) (done_with intent) E"
  by (rule triple_ret) (simp add: done_with_def)

lemma triple_then_ret_done:
  assumes "triple (ready intent) m (\<lambda>_. ready intent) E" and "answers intent r"
  shows "triple (ready intent) (bindE m (\<lambda>_. ret r)) (done_with intent) E"
  by (rule triple_bindE [OF assms(1) triple_ret_done [OF assms(2)]])

lemma triple_cooldown_result:
  "triple (ready intent) (cooldown_result w intent slave now)
     (\<lambda>c s. ready intent s \<and> (case c of None \<Rightarrow> True | Some r \<Rightarrow> answers intent r)) E"
proof -
  have some: "triple (ready intent) (bindE (make_result w intent st msg ws ms) (\<lambda>r. ret (Some r)))
     (\<lambda>c s. ready intent s \<and> (case c of None \<Rightarrow> True | Some r \<Rightarrow> answers intent r)) E" for st msg ws ms
    by (rule triple_result_then) (simp_all add: triple_def)
  have none: "triple (ready intent) (ret None)
     (\<lambda>c s. ready intent s \<and> (case c of None \<Rightarrow> True | Some r \<Rightarrow> answers intent r)) E"
    by (simp add: triple_def)
  show ?thesis
    unfolding cooldown_result_def
    apply (rule triple_bind_gets)
    subgoal for failure
      apply (cases "sf_retry_after failure")
       apply (simp_all only: option.case if_distrib)
       apply (rule triple_pre [OF none]; simp)
      subgoal for t
        apply (cases "dt_less (wk_tzdb w) now t")
         apply (simp_all only: if_True if_False)
         apply (rule triple_pre [OF some]; simp)
        apply (rule triple_pre [OF none]; simp)
        done
      done
    done
qed

context served_bus
begin

lemma triple_write_all:
  "triple (planned intent) (write_all w (di_room_key intent) slave wrs) (\<lambda>_. planned intent)
     (\<lambda>e s. op_error e \<and> planned intent s)"
proof (induction wrs)
  case Nil
  show ?case by (auto intro: triple_ends)
next
  case (Cons wr wrs)
  show ?case
    unfolding write_all.simps
    by (rule triple_bindE [OF triple_write_one triple_bindE [OF triple_modify Cons.IH]])
      (auto intro!: planned_update_attempt)
qed

lemma triple_verify_attempt:
  "triple (planned intent) (verify_attempt w intent tom)
     (\<lambda>v s. ready intent s \<and> (case v of None \<Rightarrow> \<not> tom | Some r \<Rightarrow> answers intent r))
     (\<lambda>e s. refused e \<and> ready intent s)"
proof -
  let ?Q = "\<lambda>v s. ready intent s \<and> (case v of None \<Rightarrow> \<not> tom | Some r \<Rightarrow> answers intent r)"
  let ?E = "\<lambda>e s. refused e \<and> ready intent s"
  let ?k = "di_room_key intent"
  have terminal: "triple (ready intent) (bindE (mark_terminal ?k r applied) (\<lambda>r. ret (Some r))) ?Q ?E"
    if "answers intent r" for r applied
    by (rule triple_bindE [OF triple_mark_terminal [OF that]]) (auto intro!: triple_ends that)
  have failed: "triple (\<lambda>s. op_error e \<and> ready intent s)
      (if is_transport_error e
       then bindE (make_result w intent st (Some msg) writes []) (\<lambda>result.
            if exc_retryable e then ret (Some result)
            else bindE (mark_terminal ?k result False) (\<lambda>r. ret (Some r)))
       else raise e) ?Q ?E" for e st msg writes
  proof (cases "is_transport_error e")
    case True
    have "triple (ready intent) (bindE (make_result w intent st (Some msg) writes []) (\<lambda>result.
            if exc_retryable e then ret (Some result)
            else bindE (mark_terminal ?k result False) (\<lambda>r. ret (Some r)))) ?Q ?E"
      by (rule triple_result_then) (auto intro: terminal triple_ends)
    with True show ?thesis by (simp add: triple_def)
  next
    case False
    then show ?thesis by (auto simp: op_error_def triple_def)
  qed
  have checked: "triple (ready intent)
      (let mismatches = compare_readback plan observed in
         if mismatches \<noteq> [] \<and> \<not> tom then ret None
         else bindE (make_result w intent (st mismatches) (msg mismatches) writes (mismatch_payload mismatches)) (\<lambda>result.
              bindE (mark_terminal ?k result (mismatches = [])) (\<lambda>r. ret (Some r)))) ?Q ?E"
    for plan observed st msg writes
    unfolding Let_def
    by (auto intro!: triple_result_then terminal intro: triple_ends)
  have main: "triple (ready intent)
     (bindE (attemptE (readback w plan)) (\<lambda>outcome.
        case outcome of
          Inl e \<Rightarrow>
            (if is_transport_error e
             then bindE (make_result w intent ES_APPLIED_UNCONFIRMED
                    (Some (''write outcome is uncertain and status verification failed: '' @ exc_message e))
                    writes []) (\<lambda>result.
                  if exc_retryable e then ret (Some result)
                  else bindE (mark_terminal ?k result False) (\<lambda>r. ret (Some r)))
             else raise e)
        | Inr observed \<Rightarrow>
            (let mismatches = compare_readback plan observed in
             if mismatches \<noteq> [] \<and> \<not> tom then ret None
             else bindE (make_result w intent
                    (if mismatches \<noteq> [] then ES_READBACK_MISMATCH else ES_APPLIED)
                    (if mismatches = [] then None
                     else Some ''G301 actual state did not match the desired state'')
                    writes (mismatch_payload mismatches)) (\<lambda>result.
                  bindE (mark_terminal ?k result (mismatches = [])) (\<lambda>r. ret (Some r)))))) ?Q ?E"
    for plan writes
    apply (rule triple_bindE [OF triple_attemptE [OF triple_readback [OF env_free_inv(2)]]])
    subgoal for outcome
      apply (cases outcome)
       apply (simp_all only: sum.case)
       apply (rule failed)
      apply (rule checked)
      done
    done
  show ?thesis
    unfolding verify_attempt_def Let_def [of ?k]
    apply (rule triple_bind_gets)
    subgoal for v
      apply (cases "fst v")
       apply (rule triple_pre [OF triple_False])
       apply (auto simp: planned_def) [1]
      apply (simp only: split_def option.case)
      apply (rule triple_pre [OF main])
      apply (simp add: planned_def)
      done
    done
qed

end

context served_bus
begin

abbreviation escaped :: "desired_room_intent \<Rightarrow> pyexc \<Rightarrow> 'c worker_state \<Rightarrow> bool" where
  "escaped intent e s \<equiv> refused e \<and> ready intent s"

lemma triple_failed_writes:
  "triple (\<lambda>s. op_error e \<and> planned intent s)
     (if is_transport_error e
      then bindE (gets (attempt_writes (di_room_key intent))) (\<lambda>writes.
           bindE (transport_failure_result w intent e writes) (\<lambda>result.
           if \<not> exc_retryable e then mark_terminal (di_room_key intent) result False
           else bindE (set_phase (di_room_key intent) AT_VERIFICATION_PENDING) (\<lambda>_.
                bindE (record_slave_failure w slave) (\<lambda>_. ret result))))
      else raise e) (done_with intent) (escaped intent)"
proof (cases "is_transport_error e")
  case True
  have "triple (planned intent) (bindE (transport_failure_result w intent e writes) (\<lambda>result.
           if \<not> exc_retryable e then mark_terminal (di_room_key intent) result False
           else bindE (set_phase (di_room_key intent) AT_VERIFICATION_PENDING) (\<lambda>_.
                bindE (record_slave_failure w slave) (\<lambda>_. ret result)))) (done_with intent) (escaped intent)" for writes
    unfolding transport_failure_result_def
  proof (rule triple_result_then)
    fix r assume r: "answers intent r"
    have "triple (planned intent) (mark_terminal (di_room_key intent) r False) (done_with intent) (escaped intent)"
      by (rule triple_pre [OF triple_mark_done [OF r] planned_ready])
    moreover have "triple (planned intent) (bindE (set_phase (di_room_key intent) AT_VERIFICATION_PENDING) (\<lambda>_.
                bindE (record_slave_failure w slave) (\<lambda>_. ret r))) (done_with intent) (escaped intent)"
      by (rule triple_bindE [OF triple_set_phase_pending])
        (rule triple_pre [OF triple_then_ret_done [OF triple_record_slave_failure r] planned_ready])
    ultimately show "triple (planned intent) (if \<not> exc_retryable e then mark_terminal (di_room_key intent) r False
         else bindE (set_phase (di_room_key intent) AT_VERIFICATION_PENDING) (\<lambda>_.
                bindE (record_slave_failure w slave) (\<lambda>_. ret r))) (done_with intent) (escaped intent)"
      by simp
  qed simp
  with True show ?thesis by (simp add: triple_def)
next
  case False
  then show ?thesis by (auto simp: triple_def op_error_def dest: planned_ready)
qed

lemma triple_verified:
  "triple (\<lambda>s. ready intent s \<and> (case v of None \<Rightarrow> \<not> True | Some r \<Rightarrow> answers intent r))
     (case v of
        None \<Rightarrow> raise AssertionError
      | Some result \<Rightarrow>
          bindE (if er_status result \<in> {ES_APPLIED, ES_READBACK_MISMATCH} then record_slave_success slave
                 else if er_status result = ES_APPLIED_UNCONFIRMED then record_slave_failure w slave
                 else ret ()) (\<lambda>_. ret result)) (done_with intent) (escaped intent)"
proof (cases v)
  case None
  then show ?thesis by (simp add: triple_def)
next
  case (Some r)
  have "triple (ready intent)
     (if er_status r \<in> {ES_APPLIED, ES_READBACK_MISMATCH} then record_slave_success slave
      else if er_status r = ES_APPLIED_UNCONFIRMED then record_slave_failure w slave
      else ret ()) (\<lambda>_. ready intent) (escaped intent)"
    by (auto intro: triple_record_slave_success triple_record_slave_failure triple_ends)
  from triple_then_ret_done [OF this] Some show ?thesis
    by (auto simp: triple_def)
qed

lemma triple_carry_out_plan:
  "triple (ready intent) (carry_out_plan w intent slave plan) (done_with intent) (escaped intent)"
  unfolding carry_out_plan_def Let_def
  apply (rule triple_bindE [OF triple_start_writing triple_bindE [OF triple_attemptE [OF triple_write_all]]])
  subgoal for _ outcome
    apply (cases outcome)
     apply (simp_all only: sum.case)
     apply (rule triple_failed_writes)
    apply (rule triple_bindE [OF triple_set_phase_pending triple_bindE [OF triple_verify_attempt triple_verified]])
    done
  done

lemma triple_failed_plan:
  assumes "op_error e \<or> (\<exists>m. e = G301PlanningError m)"
  shows "triple (ready intent) (planning_failed w intent slave e) (done_with intent) (escaped intent)"
proof -
  let ?m = "\<lambda>result. mark_terminal (di_room_key intent) result False"
  have m: "triple (ready intent) (bindE (make_result w intent st msg [] []) ?m) (done_with intent) (escaped intent)"
    for st msg
    by (rule triple_result_then) (auto intro: triple_mark_done)
  have t: "triple (ready intent) (bindE (transport_failure_result w intent e []) ?m)
      (done_with intent) (escaped intent)" for e
    unfolding transport_failure_result_def by (rule m)
  have f: "triple (ready intent) (bindE (transport_failure_result w intent e []) (\<lambda>result.
                if \<not> exc_retryable e then ?m result
                else bindE (record_slave_failure w slave) (\<lambda>_. ret result))) (done_with intent) (escaped intent)" for e
    unfolding transport_failure_result_def
    by (rule triple_result_then)
      (auto intro: triple_mark_done triple_then_ret_done triple_record_slave_failure)
  have k: "is_ValueError e \<or> is_transport_error e" using assms op_error_kind by auto
  show ?thesis
    using k m t f [of e] unfolding planning_failed_def Let_def by (cases e) auto
qed

lemma triple_execute_intent:
  "triple (ready intent) (execute_intent w intent slave) (done_with intent) (escaped intent)"
proof -
  let ?k = "di_room_key intent" and ?skew = "td_seconds (wk_validity_clock_skew_seconds w)"
  have reset: "triple (ready intent) (modify (update_attempt ?k
       (\<lambda>a. a\<lparr>at_phase := AT_RETRYABLE, at_plan := None, at_completed_writes := []\<rparr>))) (\<lambda>_. ready intent) E" for E
    by (rule triple_update_attempt) auto
  have expired: "triple (ready intent) (bindE (make_result w intent st msg [] [])
       (\<lambda>result. mark_terminal ?k result False)) (done_with intent) (escaped intent)" for st msg
    by (rule triple_result_then) (auto intro: triple_mark_done)
  have early: "triple (ready intent) (make_result w intent st msg [] []) (done_with intent) (escaped intent)" for st msg
    by (rule triple_weaken [OF triple_make_result [OF env_free_inv(2)]]) (auto simp: done_with_def)
  have run: "triple (ready intent) (plan_and_carry_out w intent slave) (done_with intent) (escaped intent)"
    unfolding plan_and_carry_out_def
    apply (rule triple_bindE [OF triple_attemptE [OF triple_make_plan [OF env_free_inv(2)]]])
    subgoal for outcome
    proof (cases outcome)
      case (Inl e)
      show ?thesis
        using triple_failed_plan [of e intent slave] unfolding Inl by (auto simp: triple_def)
    next
      case (Inr plan)
      then show ?thesis by (simp add: triple_carry_out_plan)
    qed
    done
  have cooled: "triple (\<lambda>s. ready intent s \<and> (case c of None \<Rightarrow> True | Some r \<Rightarrow> answers intent r))
     (case c of Some result \<Rightarrow> ret result | None \<Rightarrow> m) (done_with intent) (escaped intent)"
    if "triple (ready intent) m (done_with intent) (escaped intent)" for c m
    using that by (cases c) (auto simp: triple_def done_with_def)
  show ?thesis
    unfolding execute_intent_def Let_def
    apply (rule triple_bindE [OF reset triple_bindE [OF triple_read_clock [OF env_free_inv(2)]]])
    subgoal for _ now
      by (intro triple_If expired early triple_bindE [OF triple_cooldown_result cooled [OF run]])
    done
qed

end

context served_bus
begin

lemma triple_resume_verification:
  "triple (\<lambda>s. ready intent s) (resume_verification w intent slave) (done_with intent) (escaped intent)"
proof -
  let ?k = "di_room_key intent"
  have again: "triple (ready intent) (bindE (set_phase ?k AT_RETRYABLE) (\<lambda>_. execute_intent w intent slave))
      (done_with intent) (escaped intent)"
    by (rule triple_bindE [OF triple_set_phase_retryable triple_execute_intent])
  have verified: "triple (\<lambda>s. ready intent s \<and> (case v of None \<Rightarrow> \<not> False | Some r \<Rightarrow> answers intent r))
      (case v of
         Some result \<Rightarrow>
           bindE (if er_status result = ES_APPLIED then record_slave_success slave
                  else if er_status result = ES_APPLIED_UNCONFIRMED then record_slave_failure w slave
                  else ret ()) (\<lambda>_. ret result)
       | None \<Rightarrow> bindE (set_phase ?k AT_RETRYABLE) (\<lambda>_. execute_intent w intent slave))
      (done_with intent) (escaped intent)" for v
  proof (cases v)
    case None
    then show ?thesis using again by (simp add: triple_def)
  next
    case (Some r)
    have "triple (ready intent)
       (if er_status r = ES_APPLIED then record_slave_success slave
        else if er_status r = ES_APPLIED_UNCONFIRMED then record_slave_failure w slave
        else ret ()) (\<lambda>_. ready intent) (escaped intent)"
      by (auto intro: triple_record_slave_success triple_record_slave_failure triple_ends)
    from triple_then_ret_done [OF this] Some show ?thesis by (auto simp: triple_def)
  qed
  have body: "triple (ready intent)
     (bindE (gets (attempt_plan ?k)) (\<lambda>plan_opt.
        if plan_opt = None
        then bindE (set_phase ?k AT_RETRYABLE) (\<lambda>_. execute_intent w intent slave)
        else bindE (verify_attempt w intent False) (\<lambda>v.
         case v of
           Some result \<Rightarrow>
             bindE (if er_status result = ES_APPLIED then record_slave_success slave
                    else if er_status result = ES_APPLIED_UNCONFIRMED then record_slave_failure w slave
                    else ret ()) (\<lambda>_. ret result)
         | None \<Rightarrow> bindE (set_phase ?k AT_RETRYABLE) (\<lambda>_. execute_intent w intent slave))))
     (done_with intent) (escaped intent)"
    apply (rule triple_bind_gets)
    subgoal for p
      apply (cases p)
       apply (simp only: if_True simp_thms)
       apply (rule triple_pre [OF again], simp)
      apply (simp only: option.distinct if_False)
      apply (rule triple_pre [OF triple_bindE [OF triple_verify_attempt verified]])
      apply (simp add: planned_def)
      done
    done
  have cooled: "triple (\<lambda>s. ready intent s \<and> (case c of None \<Rightarrow> True | Some r \<Rightarrow> answers intent r))
     (case c of Some result \<Rightarrow> ret result | None \<Rightarrow> m) (done_with intent) (escaped intent)"
    if "triple (ready intent) m (done_with intent) (escaped intent)" for c m
    using that by (cases c) (auto simp: triple_def done_with_def)
  show ?thesis
    unfolding resume_verification_def Let_def
    by (rule triple_bindE [OF triple_read_clock [OF env_free_inv(2)]
          triple_bindE [OF triple_cooldown_result cooled [OF body]]])
qed

text \<open>A first or a newer version starts an attempt in a room that is registered.\<close>

lemma ready_start_attempt:
  assumes "worker_inv s" and "ws_intent_states s (di_room_key intent) = Some st"
    and "opt_le (ri_last_seen_version st) (Some (di_intent_version intent))"
  shows "ready intent (update_room (di_room_key intent)
     (\<lambda>st. st\<lparr>ri_last_seen_version := Some (di_intent_version intent),
              ri_current_attempt := Some (new_attempt (di_intent_version intent) fp)\<rparr>) s)"
proof -
  let ?st = "st\<lparr>ri_last_seen_version := Some (di_intent_version intent),
              ri_current_attempt := Some (new_attempt (di_intent_version intent) fp)\<rparr>"
  have "room_inv (di_room_key intent) st" using assms(1,2) by (rule worker_inv_roomD)
  then have "opt_le (ri_last_terminal_version st) (Some (di_intent_version intent))"
    and "opt_le (ri_last_applied_version st) (ri_last_terminal_version st)"
    using assms(3) opt_le_trans unfolding room_inv_def by metis+
  then have "room_inv (di_room_key intent) ?st"
    by (simp add: room_inv_def attempt_inv_def new_attempt_def)
  with assms(1,2) show ?thesis
    by (simp add: ready_def update_room_def worker_inv_put) (simp add: new_attempt_def)
qed

lemma triple_start_and_execute:
  "triple (\<lambda>s. worker_inv s \<and> (\<exists>st. ws_intent_states s (di_room_key intent) = Some st
        \<and> opt_le (ri_last_seen_version st) (Some (di_intent_version intent))))
     (bindE (modify (update_room (di_room_key intent) (\<lambda>st. st\<lparr>ri_last_seen_version := Some (di_intent_version intent),
          ri_current_attempt := Some (new_attempt (di_intent_version intent) fp)\<rparr>))) (\<lambda>_.
      execute_intent w intent slave)) (done_with intent) (escaped intent)"
  by (rule triple_bindE [OF triple_modify triple_execute_intent]) (auto intro: ready_start_attempt)

definition answered :: "desired_room_intent \<Rightarrow> intent_execution_result \<Rightarrow> 'c worker_state \<Rightarrow> bool" where
  "answered intent r s \<longleftrightarrow> answers intent r \<and> worker_inv s"

abbreviation escaped_inv :: "pyexc \<Rightarrow> 'c worker_state \<Rightarrow> bool" where
  "escaped_inv e s \<equiv> refused e \<and> worker_inv s"

lemma triple_answered:
  "triple P m (done_with intent) (escaped intent) \<Longrightarrow> triple P m (answered intent) escaped_inv"
  by (erule triple_weaken) (auto simp: done_with_def answered_def ready_def)

lemma triple_make_answered:
  "triple worker_inv (make_result w intent status msg writes ms) (answered intent) escaped_inv"
  by (rule triple_weaken [OF triple_make_result [OF env_free_inv(1)]]) (auto simp: answered_def)

text \<open>The same version again: its attempt exists, and is answered from the cache, resumed or run.\<close>

lemma triple_redelivered:
  "triple (\<lambda>s. worker_inv s \<and> ws_intent_states s (di_room_key intent) = Some st
        \<and> ri_last_seen_version st = Some (di_intent_version intent))
     (redelivered w intent slave st) (answered intent) escaped_inv"
proof (rule tripleI)
  fix s r s'
  assume P: "worker_inv s \<and> ws_intent_states s (di_room_key intent) = Some st
        \<and> ri_last_seen_version st = Some (di_intent_version intent)"
    and m: "redelivered w intent slave st s = (r, s')"
  then have ri: "room_inv (di_room_key intent) st" by (auto dest: worker_inv_roomD)
  with P obtain a where a: "ri_current_attempt st = Some a" "attempt_inv (di_room_key intent) st a"
    by (cases "ri_current_attempt st") (auto simp: room_inv_def)
  with P have v: "at_version a = di_intent_version intent" by (simp add: attempt_inv_def)
  have rd: "ready intent s" using P a(1) v by (simp add: ready_def)
  have cached: "triple worker_inv (case at_cached_result a of None \<Rightarrow> raise AssertionError
        | Some r \<Rightarrow> ret (r\<lparr>er_correlation_id := di_correlation_id intent\<rparr>)) (answered intent) escaped_inv"
    if "at_phase a = AT_TERMINAL"
    using a(2) v that by (auto simp: attempt_inv_def triple_def answered_def answers_def)
  have "triple (\<lambda>s. worker_inv s \<and> ready intent s) (redelivered w intent slave st) (answered intent) escaped_inv"
    unfolding redelivered_def a(1) option.case
    apply (intro triple_If)
    using v apply simp
      apply (rule triple_pre [OF triple_make_answered], simp)
     apply (rule triple_pre [OF cached], assumption, simp)
     apply (rule triple_answered [OF triple_pre [OF triple_resume_verification]], simp)
    apply (rule triple_answered [OF triple_pre [OF triple_execute_intent]], simp)
    done
  then show "case r of Inr v \<Rightarrow> answered intent v s' | Inl e \<Rightarrow> escaped_inv e s'"
    using P rd m by (auto dest: tripleD_Inr tripleD_Inl split: sum.splits)
qed

lemma triple_apply_intent:
  "triple worker_inv (apply_intent w intent) (answered intent) escaped_inv"
proof (cases "wk_room_slave_addresses w (di_room_key intent)")
  case None
  then show ?thesis by (simp add: apply_intent_def triple_make_answered)
next
  case (Some slave)
  let ?k = "di_room_key intent" and ?v = "di_intent_version intent"
  let ?start = "bindE (modify (update_room ?k (\<lambda>st. st\<lparr>ri_last_seen_version := Some ?v,
          ri_current_attempt := Some (new_attempt ?v (intent_fingerprint w intent))\<rparr>))) (\<lambda>_.
      execute_intent w intent slave)"
  have registered: "triple worker_inv (modify (setdefault_room ?k))
      (\<lambda>_ s. worker_inv s \<and> ws_intent_states s ?k \<noteq> None) escaped_inv"
    by (rule triple_modify)
      (auto simp: setdefault_room_def worker_inv_def room_inv_def empty_intent_state_def split: option.splits)
  have start: "triple (\<lambda>s. worker_inv s \<and> ws_intent_states s ?k = Some st) ?start (answered intent) escaped_inv"
    if "opt_le (ri_last_seen_version st) (Some ?v)" for st
    by (rule triple_answered [OF triple_pre [OF triple_start_and_execute]]) (use that in auto)
  have body: "triple (\<lambda>s. worker_inv s \<and> ws_intent_states s ?k = Some st)
      (case ri_last_seen_version st of
            Some seen \<Rightarrow>
              (if ?v < seen
               then make_result w intent ES_STALE
                      (Some (''intent version is older than seen version '' @ show_int seen)) [] []
               else if seen < ?v then ?start
               else redelivered w intent slave st)
          | None \<Rightarrow> ?start) (answered intent) escaped_inv" for st
  proof (cases "ri_last_seen_version st")
    case None
    then show ?thesis using start [of st] by simp
  next
    case seen: (Some seen)
    show ?thesis
      unfolding seen option.case
      apply (intro triple_If)
        apply (rule triple_pre [OF triple_make_answered], simp)
       apply (rule start, simp add: seen)
      apply (rule triple_pre [OF triple_redelivered])
      using seen apply auto
      done
  qed
  show ?thesis
    unfolding apply_intent_def Let_def Some option.case
    apply (rule triple_bindE [OF registered triple_bind_gets])
    subgoal for _ st
      by (rule triple_pre [OF body]) (auto simp: room_state_def)
    done
qed

end

end
