(* ===== verification/G301_Worker_Frames.thy ===== *)
theory G301_Worker_Frames
  imports G301_Worker_Invariant
begin

text \<open>
  What an execution can change: a locale states the elementary changes an execution makes to
  the worker's state as laws of a relation, and proves that every part of an execution keeps
  a relation with these laws. It is instantiated with the frame relation (only the intent's
  room and slave are touched) and with the order of the version watermarks.
\<close>

locale worker_steps =
  fixes R :: "'c worker_state \<Rightarrow> 'c worker_state \<Rightarrow> bool" and k :: string and slave :: int
  assumes R_refl: "R s s"
    and R_trans: "R s s' \<Longrightarrow> R s' s'' \<Longrightarrow> R s s''"
    and R_env: "R s (s\<lparr>ws_env := c\<rparr>)"
    and R_attempt: "(\<And>a. at_version (f a) = at_version a) \<Longrightarrow> R s (update_attempt k f s)"
    and R_terminal: "R s (snd (mark_terminal k r applied s))"
    and R_failure: "R s (s\<lparr>ws_slave_failures := (ws_slave_failures s)(slave := failure)\<rparr>)"
begin

lemma reflp_R: "reflp R"
  by (rule reflpI) (rule R_refl)

lemma transp_R: "transp R"
  by (rule transpI) (rule R_trans)

lemmas keeps_bind = keeps_bindE [OF transp_R]
lemmas keeps_basic = keeps_ret [OF reflp_R] keeps_raise [OF reflp_R] keeps_gets [OF reflp_R] keeps_lift [OF reflp_R]

lemma keeps_on_env: "keeps R (on_env m)"
  by (rule keepsI) (auto simp: on_env_def R_env split: prod.splits)

lemma keeps_read_clock: "keeps R (read_clock w)"
  unfolding read_clock_def by (rule keeps_on_env)

lemma keeps_sleep_for: "keeps R (sleep_for w t)"
  unfolding sleep_for_def by (rule keeps_on_env)

lemma keeps_make_result: "keeps R (make_result w i st msg ws ms)"
  unfolding make_result_def by (intro keeps_bind keeps_on_env keeps_basic)

lemma keeps_transport_failure_result: "keeps R (transport_failure_result w i e ws)"
  unfolding transport_failure_result_def by (rule keeps_make_result)

lemma keeps_mark_terminal: "keeps R (mark_terminal k r applied)"
  by (rule keepsI) (rule R_terminal)

lemma keeps_update_attempt:
  "(\<And>a. at_version (f a) = at_version a) \<Longrightarrow> keeps R (modify (update_attempt k f))"
  by (intro keeps_modify R_attempt)

lemma keeps_set_phase: "keeps R (set_phase k ph)"
  unfolding set_phase_def by (intro keeps_modify R_attempt) simp

lemma keeps_record_slave_failure: "keeps R (record_slave_failure w slave)"
  unfolding record_slave_failure_def Let_def
  by (intro keeps_bind keeps_basic keeps_read_clock keeps_modify R_failure)

lemma keeps_record_slave_success: "keeps R (record_slave_success slave)"
  unfolding record_slave_success_def by (intro keeps_modify R_failure)

lemma keeps_If: "keeps R m \<Longrightarrow> keeps R m' \<Longrightarrow> keeps R (if b then m else m')"
  by simp

lemma keeps_with_retry_from: "keeps R (with_retry_from w m j n e)"
proof (induction n arbitrary: j e)
  case 0
  show ?case by (cases e) (simp_all only: with_retry_from.simps option.case keeps_basic)
next
  case (Suc n)
  have b: "keeps R (retry_backoff w j)"
    unfolding retry_backoff_def by (intro keeps_If keeps_sleep_for keeps_basic)
  show ?case
    unfolding with_retry_from.simps
    apply (rule keeps_bind [OF keeps_attemptE [OF keeps_on_env]])
    subgoal for r
      by (cases r) (simp_all only: sum.case keeps_If keeps_bind [OF b Suc.IH] keeps_basic)
    done
qed

lemma keeps_with_retry: "keeps R (with_retry w m)"
  unfolding with_retry_def by (rule keeps_with_retry_from)

lemma keeps_read_one: "keeps R (read_one w sl a)"
  unfolding read_one_def by (intro keeps_bind keeps_with_retry keeps_If keeps_basic)

lemma keeps_read_device_profile: "keeps R (read_device_profile w sl)"
  unfolding read_device_profile_def
  apply (intro keeps_bind keeps_read_one keeps_with_retry keeps_If keeps_basic)
  subgoal for c ls
    by (cases "build_device_profile c (ls ! 0) (ls ! 1) (ls ! 2)") (simp_all only: sum.case keeps_basic)
  done

lemma keeps_observe_all: "keeps R (observe_all w sl es obs)"
  by (induction es arbitrary: obs)
    (simp_all only: observe_all.simps keeps_basic keeps_bind [OF keeps_read_one])

lemma keeps_readback_from: "keeps R (readback_from w plan j n obs)"
  by (induction n arbitrary: j obs)
    (simp_all only: readback_from.simps keeps_basic
      keeps_bind [OF keeps_observe_all] keeps_If keeps_bind [OF keeps_If [OF keeps_sleep_for keeps_basic(1)]])

lemma keeps_readback: "keeps R (readback w plan)"
  unfolding readback_def by (rule keeps_readback_from)

lemma keeps_make_plan: "keeps R (make_plan w i sl)"
  unfolding make_plan_def by (intro keeps_bind keeps_If keeps_read_device_profile keeps_basic)

lemma keeps_verify_attempt:
  assumes "di_room_key i = k"
  shows "keeps R (verify_attempt w i tom)"
  unfolding verify_attempt_def Let_def assms
  apply (rule keeps_bind [OF keeps_basic(3)])
  subgoal for v
    apply (cases v)
    subgoal for p ws
      apply (cases p)
       apply (simp_all only: prod.case option.case keeps_basic)
      apply (rule keeps_bind [OF keeps_attemptE [OF keeps_readback]])
      subgoal for _ outcome
        by (cases outcome)
          (simp_all only: sum.case, (intro keeps_If keeps_bind keeps_make_result keeps_mark_terminal keeps_basic)+)
      done
    done
  done

lemma keeps_cooldown_result: "keeps R (cooldown_result w i sl now)"
  unfolding cooldown_result_def
  apply (rule keeps_bind [OF keeps_basic(3)])
  subgoal for f
    by (cases "sf_retry_after f")
      (simp_all only: option.case keeps_If keeps_bind [OF keeps_make_result] keeps_basic)
  done

lemma keeps_write_all: "keeps R (write_all w k sl wrs)"
proof (induction wrs)
  case Nil
  show ?case unfolding write_all.simps by (rule keeps_basic)
next
  case (Cons wr wrs)
  show ?case
    unfolding write_all.simps write_one_def
    by (intro keeps_bind keeps_with_retry keeps_update_attempt Cons.IH) simp
qed

lemma keeps_carry_out_plan:
  assumes "di_room_key i = k"
  shows "keeps R (carry_out_plan w i slave plan)"
  unfolding carry_out_plan_def Let_def assms
  apply (rule keeps_bind [OF keeps_update_attempt], simp)
  apply (rule keeps_bind [OF keeps_attemptE [OF keeps_write_all]])
  subgoal for _ outcome
    apply (cases outcome)
     apply (simp_all only: sum.case)
     apply (intro keeps_If keeps_bind keeps_transport_failure_result keeps_mark_terminal keeps_set_phase
        keeps_record_slave_failure keeps_basic)
    apply (rule keeps_bind [OF keeps_set_phase], rule keeps_bind [OF keeps_verify_attempt [OF assms]])
    subgoal for _ _ v
      by (cases v) (simp_all only: option.case keeps_basic
          keeps_bind [OF keeps_If [OF keeps_record_slave_success keeps_If [OF keeps_record_slave_failure keeps_basic(1)]]])
    done
  done

lemma keeps_execute_intent:
  assumes "di_room_key i = k"
  shows "keeps R (execute_intent w i slave)"
proof -
  have failed: "keeps R (planning_failed w i slave e)" for e
    unfolding planning_failed_def Let_def assms
    by (cases e)
      (simp_all only: pyexc.case keeps_If keeps_basic
        keeps_bind [OF keeps_make_result keeps_mark_terminal]
        keeps_bind [OF keeps_transport_failure_result keeps_mark_terminal]
        keeps_bind [OF keeps_transport_failure_result keeps_If [OF keeps_mark_terminal keeps_bind [OF keeps_record_slave_failure keeps_basic(1)]]])
  have planned: "keeps R (plan_and_carry_out w i slave)"
    unfolding plan_and_carry_out_def
    apply (rule keeps_bind [OF keeps_attemptE [OF keeps_make_plan]])
    subgoal for outcome
      by (cases outcome) (simp_all only: sum.case failed keeps_carry_out_plan [OF assms])
    done
  have cooled: "keeps R (case c of Some result \<Rightarrow> ret result | None \<Rightarrow> m)"
    if "keeps R m" for c :: "intent_execution_result option" and m
    using that by (cases c) (simp_all only: option.case keeps_basic)
  show ?thesis
    unfolding execute_intent_def Let_def assms
    by (intro keeps_bind keeps_update_attempt keeps_read_clock keeps_If keeps_make_result keeps_mark_terminal
        keeps_cooldown_result cooled planned) simp
qed

lemma keeps_resume_verification:
  assumes "di_room_key i = k"
  shows "keeps R (resume_verification w i slave)"
  unfolding resume_verification_def Let_def assms
  apply (rule keeps_bind [OF keeps_read_clock], rule keeps_bind [OF keeps_cooldown_result])
  subgoal for _ c
    apply (cases c)
     apply (simp_all only: option.case keeps_basic)
    apply (intro keeps_bind keeps_basic keeps_If keeps_set_phase keeps_execute_intent assms keeps_verify_attempt)
    subgoal for _ v
      by (cases v) (simp_all only: option.case keeps_basic keeps_bind [OF keeps_set_phase keeps_execute_intent [OF assms]]
          keeps_bind [OF keeps_If [OF keeps_record_slave_success keeps_If [OF keeps_record_slave_failure keeps_basic(1)]]])
    done
  done

lemma keeps_redelivered:
  assumes "di_room_key i = k"
  shows "keeps R (redelivered w i slave st)"
proof (cases "ri_current_attempt st")
  case None
  then show ?thesis by (simp only: redelivered_def option.case keeps_basic)
next
  case (Some a)
  have cached: "keeps R (case c of None \<Rightarrow> raise AssertionError
      | Some r \<Rightarrow> ret (r\<lparr>er_correlation_id := di_correlation_id i\<rparr>))" for c :: "intent_execution_result option"
    by (cases c) (simp_all only: option.case keeps_basic)
  show ?thesis
    unfolding redelivered_def Some option.case
    by (intro keeps_If cached keeps_basic keeps_make_result keeps_resume_verification
        keeps_execute_intent assms)
qed

end

section \<open>Frames and watermarks\<close>

text \<open>Everything but one room's intent state and one slave's failure state is the same.\<close>

definition same_but :: "string \<Rightarrow> int \<Rightarrow> 'c worker_state \<Rightarrow> 'c worker_state \<Rightarrow> bool" where
  "same_but k slave s s' \<longleftrightarrow>
     (\<forall>k'. k' \<noteq> k \<longrightarrow> ws_intent_states s' k' = ws_intent_states s k')
     \<and> (\<forall>a. a \<noteq> slave \<longrightarrow> ws_slave_failures s' a = ws_slave_failures s a)"

interpretation frame: worker_steps "same_but k slave" k slave for k slave
  by unfold_locales
    (auto simp: same_but_def update_attempt_def update_room_def mark_terminal_def split: option.splits)

text \<open>The watermarks of a room are in order, and no step of an execution lowers one of them.\<close>

definition marks_ok :: "room_intent_state \<Rightarrow> bool" where
  "marks_ok st \<longleftrightarrow>
     opt_le (ri_last_applied_version st) (ri_last_terminal_version st)
     \<and> opt_le (ri_last_terminal_version st) (ri_last_seen_version st)
     \<and> (case ri_current_attempt st of None \<Rightarrow> True | Some a \<Rightarrow> ri_last_seen_version st = Some (at_version a))"

definition marks_le :: "room_intent_state \<Rightarrow> room_intent_state \<Rightarrow> bool" where
  "marks_le st st' \<longleftrightarrow>
     opt_le (ri_last_seen_version st) (ri_last_seen_version st')
     \<and> opt_le (ri_last_terminal_version st) (ri_last_terminal_version st')
     \<and> opt_le (ri_last_applied_version st) (ri_last_applied_version st')"

definition marks_grow :: "string \<Rightarrow> 'c worker_state \<Rightarrow> 'c worker_state \<Rightarrow> bool" where
  "marks_grow k s s' \<longleftrightarrow>
     (marks_ok (room_state k s) \<longrightarrow> marks_ok (room_state k s') \<and> marks_le (room_state k s) (room_state k s'))"

lemma marks_le_refl [simp]: "marks_le st st"
  by (simp add: marks_le_def)

lemma marks_le_trans: "marks_le a b \<Longrightarrow> marks_le b c \<Longrightarrow> marks_le a c"
  unfolding marks_le_def using opt_le_trans by blast

lemma room_state_update_room:
  "room_state k (update_room k f s) =
     (case ws_intent_states s k of None \<Rightarrow> empty_intent_state | Some st \<Rightarrow> f st)"
  by (auto simp: room_state_def update_room_def split: option.splits)

lemma marks_grow_update_room:
  assumes "\<And>st. marks_ok st \<Longrightarrow> marks_ok (f st) \<and> marks_le st (f st)"
  shows "marks_grow k s (update_room k f s)"
  using assms unfolding marks_grow_def room_state_update_room
  by (auto simp: room_state_def split: option.splits)

lemma marks_ok_empty: "marks_ok empty_intent_state"
  by (simp add: marks_ok_def empty_intent_state_def)

interpretation watermarks: worker_steps "marks_grow k" k slave for k slave
proof
  fix s s' s'' :: "'a worker_state" and c f failure r applied
  show "marks_grow k s s" by (simp add: marks_grow_def)
  show "marks_grow k s s' \<Longrightarrow> marks_grow k s' s'' \<Longrightarrow> marks_grow k s s''"
    using marks_le_trans unfolding marks_grow_def by blast
  show "marks_grow k s (s\<lparr>ws_env := c\<rparr>)" by (simp add: marks_grow_def room_state_def)
  show "(\<And>a. at_version (f a) = at_version a) \<Longrightarrow> marks_grow k s (update_attempt k f s)"
    unfolding update_attempt_def
    by (rule marks_grow_update_room) (auto simp: marks_ok_def marks_le_def split: option.splits)
  show "marks_grow k s (s\<lparr>ws_slave_failures := (ws_slave_failures s)(slave := failure)\<rparr>)"
    by (simp add: marks_grow_def room_state_def)
  show "marks_grow k s (snd (mark_terminal k r applied s))"
    unfolding mark_terminal_def bindE_modify ret_simp snd_conv
    by (rule marks_grow_update_room)
      (auto simp: marks_ok_def marks_le_def split: option.splits intro: opt_le_trans)
qed

lemma room_inv_marks_ok: "room_inv k st \<Longrightarrow> marks_ok st"
  by (auto simp: room_inv_def marks_ok_def attempt_inv_def split: option.splits)

lemma worker_inv_marks_ok: "worker_inv s \<Longrightarrow> marks_ok (room_state k s)"
  by (auto simp: room_state_def marks_ok_empty dest: worker_inv_roomD room_inv_marks_ok split: option.splits)

text \<open>What \<open>apply_intent\<close> itself adds: registering the room and starting an attempt.\<close>

lemma setdefault_room_state [simp]: "room_state k' (setdefault_room k s) = room_state k' s"
  by (auto simp: room_state_def setdefault_room_def split: option.splits)

text \<open>The state with the room registered, and with a new attempt started in it.\<close>

definition start_attempt :: "'c g301_worker \<Rightarrow> desired_room_intent \<Rightarrow> 'c worker_state \<Rightarrow> 'c worker_state" where
  "start_attempt w i s =
     update_room (di_room_key i)
       (\<lambda>st. st\<lparr>ri_last_seen_version := Some (di_intent_version i),
                ri_current_attempt := Some (new_attempt (di_intent_version i) (intent_fingerprint w i))\<rparr>)
       (setdefault_room (di_room_key i) s)"

lemma apply_intent_eq:
  assumes "wk_room_slave_addresses w (di_room_key i) = Some slave"
  shows "apply_intent w i s =
    (let k = di_room_key i; v = di_intent_version i; st = room_state k s in
     case ri_last_seen_version st of
       None \<Rightarrow> execute_intent w i slave (start_attempt w i s)
     | Some seen \<Rightarrow>
         if v < seen
         then make_result w i ES_STALE
                (Some (''intent version is older than seen version '' @ show_int seen)) [] []
                (setdefault_room k s)
         else if seen < v then execute_intent w i slave (start_attempt w i s)
         else redelivered w i slave st (setdefault_room k s))"
  unfolding apply_intent_def Let_def assms option.case bindE_modify bindE_gets setdefault_room_state
  by (simp add: start_attempt_def split: option.split)

lemma apply_intent_keeps:
  assumes "wk_room_slave_addresses w (di_room_key i) = Some slave"
  shows "same_but (di_room_key i) slave s (snd (apply_intent w i s))"
    and "marks_ok (room_state (di_room_key i) s) \<Longrightarrow>
      marks_le (room_state (di_room_key i) s) (room_state (di_room_key i) (snd (apply_intent w i s)))"
proof -
  let ?k = "di_room_key i" and ?v = "di_intent_version i"
  let ?s1 = "setdefault_room ?k s"
  let ?new = "\<lambda>st. st\<lparr>ri_last_seen_version := Some ?v,
                      ri_current_attempt := Some (new_attempt ?v (intent_fingerprint w i))\<rparr>"
  let ?s2 = "start_attempt w i s"
  have st: "ws_intent_states ?s1 ?k = Some (room_state ?k s)"
    by (auto simp: setdefault_room_def room_state_def split: option.splits)
  have f1: "same_but ?k slave s ?s1"
    by (auto simp: same_but_def setdefault_room_def split: option.splits)
  have f2: "same_but ?k slave s ?s2"
    by (auto simp: same_but_def start_attempt_def setdefault_room_def update_room_def split: option.splits)
  have r1: "room_state ?k ?s1 = room_state ?k s" by simp
  have r2: "room_state ?k ?s2 = ?new (room_state ?k s)"
    using st by (simp add: start_attempt_def room_state_update_room)
  have ok2: "marks_ok (room_state ?k ?s2) \<and> marks_le (room_state ?k s) (room_state ?k ?s2)"
    if "marks_ok (room_state ?k s)" "opt_le (ri_last_seen_version (room_state ?k s)) (Some ?v)"
    using that opt_le_trans unfolding r2 by (auto simp: marks_ok_def marks_le_def new_attempt_def)
  let ?res = "apply_intent w i s"
  consider (result) st msg where "?res = make_result w i st msg [] [] ?s1"
    | (start) "?res = execute_intent w i slave ?s2" "opt_le (ri_last_seen_version (room_state ?k s)) (Some ?v)"
    | (again) "?res = redelivered w i slave (room_state ?k s) ?s1"
  proof (cases "ri_last_seen_version (room_state ?k s)")
    case None
    then have "?res = execute_intent w i slave ?s2" by (simp add: apply_intent_eq [OF assms])
    then show thesis by (rule start) (simp add: None)
  next
    case (Some seen)
    note eq = apply_intent_eq [OF assms, of s, unfolded Let_def Some option.case]
    consider "?v < seen" | "seen < ?v" | "seen = ?v" by linarith
    then show thesis
    proof cases
      case 1
      with eq show thesis by (intro result) (simp only: if_True)
    next
      case 2
      then have "\<not> ?v < seen" by simp
      with eq 2 Some show thesis by (intro start) (simp_all only: if_True if_False opt_le_simps less_imp_le)
    next
      case 3
      with eq show thesis by (intro again) simp
    qed
  qed
  then have "(same_but ?k slave ?s1 (snd ?res) \<or> same_but ?k slave ?s2 (snd ?res))
    \<and> (marks_ok (room_state ?k s) \<longrightarrow> marks_le (room_state ?k s) (room_state ?k (snd ?res)))"
  proof cases
    case result
    then show ?thesis
      using keepsD [OF frame.keeps_make_result [of ?k slave w i st msg "[]" "[]"], of ?s1]
        keepsD [OF watermarks.keeps_make_result [of ?k w i st msg "[]" "[]"], of ?s1] r1
      by (auto simp: marks_grow_def)
  next
    case start
    then show ?thesis
      using keepsD [OF frame.keeps_execute_intent [OF refl, where slave = slave and w = w and i = i], of ?s2] ok2 marks_le_trans
        keepsD [OF watermarks.keeps_execute_intent [OF refl, where slave = slave and w = w and i = i], of ?s2]
      unfolding marks_grow_def by (simp only: start(1)) blast
  next
    case again
    then show ?thesis
      using keepsD [OF frame.keeps_redelivered [OF refl, where slave = slave and w = w and i = i and st = "room_state ?k s"], of ?s1]
        keepsD [OF watermarks.keeps_redelivered [OF refl, where slave = slave and w = w and i = i and st = "room_state ?k s"], of ?s1] r1
      by (auto simp: marks_grow_def)
  qed
  with f1 f2 show "same_but ?k slave s (snd ?res)"
    and "marks_ok (room_state ?k s) \<Longrightarrow> marks_le (room_state ?k s) (room_state ?k (snd ?res))"
    using frame.R_trans by blast+
qed

end
