(* ===== verification/G301_Simulation.thy ===== *)
theory G301_Simulation
  imports G301_Simulator G301_Worker_Frames
begin

text \<open>
  The worker on the simulated entrance: a client whose state is the entrance simulator and a
  clock that sleeping advances, the worker with the constructor's default configuration on
  it, and the lemmas that carry an intent through planning, the writes, the delayed status
  registers and the readback rounds.
\<close>

section \<open>The simulated bench\<close>

record sim_env =
  se_entrance :: entrance_sim
  se_now :: datetime

definition on_entrance :: "(entrance_sim, 'a) eff \<Rightarrow> (sim_env, 'a) eff" where
  "on_entrance m c = (case m (se_entrance c) of (r, e) \<Rightarrow> (r, c\<lparr>se_entrance := e\<rparr>))"

definition bench_write :: "sim_env write_op" where
  "bench_write timeout slave address v = on_entrance (entrance_write timeout slave address v)"

definition bench_read :: "sim_env read_op" where
  "bench_read timeout slave address count = on_entrance (entrance_read timeout slave address count)"

definition simulated :: "sim_env g301_worker \<Rightarrow> bool" where
  "simulated w \<longleftrightarrow>
     wk_write_register w = bench_write \<and> wk_read_holding_registers w = bench_read
     \<and> wk_clock w = (\<lambda>c. (se_now c, c)) \<and> wk_utc_now w = (\<lambda>c. (se_now c, c))
     \<and> wk_sleep w = (\<lambda>t c. c\<lparr>se_now := dt_plus (se_now c) (td_seconds t)\<rparr>)"

text \<open>The defaults of the constructor's keyword arguments; \<^verbatim>\<open>0.1\<close> is the binary64 value.\<close>

definition default_worker ::
  "tzdb \<Rightarrow> (payload \<Rightarrow> string) \<Rightarrow> string \<Rightarrow> (string \<rightharpoonup> int) \<Rightarrow> sim_env g301_worker" where
  "default_worker db hash entrance_key slaves =
     \<lparr>wk_entrance_key = entrance_key, wk_room_slave_addresses = slaves,
      wk_operation_timeout_seconds = 2, wk_max_operation_attempts = 1,
      wk_retry_backoff_seconds = 3602879701896397 / 36028797018963968,
      wk_readback_attempts = 2, wk_readback_delay_seconds = 1,
      wk_slave_retry_base_seconds = 5, wk_slave_retry_max_seconds = 300,
      wk_validity_clock_skew_seconds = 5,
      wk_write_register = bench_write, wk_read_holding_registers = bench_read,
      wk_clock = (\<lambda>c. (se_now c, c)), wk_utc_now = (\<lambda>c. (se_now c, c)),
      wk_sleep = (\<lambda>t c. c\<lparr>se_now := dt_plus (se_now c) (td_seconds t)\<rparr>),
      wk_tzdb = db, wk_hash = hash\<rparr>"

lemma on_entrance_raises:
  "raises_only V m \<Longrightarrow> raises_only V (on_entrance m)"
  by (auto simp: raises_only_def on_entrance_def split: prod.splits)

interpretation bench_client: register_client bench_write bench_read is_ValueError
  by unfold_locales
    (auto simp: bench_write_def bench_read_def intro: on_entrance_raises entrance_client.write_errors
      entrance_client.read_errors)

interpretation bench_bus: served_bus "default_worker db hash entrance_key slaves" is_ValueError for db hash entrance_key slaves
  by unfold_locales
    (auto simp: default_worker_def intro: bench_client.write_errors bench_client.read_errors)

lemma default_worker_simulated: "simulated (default_worker db hash k slaves)"
  by (simp add: simulated_def default_worker_def)

section \<open>Status registers that are due\<close>

text \<open>The register \<open>a\<close> shows \<open>v\<close> after at most \<open>n\<close> further reads.\<close>

definition due_within :: "nat \<Rightarrow> int \<Rightarrow> int \<Rightarrow> g301_sim \<Rightarrow> bool" where
  "due_within n a v d \<longleftrightarrow>
     (sm_registers d a = Some v \<and> sm_pending_status d a = None)
     \<or> (\<exists>m. 0 < m \<and> m \<le> n \<and> sm_pending_status d a = Some (v, int m))"

lemma due_within_0: "due_within 0 a v d \<longleftrightarrow> sm_registers d a = Some v \<and> sm_pending_status d a = None"
  by (simp add: due_within_def)

lemma due_within_mono: "due_within n a v d \<Longrightarrow> n \<le> n' \<Longrightarrow> due_within n' a v d"
  by (auto simp: due_within_def)

lemma due_within_advance_other: "a \<noteq> b \<Longrightarrow> due_within n a v (advance_pending b d) = due_within n a v d"
  by (simp add: due_within_def advance_pending_def split: option.splits)

lemma due_within_advance:
  assumes "due_within n a v d"
  shows "due_within (n - 1) a v (advance_pending a d)"
proof (cases "sm_pending_status d a")
  case None
  with assms show ?thesis by (simp add: due_within_def advance_pending_def)
next
  case (Some p)
  with assms obtain m where m: "0 < m" "m \<le> n" "sm_pending_status d a = Some (v, int m)"
    by (auto simp: due_within_def)
  show ?thesis
  proof (cases "m = 1")
    case True
    with m show ?thesis by (simp add: due_within_def advance_pending_def)
  next
    case False
    with m have "sm_pending_status (advance_pending a d) a = Some (v, int (m - 1))"
      by (simp add: advance_pending_def of_nat_diff)
    moreover have "0 < m - 1" "m - 1 \<le> n - 1" using m False by auto
    ultimately show ?thesis unfolding due_within_def by blast
  qed
qed

lemma due_within_advance_any: "due_within n a v d \<Longrightarrow> due_within n a v (advance_pending b d)"
  by (cases "a = b") (auto simp: due_within_advance_other dest: due_within_advance intro: due_within_mono)

lemma advance_slave [simp]:
  "sm_slave_address (advance_pending a d) = sm_slave_address d"
  "sm_status_delay_reads (advance_pending a d) = sm_status_delay_reads d"
  by (simp_all add: advance_pending_def split: option.splits)

definition shown :: "g301_sim \<Rightarrow> int \<Rightarrow> int" where
  "shown d a = (case sm_registers d a of None \<Rightarrow> 0 | Some v \<Rightarrow> v)"

lemma due_within_0_shown: "due_within 0 a v d \<Longrightarrow> shown d a = v"
  by (simp add: due_within_0 shown_def)

lemma address_range_simps:
  "address_range a 1 = [a]" "address_range a 3 = [a, a + 1, a + 2]"
  by (simp_all add: address_range_def numeral_3_eq_3)

lemma sim_read_1:
  "sm_slave_address d = slave \<Longrightarrow> sim_read slave a 1 d = (Inr [shown d a], advance_pending a d)"
  by (simp add: sim_read_def address_range_simps advance_pending_status_def shown_def)

text \<open>The effect of an accepted write.\<close>

definition sim_put :: "int \<Rightarrow> int \<Rightarrow> g301_sim \<Rightarrow> g301_sim" where
  "sim_put a v d = mirror_control_to_status a v (d\<lparr>sm_registers := (sm_registers d)(a \<mapsto> v)\<rparr>)"

lemma sim_write_put:
  "sm_slave_address d = slave \<Longrightarrow> 0 \<le> v \<Longrightarrow> v \<le> 0xFFFF \<Longrightarrow> sim_write slave a v d = (Inr (), sim_put a v d)"
  by (simp add: sim_write_def sim_put_def)

lemma sim_put_slave [simp]:
  "sm_slave_address (sim_put a v d) = sm_slave_address d"
  "sm_status_delay_reads (sim_put a v d) = sm_status_delay_reads d"
  by (simp_all add: sim_put_def mirror_control_to_status_def set_status_def)

text \<open>The registers a write leaves alone keep what is due of them.\<close>

lemma due_within_put_other:
  "b \<noteq> a \<Longrightarrow> (a = reg REG_POWER \<Longrightarrow> b \<noteq> reg REG_POWER_STATUS) \<Longrightarrow> (a = reg REG_MODE \<Longrightarrow> b \<noteq> reg REG_MODE_STATUS)
   \<Longrightarrow> due_within n b v (sim_put a u d) = due_within n b v d"
  by (auto simp: due_within_def sim_put_def mirror_control_to_status_def set_status_def)

lemma due_within_put_same:
  "sm_pending_status d a = None \<Longrightarrow> a \<notin> {reg REG_POWER_STATUS, reg REG_MODE_STATUS} \<Longrightarrow>
   due_within 0 a v (sim_put a v d)"
  by (auto simp: due_within_0 sim_put_def mirror_control_to_status_def set_status_def)

lemma due_within_put_status:
  assumes "0 \<le> sm_status_delay_reads d" and "sm_pending_status d b = None \<or> sm_status_delay_reads d \<noteq> 0"
    and "(a = reg REG_POWER \<and> b = reg REG_POWER_STATUS) \<or> (a = reg REG_MODE \<and> b = reg REG_MODE_STATUS)"
  shows "due_within (nat (sm_status_delay_reads d)) b v (sim_put a v d)"
proof (cases "sm_status_delay_reads d = 0")
  case True
  with assms show ?thesis by (auto simp: due_within_def sim_put_def mirror_control_to_status_def set_status_def)
next
  case False
  let ?m = "nat (sm_status_delay_reads d)"
  have "sm_pending_status (sim_put a v d) b = Some (v, int ?m)"
    using False assms by (auto simp: sim_put_def mirror_control_to_status_def set_status_def)
  moreover have "0 < ?m" using False assms(1) by simp
  ultimately show ?thesis unfolding due_within_def by blast
qed

section \<open>Operations on the bench\<close>

text \<open>The unit behind a slave address, the rooms' intent states and the failures of the slaves.\<close>

definition on_bench ::
  "int \<Rightarrow> g301_sim \<Rightarrow> (string \<rightharpoonup> room_intent_state) \<Rightarrow> (int \<rightharpoonup> slave_failure) \<Rightarrow> sim_env worker_state \<Rightarrow> bool" where
  "on_bench slave d S F s \<longleftrightarrow>
     es_devices (se_entrance (ws_env s)) slave = Some d \<and> sm_slave_address d = slave
     \<and> ws_intent_states s = S \<and> ws_slave_failures s = F"

abbreviation never :: "pyexc \<Rightarrow> 's \<Rightarrow> bool" where
  "never \<equiv> \<lambda>_ _. False"

lemma with_retry_first:
  assumes "1 \<le> wk_max_operation_attempts w" and "m (ws_env s) = (Inr v, c)"
  shows "with_retry w m s = (Inr v, s\<lparr>ws_env := c\<rparr>)"
proof -
  obtain n where "nat (wk_max_operation_attempts w) = Suc n"
    using assms(1) by (cases "nat (wk_max_operation_attempts w)") auto
  then show ?thesis using assms(2) by (simp add: with_retry_def bindE_attemptE on_env_def)
qed

lemma triple_bench_read:
  assumes "simulated w" and "1 \<le> wk_max_operation_attempts w" and "sim_read slave a n d = (Inr vs, d')"
    and "sm_slave_address d' = slave"
  shows "triple (on_bench slave d S F) (with_retry w (wk_read_holding_registers w t slave a n))
     (\<lambda>x s. x = vs \<and> on_bench slave d' S F s) never"
proof (rule tripleI)
  fix s r s'
  assume s: "on_bench slave d S F s" and m: "with_retry w (wk_read_holding_registers w t slave a n) s = (r, s')"
  let ?e = "se_entrance (ws_env s)"
  let ?c = "(ws_env s)\<lparr>se_entrance := ?e\<lparr>es_operations := es_operations ?e @ [(''read'', slave, a)],
                                     es_devices := (es_devices ?e)(slave \<mapsto> d')\<rparr>\<rparr>"
  have "wk_read_holding_registers w t slave a n (ws_env s) = (Inr vs, ?c)"
    using assms(1,3) s
    by (simp add: simulated_def bench_read_def on_entrance_def entrance_read_def on_device_def on_bench_def)
  from with_retry_first [where m = "wk_read_holding_registers w t slave a n" and s = s, OF assms(2) this] m s assms(4)
  show "case r of Inr x \<Rightarrow> x = vs \<and> on_bench slave d' S F s' | Inl e \<Rightarrow> never e s'"
    by (auto simp: on_bench_def)
qed

lemma triple_bench_write:
  assumes "simulated w" and "1 \<le> wk_max_operation_attempts w"
    and "0 \<le> rw_value wr" and "rw_value wr \<le> 0xFFFF"
  shows "triple (on_bench slave d S F) (write_one w slave wr)
     (\<lambda>_. on_bench slave (sim_put (rw_address wr) (rw_value wr) d) S F) never"
proof (rule tripleI)
  fix s r s'
  assume s: "on_bench slave d S F s" and m: "write_one w slave wr s = (r, s')"
  let ?e = "se_entrance (ws_env s)" and ?d = "sim_put (rw_address wr) (rw_value wr) d"
  let ?c = "(ws_env s)\<lparr>se_entrance := ?e\<lparr>es_operations := es_operations ?e @ [(''write'', slave, rw_address wr)],
                                     es_devices := (es_devices ?e)(slave \<mapsto> ?d)\<rparr>\<rparr>"
  have "sim_write slave (rw_address wr) (rw_value wr) d = (Inr (), ?d)"
    using s assms(3,4) by (intro sim_write_put) (auto simp: on_bench_def)
  then have "wk_write_register w (wk_operation_timeout_seconds w) slave (rw_address wr) (rw_value wr) (ws_env s) = (Inr (), ?c)"
    using assms(1) s
    by (simp add: simulated_def bench_write_def on_entrance_def entrance_write_def on_device_def on_bench_def)
  from with_retry_first [where m = "wk_write_register w (wk_operation_timeout_seconds w) slave (rw_address wr) (rw_value wr)"
      and s = s, OF assms(2) this] m s
  show "case r of Inr _ \<Rightarrow> on_bench slave ?d S F s' | Inl e \<Rightarrow> never e s'"
    by (auto simp: on_bench_def write_one_def)
qed

lemma triple_bench_read_one:
  assumes "simulated w" and "1 \<le> wk_max_operation_attempts w"
  shows "triple (on_bench slave d S F) (read_one w slave a)
     (\<lambda>v s. v = shown d a \<and> on_bench slave (advance_pending a d) S F s) never"
proof (cases "sm_slave_address d = slave")
  case True
  have r: "triple (on_bench slave d S F) (with_retry w (wk_read_holding_registers w (wk_operation_timeout_seconds w) slave a 1))
     (\<lambda>x s. x = [shown d a] \<and> on_bench slave (advance_pending a d) S F s) never"
    by (rule triple_bench_read [OF assms sim_read_1 [OF True]]) (use True in simp)
  show ?thesis
    unfolding read_one_def
    by (rule triple_bindE [OF r]) (auto simp: triple_def)
next
  case False
  then show ?thesis by (auto simp: on_bench_def triple_def)
qed

text \<open>Reading the profile of a unit with nothing pending leaves the unit as it is.\<close>

lemma advance_quiet: "sm_pending_status d a = None \<Longrightarrow> advance_pending a d = d"
  by (simp add: advance_pending_def)

lemma triple_bench_profile:
  assumes "simulated w" and "1 \<le> wk_max_operation_attempts w" and "sm_pending_status d = Map.empty"
    and "build_device_profile (shown d (reg REG_CAPABILITIES)) (shown d (reg REG_MODE_LIMITATION))
           (shown d (reg REG_TEMPERATURE_UPPER_LIMIT)) (shown d (reg REG_TEMPERATURE_LOWER_LIMIT)) = Inr p"
  shows "triple (on_bench slave d S F) (read_device_profile w slave)
     (\<lambda>x s. x = p \<and> on_bench slave d S F s) never"
proof (cases "sm_slave_address d = slave")
  case True
  have quiet: "advance_pending a d = d" for a using assms(3) by (simp add: advance_quiet)
  have one: "triple (on_bench slave d S F) (read_one w slave (reg REG_CAPABILITIES))
      (\<lambda>v s. v = shown d (reg REG_CAPABILITIES) \<and> on_bench slave d S F s) never"
    using triple_bench_read_one [OF assms(1,2), of slave d S F "reg REG_CAPABILITIES"] by (simp add: quiet)
  let ?ls = "[shown d (reg REG_MODE_LIMITATION), shown d (reg REG_TEMPERATURE_UPPER_LIMIT),
              shown d (reg REG_TEMPERATURE_LOWER_LIMIT)]"
  have "sim_read slave (reg REG_MODE_LIMITATION) 3 d = (Inr ?ls, d)"
    using True by (simp add: sim_read_def address_range_simps advance_pending_status_def quiet shown_def)
  then have three: "triple (on_bench slave d S F)
      (with_retry w (wk_read_holding_registers w (wk_operation_timeout_seconds w) slave (reg REG_MODE_LIMITATION) 3))
      (\<lambda>x s. x = ?ls \<and> on_bench slave d S F s) never"
    using triple_bench_read [OF assms(1,2)] True by blast
  have "triple (\<lambda>s. ls = ?ls \<and> on_bench slave d S F s)
     (if length ls \<noteq> 3 then raise (G301ProtocolError ''G301 limit read returned an incomplete response'')
      else case build_device_profile c (ls ! 0) (ls ! 1) (ls ! 2) of
        Inl e \<Rightarrow> raise (G301PlanningError (exc_message e)) | Inr profile \<Rightarrow> ret profile)
     (\<lambda>x s. x = p \<and> on_bench slave d S F s) never"
    if "c = shown d (reg REG_CAPABILITIES)" for c ls
    using that assms(4) by (auto simp: triple_def)
  then show ?thesis
    unfolding read_device_profile_def
    apply (intro triple_bindE [OF one])
    subgoal for c
      apply (cases "c = shown d (reg REG_CAPABILITIES)")
       apply (rule triple_bindE [OF triple_pre [OF three]])
        apply simp
       apply simp
      apply (simp add: triple_False)
      done
    done
next
  case False
  then show ?thesis by (auto simp: on_bench_def triple_def)
qed

lemma triple_known: "(v = c \<Longrightarrow> triple P m Q E) \<Longrightarrow> triple (\<lambda>s. v = c \<and> P s) m Q E"
  by (auto simp: triple_def)

lemma triple_ex_pre:
  assumes "\<And>x. triple (P x) m Q E"
  shows "triple (\<lambda>s. \<exists>x. P x s) m Q E"
proof (rule tripleI)
  fix s r s' assume "\<exists>x. P x s" and m: "m s = (r, s')"
  then obtain x where x: "P x s" by blast
  show "case r of Inr v \<Rightarrow> Q v s' | Inl e \<Rightarrow> E e s'"
    using assms [of x] x m by (auto dest: tripleD_Inr tripleD_Inl split: sum.splits)
qed

section \<open>Readback rounds\<close>

fun observed_after :: "readback_expectation list \<Rightarrow> g301_sim \<Rightarrow> (int \<rightharpoonup> int) \<Rightarrow> (int \<rightharpoonup> int)" where
  "observed_after [] d obs = obs"
| "observed_after (e # es) d obs =
     observed_after es (advance_pending (re_address e) d) (obs(re_address e \<mapsto> shown d (re_address e)))"

definition after_reads :: "readback_expectation list \<Rightarrow> g301_sim \<Rightarrow> g301_sim" where
  "after_reads es d = foldl (\<lambda>d e. advance_pending (re_address e) d) d es"

lemma after_reads_simps [simp]:
  "after_reads [] d = d"
  "after_reads (e # es) d = after_reads es (advance_pending (re_address e) d)"
  by (simp_all add: after_reads_def)

lemma due_within_after_reads: "due_within n a v d \<Longrightarrow> due_within n a v (after_reads es d)"
  by (induction es arbitrary: d) (simp_all add: due_within_advance_any)

lemma due_within_round:
  assumes "distinct (map re_address es)" and "\<forall>e \<in> set es. due_within n (re_address e) (re_expected e) d"
  shows "\<forall>e \<in> set es. due_within (n - 1) (re_address e) (re_expected e) (after_reads es d)"
  using assms
proof (induction es arbitrary: d)
  case Nil
  then show ?case by simp
next
  case (Cons e es)
  have "due_within (n - 1) (re_address e) (re_expected e) (after_reads es (advance_pending (re_address e) d))"
    using Cons.prems by (intro due_within_after_reads due_within_advance) simp
  moreover have "\<forall>e' \<in> set es. due_within n (re_address e') (re_expected e') (advance_pending (re_address e) d)"
    using Cons.prems by (auto intro: due_within_advance_any)
  ultimately show ?case using Cons by simp
qed

lemma observed_after_other:
  "a \<notin> re_address ` set es \<Longrightarrow> observed_after es d obs a = obs a"
  by (induction es arbitrary: d obs) auto

lemma observed_after_due:
  assumes "distinct (map re_address es)" and "\<forall>e \<in> set es. due_within 0 (re_address e) (re_expected e) d"
  shows "\<forall>e \<in> set es. observed_after es d obs (re_address e) = Some (re_expected e)"
  using assms
proof (induction es arbitrary: d obs)
  case Nil
  then show ?case by simp
next
  case (Cons e es)
  have "observed_after es (advance_pending (re_address e) d)
          (obs(re_address e \<mapsto> shown d (re_address e))) (re_address e) = Some (re_expected e)"
    using Cons.prems by (subst observed_after_other) (auto dest: due_within_0_shown)
  moreover have "\<forall>e' \<in> set es. due_within 0 (re_address e') (re_expected e') (advance_pending (re_address e) d)"
    using Cons.prems by (auto intro: due_within_advance_any)
  ultimately show ?case using Cons by simp
qed

locale bench =
  fixes w :: "sim_env g301_worker"
  assumes sim: "simulated w" and one_attempt: "1 \<le> wk_max_operation_attempts w"
begin

lemma triple_bench_observe:
  "triple (on_bench slave d S F) (observe_all w slave es obs)
     (\<lambda>o' s. o' = observed_after es d obs \<and> on_bench slave (after_reads es d) S F s) never"
proof (induction es arbitrary: d obs)
  case Nil
  show ?case by (auto intro!: triple_ends)
next
  case (Cons e es)
  show ?case
    unfolding observe_all.simps
    apply (rule triple_bindE [OF triple_bench_read_one [OF sim one_attempt]])
    subgoal for v
      by (rule triple_known) (simp only: observed_after.simps after_reads_simps Cons.IH)
    done
qed

lemma triple_bench_sleep: "triple (on_bench slave d S F) (sleep_for w t) (\<lambda>_. on_bench slave d S F) never"
  using sim by (auto simp: triple_def sleep_for_def on_env_def simulated_def on_bench_def)

text \<open>With fewer reads outstanding than rounds left, the readback ends in a match.\<close>

lemma triple_bench_readback_from:
  assumes "distinct (map re_address (pl_readback_expectations plan))" and "pl_slave_address plan = slave"
  shows "m < n \<Longrightarrow> \<forall>e \<in> set (pl_readback_expectations plan). due_within m (re_address e) (re_expected e) d \<Longrightarrow>
    triple (on_bench slave d S F) (readback_from w plan k n obs)
      (\<lambda>o' s. compare_readback plan o' = [] \<and>
         (\<exists>d'. on_bench slave d' S F s \<and> (\<forall>b v. due_within 0 b v d \<longrightarrow> due_within 0 b v d'))) never"
proof (induction n arbitrary: m d k obs)
  case 0
  then show ?case by simp
next
  case (Suc n)
  let ?es = "pl_readback_expectations plan"
  let ?d1 = "after_reads ?es d" and ?o1 = "observed_after ?es d Map.empty"
  let ?Q = "\<lambda>o' s. compare_readback plan o' = [] \<and>
         (\<exists>d'. on_bench slave d' S F s \<and> (\<forall>b v. due_within 0 b v d \<longrightarrow> due_within 0 b v d'))"
  have keep: "\<forall>b v. due_within 0 b v d \<longrightarrow> due_within 0 b v ?d1" by (simp add: due_within_after_reads)
  have sleep: "triple (on_bench slave ?d1 S F)
      (if b then sleep_for w t else ret ()) (\<lambda>_. on_bench slave ?d1 S F) never" for b t
    by (cases b) (auto intro: triple_bench_sleep triple_ends)
  have next_round: "triple (on_bench slave ?d1 S F)
      (if compare_readback plan ?o1 = [] then ret ?o1
       else bindE (if b then sleep_for w t else ret ()) (\<lambda>_. readback_from w plan (Suc k) n ?o1)) ?Q never"
    for b t
  proof (cases "compare_readback plan ?o1 = []")
    case True
    then show ?thesis using keep by (auto simp: triple_def)
  next
    case False
    have "m \<noteq> 0"
      using False observed_after_due [OF assms(1)] Suc.prems(2) by (metis compare_readback_Nil)
    then have "m - 1 < n" using Suc.prems(1) by simp
    from Suc.IH [OF this due_within_round [OF assms(1) Suc.prems(2)]]
    have "triple (on_bench slave ?d1 S F) (readback_from w plan (Suc k) n ?o1) ?Q never"
      by (rule triple_weaken) (use keep in auto)
    with False show ?thesis by (simp add: triple_bindE [OF sleep])
  qed
  show ?case
    unfolding readback_from.simps assms(2)
    apply (rule triple_bindE [OF triple_bench_observe])
    subgoal for o'
      by (rule triple_known) (simp only: next_round)
    done
qed

end

section \<open>Carrying out a plan on the bench\<close>

definition after_writes :: "register_write list \<Rightarrow> g301_sim \<Rightarrow> g301_sim" where
  "after_writes ws d = foldl (\<lambda>d wr. sim_put (rw_address wr) (rw_value wr) d) d ws"

lemma after_writes_simps [simp]:
  "after_writes [] d = d"
  "after_writes (wr # ws) d = after_writes ws (sim_put (rw_address wr) (rw_value wr) d)"
  by (simp_all add: after_writes_def)

lemma pending_put_other:
  "b \<notin> {reg REG_POWER_STATUS, reg REG_MODE_STATUS} \<Longrightarrow> sm_pending_status (sim_put a v d) b = sm_pending_status d b"
  by (auto simp: sim_put_def mirror_control_to_status_def set_status_def)

lemma pending_put_mode:
  "sm_pending_status (sim_put (reg REG_MODE) v d) (reg REG_POWER_STATUS) = sm_pending_status d (reg REG_POWER_STATUS)"
  "sm_pending_status (sim_put (reg REG_SET_TEMPERATURE) v d) a = sm_pending_status d a"
  by (auto simp: sim_put_def mirror_control_to_status_def set_status_def)

lemma planned_writes_due:
  assumes "plan_room_intent intent slave profile_opt = Inr plan"
    and "sm_pending_status d = Map.empty" and "0 \<le> sm_status_delay_reads d"
  shows "(\<forall>wr \<in> set (pl_writes plan). due_within 0 (rw_address wr) (rw_value wr) (after_writes (pl_writes plan) d))
    \<and> (\<forall>e \<in> set (pl_readback_expectations plan). due_within (nat (sm_status_delay_reads d))
          (re_address e) (re_expected e) (after_writes (pl_writes plan) d))
    \<and> distinct (map re_address (pl_readback_expectations plan))"
  using assms(1)
proof (cases rule: plan_room_intent_cases)
  case off
  have "due_within 0 (reg REG_POWER) 0 (sim_put (reg REG_POWER) 0 d)"
    using assms(2) by (intro due_within_put_same) simp_all
  moreover have "due_within (nat (sm_status_delay_reads d)) (reg REG_POWER_STATUS) 0 (sim_put (reg REG_POWER) 0 d)"
    using assms(2,3) by (intro due_within_put_status) simp_all
  ultimately show ?thesis by (simp add: off(4)) (simp add: disabled_writes_def)
next
  case (on mode profile ws)
  from on(7) obtain t raw where
    ws: "ws = [mode_write (hi_mode (di_hvac intent)) mode, setpoint_write raw, power_on_write]"
    by (rule enabled_writes_Inr)
  let ?m = "g301_mode_value mode" and ?D = "nat (sm_status_delay_reads d)"
  let ?d1 = "sim_put (reg REG_MODE) ?m d"
  let ?d2 = "sim_put (reg REG_SET_TEMPERATURE) raw ?d1"
  let ?d3 = "sim_put (reg REG_POWER) 1 ?d2"
  have d3: "after_writes (pl_writes plan) d = ?d3"
    by (simp add: on(8) ws mode_write_def setpoint_write_def power_on_write_def)
  have pend: "sm_pending_status d a = None" for a using assms(2) by simp
  have mode: "due_within 0 (reg REG_MODE) ?m ?d3"
    by (subst due_within_put_other; (subst due_within_put_other)?; (rule due_within_put_same)?; simp add: pend)
  have set: "due_within 0 (reg REG_SET_TEMPERATURE) raw ?d3"
    by (subst due_within_put_other; (rule due_within_put_same)?; simp add: pend pending_put_other)
  have pow: "due_within 0 (reg REG_POWER) 1 ?d3"
    by (rule due_within_put_same) (simp_all add: pend pending_put_other)
  have mode_status: "due_within ?D (reg REG_MODE_STATUS) ?m ?d3"
    by (subst due_within_put_other; (subst due_within_put_other)?; (rule due_within_put_status)?;
        use assms(3) pend in simp)
  have "due_within (nat (sm_status_delay_reads ?d2)) (reg REG_POWER_STATUS) 1 ?d3"
    using assms(3) pend pending_put_mode by (intro due_within_put_status) simp_all
  then have power_status: "due_within ?D (reg REG_POWER_STATUS) 1 ?d3" by simp
  have "due_within ?D (reg REG_SET_TEMPERATURE) raw ?d3" using set by (rule due_within_mono) simp
  with mode set pow mode_status power_status show ?thesis
    unfolding d3 by (simp add: on(8) ws) (simp add: mode_write_def setpoint_write_def power_on_write_def)
qed

text \<open>The intent's room has an attempt for its version, with this plan.\<close>

definition attempting :: "desired_room_intent \<Rightarrow> g301_plan option \<Rightarrow> (string \<rightharpoonup> room_intent_state) \<Rightarrow> bool" where
  "attempting i plan_opt S \<longleftrightarrow>
     (\<exists>st a. S (di_room_key i) = Some st \<and> ri_current_attempt st = Some a
        \<and> at_version a = di_intent_version i \<and> at_plan a = plan_opt)"

definition under_way ::
  "desired_room_intent \<Rightarrow> g301_plan option \<Rightarrow> int \<Rightarrow> g301_sim \<Rightarrow> (int \<rightharpoonup> slave_failure) \<Rightarrow> sim_env worker_state \<Rightarrow> bool" where
  "under_way i plan_opt slave d F s \<longleftrightarrow> (\<exists>S. attempting i plan_opt S \<and> on_bench slave d S F s)"

lemma triple_under_way:
  assumes "\<And>S. attempting i p S \<Longrightarrow> triple (on_bench slave d S F) m (Q S) E"
    and "\<And>S v s. attempting i p S \<Longrightarrow> Q S v s \<Longrightarrow> R v s"
  shows "triple (under_way i p slave d F) m R E"
  using assms unfolding under_way_def triple_def by (fastforce split: prod.splits sum.splits)

lemma under_way_update:
  assumes "under_way i p slave d F s" and "\<And>a. at_version (f a) = at_version a"
    and "\<And>a. at_plan a = p \<Longrightarrow> at_plan (f a) = p'"
  shows "under_way i p' slave d F (update_attempt (di_room_key i) f s)"
proof -
  from assms(1) obtain S st a where S: "on_bench slave d S F s" "S (di_room_key i) = Some st"
    "ri_current_attempt st = Some a" "at_version a = di_intent_version i" "at_plan a = p"
    by (auto simp: under_way_def attempting_def)
  let ?st = "st\<lparr>ri_current_attempt := Some (f a)\<rparr>"
  have "on_bench slave d (S(di_room_key i \<mapsto> ?st)) F (update_attempt (di_room_key i) f s)"
    using S(1-3) by (auto simp: on_bench_def update_attempt_def update_room_def)
  moreover have "attempting i p' (S(di_room_key i \<mapsto> ?st))"
    using S assms(2,3) by (simp add: attempting_def)
  ultimately show ?thesis unfolding under_way_def by blast
qed

lemma triple_under_way_update:
  "(\<And>a. at_version (f a) = at_version a) \<Longrightarrow> (\<And>a. at_plan a = p \<Longrightarrow> at_plan (f a) = p') \<Longrightarrow>
   triple (under_way i p slave d F) (modify (update_attempt (di_room_key i) f)) (\<lambda>_. under_way i p' slave d F) E"
  by (rule triple_modify) (rule under_way_update)

lemma under_way_attempt_plan: "under_way i p slave d F s \<Longrightarrow> attempt_plan (di_room_key i) s = p"
  by (auto simp: under_way_def attempting_def on_bench_def attempt_plan_def room_state_def)

text \<open>The room's state after an applied attempt.\<close>

definition applied_in_room :: "desired_room_intent \<Rightarrow> room_intent_state \<Rightarrow> bool" where
  "applied_in_room i st \<longleftrightarrow>
     ri_last_terminal_version st = Some (di_intent_version i)
     \<and> ri_last_applied_version st = Some (di_intent_version i)
     \<and> (\<exists>a. ri_current_attempt st = Some a \<and> at_phase a = AT_TERMINAL \<and> at_version a = di_intent_version i)"

definition unit_settled :: "desired_room_intent \<Rightarrow> int \<Rightarrow> register_write list \<Rightarrow> sim_env worker_state \<Rightarrow> bool" where
  "unit_settled i slave ws s \<longleftrightarrow>
     applied_in_room i (room_state (di_room_key i) s)
     \<and> (\<exists>d. es_devices (se_entrance (ws_env s)) slave = Some d
            \<and> (\<forall>wr \<in> set ws. sm_registers d (rw_address wr) = Some (rw_value wr)))"

lemma env_free_settled:
  "simulated w \<Longrightarrow> triple (under_way i p slave d F) (make_result w i st msg writes ms)
     (\<lambda>r s. under_way i p slave d F s \<and> er_status r = st) never"
  by (auto simp: triple_def make_result_def bindE_def on_env_def simulated_def under_way_def on_bench_def
      split: prod.splits)

context bench
begin

lemma triple_bench_write_all:
  "\<forall>wr \<in> set ws. 0 \<le> rw_value wr \<and> rw_value wr \<le> 0xFFFF \<Longrightarrow>
   triple (under_way i p slave d F) (write_all w (di_room_key i) slave ws)
     (\<lambda>_. under_way i p slave (after_writes ws d) F) never"
proof (induction ws arbitrary: d)
  case Nil
  show ?case by (auto intro!: triple_ends)
next
  case (Cons wr ws)
  let ?d1 = "sim_put (rw_address wr) (rw_value wr) d"
  have one: "triple (under_way i p slave d F) (write_one w slave wr) (\<lambda>_. under_way i p slave ?d1 F) never"
    by (rule triple_under_way, rule triple_bench_write [OF sim one_attempt])
      (use Cons.prems in \<open>auto simp: under_way_def\<close>)
  have rest: "triple (under_way i p slave ?d1 F) (write_all w (di_room_key i) slave ws)
     (\<lambda>_. under_way i p slave (after_writes (wr # ws) d) F) never"
    using Cons by simp
  show ?case
    unfolding write_all.simps
    by (rule triple_bindE [OF one triple_bindE [OF triple_under_way_update rest]]) simp_all
qed

lemma triple_bench_mark_applied:
  assumes "\<forall>wr \<in> set ws. due_within 0 (rw_address wr) (rw_value wr) d"
  shows "triple (under_way i p slave d F) (mark_terminal (di_room_key i) r True)
     (\<lambda>r' s. r' = r \<and> unit_settled i slave ws s) never"
proof (rule tripleI)
  fix s r' s'
  assume u: "under_way i p slave d F s" and m: "mark_terminal (di_room_key i) r True s = (r', s')"
  then obtain st a where S: "ws_intent_states s (di_room_key i) = Some st" "ri_current_attempt st = Some a"
    "at_version a = di_intent_version i" "es_devices (se_entrance (ws_env s)) slave = Some d"
    by (auto simp: under_way_def attempting_def on_bench_def)
  show "case r' of Inr r'' \<Rightarrow> r'' = r \<and> unit_settled i slave ws s' | Inl e \<Rightarrow> never e s'"
    using m S assms
    by (auto simp: mark_terminal_def update_room_def unit_settled_def applied_in_room_def room_state_def due_within_0)
qed

lemma triple_bench_verify:
  assumes "pl_slave_address plan = slave" and "distinct (map re_address (pl_readback_expectations plan))"
    and "\<forall>e \<in> set (pl_readback_expectations plan). due_within m (re_address e) (re_expected e) d"
    and "int m < wk_readback_attempts w"
    and "\<forall>wr \<in> set ws. due_within 0 (rw_address wr) (rw_value wr) d"
  shows "triple (under_way i (Some plan) slave d F) (verify_attempt w i tom)
     (\<lambda>v s. (\<exists>r. v = Some r \<and> er_status r = ES_APPLIED) \<and> unit_settled i slave ws s) never"
proof -
  let ?k = "di_room_key i"
  let ?Q = "\<lambda>v s. (\<exists>r. v = Some r \<and> er_status r = ES_APPLIED) \<and> unit_settled i slave ws s"
  let ?after = "\<lambda>s. \<exists>d'. under_way i (Some plan) slave d' F s
      \<and> (\<forall>wr \<in> set ws. due_within 0 (rw_address wr) (rw_value wr) d')"
  have m: "m < nat (wk_readback_attempts w)" using assms(4) by simp
  have read: "triple (under_way i (Some plan) slave d F) (readback w plan)
      (\<lambda>o' s. compare_readback plan o' = [] \<and> ?after s) never"
    unfolding readback_def
    apply (rule triple_under_way)
     apply (rule triple_bench_readback_from [OF assms(2,1) m assms(3)])
    using assms(5) by (auto simp: under_way_def)
  have finish: "triple (under_way i (Some plan) slave d' F)
      (bindE (make_result w i ES_APPLIED msg writes ms) (\<lambda>result.
          bindE (mark_terminal ?k result True) (\<lambda>r. ret (Some r)))) ?Q never"
    if d': "\<forall>wr \<in> set ws. due_within 0 (rw_address wr) (rw_value wr) d'" for d' msg writes ms
  proof (rule triple_bindE [OF env_free_settled [OF sim]])
    fix r
    have "triple (under_way i (Some plan) slave d' F)
        (bindE (mark_terminal ?k r True) (\<lambda>r. ret (Some r)))
        (\<lambda>v s. v = Some r \<and> unit_settled i slave ws s) never"
      by (rule triple_bindE [OF triple_bench_mark_applied [OF d']]) (simp add: triple_def)
    then show "triple (\<lambda>s. under_way i (Some plan) slave d' F s \<and> er_status r = ES_APPLIED)
        (bindE (mark_terminal ?k r True) (\<lambda>r. ret (Some r))) ?Q never"
      by (intro triple_conj_pre) (erule triple_weaken, auto)
  qed
  have matched: "triple ?after
     (bindE (make_result w i ES_APPLIED msg writes ms) (\<lambda>result.
          bindE (mark_terminal ?k result True) (\<lambda>r. ret (Some r)))) ?Q never" for msg writes ms
    by (intro triple_ex_pre triple_conj_pre finish)
  show ?thesis
    unfolding verify_attempt_def Let_def
    apply (rule triple_bind_gets)
    subgoal for v
      apply (rule triple_pre [where P' = "\<lambda>s. fst v = Some plan \<and> under_way i (Some plan) slave d F s"])
       apply (rule triple_known)
       apply (cases v)
       apply (simp only: prod.case fst_conv option.case)
       apply (rule triple_bindE [OF triple_attemptE [OF read]])
      subgoal for _ _ outcome
        apply (cases outcome)
         apply (simp add: triple_def)
        apply (simp only: sum.case)
        apply (rule triple_known)
        apply (simp only: simp_thms if_True if_False)
        apply (rule matched)
        done
      apply (auto dest: under_way_attempt_plan)
      done
    done
qed

end

definition applied_and_settled ::
  "desired_room_intent \<Rightarrow> int \<Rightarrow> register_write list \<Rightarrow> intent_execution_result \<Rightarrow> sim_env worker_state \<Rightarrow> bool" where
  "applied_and_settled i slave ws r s \<longleftrightarrow>
     er_status r = ES_APPLIED \<and> unit_settled i slave ws s \<and> ws_slave_failures s slave = None"

text \<open>The unit is idle and the plan is made without a profile or with the one its limit registers describe.\<close>

definition unit_ready :: "desired_room_intent \<Rightarrow> int \<Rightarrow> g301_sim \<Rightarrow> g301_plan \<Rightarrow> bool" where
  "unit_ready i slave d plan \<longleftrightarrow>
     sm_pending_status d = Map.empty \<and> 0 \<le> sm_status_delay_reads d
     \<and> (plan_room_intent i slave None = Inr plan
        \<or> (\<exists>p. build_device_profile (shown d (reg REG_CAPABILITIES)) (shown d (reg REG_MODE_LIMITATION))
                (shown d (reg REG_TEMPERATURE_UPPER_LIMIT)) (shown d (reg REG_TEMPERATURE_LOWER_LIMIT)) = Inr p
             \<and> plan_room_intent i slave (Some p) = Inr plan))"

lemma plan_off_any:
  assumes "\<not> (hi_enabled (di_hvac i) \<and> hi_mode (di_hvac i) \<noteq> HV_OFF)"
  shows "plan_room_intent i slave po = plan_room_intent i slave None"
  using assms by (auto simp: plan_room_intent_def)

lemma plan_without_profile:
  "plan_room_intent i slave None = Inr plan \<Longrightarrow> \<not> (hi_enabled (di_hvac i) \<and> hi_mode (di_hvac i) \<noteq> HV_OFF)"
  by (auto elim: plan_room_intent_cases)

context bench
begin

lemma triple_bench_make_plan:
  assumes "unit_ready i slave d plan"
  shows "triple (under_way i q slave d F) (make_plan w i slave)
     (\<lambda>x s. x = plan \<and> under_way i q slave d F s) never"
proof (rule triple_under_way)
  fix S
  let ?on = "hi_enabled (di_hvac i) \<and> hi_mode (di_hvac i) \<noteq> HV_OFF"
  obtain po where plan: "plan_room_intent i slave po = Inr plan" and prof: "triple (on_bench slave d S F)
      (if ?on then bindE (read_device_profile w slave) (\<lambda>p. ret (Some p)) else ret None)
      (\<lambda>x s. x = po \<and> on_bench slave d S F s) never"
  proof (cases ?on)
    case True
    with assms plan_without_profile [of i slave plan] obtain p where p: "sm_pending_status d = Map.empty"
      "build_device_profile (shown d (reg REG_CAPABILITIES)) (shown d (reg REG_MODE_LIMITATION))
               (shown d (reg REG_TEMPERATURE_UPPER_LIMIT)) (shown d (reg REG_TEMPERATURE_LOWER_LIMIT)) = Inr p"
      "plan_room_intent i slave (Some p) = Inr plan" by (auto simp: unit_ready_def)
    have "triple (on_bench slave d S F) (bindE (read_device_profile w slave) (\<lambda>p. ret (Some p)))
      (\<lambda>x s. x = Some p \<and> on_bench slave d S F s) never"
      by (rule triple_bindE [OF triple_bench_profile [OF sim one_attempt p(1,2)]]) (simp add: triple_def)
    with True p(3) show ?thesis by (intro that [of "Some p"]) simp_all
  next
    case False
    from assms have "plan_room_intent i slave None = Inr plan"
      unfolding unit_ready_def using plan_off_any [OF False] by metis
    with False show ?thesis by (intro that [of None]) (auto simp: triple_def)
  qed
  show "triple (on_bench slave d S F) (make_plan w i slave)
      (\<lambda>x s. x = plan \<and> on_bench slave d S F s) never"
    unfolding make_plan_def
    by (rule triple_bindE [OF prof], rule triple_known) (auto simp: triple_def plan)
qed (auto simp: under_way_def)

lemma triple_bench_carry_out:
  assumes "unit_ready i slave d plan" and "sm_status_delay_reads d < wk_readback_attempts w"
  shows "triple (under_way i q slave d F) (carry_out_plan w i slave plan)
     (applied_and_settled i slave (pl_writes plan)) never"
proof -
  let ?k = "di_room_key i" and ?ws = "pl_writes plan"
  let ?d1 = "after_writes ?ws d" and ?m = "nat (sm_status_delay_reads d)"
  from assms(1) obtain po where plan: "plan_room_intent i slave po = Inr plan"
    and po: "case po of None \<Rightarrow> True | Some p \<Rightarrow> profile_ok p"
    unfolding unit_ready_def using build_device_profile_ok by fastforce
  from assms(1) have d: "sm_pending_status d = Map.empty" "0 \<le> sm_status_delay_reads d"
    by (auto simp: unit_ready_def)
  have safe: "pl_slave_address plan = slave" "\<forall>wr \<in> set ?ws. 0 \<le> rw_value wr \<and> rw_value wr \<le> 0xFFFF"
    using planned_writes_safe [OF plan po] by auto
  note due = planned_writes_due [OF plan d]
  have m: "int ?m < wk_readback_attempts w" using assms(2) d(2) by simp
  have verified: "triple (under_way i (Some plan) slave ?d1 F) (verify_attempt w i True)
     (\<lambda>v s. (\<exists>r. v = Some r \<and> er_status r = ES_APPLIED) \<and> unit_settled i slave ?ws s) never"
    using due by (intro triple_bench_verify [OF safe(1) _ _ m]) auto
  have finish: "triple (\<lambda>s. (\<exists>r. v = Some r \<and> er_status r = ES_APPLIED) \<and> unit_settled i slave ?ws s)
     (case v of
        None \<Rightarrow> raise AssertionError
      | Some result \<Rightarrow>
          bindE (if er_status result \<in> {ES_APPLIED, ES_READBACK_MISMATCH} then record_slave_success slave
                 else if er_status result = ES_APPLIED_UNCONFIRMED then record_slave_failure w slave
                 else ret ()) (\<lambda>_. ret result)) (applied_and_settled i slave ?ws) never" for v
    by (auto simp: triple_def record_slave_success_def applied_and_settled_def unit_settled_def room_state_def)
  show ?thesis
    unfolding carry_out_plan_def Let_def
    apply (rule triple_bindE [OF triple_under_way_update [where p' = "Some plan"]], simp, simp)
    apply (rule triple_bindE [OF triple_attemptE [OF triple_bench_write_all [OF safe(2)]]])
    subgoal for _ outcome
      apply (cases outcome)
       apply (simp add: triple_def)
      apply (simp only: sum.case set_phase_def)
      apply (rule triple_bindE [OF triple_under_way_update [where p' = "Some plan"]], simp, simp)
      apply (rule triple_bindE [OF verified finish])
      done
    done
qed

text \<open>The slave is not in a cooldown and the intent is in its validity window.\<close>

definition due_now :: "desired_room_intent \<Rightarrow> int \<Rightarrow> sim_env worker_state \<Rightarrow> bool" where
  "due_now i slave s \<longleftrightarrow>
     (let now = se_now (ws_env s); skew = td_seconds (wk_validity_clock_skew_seconds w) in
      (case di_expires_at i of None \<Rightarrow> True | Some x \<Rightarrow> \<not> dt_le (wk_tzdb w) x (dt_minus now skew))
      \<and> \<not> dt_less (wk_tzdb w) (dt_plus now skew) (di_effective_from i)
      \<and> (case sf_retry_after (slave_failure_state slave s) of
           None \<Rightarrow> True | Some t \<Rightarrow> \<not> dt_less (wk_tzdb w) now t))"

lemma read_clock_bench: "read_clock w s = (Inr (se_now (ws_env s)), s)"
  using sim by (simp add: read_clock_def on_env_def simulated_def)

lemma bench_execute:
  assumes "unit_ready i slave d plan" and "sm_status_delay_reads d < wk_readback_attempts w"
    and "due_now i slave s" and "under_way i q slave d F s"
  shows "\<exists>r s'. execute_intent w i slave s = (Inr r, s') \<and> applied_and_settled i slave (pl_writes plan) r s'"
proof -
  let ?k = "di_room_key i" and ?now = "se_now (ws_env s)"
  define s1 where "s1 = update_attempt ?k (\<lambda>a. a\<lparr>at_phase := AT_RETRYABLE, at_plan := None, at_completed_writes := []\<rparr>) s"
  have u: "under_way i None slave d F s1"
    unfolding s1_def by (rule under_way_update [OF assms(4)]) simp_all
  have now: "se_now (ws_env s1) = ?now"
    by (simp add: s1_def update_attempt_def update_room_def split: option.split)
  have fail: "slave_failure_state slave s1 = slave_failure_state slave s"
    by (simp add: slave_failure_state_def s1_def update_attempt_def update_room_def split: option.split)
  have cool: "cooldown_result w i slave ?now s1 = (Inr None, s1)"
    using assms(3) unfolding due_now_def Let_def
    by (auto simp: cooldown_result_def fail split: option.splits)
  have run: "triple (under_way i None slave d F) (plan_and_carry_out w i slave)
      (applied_and_settled i slave (pl_writes plan)) never"
    unfolding plan_and_carry_out_def
    apply (rule triple_bindE [OF triple_attemptE [OF triple_bench_make_plan [OF assms(1)]]])
    subgoal for outcome
      apply (cases outcome)
       apply (simp add: triple_def)
      apply (simp only: sum.case)
      apply (rule triple_known)
      apply (simp only: triple_bench_carry_out [OF assms(1,2)])
      done
    done
  have clock: "bindE (read_clock w) f s1 = f ?now s1" for f :: "_ \<Rightarrow> (_, intent_execution_result) eff"
    by (simp add: bindE_Inr [where m = "read_clock w", OF read_clock_bench] now)
  have "execute_intent w i slave s = plan_and_carry_out w i slave s1"
    using assms(3)
    unfolding execute_intent_def Let_def bindE_modify s1_def [symmetric] clock due_now_def
    by (cases "di_expires_at i")
      (simp_all add: bindE_Inr [where m = "cooldown_result w i slave ?now" and s = s1, OF cool])
  moreover obtain r s' where e: "plan_and_carry_out w i slave s1 = (r, s')" by fastforce
  moreover obtain x where "r = Inr x"
    using tripleD_Inl [OF run u] e by (cases r) auto
  ultimately show ?thesis using tripleD_Inr [OF run u] by auto
qed

end

interpretation default_bench: bench "default_worker db hash entrance_key slaves" for db hash entrance_key slaves
  by unfold_locales (simp_all add: simulated_def default_worker_def)

end
