(* ===== verification/G301_Worker_Properties.thy ===== *)
theory G301_Worker_Properties
  imports G301_Simulation
begin

text \<open>
  The properties of the entrance worker: what holds of it whatever the client does (its
  invariant, its frame, its watermarks, which deliveries leave the bus alone, the bounds on
  retries and cooldowns), and that on a simulated unit an intent is carried out and confirmed.
\<close>

section \<open>Samples\<close>

definition sample_unit :: "int \<Rightarrow> g301_sim" where
  "sample_unit delay =
     \<lparr>sm_slave_address = 3, sm_status_delay_reads = delay,
      sm_registers =
        [reg REG_POWER \<mapsto> 0, reg REG_MODE \<mapsto> 0, reg REG_SET_TEMPERATURE \<mapsto> 220,
         reg REG_MODE_LIMITATION \<mapsto> 0, reg REG_TEMPERATURE_UPPER_LIMIT \<mapsto> 31,
         reg REG_TEMPERATURE_LOWER_LIMIT \<mapsto> 16, reg REG_CAPABILITIES \<mapsto> 0,
         reg REG_POWER_STATUS \<mapsto> 0, reg REG_MODE_STATUS \<mapsto> 0, reg REG_FAN_STATUS \<mapsto> 0,
         reg REG_INDOOR_FAULT_FLAG \<mapsto> 0, reg REG_INDOOR_FAULT_BITS \<mapsto> 0],
      sm_pending_status = Map.empty\<rparr>"

lemma sample_unit_built: "mk_g301_sim 3 None 1 = Inr (sample_unit 1)"
  by (simp add: mk_g301_sim_def default_registers_def encode_22 sample_unit_def)

definition sample_bench :: "int \<Rightarrow> sim_env" where
  "sample_bench delay =
     \<lparr>se_entrance = \<lparr>es_devices = [3 \<mapsto> sample_unit delay], es_operations = []\<rparr>, se_now = utc_at 0\<rparr>"

definition sample_worker :: "sim_env g301_worker" where
  "sample_worker = default_worker (fixed_tzdb 0) (\<lambda>_. ''f'') ''A'' [''101'' \<mapsto> 3]"

text \<open>A client on which no unit answers.\<close>

definition dead_bus :: "'c g301_worker \<Rightarrow> 'c g301_worker" where
  "dead_bus w = w\<lparr>wk_write_register := (\<lambda>_ slave _ _. raise (offline_error slave)),
                  wk_read_holding_registers := (\<lambda>_ slave _ _. raise (offline_error slave))\<rparr>"

lemma dead_bus_served: "served_bus (dead_bus sample_worker) (\<lambda>_. False)"
  by unfold_locales
    (simp_all add: dead_bus_def client_error_def offline_error_def sample_worker_def default_worker_def)

section \<open>The invariant\<close>

text \<open>C3. The worker's bookkeeping stays consistent whatever the bus does: after any sequence of
  deliveries, with any mixture of timeouts, offline units and malformed answers, the applied
  version is at most the terminal one and that at most the seen one, the current attempt is
  that of the seen version, a terminal attempt has a cached answer and an attempt in the
  middle of its writes has a plan to verify. No delivery fails with the internal errors of
  the worker: what leaves it is at most a ValueError with which the client refused a call,
  and every answer is for the delivered room, version and correlation id.\<close>

theorem worker_consistent:
  assumes "served_bus w refused" and "worker_inv s" and "apply_intents w intents s = (rs, s')"
  shows "worker_inv s' \<and> length rs = length intents
    \<and> (\<forall>j < length intents. case rs ! j of Inr r \<Rightarrow> answers (intents ! j) r | Inl e \<Rightarrow> refused e)"
  using assms(2,3)
proof (induction intents arbitrary: s rs)
  case Nil
  then show ?case by simp
next
  case (Cons i intents)
  obtain r s1 where one: "apply_intent w i s = (r, s1)" by fastforce
  obtain rs1 s2 where rest: "apply_intents w intents s1 = (rs1, s2)" by fastforce
  from Cons.prems(2) one rest have rs: "rs = r # rs1" and s': "s' = s2" by auto
  note t = served_bus.triple_apply_intent [OF assms(1), of i]
  have r: "case r of Inr r \<Rightarrow> answers i r | Inl e \<Rightarrow> refused e" and inv: "worker_inv s1"
    using tripleD_Inr [OF t Cons.prems(1)] tripleD_Inl [OF t Cons.prems(1)] one
    by (cases r; auto simp: served_bus.answered_def [OF assms(1)])+
  note IH = Cons.IH [OF inv rest [folded s']]
  have "case rs ! j of Inr x \<Rightarrow> answers ((i # intents) ! j) x | Inl e \<Rightarrow> refused e"
    if "j < length (i # intents)" for j
  proof (cases j)
    case 0
    with r show ?thesis by (simp add: rs split: sum.splits)
  next
    case (Suc j')
    with that IH show ?thesis by (auto simp: rs split: sum.splits)
  qed
  with IH show ?case by (simp add: rs)
qed

theorem worker_consistent_witness:
  "let rs = fst (apply_intents (dead_bus sample_worker) [sample_intent heat_22, sample_intent hvac_off]
     (initial_worker_state (sample_bench 0))) in is_Inr (rs ! 0) \<and> is_Inr (rs ! 1)"
proof -
  let ?is = "[sample_intent heat_22, sample_intent hvac_off]"
  obtain rs s' where a: "apply_intents (dead_bus sample_worker) ?is (initial_worker_state (sample_bench 0)) = (rs, s')"
    by fastforce
  have "\<forall>j < length ?is. case rs ! j of Inr r \<Rightarrow> answers (?is ! j) r | Inl e \<Rightarrow> False"
    using worker_consistent [OF dead_bus_served worker_inv_initial a] by blast
  then have "\<forall>j < 2. is_Inr (rs ! j)" by (auto simp: is_Inr_def split: sum.splits)
  then show ?thesis unfolding a fst_conv by (simp add: Let_def)
qed

section \<open>Isolation and watermarks\<close>

text \<open>C13. Rooms and slaves are isolated: applying an intent changes the intent state of its own room
  and the failure state of its own slave only, so a dead unit puts no other unit into a
  cooldown and no other room's versions move; an intent for a room this entrance does not
  serve changes no state at all.\<close>

theorem worker_isolation:
  shows "case wk_room_slave_addresses w (di_room_key i) of
      Some slave \<Rightarrow>
        (k \<noteq> di_room_key i \<longrightarrow> ws_intent_states (snd (apply_intent w i s)) k = ws_intent_states s k)
        \<and> (a \<noteq> slave \<longrightarrow> ws_slave_failures (snd (apply_intent w i s)) a = ws_slave_failures s a)
    | None \<Rightarrow>
        (\<exists>r. fst (apply_intent w i s) = Inr r \<and> er_status r = ES_SKIPPED)
        \<and> ws_intent_states (snd (apply_intent w i s)) = ws_intent_states s
        \<and> ws_slave_failures (snd (apply_intent w i s)) = ws_slave_failures s"
proof (cases "wk_room_slave_addresses w (di_room_key i)")
  case None
  then show ?thesis
    by (simp add: apply_intent_def make_result_def bindE_def on_env_def split: prod.split)
next
  case (Some slave)
  from apply_intent_keeps(1) [OF Some, of s] Some show ?thesis by (simp add: same_but_def)
qed

theorem worker_isolation_witness:
  "ws_slave_failures (snd (apply_intent (dead_bus sample_worker) (sample_intent heat_22)
      (initial_worker_state (sample_bench 0)))) 4 = None"
  using worker_isolation [where w = "dead_bus sample_worker" and i = "sample_intent heat_22" and k = "''102''"
      and s = "initial_worker_state (sample_bench 0)" and a = 4]
  by (simp add: dead_bus_def sample_worker_def default_worker_def sample_intent_def initial_worker_state_def)

section \<open>Deliveries that leave the bus alone\<close>

text \<open>The same worker on another client: what it does equally on every client, it does without
  the bus.\<close>

definition with_bus :: "'c write_op \<Rightarrow> 'c read_op \<Rightarrow> 'c g301_worker \<Rightarrow> 'c g301_worker" where
  "with_bus wr rd w = w\<lparr>wk_write_register := wr, wk_read_holding_registers := rd\<rparr>"

lemma with_bus_simps [simp]:
  "wk_room_slave_addresses (with_bus wr rd w) = wk_room_slave_addresses w"
  "make_result (with_bus wr rd w) = make_result w"
  "intent_fingerprint (with_bus wr rd w) = intent_fingerprint w"
  "read_clock (with_bus wr rd w) = read_clock w"
  "start_attempt (with_bus wr rd w) = start_attempt w"
  "wk_tzdb (with_bus wr rd w) = wk_tzdb w"
  "wk_validity_clock_skew_seconds (with_bus wr rd w) = wk_validity_clock_skew_seconds w"
  by (simp_all add: with_bus_def make_result_def intent_fingerprint_def read_clock_def start_attempt_def fun_eq_iff)

lemma cooldown_with_bus [simp]: "cooldown_result (with_bus wr rd w) = cooldown_result w"
  unfolding cooldown_result_def [abs_def] with_bus_simps ..

lemma make_result_state:
  "make_result w i st msg ws ms s = (r, s') \<Longrightarrow>
   (\<exists>x. r = Inr x \<and> answers i x \<and> er_status x = st) \<and> ws_intent_states s' = ws_intent_states s
   \<and> ws_slave_failures s' = ws_slave_failures s"
  by (auto simp: make_result_def bindE_def on_env_def answers_def split: prod.splits)

text \<open>C11. A redelivery that is settled never reaches the bus: an intent older than the seen version
  is answered as stale, the seen version with another payload is rejected, and the seen
  version once more after its end is answered with the recorded answer under the new
  correlation id. In each case the outcome is the same on every client, and no room's and no
  slave's state changes.\<close>

theorem settled_redelivery:
  assumes "wk_room_slave_addresses w (di_room_key i) = Some slave"
    and "ws_intent_states s (di_room_key i) = Some st" and "ri_last_seen_version st = Some seen"
    and "ri_current_attempt st = Some a" and "at_version a = seen"
    and "di_intent_version i < seen
      \<or> (di_intent_version i = seen \<and> at_payload_fingerprint a \<noteq> intent_fingerprint w i)
      \<or> (di_intent_version i = seen \<and> at_phase a = AT_TERMINAL \<and> at_cached_result a = Some cached)"
  shows "apply_intent (with_bus wr rd w) i s = apply_intent w i s
    \<and> ws_intent_states (snd (apply_intent w i s)) = ws_intent_states s
    \<and> ws_slave_failures (snd (apply_intent w i s)) = ws_slave_failures s
    \<and> (\<exists>r. fst (apply_intent w i s) = Inr r
         \<and> (if di_intent_version i < seen then er_status r = ES_STALE
            else if at_payload_fingerprint a \<noteq> intent_fingerprint w i then er_status r = ES_REJECTED
            else r = cached\<lparr>er_correlation_id := di_correlation_id i\<rparr>))"
proof -
  have set: "setdefault_room (di_room_key i) s = s" using assms(2) by (simp add: setdefault_room_def)
  have st: "room_state (di_room_key i) s = st" using assms(2) by (simp add: room_state_def)
  note eq = apply_intent_eq [of _ i slave s, unfolded Let_def st set assms(3) option.case]
  consider (stale) "di_intent_version i < seen"
    | (other) "di_intent_version i = seen" "at_payload_fingerprint a \<noteq> intent_fingerprint w i"
    | (again) "di_intent_version i = seen" "at_payload_fingerprint a = intent_fingerprint w i"
        "at_phase a = AT_TERMINAL" "at_cached_result a = Some cached"
    using assms(6) by blast
  then show ?thesis
  proof cases
    case stale
    then show ?thesis
      using assms(1) eq [of w] eq [of "with_bus wr rd w"]
      by (auto dest!: make_result_state simp: prod_eq_iff)
        (metis make_result_state prod.collapse)+
  next
    case other
    then show ?thesis
      using assms(1,4,5) eq [of w] eq [of "with_bus wr rd w"]
      by (auto simp: redelivered_def) (metis make_result_state prod.collapse)+
  next
    case again
    then show ?thesis
      using assms(1,4,5) eq [of w] eq [of "with_bus wr rd w"] by (simp add: redelivered_def)
  qed
qed

definition sample_seen :: "int \<Rightarrow> attempt_phase \<Rightarrow> intent_execution_result option \<Rightarrow> sim_env worker_state" where
  "sample_seen v ph cached =
     \<lparr>ws_intent_states = [''101'' \<mapsto>
        \<lparr>ri_last_seen_version = Some v, ri_last_terminal_version = None, ri_last_applied_version = None,
         ri_current_attempt = Some \<lparr>at_version = v, at_payload_fingerprint = ''f'', at_phase = ph,
           at_plan = None, at_completed_writes = [], at_cached_result = cached\<rparr>\<rparr>],
      ws_slave_failures = [3 \<mapsto> \<lparr>sf_consecutive_failures = 2, sf_retry_after = Some (utc_at 60000000)\<rparr>],
      ws_env = sample_bench 0\<rparr>"

lemma sample_worker_slave: "wk_room_slave_addresses sample_worker (di_room_key (sample_intent h)) = Some 3"
  by (simp add: sample_worker_def default_worker_def sample_intent_def)

theorem settled_redelivery_witness:
  "\<forall>wr rd. apply_intent (with_bus wr rd sample_worker) (sample_intent heat_22) (sample_seen 5 AT_RETRYABLE None)
     = apply_intent sample_worker (sample_intent heat_22) (sample_seen 5 AT_RETRYABLE None)"
proof -
  let ?s = "sample_seen 5 AT_RETRYABLE None"
  obtain st a where st: "ws_intent_states ?s (di_room_key (sample_intent heat_22)) = Some st"
    "ri_last_seen_version st = Some 5" "ri_current_attempt st = Some a" "at_version a = 5"
    by (simp add: sample_seen_def sample_intent_def)
  have "di_intent_version (sample_intent heat_22) < 5" by (simp add: sample_intent_def)
  with settled_redelivery [OF sample_worker_slave st] show ?thesis by blast
qed

text \<open>Why a delivery that would start or restart an attempt is held back: the first reading of
  the clock decides.\<close>

definition held_back ::
  "'c g301_worker \<Rightarrow> desired_room_intent \<Rightarrow> datetime \<Rightarrow> slave_failure \<Rightarrow> execution_status option" where
  "held_back w i now failure =
     (let skew = td_seconds (wk_validity_clock_skew_seconds w) in
      if (case di_expires_at i of None \<Rightarrow> False | Some x \<Rightarrow> dt_le (wk_tzdb w) x (dt_minus now skew))
      then Some ES_EXPIRED
      else if dt_less (wk_tzdb w) (dt_plus now skew) (di_effective_from i) then Some ES_NOT_YET_EFFECTIVE
      else if (case sf_retry_after failure of None \<Rightarrow> False | Some t \<Rightarrow> dt_less (wk_tzdb w) now t)
      then Some ES_DEVICE_OFFLINE
      else None)"

lemma execute_held_back:
  assumes "wk_clock w (ws_env s) = (now, c)"
    and "held_back w i now (slave_failure_state slave s) = Some status"
    and "ws_intent_states s (di_room_key i) = Some st" and "ri_current_attempt st = Some a"
  shows "execute_intent (with_bus wr rd w) i slave s = execute_intent w i slave s
    \<and> (\<exists>r s'. execute_intent w i slave s = (Inr r, s') \<and> er_status r = status \<and> answers i r
         \<and> ws_slave_failures s' = ws_slave_failures s
         \<and> (\<exists>st' a'. ws_intent_states s' (di_room_key i) = Some st' \<and> ri_current_attempt st' = Some a'
              \<and> ri_last_seen_version st' = ri_last_seen_version st
              \<and> ri_last_applied_version st' = ri_last_applied_version st
              \<and> (if status = ES_EXPIRED
                 then at_phase a' = AT_TERMINAL \<and> ri_last_terminal_version st' = Some (at_version a)
                 else at_phase a' = AT_RETRYABLE \<and> ri_last_terminal_version st' = ri_last_terminal_version st)))"
proof -
  let ?k = "di_room_key i" and ?skew = "td_seconds (wk_validity_clock_skew_seconds w)"
  let ?a = "a\<lparr>at_phase := AT_RETRYABLE, at_plan := None, at_completed_writes := []\<rparr>"
  define s1 where "s1 = (update_attempt ?k
      (\<lambda>a. a\<lparr>at_phase := AT_RETRYABLE, at_plan := None, at_completed_writes := []\<rparr>) s)\<lparr>ws_env := c\<rparr>"
  have s1: "ws_intent_states s1 ?k = Some (st\<lparr>ri_current_attempt := Some ?a\<rparr>)"
    "ws_slave_failures s1 = ws_slave_failures s"
    using assms(3,4) by (simp_all add: s1_def update_attempt_def update_room_def)
  have clock: "bindE (read_clock v) f (update_attempt ?k
      (\<lambda>a. a\<lparr>at_phase := AT_RETRYABLE, at_plan := None, at_completed_writes := []\<rparr>) s) = f now s1"
    if "wk_clock v = wk_clock w" for v :: "'a g301_worker" and f :: "_ \<Rightarrow> (_, intent_execution_result) eff"
    using assms(1,3) that
    by (simp add: bindE_def read_clock_def on_env_def s1_def update_attempt_def update_room_def)
  have same: "wk_clock (with_bus wr rd w) = wk_clock w" by (simp add: with_bus_def)
  obtain now2 c2 where u: "wk_utc_now w (ws_env s1) = (now2, c2)" by fastforce
  define r2 where "r2 stt msg =
     \<lparr>er_schema_version = 1, er_room_key = ?k, er_intent_version = di_intent_version i,
      er_adapter_key = ''g301'', er_handled_components = [''hvac''], er_status = stt, er_message = msg,
      er_applied_at = now2, er_register_writes = [], er_mismatches = [],
      er_correlation_id = di_correlation_id i\<rparr>" for stt msg
  define s2 where "s2 = s1\<lparr>ws_env := c2\<rparr>"
  have m: "make_result w i stt msg [] [] s1 = (Inr (r2 stt msg), s2)" for stt msg
    by (simp add: make_result_def bindE_def on_env_def u r2_def s2_def)
  have r2: "er_status (r2 stt msg) = stt \<and> answers i (r2 stt msg)" for stt msg
    by (simp add: r2_def answers_def)
  have s2: "ws_intent_states s2 = ws_intent_states s1" "ws_slave_failures s2 = ws_slave_failures s1"
    by (simp_all add: s2_def)
  note unf = execute_intent_def Let_def bindE_modify clock [OF refl] clock [OF same] with_bus_simps cooldown_with_bus
  consider (expired) x where "di_expires_at i = Some x" "dt_le (wk_tzdb w) x (dt_minus now ?skew)" "status = ES_EXPIRED"
    | (early) "\<not> (case di_expires_at i of None \<Rightarrow> False | Some x \<Rightarrow> dt_le (wk_tzdb w) x (dt_minus now ?skew))"
        "dt_less (wk_tzdb w) (dt_plus now ?skew) (di_effective_from i)" "status = ES_NOT_YET_EFFECTIVE"
    | (cool) t where "\<not> (case di_expires_at i of None \<Rightarrow> False | Some x \<Rightarrow> dt_le (wk_tzdb w) x (dt_minus now ?skew))"
        "\<not> dt_less (wk_tzdb w) (dt_plus now ?skew) (di_effective_from i)"
        "sf_retry_after (slave_failure_state slave s) = Some t" "dt_less (wk_tzdb w) now t" "status = ES_DEVICE_OFFLINE"
    using assms(2) by (auto simp: held_back_def Let_def split: if_splits option.splits)
  then show ?thesis
  proof cases
    case expired
    then show ?thesis
      using s1 s2 r2 unfolding unf
      by (simp add: bindE_def [of "make_result w i _ _ _ _"] m mark_terminal_def update_room_def)
  next
    case early
    then show ?thesis
      using s1 s2 r2 unfolding unf by (simp add: m)
  next
    case cool
    have fail: "slave_failure_state slave s1 = slave_failure_state slave s"
      using s1(2) by (simp add: slave_failure_state_def)
    have "cooldown_result w i slave now s1 = (Inr (Some (r2 ES_DEVICE_OFFLINE
       (Some (''G301 slave is in retry cooldown until '' @ isoformat (wk_tzdb w) t)))), s2)"
      using cool(3,4) by (simp add: cooldown_result_def fail bindE_def [of "make_result w i _ _ _ _"] m)
    note cr = bindE_Inr [where m = "cooldown_result w i slave now" and s = s1, OF this]
    show ?thesis
      using cool(1,2,5) s1 s2 r2 unfolding unf by (simp add: cr)
  qed
qed

lemma start_attempt_facts:
  "ws_env (start_attempt w i s) = ws_env s"
  "ws_slave_failures (start_attempt w i s) = ws_slave_failures s"
  "\<exists>st. ws_intent_states (start_attempt w i s) (di_room_key i) = Some st
     \<and> ri_current_attempt st = Some (new_attempt (di_intent_version i) (intent_fingerprint w i))
     \<and> ri_last_seen_version st = Some (di_intent_version i)
     \<and> ri_last_terminal_version st = ri_last_terminal_version (room_state (di_room_key i) s)
     \<and> ri_last_applied_version st = ri_last_applied_version (room_state (di_room_key i) s)"
  by (auto simp: start_attempt_def setdefault_room_def update_room_def room_state_def empty_intent_state_def
      split: option.split)

lemma apply_newer:
  assumes "wk_room_slave_addresses w (di_room_key i) = Some slave"
    and "case ri_last_seen_version (room_state (di_room_key i) s) of None \<Rightarrow> True | Some n \<Rightarrow> n < di_intent_version i"
  shows "apply_intent w i s = execute_intent w i slave (start_attempt w i s)"
  using assms(2) by (auto simp: apply_intent_eq [OF assms(1)] Let_def split: option.splits)

lemma held_back_answered:
  assumes "wk_room_slave_addresses w (di_room_key i) = Some slave"
    and "case ri_last_seen_version (room_state (di_room_key i) s) of None \<Rightarrow> True | Some n \<Rightarrow> n < di_intent_version i"
    and "wk_clock w (ws_env s) = (now, c)"
    and "held_back w i now (slave_failure_state slave s) = Some status"
  shows "apply_intent (with_bus wr rd w) i s = apply_intent w i s
    \<and> (\<exists>r s'. apply_intent w i s = (Inr r, s') \<and> er_status r = status \<and> answers i r
         \<and> ws_slave_failures s' = ws_slave_failures s
         \<and> intent_version_state (di_room_key i) s' =
             (let old = intent_version_state (di_room_key i) s in
              if status = ES_EXPIRED
              then old\<lparr>iv_last_seen_version := Some (di_intent_version i),
                       iv_last_terminal_version := Some (di_intent_version i), iv_current_phase := Some AT_TERMINAL\<rparr>
              else old\<lparr>iv_last_seen_version := Some (di_intent_version i), iv_current_phase := Some AT_RETRYABLE\<rparr>))"
proof -
  let ?s2 = "start_attempt w i s" and ?k = "di_room_key i"
  obtain st where st: "ws_intent_states ?s2 ?k = Some st"
     "ri_current_attempt st = Some (new_attempt (di_intent_version i) (intent_fingerprint w i))"
     "ri_last_seen_version st = Some (di_intent_version i)"
     "ri_last_terminal_version st = ri_last_terminal_version (room_state ?k s)"
     "ri_last_applied_version st = ri_last_applied_version (room_state ?k s)"
    using start_attempt_facts(3) by blast
  have "held_back w i now (slave_failure_state slave ?s2) = Some status"
    using assms(4) by (simp add: slave_failure_state_def start_attempt_facts)
  moreover have "wk_clock w (ws_env ?s2) = (now, c)" using assms(3) by (simp add: start_attempt_facts)
  ultimately have ex: "execute_intent (with_bus wr rd w) i slave ?s2 = execute_intent w i slave ?s2
    \<and> (\<exists>r s'. execute_intent w i slave ?s2 = (Inr r, s') \<and> er_status r = status \<and> answers i r
         \<and> ws_slave_failures s' = ws_slave_failures ?s2
         \<and> (\<exists>st' a'. ws_intent_states s' ?k = Some st' \<and> ri_current_attempt st' = Some a'
              \<and> ri_last_seen_version st' = ri_last_seen_version st
              \<and> ri_last_applied_version st' = ri_last_applied_version st
              \<and> (if status = ES_EXPIRED
                 then at_phase a' = AT_TERMINAL
                   \<and> ri_last_terminal_version st' = Some (at_version (new_attempt (di_intent_version i) (intent_fingerprint w i)))
                 else at_phase a' = AT_RETRYABLE \<and> ri_last_terminal_version st' = ri_last_terminal_version st)))"
    using execute_held_back [OF _ _ st(1,2)] by blast
  have w1: "apply_intent w i s = execute_intent w i slave ?s2" by (rule apply_newer [OF assms(1,2)])
  have w2: "apply_intent (with_bus wr rd w) i s = execute_intent (with_bus wr rd w) i slave ?s2"
    using apply_newer [of "with_bus wr rd w" i slave s] assms(1,2) by simp
  from ex obtain r s' st' a' where
    e: "execute_intent w i slave ?s2 = (Inr r, s')" "er_status r = status" "answers i r"
      "ws_slave_failures s' = ws_slave_failures ?s2" "ws_intent_states s' ?k = Some st'"
      "ri_current_attempt st' = Some a'" "ri_last_seen_version st' = ri_last_seen_version st"
      "ri_last_applied_version st' = ri_last_applied_version st"
      "if status = ES_EXPIRED
       then at_phase a' = AT_TERMINAL
         \<and> ri_last_terminal_version st' = Some (at_version (new_attempt (di_intent_version i) (intent_fingerprint w i)))
       else at_phase a' = AT_RETRYABLE \<and> ri_last_terminal_version st' = ri_last_terminal_version st"
    by blast
  have "room_state ?k s' = st'" using e(5) by (simp add: room_state_def)
  then show ?thesis
    using ex e st(3-5) w1 w2
    by (auto simp: intent_version_state_def Let_def start_attempt_facts new_attempt_def split: if_splits)
qed

text \<open>A new version is not put on the bus outside its validity window or while its slave cools
  down. An expired intent ends as expired and stays so; one that is early, and one whose
  slave is in a cooldown, is answered at once and keeps a retryable attempt, so a later
  redelivery runs it. The bus is untouched, no cooldown is lengthened and the applied
  version stays.\<close>

theorem delivery_held_back:
  assumes "wk_room_slave_addresses w (di_room_key i) = Some slave"
    and "case ri_last_seen_version (room_state (di_room_key i) s) of None \<Rightarrow> True | Some n \<Rightarrow> n < di_intent_version i"
    and "wk_clock w (ws_env s) = (now, c)"
    and "held_back w i now (slave_failure_state slave s) = Some status"
  shows "apply_intent (with_bus wr rd w) i s = apply_intent w i s
    \<and> (\<exists>r s'. apply_intent w i s = (Inr r, s') \<and> er_status r = status \<and> answers i r
         \<and> ws_slave_failures s' = ws_slave_failures s
         \<and> intent_version_state (di_room_key i) s' =
             (let old = intent_version_state (di_room_key i) s in
              if status = ES_EXPIRED
              then old\<lparr>iv_last_seen_version := Some (di_intent_version i),
                       iv_last_terminal_version := Some (di_intent_version i), iv_current_phase := Some AT_TERMINAL\<rparr>
              else old\<lparr>iv_last_seen_version := Some (di_intent_version i), iv_current_phase := Some AT_RETRYABLE\<rparr>))"
  by (rule held_back_answered [OF assms])

theorem delivery_held_back_witness:
  "\<exists>r s'. apply_intent sample_worker ((sample_intent heat_22)\<lparr>di_intent_version := 6\<rparr>)
     (sample_seen 5 AT_RETRYABLE None) = (Inr r, s') \<and> er_status r = ES_DEVICE_OFFLINE"
proof -
  let ?i = "(sample_intent heat_22)\<lparr>di_intent_version := 6\<rparr>" and ?s = "sample_seen 5 AT_RETRYABLE None"
  have 1: "wk_room_slave_addresses sample_worker (di_room_key ?i) = Some 3"
    by (simp add: sample_worker_def default_worker_def sample_intent_def)
  have 2: "case ri_last_seen_version (room_state (di_room_key ?i) ?s) of None \<Rightarrow> True | Some n \<Rightarrow> n < di_intent_version ?i"
    by (simp add: room_state_def sample_seen_def sample_intent_def)
  have 3: "wk_clock sample_worker (ws_env ?s) = (utc_at 0, sample_bench 0)"
    by (simp add: sample_worker_def default_worker_def sample_seen_def sample_bench_def)
  have 4: "held_back sample_worker ?i (utc_at 0) (slave_failure_state 3 ?s) = Some ES_DEVICE_OFFLINE"
    by (simp add: held_back_def sample_intent_def slave_failure_state_def sample_seen_def sample_worker_def
        default_worker_def dt_less_def)
  from delivery_held_back [OF 1 2 3 4] show ?thesis by blast
qed

section \<open>Cooldowns and retries\<close>

text \<open>The cooldown of a failing slave: with a configuration the constructor accepts, the delay
  after each failure is at least the base and at most the maximum, never shrinks with a
  further failure, and doubles until it meets the maximum.\<close>

theorem cooldown_bounds:
  assumes "mk_g301_worker registry w0 = Inr w" and "1 \<le> n"
  shows "wk_slave_retry_base_seconds w \<le> slave_retry_delay w n
    \<and> slave_retry_delay w n \<le> wk_slave_retry_max_seconds w
    \<and> slave_retry_delay w n \<le> slave_retry_delay w (n + 1)
    \<and> (n \<le> 16 \<longrightarrow> slave_retry_delay w (n + 1) = min (2 * slave_retry_delay w n) (wk_slave_retry_max_seconds w))"
proof -
  from assms(1) have b: "0 < wk_slave_retry_base_seconds w"
    and m: "wk_slave_retry_base_seconds w \<le> wk_slave_retry_max_seconds w"
    by (auto simp: mk_g301_worker_def split: if_splits option.splits)
  let ?b = "wk_slave_retry_base_seconds w"
  have pos: "?b * 1 \<le> ?b * 2 ^ k" for k :: nat
    using b by (intro mult_left_mono) auto
  have mono: "?b * 2 ^ nat (min (n - 1) 16) \<le> ?b * 2 ^ nat (min n 16)"
    using b by (intro mult_left_mono power_increasing nat_mono) auto
  have double: "?b * 2 ^ nat (min n 16) = 2 * (?b * 2 ^ nat (min (n - 1) 16))" if "n \<le> 16"
  proof -
    have "nat n = Suc (nat (n - 1))" using assms(2) by simp
    with that show ?thesis by (simp add: min_def)
  qed
  let ?x = "?b * 2 ^ nat (min (n - 1) 16)" and ?y = "?b * 2 ^ nat (min n 16)"
  let ?m = "wk_slave_retry_max_seconds w"
  have x: "slave_retry_delay w n = min ?x ?m" and y: "slave_retry_delay w (n + 1) = min ?y ?m"
    by (simp_all only: slave_retry_delay_def add_diff_cancel_right')
  have bx: "?b \<le> ?x" using pos [of "nat (min (n - 1) 16)"] by simp
  have m0: "0 < ?m" using b m by simp
  have "min ?y ?m = min (2 * min ?x ?m) ?m" if "n \<le> 16"
    unfolding double [OF that] using m0 by (simp only: min_def split: if_split) linarith
  moreover have "?b \<le> min ?x ?m" using bx m by (rule min.boundedI)
  moreover have "min ?x ?m \<le> min ?y ?m" using mono by (rule min.mono) (rule order_refl)
  ultimately show ?thesis unfolding x y using min.cobounded2 by blast
qed

theorem cooldown_bounds_witness:
  "slave_retry_delay sample_worker 3 \<le> 300"
proof -
  have "mk_g301_worker \<lparr>rr_property = \<lparr>pr_key = ''p'', pr_name = ''P'', pr_timezone = ''UTC''\<rparr>,
      rr_entrances = [\<lparr>en_key = ''A'', en_name = ''A'', en_gateway_host = None, en_gateway_port = None,
                       en_enabled = True\<rparr>],
      rr_rooms = [\<lparr>rm_key = ''101'', rm_name = ''101'', rm_entrance_key = ''A'', rm_floor = None,
        rm_clock_room_id = None, rm_g301 = Some \<lparr>gm_slave_address = 3\<rparr>, rm_enabled = True\<rparr>]\<rparr>
      sample_worker = Inr sample_worker"
    by (simp add: mk_g301_worker_def sample_worker_def default_worker_def room_slaves_def map_filter_simps)
  from cooldown_bounds [OF this, of 3] show ?thesis by (simp add: sample_worker_def default_worker_def)
qed

text \<open>C35. Retries are bounded: one operation of the worker reaches the client at most
  \<open>max_operation_attempts\<close> times. Here \<open>count\<close> is any measure of the client's state that one
  call raises by at most one and that sleeping does not raise.\<close>

theorem retries_bounded:
  assumes "\<And>c. count (snd (operation c)) \<le> count c + (1 :: nat)" and "\<And>t c. count (wk_sleep w t c) \<le> count c"
  shows "count (ws_env (snd (with_retry w operation s))) \<le> count (ws_env s) + nat (wk_max_operation_attempts w)"
proof -
  have "count (ws_env (snd (with_retry_from w operation k n e s))) \<le> count (ws_env s) + n" for k n e s
  proof (induction n arbitrary: k e s)
    case 0
    then show ?case by (simp split: option.split)
  next
    case (Suc n)
    obtain r c where o: "operation (ws_env s) = (r, c)" by fastforce
    let ?s1 = "s\<lparr>ws_env := c\<rparr>"
    have s1: "on_env operation s = (r, ?s1)" by (simp add: on_env_def o)
    have c: "count c \<le> count (ws_env s) + 1" using assms(1) [of "ws_env s"] o by simp
    have again: "count (ws_env (snd (bindE (retry_backoff w k) (\<lambda>_. with_retry_from w operation (Suc k) n e) ?s1)))
        \<le> count c + n" for e
    proof -
      obtain s2 where s2: "retry_backoff w k ?s1 = (Inr (), s2)" "count (ws_env s2) \<le> count c"
      proof (cases "int k + 1 < wk_max_operation_attempts w \<and> wk_retry_backoff_seconds w \<noteq> 0")
        case True
        then show thesis
          using that [of "s\<lparr>ws_env := wk_sleep w (wk_retry_backoff_seconds w * 2 ^ k) c\<rparr>"] assms(2)
          by (simp add: retry_backoff_def sleep_for_def on_env_def)
      next
        case False
        then have "retry_backoff w k ?s1 = (Inr (), ?s1)"
          unfolding retry_backoff_def by (simp only: if_False ret_simp)
        then show thesis using that [of ?s1] by simp
      qed
      then have "count (ws_env (snd (with_retry_from w operation (Suc k) n e s2))) \<le> count c + n"
        using Suc.IH [of "Suc k" e s2] by simp
      then show ?thesis by (simp add: bindE_def s2(1))
    qed
    have go: "with_retry_from w operation k (Suc n) e s =
       (case r of
         Inr v \<Rightarrow> ret v
       | Inl e \<Rightarrow>
           (if e = TimeoutError
            then bindE (retry_backoff w k) (\<lambda>_.
                   with_retry_from w operation (Suc k) n
                     (Some (G301TransportTimeout ''G301 operation timed out'')))
            else if is_transport_error e \<and> exc_retryable e
            then bindE (retry_backoff w k) (\<lambda>_. with_retry_from w operation (Suc k) n (Some e))
            else raise e)) ?s1"
      by (simp add: bindE_attemptE s1)
    show ?case
    proof (cases r)
      case (Inr v)
      then show ?thesis using c unfolding go by simp
    next
      case (Inl x)
      show ?thesis
        unfolding go Inl sum.case
        using c again [of "Some (G301TransportTimeout ''G301 operation timed out'')"] again [of "Some x"]
        by (auto intro: order_trans)
    qed
  qed
  then show ?thesis by (simp add: with_retry_def)
qed

theorem retries_bounded_witness:
  "length (es_operations (se_entrance (ws_env (snd (with_retry sample_worker (bench_read 2 9 0x0201 1)
      (initial_worker_state (sample_bench 0))))))) \<le> 1"
proof -
  have "length (es_operations (se_entrance (snd (bench_read 2 9 0x0201 1 c))))
      \<le> length (es_operations (se_entrance c)) + 1" for c
    by (simp add: bench_read_def on_entrance_def entrance_read_def on_device_def split: option.split prod.split)
  moreover have "length (es_operations (se_entrance (wk_sleep sample_worker t c)))
      \<le> length (es_operations (se_entrance c))" for t c
    by (simp add: sample_worker_def default_worker_def)
  ultimately show ?thesis
    using retries_bounded [where count = "\<lambda>c. length (es_operations (se_entrance c))" and w = sample_worker
        and operation = "bench_read 2 9 0x0201 1" and s = "initial_worker_state (sample_bench 0)"]
    by (simp add: initial_worker_state_def sample_bench_def) (simp add: sample_worker_def default_worker_def)
qed

section \<open>An intent on a unit\<close>

lemma applied_on_unit:
  assumes "bench w" and "wk_room_slave_addresses w (di_room_key i) = Some slave"
    and "case ri_last_seen_version (room_state (di_room_key i) s) of None \<Rightarrow> True | Some n \<Rightarrow> n < di_intent_version i"
    and "held_back w i (se_now (ws_env s)) (slave_failure_state slave s) = None"
    and "es_devices (se_entrance (ws_env s)) slave = Some d" and "sm_slave_address d = slave"
    and "unit_ready i slave d plan" and "sm_status_delay_reads d < wk_readback_attempts w"
  shows "\<exists>r s' d'. apply_intent w i s = (Inr r, s') \<and> er_status r = ES_APPLIED
    \<and> iv_last_terminal_version (intent_version_state (di_room_key i) s') = Some (di_intent_version i)
    \<and> iv_last_applied_version (intent_version_state (di_room_key i) s') = Some (di_intent_version i)
    \<and> iv_current_phase (intent_version_state (di_room_key i) s') = Some AT_TERMINAL
    \<and> ws_slave_failures s' slave = None
    \<and> es_devices (se_entrance (ws_env s')) slave = Some d'
    \<and> (\<forall>wr \<in> set (pl_writes plan). sm_registers d' (rw_address wr) = Some (rw_value wr))"
proof -
  let ?s2 = "start_attempt w i s" and ?k = "di_room_key i"
  obtain st where st: "ws_intent_states ?s2 ?k = Some st"
     "ri_current_attempt st = Some (new_attempt (di_intent_version i) (intent_fingerprint w i))"
    using start_attempt_facts(3) by blast
  have "under_way i None slave d (ws_slave_failures ?s2) ?s2"
    using st assms(5,6)
    by (auto simp: under_way_def on_bench_def attempting_def start_attempt_facts new_attempt_def)
  moreover have "bench.due_now w i slave ?s2"
    using assms(4) unfolding bench.due_now_def [OF assms(1)] held_back_def Let_def
    by (auto simp: start_attempt_facts slave_failure_state_def split: if_splits option.splits)
  ultimately obtain r s' where "execute_intent w i slave ?s2 = (Inr r, s')"
      and settled: "applied_and_settled i slave (pl_writes plan) r s'"
    using bench.bench_execute [OF assms(1,7,8)] by blast
  moreover have "apply_intent w i s = execute_intent w i slave ?s2" by (rule apply_newer [OF assms(2,3)])
  ultimately show ?thesis
    using settled
    by (auto simp: applied_and_settled_def unit_settled_def applied_in_room_def intent_version_state_def Let_def)
qed

text \<open>C5. On a unit that answers, an intent is carried out and confirmed. The unit is simulated with
  any register contents and a status that lags its control registers by fewer reads than
  there are readback rounds; its limit registers allow the intent, the intent is new and in
  its validity window, and the slave is not in a cooldown. Then the answer is applied, the
  unit's control registers hold the plan's values, the room's terminal and applied version
  is the intent's, and the slave has no failures on record.\<close>

theorem intent_applied_on_unit:
  assumes "bench w" and "wk_room_slave_addresses w (di_room_key i) = Some slave"
    and "case ri_last_seen_version (room_state (di_room_key i) s) of None \<Rightarrow> True | Some n \<Rightarrow> n < di_intent_version i"
    and "held_back w i (se_now (ws_env s)) (slave_failure_state slave s) = None"
    and "es_devices (se_entrance (ws_env s)) slave = Some d" and "sm_slave_address d = slave"
    and "unit_ready i slave d plan" and "sm_status_delay_reads d < wk_readback_attempts w"
  shows "\<exists>r s' d'. apply_intent w i s = (Inr r, s') \<and> er_status r = ES_APPLIED
    \<and> iv_last_terminal_version (intent_version_state (di_room_key i) s') = Some (di_intent_version i)
    \<and> iv_last_applied_version (intent_version_state (di_room_key i) s') = Some (di_intent_version i)
    \<and> iv_current_phase (intent_version_state (di_room_key i) s') = Some AT_TERMINAL
    \<and> ws_slave_failures s' slave = None
    \<and> es_devices (se_entrance (ws_env s')) slave = Some d'
    \<and> (\<forall>wr \<in> set (pl_writes plan). sm_registers d' (rw_address wr) = Some (rw_value wr))"
  by (rule applied_on_unit [OF assms])

text \<open>The sample intent on the sample unit, whose power status lags by one read.\<close>

lemma sample_delivery:
  defines "i \<equiv> sample_intent heat_22" and "s \<equiv> initial_worker_state (sample_bench 1)"
  shows "bench sample_worker"
    and "case ri_last_seen_version (room_state (di_room_key i) s) of None \<Rightarrow> True | Some n \<Rightarrow> n < di_intent_version i"
    and "held_back sample_worker i (se_now (ws_env s)) (slave_failure_state 3 s) = None"
    and "es_devices (se_entrance (ws_env s)) 3 = Some (sample_unit 1)" and "sm_slave_address (sample_unit 1) = 3"
    and "unit_ready i 3 (sample_unit 1) (plan_of i 3 [mode_write HV_HEAT GM_HEAT, setpoint_write 220, power_on_write])"
    and "sm_status_delay_reads (sample_unit 1) < wk_readback_attempts sample_worker"
proof -
  show "bench sample_worker" unfolding sample_worker_def by (rule default_bench.bench_axioms)
  show "case ri_last_seen_version (room_state (di_room_key i) s) of None \<Rightarrow> True | Some n \<Rightarrow> n < di_intent_version i"
    by (simp add: s_def initial_worker_state_def room_state_def empty_intent_state_def)
  show "held_back sample_worker i (se_now (ws_env s)) (slave_failure_state 3 s) = None"
    by (simp add: i_def s_def held_back_def sample_intent_def slave_failure_state_def initial_worker_state_def
        sample_worker_def default_worker_def sample_bench_def dt_less_def)
  show "es_devices (se_entrance (ws_env s)) 3 = Some (sample_unit 1)"
    by (simp add: s_def initial_worker_state_def sample_bench_def)
  show "sm_slave_address (sample_unit 1) = 3" by (simp add: sample_unit_def)
  have "build_device_profile (shown (sample_unit 1) (reg REG_CAPABILITIES)) (shown (sample_unit 1) (reg REG_MODE_LIMITATION))
      (shown (sample_unit 1) (reg REG_TEMPERATURE_UPPER_LIMIT)) (shown (sample_unit 1) (reg REG_TEMPERATURE_LOWER_LIMIT))
      = Inr sample_profile"
    by (simp add: shown_def sample_unit_def build_device_profile_def g301_mode_limitation_of_def sample_profile_def)
  with sample_plan show "unit_ready i 3 (sample_unit 1)
      (plan_of i 3 [mode_write HV_HEAT GM_HEAT, setpoint_write 220, power_on_write])"
    unfolding unit_ready_def i_def by (auto simp: sample_unit_def)
  show "sm_status_delay_reads (sample_unit 1) < wk_readback_attempts sample_worker"
    by (simp add: sample_unit_def sample_worker_def default_worker_def)
qed

theorem intent_applied_on_unit_witness:
  "\<exists>r s'. apply_intent sample_worker (sample_intent heat_22) (initial_worker_state (sample_bench 1)) = (Inr r, s')
     \<and> er_status r = ES_APPLIED"
  using intent_applied_on_unit [OF sample_delivery(1) sample_worker_slave sample_delivery(2-7)] by blast

section \<open>The versions of a room\<close>

text \<open>C14. The versions only grow: no delivery, in whatever order the versions arrive and whatever the
  bus does, lowers the seen, the terminal or the applied version of any room.\<close>

theorem versions_never_decrease:
  assumes "worker_inv s"
  shows "opt_le (iv_last_seen_version (intent_version_state k s))
      (iv_last_seen_version (intent_version_state k (snd (apply_intent w i s))))
    \<and> opt_le (iv_last_terminal_version (intent_version_state k s))
      (iv_last_terminal_version (intent_version_state k (snd (apply_intent w i s))))
    \<and> opt_le (iv_last_applied_version (intent_version_state k s))
      (iv_last_applied_version (intent_version_state k (snd (apply_intent w i s))))"
proof -
  let ?s' = "snd (apply_intent w i s)"
  have "marks_le (room_state k s) (room_state k ?s')"
  proof (cases "wk_room_slave_addresses w (di_room_key i)")
    case None
    then have "ws_intent_states ?s' = ws_intent_states s"
      by (simp add: apply_intent_def make_result_def bindE_def on_env_def split: prod.split)
    then show ?thesis by (simp add: room_state_def)
  next
    case (Some slave)
    show ?thesis
    proof (cases "k = di_room_key i")
      case True
      then show ?thesis using apply_intent_keeps(2) [OF Some] worker_inv_marks_ok [OF assms] by simp
    next
      case False
      then have "ws_intent_states ?s' k = ws_intent_states s k"
        using apply_intent_keeps(1) [OF Some, of s] by (simp add: same_but_def)
      then show ?thesis by (simp add: room_state_def)
    qed
  qed
  then show ?thesis by (simp add: marks_le_def intent_version_state_def Let_def)
qed

text \<open>Version 4 is applied on the sample unit, then version 3 arrives late.\<close>

definition sample_applied :: "sim_env worker_state" where
  "sample_applied = snd (apply_intent sample_worker (sample_intent heat_22) (initial_worker_state (sample_bench 1)))"

lemma sample_applied_facts:
  "worker_inv sample_applied" "iv_last_applied_version (intent_version_state ''101'' sample_applied) = Some 4"
  "iv_last_terminal_version (intent_version_state ''101'' sample_applied) = Some 4"
proof -
  from applied_on_unit [OF sample_delivery(1) sample_worker_slave sample_delivery(2-7)]
  obtain r s' where run: "apply_intent sample_worker (sample_intent heat_22) (initial_worker_state (sample_bench 1)) = (Inr r, s')"
    and versions: "iv_last_terminal_version (intent_version_state (di_room_key (sample_intent heat_22)) s') = Some (di_intent_version (sample_intent heat_22))"
      "iv_last_applied_version (intent_version_state (di_room_key (sample_intent heat_22)) s') = Some (di_intent_version (sample_intent heat_22))"
    by blast
  have s': "sample_applied = s'" by (simp add: sample_applied_def run)
  have i: "di_room_key (sample_intent heat_22) = ''101''" "di_intent_version (sample_intent heat_22) = 4"
    by (simp_all add: sample_intent_def)
  show "worker_inv sample_applied"
    using tripleD_Inr [OF bench_bus.triple_apply_intent worker_inv_initial, OF run [unfolded sample_worker_def]]
    by (simp add: sample_applied_def run bench_bus.answered_def)
  show "iv_last_applied_version (intent_version_state ''101'' sample_applied) = Some 4"
    "iv_last_terminal_version (intent_version_state ''101'' sample_applied) = Some 4"
    using versions by (simp_all only: s' i)
qed

theorem versions_never_decrease_witness:
  "\<exists>applied terminal. 4 \<le> applied \<and> 4 \<le> terminal
     \<and> iv_last_applied_version (intent_version_state ''101''
         (snd (apply_intent sample_worker ((sample_intent heat_22)\<lparr>di_intent_version := 3\<rparr>) sample_applied))) = Some applied
     \<and> iv_last_terminal_version (intent_version_state ''101''
         (snd (apply_intent sample_worker ((sample_intent heat_22)\<lparr>di_intent_version := 3\<rparr>) sample_applied))) = Some terminal"
  using versions_never_decrease [OF sample_applied_facts(1), of "''101''" sample_worker
      "(sample_intent heat_22)\<lparr>di_intent_version := 3\<rparr>"]
  by (auto simp: sample_applied_facts opt_le_def split: option.splits)

section \<open>The simulated status\<close>

text \<open>The simulated unit shows a new power status after exactly the configured number of reads:
  the reads before it still return the old status, and every later one the written value.\<close>

theorem simulated_status_lag:
  assumes "sm_slave_address d = slave" and "0 \<le> v" and "v \<le> 0xFFFF"
    and "sm_status_delay_reads d = int delay" and "sm_pending_status d (reg REG_POWER_STATUS) = None"
  shows "fst (sim_read slave (reg REG_POWER_STATUS) 1
      (((\<lambda>d. snd (sim_read slave (reg REG_POWER_STATUS) 1 d)) ^^ n) (snd (sim_write slave (reg REG_POWER) v d))))
    = Inr [if n < delay then shown d (reg REG_POWER_STATUS) else v]"
proof -
  let ?a = "reg REG_POWER_STATUS"
  let ?d = "\<lambda>n. ((\<lambda>d. snd (sim_read slave ?a 1 d)) ^^ n) (snd (sim_write slave (reg REG_POWER) v d))"
  have w: "?d 0 = sim_put (reg REG_POWER) v d" using assms(1-3) by (simp add: sim_write_put)
  have inv: "sm_slave_address (?d n) = slave
      \<and> (if n < delay
         then shown (?d n) ?a = shown d ?a \<and> sm_pending_status (?d n) ?a = Some (v, int (delay - n))
         else shown (?d n) ?a = v \<and> sm_pending_status (?d n) ?a = None)" for n
  proof (induction n)
    case 0
    show ?case
      unfolding w using assms
      by (simp add: sim_put_def mirror_control_to_status_def set_status_def shown_def)
  next
    case (Suc n)
    have s: "?d (Suc n) = advance_pending ?a (?d n)" using Suc.IH by (simp add: sim_read_1 del: reg.simps)
    show ?case
      unfolding s using Suc.IH
      by (auto simp: advance_pending_def shown_def of_nat_diff split: if_splits)
  qed
  from inv [of n] show ?thesis by (simp add: sim_read_1 del: reg.simps split: if_splits)
qed

theorem simulated_status_lag_witness:
  "fst (sim_read 3 (reg REG_POWER_STATUS) 1
      (((\<lambda>d. snd (sim_read 3 (reg REG_POWER_STATUS) 1 d)) ^^ 1) (snd (sim_write 3 (reg REG_POWER) 1 (sample_unit 1)))))
    = Inr [1]"
  using simulated_status_lag [of "sample_unit 1" 3 1 1 1] by (simp add: sample_unit_def)

end
