(* ===== verification/Room_To_Unit.thy ===== *)
theory Room_To_Unit
  imports Policy_Properties G301_Worker_Properties
begin

text \<open>
  From the bookings to the registers: an evaluated room's intent, versioned by the
  persistence and delivered to the entrance's worker, ends in the control registers of the
  room's unit. The lemmas join the evaluation and the derivation on the one side with the
  worker on the simulated entrance on the other.
\<close>

section \<open>The worker of a room's entrance\<close>

text \<open>What the constructor guarantees of the worker it builds.\<close>

lemma built_worker:
  assumes "mk_g301_worker registry w0 = Inr w"
  shows "wk_room_slave_addresses w = room_slaves registry (wk_entrance_key w)"
    and "1 \<le> wk_max_operation_attempts w" and "0 \<le> wk_validity_clock_skew_seconds w"
  using assms by (auto simp: mk_g301_worker_def split: if_splits option.splits)

lemma set_mapped: "y \<in> set (List.map_filter f xs) \<longleftrightarrow> (\<exists>x \<in> set xs. f x = Some y)"
  by (induction xs) (auto simp: map_filter_simps split: option.split)

lemma keys_of_mapped:
  assumes "distinct (map rm_key rs)"
  shows "distinct (map fst (List.map_filter (\<lambda>r. map_option (\<lambda>g. (rm_key r, a g)) (f r)) rs))
    \<and> set (map fst (List.map_filter (\<lambda>r. map_option (\<lambda>g. (rm_key r, a g)) (f r)) rs)) \<subseteq> rm_key ` set rs"
  using assms by (induction rs) (auto simp: map_filter_simps split: option.split)

text \<open>An enabled room of the registry that has a unit on the entrance is served at the unit's address.\<close>

lemma room_served:
  assumes "registry_ok registry" and "mk_g301_worker registry w0 = Inr w" and "rm \<in> set (rr_rooms registry)"
    and "rm_enabled rm" and "rm_entrance_key rm = wk_entrance_key w" and "rm_g301 rm = Some g"
  shows "wk_room_slave_addresses w (rm_key rm) = Some (gm_slave_address g)"
proof -
  let ?f = "\<lambda>r. if rm_enabled r \<and> rm_entrance_key r = wk_entrance_key w then rm_g301 r else None"
  let ?xs = "List.map_filter (\<lambda>r. map_option (\<lambda>g. (rm_key r, gm_slave_address g)) (?f r)) (rr_rooms registry)"
  have xs: "room_slaves registry (wk_entrance_key w) = map_of (rev ?xs)"
    unfolding room_slaves_def by (intro arg_cong [of _ _ "\<lambda>x. map_of (rev x)"] arg_cong2 [of _ _ _ _ List.map_filter]) auto
  have "distinct (map fst (rev ?xs))"
    using keys_of_mapped [of "rr_rooms registry" gm_slave_address ?f] assms(1)
    by (simp add: registry_ok_def rev_map [symmetric])
  moreover have "(rm_key rm, gm_slave_address g) \<in> set (rev ?xs)"
    using assms(3-6) by (force simp: set_mapped)
  ultimately show ?thesis unfolding built_worker(1) [OF assms(2)] xs by (rule map_of_is_SomeI)
qed

text \<open>A disabled room, and one without a unit on the entrance, is not served: its intents are answered
as skipped and change nothing.\<close>

lemma room_not_served:
  assumes "registry_ok registry" and "mk_g301_worker registry w0 = Inr w" and "rm \<in> set (rr_rooms registry)"
    and "\<not> rm_enabled rm \<or> rm_entrance_key rm \<noteq> wk_entrance_key w \<or> rm_g301 rm = None"
  shows "wk_room_slave_addresses w (rm_key rm) = None"
proof -
  have "rm' = rm" if "rm' \<in> set (rr_rooms registry)" "rm_key rm' = rm_key rm" for rm'
    using assms(1,3) that by (simp add: registry_ok_def distinct_map inj_on_def)
  then show ?thesis
    unfolding built_worker(1) [OF assms(2)] room_slaves_def using assms(4)
    by (auto simp: map_of_eq_None_iff set_mapped split: if_splits) (metis option.distinct(1))+
qed

section \<open>Delivering a derived intent\<close>

text \<open>The worker runs on simulated units and a clock in UTC. It has not seen the version, its slave is
not in a cooldown, and the slave is a unit that answers, has no status change under way, and shows a
written status after fewer reads than the worker has readback rounds.\<close>

definition fresh_delivery ::
  "sim_env g301_worker \<Rightarrow> sim_env worker_state \<Rightarrow> string \<Rightarrow> int \<Rightarrow> int \<Rightarrow> datetime \<Rightarrow> g301_sim \<Rightarrow> bool" where
  "fresh_delivery w s k version slave t d \<longleftrightarrow>
     simulated w
     \<and> (case ri_last_seen_version (room_state k s) of None \<Rightarrow> True | Some n \<Rightarrow> n < version)
     \<and> ws_slave_failures s slave = None
     \<and> se_now (ws_env s) = t \<and> dt_zone t = UTC
     \<and> es_devices (se_entrance (ws_env s)) slave = Some d \<and> sm_slave_address d = slave
     \<and> sm_pending_status d = Map.empty
     \<and> 0 \<le> sm_status_delay_reads d \<and> sm_status_delay_reads d < wk_readback_attempts w"

lemma td_seconds_nonneg: "0 \<le> q \<Longrightarrow> 0 \<le> td_seconds q"
  using td_seconds_mono [of 0 q] by simp

lemma dt_compare_UTC:
  assumes "dt_zone t = UTC"
  shows "dt_less db t x \<longleftrightarrow> dt_wall t < instant db x" "dt_le db x t \<longleftrightarrow> instant db x \<le> dt_wall t"
  using assms by (auto simp: dt_less_def dt_le_def instant_UTC)

lemma not_held_back:
  assumes "dt_zone t = UTC" and "0 \<le> wk_validity_clock_skew_seconds w" and "sf_retry_after f = None"
    and "dt_le (wk_tzdb w) (di_effective_from i) t"
    and "\<And>x. di_expires_at i = Some x \<Longrightarrow> dt_less (wk_tzdb w) t x"
  shows "held_back w i t f = None"
proof -
  have skew: "0 \<le> td_seconds (wk_validity_clock_skew_seconds w)" using assms(2) by (rule td_seconds_nonneg)
  have "\<not> dt_le (wk_tzdb w) x (dt_minus t (td_seconds (wk_validity_clock_skew_seconds w)))"
    if "di_expires_at i = Some x" for x
    using assms(5) [OF that] skew assms(1) by (simp add: dt_compare_UTC)
  moreover have "\<not> dt_less (wk_tzdb w) (dt_plus t (td_seconds (wk_validity_clock_skew_seconds w))) (di_effective_from i)"
    using assms(1,4) skew by (simp add: dt_compare_UTC)
  ultimately show ?thesis using assms(3) by (auto simp: held_back_def Let_def split: option.split)
qed

text \<open>The delivery is within the validity window of the intent.\<close>

definition in_window :: "tzdb \<Rightarrow> desired_room_intent \<Rightarrow> datetime \<Rightarrow> bool" where
  "in_window db i t \<longleftrightarrow>
     dt_le db (di_effective_from i) t
     \<and> (case di_expires_at i of None \<Rightarrow> True | Some x \<Rightarrow> dt_less db t x)"

lemma fresh_delivery_applied:
  assumes "mk_room_registry candidate = Inr registry" and "mk_g301_worker registry w0 = Inr w"
    and "rm \<in> set (rr_rooms registry)" and "rm_enabled rm" and "rm_entrance_key rm = wk_entrance_key w"
    and "rm_g301 rm = Some g" and "mk_g301_room_mapping slave = Inr g" and "di_room_key i = rm_key rm"
    and "fresh_delivery w s (rm_key rm) (di_intent_version i) slave t d"
    and "in_window (wk_tzdb w) i t"
    and "unit_ready i slave d plan"
  obtains r s' d' where "apply_intent w i s = (Inr r, s')" "er_status r = ES_APPLIED"
    "es_devices (se_entrance (ws_env s')) slave = Some d'"
    "\<And>wr. wr \<in> set (pl_writes plan) \<Longrightarrow> sm_registers d' (rw_address wr) = Some (rw_value wr)"
proof -
  have "gm_slave_address g = slave" using assms(7) by (auto simp: mk_g301_room_mapping_def split: if_splits)
  moreover have "registry_ok registry" using assms(1) by (simp add: mk_room_registry_Inr)
  ultimately have served: "wk_room_slave_addresses w (di_room_key i) = Some slave"
    using room_served [OF _ assms(2-6)] assms(8) by simp
  have bench: "bench w"
    using assms(9) built_worker(2) [OF assms(2)] by (simp add: bench_def fresh_delivery_def)
  have idle: "sf_retry_after (slave_failure_state slave s) = None"
    using assms(9) by (simp add: fresh_delivery_def slave_failure_state_def)
  have "held_back w i (se_now (ws_env s)) (slave_failure_state slave s) = None"
    using assms(9,10) built_worker(3) [OF assms(2)]
    by (intro not_held_back idle) (auto simp: fresh_delivery_def in_window_def)
  with assms(9,11) show thesis
    using applied_on_unit [OF bench served, of s d plan] that by (auto simp: fresh_delivery_def assms(8))
qed

lemma mapped_slave: "mk_g301_room_mapping slave = Inr g \<Longrightarrow> 1 \<le> slave \<and> slave \<le> 255"
  by (simp add: mk_g301_room_mapping_def split: if_splits)

section \<open>Properties\<close>

text \<open>C1. An unsafe room's unit ends switched off. The room is an enabled one of an accepted registry, with
a unit on the worker's entrance; a booking of unknown status names it, or its active bookings overlap.
Then the intent derived for it, whichever override was active, is applied and leaves zero in the
unit's power register, whatever the unit's registers held before, under these conditions of the
delivery: it happens no earlier than the evaluation, the worker has not seen the version, the slave is
not in a cooldown, and it is a (simulated) unit that answers and whose status lags by fewer reads than
the worker has readback rounds. A disabled room is not served by any worker and is left as it is
(lemma room_not_served).\<close>

theorem unsafe_room_unit_off:
  assumes "derive_room_intent db (evaluate_room db rm bks now p ov) p now ov corr fresh = Inr (Some i)"
    and "unknown_for_room rm bks \<noteq> [] \<or> has_conflict (active_bookings_for_room rm bks (dt_date now))"
    and "mk_room_registry candidate = Inr registry" and "mk_g301_worker registry w0 = Inr w"
    and "rm \<in> set (rr_rooms registry)" and "rm_enabled rm" and "rm_entrance_key rm = wk_entrance_key w"
    and "rm_g301 rm = Some g" and "mk_g301_room_mapping slave = Inr g"
    and "fresh_delivery w s (rm_key rm) version slave t d" and "wk_tzdb w = db" and "dt_le db now t"
  shows "\<exists>r s' d'. apply_intent w (i\<lparr>di_intent_version := version\<rparr>) s = (Inr r, s')
    \<and> er_status r = ES_APPLIED \<and> es_devices (se_entrance (ws_env s')) slave = Some d'
    \<and> sm_registers d' (reg REG_POWER) = Some 0"
proof -
  let ?i = "i\<lparr>di_intent_version := version\<rparr>" and ?e = "evaluate_room db rm bks now p ov"
  note i = derived_intent [OF assms(1)]
  have key: "di_room_key ?i = rm_key rm" using i(7) by simp
  have off: "\<not> hi_enabled (di_hvac ?i)"
    using i(2) unsafe_room_row [OF disjI2 [OF assms(2)]] by (simp add: row_hvac_def all_off_def)
  have plan: "plan_room_intent ?i slave None = Inr (plan_of ?i slave disabled_writes)"
    using off mapped_slave [OF assms(9)] by (simp add: plan_room_intent_def)
  have e: "rs_expires_at ?e = None" "rs_effective_from ?e = now"
    by (cases rule: evaluate_room_cases [of rm db bks now p ov]; use assms(2,6) in \<open>auto simp: has_conflict_def\<close>)+
  show ?thesis
  proof (rule fresh_delivery_applied [OF assms(3-9) key, of s t d "plan_of ?i slave disabled_writes"])
    show "fresh_delivery w s (rm_key rm) (di_intent_version ?i) slave t d" using assms(10) by simp
    show "in_window (wk_tzdb w) ?i t" using assms(11,12) i(9,10) e by (simp add: in_window_def)
    show "unit_ready ?i slave d (plan_of ?i slave disabled_writes)"
      using plan assms(10) by (simp add: unit_ready_def fresh_delivery_def)
  qed (force simp: disabled_writes_def)
qed


text \<open>A guest who never came keeps the heating on: from the checkout on the departure date until
  midnight an expected booking is still evaluated as pre-arrival, and the intent derived for
  it asks for heating but has already expired, so the worker answers it as expired and
  touches no unit; nothing is sent that would switch the prepared room off.\<close>

theorem no_show_keeps_heating:
  assumes "rm_enabled rm" and "assigned_to rm b" and "nb_booking_status b = BS_EXPECTED"
    and "policy_times_ok p" and "nb_arrival_date b < nb_departure_date b"
    and "dt_zone now = policy_tz p" and "dt_date now = nb_departure_date b"
    and "dt_le db (checkout_at b p) now"
    and "derive_room_intent db (evaluate_room db rm [b] now p None) p now None corr fresh = Inr (Some i)"
    and "wk_tzdb w = db" and "wk_room_slave_addresses w (rm_key rm) = Some slave"
    and "case ri_last_seen_version (room_state (rm_key rm) s) of None \<Rightarrow> True | Some n \<Rightarrow> n < version"
    and "wk_clock w (ws_env s) = (t, c)" and "dt_zone t = UTC"
    and "instant db (checkout_at b p) + td_seconds (wk_validity_clock_skew_seconds w) \<le> dt_wall t"
  shows "hi_enabled (di_hvac i) \<and> hi_mode (di_hvac i) = HV_HEAT
    \<and> (\<exists>r s'. apply_intent w (i\<lparr>di_intent_version := version\<rparr>) s = (Inr r, s') \<and> er_status r = ES_EXPIRED
         \<and> ws_slave_failures s' = ws_slave_failures s)
    \<and> apply_intent (with_bus wr rd w) (i\<lparr>di_intent_version := version\<rparr>) s
        = apply_intent w (i\<lparr>di_intent_version := version\<rparr>) s"
proof -
  let ?e = "evaluate_room db rm [b] now p None" and ?i = "i\<lparr>di_intent_version := version\<rparr>"
  have "dt_less db (lead_start b p) (checkout_at b p)" using assms(4,5) by (rule lead_before_checkout)
  with assms(6,8) have lead: "dt_le db (lead_start b p) now"
    by (simp add: dt_less_same_zone dt_le_same_zone)
  have e: "rs_phase ?e = PH_PRE_ARRIVAL" "rs_expires_at ?e = Some (checkout_at b p)"
    using assms(1-3,7) lead
    by (simp_all add: evaluate_room_def active_bookings_for_room_def unknown_for_room_def active_for_automation_def
        select_relevant_booking_def evaluate_selected_def Let_def)
  note i = derived_intent [OF assms(9)]
  have key: "di_room_key ?i = rm_key rm" using i(7) by simp
  have held: "held_back w ?i t (slave_failure_state slave s) = Some ES_EXPIRED"
    using i(10) e(2) assms(10,14,15) by (simp add: held_back_def Let_def dt_compare_UTC)
  have slave: "wk_room_slave_addresses w (di_room_key ?i) = Some slave"
    and new: "case ri_last_seen_version (room_state (di_room_key ?i) s) of None \<Rightarrow> True
       | Some n \<Rightarrow> n < di_intent_version ?i" using assms(11,12) key by (auto split: option.splits)
  have "apply_intent (with_bus wr rd w) ?i s = apply_intent w ?i s
      \<and> (\<exists>r s'. apply_intent w ?i s = (Inr r, s') \<and> er_status r = ES_EXPIRED
           \<and> ws_slave_failures s' = ws_slave_failures s)"
    using held_back_answered [OF slave new assms(13) held] by blast
  with i(2) e(1) show ?thesis by (simp add: row_hvac_def)
qed

section \<open>Samples\<close>

text \<open>A registry with one room, whose unit the sample worker serves, and the bench with the sample unit
at a wall time of the clock.\<close>

definition unit_room :: room where
  "unit_room = (sample_room ''101'' None)\<lparr>rm_entrance_key := ''A'', rm_g301 := Some \<lparr>gm_slave_address = 3\<rparr>\<rparr>"

definition unit_registry :: room_registry where
  "unit_registry =
     \<lparr>rr_property = \<lparr>pr_key = ''p'', pr_name = ''H'', pr_timezone = ''Europe/Sofia''\<rparr>,
      rr_entrances = [\<lparr>en_key = ''A'', en_name = ''A'', en_gateway_host = None, en_gateway_port = None, en_enabled = True\<rparr>],
      rr_rooms = [unit_room]\<rparr>"

lemma unit_room_simps [simp]:
  "rm_key unit_room = ''101''" "rm_enabled unit_room" "rm_entrance_key unit_room = ''A''"
  "rm_g301 unit_room = Some \<lparr>gm_slave_address = 3\<rparr>" "rm_clock_room_id unit_room = None"
  by (simp_all add: unit_room_def sample_room_def)

lemma sample_worker_built:
  "mk_room_registry unit_registry = Inr unit_registry" "mk_g301_worker unit_registry sample_worker = Inr sample_worker"
  "unit_room \<in> set (rr_rooms unit_registry)" "rm_enabled unit_room"
  "rm_entrance_key unit_room = wk_entrance_key sample_worker"
  "rm_g301 unit_room = Some \<lparr>gm_slave_address = 3\<rparr>" "mk_g301_room_mapping 3 = Inr \<lparr>gm_slave_address = 3\<rparr>"
proof -
  show "mk_room_registry unit_registry = Inr unit_registry"
    by (simp add: mk_room_registry_Inr registry_ok_def unit_registry_def clock_ids_def g301_addresses_def map_filter_simps)
  show "mk_g301_worker unit_registry sample_worker = Inr sample_worker"
    by (simp add: mk_g301_worker_def sample_worker_def default_worker_def unit_registry_def room_slaves_def map_filter_simps)
  show "unit_room \<in> set (rr_rooms unit_registry)" by (simp add: unit_registry_def)
qed (simp_all add: sample_worker_def default_worker_def mk_g301_room_mapping_def)

definition bench_at :: "int \<Rightarrow> sim_env worker_state" where
  "bench_at t = initial_worker_state ((sample_bench 1)\<lparr>se_now := utc_at t\<rparr>)"

lemma bench_at_fresh:
  "fresh_delivery sample_worker (bench_at t) (rm_key unit_room) 7 3 (utc_at t) (sample_unit 1)"
  by (simp add: fresh_delivery_def bench_at_def initial_worker_state_def room_state_def empty_intent_state_def
      sample_bench_def simulated_def sample_worker_def default_worker_def sample_unit_def)

lemma sample_worker_tz [simp]: "wk_tzdb sample_worker = fixed_tzdb 0"
  by (simp add: sample_worker_def default_worker_def)

lemma sample_unit_idle [simp]:
  "sm_pending_status (sample_unit n) = Map.empty" "sm_status_delay_reads (sample_unit n) = n"
  by (simp_all add: sample_unit_def)


text \<open>An expected stay from day 14 to day 17, evaluated at noon of its arrival and of its departure day.\<close>

definition sample_stay :: normalized_booking where
  "sample_stay = sample_booking ''b'' BS_EXPECTED 14 17 None (Some ''101'')"

definition stay_evaluation :: "date \<Rightarrow> room_state_evaluation" where
  "stay_evaluation day = evaluate_room (fixed_tzdb 0) unit_room [sample_stay]
     (hotel_time day (12 * hour_us)) default_hotel_policy None"

lemma stay_evaluation_eq:
  assumes "day = 14 \<or> day = 17"
  shows "rs_phase (stay_evaluation day) = PH_PRE_ARRIVAL"
    "rs_effective_from (stay_evaluation day) = hotel_time 14 (11 * hour_us)"
    "rs_expires_at (stay_evaluation day) = Some (hotel_time 17 (11 * hour_us))"
  using assms
  by (auto simp: stay_evaluation_def sample_stay_def evaluation_defs sample_defs dt_minus_def dt_plus_def combine_def)

lemma stay_intent:
  assumes "day = 14 \<or> day = 17"
  obtains i where "derive_room_intent (fixed_tzdb 0) (stay_evaluation day) default_hotel_policy
      (hotel_time day (12 * hour_us)) None None (UUID 1) = Inr (Some i)"
    "di_hvac i = \<lparr>hi_enabled = True, hi_mode = HV_HEAT, hi_target_temperature_c = Some (Fin 22)\<rparr>"
    "di_effective_from i = hotel_time 14 (11 * hour_us)" "di_expires_at i = Some (hotel_time 17 (11 * hour_us))"
proof -
  obtain i where i: "derive_room_intent (fixed_tzdb 0) (stay_evaluation day) default_hotel_policy
      (hotel_time day (12 * hour_us)) None None (UUID 1) = Inr (Some i)"
  proof (rule derive_total [of "stay_evaluation day" "''101''" None "fixed_tzdb 0"])
    show "rs_room_key (stay_evaluation day) = Some ''101''" by (simp add: stay_evaluation_def sample_defs)
    show "rs_reason (stay_evaluation day) \<noteq> []" by (simp add: stay_evaluation_def evaluate_room_reason)
    show "dt_less (fixed_tzdb 0) (rs_effective_from (stay_evaluation day)) x"
      if "rs_expires_at (stay_evaluation day) = Some x" for x
      using that stay_evaluation_eq [OF assms] by (auto simp: sample_defs dt_less_def)
  qed simp_all
  show thesis
    by (rule that [OF i])
      (use derived_intent [OF i] stay_evaluation_eq [OF assms] in \<open>simp_all add: row_hvac_def sample_defs\<close>)
qed

lemma instant_hotel_time: "instant (fixed_tzdb 0) (hotel_time d t) = d * day_us + t"
  by (simp add: hotel_time_def sample_defs instant_def fixed_tzdb_def utc_offset.simps)


text \<open>A booking whose status the service does not know names the room.\<close>

definition odd_stay :: normalized_booking where
  "odd_stay = sample_booking ''b'' BS_UNKNOWN 14 17 None (Some ''101'')"

theorem unsafe_room_unit_off_witness:
  "\<exists>i r s' d'. apply_intent sample_worker (i\<lparr>di_intent_version := 7\<rparr>) (bench_at (14 * day_us + 12 * hour_us)) = (Inr r, s')
     \<and> es_devices (se_entrance (ws_env s')) 3 = Some d' \<and> sm_registers d' (reg REG_POWER) = Some 0"
proof -
  let ?now = "hotel_time 14 (12 * hour_us)"
  let ?e = "evaluate_room (fixed_tzdb 0) unit_room [odd_stay] ?now default_hotel_policy None"
  have unknown: "unknown_for_room unit_room [odd_stay] \<noteq> []"
    by (simp add: unknown_for_room_def odd_stay_def assigned_to_def room_ids_iff sample_booking_def)
  then have e: "rs_expires_at ?e = None" by (simp add: evaluate_room_def)
  obtain i where i: "derive_room_intent (fixed_tzdb 0) ?e default_hotel_policy ?now None None (UUID 1) = Inr (Some i)"
  proof (rule derive_total [of ?e "''101''" None "fixed_tzdb 0"])
    show "rs_room_key ?e = Some ''101''" by simp
  qed (simp_all only: evaluate_room_reason e, simp_all)
  have "dt_le (fixed_tzdb 0) ?now (utc_at (14 * day_us + 12 * hour_us))"
    by (simp add: dt_compare_UTC instant_hotel_time)
  from unsafe_room_unit_off [OF i disjI1 [OF unknown] sample_worker_built bench_at_fresh sample_worker_tz this]
  show ?thesis by blast
qed

theorem no_show_keeps_heating_witness:
  "\<exists>i r s'. apply_intent sample_worker (i\<lparr>di_intent_version := 7\<rparr>) (bench_at (17 * day_us + 12 * hour_us)) = (Inr r, s')
     \<and> hi_enabled (di_hvac i) \<and> er_status r = ES_EXPIRED"
proof -
  obtain i where i: "derive_room_intent (fixed_tzdb 0) (stay_evaluation 17) default_hotel_policy
      (hotel_time 17 (12 * hour_us)) None None (UUID 1) = Inr (Some i)"
    by (rule stay_intent [of 17]) auto
  note i' = i [unfolded stay_evaluation_def]
  have clock: "wk_clock sample_worker (ws_env (bench_at (17 * day_us + 12 * hour_us)))
      = (utc_at (17 * day_us + 12 * hour_us), ws_env (bench_at (17 * day_us + 12 * hour_us)))"
    by (simp add: sample_worker_def default_worker_def bench_at_def initial_worker_state_def)
  have stay: "rm_enabled unit_room" "assigned_to unit_room sample_stay"
    "nb_booking_status sample_stay = BS_EXPECTED" "policy_times_ok default_hotel_policy"
    "nb_arrival_date sample_stay < nb_departure_date sample_stay"
    "dt_date (hotel_time 17 (12 * hour_us)) = nb_departure_date sample_stay"
    "checkout_at sample_stay default_hotel_policy = hotel_time 17 (11 * hour_us)"
    by (simp_all add: sample_stay_def sample_defs assigned_to_def room_ids_iff policy_times_ok_def dt_date_def
        checkout_at_def)
  have skew: "td_seconds (wk_validity_clock_skew_seconds sample_worker) = 5000000"
    by (simp add: sample_worker_def default_worker_def)
  have late: "dt_le (fixed_tzdb 0) (checkout_at sample_stay default_hotel_policy) (hotel_time 17 (12 * hour_us))"
    "instant (fixed_tzdb 0) (checkout_at sample_stay default_hotel_policy)
       + td_seconds (wk_validity_clock_skew_seconds sample_worker) \<le> dt_wall (utc_at (17 * day_us + 12 * hour_us))"
    by (simp_all add: stay(7) skew instant_hotel_time) (simp add: sample_defs dt_le_def)
  have zone: "dt_zone (hotel_time 17 (12 * hour_us)) = policy_tz default_hotel_policy" by (simp add: sample_defs)
  have slave: "wk_room_slave_addresses sample_worker (rm_key unit_room) = Some 3"
    and new: "case ri_last_seen_version (room_state (rm_key unit_room) (bench_at (17 * day_us + 12 * hour_us)))
       of None \<Rightarrow> True | Some n \<Rightarrow> n < 7"
    using bench_at_fresh [of "17 * day_us + 12 * hour_us"]
      room_served [OF _ sample_worker_built(2-6)] sample_worker_built(1)
    by (simp_all add: fresh_delivery_def mk_room_registry_Inr)
  from no_show_keeps_heating [OF stay(1-5) zone stay(6) late(1) i' sample_worker_tz slave new clock _ late(2)]
  show ?thesis by fastforce
qed

end
