(* ===== verification/Outbox.thy ===== *)
theory Outbox
  imports Domain_Models
begin

text \<open>
  \<^verbatim>\<open>app/outbox/service.py\<close>: the transactional outbox. The table is the list of its rows; a
  store method is a function of the table (one flushed transaction), a publisher method a
  computation over the state of the MQTT client. The clock readings, the rows other
  transactions hold locked, the random generator, the MQTT publisher and the JSON text of a
  payload are arguments. \<open>run_outbox_once\<close> is the loop body of \<^verbatim>\<open>app/runtime.py\<close>.
\<close>

section \<open>Rows, messages, results\<close>

datatype outbox_status = OB_PENDING | OB_PUBLISHING | OB_RETRYING | OB_PUBLISHED | OB_DEAD_LETTER

record outbox_event =
  oe_id :: uuid
  oe_topic :: string
  oe_payload :: payload
  oe_qos :: int
  oe_retain :: bool
  oe_status :: outbox_status
  oe_attempts :: int
  oe_next_attempt_at :: "datetime option"
  oe_last_error :: "string option"
  oe_claimed_at :: "datetime option"
  oe_claimed_by :: "string option"
  oe_created_at :: datetime
  oe_published_at :: "datetime option"
  oe_correlation_id :: uuid

text \<open>The row that both services add: pending, retained, and due at the time it is created.\<close>

definition new_outbox_event :: "uuid \<Rightarrow> string \<Rightarrow> payload \<Rightarrow> datetime \<Rightarrow> uuid \<Rightarrow> outbox_event" where
  "new_outbox_event i topic payload created correlation =
     \<lparr>oe_id = i, oe_topic = topic, oe_payload = payload, oe_qos = 1, oe_retain = True,
      oe_status = OB_PENDING, oe_attempts = 0, oe_next_attempt_at = Some created, oe_last_error = None,
      oe_claimed_at = None, oe_claimed_by = None, oe_created_at = created, oe_published_at = None,
      oe_correlation_id = correlation\<rparr>"

record pending_outbox_message =
  pm_id :: uuid
  pm_topic :: string
  pm_payload :: payload
  pm_qos :: int
  pm_retain :: bool
  pm_attempts :: int

record outbox_publish_result =
  pres_message_id :: uuid
  pres_published :: bool
  pres_published_at :: "datetime option"
  pres_error :: "string option"

record outbox_retry_policy =
  rp_max_attempts :: int
  rp_base_delay_seconds :: int
  rp_max_delay_seconds :: int
  rp_jitter_seconds :: int

definition default_retry_policy :: outbox_retry_policy where
  "default_retry_policy =
     \<lparr>rp_max_attempts = 8, rp_base_delay_seconds = 5, rp_max_delay_seconds = 300, rp_jitter_seconds = 5\<rparr>"

section \<open>The store\<close>

text \<open>Timestamps with time zone are compared by their instants.\<close>

definition claimable :: "tzdb \<Rightarrow> datetime \<Rightarrow> outbox_event \<Rightarrow> bool" where
  "claimable db now row =
     (oe_status row \<in> {OB_PENDING, OB_RETRYING}
      \<and> (case oe_next_attempt_at row of None \<Rightarrow> True | Some t \<Rightarrow> instant db t \<le> instant db now))"

text \<open>\<^verbatim>\<open>ORDER BY created_at, id LIMIT n FOR UPDATE SKIP LOCKED\<close>: locked rows are passed over.\<close>

definition claim_rows ::
  "tzdb \<Rightarrow> (uuid \<Rightarrow> bool) \<Rightarrow> datetime \<Rightarrow> int \<Rightarrow> outbox_event list \<Rightarrow> outbox_event list" where
  "claim_rows db locked now limit table =
     take (nat limit)
       (filter (\<lambda>row. \<not> locked (oe_id row))
         (sort_key (\<lambda>row. (instant db (oe_created_at row), oe_id row)) (filter (claimable db now) table)))"

definition update_rows ::
  "(outbox_event \<Rightarrow> bool) \<Rightarrow> (outbox_event \<Rightarrow> outbox_event) \<Rightarrow> outbox_event list \<Rightarrow> outbox_event list" where
  "update_rows p f table = map (\<lambda>row. if p row then f row else row) table"

definition message_of :: "outbox_event \<Rightarrow> pending_outbox_message" where
  "message_of row =
     \<lparr>pm_id = oe_id row, pm_topic = oe_topic row, pm_payload = oe_payload row, pm_qos = oe_qos row,
      pm_retain = oe_retain row, pm_attempts = oe_attempts row\<rparr>"

definition claim_pending ::
  "tzdb \<Rightarrow> (uuid \<Rightarrow> bool) \<Rightarrow> string \<Rightarrow> datetime \<Rightarrow> int \<Rightarrow> outbox_event list
   \<Rightarrow> pending_outbox_message list \<times> outbox_event list" where
  "claim_pending db locked worker_id now limit table =
     (let rows = claim_rows db locked now limit table in
      (map message_of rows,
       update_rows (\<lambda>row. oe_id row \<in> oe_id ` set rows)
         (\<lambda>row. row\<lparr>oe_status := OB_PUBLISHING, oe_claimed_at := Some now, oe_claimed_by := Some worker_id\<rparr>)
         table))"

text \<open>\<open>uniform b r\<close> is \<^verbatim>\<open>Random.uniform(0, b)\<close> on the generator state \<open>r\<close>.\<close>

definition retry_delay ::
  "(rat \<Rightarrow> 'r \<Rightarrow> rat \<times> 'r) \<Rightarrow> outbox_retry_policy \<Rightarrow> int \<Rightarrow> 'r \<Rightarrow> timedelta \<times> 'r" where
  "retry_delay uniform policy attempts r =
     (let exponential = rp_base_delay_seconds policy * 2 ^ nat (max (attempts - 1) 0);
          capped = min exponential (rp_max_delay_seconds policy);
          (jitter, r') = (if rp_jitter_seconds policy > 0 then uniform (of_int (rp_jitter_seconds policy)) r else (0, r))
      in (td_seconds (of_int capped + jitter), r'))"

definition record_one ::
  "(rat \<Rightarrow> 'r \<Rightarrow> rat \<times> 'r) \<Rightarrow> outbox_retry_policy \<Rightarrow> datetime \<Rightarrow> outbox_publish_result
   \<Rightarrow> outbox_event \<Rightarrow> 'r \<Rightarrow> outbox_event \<times> 'r" where
  "record_one uniform policy now result row r =
     (let row = row\<lparr>oe_claimed_at := None, oe_claimed_by := None\<rparr> in
      if pres_published result
      then (row\<lparr>oe_status := OB_PUBLISHED,
                oe_published_at := Some (case pres_published_at result of None \<Rightarrow> now | Some t \<Rightarrow> t),
                oe_last_error := None, oe_next_attempt_at := None\<rparr>, r)
      else
        (let row = row\<lparr>oe_attempts := oe_attempts row + 1, oe_last_error := pres_error result\<rparr> in
         if rp_max_attempts policy \<le> oe_attempts row
         then (row\<lparr>oe_status := OB_DEAD_LETTER, oe_next_attempt_at := None\<rparr>, r)
         else case retry_delay uniform policy (oe_attempts row) r of
           (delay, r') \<Rightarrow>
             (row\<lparr>oe_status := OB_RETRYING, oe_next_attempt_at := Some (dt_plus now delay)\<rparr>, r')))"

text \<open>\<^verbatim>\<open>session.get\<close> by primary key: the row of that id.\<close>

fun record_in_table ::
  "(rat \<Rightarrow> 'r \<Rightarrow> rat \<times> 'r) \<Rightarrow> outbox_retry_policy \<Rightarrow> datetime \<Rightarrow> outbox_publish_result
   \<Rightarrow> outbox_event list \<Rightarrow> 'r \<Rightarrow> outbox_event list \<times> 'r" where
  "record_in_table uniform policy now result [] r = ([], r)"
| "record_in_table uniform policy now result (row # rows) r =
     (if oe_id row = pres_message_id result
      then (case record_one uniform policy now result row r of (row', r') \<Rightarrow> (row' # rows, r'))
      else (case record_in_table uniform policy now result rows r of (rows', r') \<Rightarrow> (row # rows', r')))"

fun record_results ::
  "(rat \<Rightarrow> 'r \<Rightarrow> rat \<times> 'r) \<Rightarrow> outbox_retry_policy \<Rightarrow> datetime \<Rightarrow> outbox_publish_result list
   \<Rightarrow> outbox_event list \<Rightarrow> 'r \<Rightarrow> outbox_event list \<times> 'r" where
  "record_results uniform policy now [] table r = (table, r)"
| "record_results uniform policy now (result # results) table r =
     (case record_in_table uniform policy now result table r of
        (table', r') \<Rightarrow> record_results uniform policy now results table' r')"

definition stale_publishing :: "tzdb \<Rightarrow> datetime \<Rightarrow> timedelta \<Rightarrow> outbox_event \<Rightarrow> bool" where
  "stale_publishing db now older_than row =
     (oe_status row = OB_PUBLISHING
      \<and> (case oe_claimed_at row of
           None \<Rightarrow> False | Some t \<Rightarrow> instant db t < instant db (dt_minus now older_than)))"

definition release_stale_publishing ::
  "tzdb \<Rightarrow> datetime \<Rightarrow> timedelta \<Rightarrow> outbox_event list \<Rightarrow> nat \<times> outbox_event list" where
  "release_stale_publishing db now older_than table =
     (length (filter (stale_publishing db now older_than) table),
      update_rows (stale_publishing db now older_than)
        (\<lambda>row. row\<lparr>oe_status := OB_RETRYING, oe_claimed_at := None, oe_claimed_by := None,
                   oe_next_attempt_at := Some now\<rparr>) table)"

definition retry_dead_letters :: "datetime \<Rightarrow> outbox_event list \<Rightarrow> nat \<times> outbox_event list" where
  "retry_dead_letters now table =
     (length (filter (\<lambda>row. oe_status row = OB_DEAD_LETTER) table),
      update_rows (\<lambda>row. oe_status row = OB_DEAD_LETTER)
        (\<lambda>row. row\<lparr>oe_status := OB_RETRYING, oe_next_attempt_at := Some now, oe_last_error := None,
                   oe_claimed_at := None, oe_claimed_by := None\<rparr>) table)"

section \<open>The publisher\<close>

text \<open>
  What \<^verbatim>\<open>publish\<close> returns: the return code (an absent attribute reads as zero), and the two
  methods where the object has them.
\<close>

record 'c publish_receipt =
  rt_rc :: "int option"
  rt_wait_for_publish :: "(int \<Rightarrow> ('c, unit) eff) option"
  rt_is_published :: "('c, bool) eff option"

type_synonym 'c mqtt_publish = "string \<Rightarrow> string \<Rightarrow> int \<Rightarrow> bool \<Rightarrow> ('c, 'c publish_receipt option) eff"

definition wait_for_publish_ack :: "'c publish_receipt option \<Rightarrow> int \<Rightarrow> ('c, unit) eff" where
  "wait_for_publish_ack receipt timeout_seconds =
     (case receipt of
        None \<Rightarrow> ret ()
      | Some rt \<Rightarrow>
          (if rt_rc rt \<notin> {Some 0, None}
           then raise (RuntimeError (''MQTT publish failed with return code '' @ show_int (the (rt_rc rt))))
           else
             bindE (case rt_wait_for_publish rt of None \<Rightarrow> ret () | Some wait \<Rightarrow> wait timeout_seconds) (\<lambda>_.
             case rt_is_published rt of
               None \<Rightarrow> ret ()
             | Some is_published \<Rightarrow>
                 bindE is_published (\<lambda>ok.
                 if \<not> ok then raise (RuntimeError ''MQTT publish was not acknowledged'') else ret ()))))"

text \<open>\<^verbatim>\<open>exc.__class__.__name__\<close>\<close>

fun exc_class_name :: "pyexc \<Rightarrow> string" where
  "exc_class_name (ValueError _) = ''ValueError''"
| "exc_class_name (ValidationError _) = ''ValidationError''"
| "exc_class_name UnicodeDecodeError = ''UnicodeDecodeError''"
| "exc_class_name (TypeError _) = ''TypeError''"
| "exc_class_name (KeyError _) = ''KeyError''"
| "exc_class_name (RuntimeError _) = ''RuntimeError''"
| "exc_class_name AssertionError = ''AssertionError''"
| "exc_class_name (OverflowError _) = ''OverflowError''"
| "exc_class_name TimeoutError = ''TimeoutError''"
| "exc_class_name (G301PlanningError _) = ''G301PlanningError''"
| "exc_class_name (G301TransportError _) = ''G301TransportError''"
| "exc_class_name (G301TransportTimeout _) = ''G301TransportTimeout''"
| "exc_class_name (G301ModbusException _ _) = ''G301ModbusException''"
| "exc_class_name (G301DeviceOffline _) = ''G301DeviceOffline''"
| "exc_class_name (G301ProtocolError _) = ''G301ProtocolError''"
| "exc_class_name (ClockMappingRequired _) = ''ClockMappingRequired''"
| "exc_class_name (OtherError n) = n"

record 'c mqtt_client =
  mq_publish :: "'c mqtt_publish"
  mq_dumps :: "payload \<Rightarrow> string"
  mq_now :: "'c \<Rightarrow> datetime \<times> 'c"
  mq_connected :: "'c \<Rightarrow> bool"

definition publish_one :: "'c mqtt_client \<Rightarrow> int \<Rightarrow> pending_outbox_message \<Rightarrow> ('c, outbox_publish_result) eff" where
  "publish_one client timeout_seconds m =
     bindE (attemptE
       (bindE (mq_publish client (pm_topic m) (mq_dumps client (pm_payload m)) (pm_qos m) (pm_retain m)) (\<lambda>receipt.
        bindE (wait_for_publish_ack receipt timeout_seconds) (\<lambda>_ c.
        case mq_now client c of (now, c') \<Rightarrow> (Inr now, c'))))) (\<lambda>outcome.
       ret (case outcome of
         Inr now \<Rightarrow> \<lparr>pres_message_id = pm_id m, pres_published = True, pres_published_at = Some now,
                        pres_error = None\<rparr>
       | Inl e \<Rightarrow> \<lparr>pres_message_id = pm_id m, pres_published = False, pres_published_at = None,
                      pres_error = Some (exc_class_name e)\<rparr>))"

fun publish_pending ::
  "'c mqtt_client \<Rightarrow> int \<Rightarrow> pending_outbox_message list \<Rightarrow> ('c, outbox_publish_result list) eff" where
  "publish_pending client timeout_seconds [] = ret []"
| "publish_pending client timeout_seconds (m # ms) =
     bindE (publish_one client timeout_seconds m) (\<lambda>r.
     bindE (publish_pending client timeout_seconds ms) (\<lambda>rs. ret (r # rs)))"

section \<open>The worker loop body\<close>

record outbox_settings =
  os_client_id :: string
  os_batch_size :: int
  os_max_attempts :: int
  os_stale_publish_seconds :: int
  os_publish_timeout_seconds :: int

record ('c, 'r) outbox_world =
  ow_table :: "outbox_event list"
  ow_client :: 'c
  ow_random :: 'r

definition reads_now :: "'c mqtt_client \<Rightarrow> ('c, 'r) outbox_world \<Rightarrow> datetime \<times> ('c, 'r) outbox_world" where
  "reads_now client wld = (case mq_now client (ow_client wld) of (now, c) \<Rightarrow> (now, wld\<lparr>ow_client := c\<rparr>))"

text \<open>\<^verbatim>\<open>run_outbox_once\<close> between its health and system state publications; no transaction of
  another process falls between its own.\<close>

definition run_outbox_once ::
  "tzdb \<Rightarrow> (rat \<Rightarrow> 'r \<Rightarrow> rat \<times> 'r) \<Rightarrow> 'c mqtt_client \<Rightarrow> outbox_settings \<Rightarrow> ('c, 'r) outbox_world
   \<Rightarrow> nat \<times> ('c, 'r) outbox_world" where
  "run_outbox_once db uniform client settings w0 =
     (let policy = default_retry_policy\<lparr>rp_max_attempts := os_max_attempts settings\<rparr>;
          (now0, w1) = reads_now client w0;
          w2 = w1\<lparr>ow_table := snd (release_stale_publishing db now0
                    (os_stale_publish_seconds settings * 1000000) (ow_table w1))\<rparr>
      in
      if \<not> mq_connected client (ow_client w2) then (0, w2)
      else
        (let (now1, w3) = reads_now client w2;
             (messages, table) = claim_pending db (\<lambda>_. False) (os_client_id settings) now1
                                   (os_batch_size settings) (ow_table w3)
         in case publish_pending client (os_publish_timeout_seconds settings) messages (ow_client w3) of
              (Inl _, c) \<Rightarrow> (0, w3\<lparr>ow_table := table, ow_client := c\<rparr>)
            | (Inr results, c) \<Rightarrow>
                (let (now2, w4) = reads_now client (w3\<lparr>ow_table := table, ow_client := c\<rparr>);
                     (table', r) = record_results uniform policy now2 results (ow_table w4) (ow_random w4)
                 in (length messages, w4\<lparr>ow_table := table', ow_random := r\<rparr>))))"

end
