(* ===== verification/Outbox_Properties.thy ===== *)
theory Outbox_Properties
  imports Outbox "HOL-Library.Multiset"
begin

text \<open>
  The properties of the outbox: the lifecycle invariant under any interleaving of the store's
  transactions, that a message's content is never touched, the order and exclusiveness of
  claims, the retry delays, what one run of the worker loop leaves behind, and two orders of
  events in which a retained topic ends with an old message or is sent twice.
\<close>

section \<open>The lifecycle of a row\<close>

definition row_ok :: "outbox_retry_policy \<Rightarrow> outbox_event \<Rightarrow> bool" where
  "row_ok policy row \<longleftrightarrow>
     0 \<le> oe_attempts row
     \<and> (oe_status row = OB_PUBLISHING \<longleftrightarrow> oe_claimed_at row \<noteq> None)
     \<and> (oe_claimed_at row = None \<longleftrightarrow> oe_claimed_by row = None)
     \<and> (oe_status row = OB_PENDING \<longrightarrow> oe_attempts row = 0 \<and> oe_next_attempt_at row = Some (oe_created_at row))
     \<and> (oe_status row = OB_RETRYING \<longrightarrow> oe_next_attempt_at row \<noteq> None)
     \<and> (oe_status row = OB_PUBLISHED \<longrightarrow>
          oe_published_at row \<noteq> None \<and> oe_last_error row = None \<and> oe_next_attempt_at row = None)
     \<and> (oe_status row = OB_DEAD_LETTER \<longrightarrow>
          rp_max_attempts policy \<le> oe_attempts row \<and> oe_next_attempt_at row = None)"

definition table_ok :: "outbox_retry_policy \<Rightarrow> outbox_event list \<Rightarrow> bool" where
  "table_ok policy table \<longleftrightarrow> distinct (map oe_id table) \<and> (\<forall>row \<in> set table. row_ok policy row)"

text \<open>What a row says, as opposed to where it is in its lifecycle.\<close>

definition content :: "outbox_event \<Rightarrow> uuid \<times> string \<times> payload \<times> int \<times> bool \<times> datetime \<times> uuid" where
  "content row =
     (oe_id row, oe_topic row, oe_payload row, oe_qos row, oe_retain row, oe_created_at row, oe_correlation_id row)"

lemma content_id: "map content t' = map content t \<Longrightarrow> map oe_id t' = map oe_id t"
proof -
  assume "map content t' = map content t"
  then have "map fst (map content t') = map fst (map content t)" by simp
  then show ?thesis by (simp add: content_def comp_def)
qed

text \<open>The transactions of the store, by any worker at any time, and a row as the synchronisation and the
control service add it.\<close>

inductive outbox_step ::
  "tzdb \<Rightarrow> (rat \<Rightarrow> 'r \<Rightarrow> rat \<times> 'r) \<Rightarrow> outbox_retry_policy \<Rightarrow> outbox_event list \<Rightarrow> outbox_event list \<Rightarrow> bool"
  for db uniform policy where
  enqueued: "i \<notin> oe_id ` set table \<Longrightarrow>
     outbox_step db uniform policy table (table @ [new_outbox_event i topic payload created correlation])"
| claimed: "outbox_step db uniform policy table (snd (claim_pending db locked worker now limit table))"
| recorded: "outbox_step db uniform policy table (fst (record_results uniform policy now results table r))"
| released: "outbox_step db uniform policy table (snd (release_stale_publishing db now older_than table))"
| retried: "outbox_step db uniform policy table (snd (retry_dead_letters now table))"

inductive_cases outbox_stepE: "outbox_step db uniform policy table table'"

lemma update_rows_content:
  "(\<And>row. content (f row) = content row) \<Longrightarrow> map content (update_rows p f table) = map content table"
  by (simp add: update_rows_def)

lemma update_rows_ok:
  assumes "\<And>row. content (f row) = content row"
    and "\<And>row. row \<in> set table \<Longrightarrow> p row \<Longrightarrow> row_ok policy row \<Longrightarrow> row_ok policy (f row)"
    and "table_ok policy table"
  shows "table_ok policy (update_rows p f table)"
proof -
  have "map oe_id (update_rows p f table) = map oe_id table"
    by (rule content_id [OF update_rows_content [OF assms(1)]])
  then have "distinct (map oe_id (update_rows p f table))" using assms(3) by (simp add: table_ok_def)
  moreover have "\<forall>row \<in> set (update_rows p f table). row_ok policy row"
    using assms(2,3) by (auto simp: table_ok_def update_rows_def)
  ultimately show ?thesis by (simp add: table_ok_def)
qed

lemma record_one_content: "content (fst (record_one uniform policy now result row r)) = content row"
  by (simp add: record_one_def content_def Let_def split: prod.split)

lemma record_one_ok:
  "row_ok policy row \<Longrightarrow> row_ok policy (fst (record_one uniform policy now result row r))"
  by (auto simp: record_one_def row_ok_def Let_def split: prod.split)

text \<open>A row whose result has been recorded is out of the publishing state.\<close>

definition settled :: "outbox_event \<Rightarrow> bool" where
  "settled row \<longleftrightarrow> oe_status row \<in> {OB_PUBLISHED, OB_RETRYING, OB_DEAD_LETTER} \<and> oe_claimed_by row = None"

lemma record_one_settled: "settled (fst (record_one uniform policy now result row r))"
  by (simp add: record_one_def settled_def Let_def split: prod.split)

lemma record_in_table_content:
  "map content (fst (record_in_table uniform policy now result table r)) = map content table"
proof (induction table)
  case Nil
  then show ?case by simp
next
  case (Cons row rows)
  show ?case
    using Cons record_one_content [of uniform policy now result row r]
    by (cases "record_one uniform policy now result row r";
        cases "record_in_table uniform policy now result rows r") simp
qed

lemma record_in_table_rows:
  assumes "row' \<in> set (fst (record_in_table uniform policy now result table r))" and "distinct (map oe_id table)"
  shows "if oe_id row' = pres_message_id result
     then \<exists>row \<in> set table. row' = fst (record_one uniform policy now result row r)
     else row' \<in> set table"
  using assms
proof (induction table)
  case Nil
  then show ?case by simp
next
  case (Cons row rows)
  obtain row1 r1 where one: "record_one uniform policy now result row r = (row1, r1)" by fastforce
  obtain rows1 r2 where rest: "record_in_table uniform policy now result rows r = (rows1, r2)" by fastforce
  have id1: "oe_id row1 = oe_id row"
    using record_one_content [of uniform policy now result row r] by (simp add: one content_def)
  show ?case
  proof (cases "oe_id row = pres_message_id result")
    case True
    have "row' = row1 \<or> row' \<in> set rows" using Cons.prems(1) True one by simp
    then show ?thesis
    proof
      assume "row' = row1"
      then show ?thesis using True one id1 by simp
    next
      assume r: "row' \<in> set rows"
      then have "oe_id row' \<noteq> oe_id row" using Cons.prems(2) by (auto simp: image_iff)
      with r True show ?thesis by simp
    qed
  next
    case False
    with Cons.prems rest have "row' = row \<or> row' \<in> set rows1" by simp
    with False Cons rest show ?thesis by (auto split: if_splits)
  qed
qed

lemma record_in_table_ok:
  assumes "table_ok policy table"
  shows "table_ok policy (fst (record_in_table uniform policy now result table r))"
  using content_id [OF record_in_table_content] record_in_table_rows assms record_one_ok
  unfolding table_ok_def by (metis (no_types, lifting))

lemma record_results_content:
  "map content (fst (record_results uniform policy now results table r)) = map content table"
proof (induction results arbitrary: table r)
  case (Cons result results)
  then show ?case
    using record_in_table_content [of uniform policy now result table r]
    by (cases "record_in_table uniform policy now result table r") simp
qed simp

lemma record_results_ok:
  "table_ok policy table \<Longrightarrow> table_ok policy (fst (record_results uniform policy now results table r))"
proof (induction results arbitrary: table r)
  case (Cons result results)
  then show ?case
    using record_in_table_ok [of policy table uniform now result r]
    by (cases "record_in_table uniform policy now result table r") simp
qed simp

lemma claim_table:
  "snd (claim_pending db locked worker now limit table) =
     update_rows (\<lambda>row. oe_id row \<in> oe_id ` set (claim_rows db locked now limit table))
       (\<lambda>row. row\<lparr>oe_status := OB_PUBLISHING, oe_claimed_at := Some now, oe_claimed_by := Some worker\<rparr>) table"
  by (simp add: claim_pending_def Let_def)

lemma claim_rows_set:
  "row \<in> set (claim_rows db locked now limit table) \<Longrightarrow>
   row \<in> set table \<and> claimable db now row \<and> \<not> locked (oe_id row)"
  by (auto simp: claim_rows_def dest: in_set_takeD)

lemma step_content:
  "outbox_step db uniform policy table table' \<Longrightarrow> \<exists>new. map content table' = map content table @ new"
  by (erule outbox_stepE)
    (auto simp: claim_table release_stale_publishing_def retry_dead_letters_def record_results_content
      intro!: exI [of _ "[]"] update_rows_content, simp_all add: content_def)

lemma step_ok:
  assumes "outbox_step db uniform policy table table'" and "table_ok policy table"
  shows "table_ok policy table'"
  using assms(1)
proof cases
  case (enqueued i topic payload created correlation)
  with assms(2) show ?thesis by (auto simp: table_ok_def row_ok_def new_outbox_event_def)
next
  case (claimed locked worker now limit)
  show ?thesis
    unfolding claimed claim_table
    by (rule update_rows_ok [OF _ _ assms(2)]) (auto simp: content_def row_ok_def)
next
  case (recorded now results r)
  with assms(2) show ?thesis by (simp add: record_results_ok)
next
  case (released now older_than)
  show ?thesis
    unfolding released release_stale_publishing_def snd_conv
    by (rule update_rows_ok [OF _ _ assms(2)]) (auto simp: content_def row_ok_def)
next
  case (retried now)
  show ?thesis
    unfolding retried retry_dead_letters_def snd_conv
    by (rule update_rows_ok [OF _ _ assms(2)]) (auto simp: content_def row_ok_def)
qed

text \<open>C33. The outbox under any interleaving: whatever transactions of whichever workers run in
  whatever order, starting from an empty table to which rows are added under unused ids, rows are
  never lost, reordered or given other content, ids stay unique, and every row is in a consistent
  state of its lifecycle: not tried and due since its creation while pending, claimed exactly while
  publishing, with a due time while retrying, with a publication time and no error once published,
  with its attempts used up as a dead letter.\<close>

theorem outbox_lifecycle:
  assumes "(outbox_step db uniform policy)\<^sup>*\<^sup>* [] table" and "(outbox_step db uniform policy)\<^sup>*\<^sup>* table table'"
  shows "table_ok policy table' \<and> (\<exists>new. map content table' = map content table @ new)"
proof -
  have ok: "table_ok policy t' " if "(outbox_step db uniform policy)\<^sup>*\<^sup>* t t'" "table_ok policy t" for t t'
    using that by (induction rule: rtranclp_induct) (auto intro: step_ok)
  have "table_ok policy []" by (simp add: table_ok_def)
  then have "table_ok policy table'" using assms ok by blast
  moreover have "\<exists>new. map content table' = map content table @ new"
    using assms(2)
  proof (induction rule: rtranclp_induct)
    case base
    show ?case by simp
  next
    case (step t t')
    then show ?case using step_content by (metis append.assoc)
  qed
  ultimately show ?thesis ..
qed

text \<open>A zone-independent message row and a random generator for the closed examples.\<close>

definition sample_row :: "nat \<Rightarrow> string \<Rightarrow> outbox_event" where
  "sample_row n state =
     new_outbox_event (UUID n) ''clock/rooms/101/desired'' [(''state'', JStr state)] (utc_at (int n)) (UUID 0)"

definition zero_jitter :: "rat \<Rightarrow> unit \<Rightarrow> rat \<times> unit" where
  "zero_jitter b r = (0, r)"

theorem outbox_lifecycle_witness:
  "list_all (row_ok default_retry_policy)
     (snd (claim_pending (fixed_tzdb 0) (\<lambda>_. False) ''w'' (utc_at 9) 5 [sample_row 1 ''on'']))"
proof -
  let ?step = "outbox_step (fixed_tzdb 0) zero_jitter default_retry_policy"
  have 1: "?step [] [sample_row 1 ''on'']"
    using enqueued [of "UUID 1" "[]" "fixed_tzdb 0" zero_jitter default_retry_policy] by (simp add: sample_row_def)
  then have r1: "?step\<^sup>*\<^sup>* [] [sample_row 1 ''on'']" by blast
  have r2: "?step\<^sup>*\<^sup>* [sample_row 1 ''on'']
      (snd (claim_pending (fixed_tzdb 0) (\<lambda>_. False) ''w'' (utc_at 9) 5 [sample_row 1 ''on'']))"
    by (rule r_into_rtranclp) (rule claimed)
  from outbox_lifecycle [OF r1 r2] show ?thesis by (auto simp: table_ok_def list_all_iff)
qed

section \<open>Claims\<close>

definition claim_key :: "tzdb \<Rightarrow> outbox_event \<Rightarrow> int \<times> uuid" where
  "claim_key db row = (instant db (oe_created_at row), oe_id row)"

lemma claim_rows_eq:
  "claim_rows db locked now limit table =
     take (nat limit) (filter (\<lambda>row. \<not> locked (oe_id row))
       (sort_key (claim_key db) (filter (claimable db now) table)))"
  unfolding claim_rows_def claim_key_def ..

text \<open>A claim takes the oldest due rows: pending or retrying rows whose time has come and that
  no other transaction holds, in the order of creation (ties by id), never more than the
  limit; a due row is left behind only when the limit is reached, and then every claimed row
  comes before it. The messages handed out are those rows, each once.\<close>

theorem claim_takes_oldest:
  assumes "table_ok policy table" and "claim_pending db locked worker now limit table = (messages, table')"
  shows "\<exists>rows. messages = map message_of rows \<and> length rows \<le> nat limit
    \<and> distinct (map oe_id rows) \<and> sorted (map (claim_key db) rows)
    \<and> (\<forall>row \<in> set rows. row \<in> set table \<and> claimable db now row \<and> \<not> locked (oe_id row))
    \<and> (\<forall>row \<in> set table. claimable db now row \<and> \<not> locked (oe_id row) \<and> row \<notin> set rows \<longrightarrow>
         length rows = nat limit \<and> (\<forall>row' \<in> set rows. claim_key db row' \<le> claim_key db row))"
proof -
  let ?rows = "claim_rows db locked now limit table"
  let ?all = "filter (\<lambda>row. \<not> locked (oe_id row)) (sort_key (claim_key db) (filter (claimable db now) table))"
  have rows: "?rows = take (nat limit) ?all" by (rule claim_rows_eq)
  have srt: "sorted (map (claim_key db) ?all)"
    by (simp add: sorted_filter)
  have "mset (map oe_id (sort_key (claim_key db) (filter (claimable db now) table)))
      = mset (map oe_id (filter (claimable db now) table))"
    by (simp only: mset_map mset_sort)
  then have "distinct (map oe_id (sort_key (claim_key db) (filter (claimable db now) table)))"
    using assms(1) unfolding table_ok_def by (metis distinct_map_filter mset_eq_imp_distinct_iff)
  then have dist: "distinct (map oe_id ?all)" by (rule distinct_map_filter)
  have "messages = map message_of ?rows" using assms(2) by (simp add: claim_pending_def Let_def)
  moreover have "length ?rows \<le> nat limit" by (simp add: rows)
  moreover have "distinct (map oe_id ?rows)" using dist by (simp add: rows take_map [symmetric])
  moreover have "sorted (map (claim_key db) ?rows)"
    using srt by (simp only: rows take_map [symmetric] sorted_wrt_take)
  moreover have "length ?rows = nat limit \<and> (\<forall>row' \<in> set ?rows. claim_key db row' \<le> claim_key db row)"
    if "row \<in> set table" "claimable db now row" "\<not> locked (oe_id row)" "row \<notin> set ?rows" for row
  proof -
    have "row \<in> set ?all" using that by simp
    then obtain j where j: "j < length ?all" "?all ! j = row" by (meson in_set_conv_nth)
    have "nat limit \<le> j"
    proof (rule ccontr)
      assume "\<not> nat limit \<le> j"
      then have "row \<in> set ?rows" using j unfolding rows by (auto simp: in_set_conv_nth)
      with that show False by blast
    qed
    have "claim_key db row' \<le> claim_key db row" if "row' \<in> set ?rows" for row'
    proof -
      from that obtain k where "k < nat limit" "k < length ?all" "?all ! k = row'"
        unfolding rows by (auto simp: in_set_conv_nth)
      with j \<open>nat limit \<le> j\<close> sorted_nth_mono [OF srt, of k j] show ?thesis by auto
    qed
    moreover have "length ?rows = nat limit" using j \<open>nat limit \<le> j\<close> by (simp add: rows)
    ultimately show ?thesis by blast
  qed
  ultimately show ?thesis using claim_rows_set by blast
qed

theorem claim_takes_oldest_witness:
  "\<exists>rows. fst (claim_pending (fixed_tzdb 0) (\<lambda>_. False) ''w'' (utc_at 9) 1 [sample_row 2 ''off'', sample_row 1 ''on''])
     = map message_of rows \<and> length rows \<le> 1"
proof -
  have "table_ok default_retry_policy [sample_row 2 ''off'', sample_row 1 ''on'']"
    by (simp add: table_ok_def row_ok_def sample_row_def new_outbox_event_def)
  from claim_takes_oldest [OF this surjective_pairing] show ?thesis by fastforce
qed

text \<open>Two workers never hold the same message: after a claim, another claim, by any worker at any
  time and with any rows locked, hands out none of the same messages, until the row is
  released or its result is recorded.\<close>

theorem claims_disjoint:
  assumes "claim_pending db locked worker now limit table = (messages, table1)"
    and "claim_pending db locked2 worker2 now2 limit2 table1 = (messages2, table2)"
  shows "pm_id ` set messages \<inter> pm_id ` set messages2 = {}"
proof -
  let ?ids = "oe_id ` set (claim_rows db locked now limit table)"
  have ids: "pm_id ` set messages = ?ids"
    using assms(1) by (auto simp: claim_pending_def Let_def message_of_def image_image)
  have table1: "table1 = update_rows (\<lambda>row. oe_id row \<in> ?ids)
       (\<lambda>row. row\<lparr>oe_status := OB_PUBLISHING, oe_claimed_at := Some now, oe_claimed_by := Some worker\<rparr>) table"
    using claim_table [of db locked worker now limit table] assms(1) by simp
  have "pm_id ` set messages2 = oe_id ` set (claim_rows db locked2 now2 limit2 table1)"
    using assms(2) by (auto simp: claim_pending_def Let_def message_of_def image_image)
  moreover have "oe_id row \<notin> ?ids" if "row \<in> set (claim_rows db locked2 now2 limit2 table1)" for row
  proof -
    from claim_rows_set [OF that] have "row \<in> set table1" "claimable db now2 row" by auto
    then show ?thesis unfolding table1 update_rows_def by (auto simp: claimable_def split: if_splits)
  qed
  ultimately show ?thesis unfolding ids by (metis disjoint_iff imageE)
qed

theorem claims_disjoint_witness:
  "pm_id ` set (fst (claim_pending (fixed_tzdb 0) (\<lambda>_. False) ''w'' (utc_at 9) 1 [sample_row 1 ''on'']))
   \<inter> pm_id ` set (fst (claim_pending (fixed_tzdb 0) (\<lambda>_. False) ''v'' (utc_at 9) 1
       (snd (claim_pending (fixed_tzdb 0) (\<lambda>_. False) ''w'' (utc_at 9) 1 [sample_row 1 ''on''])))) = {}"
  by (rule claims_disjoint [OF surjective_pairing surjective_pairing])

section \<open>Recording results\<close>

definition uniform_ok :: "(rat \<Rightarrow> 'r \<Rightarrow> rat \<times> 'r) \<Rightarrow> bool" where
  "uniform_ok uniform \<longleftrightarrow> (\<forall>b r. 0 \<le> b \<longrightarrow> 0 \<le> fst (uniform b r) \<and> fst (uniform b r) \<le> b)"

lemma zero_jitter_ok: "uniform_ok zero_jitter"
  by (simp add: uniform_ok_def zero_jitter_def)

lemma retry_delay_bounds:
  assumes "uniform_ok uniform" and "0 \<le> n" and "0 \<le> rp_jitter_seconds policy"
    and "retry_delay uniform policy (n + 1) r = (delay, r')"
  shows "min (rp_base_delay_seconds policy * 2 ^ nat n) (rp_max_delay_seconds policy) * 1000000 \<le> delay
    \<and> delay \<le> (min (rp_base_delay_seconds policy * 2 ^ nat n) (rp_max_delay_seconds policy)
               + rp_jitter_seconds policy) * 1000000"
proof -
  let ?c = "min (rp_base_delay_seconds policy * 2 ^ nat n) (rp_max_delay_seconds policy)"
  let ?j = "rp_jitter_seconds policy"
  obtain x where x: "delay = td_seconds (of_int ?c + x)" "0 \<le> x" "x \<le> of_int ?j"
  proof (cases "0 < ?j")
    case True
    obtain x r1 where u: "uniform (of_int ?j) r = (x, r1)" by fastforce
    have "0 \<le> x" "x \<le> of_int ?j"
      using assms(1) u True unfolding uniform_ok_def by (metis fst_conv of_int_0_le_iff order_less_imp_le)+
    moreover have "delay = td_seconds (of_int ?c + x)"
      using assms(2,4) True u by (simp add: retry_delay_def)
    ultimately show thesis using that by blast
  next
    case False
    then show thesis using that [of 0] assms(2-4) by (simp add: retry_delay_def)
  qed
  have "td_seconds (of_int ?c) \<le> delay"
    unfolding x(1) by (rule td_seconds_mono) (use x(2) in simp)
  moreover have "delay \<le> td_seconds (of_int (?c + ?j))"
    unfolding x(1) by (rule td_seconds_mono) (use x(3) in simp)
  ultimately show ?thesis by (simp only: td_seconds_of_int)
qed

text \<open>A failed publication: the attempt is counted and the error kept. At the last attempt of the
  policy the row becomes a dead letter; before it, the row is due again after the doubled
  base delay, capped at the maximum, plus at most the jitter. A dead letter that an operator
  retries keeps its count, so its next failure makes it a dead letter at once.\<close>

theorem failed_publication:
  assumes "uniform_ok uniform" and "0 \<le> oe_attempts row" and "0 \<le> rp_jitter_seconds policy"
    and "\<not> pres_published result" and "record_one uniform policy now result row r = (row', r')"
  shows "oe_attempts row' = oe_attempts row + 1 \<and> oe_last_error row' = pres_error result
    \<and> oe_claimed_by row' = None
    \<and> (if rp_max_attempts policy \<le> oe_attempts row + 1
       then oe_status row' = OB_DEAD_LETTER \<and> oe_next_attempt_at row' = None
       else oe_status row' = OB_RETRYING
         \<and> (\<exists>delay. oe_next_attempt_at row' = Some (dt_plus now delay)
              \<and> min (rp_base_delay_seconds policy * 2 ^ nat (oe_attempts row)) (rp_max_delay_seconds policy) * 1000000 \<le> delay
              \<and> delay \<le> (min (rp_base_delay_seconds policy * 2 ^ nat (oe_attempts row)) (rp_max_delay_seconds policy)
                         + rp_jitter_seconds policy) * 1000000))"
proof (cases "rp_max_attempts policy \<le> oe_attempts row + 1")
  case True
  with assms(4,5) show ?thesis by (auto simp: record_one_def)
next
  case False
  obtain delay r1 where d: "retry_delay uniform policy (oe_attempts row + 1) r = (delay, r1)" by fastforce
  from retry_delay_bounds [OF assms(1,2,3) d] False assms(4,5) show ?thesis
    by (auto simp: record_one_def d)
qed

theorem failed_publication_witness:
  "oe_status (fst (record_one zero_jitter default_retry_policy (utc_at 9)
      \<lparr>pres_message_id = UUID 1, pres_published = False, pres_published_at = None, pres_error = Some ''RuntimeError''\<rparr>
      (sample_row 1 ''on'') ())) = OB_RETRYING"
  using failed_publication [OF zero_jitter_ok _ _ _ surjective_pairing, of "sample_row 1 ''on''" default_retry_policy
      "\<lparr>pres_message_id = UUID 1, pres_published = False, pres_published_at = None, pres_error = Some ''RuntimeError''\<rparr>"
      "utc_at 9" "()"]
  by (simp add: sample_row_def new_outbox_event_def default_retry_policy_def)

section \<open>One run of the worker loop\<close>

lemma publish_one_result:
  "publish_one client t m c = (r, c') \<Longrightarrow> \<exists>x. r = Inr x \<and> pres_message_id x = pm_id m"
  by (auto simp: publish_one_def bindE_attemptE split: prod.splits sum.splits)

lemma publish_pending_results:
  "\<exists>results c'. publish_pending client t ms c = (Inr results, c') \<and> map pres_message_id results = map pm_id ms"
proof (induction ms arbitrary: c)
  case Nil
  show ?case by simp
next
  case (Cons m ms)
  obtain r c1 where one: "publish_one client t m c = (r, c1)" by fastforce
  from publish_one_result [OF one] obtain x where x: "r = Inr x" "pres_message_id x = pm_id m" by blast
  obtain rs c2 where rest: "publish_pending client t ms c1 = (Inr rs, c2)"
    "map pres_message_id rs = map pm_id ms" using Cons.IH by blast
  show ?case using one x rest by (simp add: bindE_def)
qed

lemma record_results_rows:
  assumes "distinct (map oe_id table)" and "row' \<in> set (fst (record_results uniform policy now results table r))"
  shows "if oe_id row' \<in> pres_message_id ` set results then settled row' else row' \<in> set table"
  using assms
proof (induction results arbitrary: table r)
  case Nil
  then show ?case by simp
next
  case (Cons result results)
  obtain t1 r1 where t1: "record_in_table uniform policy now result table r = (t1, r1)" by fastforce
  have ids: "map oe_id t1 = map oe_id table"
    using content_id [OF record_in_table_content [of uniform policy now result table r]] t1 by simp
  have rec: "if oe_id row' \<in> pres_message_id ` set results then settled row' else row' \<in> set t1"
    using Cons.IH [of t1 r1] Cons.prems ids t1 by simp
  show ?case
  proof (cases "oe_id row' \<in> pres_message_id ` set results")
    case True
    with rec show ?thesis by simp
  next
    case False
    with rec have "row' \<in> set t1" by simp
    with record_in_table_rows [of row' uniform policy now result table r] Cons.prems(1) t1 False
      record_one_settled
    show ?thesis by (auto split: if_splits)
  qed
qed

lemma update_rows_in: "row' \<in> set (update_rows p f table) \<Longrightarrow>
    (\<exists>row \<in> set table. p row \<and> row' = f row) \<or> (row' \<in> set table \<and> \<not> p row')"
  by (auto simp: update_rows_def split: if_splits)

lemma message_ids: "map pm_id (map message_of rows) = map oe_id rows"
  by (simp add: message_of_def)

text \<open>C12. A run of the outbox worker leaves nothing claimed: however the client behaves, with any
  pattern of failed publishes, return codes, missing acknowledgements and exceptions, every
  row it claimed ends published, retrying or dead, the table keeps its rows and the lifecycle
  invariant that every table reached from the empty one has, and a row still publishing
  afterwards was publishing in the same way before.\<close>

theorem run_leaves_nothing_claimed:
  assumes "table_ok (default_retry_policy\<lparr>rp_max_attempts := os_max_attempts settings\<rparr>) (ow_table w)"
    and "run_outbox_once db uniform client settings w = (n, w')"
  shows "table_ok (default_retry_policy\<lparr>rp_max_attempts := os_max_attempts settings\<rparr>) (ow_table w')
    \<and> map content (ow_table w') = map content (ow_table w)
    \<and> (\<forall>row \<in> set (ow_table w'). oe_status row = OB_PUBLISHING \<longrightarrow> row \<in> set (ow_table w))"
proof -
  let ?policy = "default_retry_policy\<lparr>rp_max_attempts := os_max_attempts settings\<rparr>"
  let ?step = "outbox_step db uniform ?policy"
  obtain now0 w1 where w1: "reads_now client w = (now0, w1)" by fastforce
  have tab1: "ow_table w1 = ow_table w" using w1 by (auto simp: reads_now_def split: prod.splits)
  let ?t2 = "snd (release_stale_publishing db now0 (os_stale_publish_seconds settings * 1000000) (ow_table w))"
  let ?w2 = "w1\<lparr>ow_table := ?t2\<rparr>"
  have ok2: "table_ok ?policy ?t2" by (rule step_ok [OF released assms(1)])
  have content2: "map content ?t2 = map content (ow_table w)"
    unfolding release_stale_publishing_def snd_conv by (rule update_rows_content) (simp add: content_def)
  have publishing2: "row \<in> set (ow_table w)" if "row \<in> set ?t2" "oe_status row = OB_PUBLISHING" for row
    using that update_rows_in unfolding release_stale_publishing_def by fastforce
  show ?thesis
  proof (cases "mq_connected client (ow_client ?w2)")
    case False
    then have "w' = ?w2" using assms(2) by (simp add: run_outbox_once_def w1 tab1 Let_def)
    with ok2 content2 publishing2 show ?thesis by simp
  next
    case True
    obtain now1 w3 where w3: "reads_now client ?w2 = (now1, w3)" by fastforce
    have tab3: "ow_table w3 = ?t2" using w3 by (auto simp: reads_now_def split: prod.splits)
    let ?rows = "claim_rows db (\<lambda>_. False) now1 (os_batch_size settings) ?t2"
    obtain ms t4 where claim: "claim_pending db (\<lambda>_. False) (os_client_id settings) now1 (os_batch_size settings) ?t2 = (ms, t4)"
      by fastforce
    have ms: "ms = map message_of ?rows" using claim by (simp add: claim_pending_def Let_def)
    have t4: "t4 = update_rows (\<lambda>row. oe_id row \<in> oe_id ` set ?rows)
        (\<lambda>row. row\<lparr>oe_status := OB_PUBLISHING, oe_claimed_at := Some now1, oe_claimed_by := Some (os_client_id settings)\<rparr>) ?t2"
      using claim_table [of db "\<lambda>_. False" "os_client_id settings" now1 "os_batch_size settings" ?t2] claim by simp
    have ok4: "table_ok ?policy t4"
      using step_ok [OF claimed ok2] claim by (metis snd_conv)
    have content4: "map content t4 = map content ?t2"
      unfolding t4 by (rule update_rows_content) (simp add: content_def)
    obtain results c where pub: "publish_pending client (os_publish_timeout_seconds settings) ms (ow_client w3) = (Inr results, c)"
      "map pres_message_id results = map pm_id ms"
      using publish_pending_results [of client "os_publish_timeout_seconds settings" ms "ow_client w3"] by blast
    obtain now2 w4 where w4: "reads_now client (w3\<lparr>ow_table := t4, ow_client := c\<rparr>) = (now2, w4)" by fastforce
    have tab4: "ow_table w4 = t4" using w4 by (auto simp: reads_now_def split: prod.splits)
    obtain t5 r5 where rec: "record_results uniform ?policy now2 results t4 (ow_random w4) = (t5, r5)" by fastforce
    have w': "ow_table w' = t5"
      using assms(2) True by (auto simp: run_outbox_once_def w1 tab1 w3 tab3 claim pub(1) w4 tab4 rec Let_def)
    have "table_ok ?policy t5"
      using record_results_ok [OF ok4, of uniform now2 results "ow_random w4"] rec by simp
    moreover have "map content t5 = map content t4"
      using record_results_content [of uniform ?policy now2 results t4 "ow_random w4"] rec by simp
    moreover have "row \<in> set (ow_table w)" if "row \<in> set t5" "oe_status row = OB_PUBLISHING" for row
    proof -
      have ids: "pres_message_id ` set results = oe_id ` set ?rows"
        using pub(2) unfolding ms message_ids by (metis list.set_map)
      have "\<not> settled row" using that(2) by (simp add: settled_def)
      then have "oe_id row \<notin> oe_id ` set ?rows" and "row \<in> set t4"
        using record_results_rows [of t4 row uniform ?policy now2 results "ow_random w4"] that(1) rec ok4 ids
        by (auto simp: table_ok_def split: if_splits)
      then have "row \<in> set ?t2" unfolding t4 by (auto dest: update_rows_in)
      with that(2) publishing2 show ?thesis by blast
    qed
    ultimately show ?thesis using content2 content4 w' by simp
  qed
qed

text \<open>A broker connection for the closed examples: it refuses the first publishes and keeps a log
  of the topics and states it was given.\<close>

record sample_broker =
  sb_refusals :: nat
  sb_now :: int
  sb_log :: "(string \<times> string) list"

definition broker_publish :: "sample_broker mqtt_publish" where
  "broker_publish topic text qos retain c =
     (if sb_refusals c = 0 then (Inr None, c\<lparr>sb_log := sb_log c @ [(topic, text)]\<rparr>)
      else (Inl (OtherError ''ConnectionError''), c\<lparr>sb_refusals := sb_refusals c - 1\<rparr>))"

definition sample_client :: "sample_broker mqtt_client" where
  "sample_client =
     \<lparr>mq_publish = broker_publish,
      mq_dumps = (\<lambda>d. case d of (_, JStr s) # _ \<Rightarrow> s | _ \<Rightarrow> []),
      mq_now = (\<lambda>c. (utc_at (sb_now c), c)), mq_connected = (\<lambda>c. True)\<rparr>"

definition sample_settings :: outbox_settings where
  "sample_settings =
     \<lparr>os_client_id = ''w'', os_batch_size = 25, os_max_attempts = 8, os_stale_publish_seconds = 30,
      os_publish_timeout_seconds = 10\<rparr>"

definition sample_world :: "nat \<Rightarrow> outbox_event list \<Rightarrow> (sample_broker, unit) outbox_world" where
  "sample_world refusals table =
     \<lparr>ow_table = table, ow_client = \<lparr>sb_refusals = refusals, sb_now = 9, sb_log = []\<rparr>, ow_random = ()\<rparr>"

lemmas outbox_samples =
  sample_client_def sample_settings_def sample_world_def sample_row_def new_outbox_event_def broker_publish_def
  default_retry_policy_def zero_jitter_def

theorem run_leaves_nothing_claimed_witness:
  "list_all (\<lambda>row. oe_status row \<noteq> OB_PUBLISHING)
     (ow_table (snd (run_outbox_once (fixed_tzdb 0) zero_jitter sample_client sample_settings
       (sample_world 1 [sample_row 1 ''old'', sample_row 2 ''new'']))))"
proof -
  let ?w = "sample_world 1 [sample_row 1 ''old'', sample_row 2 ''new'']"
  have "table_ok (default_retry_policy\<lparr>rp_max_attempts := os_max_attempts sample_settings\<rparr>) (ow_table ?w)"
    by (simp add: table_ok_def row_ok_def outbox_samples)
  from run_leaves_nothing_claimed [OF this surjective_pairing, of "fixed_tzdb 0" zero_jitter sample_client]
  have "\<forall>row \<in> set (ow_table (snd (run_outbox_once (fixed_tzdb 0) zero_jitter sample_client sample_settings ?w))).
     oe_status row = OB_PUBLISHING \<longrightarrow> row \<in> {sample_row 1 ''old'', sample_row 2 ''new''}"
    by (simp add: sample_world_def)
  then show ?thesis by (auto simp: list_all_iff sample_row_def new_outbox_event_def)
qed

section \<open>Orders of events the outbox does not prevent\<close>

text \<open>A retried row overtakes a newer one of the same retained topic. Two desired states of one
  room wait; the first publish is refused once, the second is acknowledged; five seconds and
  the jitter later the first is published, after the second: the retained message of the
  topic, which subscribers that connect later receive, is the older state.\<close>

theorem retry_overtakes_newer_message:
  "let w1 = snd (run_outbox_once (fixed_tzdb 0) zero_jitter sample_client sample_settings
              (sample_world 1 [sample_row 1 ''old'', sample_row 2 ''new'']));
       w2 = snd (run_outbox_once (fixed_tzdb 0) zero_jitter sample_client sample_settings
              (w1\<lparr>ow_client := (ow_client w1)\<lparr>sb_now := 6000009\<rparr>\<rparr>))
   in sb_log (ow_client w2) = [(''clock/rooms/101/desired'', ''new''), (''clock/rooms/101/desired'', ''old'')]
      \<and> list_all (\<lambda>row. oe_status row = OB_PUBLISHED \<and> oe_retain row) (ow_table w2)"
  by code_simp

text \<open>A late failure undoes a publication. A worker's batch takes longer than the stale time: its
  claim is released, a second worker claims and publishes the row; when the first worker then
  records its own failure for the message, the published row becomes a retrying one, keeps its
  publication time, and is handed out and published again.\<close>

theorem late_failure_resends:
  "let t1 = snd (claim_pending (fixed_tzdb 0) (\<lambda>_. False) ''a'' (utc_at 9) 25 [sample_row 1 ''on'']);
       t2 = snd (release_stale_publishing (fixed_tzdb 0) (utc_at 31000009) 30000000 t1);
       (ms, t3) = claim_pending (fixed_tzdb 0) (\<lambda>_. False) ''b'' (utc_at 31000009) 25 t2;
       t4 = fst (record_results zero_jitter default_retry_policy (utc_at 32000000)
              [\<lparr>pres_message_id = UUID 1, pres_published = True, pres_published_at = Some (utc_at 32000000),
                pres_error = None\<rparr>] t3 ());
       t5 = fst (record_results zero_jitter default_retry_policy (utc_at 33000000)
              [\<lparr>pres_message_id = UUID 1, pres_published = False, pres_published_at = None,
                pres_error = Some ''RuntimeError''\<rparr>] t4 ())
   in map pm_id ms = [UUID 1] \<and> map oe_status t4 = [OB_PUBLISHED]
      \<and> map oe_status t5 = [OB_RETRYING] \<and> map oe_published_at t5 = [Some (utc_at 32000000)]
      \<and> map pm_id (fst (claim_pending (fixed_tzdb 0) (\<lambda>_. False) ''b'' (utc_at 60000000) 25 t5)) = [UUID 1]"
  by code_simp

end
