(* ===== verification/Clock_Normalizer.thy ===== *)
theory Clock_Normalizer
  imports Domain_Models
begin

text \<open>
  \<^verbatim>\<open>app/clock/normalizer.py\<close>: from a raw booking of the Clock PMS, a JSON object whose fields
  are named by a configured mapping, to a \<open>NormalizedBooking\<close>. An object is the list of its
  items in insertion order. The parts of the standard library that read or render text are
  collected in one record of functions: \<^verbatim>\<open>str\<close> of floats, datetimes and containers, \<^verbatim>\<open>int\<close> of
  a string, the two \<^verbatim>\<open>fromisoformat\<close> parsers, and SHA-256 of the JSON text.
\<close>

record py_text =
  pt_str :: "json \<Rightarrow> string"
  pt_int :: "string \<Rightarrow> int result"
  pt_date_fromisoformat :: "string \<Rightarrow> date result"
  pt_datetime_fromisoformat :: "string \<Rightarrow> py_datetime result"
  pt_sha256_json :: "payload \<Rightarrow> string"

section \<open>The field mapping\<close>

record clock_field_mapping =
  fm_booking_id :: string
  fm_status :: string
  fm_arrival_date :: string
  fm_departure_date :: string
  fm_updated_at :: "string option"
  fm_created_at :: "string option"
  fm_status_changed_at :: "string option"
  fm_booking_number :: "string option"
  fm_external_source :: "string option"
  fm_external_reference :: "string option"
  fm_room_type_id :: "string option"
  fm_room_type_name :: "string option"
  fm_physical_room_id :: "string option"
  fm_physical_room_number :: "string option"
  fm_adults :: "string option"
  fm_children :: "string option"

definition STATUS_MAP :: "string \<rightharpoonup> booking_status" where
  "STATUS_MAP =
     [''expected'' \<mapsto> BS_EXPECTED, ''checked_in'' \<mapsto> BS_CHECKED_IN, ''checked_out'' \<mapsto> BS_CHECKED_OUT,
      ''canceled'' \<mapsto> BS_CANCELED, ''no_show'' \<mapsto> BS_NO_SHOW]"

section \<open>Reading fields\<close>

text \<open>\<^verbatim>\<open>payload.get(key)\<close>, with None for an absent key.\<close>

definition get_field :: "payload \<Rightarrow> string \<Rightarrow> json" where
  "get_field d k = (case map_of d k of None \<Rightarrow> JNull | Some v \<Rightarrow> v)"

fun str_of :: "py_text \<Rightarrow> json \<Rightarrow> string" where
  "str_of lib (JStr s) = s"
| "str_of lib (JInt n) = show_int n"
| "str_of lib (JBool b) = (if b then ''True'' else ''False'')"
| "str_of lib JNull = ''None''"
| "str_of lib (JDate d) = date_iso d"
| "str_of lib v = pt_str lib v"

text \<open>\<^verbatim>\<open>int(value)\<close>: a float is truncated towards zero.\<close>

fun int_of :: "py_text \<Rightarrow> json \<Rightarrow> int result" where
  "int_of lib (JInt n) = Inr n"
| "int_of lib (JBool b) = Inr (if b then 1 else 0)"
| "int_of lib (JStr s) = pt_int lib s"
| "int_of lib (JFloat (Fin q)) = Inr (if q < 0 then - \<lfloor>- q\<rfloor> else \<lfloor>q\<rfloor>)"
| "int_of lib (JFloat NaN) = Inl (ValueError ''cannot convert float NaN to integer'')"
| "int_of lib (JFloat _) = Inl (OverflowError ''cannot convert float infinity to integer'')"
| "int_of lib _ = Inl (TypeError ''int() argument must be a string, a bytes-like object or a real number'')"

definition require :: "payload \<Rightarrow> string \<Rightarrow> json result" where
  "require d k =
     (if get_field d k = JNull then Inl (ValueError (''required Clock field missing: '' @ k))
      else Inr (get_field d k))"

definition optional_field :: "(json \<Rightarrow> 'a result) \<Rightarrow> payload \<Rightarrow> string option \<Rightarrow> 'a option result" where
  "optional_field read d key =
     (case key of
        None \<Rightarrow> Inr None
      | Some k \<Rightarrow>
          (if get_field d k = JNull then Inr None
           else bind_result (read (get_field d k)) (\<lambda>v. Inr (Some v))))"

definition optional_str :: "py_text \<Rightarrow> payload \<Rightarrow> string option \<Rightarrow> string option result" where
  "optional_str lib = optional_field (\<lambda>v. Inr (str_of lib v))"

definition optional_int :: "py_text \<Rightarrow> payload \<Rightarrow> string option \<Rightarrow> int option result" where
  "optional_int lib = optional_field (int_of lib)"

definition replace_Z :: "string \<Rightarrow> string" where
  "replace_Z s = concat (map (\<lambda>c. if c = CHR ''Z'' then ''+00:00'' else [c]) s)"

definition optional_datetime :: "py_text \<Rightarrow> payload \<Rightarrow> string option \<Rightarrow> py_datetime option result" where
  "optional_datetime lib = optional_field (\<lambda>v. pt_datetime_fromisoformat lib (replace_Z (str_of lib v)))"

fun parse_date :: "py_text \<Rightarrow> json \<Rightarrow> date result" where
  "parse_date lib (JDate d) = Inr d"
| "parse_date lib v = pt_date_fromisoformat lib (str_of lib v)"

section \<open>The hash of a payload\<close>

definition pii_markers :: "string list" where
  "pii_markers = [''guest'', ''email'', ''e_mail'', ''phone'', ''card'', ''address'', ''note'', ''passport'']"

definition pii_key :: "string \<Rightarrow> bool" where
  "pii_key k = (\<exists>marker \<in> set pii_markers. contains_str marker (lower k))"

definition strip_pii :: "payload \<Rightarrow> payload" where
  "strip_pii d = filter (\<lambda>kv. \<not> pii_key (fst kv)) d"

text \<open>\<^verbatim>\<open>sort_keys=True\<close> orders the items of the object before they are rendered.\<close>

definition payload_hash :: "py_text \<Rightarrow> payload \<Rightarrow> string" where
  "payload_hash lib d = pt_sha256_json lib (sort_key fst (strip_pii d))"

section \<open>Normalisation\<close>

text \<open>The keyword arguments are evaluated in their order, then the model validates.\<close>

definition normalize_booking_payload ::
  "py_text \<Rightarrow> payload \<Rightarrow> string \<Rightarrow> clock_field_mapping \<Rightarrow> py_datetime \<Rightarrow> py_datetime \<Rightarrow> normalized_booking result" where
  "normalize_booking_payload lib d property_id m first_seen last_seen =
     bind_result (require d (fm_status m)) (\<lambda>status_value.
     let source_status = str_of lib status_value;
         status = (case STATUS_MAP source_status of None \<Rightarrow> BS_UNKNOWN | Some s \<Rightarrow> s);
         needs_attention = (status = BS_UNKNOWN) in
     bind_result (require d (fm_booking_id m)) (\<lambda>booking_id.
     bind_result (optional_str lib d (fm_booking_number m)) (\<lambda>booking_number.
     bind_result (optional_str lib d (fm_external_source m)) (\<lambda>external_source.
     bind_result (optional_str lib d (fm_external_reference m)) (\<lambda>external_reference.
     bind_result (bind_result (require d (fm_arrival_date m)) (parse_date lib)) (\<lambda>arrival.
     bind_result (bind_result (require d (fm_departure_date m)) (parse_date lib)) (\<lambda>departure.
     bind_result (optional_datetime lib d (fm_created_at m)) (\<lambda>created_at.
     bind_result (optional_datetime lib d (fm_updated_at m)) (\<lambda>updated_at.
     bind_result (optional_datetime lib d (fm_status_changed_at m)) (\<lambda>status_changed_at.
     bind_result (optional_str lib d (fm_room_type_id m)) (\<lambda>room_type_id.
     bind_result (optional_str lib d (fm_room_type_name m)) (\<lambda>room_type_name.
     bind_result (optional_str lib d (fm_physical_room_id m)) (\<lambda>physical_room_id.
     bind_result (optional_str lib d (fm_physical_room_number m)) (\<lambda>physical_room_number.
     bind_result (optional_int lib d (fm_adults m)) (\<lambda>adults.
     bind_result (optional_int lib d (fm_children m)) (\<lambda>children.
     mk_normalized_booking
       \<lparr>nb_property_id = property_id, nb_clock_booking_id = str_of lib booking_id,
        nb_booking_number = booking_number, nb_external_source = external_source,
        nb_external_reference = external_reference, nb_booking_status = status,
        nb_source_booking_status = source_status, nb_arrival_date = arrival, nb_departure_date = departure,
        nb_created_at = created_at, nb_updated_at = updated_at, nb_status_changed_at = status_changed_at,
        nb_room_type_id = room_type_id, nb_room_type_name = room_type_name,
        nb_physical_room_id = physical_room_id, nb_physical_room_number = physical_room_number,
        nb_adults = adults, nb_children = children, nb_first_seen_at = Some first_seen,
        nb_last_seen_at = Some last_seen, nb_payload_hash = payload_hash lib d,
        nb_needs_attention = needs_attention,
        nb_attention_reason = (if needs_attention then AR_UNKNOWN_CLOCK_STATUS else AR_NONE)\<rparr>))))))))))))))))"

end
