(* ===== verification/Clock_Sync.thy ===== *)
theory Clock_Sync
  imports Clock_Normalizer Outbox
begin

text \<open>
  \<^verbatim>\<open>app/clock/sync.py\<close> and the client protocol of \<^verbatim>\<open>app/clock/interface.py\<close>: the windows of the
  incremental and the reconciling sync, and \<open>poll_once\<close>, which follows the cursors of the
  client's pages until there is none. The client is a computation over the state behind it.
  The paging loop has no bound of its own, so it is a partial function: None is a poll that
  never returns.
\<close>

section \<open>The client protocol\<close>

record clock_page =
  cp_items :: "json list"
  cp_next_cursor :: "string option"

type_synonym 'c list_bookings = "datetime option \<Rightarrow> string option \<Rightarrow> ('c, clock_page) eff"

record clock_collection_contract =
  cc_endpoint_path :: string
  cc_documentation_reference :: string
  cc_response_items_key :: "string option"
  cc_next_cursor_key :: "string option"
  cc_cursor_query_param :: "string option"
  cc_updated_since_filter :: "string option"

definition supports_pagination :: "clock_collection_contract \<Rightarrow> bool" where
  "supports_pagination c = (cc_next_cursor_key c \<noteq> None \<and> cc_cursor_query_param c \<noteq> None)"

definition supports_incremental_filter :: "clock_collection_contract \<Rightarrow> bool" where
  "supports_incremental_filter c = (cc_updated_since_filter c \<noteq> None)"

record clock_api_contract =
  ca_bookings :: clock_collection_contract
  ca_rooms :: clock_collection_contract
  ca_physical_room_fields_confirmed :: bool

definition missing_contract_parts :: "clock_api_contract \<Rightarrow> string list" where
  "missing_contract_parts c =
     (if cc_documentation_reference (ca_bookings c) = [] then [''bookings.documentation_reference''] else [])
     @ (if cc_documentation_reference (ca_rooms c) = [] then [''rooms.documentation_reference''] else [])
     @ (if \<not> ca_physical_room_fields_confirmed c then [''physical_room_fields_confirmed''] else [])"

definition require_live_ready :: "clock_api_contract \<Rightarrow> unit result" where
  "require_live_ready c =
     (if missing_contract_parts c \<noteq> []
      then Inl (ClockMappingRequired
             (''Live Clock contract is incomplete; missing verified parts: ''
              @ join_with '', '' (missing_contract_parts c)))
      else Inr ())"

section \<open>Cursors and windows\<close>

record sync_cursor_state =
  sc_last_success_at :: "datetime option"
  sc_cursor_value :: "string option"

record sync_run_result =
  sy_success :: bool
  sy_bookings :: "normalized_booking list"
  sy_started_at :: datetime
  sy_finished_at :: datetime
  sy_next_cursor :: sync_cursor_state
  sy_error :: "string option"

record clock_settings =
  cs_reconciliation_days_past :: int
  cs_reconciliation_days_future :: int
  cs_sync_overlap_seconds :: int

definition incremental_window_start :: "sync_cursor_state \<Rightarrow> clock_settings \<Rightarrow> datetime \<Rightarrow> datetime" where
  "incremental_window_start cursor settings now =
     (case sc_last_success_at cursor of
        None \<Rightarrow> dt_minus now (cs_reconciliation_days_past settings * day_us)
      | Some t \<Rightarrow> dt_minus t (cs_sync_overlap_seconds settings * second_us))"

definition reconciliation_window :: "clock_settings \<Rightarrow> datetime \<Rightarrow> datetime \<times> datetime" where
  "reconciliation_window settings now =
     (dt_minus now (cs_reconciliation_days_past settings * day_us),
      dt_plus now (cs_reconciliation_days_future settings * day_us))"

section \<open>Polling\<close>

record 'c clock_sync_service =
  sv_list_bookings :: "'c list_bookings"
  sv_settings :: clock_settings
  sv_property_id :: string
  sv_mapping :: clock_field_mapping
  sv_text :: py_text

partial_function (option) collect_pages ::
  "'c list_bookings \<Rightarrow> datetime \<Rightarrow> string option \<Rightarrow> json list \<Rightarrow> 'c \<Rightarrow> (json list result \<times> 'c) option" where
  "collect_pages list_bookings since cursor raw c =
     (case list_bookings (Some since) cursor c of
        (Inl e, c') \<Rightarrow> Some (Inl e, c')
      | (Inr page, c') \<Rightarrow>
          (case cp_next_cursor page of
             None \<Rightarrow> Some (Inr (raw @ cp_items page), c')
           | Some n \<Rightarrow> collect_pages list_bookings since (Some n) (raw @ cp_items page) c'))"

text \<open>An item that is not an object has no \<^verbatim>\<open>get\<close>, the first thing the normalisation calls.\<close>

definition normalize_item :: "'c clock_sync_service \<Rightarrow> datetime \<Rightarrow> json \<Rightarrow> normalized_booking result" where
  "normalize_item sv started item =
     (case item of
        JDict d \<Rightarrow> normalize_booking_payload (sv_text sv) d (sv_property_id sv) (sv_mapping sv)
                     (Aware started) (Aware started)
      | _ \<Rightarrow> Inl (OtherError ''AttributeError''))"

definition normalize_all ::
  "'c clock_sync_service \<Rightarrow> datetime \<Rightarrow> json list \<Rightarrow> normalized_booking list result" where
  "normalize_all sv started = map_result (normalize_item sv started)"

definition poll_once ::
  "'c clock_sync_service \<Rightarrow> sync_cursor_state \<Rightarrow> datetime \<Rightarrow> 'c \<Rightarrow> (sync_run_result \<times> 'c) option" where
  "poll_once sv cursor now c =
     (case collect_pages (sv_list_bookings sv) (incremental_window_start cursor (sv_settings sv) now)
             (sc_cursor_value cursor) [] c of
        None \<Rightarrow> None
      | Some (raw, c') \<Rightarrow>
          Some (case bind_result raw (normalize_all sv now) of
                  Inr bookings \<Rightarrow>
                    \<lparr>sy_success = True, sy_bookings = bookings, sy_started_at = now, sy_finished_at = now,
                     sy_next_cursor = \<lparr>sc_last_success_at = Some now, sc_cursor_value = None\<rparr>, sy_error = None\<rparr>
                | Inl e \<Rightarrow>
                    \<lparr>sy_success = False, sy_bookings = [], sy_started_at = now, sy_finished_at = now,
                     sy_next_cursor = cursor, sy_error = Some (exc_class_name e)\<rparr>, c'))"

end
