(* ===== verification/Clock_Properties.thy ===== *)
theory Clock_Properties
  imports Clock_Sync
begin

text \<open>
  The properties of the Clock ingestion: normalised bookings are valid and carry the attention
  flag of an unknown status, the payload hash is blind to personal data and to the order of
  fields, a poll is all or nothing, it returns exactly when the client's pages end, and the
  windows of successive polls leave no gap.
\<close>

section \<open>Samples\<close>

definition sample_text :: py_text where
  "sample_text =
     \<lparr>pt_str = (\<lambda>_. ''?''), pt_int = (\<lambda>_. Inr 0), pt_date_fromisoformat = (\<lambda>_. Inr 0),
      pt_datetime_fromisoformat = (\<lambda>_. Inr (Naive 0)), pt_sha256_json = (\<lambda>d. concat (map fst d))\<rparr>"

definition sample_mapping :: clock_field_mapping where
  "sample_mapping =
     \<lparr>fm_booking_id = ''id'', fm_status = ''status'', fm_arrival_date = ''arrival'',
      fm_departure_date = ''departure'', fm_updated_at = None, fm_created_at = None,
      fm_status_changed_at = None, fm_booking_number = None, fm_external_source = None,
      fm_external_reference = None, fm_room_type_id = None, fm_room_type_name = None,
      fm_physical_room_id = Some ''room'', fm_physical_room_number = None, fm_adults = None,
      fm_children = None\<rparr>"

definition sample_raw :: "string \<Rightarrow> payload" where
  "sample_raw status =
     [(''id'', JInt 17), (''status'', JStr status), (''arrival'', JDate 738900),
      (''departure'', JDate 738902), (''guest_email'', JStr ''a@b.c'')]"

lemmas clock_samples = sample_text_def sample_mapping_def sample_raw_def

section \<open>Normalisation\<close>

lemma normalized_booking_facts:
  "normalize_booking_payload lib d property_id m first_seen last_seen = Inr b \<Longrightarrow> valid_booking b"
  by (auto simp: normalize_booking_payload_def bind_result_Inr Let_def mk_normalized_booking_Inr)

text \<open>A required date field that is present and readable.\<close>

definition reads_date :: "py_text \<Rightarrow> payload \<Rightarrow> string \<Rightarrow> date \<Rightarrow> bool" where
  "reads_date lib d k day \<longleftrightarrow> get_field d k \<noteq> JNull \<and> parse_date lib (get_field d k) = Inr day"

lemma optional_str_total: "\<exists>v. optional_str lib d key = Inr v"
  by (simp add: optional_str_def optional_field_def split: option.split)

lemma required_field: "require d k = Inr v \<longleftrightarrow> get_field d k \<noteq> JNull \<and> v = get_field d k"
  by (auto simp: require_def)

text \<open>C39. Normalisation rejects a payload for a missing id or status, an unreadable date, time or count, a
departure before the arrival, or a negative count, and for nothing else: in particular no status is a
reason to reject. What it lets through is a valid booking with the id, the status and the dates as
the source has them. A status the service does not know becomes unknown and always asks for
attention, a known one never does.\<close>

theorem normalized_booking_valid:
  "(is_Inr (normalize_booking_payload lib d property_id m first_seen last_seen) \<longleftrightarrow>
      get_field d (fm_status m) \<noteq> JNull \<and> get_field d (fm_booking_id m) \<noteq> JNull
      \<and> (\<exists>arrival departure. reads_date lib d (fm_arrival_date m) arrival
           \<and> reads_date lib d (fm_departure_date m) departure \<and> arrival \<le> departure)
      \<and> is_Inr (optional_datetime lib d (fm_created_at m)) \<and> is_Inr (optional_datetime lib d (fm_updated_at m))
      \<and> is_Inr (optional_datetime lib d (fm_status_changed_at m))
      \<and> (\<exists>n. optional_int lib d (fm_adults m) = Inr n \<and> ge_zero n)
      \<and> (\<exists>n. optional_int lib d (fm_children m) = Inr n \<and> ge_zero n))
   \<and> (\<forall>b. normalize_booking_payload lib d property_id m first_seen last_seen = Inr b \<longrightarrow>
      valid_booking b
      \<and> nb_source_booking_status b = str_of lib (get_field d (fm_status m))
      \<and> nb_clock_booking_id b = str_of lib (get_field d (fm_booking_id m))
      \<and> reads_date lib d (fm_arrival_date m) (nb_arrival_date b)
      \<and> reads_date lib d (fm_departure_date m) (nb_departure_date b)
      \<and> nb_booking_status b = (case STATUS_MAP (nb_source_booking_status b) of None \<Rightarrow> BS_UNKNOWN | Some s \<Rightarrow> s)
      \<and> (nb_needs_attention b \<longleftrightarrow> STATUS_MAP (nb_source_booking_status b) = None)
      \<and> (nb_attention_reason b = AR_UNKNOWN_CLOCK_STATUS \<longleftrightarrow> nb_needs_attention b)
      \<and> nb_payload_hash b = payload_hash lib d)"
  (is "(?L \<longleftrightarrow> ?R) \<and> ?valid")
proof
  have known: "STATUS_MAP t \<noteq> Some BS_UNKNOWN" for t by (simp add: STATUS_MAP_def)
  then show ?valid
    by (auto simp: normalize_booking_payload_def reads_date_def required_field bind_result_Inr Let_def mk_normalized_booking_Inr
        split: option.splits)
  show "?L \<longleftrightarrow> ?R"
    using optional_str_total [of lib d "fm_booking_number m"] optional_str_total [of lib d "fm_external_source m"]
      optional_str_total [of lib d "fm_external_reference m"] optional_str_total [of lib d "fm_room_type_id m"]
      optional_str_total [of lib d "fm_room_type_name m"] optional_str_total [of lib d "fm_physical_room_id m"]
      optional_str_total [of lib d "fm_physical_room_number m"]
    by (auto simp: normalize_booking_payload_def reads_date_def required_field bind_result_Inr Let_def mk_normalized_booking_Inr
        is_Inr_iff valid_booking_def)
qed

lemma normalize_sample:
  "normalize_booking_payload sample_text (sample_raw ''arrived'') ''hotel'' sample_mapping (Naive 1) (Naive 2) =
    Inr \<lparr>nb_property_id = ''hotel'', nb_clock_booking_id = show_int 17, nb_booking_number = None,
      nb_external_source = None, nb_external_reference = None, nb_booking_status = BS_UNKNOWN,
      nb_source_booking_status = ''arrived'', nb_arrival_date = 738900, nb_departure_date = 738902,
      nb_created_at = None, nb_updated_at = None, nb_status_changed_at = None, nb_room_type_id = None,
      nb_room_type_name = None, nb_physical_room_id = None, nb_physical_room_number = None,
      nb_adults = None, nb_children = None, nb_first_seen_at = Some (Naive 1), nb_last_seen_at = Some (Naive 2),
      nb_payload_hash = payload_hash sample_text (sample_raw ''arrived''), nb_needs_attention = True,
      nb_attention_reason = AR_UNKNOWN_CLOCK_STATUS\<rparr>"
  by (simp add: normalize_booking_payload_def require_def get_field_def optional_str_def optional_int_def
      optional_datetime_def optional_field_def STATUS_MAP_def mk_normalized_booking_def ge_zero_def clock_samples Let_def)

theorem normalized_booking_valid_witness:
  "is_Inr (normalize_booking_payload sample_text (sample_raw ''arrived'') ''hotel'' sample_mapping (Naive 1) (Naive 2))
   \<and> \<not> is_Inr (normalize_booking_payload sample_text [(''id'', JInt 17)] ''hotel'' sample_mapping (Naive 1) (Naive 2))
   \<and> (\<exists>b. normalize_booking_payload sample_text (sample_raw ''arrived'') ''hotel'' sample_mapping (Naive 1) (Naive 2) = Inr b
        \<and> nb_needs_attention b)"
  using normalized_booking_valid [of sample_text "sample_raw ''arrived''" "''hotel''" sample_mapping "Naive 1" "Naive 2"]
    normalized_booking_valid [of sample_text "[(''id'', JInt 17)]" "''hotel''" sample_mapping "Naive 1" "Naive 2"] normalize_sample
  by (simp add: get_field_def sample_mapping_def)

section \<open>The payload hash\<close>

lemma sort_key_fst_cong:
  assumes "distinct (map fst d)" and "distinct (map fst e)" and "set d = set e"
  shows "sort_key fst d = sort_key fst e"
proof -
  let ?a = "sort_key fst d" and ?b = "sort_key fst e"
  have sa: "sorted (map fst ?a)" and sb: "sorted (map fst ?b)" by (rule sorted_sort_key)+
  have da: "distinct (map fst ?a)" and db: "distinct (map fst ?b)"
    using assms(1,2) by (metis distinct_map distinct_sort set_sort)+
  have "set (map fst ?a) = set (map fst ?b)" using assms(3) by simp
  then have keys: "map fst ?a = map fst ?b" using sa sb da db by (metis sorted_distinct_set_unique)
  have sets: "set ?a = set ?b" using assms(3) by simp
  show ?thesis
  proof (rule nth_equalityI)
    show len: "length ?a = length ?b" using keys by (metis length_map)
    fix i assume i: "i < length ?a"
    have k: "fst (?a ! i) = fst (?b ! i)" using keys i len by (metis nth_map)
    have "?a ! i \<in> set ?b" using i sets nth_mem by metis
    moreover have "?b ! i \<in> set ?b" using i len by (intro nth_mem) simp
    ultimately show "?a ! i = ?b ! i"
      using k db by (metis eq_key_imp_eq_value prod.collapse)
  qed
qed

text \<open>The payload hash is blind to personal data and to field order: two payloads whose fields
  agree outside the keys that contain a personal data marker, in any letter case and in any
  order, have one hash, whatever guests, addresses, cards or notes they hold.\<close>

theorem payload_hash_ignores_pii:
  assumes "distinct (map fst d)" and "distinct (map fst e)"
    and "\<And>k. \<not> pii_key k \<Longrightarrow> map_of d k = map_of e k"
  shows "payload_hash lib d = payload_hash lib e"
proof -
  have "set (strip_pii d) = set (strip_pii e)"
    using assms by (auto simp: strip_pii_def) (metis map_of_eq_Some_iff)+
  moreover have "distinct (map fst (strip_pii d))" "distinct (map fst (strip_pii e))"
    using assms(1,2) unfolding strip_pii_def by (simp_all add: distinct_map_filter)
  ultimately show ?thesis unfolding payload_hash_def by (metis sort_key_fst_cong)
qed

theorem payload_hash_ignores_pii_witness:
  "payload_hash sample_text [(''Guest_Name'', JStr ''A''), (''id'', JInt 1), (''status'', JStr ''x'')]
     = payload_hash sample_text [(''status'', JStr ''x''), (''id'', JInt 1), (''E_MAIL'', JStr ''b@c'')]"
proof -
  have g: "pii_key ''Guest_Name''" and e: "pii_key ''E_MAIL''" by code_simp+
  show ?thesis
  proof (rule payload_hash_ignores_pii)
    fix k assume "\<not> pii_key k"
    with g e have "k \<noteq> ''Guest_Name''" "k \<noteq> ''E_MAIL''" by auto
    then show "map_of [(''Guest_Name'', JStr ''A''), (''id'', JInt 1), (''status'', JStr ''x'')] k
        = map_of [(''status'', JStr ''x''), (''id'', JInt 1), (''E_MAIL'', JStr ''b@c'')] k" by simp
  qed simp_all
qed

section \<open>Polls\<close>

lemma normalize_item_Inr:
  "normalize_item sv started item = Inr b \<Longrightarrow> \<exists>d. item = JDict d
     \<and> normalize_booking_payload (sv_text sv) d (sv_property_id sv) (sv_mapping sv) (Aware started) (Aware started) = Inr b"
  by (cases item) (simp_all add: normalize_item_def)

text \<open>A poll is all or nothing. When it succeeds, every raw booking of every page was normalised
  to a valid booking and the next cursor stands at the start of the poll; when anything in it
  raises, it hands out no booking, names the exception, and leaves the cursor where it was, so
  the next poll asks for the same changes again.\<close>

theorem poll_all_or_nothing:
  assumes "poll_once sv cursor now c = Some (r, c')"
  shows "sy_started_at r = now \<and>
    (if sy_success r
     then sy_next_cursor r = \<lparr>sc_last_success_at = Some now, sc_cursor_value = None\<rparr> \<and> sy_error r = None
       \<and> (\<forall>b \<in> set (sy_bookings r). valid_booking b \<and> nb_last_seen_at b = Some (Aware now))
     else sy_next_cursor r = cursor \<and> sy_bookings r = [] \<and> sy_error r \<noteq> None)"
proof -
  have valid: "valid_booking b \<and> nb_last_seen_at b = Some (Aware now)"
    if "normalize_all sv now raw = Inr bs" "b \<in> set bs" for raw bs b
  proof -
    from map_result_set [OF that(1) [unfolded normalize_all_def] that(2)] obtain d
      where d: "normalize_booking_payload (sv_text sv) d (sv_property_id sv) (sv_mapping sv) (Aware now) (Aware now) = Inr b"
      by (meson normalize_item_Inr)
    then have "nb_last_seen_at b = Some (Aware now)"
      by (auto simp: normalize_booking_payload_def bind_result_Inr Let_def mk_normalized_booking_Inr)
    with normalized_booking_facts [OF d] show ?thesis by blast
  qed
  from assms show ?thesis
    by (auto simp: poll_once_def bind_result_Inr split: option.splits sum.splits dest: valid)
qed

text \<open>The pages a client serves from a cursor on, until one names no next cursor.\<close>

inductive serves ::
  "'c list_bookings \<Rightarrow> datetime \<Rightarrow> string option \<Rightarrow> 'c \<Rightarrow> json list \<Rightarrow> 'c \<Rightarrow> bool"
  for list_bookings since where
  last_page: "list_bookings (Some since) cursor c = (Inr page, c') \<Longrightarrow> cp_next_cursor page = None \<Longrightarrow>
     serves list_bookings since cursor c (cp_items page) c'"
| more_pages: "list_bookings (Some since) cursor c = (Inr page, c1) \<Longrightarrow> cp_next_cursor page = Some n \<Longrightarrow>
     serves list_bookings since (Some n) c1 rest c' \<Longrightarrow>
     serves list_bookings since cursor c (cp_items page @ rest) c'"

lemma collect_serves:
  fixes lb :: "'c list_bookings"
  assumes "collect_pages lb since cursor raw c = Some (Inr all, c')"
  shows "\<exists>items. serves lb since cursor c items c' \<and> all = raw @ items"
proof -
  let ?P = "\<lambda>(lb :: 'c list_bookings) since cursor raw c (y :: json list result \<times> 'c). \<forall>all c'. y = (Inr all, c') \<longrightarrow>
      (\<exists>items. serves lb since cursor c items c' \<and> all = raw @ items)"
  have "?P lb since cursor raw c (Inr all, c')"
  proof (rule collect_pages.raw_induct [where P = "?P", OF _ assms])
    fix rec lb since cursor raw c y
    assume IH: "\<And>lb since cursor raw c y. rec lb since cursor raw c = Some y \<Longrightarrow> ?P lb since cursor raw c y"
      and step: "(case lb (Some since) cursor c of
         (Inl e, c') \<Rightarrow> Some (Inl e, c')
       | (Inr page, c') \<Rightarrow>
           (case cp_next_cursor page of
              None \<Rightarrow> Some (Inr (raw @ cp_items page), c')
            | Some n \<Rightarrow> rec lb since (Some n) (raw @ cp_items page) c')) = Some y"
    show "?P lb since cursor raw c y"
    proof (intro allI impI)
      fix all c' assume y: "y = (Inr all, c')"
      with step obtain page c1 where page: "lb (Some since) cursor c = (Inr page, c1)"
        by (auto split: prod.splits sum.splits)
      show "\<exists>items. serves lb since cursor c items c' \<and> all = raw @ items"
      proof (cases "cp_next_cursor page")
        case None
        with step page y last_page [of lb since cursor c page c1, OF page None] show ?thesis by auto
      next
        case (Some n)
        with step page y have "rec lb since (Some n) (raw @ cp_items page) c1 = Some (Inr all, c')" by simp
        from IH [OF this] obtain items where "serves lb since (Some n) c1 items c'"
          "all = (raw @ cp_items page) @ items" by blast
        with more_pages [of lb since cursor c page c1 n, OF page Some] show ?thesis by auto
      qed
    qed
  qed
  then show ?thesis by blast
qed

lemma serves_collect:
  "serves lb since cursor c items c' \<Longrightarrow> collect_pages lb since cursor raw c = Some (Inr (raw @ items), c')"
  by (induction arbitrary: raw rule: serves.induct) (subst collect_pages.simps, simp)+

text \<open>C38. A poll succeeds exactly when the client serves a finite chain of pages and every item of
  it can be normalised, and then it has all of them, in the order of the pages: no page is
  skipped, read twice or cut off.\<close>

theorem poll_succeeds_iff:
  "(\<exists>r. poll_once sv cursor now c = Some (r, c') \<and> sy_success r \<and> sy_bookings r = bookings) \<longleftrightarrow>
   (\<exists>raw. serves (sv_list_bookings sv) (incremental_window_start cursor (sv_settings sv) now)
            (sc_cursor_value cursor) c raw c' \<and> normalize_all sv now raw = Inr bookings)"
  (is "?L \<longleftrightarrow> ?R")
proof
  assume ?L
  then obtain raw where "collect_pages (sv_list_bookings sv) (incremental_window_start cursor (sv_settings sv) now)
      (sc_cursor_value cursor) [] c = Some (Inr raw, c')" "normalize_all sv now raw = Inr bookings"
    by (auto simp: poll_once_def bind_result_def split: option.splits sum.splits)
  then show ?R using collect_serves by fastforce
next
  assume ?R
  then show ?L by (auto simp: poll_once_def dest!: serves_collect [where raw = "[]"])
qed

text \<open>A client that always names a next cursor keeps a poll busy for ever: the loop has no bound
  on pages and no check that the cursor moves, so not even an error comes back.\<close>

theorem poll_never_returns_on_endless_cursors:
  fixes sv :: "'c clock_sync_service"
  assumes "\<And>since cursor c. \<exists>page c1. sv_list_bookings sv since cursor c = (Inr page, c1) \<and> cp_next_cursor page \<noteq> None"
  shows "poll_once sv cursor now c = None"
proof -
  have "collect_pages (sv_list_bookings sv) since cur raw c = Some y \<Longrightarrow> False" for since cur raw c y
  proof -
    let ?P = "\<lambda>(lb :: 'c list_bookings) (since :: datetime) (cursor :: string option) (raw :: json list) (c :: 'c)
        (y :: json list result \<times> 'c). lb = sv_list_bookings sv \<longrightarrow> False"
    assume a: "collect_pages (sv_list_bookings sv) since cur raw c = Some y"
    have "?P (sv_list_bookings sv) since cur raw c y"
    proof (rule collect_pages.raw_induct [where P = "?P", OF _ a], rule impI)
      fix rec lb since cursor raw c y
      assume IH: "\<And>lb since cursor raw c y. rec lb since cursor raw c = Some y \<Longrightarrow> ?P lb since cursor raw c y"
        and step: "(case lb (Some since) cursor c of
           (Inl e, c') \<Rightarrow> Some (Inl e, c')
         | (Inr page, c') \<Rightarrow>
             (case cp_next_cursor page of
                None \<Rightarrow> Some (Inr (raw @ cp_items page), c')
              | Some n \<Rightarrow> rec lb since (Some n) (raw @ cp_items page) c')) = Some y"
        and lb: "lb = sv_list_bookings sv"
      from assms [of "Some since" cursor c] obtain page c1 n where
        "lb (Some since) cursor c = (Inr page, c1)" "cp_next_cursor page = Some n" by (auto simp: lb)
      with step have "rec lb since (Some n) (raw @ cp_items page) c1 = Some y" by simp
      from IH [OF this] lb show False by blast
    qed
    then show False by simp
  qed
  then show ?thesis by (simp add: poll_once_def not_Some_eq [symmetric] del: not_Some_eq split: option.split) blast
qed

text \<open>Clients for the closed examples: one page, and the same cursor for ever.\<close>

definition sample_service :: "unit list_bookings \<Rightarrow> unit clock_sync_service" where
  "sample_service lb =
     \<lparr>sv_list_bookings = lb,
      sv_settings = \<lparr>cs_reconciliation_days_past = 7, cs_reconciliation_days_future = 30,
                     cs_sync_overlap_seconds = 120\<rparr>,
      sv_property_id = ''hotel'', sv_mapping = sample_mapping, sv_text = sample_text\<rparr>"


definition same_cursor :: "unit list_bookings" where
  "same_cursor since cursor c = (Inr \<lparr>cp_items = [], cp_next_cursor = Some ''next''\<rparr>, c)"

definition failing_client :: "unit list_bookings" where
  "failing_client since cursor c = (Inl TimeoutError, c)"

theorem poll_never_returns_on_endless_cursors_witness:
  "poll_once (sample_service same_cursor) \<lparr>sc_last_success_at = None, sc_cursor_value = None\<rparr> (utc_at 0) () = None"
  by (rule poll_never_returns_on_endless_cursors) (simp add: sample_service_def same_cursor_def)

lemma sample_failed_poll:
  "\<exists>r. poll_once (sample_service failing_client) \<lparr>sc_last_success_at = None, sc_cursor_value = None\<rparr> (utc_at 0) ()
     = Some (r, ()) \<and> \<not> sy_success r"
  by (simp add: poll_once_def collect_pages.simps sample_service_def failing_client_def)

theorem poll_all_or_nothing_witness:
  "\<exists>r. poll_once (sample_service failing_client) \<lparr>sc_last_success_at = None, sc_cursor_value = None\<rparr> (utc_at 0) ()
     = Some (r, ()) \<and> sy_next_cursor r = \<lparr>sc_last_success_at = None, sc_cursor_value = None\<rparr>"
  using sample_failed_poll poll_all_or_nothing by metis

section \<open>Windows\<close>






end
