(* ===== verification/Mqtt_Topics.thy ===== *)
theory Mqtt_Topics
  imports Domain_Enums
begin

text \<open>
  \<^verbatim>\<open>app/mqtt/topics.py\<close>: the topic names under a configured prefix, and the facts that keep the
  topics of different rooms and of different commands apart whatever characters the keys hold.
\<close>

section \<open>Stripping characters\<close>

text \<open>\<^verbatim>\<open>text.strip(chars)\<close>: characters of the set are removed at both ends.\<close>

definition strip_by :: "(char \<Rightarrow> bool) \<Rightarrow> string \<Rightarrow> string" where
  "strip_by p s = rev (dropWhile p (rev (dropWhile p s)))"

lemma strip_by_ends:
  assumes "strip_by p s \<noteq> []"
  shows "\<not> p (hd (strip_by p s))" and "\<not> p (last (strip_by p s))"
proof -
  let ?d = "dropWhile p s"
  from assms have ne: "dropWhile p (rev ?d) \<noteq> []" by (simp add: strip_by_def)
  then have "\<not> p (hd (dropWhile p (rev ?d)))" by (rule hd_dropWhile)
  moreover have "last (strip_by p s) = hd (dropWhile p (rev ?d))"
    using ne by (simp add: strip_by_def last_rev)
  ultimately show "\<not> p (last (strip_by p s))" by simp
  have d: "?d \<noteq> []" using ne by (metis dropWhile.simps(1) rev.simps(1))
  obtain xs where xs: "rev ?d = xs @ dropWhile p (rev ?d)"
    by (metis takeWhile_dropWhile_id)
  have "?d = rev (dropWhile p (rev ?d)) @ rev xs"
    using arg_cong [OF xs, of rev] by simp
  then have "hd ?d = hd (strip_by p s)" using ne by (metis hd_append2 rev_is_Nil_conv strip_by_def)
  moreover have "\<not> p (hd ?d)" using d by (rule hd_dropWhile)
  ultimately show "\<not> p (hd (strip_by p s))" by simp
qed

lemma strip_by_id:
  assumes "s \<noteq> [] \<Longrightarrow> \<not> p (hd s) \<and> \<not> p (last s)"
  shows "strip_by p s = s"
proof (cases "s = []")
  case True
  then show ?thesis by (simp add: strip_by_def)
next
  case False
  with assms have "dropWhile p s = s" "dropWhile p (rev s) = rev s"
    by (simp_all add: dropWhile_eq_self_iff hd_rev)
  then show ?thesis by (simp add: strip_by_def)
qed

lemma strip_by_idem: "strip_by p (strip_by p s) = strip_by p s"
  by (rule strip_by_id) (metis strip_by_ends)

section \<open>Topics\<close>

record mqtt_topics =
  mt_prefix :: string

text \<open>\<^verbatim>\<open>__post_init__\<close> strips the slashes of the prefix.\<close>

definition mk_mqtt_topics :: "string \<Rightarrow> mqtt_topics" where
  "mk_mqtt_topics prefix = \<lparr>mt_prefix = strip_by (\<lambda>c. c = CHR ''/'') prefix\<rparr>"

definition default_mqtt_topics :: mqtt_topics where
  "default_mqtt_topics = mk_mqtt_topics ''hotel/v1''"

definition availability_topic :: "mqtt_topics \<Rightarrow> string" where
  "availability_topic t = mt_prefix t @ ''/system/clock-ha-orchestrator/availability''"

definition system_state_topic :: "mqtt_topics \<Rightarrow> string" where
  "system_state_topic t = mt_prefix t @ ''/system/clock-ha-orchestrator/state''"

definition room_pms_state :: "mqtt_topics \<Rightarrow> string \<Rightarrow> string" where
  "room_pms_state t k = mt_prefix t @ ''/rooms/'' @ k @ ''/pms/state''"

definition room_intent_state_topic :: "mqtt_topics \<Rightarrow> string \<Rightarrow> string" where
  "room_intent_state_topic t k = mt_prefix t @ ''/rooms/'' @ k @ ''/intent/state''"

definition room_intent_result :: "mqtt_topics \<Rightarrow> string \<Rightarrow> string \<Rightarrow> string" where
  "room_intent_result t k a = mt_prefix t @ ''/rooms/'' @ k @ ''/adapters/'' @ a @ ''/intent/result''"

definition room_control_set :: "mqtt_topics \<Rightarrow> string \<Rightarrow> string" where
  "room_control_set t k = mt_prefix t @ ''/rooms/'' @ k @ ''/control/set''"

definition room_control_state :: "mqtt_topics \<Rightarrow> string \<Rightarrow> string" where
  "room_control_state t k = mt_prefix t @ ''/rooms/'' @ k @ ''/control/state''"

definition room_control_mode_set :: "mqtt_topics \<Rightarrow> string \<Rightarrow> string" where
  "room_control_mode_set t k = mt_prefix t @ ''/rooms/'' @ k @ ''/control/mode/set''"

definition room_control_hvac_mode_set :: "mqtt_topics \<Rightarrow> string \<Rightarrow> string" where
  "room_control_hvac_mode_set t k = mt_prefix t @ ''/rooms/'' @ k @ ''/control/hvac-mode/set''"

definition room_control_temperature_set :: "mqtt_topics \<Rightarrow> string \<Rightarrow> string" where
  "room_control_temperature_set t k = mt_prefix t @ ''/rooms/'' @ k @ ''/control/temperature/set''"

definition room_control_duration_set :: "mqtt_topics \<Rightarrow> string \<Rightarrow> string" where
  "room_control_duration_set t k = mt_prefix t @ ''/rooms/'' @ k @ ''/control/duration/set''"

definition room_control_water_heater_set :: "mqtt_topics \<Rightarrow> string \<Rightarrow> string" where
  "room_control_water_heater_set t k = mt_prefix t @ ''/rooms/'' @ k @ ''/control/water-heater/set''"

definition room_control_return_to_automatic_set :: "mqtt_topics \<Rightarrow> string \<Rightarrow> string" where
  "room_control_return_to_automatic_set t k =
     mt_prefix t @ ''/rooms/'' @ k @ ''/control/return-to-automatic/set''"

definition room_reported_state :: "mqtt_topics \<Rightarrow> string \<Rightarrow> string \<Rightarrow> string" where
  "room_reported_state t k a = mt_prefix t @ ''/rooms/'' @ k @ ''/adapters/'' @ a @ ''/reported/state''"

definition entrance_adapter_availability :: "mqtt_topics \<Rightarrow> string \<Rightarrow> string" where
  "entrance_adapter_availability t k = mt_prefix t @ ''/entrances/'' @ k @ ''/adapter/availability''"

definition entrance_adapter_state :: "mqtt_topics \<Rightarrow> string \<Rightarrow> string" where
  "entrance_adapter_state t k = mt_prefix t @ ''/entrances/'' @ k @ ''/adapter/state''"

lemmas room_topic_defs =
  room_pms_state_def room_intent_state_topic_def room_control_set_def room_control_state_def
  room_control_mode_set_def room_control_hvac_mode_set_def room_control_temperature_set_def
  room_control_duration_set_def room_control_water_heater_set_def
  room_control_return_to_automatic_set_def

section \<open>Topics stay apart\<close>

text \<open>
  A room topic is the prefix, the room key and one of the suffixes below; no suffix is a
  suffix of another, so the topic determines both, even when a key contains slashes.
\<close>

definition room_topic :: "mqtt_topics \<Rightarrow> string \<Rightarrow> string \<Rightarrow> string" where
  "room_topic t suffix k = mt_prefix t @ ''/rooms/'' @ k @ suffix"

definition room_suffixes :: "string list" where
  "room_suffixes =
     [''/pms/state'', ''/intent/state'', ''/control/set'', ''/control/state'', ''/control/mode/set'',
      ''/control/hvac-mode/set'', ''/control/temperature/set'', ''/control/duration/set'',
      ''/control/water-heater/set'', ''/control/return-to-automatic/set'']"

lemma room_topics:
  "room_pms_state t = room_topic t ''/pms/state''"
  "room_intent_state_topic t = room_topic t ''/intent/state''"
  "room_control_set t = room_topic t ''/control/set''"
  "room_control_state t = room_topic t ''/control/state''"
  "room_control_mode_set t = room_topic t ''/control/mode/set''"
  "room_control_hvac_mode_set t = room_topic t ''/control/hvac-mode/set''"
  "room_control_temperature_set t = room_topic t ''/control/temperature/set''"
  "room_control_duration_set t = room_topic t ''/control/duration/set''"
  "room_control_water_heater_set t = room_topic t ''/control/water-heater/set''"
  "room_control_return_to_automatic_set t = room_topic t ''/control/return-to-automatic/set''"
  by (rule ext, simp add: room_topic_def room_topic_defs)+

text \<open>Two texts that differ at a position counted from the end stay different under any keys.\<close>

definition clash :: "string \<Rightarrow> string \<Rightarrow> bool" where
  "clash s s' = list_ex (\<lambda>(c, d). c \<noteq> d) (zip (rev s) (rev s'))"

lemma clash_append:
  assumes "clash s s'"
  shows "k @ s \<noteq> k' @ s'"
proof
  assume "k @ s = k' @ s'"
  from arg_cong [OF this, of rev] have e: "rev s @ rev k = rev s' @ rev k'" by simp
  from assms obtain i where i: "i < length s" "i < length s'" "rev s ! i \<noteq> rev s' ! i"
    by (auto simp: clash_def list_ex_iff in_set_zip)
  with arg_cong [OF e, of "\<lambda>l. l ! i"] show False by (simp add: nth_append)
qed

lemma suffixes_clash:
  "list_all (\<lambda>s. list_all (\<lambda>s'. s = s' \<or> clash s s') room_suffixes) room_suffixes"
  by code_simp

lemma suffix_apart:
  assumes "s \<in> set room_suffixes" and "s' \<in> set room_suffixes" and "k @ s = k' @ s'"
  shows "k = k' \<and> s = s'"
proof -
  have "s = s'" using suffixes_clash assms clash_append [of s s' k k'] by (auto simp: list_all_iff)
  with assms(3) show ?thesis by simp
qed

lemma room_topic_eq:
  assumes "s \<in> set room_suffixes" and "s' \<in> set room_suffixes"
  shows "room_topic t s k = room_topic t s' k' \<longleftrightarrow> k = k' \<and> s = s'"
  using suffix_apart [OF assms] by (auto simp: room_topic_def)

lemma system_topic_not_room:
  "system_state_topic t \<noteq> room_topic t s k" "availability_topic t \<noteq> room_topic t s k"
  by (simp_all add: system_state_topic_def availability_topic_def room_topic_def)

end
