(* ===== verification/Clock_Clients.thy ===== *)
theory Clock_Clients
  imports Clock_Sync Settings
begin

text \<open>
  The two clients of \<^verbatim>\<open>app/clock\<close>: \<^verbatim>\<open>fixtures.py\<close> reads the bookings from a file, \<^verbatim>\<open>rest.py\<close>
  asks the Clock API under a verified contract. The file system, the HTTP client, tenacity's
  retry decorator and the templates of \<^verbatim>\<open>str.format\<close> beyond plain names are arguments. A client
  whose pages stop makes the polling loop return.
\<close>

section \<open>Fixtures\<close>

text \<open>\<open>fx_load\<close> opens a file and parses its JSON.\<close>

record 'c fixture_client =
  fx_bookings_path :: string
  fx_rooms_path :: "string option"
  fx_load :: "string \<Rightarrow> ('c, json) eff"

definition load_json_list :: "'c fixture_client \<Rightarrow> string \<Rightarrow> ('c, json list) eff" where
  "load_json_list fx path =
     bindE (fx_load fx path) (\<lambda>payload.
     case payload of
       JList items \<Rightarrow> ret items
     | _ \<Rightarrow> raise (ValueError (''fixture must contain a JSON list: '' @ path)))"

definition fixture_list_bookings :: "'c fixture_client \<Rightarrow> 'c list_bookings" where
  "fixture_list_bookings fx updated_since cursor =
     bindE (load_json_list fx (fx_bookings_path fx)) (\<lambda>items.
     ret \<lparr>cp_items = items, cp_next_cursor = None\<rparr>)"

definition fixture_list_rooms :: "'c fixture_client \<Rightarrow> ('c, json list) eff" where
  "fixture_list_rooms fx =
     (case fx_rooms_path fx of None \<Rightarrow> ret [] | Some path \<Rightarrow> load_json_list fx path)"

section \<open>Path templates\<close>

text \<open>
  \<^verbatim>\<open>path.format(...)\<close> for templates whose fields are plain names; None for a template with a
  conversion, a specification, an index or an attribute in a field.
\<close>

definition name_char :: "char \<Rightarrow> bool" where
  "name_char c = (c \<in> set ''abcdefghijklmnopqrstuvwxyzABCDEFGHIJKLMNOPQRSTUVWXYZ0123456789_'')"

definition field_value :: "(string \<times> string) list \<Rightarrow> string \<Rightarrow> string result" where
  "field_value args nm =
     (if list_all (\<lambda>c. c \<in> set ''0123456789'') nm then Inl (OtherError ''IndexError'')
      else case map_of args nm of None \<Rightarrow> Inl (KeyError nm) | Some v \<Rightarrow> Inr v)"

definition prepend :: "string \<Rightarrow> string result option \<Rightarrow> string result option" where
  "prepend v r = map_option (\<lambda>x. bind_result x (\<lambda>s. Inr (v @ s))) r"

fun format_from :: "(string \<times> string) list \<Rightarrow> string option \<Rightarrow> string \<Rightarrow> string result option" where
  "format_from args (Some f) [] = Some (Inl (ValueError ''expected '}' before end of string''))"
| "format_from args (Some f) (c # cs) =
     (if c = CHR ''}'' then
        (case field_value args (rev f) of
           Inl e \<Rightarrow> map_option (\<lambda>_. Inl e) (format_from args None cs)
         | Inr v \<Rightarrow> prepend v (format_from args None cs))
      else if name_char c then format_from args (Some (c # f)) cs
      else None)"
| "format_from args None [] = Some (Inr [])"
| "format_from args None [c] =
     (if c = CHR ''{'' then Some (Inl (ValueError ''Single '{' encountered in format string''))
      else if c = CHR ''}'' then Some (Inl (ValueError ''Single '}' encountered in format string''))
      else Some (Inr [c]))"
| "format_from args None (c # d # ds) =
     (if c = CHR ''{'' \<and> d = CHR ''{'' \<or> c = CHR ''}'' \<and> d = CHR ''}'' then prepend [c] (format_from args None ds)
      else if c = CHR ''{'' then format_from args (Some []) (d # ds)
      else if c = CHR ''}'' then Some (Inl (ValueError ''Single '}' encountered in format string''))
      else prepend [c] (format_from args None (d # ds)))"

section \<open>The REST client\<close>

record http_response =
  hr_status_code :: int
  hr_json :: "json result"

text \<open>
  \<open>rc_get\<close> is one GET request with its credentials, URL and query parameters; \<open>rc_retry\<close> is the
  decorator, of which the source sets the exceptions to retry and the number of attempts.
\<close>

record 'c rest_client =
  rc_settings :: settings
  rc_contract :: "clock_api_contract option"
  rc_tz :: tzdb
  rc_text :: py_text
  rc_format :: "string \<Rightarrow> (string \<times> string) list \<Rightarrow> string result"
  rc_get :: "string \<times> string \<Rightarrow> string \<Rightarrow> (string \<times> string) list \<Rightarrow> ('c, http_response) eff"
  rc_retry :: "(pyexc \<Rightarrow> bool) \<Rightarrow> nat \<Rightarrow> ('c, json) eff \<Rightarrow> ('c, json) eff"

definition clock_auth :: "settings \<Rightarrow> (string \<times> string) option" where
  "clock_auth s =
     (if truthy (se_clock_api_key s)
      then Some (case se_clock_api_user s of None \<Rightarrow> [] | Some u \<Rightarrow> u, the (se_clock_api_key s))
      else None)"

definition retryable :: "pyexc \<Rightarrow> bool" where
  "retryable e = (e \<in> {OtherError ''ConnectError'', OtherError ''ReadTimeout'', OtherError ''RemoteProtocolError''})"

definition format_path :: "'c rest_client \<Rightarrow> string \<Rightarrow> (string \<times> string) list \<Rightarrow> string result" where
  "format_path cl path args =
     (case format_from args None path of Some r \<Rightarrow> r | None \<Rightarrow> rc_format cl path args)"

text \<open>The decorated body of \<^verbatim>\<open>_get_json\<close>: an error status raises, whatever its code.\<close>

definition get_json_once :: "'c rest_client \<Rightarrow> string \<Rightarrow> (string \<times> string) list \<Rightarrow> ('c, json) eff" where
  "get_json_once cl path params =
     (let s = rc_settings cl in
      case clock_auth s of
        None \<Rightarrow> raise (ClockMappingRequired ''Clock Digest credentials are required for live API access'')
      | Some auth \<Rightarrow>
          (if \<not> truthy (se_clock_subscription_id s) \<or> \<not> truthy (se_clock_account_id s)
           then raise (ClockMappingRequired ''Clock subscription and account IDs are required'')
           else
             bindE (lift_result (format_path cl path
                      [(''subscription_id'', the (se_clock_subscription_id s)),
                       (''account_id'', the (se_clock_account_id s))])) (\<lambda>formatted.
             bindE (rc_get cl auth
                      (se_clock_base_url s @ ''/'' @ dropWhile (\<lambda>c. c = CHR ''/'') formatted) params) (\<lambda>response.
             if 400 \<le> hr_status_code response then raise (OtherError ''HTTPStatusError'')
             else lift_result (hr_json response)))))"

definition get_json :: "'c rest_client \<Rightarrow> string \<Rightarrow> (string \<times> string) list \<Rightarrow> ('c, json) eff" where
  "get_json cl path params = rc_retry cl retryable 5 (get_json_once cl path params)"

definition require_confirmed_contract :: "'c rest_client \<Rightarrow> clock_api_contract result" where
  "require_confirmed_contract cl =
     (case rc_contract cl of
        None \<Rightarrow> Inl (ClockMappingRequired
          (''Live Clock adapter is disabled until a verified ClockApiContract is supplied ''
           @ ''from official Clock documentation or sanitized sandbox evidence.''))
      | Some contract \<Rightarrow> bind_result (require_live_ready contract) (\<lambda>_. Inr contract))"

definition booking_params ::
  "'c rest_client \<Rightarrow> clock_collection_contract \<Rightarrow> datetime option \<Rightarrow> string option
   \<Rightarrow> (string \<times> string) list result" where
  "booking_params cl ct updated_since cursor =
     bind_result
       (case updated_since of
          None \<Rightarrow> Inr []
        | Some t \<Rightarrow>
            (case cc_updated_since_filter ct of
               None \<Rightarrow> Inl (ClockMappingRequired
                 ''Clock bookings incremental filter is not verified in the live contract'')
             | Some f \<Rightarrow> Inr [(f, isoformat (rc_tz cl) t)])) (\<lambda>params.
     case cursor of
       None \<Rightarrow> Inr params
     | Some c \<Rightarrow>
         (if \<not> supports_pagination ct
          then Inl (ClockMappingRequired ''Clock bookings pagination is not verified in the live contract'')
          else case cc_cursor_query_param ct of
            None \<Rightarrow> Inl AssertionError
          | Some q \<Rightarrow> Inr (AList.update q c params)))"

text \<open>The list in a response: the response itself, or under the key of the contract.\<close>

definition response_items :: "clock_collection_contract \<Rightarrow> json \<Rightarrow> json list option" where
  "response_items ct response =
     (case (cc_response_items_key ct, response) of
        (None, JList items) \<Rightarrow> Some items
      | (Some k, JDict d) \<Rightarrow>
          (if k = [] then None else case get_field d k of JList items \<Rightarrow> Some items | _ \<Rightarrow> None)
      | _ \<Rightarrow> None)"

definition next_cursor_of :: "py_text \<Rightarrow> clock_collection_contract \<Rightarrow> json \<Rightarrow> string option" where
  "next_cursor_of lib ct response =
     (case response of
        JDict d \<Rightarrow>
          (if truthy (cc_next_cursor_key ct)
           then case get_field d (the (cc_next_cursor_key ct)) of JNull \<Rightarrow> None | v \<Rightarrow> Some (str_of lib v)
           else None)
      | _ \<Rightarrow> None)"

definition rest_list_bookings :: "'c rest_client \<Rightarrow> 'c list_bookings" where
  "rest_list_bookings cl updated_since cursor =
     bindE (lift_result (require_confirmed_contract cl)) (\<lambda>contract.
     let ct = ca_bookings contract in
     bindE (lift_result (booking_params cl ct updated_since cursor)) (\<lambda>params.
     bindE (get_json cl (cc_endpoint_path ct) params) (\<lambda>response.
     case response_items ct response of
       None \<Rightarrow> raise (ClockMappingRequired ''Clock bookings response shape does not match verified contract'')
     | Some items \<Rightarrow>
         ret \<lparr>cp_items = items, cp_next_cursor = next_cursor_of (rc_text cl) ct response\<rparr>)))"

definition rest_list_rooms :: "'c rest_client \<Rightarrow> ('c, json list) eff" where
  "rest_list_rooms cl =
     bindE (lift_result (require_confirmed_contract cl)) (\<lambda>contract.
     let ct = ca_rooms contract in
     bindE (get_json cl (cc_endpoint_path ct) []) (\<lambda>response.
     case response_items ct response of
       None \<Rightarrow> raise (ClockMappingRequired ''Clock rooms response shape does not match verified contract'')
     | Some items \<Rightarrow> ret items))"

section \<open>Clients whose pages stop\<close>

text \<open>
  The contract the polling loop needs of a client to return: a rank that every page with a next
  cursor lowers.
\<close>

locale finite_client =
  fixes list_bookings :: "'c list_bookings"
    and rank :: "string option \<Rightarrow> 'c \<Rightarrow> nat"
  assumes page_lowers:
    "\<lbrakk>list_bookings (Some since) cursor c = (Inr page, c'); cp_next_cursor page = Some n\<rbrakk>
       \<Longrightarrow> rank (Some n) c' < rank cursor c"
begin

lemma collects: "\<exists>r. collect_pages list_bookings since cursor raw c = Some r"
proof (induction "rank cursor c" arbitrary: cursor raw c rule: less_induct)
  case less
  obtain r c' where p: "list_bookings (Some since) cursor c = (r, c')" by fastforce
  show ?case
  proof (cases r)
    case (Inl e)
    with p show ?thesis by (simp add: collect_pages.simps)
  next
    case (Inr page)
    show ?thesis
    proof (cases "cp_next_cursor page")
      case None
      with p Inr show ?thesis by (simp add: collect_pages.simps)
    next
      case (Some n)
      from less [OF page_lowers [OF p [unfolded Inr] Some]] p Inr Some show ?thesis
        by (simp add: collect_pages.simps)
    qed
  qed
qed

lemma poll_returns:
  assumes "sv_list_bookings sv = list_bookings"
  shows "\<exists>r c'. poll_once sv cursor now c = Some (r, c')"
  using collects [of "incremental_window_start cursor (sv_settings sv) now" "sc_cursor_value cursor" "[]" c] assms
  by (auto simp: poll_once_def)

end

text \<open>The fixture client, and the REST client under a contract without a cursor key.\<close>

interpretation fixture: finite_client "fixture_list_bookings fx" "\<lambda>_ _. 0" for fx
  by unfold_locales
    (auto simp: fixture_list_bookings_def load_json_list_def bindE_def split: prod.splits sum.splits json.splits)

text \<open>The client whose contract, if it has one, names no cursor key for the bookings.\<close>

definition without_cursor :: "'c rest_client \<Rightarrow> 'c rest_client" where
  "without_cursor cl = cl\<lparr>rc_contract := map_option (\<lambda>ca. ca\<lparr>ca_bookings := (ca_bookings ca)\<lparr>cc_next_cursor_key := None\<rparr>\<rparr>)
     (rc_contract cl)\<rparr>"

lemma without_cursor_id:
  assumes "\<And>ca. rc_contract cl = Some ca \<Longrightarrow> cc_next_cursor_key (ca_bookings ca) = None"
  shows "without_cursor cl = cl"
proof (cases "rc_contract cl")
  case None
  then show ?thesis by (simp add: without_cursor_def)
next
  case (Some ca)
  with assms [OF Some] show ?thesis by (simp add: without_cursor_def)
qed

interpretation unpaged: finite_client "rest_list_bookings (without_cursor cl)" "\<lambda>_ _. 0" for cl
  by unfold_locales
    (auto simp: rest_list_bookings_def require_confirmed_contract_def bindE_def Let_def without_cursor_def
      next_cursor_of_def bind_result_def split: option.splits sum.splits prod.splits json.splits)

end
