(* ===== verification/Persistence.thy ===== *)
theory Persistence
  imports Outbox
begin

text \<open>
  The tables of \<^verbatim>\<open>app/persistence/models.py\<close> and the SQLAlchemy session the services work in.
  A table is the list of its rows in insertion order. A session holds two versions of the
  database: the rows as its objects have them, with the assignments and additions that are
  still pending, and the rows as SQL statements see them. A query filters the second and
  returns the objects of the first (the identity map); \<open>flush\<close> writes the pending changes
  statement by statement, updates in the order of the primary key and then inserts in the
  order of the additions, and raises IntegrityError when a statement violates a unique
  constraint. The session factory of the runtime switches autoflush off, so only an explicit
  flush and the commit make changes visible to queries; the flag is part of the session.

  Primary keys and command ids are drawn by \<^verbatim>\<open>uuid4\<close>: the stream of drawn ids is the parameter
  \<open>uuid4\<close>, of which the session counts the draws. Foreign keys are not checked by \<open>flush\<close>, the
  lengths of the string columns are not modelled, and a timestamp with time zone is read back
  as it was written.
\<close>

section \<open>Rows\<close>

record property_row =
  ppr_id :: uuid
  ppr_key :: string
  ppr_name :: string
  ppr_timezone :: string

record room_row =
  rmr_id :: uuid
  rmr_property_id :: uuid
  rmr_key :: string
  rmr_name :: string
  rmr_entrance_key :: string
  rmr_floor :: "string option"
  rmr_clock_room_id :: "string option"
  rmr_enabled :: bool

record booking_row =
  bkr_id :: uuid
  bkr_property_id :: uuid
  bkr_clock_booking_id :: string
  bkr_booking_number :: "string option"
  bkr_external_source :: "string option"
  bkr_external_reference :: "string option"
  bkr_booking_status :: string
  bkr_source_booking_status :: string
  bkr_arrival_date :: date
  bkr_departure_date :: date
  bkr_created_at :: "datetime option"
  bkr_updated_at :: "datetime option"
  bkr_status_changed_at :: "datetime option"
  bkr_room_type_id :: "string option"
  bkr_room_type_name :: "string option"
  bkr_adults :: "int option"
  bkr_children :: "int option"
  bkr_first_seen_at :: datetime
  bkr_last_seen_at :: datetime
  bkr_payload_hash :: string
  bkr_needs_attention :: bool
  bkr_attention_reason :: "string option"

record assignment_row =
  asr_id :: uuid
  asr_booking_id :: uuid
  asr_room_id :: "uuid option"
  asr_clock_room_id :: "string option"
  asr_physical_room_number :: "string option"
  asr_assigned_at :: datetime
  asr_removed_at :: "datetime option"
  asr_is_current :: bool

record room_state_row =
  rsr_id :: uuid
  rsr_room_id :: uuid
  rsr_automation_phase :: string
  rsr_booking_id :: "uuid option"
  rsr_needs_attention :: bool
  rsr_attention_reason :: "string option"
  rsr_effective_from :: datetime
  rsr_expires_at :: "datetime option"
  rsr_intent_version :: int
  rsr_payload_hash :: string
  rsr_created_at :: datetime

record override_row =
  ovr_id :: uuid
  ovr_room_id :: uuid
  ovr_booking_id :: "uuid option"
  ovr_command_id :: uuid
  ovr_control_mode :: string
  ovr_hvac_mode :: "string option"
  ovr_target_temperature_c :: "pyfloat option"
  ovr_water_heater_enabled :: "bool option"
  ovr_starts_at :: datetime
  ovr_expires_at :: "datetime option"
  ovr_checkout_at :: "datetime option"
  ovr_until_checkout :: bool
  ovr_created_by :: "string option"

record cursor_row =
  scr_id :: uuid
  scr_property_id :: uuid
  scr_source :: string
  scr_cursor_value :: "string option"
  scr_last_success_at :: "datetime option"
  scr_updated_at :: datetime

record sync_run_row =
  srr_id :: uuid
  srr_property_id :: uuid
  srr_started_at :: datetime
  srr_finished_at :: "datetime option"
  srr_status :: string
  srr_processed_bookings :: int
  srr_error_classification :: "string option"
  srr_correlation_id :: uuid

record audit_row =
  aur_id :: uuid
  aur_property_id :: "uuid option"
  aur_room_id :: "uuid option"
  aur_booking_id :: "uuid option"
  aur_event_type :: string
  aur_message :: string
  aur_payload :: "payload option"
  aur_created_at :: datetime
  aur_correlation_id :: uuid

record database =
  db_properties :: "property_row list"
  db_rooms :: "room_row list"
  db_bookings :: "booking_row list"
  db_assignments :: "assignment_row list"
  db_room_states :: "room_state_row list"
  db_overrides :: "override_row list"
  db_cursors :: "cursor_row list"
  db_sync_runs :: "sync_run_row list"
  db_outbox :: "outbox_event list"
  db_audit :: "audit_row list"

definition empty_database :: database where
  "empty_database =
     \<lparr>db_properties = [], db_rooms = [], db_bookings = [], db_assignments = [], db_room_states = [],
      db_overrides = [], db_cursors = [], db_sync_runs = [], db_outbox = [], db_audit = []\<rparr>"

section \<open>Tables\<close>

record 'r db_table =
  tb_get :: "database \<Rightarrow> 'r list"
  tb_upd :: "('r list \<Rightarrow> 'r list) \<Rightarrow> database \<Rightarrow> database"
  tb_id :: "'r \<Rightarrow> uuid"

definition properties_t :: "property_row db_table" where
  "properties_t = \<lparr>tb_get = db_properties, tb_upd = db_properties_update, tb_id = ppr_id\<rparr>"

definition rooms_t :: "room_row db_table" where
  "rooms_t = \<lparr>tb_get = db_rooms, tb_upd = db_rooms_update, tb_id = rmr_id\<rparr>"

definition bookings_t :: "booking_row db_table" where
  "bookings_t = \<lparr>tb_get = db_bookings, tb_upd = db_bookings_update, tb_id = bkr_id\<rparr>"

definition assignments_t :: "assignment_row db_table" where
  "assignments_t = \<lparr>tb_get = db_assignments, tb_upd = db_assignments_update, tb_id = asr_id\<rparr>"

definition room_states_t :: "room_state_row db_table" where
  "room_states_t = \<lparr>tb_get = db_room_states, tb_upd = db_room_states_update, tb_id = rsr_id\<rparr>"

definition overrides_t :: "override_row db_table" where
  "overrides_t = \<lparr>tb_get = db_overrides, tb_upd = db_overrides_update, tb_id = ovr_id\<rparr>"

definition cursors_t :: "cursor_row db_table" where
  "cursors_t = \<lparr>tb_get = db_cursors, tb_upd = db_cursors_update, tb_id = scr_id\<rparr>"

definition sync_runs_t :: "sync_run_row db_table" where
  "sync_runs_t = \<lparr>tb_get = db_sync_runs, tb_upd = db_sync_runs_update, tb_id = srr_id\<rparr>"

definition outbox_t :: "outbox_event db_table" where
  "outbox_t = \<lparr>tb_get = db_outbox, tb_upd = db_outbox_update, tb_id = oe_id\<rparr>"

definition audit_t :: "audit_row db_table" where
  "audit_t = \<lparr>tb_get = db_audit, tb_upd = db_audit_update, tb_id = aur_id\<rparr>"

lemmas table_defs =
  properties_t_def rooms_t_def bookings_t_def assignments_t_def room_states_t_def overrides_t_def
  cursors_t_def sync_runs_t_def outbox_t_def audit_t_def

lemma table_simps [simp]:
  "tb_get properties_t = db_properties" "tb_get rooms_t = db_rooms" "tb_get bookings_t = db_bookings"
  "tb_get assignments_t = db_assignments" "tb_get room_states_t = db_room_states"
  "tb_get overrides_t = db_overrides" "tb_get cursors_t = db_cursors" "tb_get sync_runs_t = db_sync_runs"
  "tb_get outbox_t = db_outbox" "tb_get audit_t = db_audit"
  "tb_upd properties_t = db_properties_update" "tb_upd rooms_t = db_rooms_update"
  "tb_upd bookings_t = db_bookings_update" "tb_upd assignments_t = db_assignments_update"
  "tb_upd room_states_t = db_room_states_update" "tb_upd overrides_t = db_overrides_update"
  "tb_upd cursors_t = db_cursors_update" "tb_upd sync_runs_t = db_sync_runs_update"
  "tb_upd outbox_t = db_outbox_update" "tb_upd audit_t = db_audit_update"
  "tb_id properties_t = ppr_id" "tb_id rooms_t = rmr_id" "tb_id bookings_t = bkr_id"
  "tb_id assignments_t = asr_id" "tb_id room_states_t = rsr_id" "tb_id overrides_t = ovr_id"
  "tb_id cursors_t = scr_id" "tb_id sync_runs_t = srr_id" "tb_id outbox_t = oe_id" "tb_id audit_t = aur_id"
  by (simp_all add: table_defs)

section \<open>Constraints and flushing\<close>

definition uq_properties :: "property_row list \<Rightarrow> bool" where
  "uq_properties rows = distinct (map ppr_key rows)"

definition uq_rooms :: "room_row list \<Rightarrow> bool" where
  "uq_rooms rows =
     (distinct (map (\<lambda>r. (rmr_property_id r, rmr_key r)) rows)
      \<and> distinct (map (\<lambda>r. (rmr_property_id r, rmr_clock_room_id r))
                    (filter (\<lambda>r. rmr_clock_room_id r \<noteq> None) rows)))"

definition uq_bookings :: "booking_row list \<Rightarrow> bool" where
  "uq_bookings rows = distinct (map (\<lambda>b. (bkr_property_id b, bkr_clock_booking_id b)) rows)"

text \<open>The partial index on the current assignments.\<close>

definition uq_assignments :: "assignment_row list \<Rightarrow> bool" where
  "uq_assignments rows = distinct (map asr_booking_id (filter asr_is_current rows))"

definition uq_overrides :: "override_row list \<Rightarrow> bool" where
  "uq_overrides rows = distinct (map ovr_command_id rows)"

definition uq_cursors :: "cursor_row list \<Rightarrow> bool" where
  "uq_cursors rows = distinct (map (\<lambda>c. (scr_property_id c, scr_source c)) rows)"

definition no_uq :: "'r list \<Rightarrow> bool" where
  "no_uq rows = True"

text \<open>One INSERT or UPDATE after another, each checked.\<close>

definition put_row :: "('r \<Rightarrow> uuid) \<Rightarrow> 'r \<Rightarrow> 'r list \<Rightarrow> 'r list" where
  "put_row rid u rows =
     (if rid u \<in> rid ` set rows then map (\<lambda>r. if rid r = rid u then u else r) rows else rows @ [u])"

fun statements_ok :: "('r \<Rightarrow> uuid) \<Rightarrow> ('r list \<Rightarrow> bool) \<Rightarrow> 'r list \<Rightarrow> 'r list \<Rightarrow> bool" where
  "statements_ok rid ok rows [] = True"
| "statements_ok rid ok rows (u # us) =
     (ok (put_row rid u rows) \<and> statements_ok rid ok (put_row rid u rows) us)"

definition flush_rows :: "('r \<Rightarrow> uuid) \<Rightarrow> ('r list \<Rightarrow> bool) \<Rightarrow> 'r list \<Rightarrow> 'r list \<Rightarrow> bool" where
  "flush_rows rid ok old new =
     (distinct (map rid new)
      \<and> statements_ok rid ok old
          (sort_key rid (filter (\<lambda>r. rid r \<in> rid ` set old \<and> r \<notin> set old) new)
           @ filter (\<lambda>r. rid r \<notin> rid ` set old) new))"

definition flush_table :: "'r db_table \<Rightarrow> ('r list \<Rightarrow> bool) \<Rightarrow> database \<Rightarrow> database \<Rightarrow> bool" where
  "flush_table t ok old new = flush_rows (tb_id t) ok (tb_get t old) (tb_get t new)"

definition flush_ok :: "database \<Rightarrow> database \<Rightarrow> bool" where
  "flush_ok old new =
     (flush_table properties_t uq_properties old new \<and> flush_table rooms_t uq_rooms old new
      \<and> flush_table bookings_t uq_bookings old new \<and> flush_table assignments_t uq_assignments old new
      \<and> flush_table room_states_t no_uq old new \<and> flush_table overrides_t uq_overrides old new
      \<and> flush_table cursors_t uq_cursors old new \<and> flush_table sync_runs_t no_uq old new
      \<and> flush_table outbox_t no_uq old new \<and> flush_table audit_t no_uq old new)"

section \<open>The session\<close>

record session =
  ss_db :: database
  ss_flushed :: database
  ss_autoflush :: bool
  ss_draws :: nat

abbreviation IntegrityError :: pyexc where
  "IntegrityError \<equiv> OtherError ''IntegrityError''"

abbreviation MultipleResultsFound :: pyexc where
  "MultipleResultsFound \<equiv> OtherError ''MultipleResultsFound''"

abbreviation NoResultFound :: pyexc where
  "NoResultFound \<equiv> OtherError ''NoResultFound''"

definition flush :: "(session, unit) eff" where
  "flush s =
     (if flush_ok (ss_flushed s) (ss_db s) then (Inr (), s\<lparr>ss_flushed := ss_db s\<rparr>)
      else (Inl IntegrityError, s))"

definition autoflush :: "(session, unit) eff" where
  "autoflush s = (if ss_autoflush s then flush s else (Inr (), s))"

text \<open>\<^verbatim>\<open>uuid4()\<close>\<close>

definition draw_uuid :: "(nat \<Rightarrow> uuid) \<Rightarrow> (session, uuid) eff" where
  "draw_uuid uuid4 s = (Inr (uuid4 (ss_draws s)), s\<lparr>ss_draws := ss_draws s + 1\<rparr>)"

text \<open>\<^verbatim>\<open>session.add(row)\<close>, and an attribute assignment to the object of a row.\<close>

definition add_row :: "'r db_table \<Rightarrow> 'r \<Rightarrow> (session, unit) eff" where
  "add_row t r = modify (\<lambda>s. s\<lparr>ss_db := tb_upd t (\<lambda>rows. rows @ [r]) (ss_db s)\<rparr>)"

definition set_row :: "'r db_table \<Rightarrow> uuid \<Rightarrow> ('r \<Rightarrow> 'r) \<Rightarrow> (session, unit) eff" where
  "set_row t i f =
     modify (\<lambda>s. s\<lparr>ss_db := tb_upd t (map (\<lambda>r. if tb_id t r = i then f r else r)) (ss_db s)\<rparr>)"

text \<open>The object of a row that a statement returned.\<close>

definition object_of :: "'r db_table \<Rightarrow> database \<Rightarrow> 'r \<Rightarrow> 'r" where
  "object_of t d x = (case find (\<lambda>r. tb_id t r = tb_id t x) (tb_get t d) of Some r \<Rightarrow> r | None \<Rightarrow> x)"

text \<open>\<^verbatim>\<open>session.execute(select(...)).scalars()\<close>: \<open>q\<close> is the statement on the rows of its table.\<close>

definition scalars :: "'r db_table \<Rightarrow> ('r list \<Rightarrow> 'r list) \<Rightarrow> (session, 'r list) eff" where
  "scalars t q =
     bindE autoflush (\<lambda>_.
     gets (\<lambda>s. map (object_of t (ss_db s)) (q (tb_get t (ss_flushed s)))))"

definition scalar_one_or_none :: "'r db_table \<Rightarrow> ('r list \<Rightarrow> 'r list) \<Rightarrow> (session, 'r option) eff" where
  "scalar_one_or_none t q =
     bindE (scalars t q) (\<lambda>rows.
     case rows of [] \<Rightarrow> ret None | [r] \<Rightarrow> ret (Some r) | _ \<Rightarrow> raise MultipleResultsFound)"

definition scalar_one :: "'r db_table \<Rightarrow> ('r list \<Rightarrow> 'r list) \<Rightarrow> (session, 'r) eff" where
  "scalar_one t q =
     bindE (scalars t q) (\<lambda>rows.
     case rows of [r] \<Rightarrow> ret r | [] \<Rightarrow> raise NoResultFound | _ \<Rightarrow> raise MultipleResultsFound)"

text \<open>\<^verbatim>\<open>session.get(Model, id)\<close>: the object of a row that has been written.\<close>

definition get_row :: "'r db_table \<Rightarrow> uuid \<Rightarrow> (session, 'r option) eff" where
  "get_row t i =
     gets (\<lambda>s. map_option (object_of t (ss_db s)) (find (\<lambda>r. tb_id t r = i) (tb_get t (ss_flushed s))))"

text \<open>
  \<^verbatim>\<open>with session.begin()\<close>: the commit flushes; an exception, of the block or of the commit, rolls
  back to the database at the start.
\<close>

definition transaction :: "(session, 'a) eff \<Rightarrow> (session, 'a) eff" where
  "transaction m s =
     (case bindE m (\<lambda>v. bindE flush (\<lambda>_. ret v)) s of
        (Inr v, s') \<Rightarrow> (Inr v, s')
      | (Inl e, s') \<Rightarrow> (Inl e, s'\<lparr>ss_db := ss_db s, ss_flushed := ss_flushed s\<rparr>))"

text \<open>A session of the runtime's factory over the committed database.\<close>

definition new_session :: "database \<Rightarrow> nat \<Rightarrow> session" where
  "new_session d n = \<lparr>ss_db = d, ss_flushed = d, ss_autoflush = False, ss_draws = n\<rparr>"

section \<open>The contract of a table\<close>

text \<open>
  What the services use of a table: its rows can be read and replaced. Inside the contract the
  session operations are computed for a table without pending changes.
\<close>

lemma object_of_stored:
  assumes "distinct (map (tb_id t) (tb_get t d))" and "r \<in> set (tb_get t d)"
  shows "object_of t d r = r"
proof -
  have "find (\<lambda>x. tb_id t x = tb_id t r) xs = Some r"
    if "distinct (map (tb_id t) xs)" "r \<in> set xs" for xs
    using that by (induction xs) (auto simp: image_iff)
  with assms show ?thesis by (simp add: object_of_def)
qed

definition clean :: "'r db_table \<Rightarrow> session \<Rightarrow> bool" where
  "clean t s \<longleftrightarrow>
     \<not> ss_autoflush s \<and> tb_get t (ss_flushed s) = tb_get t (ss_db s)
     \<and> distinct (map (tb_id t) (tb_get t (ss_db s)))"

lemma scalars_clean:
  assumes "clean t s" and "set (q (tb_get t (ss_db s))) \<subseteq> set (tb_get t (ss_db s))"
  shows "scalars t q s = (Inr (q (tb_get t (ss_db s))), s)"
proof -
  have "map (object_of t (ss_db s)) (q (tb_get t (ss_db s))) = q (tb_get t (ss_db s))"
    using assms by (intro map_idI) (auto simp: clean_def intro!: object_of_stored)
  with assms(1) show ?thesis by (simp add: scalars_def bindE_def autoflush_def clean_def)
qed

text \<open>A statement returns rows of its table.\<close>

definition selects :: "('r list \<Rightarrow> 'r list) \<Rightarrow> bool" where
  "selects q \<longleftrightarrow> (\<forall>rows. set (q rows) \<subseteq> set rows)"

lemma selects_filter [intro, simp]: "selects (filter p)"
  by (auto simp: selects_def)

definition one_or_none :: "'r list \<Rightarrow> 'r option result" where
  "one_or_none rows = (case rows of [] \<Rightarrow> Inr None | [r] \<Rightarrow> Inr (Some r) | _ \<Rightarrow> Inl MultipleResultsFound)"

lemma one_or_none_simps [simp]: "one_or_none [] = Inr None" "one_or_none [r] = Inr (Some r)"
  by (simp_all add: one_or_none_def)

lemma scalar_one_or_none_clean:
  assumes "clean t s" and "selects q"
  shows "scalar_one_or_none t q s = (one_or_none (q (tb_get t (ss_db s))), s)"
  using scalars_clean [OF assms(1), of q] assms(2)
  by (auto simp: scalar_one_or_none_def bindE_def one_or_none_def selects_def split: list.split)

lemma find_id_stored:
  assumes "distinct (map rid rows)" and "r \<in> set rows"
  shows "find (\<lambda>x. rid x = rid r) rows = Some r"
  using assms by (induction rows) (auto simp: image_iff)

lemma get_row_clean:
  assumes "clean t s"
  shows "get_row t i s = (Inr (find (\<lambda>r. tb_id t r = i) (tb_get t (ss_db s))), s)"
proof (cases "find (\<lambda>r. tb_id t r = i) (tb_get t (ss_db s))")
  case None
  with assms show ?thesis by (simp add: get_row_def clean_def)
next
  case (Some r)
  then have "r \<in> set (tb_get t (ss_db s))" by (auto dest: find_SomeD)
  with Some assms object_of_stored [of t "ss_db s" r] show ?thesis
    by (simp add: get_row_def clean_def)
qed

lemma filter_unique_id:
  assumes "distinct (map rid rows)" and "r \<in> set rows"
  shows "filter (\<lambda>x. rid x = rid r) rows = [r]"
  using assms by (induction rows) (auto simp: image_iff filter_empty_conv)

locale stored_table =
  fixes t :: "'r db_table"
  assumes get_upd: "tb_get t (tb_upd t f d) = f (tb_get t d)"
    and upd_same: "f (tb_get t d) = tb_get t d \<Longrightarrow> tb_upd t f d = d"
begin

lemma add_row_get: "tb_get t (ss_db (snd (add_row t r s))) = tb_get t (ss_db s) @ [r]"
  by (simp add: add_row_def get_upd)

lemma add_row_flushed: "ss_flushed (snd (add_row t r s)) = ss_flushed s"
  by (simp add: add_row_def)

lemma set_row_get:
  "tb_get t (ss_db (snd (set_row t i f s))) = map (\<lambda>r. if tb_id t r = i then f r else r) (tb_get t (ss_db s))"
  by (simp add: set_row_def get_upd)

text \<open>Assigning the values a row has already changes nothing.\<close>

lemma set_row_same:
  assumes "distinct (map (tb_id t) (tb_get t (ss_db s)))" and "r \<in> set (tb_get t (ss_db s))" and "f r = r"
  shows "set_row t (tb_id t r) f s = (Inr (), s)"
proof -
  have "map (\<lambda>x. if tb_id t x = tb_id t r then f x else x) (tb_get t (ss_db s)) = tb_get t (ss_db s)"
    using assms by (intro map_idI) (auto dest: inj_onD [OF distinct_map [THEN iffD1, THEN conjunct2]])
  then have "tb_upd t (map (\<lambda>x. if tb_id t x = tb_id t r then f x else x)) (ss_db s) = ss_db s"
    by (rule upd_same)
  then show ?thesis by (simp add: set_row_def)
qed

end

interpretation properties_tab: stored_table properties_t
  by unfold_locales simp_all
interpretation rooms_tab: stored_table rooms_t
  by unfold_locales simp_all
interpretation bookings_tab: stored_table bookings_t
  by unfold_locales simp_all
interpretation assignments_tab: stored_table assignments_t
  by unfold_locales simp_all
interpretation room_states_tab: stored_table room_states_t
  by unfold_locales simp_all
interpretation overrides_tab: stored_table overrides_t
  by unfold_locales simp_all
interpretation cursors_tab: stored_table cursors_t
  by unfold_locales simp_all
interpretation sync_runs_tab: stored_table sync_runs_t
  by unfold_locales simp_all
interpretation outbox_tab: stored_table outbox_t
  by unfold_locales simp_all
interpretation audit_tab: stored_table audit_t
  by unfold_locales simp_all

section \<open>Flushing\<close>

lemma flush_rows_no_uq: "flush_rows rid no_uq old new \<longleftrightarrow> distinct (map rid new)"
proof -
  have "statements_ok rid no_uq rows us" for rows us
    by (induction us arbitrary: rows) (simp_all add: no_uq_def)
  then show ?thesis by (simp add: flush_rows_def)
qed

lemma flush_rows_same: "flush_rows rid ok rows rows \<longleftrightarrow> distinct (map rid rows)"
proof -
  have "filter (\<lambda>r. rid r \<in> rid ` set rows \<and> r \<notin> set rows) rows = []"
    "filter (\<lambda>r. rid r \<notin> rid ` set rows) rows = []"
    by (auto simp: filter_empty_conv)
  then show ?thesis by (simp add: flush_rows_def)
qed

lemma flush_rows_append:
  assumes "distinct (map rid rows)" and "rid r \<notin> rid ` set rows"
  shows "flush_rows rid ok rows (rows @ [r]) \<longleftrightarrow> ok (rows @ [r])"
proof -
  have "filter (\<lambda>x. rid x \<in> rid ` set rows \<and> x \<notin> set rows) (rows @ [r]) = []"
    using assms(2) by (auto simp: filter_empty_conv)
  moreover have "filter (\<lambda>x. rid x \<notin> rid ` set rows) (rows @ [r]) = [r]"
    using assms(2) by (auto simp: filter_empty_conv)
  ultimately show ?thesis
    using assms by (simp add: flush_rows_def put_row_def)
qed

lemma flush_rows_set:
  assumes "distinct (map rid rows)" and "r \<in> set rows" and "rid (f r) = rid r"
    and "ok rows" and "ok (map (\<lambda>x. if rid x = rid r then f x else x) rows)"
  shows "flush_rows rid ok rows (map (\<lambda>x. if rid x = rid r then f x else x) rows)"
proof -
  let ?g = "\<lambda>x. if rid x = rid r then f x else x"
  have same: "x = r" if "x \<in> set rows" "rid x = rid r" for x
    using assms(1,2) that by (auto simp: distinct_map inj_on_def)
  have ids: "map rid (map ?g rows) = map rid rows" using same assms(3) by auto
  have split: "rows = filter (\<lambda>_. True) rows" by simp
  have upd: "filter (\<lambda>x. rid x \<in> rid ` set rows \<and> x \<notin> set rows) (map ?g rows)
      = (if f r \<in> set rows then [] else [f r])"
  proof -
    have "filter (\<lambda>x. rid x \<in> rid ` set rows \<and> x \<notin> set rows) (map ?g xs)
      = (if f r \<in> set rows \<or> r \<notin> set xs then [] else [f r])"
      if "set xs \<subseteq> set rows" "distinct (map rid xs)" for xs
      using that
    proof (induction xs)
      case Nil
      then show ?case by simp
    next
      case (Cons x xs)
      show ?case
      proof (cases "rid x = rid r")
        case True
        with Cons.prems same have x: "x = r" by auto
        with Cons.prems have "r \<notin> set xs" by auto
        with Cons x assms(2,3) show ?thesis by (auto simp: image_iff)
      next
        case False
        with Cons show ?thesis by auto
      qed
    qed
    from this [of rows] assms(1,2) show ?thesis by simp
  qed
  have ins: "filter (\<lambda>x. rid x \<notin> rid ` set rows) (map ?g rows) = []"
  proof -
    from arg_cong [OF ids, of set] have "rid ` set (map ?g rows) = rid ` set rows" by (simp only: set_map)
    then have "rid x \<in> rid ` set rows" if "x \<in> set (map ?g rows)" for x using that by blast
    then show ?thesis by (simp only: filter_empty_conv) blast
  qed
  have put: "put_row rid (f r) rows = map ?g rows"
  proof -
    have "map (\<lambda>x. if rid x = rid (f r) then f r else x) rows = map ?g rows"
      using same assms(3) by (intro map_cong) auto
    then show ?thesis using assms(2,3) by (auto simp: put_row_def)
  qed
  show ?thesis unfolding flush_rows_def ids
    using assms(1,5) put by (simp only: upd ins) (simp add: ids)
qed

lemma flush_rows_distinct: "flush_rows rid ok old new \<Longrightarrow> distinct (map rid new)"
  by (simp add: flush_rows_def)

lemma flush_ok_distinct:
  assumes "flush_ok old new"
  shows "distinct (map ppr_id (db_properties new))" "distinct (map rmr_id (db_rooms new))"
    "distinct (map bkr_id (db_bookings new))" "distinct (map asr_id (db_assignments new))"
    "distinct (map rsr_id (db_room_states new))" "distinct (map ovr_id (db_overrides new))"
    "distinct (map scr_id (db_cursors new))" "distinct (map srr_id (db_sync_runs new))"
    "distinct (map oe_id (db_outbox new))" "distinct (map aur_id (db_audit new))"
  using assms by (auto simp: flush_ok_def flush_table_def dest: flush_rows_distinct)

lemma flush_Inr: "flush s = (Inr u, s') \<longleftrightarrow> flush_ok (ss_flushed s) (ss_db s) \<and> s' = s\<lparr>ss_flushed := ss_db s\<rparr>"
  by (auto simp: flush_def)

lemma transaction_Inr:
  assumes "transaction m s = (Inr v, s')"
  obtains s1 where "m s = (Inr v, s1)" "flush_ok (ss_flushed s1) (ss_db s1)" "s' = s1\<lparr>ss_flushed := ss_db s1\<rparr>"
proof -
  from assms have "bindE m (\<lambda>v. bindE flush (\<lambda>_. ret v)) s = (Inr v, s')"
    by (auto simp: transaction_def split: prod.splits sum.splits)
  then show thesis
    by (auto elim!: bindE_Inr_E simp: flush_Inr intro: that)
qed

lemma transaction_Inl:
  assumes "transaction m s = (Inl e, s')"
  shows "ss_db s' = ss_db s" "ss_flushed s' = ss_flushed s"
  using assms by (auto simp: transaction_def split: prod.splits sum.splits)

lemma transaction_ok:
  assumes "m s = (Inr v, s1)" and "flush_ok (ss_flushed s1) (ss_db s1)"
  shows "transaction m s = (Inr v, s1\<lparr>ss_flushed := ss_db s1\<rparr>)"
  using assms by (simp add: transaction_def bindE_def flush_def)

lemma transaction_raised:
  assumes "m s = (Inl e, s1)"
  shows "transaction m s = (Inl e, s1\<lparr>ss_db := ss_db s, ss_flushed := ss_flushed s\<rparr>)"
  using assms by (simp add: transaction_def bindE_def)

end
