(* ===== verification/Policy_Control.thy ===== *)
theory Policy_Control
  imports Persistence Mqtt_Topics Policy_Engine Clock_Normalizer
begin

text \<open>
  \<^verbatim>\<open>app/policy/control.py\<close>: commands that Home Assistant sends over MQTT for one field of a
  room's manual override. The current override row gives a draft, the command changes one field
  of it, and the result is stored as a new row together with the control state to publish and
  an audit event; a rejected command is only audited. The text functions come first, then the
  rows, then the service. A payload is a list of bytes, one \<open>char\<close> each.
\<close>

section \<open>The service's parameters\<close>

text \<open>
  What both database services are constructed with: the registry, the policy, the topics and
  the cursor source, and the parts of the environment they call: \<^verbatim>\<open>uuid4\<close>, the zone database,
  the text functions, the UTF-8 decoder beyond ASCII and the text of its exception.
\<close>

record db_service =
  dv_registry :: room_registry
  dv_policy :: hotel_policy
  dv_topics :: mqtt_topics
  dv_cursor_source :: string
  dv_uuid4 :: "nat \<Rightarrow> uuid"
  dv_tz :: tzdb
  dv_text :: py_text
  dv_decode :: "string \<Rightarrow> string result"
  dv_decode_error :: string

definition fresh_id :: "db_service \<Rightarrow> (session, uuid) eff" where
  "fresh_id sv = draw_uuid (dv_uuid4 sv)"

abbreviation utc :: "db_service \<Rightarrow> datetime \<Rightarrow> datetime" where
  "utc sv d \<equiv> to_utc (dv_tz sv) (Aware d)"

section \<open>Texts\<close>

definition is_digit :: "char \<Rightarrow> bool" where
  "is_digit c = (CHR ''0'' \<le> c \<and> c \<le> CHR ''9'')"

text \<open>\<^verbatim>\<open>str.isspace\<close> on the characters of one byte.\<close>

definition is_space :: "char \<Rightarrow> bool" where
  "is_space c = ((of_char c :: nat) \<in> {9, 10, 11, 12, 13, 28, 29, 30, 31, 32, 133, 160})"

definition strip_space :: "string \<Rightarrow> string" where
  "strip_space = strip_by is_space"

text \<open>\<^verbatim>\<open>bytes.decode("utf-8")\<close>: ASCII bytes stand for themselves.\<close>

definition utf8_decode :: "db_service \<Rightarrow> string \<Rightarrow> string result" where
  "utf8_decode sv b = (if list_all (\<lambda>c. (of_char c :: nat) < 128) b then Inr b else dv_decode sv b)"

text \<open>\<^verbatim>\<open>str(exc)\<close> of the ValueErrors that the commands raise.\<close>

fun exc_text :: "db_service \<Rightarrow> pyexc \<Rightarrow> string" where
  "exc_text sv (ValueError m) = m"
| "exc_text sv (ValidationError m) = m"
| "exc_text sv (G301PlanningError m) = m"
| "exc_text sv UnicodeDecodeError = dv_decode_error sv"
| "exc_text sv e = []"

definition quoted :: "string \<Rightarrow> bool" where
  "quoted s = (2 \<le> length s \<and> hd s = CHR 0x22 \<and> last s = CHR 0x22)"

definition payload_text :: "db_service \<Rightarrow> string \<Rightarrow> string result" where
  "payload_text sv payload =
     bind_result (utf8_decode sv payload) (\<lambda>decoded.
     let text = strip_space decoded in
     Inr (if quoted text then strip_space (butlast (tl text)) else text))"

text \<open>
  \<^verbatim>\<open>float(text)\<close>: optional sign, \<^verbatim>\<open>inf\<close>, \<^verbatim>\<open>infinity\<close> and \<^verbatim>\<open>nan\<close> in any case, or a decimal
  literal with optional exponent; underscores are allowed between digits; the value is
  rounded to the nearest float.
\<close>

fun underscores_ok :: "char \<Rightarrow> string \<Rightarrow> bool" where
  "underscores_ok prev [] = (prev \<noteq> CHR ''_'')"
| "underscores_ok prev (c # cs) =
     ((if c = CHR ''_'' then is_digit prev else prev = CHR ''_'' \<longrightarrow> is_digit c) \<and> underscores_ok c cs)"

fun split_sign :: "string \<Rightarrow> bool \<times> string" where
  "split_sign (c # cs) =
     (if c = CHR ''-'' then (True, cs) else if c = CHR ''+'' then (False, cs) else (False, c # cs))"
| "split_sign [] = (False, [])"

definition decimal_value :: "string \<Rightarrow> int \<Rightarrow> pyfloat" where
  "decimal_value digits e = round64 (of_int (int_of_digits digits) * 10 powi e)"

definition parse_exponent :: "string \<Rightarrow> int option" where
  "parse_exponent s =
     (case s of
        [] \<Rightarrow> Some 0
      | c # cs \<Rightarrow>
          (if c \<noteq> CHR ''e'' then None
           else case split_sign cs of (neg, ds) \<Rightarrow>
             (if ds = [] \<or> \<not> list_all is_digit ds then None
              else Some (if neg then - int_of_digits ds else int_of_digits ds))))"

definition parse_unsigned :: "string \<Rightarrow> pyfloat option" where
  "parse_unsigned s =
     (if s \<in> {''inf'', ''infinity''} then Some PInf
      else if s = ''nan'' then Some NaN
      else
        let ip = takeWhile is_digit s; r = dropWhile is_digit s;
            fp = (case r of [] \<Rightarrow> [] | c # cs \<Rightarrow> if c = CHR ''.'' then takeWhile is_digit cs else []);
            rest = (case r of [] \<Rightarrow> [] | c # cs \<Rightarrow> if c = CHR ''.'' then dropWhile is_digit cs else r)
        in if ip @ fp = [] then None
           else map_option (\<lambda>e. decimal_value (ip @ fp) (e - int (length fp))) (parse_exponent rest))"

fun f_neg :: "pyfloat \<Rightarrow> pyfloat" where
  "f_neg (Fin q) = Fin (- q)"
| "f_neg PInf = NInf"
| "f_neg NInf = PInf"
| "f_neg NaN = NaN"

definition py_float :: "string \<Rightarrow> pyfloat option" where
  "py_float s =
     (let t = strip_space s in
      if \<not> underscores_ok (CHR 0x00) t then None
      else case split_sign (filter (\<lambda>c. c \<noteq> CHR ''_'') (lower t)) of
        (neg, u) \<Rightarrow> map_option (\<lambda>v. if neg then f_neg v else v) (parse_unsigned u))"

definition parse_control_mode :: "string \<Rightarrow> control_mode result" where
  "parse_control_mode v =
     (case control_mode_of v of
        Inr m \<Rightarrow> Inr m | Inl _ \<Rightarrow> Inl (ValueError (''unsupported control mode: '' @ v)))"

definition parse_hvac_mode :: "string \<Rightarrow> manual_hvac_mode result" where
  "parse_hvac_mode v =
     (case manual_hvac_mode_of v of
        Inr m \<Rightarrow> Inr m | Inl _ \<Rightarrow> Inl (ValueError (''unsupported HVAC mode: '' @ v)))"

definition parse_temperature :: "string \<Rightarrow> pyfloat result" where
  "parse_temperature v =
     (case py_float v of
        Some t \<Rightarrow> Inr t | None \<Rightarrow> Inl (ValueError (''invalid target temperature: '' @ v)))"

definition DEFAULT_DURATION :: string where
  "DEFAULT_DURATION = ''60''"

definition SUPPORTED_DURATIONS :: "string list" where
  "SUPPORTED_DURATIONS = [''60'', ''240'', ''720'', ''until_checkout'']"

definition COMMAND_SOURCE :: string where
  "COMMAND_SOURCE = ''home_assistant_mqtt''"

definition parse_duration :: "string \<Rightarrow> automation_policy \<Rightarrow> string result" where
  "parse_duration v ap =
     (if v \<notin> set SUPPORTED_DURATIONS then Inl (ValueError (''unsupported override duration: '' @ v))
      else if v \<noteq> ''until_checkout'' \<and> ap_manual_override_max_minutes ap < int_of_digits v
      then Inl (ValueError ''manual override duration exceeds policy maximum'')
      else Inr v)"

definition boolean_payload :: "string \<Rightarrow> bool result" where
  "boolean_payload v =
     (let n = lower v in
      if n \<in> {''on'', ''true'', ''1'', ''yes''} then Inr True
      else if n \<in> {''off'', ''false'', ''0'', ''no''} then Inr False
      else Inl (ValueError (''invalid boolean payload: '' @ v)))"

definition expiry_for_duration :: "string \<Rightarrow> datetime \<Rightarrow> datetime option \<times> bool" where
  "expiry_for_duration d now =
     (if d = ''until_checkout'' then (None, True)
      else (Some (dt_plus now (int_of_digits d * minute_us)), False))"

section \<open>Rows\<close>

text \<open>\<^verbatim>\<open>round((a - b).total_seconds() / 60)\<close>\<close>

definition total_seconds :: "timedelta \<Rightarrow> pyfloat" where
  "total_seconds td = round64 (of_int td / 1000000)"

definition duration_from_row :: "db_service \<Rightarrow> override_row \<Rightarrow> string result" where
  "duration_from_row sv row =
     (if ovr_until_checkout row then Inr ''until_checkout''
      else case ovr_expires_at row of
        None \<Rightarrow> Inr DEFAULT_DURATION
      | Some e \<Rightarrow>
          bind_result (f_round (f_over_int (total_seconds (dt_diff (dv_tz sv) (utc sv e) (utc sv (ovr_starts_at row)))) 60))
            (\<lambda>minutes. Inr (if show_int minutes \<in> set SUPPORTED_DURATIONS then show_int minutes else DEFAULT_DURATION)))"

definition override_row_is_active :: "db_service \<Rightarrow> override_row \<Rightarrow> datetime \<Rightarrow> bool" where
  "override_row_is_active sv row now =
     (if ovr_control_mode row = control_mode_value CM_AUTOMATIC then False
      else if ovr_until_checkout row then
        (if ovr_booking_id row = None then False
         else case ovr_checkout_at row of
           None \<Rightarrow> False | Some c \<Rightarrow> dt_less (dv_tz sv) (utc sv now) (utc sv c))
      else case ovr_expires_at row of
        None \<Rightarrow> False | Some e \<Rightarrow> dt_less (dv_tz sv) (utc sv now) (utc sv e))"

definition default_control_state_payload :: "db_service \<Rightarrow> string \<Rightarrow> datetime \<Rightarrow> payload" where
  "default_control_state_payload sv rkey now =
     [(''schema_version'', JInt 1), (''room_key'', JStr rkey),
      (''control_mode'', JStr (control_mode_value CM_AUTOMATIC)),
      (''manual_hvac_mode'', JStr (manual_hvac_mode_value HV_OFF)),
      (''manual_target_temperature_c'', JNull), (''override_duration'', JStr DEFAULT_DURATION),
      (''manual_water_heater_enabled'', JBool False), (''active'', JBool False),
      (''until_checkout'', JBool False), (''expires_at'', JNull), (''command_id'', JNull),
      (''updated_at'', JStr (isoformat (dv_tz sv) (utc sv now)))]"

definition hvac_mode_text :: "override_row \<Rightarrow> string" where
  "hvac_mode_text row =
     (if truthy (ovr_hvac_mode row) then the (ovr_hvac_mode row) else manual_hvac_mode_value HV_OFF)"

definition control_state_payload_from_override ::
  "db_service \<Rightarrow> string \<Rightarrow> override_row option \<Rightarrow> datetime \<Rightarrow> bool option \<Rightarrow> payload result" where
  "control_state_payload_from_override sv rkey row now active =
     (case row of
        None \<Rightarrow> Inr (default_control_state_payload sv rkey now)
      | Some row \<Rightarrow>
          (if \<not> (case active of None \<Rightarrow> override_row_is_active sv row now | Some a \<Rightarrow> a)
           then Inr (default_control_state_payload sv rkey now)
           else
             let src = (if ovr_expires_at row \<noteq> None then ovr_expires_at row else ovr_checkout_at row) in
             bind_result (duration_from_row sv row) (\<lambda>duration.
             Inr [(''schema_version'', JInt 1), (''room_key'', JStr rkey),
                  (''control_mode'', JStr (ovr_control_mode row)),
                  (''manual_hvac_mode'', JStr (hvac_mode_text row)),
                  (''manual_target_temperature_c'', json_opt JFloat (ovr_target_temperature_c row)),
                  (''override_duration'', JStr duration),
                  (''manual_water_heater_enabled'', JBool (ovr_water_heater_enabled row = Some True)),
                  (''active'', JBool (ovr_control_mode row \<noteq> control_mode_value CM_AUTOMATIC)),
                  (''until_checkout'', JBool (ovr_until_checkout row)),
                  (''expires_at'', json_opt (\<lambda>e. JStr (isoformat (dv_tz sv) (utc sv e))) src),
                  (''command_id'', JUuid (ovr_command_id row)),
                  (''updated_at'', JStr (isoformat (dv_tz sv) (utc sv now)))])))"

definition manual_override_from_row ::
  "db_service \<Rightarrow> override_row \<Rightarrow> string option \<Rightarrow> manual_override option result" where
  "manual_override_from_row sv row clock_booking_id =
     (if ovr_control_mode row = control_mode_value CM_AUTOMATIC then Inr None
      else
        bind_result (control_mode_of (ovr_control_mode row)) (\<lambda>mode.
        bind_result (manual_hvac_mode_of (hvac_mode_text row)) (\<lambda>hvac.
        Inr (Some \<lparr>mo_control_mode = mode, mo_clock_booking_id = clock_booking_id, mo_hvac_mode = hvac,
          mo_target_temperature_c = ovr_target_temperature_c row,
          mo_water_heater_enabled = ovr_water_heater_enabled row,
          mo_expires_at = map_option (utc sv) (ovr_expires_at row),
          mo_checkout_at = map_option (utc sv) (ovr_checkout_at row),
          mo_until_checkout = ovr_until_checkout row, mo_command_id = ovr_command_id row\<rparr>))))"

section \<open>Drafts\<close>

record override_draft =
  od_control_mode :: control_mode
  od_hvac_mode :: manual_hvac_mode
  od_target_temperature_c :: "pyfloat option"
  od_water_heater_enabled :: "bool option"
  od_duration :: string

record booking_boundary =
  bb_booking_id :: uuid
  bb_checkout_at :: datetime

record command_result =
  cr_accepted :: bool
  cr_room_key :: "string option"
  cr_correlation_id :: uuid
  cr_error :: "string option"

definition default_override_draft :: override_draft where
  "default_override_draft =
     \<lparr>od_control_mode = CM_AUTOMATIC, od_hvac_mode = HV_OFF, od_target_temperature_c = None,
      od_water_heater_enabled = Some False, od_duration = DEFAULT_DURATION\<rparr>"

text \<open>\<^verbatim>\<open>base.target_temperature_c or default\<close>: a target of zero is replaced as well.\<close>

definition target_or :: "pyfloat option \<Rightarrow> pyfloat \<Rightarrow> pyfloat" where
  "target_or t d = (case t of None \<Rightarrow> d | Some v \<Rightarrow> if f_truthy v then v else d)"

text \<open>The branches of \<^verbatim>\<open>_build_override_row\<close> over the fields: the draft that a command makes of the base.\<close>

definition command_draft ::
  "automation_policy \<Rightarrow> override_draft \<Rightarrow> string \<Rightarrow> string \<Rightarrow> override_draft result" where
  "command_draft ap base field text =
     (if field = ''return-to-automatic'' then
        Inr \<lparr>od_control_mode = CM_AUTOMATIC, od_hvac_mode = HV_OFF, od_target_temperature_c = None,
             od_water_heater_enabled = None, od_duration = DEFAULT_DURATION\<rparr>
      else if field = ''mode'' then
        bind_result (parse_control_mode text) (\<lambda>mode.
        Inr (case mode of
          CM_AUTOMATIC \<Rightarrow> base\<lparr>od_control_mode := mode, od_hvac_mode := HV_OFF,
            od_target_temperature_c := None, od_water_heater_enabled := None\<rparr>
        | CM_OFF \<Rightarrow> base\<lparr>od_control_mode := mode, od_hvac_mode := HV_OFF,
            od_target_temperature_c := None, od_water_heater_enabled := Some False\<rparr>
        | CM_MANUAL \<Rightarrow> base\<lparr>od_control_mode := mode,
            od_hvac_mode := (if od_hvac_mode base \<noteq> HV_OFF then od_hvac_mode base else HV_AUTO),
            od_target_temperature_c :=
              Some (target_or (od_target_temperature_c base) (ap_default_heating_target_c ap))\<rparr>))
      else if field = ''hvac-mode'' then
        bind_result (parse_hvac_mode text) (\<lambda>hvac.
        Inr (base\<lparr>od_control_mode := CM_MANUAL, od_hvac_mode := hvac,
          od_target_temperature_c :=
            (if hvac = HV_OFF then None
             else Some (target_or (od_target_temperature_c base) (ap_default_heating_target_c ap)))\<rparr>))
      else if field = ''temperature'' then
        bind_result (parse_temperature text) (\<lambda>t.
        Inr (base\<lparr>od_control_mode := CM_MANUAL,
          od_hvac_mode := (if od_hvac_mode base \<noteq> HV_OFF then od_hvac_mode base else HV_HEAT),
          od_target_temperature_c := Some (clamp_temperature ap t)\<rparr>))
      else if field = ''duration'' then
        (if od_control_mode base = CM_AUTOMATIC
         then Inl (ValueError ''duration requires an active manual or off override'')
         else bind_result (parse_duration text ap) (\<lambda>d. Inr (base\<lparr>od_duration := d\<rparr>)))
      else if field = ''water-heater'' then
        bind_result (boolean_payload text) (\<lambda>b.
        Inr (base\<lparr>od_control_mode := CM_MANUAL, od_water_heater_enabled := Some b\<rparr>))
      else Inl (ValueError (''unsupported control field: '' @ field)))"

section \<open>The service\<close>

text \<open>\<^verbatim>\<open>latest_override_row\<close> and \<^verbatim>\<open>latest_room_state\<close>: \<^verbatim>\<open>ORDER BY time DESC, id DESC LIMIT 1\<close>.\<close>

definition latest_by :: "('r \<Rightarrow> datetime) \<Rightarrow> ('r \<Rightarrow> uuid) \<Rightarrow> tzdb \<Rightarrow> 'r list \<Rightarrow> 'r list" where
  "latest_by time rid tz rows = take 1 (rev (sort_key (\<lambda>r. (instant tz (time r), rid r)) rows))"

definition latest_override_row :: "db_service \<Rightarrow> uuid \<Rightarrow> (session, override_row option) eff" where
  "latest_override_row sv room_id =
     scalar_one_or_none overrides_t
       (\<lambda>rows. latest_by ovr_starts_at ovr_id (dv_tz sv) (filter (\<lambda>r. ovr_room_id r = room_id) rows))"

definition latest_room_state :: "db_service \<Rightarrow> uuid \<Rightarrow> (session, room_state_row option) eff" where
  "latest_room_state sv room_id =
     scalar_one_or_none room_states_t
       (\<lambda>rows. latest_by rsr_created_at rsr_id (dv_tz sv) (filter (\<lambda>r. rsr_room_id r = room_id) rows))"

definition current_draft :: "db_service \<Rightarrow> uuid \<Rightarrow> datetime \<Rightarrow> (session, override_draft) eff" where
  "current_draft sv room_id now =
     bindE (latest_override_row sv room_id) (\<lambda>latest.
     case latest of
       None \<Rightarrow> ret default_override_draft
     | Some row \<Rightarrow>
         (if ovr_control_mode row = control_mode_value CM_AUTOMATIC then ret default_override_draft
          else if \<not> override_row_is_active sv row now then ret default_override_draft
          else lift_result
            (bind_result (control_mode_of (ovr_control_mode row)) (\<lambda>mode.
             bind_result (manual_hvac_mode_of (hvac_mode_text row)) (\<lambda>hvac.
             bind_result (duration_from_row sv row) (\<lambda>duration.
             Inr \<lparr>od_control_mode = mode, od_hvac_mode = hvac,
                  od_target_temperature_c = ovr_target_temperature_c row,
                  od_water_heater_enabled = ovr_water_heater_enabled row, od_duration = duration\<rparr>))))))"

definition ensure_property :: "db_service \<Rightarrow> (session, property_row) eff" where
  "ensure_property sv =
     (let reg = rr_property (dv_registry sv) in
      bindE (scalar_one_or_none properties_t (filter (\<lambda>r. ppr_key r = pr_key reg))) (\<lambda>found.
      case found of
        None \<Rightarrow>
          bindE (fresh_id sv) (\<lambda>i.
          let row = \<lparr>ppr_id = i, ppr_key = pr_key reg, ppr_name = pr_name reg, ppr_timezone = pr_timezone reg\<rparr> in
          bindE (add_row properties_t row) (\<lambda>_.
          bindE flush (\<lambda>_. ret row)))
      | Some row \<Rightarrow>
          let f = (\<lambda>r. r\<lparr>ppr_name := pr_name reg, ppr_timezone := pr_timezone reg\<rparr>) in
          bindE (set_row properties_t (ppr_id row) f) (\<lambda>_. ret (f row))))"

definition ensure_room :: "db_service \<Rightarrow> property_row \<Rightarrow> room \<Rightarrow> (session, room_row) eff" where
  "ensure_room sv property_row rm =
     bindE (scalar_one_or_none rooms_t
              (filter (\<lambda>r. rmr_property_id r = ppr_id property_row \<and> rmr_key r = rm_key rm))) (\<lambda>found.
     case found of
       None \<Rightarrow>
         bindE (fresh_id sv) (\<lambda>i.
         let row = \<lparr>rmr_id = i, rmr_property_id = ppr_id property_row, rmr_key = rm_key rm,
                    rmr_name = rm_name rm, rmr_entrance_key = rm_entrance_key rm, rmr_floor = rm_floor rm,
                    rmr_clock_room_id = rm_clock_room_id rm, rmr_enabled = rm_enabled rm\<rparr> in
         bindE (add_row rooms_t row) (\<lambda>_.
         bindE flush (\<lambda>_. ret row)))
     | Some row \<Rightarrow>
         let f = (\<lambda>r. r\<lparr>rmr_name := rm_name rm, rmr_entrance_key := rm_entrance_key rm, rmr_floor := rm_floor rm,
                         rmr_clock_room_id := rm_clock_room_id rm, rmr_enabled := rm_enabled rm\<rparr>) in
         bindE (set_row rooms_t (rmr_id row) f) (\<lambda>_. ret (f row)))"

definition boundary_phases :: "string list" where
  "boundary_phases = map automation_phase_value [PH_MANUAL_OVERRIDE, PH_OCCUPIED, PH_PRE_ARRIVAL, PH_RESERVED]"

definition current_booking_boundary ::
  "db_service \<Rightarrow> uuid \<Rightarrow> datetime \<Rightarrow> (session, booking_boundary option) eff" where
  "current_booking_boundary sv room_id now =
     bindE (latest_room_state sv room_id) (\<lambda>latest.
     case latest of
       None \<Rightarrow> ret None
     | Some st \<Rightarrow>
         (case rsr_booking_id st of
            None \<Rightarrow> ret None
          | Some b \<Rightarrow>
              (if rsr_automation_phase st \<notin> set boundary_phases then ret None
               else
                 bindE (get_row bookings_t b) (\<lambda>booking.
                 case booking of
                   None \<Rightarrow> ret None
                 | Some bk \<Rightarrow>
                     let checkout = utc sv (combine (bkr_departure_date bk)
                           (pp_default_check_out_time (hp_property (dv_policy sv))) (policy_tz (dv_policy sv)))
                     in if dt_le (dv_tz sv) checkout (utc sv now) then ret None
                        else ret (Some \<lparr>bb_booking_id = bkr_id bk, bb_checkout_at = checkout\<rparr>)))))"

definition build_override_row ::
  "db_service \<Rightarrow> room_row \<Rightarrow> string \<Rightarrow> string \<Rightarrow> datetime \<Rightarrow> (session, override_row) eff" where
  "build_override_row sv room_row field payload now =
     (let ap = hp_automation (dv_policy sv) in
      bindE (lift_result (payload_text sv payload)) (\<lambda>text.
      bindE (current_draft sv (rmr_id room_row) now) (\<lambda>base.
      bindE (lift_result (command_draft ap base field text)) (\<lambda>d.
      let (expires, until_checkout) =
            (if od_control_mode d = CM_AUTOMATIC then (None, False) else expiry_for_duration (od_duration d) now)
      in
      bindE (if until_checkout
             then bindE (current_booking_boundary sv (rmr_id room_row) now) (\<lambda>b.
                  if b = None then raise (ValueError ''until_checkout requires a current assigned reservation'')
                  else ret b)
             else ret None) (\<lambda>boundary.
      bindE (fresh_id sv) (\<lambda>command_id.
      bindE (fresh_id sv) (\<lambda>i.
      ret \<lparr>ovr_id = i, ovr_room_id = rmr_id room_row, ovr_booking_id = map_option bb_booking_id boundary,
           ovr_command_id = command_id, ovr_control_mode = control_mode_value (od_control_mode d),
           ovr_hvac_mode = Some (manual_hvac_mode_value (od_hvac_mode d)),
           ovr_target_temperature_c = map_option (clamp_temperature ap) (od_target_temperature_c d),
           ovr_water_heater_enabled = od_water_heater_enabled d, ovr_starts_at = now,
           ovr_expires_at = expires, ovr_checkout_at = map_option bb_checkout_at boundary,
           ovr_until_checkout = until_checkout, ovr_created_by = Some COMMAND_SOURCE\<rparr>)))))))"

text \<open>The outbox rows both services write: a pending retained message that is due at once.\<close>

definition queue_event :: "db_service \<Rightarrow> string \<Rightarrow> payload \<Rightarrow> datetime \<Rightarrow> uuid \<Rightarrow> (session, unit) eff" where
  "queue_event sv topic payload now correlation =
     bindE (fresh_id sv) (\<lambda>i.
     add_row outbox_t (new_outbox_event i topic payload now correlation))"

definition audit ::
  "db_service \<Rightarrow> uuid option \<Rightarrow> uuid option \<Rightarrow> uuid option \<Rightarrow> string \<Rightarrow> string \<Rightarrow> payload \<Rightarrow> datetime \<Rightarrow> uuid
   \<Rightarrow> (session, unit) eff" where
  "audit sv property_id room_id booking_id event message payload now correlation =
     bindE (fresh_id sv) (\<lambda>i.
     add_row audit_t
       \<lparr>aur_id = i, aur_property_id = property_id, aur_room_id = room_id, aur_booking_id = booking_id,
        aur_event_type = event, aur_message = message, aur_payload = Some payload, aur_created_at = now,
        aur_correlation_id = correlation\<rparr>)"

definition audit_rejected ::
  "db_service \<Rightarrow> property_row \<Rightarrow> uuid option \<Rightarrow> string \<Rightarrow> string \<Rightarrow> string \<Rightarrow> datetime \<Rightarrow> uuid \<Rightarrow> (session, unit) eff" where
  "audit_rejected sv property_row room_id rkey field reason now correlation =
     audit sv (Some (ppr_id property_row)) room_id None ''manual_override_command_rejected''
       ''Home Assistant manual override command rejected.''
       [(''room_key'', JStr rkey), (''field'', JStr field), (''reason'', JStr reason),
        (''command_id'', JUuid correlation)] now correlation"

definition accept_row ::
  "db_service \<Rightarrow> property_row \<Rightarrow> room_row \<Rightarrow> string \<Rightarrow> string \<Rightarrow> override_row \<Rightarrow> datetime \<Rightarrow> uuid
   \<Rightarrow> (session, command_result) eff" where
  "accept_row sv property_row room_row rkey field row0 now correlation =
     (let row = row0\<lparr>ovr_command_id := correlation\<rparr> in
      bindE (add_row overrides_t row) (\<lambda>_.
      bindE flush (\<lambda>_.
      bindE (lift_result (control_state_payload_from_override sv rkey (Some row) now None)) (\<lambda>payload.
      bindE (queue_event sv (room_control_state (dv_topics sv) rkey) payload now correlation) (\<lambda>_.
      bindE (audit sv (Some (ppr_id property_row)) (Some (rmr_id room_row)) None
               ''manual_override_command_accepted'' ''Home Assistant manual override command accepted.''
               [(''room_key'', JStr rkey), (''field'', JStr field),
                (''control_mode'', JStr (ovr_control_mode row)), (''command_id'', JUuid (ovr_command_id row))]
               now correlation) (\<lambda>_.
      ret \<lparr>cr_accepted = True, cr_room_key = Some rkey, cr_correlation_id = correlation, cr_error = None\<rparr>))))))"

definition apply_mqtt_command ::
  "db_service \<Rightarrow> string \<Rightarrow> string \<Rightarrow> string \<Rightarrow> py_datetime \<Rightarrow> uuid option \<Rightarrow> (session, command_result) eff" where
  "apply_mqtt_command sv rkey field payload now corr =
     (let now_utc = to_utc (dv_tz sv) now in
      bindE (case corr of None \<Rightarrow> fresh_id sv | Some c \<Rightarrow> ret c) (\<lambda>correlation.
      bindE (ensure_property sv) (\<lambda>property_row.
      case by_key (dv_registry sv) rkey of
        None \<Rightarrow>
          bindE (audit_rejected sv property_row None rkey field ''room is not in the configured registry''
                   now_utc correlation) (\<lambda>_.
          ret \<lparr>cr_accepted = False, cr_room_key = None, cr_correlation_id = correlation,
               cr_error = Some ''unknown_room''\<rparr>)
      | Some rm \<Rightarrow>
          bindE (ensure_room sv property_row rm) (\<lambda>room_row.
          bindE (attemptE (build_override_row sv room_row field payload now_utc)) (\<lambda>built.
          case built of
            Inr row \<Rightarrow> accept_row sv property_row room_row (rm_key rm) field row now_utc correlation
          | Inl e \<Rightarrow>
              (if is_ValueError e then
                 bindE (audit_rejected sv property_row (Some (rmr_id room_row)) (rm_key rm) field (exc_text sv e)
                          now_utc correlation) (\<lambda>_.
                 ret \<lparr>cr_accepted = False, cr_room_key = Some (rm_key rm), cr_correlation_id = correlation,
                      cr_error = Some (exc_text sv e)\<rparr>)
               else raise e))))))"

definition control_state_payload :: "db_service \<Rightarrow> string \<Rightarrow> datetime \<Rightarrow> (session, payload) eff" where
  "control_state_payload sv rkey now =
     bindE (scalar_one_or_none properties_t
              (filter (\<lambda>r. ppr_key r = pr_key (rr_property (dv_registry sv))))) (\<lambda>property_row.
     case property_row of
       None \<Rightarrow> ret (default_control_state_payload sv rkey now)
     | Some prop \<Rightarrow>
         bindE (scalar_one_or_none rooms_t
                  (filter (\<lambda>r. rmr_property_id r = ppr_id prop \<and> rmr_key r = rkey))) (\<lambda>room_row.
         case room_row of
           None \<Rightarrow> ret (default_control_state_payload sv rkey now)
         | Some rmr \<Rightarrow>
             bindE (latest_override_row sv (rmr_id rmr)) (\<lambda>latest.
             bindE (latest_room_state sv (rmr_id rmr)) (\<lambda>latest_state.
             let now_utc = utc sv now;
                 active =
                   (if (case latest of None \<Rightarrow> False | Some row \<Rightarrow> \<not> override_row_is_active sv row now_utc)
                    then Some False
                    else case latest_state of
                      Some st \<Rightarrow> Some (rsr_automation_phase st = automation_phase_value PH_MANUAL_OVERRIDE)
                    | None \<Rightarrow> None)
             in lift_result (control_state_payload_from_override sv rkey latest now_utc active)))))"

end
