(* ===== verification/Clock_Db_Sync.thy ===== *)
theory Clock_Db_Sync
  imports Policy_Control Clock_Sync
begin

text \<open>
  \<^verbatim>\<open>app/clock/db_sync.py\<close>: the service that stores a poll of the Clock PMS (registry rows,
  bookings, room assignments, the cursor) and recalculates the affected rooms: it evaluates each
  room over the stored bookings, derives the intent, and when the result differs from the
  latest stored state adds a state with the next intent version and the messages to publish.
  Every public operation is one transaction. A row that the code keeps a reference to is passed
  on as its record; only its key columns are read later. A set of ids is a list.
\<close>

section \<open>Results\<close>

record persisted_sync_result =
  ps_sync_run_id :: uuid
  ps_success :: bool
  ps_processed_bookings :: nat
  ps_affected_room_keys :: "string list"
  ps_room_states_created :: nat
  ps_outbox_events_created :: nat
  ps_audit_events_created :: nat

record registry_rows =
  rg_property :: property_row
  rg_rooms_by_key :: "(string \<times> room_row) list"
  rg_rooms_by_clock_id :: "(string \<times> room_row) list"
  rg_domain_rooms_by_id :: "(uuid \<times> room) list"

record assignment_change =
  ac_affected_room_ids :: "uuid list"
  ac_current_room_id :: "uuid option"
  ac_changed :: bool
  ac_audit_events_created :: nat

record loaded_bookings =
  lb_bookings :: "normalized_booking list"
  lb_ids_by_clock_booking_id :: "(string \<times> uuid) list"

record recalculation_result =
  rc_affected_room_keys :: "string list"
  rc_room_states_created :: nat
  rc_outbox_events_created :: nat
  rc_audit_events_created :: nat

section \<open>The registry\<close>

fun ensure_rooms :: "db_service \<Rightarrow> property_row \<Rightarrow> room list \<Rightarrow> registry_rows \<Rightarrow> (session, registry_rows) eff" where
  "ensure_rooms sv property_row [] acc = ret acc"
| "ensure_rooms sv property_row (rm # rms) acc =
     bindE (ensure_room sv property_row rm) (\<lambda>row.
     ensure_rooms sv property_row rms
       (acc\<lparr>rg_rooms_by_key := AList.update (rm_key rm) row (rg_rooms_by_key acc),
            rg_rooms_by_clock_id :=
              (if truthy (rm_clock_room_id rm)
               then AList.update (the (rm_clock_room_id rm)) row (rg_rooms_by_clock_id acc)
               else rg_rooms_by_clock_id acc),
            rg_domain_rooms_by_id := AList.update (rmr_id row) rm (rg_domain_rooms_by_id acc)\<rparr>))"

definition ensure_registry :: "db_service \<Rightarrow> (session, registry_rows) eff" where
  "ensure_registry sv =
     bindE (ensure_property sv) (\<lambda>property_row.
     ensure_rooms sv property_row (rr_rooms (dv_registry sv))
       \<lparr>rg_property = property_row, rg_rooms_by_key = [], rg_rooms_by_clock_id = [], rg_domain_rooms_by_id = []\<rparr>)"

section \<open>Bookings\<close>

definition validate_property :: "db_service \<Rightarrow> normalized_booking \<Rightarrow> unit result" where
  "validate_property sv nb =
     (if nb_property_id nb \<noteq> pr_key (rr_property (dv_registry sv))
      then Inl (ValueError ''normalized booking property_id does not match configured room registry'')
      else Inr ())"

definition seen_at :: "db_service \<Rightarrow> py_datetime option \<Rightarrow> datetime \<Rightarrow> datetime" where
  "seen_at sv v observed = (case v of None \<Rightarrow> utc sv observed | Some t \<Rightarrow> to_utc (dv_tz sv) t)"

text \<open>The row of a booking that was not stored before, and the columns every sync writes.\<close>

definition new_booking_row ::
  "db_service \<Rightarrow> uuid \<Rightarrow> property_row \<Rightarrow> normalized_booking \<Rightarrow> datetime \<Rightarrow> booking_row" where
  "new_booking_row sv i property_row nb observed =
     \<lparr>bkr_id = i, bkr_property_id = ppr_id property_row, bkr_clock_booking_id = nb_clock_booking_id nb,
      bkr_booking_number = None, bkr_external_source = None, bkr_external_reference = None,
      bkr_booking_status = booking_status_value (nb_booking_status nb),
      bkr_source_booking_status = nb_source_booking_status nb, bkr_arrival_date = nb_arrival_date nb,
      bkr_departure_date = nb_departure_date nb, bkr_created_at = None, bkr_updated_at = None,
      bkr_status_changed_at = None, bkr_room_type_id = None, bkr_room_type_name = None, bkr_adults = None,
      bkr_children = None, bkr_first_seen_at = seen_at sv (nb_first_seen_at nb) observed,
      bkr_last_seen_at = seen_at sv (nb_last_seen_at nb) observed, bkr_payload_hash = nb_payload_hash nb,
      bkr_needs_attention = False, bkr_attention_reason = None\<rparr>"

definition write_booking :: "db_service \<Rightarrow> normalized_booking \<Rightarrow> datetime \<Rightarrow> booking_row \<Rightarrow> booking_row" where
  "write_booking sv nb observed row =
     row\<lparr>bkr_booking_number := nb_booking_number nb, bkr_external_source := nb_external_source nb,
         bkr_external_reference := nb_external_reference nb,
         bkr_booking_status := booking_status_value (nb_booking_status nb),
         bkr_source_booking_status := nb_source_booking_status nb, bkr_arrival_date := nb_arrival_date nb,
         bkr_departure_date := nb_departure_date nb,
         bkr_created_at := optional_to_utc (dv_tz sv) (nb_created_at nb),
         bkr_updated_at := optional_to_utc (dv_tz sv) (nb_updated_at nb),
         bkr_status_changed_at := optional_to_utc (dv_tz sv) (nb_status_changed_at nb),
         bkr_room_type_id := nb_room_type_id nb, bkr_room_type_name := nb_room_type_name nb,
         bkr_adults := nb_adults nb, bkr_children := nb_children nb,
         bkr_last_seen_at := seen_at sv (nb_last_seen_at nb) observed,
         bkr_payload_hash := nb_payload_hash nb, bkr_needs_attention := nb_needs_attention nb,
         bkr_attention_reason := Some (attention_reason_value (nb_attention_reason nb))\<rparr>"

definition upsert_booking ::
  "db_service \<Rightarrow> property_row \<Rightarrow> normalized_booking \<Rightarrow> datetime \<Rightarrow> (session, booking_row \<times> bool) eff" where
  "upsert_booking sv property_row nb observed =
     bindE (scalar_one_or_none bookings_t
       (filter (\<lambda>b. bkr_property_id b = ppr_id property_row
                   \<and> bkr_clock_booking_id b = nb_clock_booking_id nb))) (\<lambda>found.
     case found of
       None \<Rightarrow>
         bindE (fresh_id sv) (\<lambda>i.
         let row = write_booking sv nb observed (new_booking_row sv i property_row nb observed) in
         bindE (add_row bookings_t row) (\<lambda>_.
         bindE flush (\<lambda>_. ret (row, True))))
     | Some row0 \<Rightarrow>
         bindE (set_row bookings_t (bkr_id row0) (write_booking sv nb observed)) (\<lambda>_.
         bindE flush (\<lambda>_.
         ret (write_booking sv nb observed row0, bkr_payload_hash row0 \<noteq> nb_payload_hash nb))))"

section \<open>Assignments\<close>

definition current_assignment :: "booking_row \<Rightarrow> (session, assignment_row option) eff" where
  "current_assignment booking_row =
     scalar_one_or_none assignments_t
       (filter (\<lambda>a. asr_booking_id a = bkr_id booking_row \<and> asr_is_current a))"

definition assignment_identity :: "normalized_booking \<Rightarrow> (string option \<times> string option) option" where
  "assignment_identity nb =
     (if \<not> has_physical_room nb then None else Some (nb_physical_room_id nb, nb_physical_room_number nb))"

definition assignment_row_identity :: "assignment_row \<Rightarrow> string option \<times> string option" where
  "assignment_row_identity a = (asr_clock_room_id a, asr_physical_room_number a)"

definition resolve_room :: "registry_rows \<Rightarrow> normalized_booking \<Rightarrow> room_row option" where
  "resolve_room reg nb =
     (let by_id = (if truthy (nb_physical_room_id nb)
                   then map_of (rg_rooms_by_clock_id reg) (the (nb_physical_room_id nb)) else None) in
      if by_id \<noteq> None then by_id
      else if truthy (nb_physical_room_number nb)
      then map_of (rg_rooms_by_key reg) (the (nb_physical_room_number nb))
      else None)"

definition end_assignment :: "assignment_row \<Rightarrow> datetime \<Rightarrow> (session, unit) eff" where
  "end_assignment a observed =
     set_row assignments_t (asr_id a) (\<lambda>a. a\<lparr>asr_is_current := False, asr_removed_at := Some observed\<rparr>)"

definition opt_list :: "'a option \<Rightarrow> 'a list" where
  "opt_list v = (case v of None \<Rightarrow> [] | Some x \<Rightarrow> [x])"

definition new_assignment ::
  "db_service \<Rightarrow> uuid option \<Rightarrow> booking_row \<Rightarrow> normalized_booking \<Rightarrow> room_row option \<Rightarrow> uuid list
   \<Rightarrow> datetime \<Rightarrow> uuid \<Rightarrow> (session, assignment_change) eff" where
  "new_assignment sv prop booking_row nb new_room affected observed correlation =
     (let room_id = map_option rmr_id new_room;
          clock_id = (''clock_booking_id'', JStr (bkr_clock_booking_id booking_row));
          place = [(''clock_room_id'', json_opt JStr (nb_physical_room_id nb)),
                    (''physical_room_number'', json_opt JStr (nb_physical_room_number nb))] in
      bindE (fresh_id sv) (\<lambda>i.
      bindE (add_row assignments_t
               \<lparr>asr_id = i, asr_booking_id = bkr_id booking_row, asr_room_id = room_id,
                asr_clock_room_id = nb_physical_room_id nb,
                asr_physical_room_number = nb_physical_room_number nb, asr_assigned_at = observed,
                asr_removed_at = None, asr_is_current = True\<rparr>) (\<lambda>_.
      bindE (audit sv prop room_id (Some (bkr_id booking_row)) ''physical_room_assignment_changed''
               ''Clock physical room assignment changed.''
               ([clock_id] @ place @ [(''mapped_room'', json_opt (JStr \<circ> rmr_key) new_room)])
               observed correlation) (\<lambda>_.
      bindE (if new_room = None
             then audit sv prop None (Some (bkr_id booking_row)) ''physical_room_not_in_registry''
                    ''Clock assigned a physical room that is not in the room registry.''
                    ([clock_id] @ place) observed correlation
             else ret ()) (\<lambda>_.
      ret \<lparr>ac_affected_room_ids = affected @ opt_list room_id, ac_current_room_id = room_id,
           ac_changed = True, ac_audit_events_created = (if new_room = None then 2 else 1)\<rparr>)))))"

definition sync_assignment ::
  "db_service \<Rightarrow> registry_rows \<Rightarrow> booking_row \<Rightarrow> normalized_booking \<Rightarrow> datetime \<Rightarrow> uuid
   \<Rightarrow> (session, assignment_change) eff" where
  "sync_assignment sv reg booking_row nb observed correlation =
     (let prop = Some (ppr_id (rg_property reg)); new_room = resolve_room reg nb in
      bindE (current_assignment booking_row) (\<lambda>current.
      case assignment_identity nb of
        None \<Rightarrow>
          (case current of
             None \<Rightarrow> ret \<lparr>ac_affected_room_ids = [], ac_current_room_id = None, ac_changed = False,
                          ac_audit_events_created = 0\<rparr>
           | Some cur \<Rightarrow>
               bindE (end_assignment cur observed) (\<lambda>_.
               bindE (audit sv prop (asr_room_id cur) (Some (bkr_id booking_row))
                        ''physical_room_assignment_removed''
                        ''Clock booking no longer has a physical room assignment.''
                        [(''clock_booking_id'', JStr (bkr_clock_booking_id booking_row))] observed correlation) (\<lambda>_.
               ret \<lparr>ac_affected_room_ids = opt_list (asr_room_id cur), ac_current_room_id = None,
                    ac_changed = True, ac_audit_events_created = 1\<rparr>)))
      | Some identity \<Rightarrow>
          (let new_id = map_option rmr_id new_room in
           case current of
             Some cur \<Rightarrow>
               if assignment_row_identity cur = identity then
                 (if asr_room_id cur \<noteq> new_id then
                    bindE (set_row assignments_t (asr_id cur) (\<lambda>a. a\<lparr>asr_room_id := new_id\<rparr>)) (\<lambda>_.
                    ret \<lparr>ac_affected_room_ids = opt_list (asr_room_id cur) @ opt_list new_id,
                         ac_current_room_id = new_id, ac_changed = True, ac_audit_events_created = 0\<rparr>)
                  else ret \<lparr>ac_affected_room_ids = [], ac_current_room_id = asr_room_id cur,
                            ac_changed = False, ac_audit_events_created = 0\<rparr>)
               else
                 bindE (end_assignment cur observed) (\<lambda>_.
                 new_assignment sv prop booking_row nb new_room (opt_list (asr_room_id cur)) observed correlation)
           | None \<Rightarrow> new_assignment sv prop booking_row nb new_room [] observed correlation)))"

definition audit_unassigned_if_needed ::
  "db_service \<Rightarrow> property_row \<Rightarrow> booking_row \<Rightarrow> normalized_booking \<Rightarrow> datetime \<Rightarrow> uuid \<Rightarrow> (session, nat) eff" where
  "audit_unassigned_if_needed sv property_row booking_row nb observed correlation =
     (let hotel_now = astimezone (dv_tz sv) observed (policy_tz (dv_policy sv)) in
      case evaluate_unassigned_booking (dv_tz sv) nb hotel_now (dv_policy sv) of
        None \<Rightarrow> ret 0
      | Some evaluation \<Rightarrow>
          bindE (audit sv (Some (ppr_id property_row)) None (Some (bkr_id booking_row))
                   ''awaiting_physical_room_assignment''
                   ''Expected arrival is inside the preparation window without a physical room.''
                   [(''clock_booking_id'', JStr (nb_clock_booking_id nb)),
                    (''arrival'', JStr (date_iso (nb_arrival_date nb))),
                    (''departure'', JStr (date_iso (nb_departure_date nb))),
                    (''attention_reason'', JStr (attention_reason_value (rs_attention_reason evaluation)))]
                   observed correlation) (\<lambda>_.
          ret 1))"

section \<open>Loading the bookings\<close>

definition normalized_from_row ::
  "string \<Rightarrow> booking_row \<Rightarrow> assignment_row option \<Rightarrow> normalized_booking result" where
  "normalized_from_row property_key b a =
     bind_result (booking_status_of (bkr_booking_status b)) (\<lambda>status.
     bind_result (attention_reason_of
       (if truthy (bkr_attention_reason b) then the (bkr_attention_reason b)
        else attention_reason_value AR_NONE)) (\<lambda>attention.
     mk_normalized_booking
       \<lparr>nb_property_id = property_key, nb_clock_booking_id = bkr_clock_booking_id b,
        nb_booking_number = bkr_booking_number b, nb_external_source = bkr_external_source b,
        nb_external_reference = bkr_external_reference b, nb_booking_status = status,
        nb_source_booking_status = bkr_source_booking_status b, nb_arrival_date = bkr_arrival_date b,
        nb_departure_date = bkr_departure_date b, nb_created_at = map_option Aware (bkr_created_at b),
        nb_updated_at = map_option Aware (bkr_updated_at b),
        nb_status_changed_at = map_option Aware (bkr_status_changed_at b),
        nb_room_type_id = bkr_room_type_id b, nb_room_type_name = bkr_room_type_name b,
        nb_physical_room_id = Option.bind a asr_clock_room_id,
        nb_physical_room_number = Option.bind a asr_physical_room_number,
        nb_adults = bkr_adults b, nb_children = bkr_children b,
        nb_first_seen_at = Some (Aware (bkr_first_seen_at b)),
        nb_last_seen_at = Some (Aware (bkr_last_seen_at b)), nb_payload_hash = bkr_payload_hash b,
        nb_needs_attention = bkr_needs_attention b, nb_attention_reason = attention\<rparr>))"

definition load_normalized_bookings :: "db_service \<Rightarrow> property_row \<Rightarrow> (session, loaded_bookings) eff" where
  "load_normalized_bookings sv property_row =
     bindE (scalars bookings_t (filter (\<lambda>b. bkr_property_id b = ppr_id property_row))) (\<lambda>rows.
     if rows = [] then ret \<lparr>lb_bookings = [], lb_ids_by_clock_booking_id = []\<rparr>
     else
       bindE (scalars assignments_t
                (filter (\<lambda>a. asr_booking_id a \<in> bkr_id ` set rows \<and> asr_is_current a))) (\<lambda>assignments.
       let by_booking = dict_of (map (\<lambda>a. (asr_booking_id a, a)) assignments) in
       bindE (lift_result (map_result
                (\<lambda>row. normalized_from_row (ppr_key property_row) row (map_of by_booking (bkr_id row))) rows))
         (\<lambda>normalized.
       ret \<lparr>lb_bookings = normalized,
            lb_ids_by_clock_booking_id = dict_of (map (\<lambda>row. (bkr_clock_booking_id row, bkr_id row)) rows)\<rparr>)))"

section \<open>What is published and hashed\<close>

definition pms_state_payload :: "db_service \<Rightarrow> room_state_evaluation \<Rightarrow> uuid \<Rightarrow> payload" where
  "pms_state_payload sv st correlation =
     (let bk = rs_booking st in
      [(''schema_version'', JInt 1), (''room_key'', json_opt JStr (rs_room_key st)),
       (''automation_phase'', JStr (automation_phase_value (rs_phase st))),
       (''booking_status'', json_opt (\<lambda>b. JStr (booking_status_value (nb_booking_status b))) bk),
       (''clock_booking_id'', json_opt (\<lambda>b. JStr (nb_clock_booking_id b)) bk),
       (''arrival'', json_opt (\<lambda>b. JStr (date_iso (nb_arrival_date b))) bk),
       (''departure'', json_opt (\<lambda>b. JStr (date_iso (nb_departure_date b))) bk),
       (''needs_attention'', JBool (rs_needs_attention st)),
       (''attention_reason'', JStr (attention_reason_value (rs_attention_reason st))),
       (''reason'', JStr (rs_reason st)),
       (''effective_from'', JStr (isoformat (dv_tz sv) (rs_effective_from st))),
       (''expires_at'', json_opt (\<lambda>t. JStr (isoformat (dv_tz sv) t)) (rs_expires_at st)),
       (''correlation_id'', JUuid correlation)])"

text \<open>\<^verbatim>\<open>_stable_hash\<close>: SHA-256 of the JSON text with sorted keys, at every depth.\<close>

fun sort_json :: "json \<Rightarrow> json" where
  "sort_json (JDict kvs) = JDict (sort_key fst (map (\<lambda>(k, v). (k, sort_json v)) kvs))"
| "sort_json (JList vs) = JList (map sort_json vs)"
| "sort_json v = v"

definition stable_hash :: "db_service \<Rightarrow> payload \<Rightarrow> string" where
  "stable_hash sv d = pt_sha256_json (dv_text sv) (sort_key fst (map (\<lambda>(k, v). (k, sort_json v)) d))"

definition booking_hash_payload :: "normalized_booking \<Rightarrow> payload" where
  "booking_hash_payload b =
     [(''clock_booking_id'', JStr (nb_clock_booking_id b)),
      (''booking_status'', JStr (booking_status_value (nb_booking_status b))),
      (''arrival'', JStr (date_iso (nb_arrival_date b))),
      (''departure'', JStr (date_iso (nb_departure_date b))),
      (''physical_room_id'', json_opt JStr (nb_physical_room_id b)),
      (''physical_room_number'', json_opt JStr (nb_physical_room_number b))]"

definition room_state_hash_payload ::
  "db_service \<Rightarrow> room_state_evaluation \<Rightarrow> desired_room_intent option \<Rightarrow> payload" where
  "room_state_hash_payload sv st intent =
     [(''room_key'', json_opt JStr (rs_room_key st)),
      (''phase'', JStr (automation_phase_value (rs_phase st))),
      (''booking'', json_opt (\<lambda>b. JDict (booking_hash_payload b)) (rs_booking st)),
      (''needs_attention'', JBool (rs_needs_attention st)),
      (''attention_reason'', JStr (attention_reason_value (rs_attention_reason st))),
      (''reason'', JStr (rs_reason st)),
      (''expires_at'', json_opt (\<lambda>t. JStr (isoformat (dv_tz sv) t)) (rs_expires_at st)),
      (''intent'', json_opt (\<lambda>i. JDict (dict_pop ''effective_from'' (stable_payload i))) intent)]"

definition room_state_hash ::
  "db_service \<Rightarrow> room_state_evaluation \<Rightarrow> desired_room_intent option \<Rightarrow> string" where
  "room_state_hash sv st intent = stable_hash sv (room_state_hash_payload sv st intent)"

definition next_intent_version :: "room_state_row option \<Rightarrow> int" where
  "next_intent_version latest = (case latest of None \<Rightarrow> 1 | Some st \<Rightarrow> rsr_intent_version st + 1)"

section \<open>Recalculating rooms\<close>

definition lock_room :: "uuid \<Rightarrow> (session, unit) eff" where
  "lock_room room_id = bindE (scalar_one rooms_t (filter (\<lambda>r. rmr_id r = room_id))) (\<lambda>_. ret ())"

definition active_override_from_row ::
  "db_service \<Rightarrow> override_row option \<Rightarrow> datetime \<Rightarrow> (session, manual_override option) eff" where
  "active_override_from_row sv row now =
     (case row of
        None \<Rightarrow> ret None
      | Some row \<Rightarrow>
          (if \<not> override_row_is_active sv row now then ret None
           else if ovr_until_checkout row \<and> ovr_booking_id row \<noteq> None then
             bindE (get_row bookings_t (the (ovr_booking_id row))) (\<lambda>booking.
             case booking of
               None \<Rightarrow> ret None
             | Some b \<Rightarrow> lift_result (manual_override_from_row sv row (Some (bkr_clock_booking_id b))))
           else lift_result (manual_override_from_row sv row None)))"

definition end_inactive_override_if_needed ::
  "db_service \<Rightarrow> property_row \<Rightarrow> uuid \<Rightarrow> string \<Rightarrow> override_row option \<Rightarrow> room_state_evaluation \<Rightarrow> datetime
   \<Rightarrow> uuid \<Rightarrow> (session, payload option \<times> nat) eff" where
  "end_inactive_override_if_needed sv property_row room_id rkey latest_override st observed correlation =
     (case latest_override of
        None \<Rightarrow> ret (None, 0)
      | Some ov \<Rightarrow>
          (if ovr_control_mode ov = control_mode_value CM_AUTOMATIC then ret (None, 0)
           else if rs_phase st = PH_MANUAL_OVERRIDE then ret (None, 0)
           else
             bindE (fresh_id sv) (\<lambda>command_id.
             bindE (fresh_id sv) (\<lambda>i.
             bindE (add_row overrides_t
                      \<lparr>ovr_id = i, ovr_room_id = room_id, ovr_booking_id = None, ovr_command_id = command_id,
                       ovr_control_mode = control_mode_value CM_AUTOMATIC,
                       ovr_hvac_mode = Some (manual_hvac_mode_value HV_OFF), ovr_target_temperature_c = None,
                       ovr_water_heater_enabled = None, ovr_starts_at = observed, ovr_expires_at = None,
                       ovr_checkout_at = None, ovr_until_checkout = False,
                       ovr_created_by = Some ''policy_scheduler''\<rparr>) (\<lambda>_.
             bindE (audit sv (Some (ppr_id property_row)) (Some room_id) None ''manual_override_ended''
                      ''Manual override returned to automatic policy.''
                      [(''room_key'', JStr rkey), (''previous_command_id'', JUuid (ovr_command_id ov)),
                       (''automation_phase'', JStr (automation_phase_value (rs_phase st))),
                       (''reason'', JStr (rs_reason st))] observed correlation) (\<lambda>_.
             ret (Some (default_control_state_payload sv rkey observed), 1)))))))"

text \<open>The row and the messages of a state that differs from the latest one.\<close>

definition queue_opt ::
  "db_service \<Rightarrow> string \<Rightarrow> payload option \<Rightarrow> datetime \<Rightarrow> uuid \<Rightarrow> (session, nat) eff" where
  "queue_opt sv topic payload now correlation =
     (case payload of
        None \<Rightarrow> ret 0 | Some p \<Rightarrow> bindE (queue_event sv topic p now correlation) (\<lambda>_. ret 1))"

definition publish_state ::
  "db_service \<Rightarrow> property_row \<Rightarrow> loaded_bookings \<Rightarrow> uuid \<Rightarrow> room \<Rightarrow> room_state_evaluation
   \<Rightarrow> desired_room_intent option \<Rightarrow> room_state_row option \<Rightarrow> payload option \<Rightarrow> datetime \<Rightarrow> uuid
   \<Rightarrow> (session, nat \<times> nat) eff" where
  "publish_state sv property_row loaded room_id rm st intent0 latest control observed correlation =
     (let intent = map_option (\<lambda>i. i\<lparr>di_intent_version := next_intent_version latest\<rparr>) intent0;
          version = (case intent of Some i \<Rightarrow> di_intent_version i
                     | None \<Rightarrow> (case latest of Some r \<Rightarrow> rsr_intent_version r | None \<Rightarrow> 0));
          booking_id = Option.bind (rs_booking st)
                         (\<lambda>b. map_of (lb_ids_by_clock_booking_id loaded) (nb_clock_booking_id b)) in
      bindE (fresh_id sv) (\<lambda>i.
      bindE (add_row room_states_t
               \<lparr>rsr_id = i, rsr_room_id = room_id, rsr_automation_phase = automation_phase_value (rs_phase st),
                rsr_booking_id = booking_id, rsr_needs_attention = rs_needs_attention st,
                rsr_attention_reason = Some (attention_reason_value (rs_attention_reason st)),
                rsr_effective_from = utc sv (rs_effective_from st),
                rsr_expires_at = map_option (utc sv) (rs_expires_at st), rsr_intent_version = version,
                rsr_payload_hash = room_state_hash sv st intent0, rsr_created_at = observed\<rparr>) (\<lambda>_.
      bindE (queue_event sv (room_pms_state (dv_topics sv) (rm_key rm)) (pms_state_payload sv st correlation)
               observed correlation) (\<lambda>_.
      bindE (queue_opt sv (room_intent_state_topic (dv_topics sv) (rm_key rm)) (map_option intent_payload intent)
               observed correlation) (\<lambda>n_intent.
      bindE (queue_opt sv (room_control_state (dv_topics sv) (rm_key rm)) control observed correlation) (\<lambda>n_control.
      bindE (if rs_needs_attention st
             then bindE (audit sv (Some (ppr_id property_row)) (Some room_id) booking_id
                           ''room_state_needs_attention'' ''Room state requires reception attention.''
                           [(''room_key'', JStr (rm_key rm)),
                            (''automation_phase'', JStr (automation_phase_value (rs_phase st))),
                            (''attention_reason'', JStr (attention_reason_value (rs_attention_reason st)))]
                           observed correlation) (\<lambda>_. ret 1)
             else ret 0) (\<lambda>n_audit.
      ret (1 + n_intent + n_control, n_audit))))))))"

text \<open>The body of the loop over the affected rooms.\<close>

definition add_counts :: "recalculation_result \<Rightarrow> string list \<Rightarrow> nat \<Rightarrow> nat \<Rightarrow> nat \<Rightarrow> recalculation_result" where
  "add_counts acc keys states events audits =
     \<lparr>rc_affected_room_keys = rc_affected_room_keys acc @ keys,
      rc_room_states_created = rc_room_states_created acc + states,
      rc_outbox_events_created = rc_outbox_events_created acc + events,
      rc_audit_events_created = rc_audit_events_created acc + audits\<rparr>"

definition recalculate_known_room ::
  "db_service \<Rightarrow> registry_rows \<Rightarrow> loaded_bookings \<Rightarrow> datetime \<Rightarrow> uuid \<Rightarrow> uuid \<Rightarrow> room \<Rightarrow> recalculation_result
   \<Rightarrow> (session, recalculation_result) eff" where
  "recalculate_known_room sv reg loaded observed correlation room_id rm acc =
     (let tz = dv_tz sv; policy = dv_policy sv; prop = rg_property reg;
          hotel_now = astimezone tz observed (policy_tz policy) in
      bindE (lock_room room_id) (\<lambda>_.
      bindE (latest_override_row sv room_id) (\<lambda>latest_override.
      bindE (active_override_from_row sv latest_override hotel_now) (\<lambda>override.
      let st = evaluate_room tz rm (lb_bookings loaded) hotel_now policy override in
      bindE (lift_result (derive_room_intent tz st policy hotel_now override (Some correlation) correlation)) (\<lambda>intent.
      bindE (latest_room_state sv room_id) (\<lambda>latest_state.
      bindE (end_inactive_override_if_needed sv prop room_id (rm_key rm) latest_override st observed correlation)
        (\<lambda>(control, n_override).
      if (case latest_state of None \<Rightarrow> False | Some r \<Rightarrow> rsr_payload_hash r = room_state_hash sv st intent) then
        bindE (queue_opt sv (room_control_state (dv_topics sv) (rm_key rm)) control observed correlation) (\<lambda>n.
        ret (add_counts acc (if control = None then [] else [rm_key rm]) 0 n n_override))
      else
        bindE (publish_state sv prop loaded room_id rm st intent latest_state control observed correlation)
          (\<lambda>(n_events, n_audit).
        ret (add_counts acc [rm_key rm] 1 n_events (n_override + n_audit))))))))))"

definition recalculate_room ::
  "db_service \<Rightarrow> registry_rows \<Rightarrow> loaded_bookings \<Rightarrow> datetime \<Rightarrow> uuid \<Rightarrow> uuid \<Rightarrow> recalculation_result
   \<Rightarrow> (session, recalculation_result) eff" where
  "recalculate_room sv reg loaded observed correlation room_id acc =
     bindE (get_row rooms_t room_id) (\<lambda>room_row.
     case (map_of (rg_domain_rooms_by_id reg) room_id, room_row) of
       (Some rm, Some row) \<Rightarrow> recalculate_known_room sv reg loaded observed correlation room_id rm acc
     | _ \<Rightarrow> ret acc)"

fun recalculate_each ::
  "db_service \<Rightarrow> registry_rows \<Rightarrow> loaded_bookings \<Rightarrow> datetime \<Rightarrow> uuid \<Rightarrow> uuid list \<Rightarrow> recalculation_result
   \<Rightarrow> (session, recalculation_result) eff" where
  "recalculate_each sv reg loaded observed correlation [] acc = ret acc"
| "recalculate_each sv reg loaded observed correlation (i # is) acc =
     bindE (recalculate_room sv reg loaded observed correlation i acc)
       (recalculate_each sv reg loaded observed correlation is)"

definition no_recalculation :: recalculation_result where
  "no_recalculation =
     \<lparr>rc_affected_room_keys = [], rc_room_states_created = 0, rc_outbox_events_created = 0,
      rc_audit_events_created = 0\<rparr>"

definition recalculate_rooms ::
  "db_service \<Rightarrow> registry_rows \<Rightarrow> uuid list \<Rightarrow> datetime \<Rightarrow> uuid \<Rightarrow> (session, recalculation_result) eff" where
  "recalculate_rooms sv reg affected observed correlation =
     (if affected = [] then ret no_recalculation
      else
        bindE (load_normalized_bookings sv (rg_property reg)) (\<lambda>loaded.
        recalculate_each sv reg loaded observed correlation (sort (remdups affected)) no_recalculation))"

section \<open>The cursor\<close>

definition select_cursor :: "db_service \<Rightarrow> property_row \<Rightarrow> (session, cursor_row option) eff" where
  "select_cursor sv property_row =
     scalar_one_or_none cursors_t
       (filter (\<lambda>c. scr_property_id c = ppr_id property_row \<and> scr_source c = dv_cursor_source sv))"

definition advance_cursor :: "db_service \<Rightarrow> property_row \<Rightarrow> sync_run_result \<Rightarrow> datetime \<Rightarrow> (session, unit) eff" where
  "advance_cursor sv property_row result observed =
     (let value = sc_cursor_value (sy_next_cursor result);
          success = map_option (utc sv) (sc_last_success_at (sy_next_cursor result)) in
      bindE (select_cursor sv property_row) (\<lambda>cursor.
      case cursor of
        None \<Rightarrow>
          bindE (fresh_id sv) (\<lambda>i.
          add_row cursors_t
            \<lparr>scr_id = i, scr_property_id = ppr_id property_row, scr_source = dv_cursor_source sv,
             scr_cursor_value = value, scr_last_success_at = success, scr_updated_at = observed\<rparr>)
      | Some c \<Rightarrow>
          set_row cursors_t (scr_id c)
            (\<lambda>c. c\<lparr>scr_cursor_value := value, scr_last_success_at := success, scr_updated_at := observed\<rparr>)))"

definition load_cursor_state :: "db_service \<Rightarrow> (session, sync_cursor_state) eff" where
  "load_cursor_state sv =
     bindE (scalar_one_or_none properties_t
              (filter (\<lambda>r. ppr_key r = pr_key (rr_property (dv_registry sv))))) (\<lambda>property_row.
     case property_row of
       None \<Rightarrow> ret \<lparr>sc_last_success_at = None, sc_cursor_value = None\<rparr>
     | Some prop \<Rightarrow>
         bindE (select_cursor sv prop) (\<lambda>cursor.
         ret (case cursor of
                None \<Rightarrow> \<lparr>sc_last_success_at = None, sc_cursor_value = None\<rparr>
              | Some c \<Rightarrow> \<lparr>sc_last_success_at = scr_last_success_at c, sc_cursor_value = scr_cursor_value c\<rparr>)))"

section \<open>The public operations\<close>

text \<open>The body of the loop over the bookings of a result: the affected rooms and the audit count.\<close>

definition sync_booking ::
  "db_service \<Rightarrow> registry_rows \<Rightarrow> datetime \<Rightarrow> uuid \<Rightarrow> normalized_booking \<Rightarrow> uuid list \<times> nat
   \<Rightarrow> (session, uuid list \<times> nat) eff" where
  "sync_booking sv reg observed correlation nb acc =
     bindE (lift_result (validate_property sv nb)) (\<lambda>_.
     bindE (upsert_booking sv (rg_property reg) nb observed) (\<lambda>(booking_row, booking_changed).
     bindE (sync_assignment sv reg booking_row nb observed correlation) (\<lambda>change.
     bindE (if \<not> has_physical_room nb
            then audit_unassigned_if_needed sv (rg_property reg) booking_row nb observed correlation
            else ret 0) (\<lambda>n_unassigned.
     ret (fst acc @ ac_affected_room_ids change
            @ (if booking_changed then opt_list (ac_current_room_id change) else []),
          snd acc + ac_audit_events_created change + n_unassigned)))))"

fun sync_bookings ::
  "db_service \<Rightarrow> registry_rows \<Rightarrow> datetime \<Rightarrow> uuid \<Rightarrow> normalized_booking list \<Rightarrow> uuid list \<times> nat
   \<Rightarrow> (session, uuid list \<times> nat) eff" where
  "sync_bookings sv reg observed correlation [] acc = ret acc"
| "sync_bookings sv reg observed correlation (nb # nbs) acc =
     bindE (sync_booking sv reg observed correlation nb acc) (sync_bookings sv reg observed correlation nbs)"

text \<open>The run row, the outcome of a failed poll, and what a successful poll does.\<close>

definition start_sync_run :: "db_service \<Rightarrow> sync_run_result \<Rightarrow> registry_rows \<Rightarrow> uuid \<Rightarrow> (session, uuid) eff" where
  "start_sync_run sv result reg correlation =
     bindE (fresh_id sv) (\<lambda>run_id.
     bindE (add_row sync_runs_t
              \<lparr>srr_id = run_id, srr_property_id = ppr_id (rg_property reg),
               srr_started_at = utc sv (sy_started_at result),
               srr_finished_at = Some (utc sv (sy_finished_at result)),
               srr_status = (if sy_success result then ''success'' else ''failed''),
               srr_processed_bookings = 0, srr_error_classification = sy_error result,
               srr_correlation_id = correlation\<rparr>) (\<lambda>_.
     bindE flush (\<lambda>_. ret run_id)))"

definition failed_outcome :: "uuid \<Rightarrow> persisted_sync_result" where
  "failed_outcome run_id =
     \<lparr>ps_sync_run_id = run_id, ps_success = False, ps_processed_bookings = 0, ps_affected_room_keys = [],
      ps_room_states_created = 0, ps_outbox_events_created = 0, ps_audit_events_created = 0\<rparr>"

definition store_result ::
  "db_service \<Rightarrow> sync_run_result \<Rightarrow> registry_rows \<Rightarrow> uuid \<Rightarrow> uuid \<Rightarrow> (session, persisted_sync_result) eff" where
  "store_result sv result reg run_id correlation =
     (let now_utc = utc sv (sy_finished_at result) in
      bindE (sync_bookings sv reg now_utc correlation (sy_bookings result) ([], 0)) (\<lambda>affected.
      bindE (recalculate_rooms sv reg (fst affected) now_utc correlation) (\<lambda>rc.
      bindE (advance_cursor sv (rg_property reg) result now_utc) (\<lambda>_.
      bindE (set_row sync_runs_t run_id
               (\<lambda>r. r\<lparr>srr_processed_bookings := int (length (sy_bookings result))\<rparr>)) (\<lambda>_.
      ret \<lparr>ps_sync_run_id = run_id, ps_success = True,
           ps_processed_bookings = length (sy_bookings result),
           ps_affected_room_keys = sort (rc_affected_room_keys rc),
           ps_room_states_created = rc_room_states_created rc,
           ps_outbox_events_created = rc_outbox_events_created rc,
           ps_audit_events_created = snd affected + rc_audit_events_created rc\<rparr>)))))"

definition sync_body ::
  "db_service \<Rightarrow> sync_run_result \<Rightarrow> uuid \<Rightarrow> (session, persisted_sync_result) eff" where
  "sync_body sv result correlation =
     bindE (ensure_registry sv) (\<lambda>reg.
     bindE (start_sync_run sv result reg correlation) (\<lambda>run_id.
     if \<not> sy_success result then ret (failed_outcome run_id)
     else store_result sv result reg run_id correlation))"

definition given_or_fresh :: "db_service \<Rightarrow> uuid option \<Rightarrow> (session, uuid) eff" where
  "given_or_fresh sv corr = (case corr of None \<Rightarrow> fresh_id sv | Some c \<Rightarrow> ret c)"

definition apply_sync_result ::
  "db_service \<Rightarrow> sync_run_result \<Rightarrow> uuid option \<Rightarrow> (session, persisted_sync_result) eff" where
  "apply_sync_result sv result corr =
     bindE (given_or_fresh sv corr) (\<lambda>correlation. transaction (sync_body sv result correlation))"

definition recalculation_outcome :: "uuid \<Rightarrow> recalculation_result \<Rightarrow> persisted_sync_result" where
  "recalculation_outcome run_id rc =
     \<lparr>ps_sync_run_id = run_id, ps_success = True, ps_processed_bookings = 0,
      ps_affected_room_keys = sort (rc_affected_room_keys rc),
      ps_room_states_created = rc_room_states_created rc,
      ps_outbox_events_created = rc_outbox_events_created rc,
      ps_audit_events_created = rc_audit_events_created rc\<rparr>"

text \<open>Both evaluations select rooms of the registry and recalculate them.\<close>

definition evaluate_body ::
  "db_service \<Rightarrow> (registry_rows \<Rightarrow> uuid list) \<Rightarrow> datetime \<Rightarrow> uuid \<Rightarrow> (session, persisted_sync_result) eff" where
  "evaluate_body sv ids now_utc correlation =
     bindE (ensure_registry sv) (\<lambda>reg.
     bindE (recalculate_rooms sv reg (ids reg) now_utc correlation) (\<lambda>rc.
     bindE (fresh_id sv) (\<lambda>run_id. ret (recalculation_outcome run_id rc))))"

definition evaluate_all_rooms ::
  "db_service \<Rightarrow> py_datetime \<Rightarrow> uuid option \<Rightarrow> (session, persisted_sync_result) eff" where
  "evaluate_all_rooms sv now corr =
     bindE (given_or_fresh sv corr) (\<lambda>correlation.
     transaction (evaluate_body sv (\<lambda>reg. map fst (rg_domain_rooms_by_id reg)) (to_utc (dv_tz sv) now) correlation))"

definition room_ids_of_keys :: "string list \<Rightarrow> registry_rows \<Rightarrow> uuid list" where
  "room_ids_of_keys room_keys reg =
     map (\<lambda>(k, row). rmr_id row) (filter (\<lambda>(k, row). k \<in> set room_keys) (rg_rooms_by_key reg))"

definition evaluate_room_keys ::
  "db_service \<Rightarrow> string list \<Rightarrow> py_datetime \<Rightarrow> uuid option \<Rightarrow> (session, persisted_sync_result) eff" where
  "evaluate_room_keys sv room_keys now corr =
     bindE (given_or_fresh sv corr) (\<lambda>correlation.
     transaction (evaluate_body sv (room_ids_of_keys room_keys) (to_utc (dv_tz sv) now) correlation))"

end
