(* ===== verification/Session_Frames.thy ===== *)
theory Session_Frames
  imports Persistence
begin

text \<open>
  Frame facts about session computations: which tables an operation leaves alone. Two tables
  are independent when writing one is not seen by reading the other; an operation that only
  writes independent tables keeps the rows of a table, as the objects have them and, up to a
  flush, as SQL sees them. The facts are collected in \<open>frames\<close> and closed under sequencing.
\<close>

named_theorems frames \<open>operations that keep the rows of a table\<close>

definition indep :: "'a db_table \<Rightarrow> 'b db_table \<Rightarrow> bool" where
  "indep t u \<longleftrightarrow> (\<forall>f d. tb_get t (tb_upd u f d) = tb_get t d)"

definition rows_kept :: "'r db_table \<Rightarrow> session \<Rightarrow> session \<Rightarrow> bool" where
  "rows_kept t s s' \<longleftrightarrow>
     tb_get t (ss_db s') = tb_get t (ss_db s)
     \<and> (tb_get t (ss_flushed s') = tb_get t (ss_flushed s) \<or> tb_get t (ss_flushed s') = tb_get t (ss_db s))
     \<and> ss_autoflush s' = ss_autoflush s"

lemma rows_kept_refl: "reflp (rows_kept t)"
  by (simp add: reflp_def rows_kept_def)

lemma rows_kept_trans: "transp (rows_kept t)"
  by (auto simp: transp_def rows_kept_def)

lemma rows_kept_clean: "rows_kept t s s' \<Longrightarrow> clean t s \<Longrightarrow> clean t s'"
  by (auto simp: rows_kept_def clean_def)

lemma rows_kept_db: "rows_kept t s s' \<Longrightarrow> tb_get t (ss_db s') = tb_get t (ss_db s)"
  by (simp add: rows_kept_def)

abbreviation frame :: "'r db_table \<Rightarrow> (session, 'a) eff \<Rightarrow> bool" where
  "frame t m \<equiv> keeps (rows_kept t) m"

lemma frame_bind [frames]: "frame t m \<Longrightarrow> (\<And>v. frame t (f v)) \<Longrightarrow> frame t (bindE m f)"
  by (rule keeps_bindE [OF rows_kept_trans])

lemma frame_ends [frames]:
  "frame t (ret v)" "frame t (raise e)" "frame t (gets f)" "frame t (lift_result r)" "frame t (Pair r)"
  using rows_kept_refl [of t]
  by (simp_all add: keeps_ret keeps_raise keeps_gets keeps_lift) (simp add: keeps_def reflp_def)

lemma frame_attempt [frames]: "frame t m \<Longrightarrow> frame t (attemptE m)"
  by (rule keeps_attemptE)

lemma frame_add_row [frames]: "indep t u \<Longrightarrow> frame t (add_row u r)"
  by (simp add: keeps_def add_row_def rows_kept_def indep_def)

lemma frame_set_row [frames]: "indep t u \<Longrightarrow> frame t (set_row u i f)"
  by (simp add: keeps_def set_row_def rows_kept_def indep_def)

lemma frame_flush [frames]: "frame t flush"
  by (simp add: keeps_def flush_def rows_kept_def)

lemma frame_draw [frames]: "frame t (draw_uuid uuid4)"
  by (simp add: keeps_def draw_uuid_def rows_kept_def)

lemma frame_autoflush [frames]: "frame t autoflush"
  using frame_flush [of t] by (simp add: keeps_def autoflush_def rows_kept_def)

lemma frame_scalars [frames]: "frame t (scalars u q)"
  unfolding scalars_def by (intro frames)

lemma frame_scalar_one_or_none [frames]: "frame t (scalar_one_or_none u q)"
  unfolding scalar_one_or_none_def by (intro frames) (auto intro!: frames split: list.split)

lemma frame_scalar_one [frames]: "frame t (scalar_one u q)"
  unfolding scalar_one_def by (intro frames) (auto intro!: frames split: list.split)

lemma frame_get_row [frames]: "frame t (get_row u i)"
  unfolding get_row_def by (intro frames)

lemma indep_simps [simp]:
  "indep properties_t rooms_t" "indep properties_t bookings_t" "indep properties_t assignments_t"
  "indep properties_t room_states_t" "indep properties_t overrides_t" "indep properties_t cursors_t"
  "indep properties_t sync_runs_t" "indep properties_t outbox_t" "indep properties_t audit_t"
  "indep rooms_t properties_t" "indep rooms_t bookings_t" "indep rooms_t assignments_t"
  "indep rooms_t room_states_t" "indep rooms_t overrides_t" "indep rooms_t cursors_t"
  "indep rooms_t sync_runs_t" "indep rooms_t outbox_t" "indep rooms_t audit_t"
  "indep bookings_t properties_t" "indep bookings_t rooms_t" "indep bookings_t assignments_t"
  "indep bookings_t room_states_t" "indep bookings_t overrides_t" "indep bookings_t cursors_t"
  "indep bookings_t sync_runs_t" "indep bookings_t outbox_t" "indep bookings_t audit_t"
  "indep assignments_t properties_t" "indep assignments_t rooms_t" "indep assignments_t bookings_t"
  "indep assignments_t room_states_t" "indep assignments_t overrides_t" "indep assignments_t cursors_t"
  "indep assignments_t sync_runs_t" "indep assignments_t outbox_t" "indep assignments_t audit_t"
  "indep room_states_t properties_t" "indep room_states_t rooms_t" "indep room_states_t bookings_t"
  "indep room_states_t assignments_t" "indep room_states_t overrides_t" "indep room_states_t cursors_t"
  "indep room_states_t sync_runs_t" "indep room_states_t outbox_t" "indep room_states_t audit_t"
  "indep overrides_t properties_t" "indep overrides_t rooms_t" "indep overrides_t bookings_t"
  "indep overrides_t assignments_t" "indep overrides_t room_states_t" "indep overrides_t cursors_t"
  "indep overrides_t sync_runs_t" "indep overrides_t outbox_t" "indep overrides_t audit_t"
  "indep cursors_t properties_t" "indep cursors_t rooms_t" "indep cursors_t bookings_t"
  "indep cursors_t assignments_t" "indep cursors_t room_states_t" "indep cursors_t overrides_t"
  "indep cursors_t sync_runs_t" "indep cursors_t outbox_t" "indep cursors_t audit_t"
  "indep sync_runs_t properties_t" "indep sync_runs_t rooms_t" "indep sync_runs_t bookings_t"
  "indep sync_runs_t assignments_t" "indep sync_runs_t room_states_t" "indep sync_runs_t overrides_t"
  "indep sync_runs_t cursors_t" "indep sync_runs_t outbox_t" "indep sync_runs_t audit_t"
  "indep outbox_t properties_t" "indep outbox_t rooms_t" "indep outbox_t bookings_t"
  "indep outbox_t assignments_t" "indep outbox_t room_states_t" "indep outbox_t overrides_t"
  "indep outbox_t cursors_t" "indep outbox_t sync_runs_t" "indep outbox_t audit_t"
  "indep audit_t properties_t" "indep audit_t rooms_t" "indep audit_t bookings_t"
  "indep audit_t assignments_t" "indep audit_t room_states_t" "indep audit_t overrides_t"
  "indep audit_t cursors_t" "indep audit_t sync_runs_t" "indep audit_t outbox_t"
  by (simp_all add: indep_def)

text \<open>Using a frame fact at one run.\<close>

lemma frame_run:
  assumes "frame t m" and "m s = (r, s')"
  shows "rows_kept t s s'"
  using assms by (rule keeps_eqD)

lemma frame_clean: "frame t m \<Longrightarrow> m s = (r, s') \<Longrightarrow> clean t s \<Longrightarrow> clean t s'"
  by (blast dest: frame_run rows_kept_clean)

lemma frame_db: "frame t m \<Longrightarrow> m s = (r, s') \<Longrightarrow> tb_get t (ss_db s') = tb_get t (ss_db s)"
  by (blast dest: frame_run rows_kept_db)

lemma clean_new_session:
  "distinct (map (tb_id t) (tb_get t d)) \<Longrightarrow> clean t (new_session d n)"
  by (simp add: clean_def new_session_def)

end
