(* ===== verification/Service_Frames.thy ===== *)
theory Service_Frames
  imports Clock_Db_Sync Session_Frames
begin

text \<open>
  The tables that the operations of \<^verbatim>\<open>app/policy/control.py\<close> and \<^verbatim>\<open>app/clock/db_sync.py\<close> leave
  alone, operation by operation, in the order of the code.
\<close>

section \<open>Commands\<close>

lemma frame_fresh [frames]: "frame t (fresh_id sv)"
  unfolding fresh_id_def by (intro frames)

lemma frame_latest_override [frames]: "frame t (latest_override_row sv i)"
  unfolding latest_override_row_def by (intro frames)

lemma frame_latest_state [frames]: "frame t (latest_room_state sv i)"
  unfolding latest_room_state_def by (intro frames)

lemma frame_current_draft [frames]: "frame t (current_draft sv i now)"
  unfolding current_draft_def by (intro frames) (auto intro!: frames split: option.split)

lemma frame_ensure_property [frames]: "indep t properties_t \<Longrightarrow> frame t (ensure_property sv)"
  unfolding ensure_property_def Let_def
  by (intro frames) (auto intro!: frames split: option.split)

lemma frame_ensure_room [frames]: "indep t rooms_t \<Longrightarrow> frame t (ensure_room sv p rm)"
  unfolding ensure_room_def Let_def
  by (intro frames) (auto intro!: frames split: option.split)

lemma frame_boundary [frames]: "frame t (current_booking_boundary sv i now)"
  unfolding current_booking_boundary_def Let_def
  by (intro frames) (auto intro!: frames split: option.split)

lemma frame_build_override [frames]: "frame t (build_override_row sv row field payload now)"
  unfolding build_override_row_def Let_def
  by (intro frames) (auto intro!: frames split: prod.split)

lemma frame_queue_event [frames]: "indep t outbox_t \<Longrightarrow> frame t (queue_event sv topic p now c)"
  unfolding queue_event_def by (intro frames)

lemma frame_audit [frames]: "indep t audit_t \<Longrightarrow> frame t (audit sv p r b e m d now c)"
  unfolding audit_def by (intro frames)

lemma frame_audit_rejected [frames]: "indep t audit_t \<Longrightarrow> frame t (audit_rejected sv p r k f why now c)"
  unfolding audit_rejected_def by (intro frames)

lemma frame_accept_row [frames]:
  "indep t overrides_t \<Longrightarrow> indep t outbox_t \<Longrightarrow> indep t audit_t \<Longrightarrow> frame t (accept_row sv p r k f row now c)"
  unfolding accept_row_def Let_def by (intro frames)

lemma frame_correlation [frames]: "frame t (case corr of None \<Rightarrow> fresh_id sv | Some c \<Rightarrow> ret c)"
  by (cases corr) (auto intro: frames)

lemma frame_apply_command [frames]:
  assumes "indep t properties_t" "indep t rooms_t" "indep t overrides_t" "indep t outbox_t" "indep t audit_t"
  shows "frame t (apply_mqtt_command sv k field payload now corr)"
  unfolding apply_mqtt_command_def Let_def using assms
  by (intro frames) (auto intro!: frames split: option.split sum.split)

section \<open>Synchronisation\<close>

lemma frame_ensure_rooms [frames]: "indep t rooms_t \<Longrightarrow> frame t (ensure_rooms sv p rms acc)"
  by (induction rms arbitrary: acc) (auto intro!: frames)

lemma frame_ensure_registry [frames]:
  "indep t properties_t \<Longrightarrow> indep t rooms_t \<Longrightarrow> frame t (ensure_registry sv)"
  unfolding ensure_registry_def by (intro frames)

lemma frame_upsert [frames]: "indep t bookings_t \<Longrightarrow> frame t (upsert_booking sv p nb now)"
  unfolding upsert_booking_def Let_def
  by (intro frames) (auto intro!: frames split: option.split)

lemma frame_current_assignment [frames]: "frame t (current_assignment row)"
  unfolding current_assignment_def by (intro frames)

lemma frame_end_assignment [frames]: "indep t assignments_t \<Longrightarrow> frame t (end_assignment a now)"
  unfolding end_assignment_def by (intro frames)

lemma frame_new_assignment [frames]:
  "indep t assignments_t \<Longrightarrow> indep t audit_t \<Longrightarrow> frame t (new_assignment sv p row nb r aff now c)"
  unfolding new_assignment_def Let_def by (intro frames) (auto intro!: frames)

lemma frame_sync_assignment [frames]:
  "indep t assignments_t \<Longrightarrow> indep t audit_t \<Longrightarrow> frame t (sync_assignment sv reg row nb now c)"
  unfolding sync_assignment_def Let_def
  by (intro frames) (auto intro!: frames split: option.split)

lemma frame_audit_unassigned [frames]:
  "indep t audit_t \<Longrightarrow> frame t (audit_unassigned_if_needed sv p row nb now c)"
  unfolding audit_unassigned_if_needed_def Let_def by (auto intro!: frames split: option.split)

lemma frame_load [frames]: "frame t (load_normalized_bookings sv p)"
  unfolding load_normalized_bookings_def Let_def by (intro frames) (auto intro!: frames)

lemma frame_lock_room [frames]: "frame t (lock_room i)"
  unfolding lock_room_def by (intro frames)

lemma frame_active_override [frames]: "frame t (active_override_from_row sv row now)"
  unfolding active_override_from_row_def
  by (auto intro!: frames split: option.split)

lemma frame_end_override [frames]:
  "indep t overrides_t \<Longrightarrow> indep t audit_t \<Longrightarrow>
     frame t (end_inactive_override_if_needed sv p i k ov st now c)"
  unfolding end_inactive_override_if_needed_def
  by (auto intro!: frames split: option.split)

lemma frame_queue_opt [frames]: "indep t outbox_t \<Longrightarrow> frame t (queue_opt sv topic p now c)"
  unfolding queue_opt_def by (auto intro!: frames split: option.split)

lemma frame_publish_state [frames]:
  "indep t room_states_t \<Longrightarrow> indep t outbox_t \<Longrightarrow> indep t audit_t \<Longrightarrow>
     frame t (publish_state sv p loaded i rm st intent latest control now c)"
  unfolding publish_state_def Let_def by (intro frames) (auto intro!: frames)

lemma frame_recalculate_known_room [frames]:
  assumes "indep t room_states_t" "indep t overrides_t" "indep t outbox_t" "indep t audit_t"
  shows "frame t (recalculate_known_room sv reg loaded now c i rm acc)"
  unfolding recalculate_known_room_def Let_def using assms
  by (intro frames) (auto intro!: frames split: option.split prod.split)

lemma frame_recalculate_room [frames]:
  assumes "indep t room_states_t" "indep t overrides_t" "indep t outbox_t" "indep t audit_t"
  shows "frame t (recalculate_room sv reg loaded now c i acc)"
  unfolding recalculate_room_def using assms
  by (intro frames) (auto intro!: frames split: option.split)

lemma frame_recalculate_each [frames]:
  assumes "indep t room_states_t" "indep t overrides_t" "indep t outbox_t" "indep t audit_t"
  shows "frame t (recalculate_each sv reg loaded now c ids acc)"
  using assms by (induction ids arbitrary: acc) (auto intro!: frames)

lemma frame_recalculate_rooms [frames]:
  assumes "indep t room_states_t" "indep t overrides_t" "indep t outbox_t" "indep t audit_t"
  shows "frame t (recalculate_rooms sv reg ids now c)"
  unfolding recalculate_rooms_def using assms by (auto intro!: frames)

lemma frame_select_cursor [frames]: "frame t (select_cursor sv p)"
  unfolding select_cursor_def by (intro frames)

lemma frame_advance_cursor [frames]: "indep t cursors_t \<Longrightarrow> frame t (advance_cursor sv p result now)"
  unfolding advance_cursor_def Let_def
  by (intro frames) (auto intro!: frames split: option.split)

lemma frame_load_cursor [frames]: "frame t (load_cursor_state sv)"
  unfolding load_cursor_state_def by (intro frames) (auto intro!: frames split: option.split)

lemma frame_sync_booking [frames]:
  assumes "indep t bookings_t" "indep t assignments_t" "indep t audit_t"
  shows "frame t (sync_booking sv reg now c nb acc)"
  unfolding sync_booking_def using assms
  by (intro frames) (auto intro!: frames split: prod.split)

lemma frame_sync_bookings [frames]:
  assumes "indep t bookings_t" "indep t assignments_t" "indep t audit_t"
  shows "frame t (sync_bookings sv reg now c nbs acc)"
  using assms by (induction nbs arbitrary: acc) (auto intro!: frames)

lemma frame_given_or_fresh [frames]: "frame t (given_or_fresh sv corr)"
  unfolding given_or_fresh_def by (intro frames)

lemma frame_start_sync_run [frames]: "indep t sync_runs_t \<Longrightarrow> frame t (start_sync_run sv result reg c)"
  unfolding start_sync_run_def by (intro frames)

lemma given_or_fresh_run:
  assumes "given_or_fresh sv corr s = (r, s')"
  shows "ss_db s' = ss_db s" "ss_flushed s' = ss_flushed s" "ss_autoflush s' = ss_autoflush s"
  using assms by (auto simp: given_or_fresh_def fresh_id_def draw_uuid_def split: option.splits)

lemma given_or_fresh_Inr: "fst (given_or_fresh sv corr s) \<noteq> Inl e"
  by (auto simp: given_or_fresh_def fresh_id_def draw_uuid_def split: option.splits)

end
