(* ===== verification/Db_Sync_Properties.thy ===== *)
theory Db_Sync_Properties
  imports Service_Frames
begin

text \<open>
  Properties of the database synchronisation: what a poll leaves in the bookings, the
  assignments and the cursor.
\<close>

section \<open>The stored database\<close>

text \<open>The primary keys, which the database guarantees of what was committed.\<close>

definition keys_ok :: "database \<Rightarrow> bool" where
  "keys_ok d \<longleftrightarrow>
     distinct (map ppr_id (db_properties d)) \<and> distinct (map rmr_id (db_rooms d))
     \<and> distinct (map bkr_id (db_bookings d)) \<and> distinct (map asr_id (db_assignments d))
     \<and> distinct (map rsr_id (db_room_states d)) \<and> distinct (map ovr_id (db_overrides d))
     \<and> distinct (map scr_id (db_cursors d))"

lemma keys_ok_flush: "flush_ok old new \<Longrightarrow> keys_ok new"
  using flush_ok_distinct [of old new] by (simp add: keys_ok_def)

lemma keys_ok_clean:
  assumes "keys_ok d"
  shows "clean properties_t (new_session d n)" "clean rooms_t (new_session d n)"
    "clean bookings_t (new_session d n)" "clean assignments_t (new_session d n)"
    "clean room_states_t (new_session d n)" "clean overrides_t (new_session d n)"
    "clean cursors_t (new_session d n)"
  using assms by (simp_all add: keys_ok_def clean_new_session)

lemma filter_assign:
  assumes "\<And>r. P (f r) = P r"
  shows "filter P (map (\<lambda>r. if rid r = i then f r else r) rows)
     = map (\<lambda>r. if rid r = i then f r else r) (filter P rows)"
  using assms by (induction rows) auto

lemma one_or_none_None: "one_or_none rows = Inr None \<longleftrightarrow> rows = []"
  by (auto simp: one_or_none_def split: list.splits)

lemma one_or_none_Some: "one_or_none rows = Inr (Some r) \<longleftrightarrow> rows = [r]"
  by (auto simp: one_or_none_def split: list.splits)

section \<open>The property row\<close>

definition property_key :: "db_service \<Rightarrow> string" where
  "property_key sv = pr_key (rr_property (dv_registry sv))"

lemma ensure_property_row:
  assumes "clean properties_t s" and "ensure_property sv s = (Inr p, s')"
  shows "filter (\<lambda>r. ppr_key r = property_key sv) (db_properties (ss_db s')) = [p]"
proof -
  let ?q = "filter (\<lambda>r. ppr_key r = property_key sv)"
  have sel: "scalar_one_or_none properties_t ?q s = (one_or_none (?q (db_properties (ss_db s))), s)"
    using scalar_one_or_none_clean [OF assms(1), of ?q] by simp
  show ?thesis
  proof (cases "one_or_none (?q (db_properties (ss_db s)))")
    case (Inl e)
    with assms(2) sel show ?thesis by (simp add: ensure_property_def Let_def property_key_def bindE_def)
  next
    case (Inr found)
    show ?thesis
    proof (cases found)
      case None
      with Inr have "?q (db_properties (ss_db s)) = []" by (simp add: one_or_none_None)
      with assms(2) sel Inr None show ?thesis
        by (auto simp: ensure_property_def Let_def property_key_def bindE_def fresh_id_def draw_uuid_def
            add_row_def flush_def split: if_splits)
    next
      case (Some row)
      with Inr have "?q (db_properties (ss_db s)) = [row]" by (simp add: one_or_none_Some)
      with assms(2) sel Inr Some show ?thesis
        by (auto simp: ensure_property_def Let_def property_key_def bindE_def set_row_def filter_assign)
    qed
  qed
qed

lemma ensure_registry_property:
  assumes "clean properties_t s" and "ensure_registry sv s = (Inr reg, s')"
  shows "filter (\<lambda>r. ppr_key r = property_key sv) (db_properties (ss_db s')) = [rg_property reg]"
proof -
  have reg: "rg_property r = rg_property acc" if "ensure_rooms sv p rms acc s = (Inr r, s')" for p rms acc s s' r
    using that by (induction rms arbitrary: acc s) (auto elim!: bindE_Inr_E)
  from assms(2) obtain p s1 where p: "ensure_property sv s = (Inr p, s1)"
    and r: "ensure_rooms sv p (rr_rooms (dv_registry sv))
       \<lparr>rg_property = p, rg_rooms_by_key = [], rg_rooms_by_clock_id = [], rg_domain_rooms_by_id = []\<rparr> s1
       = (Inr reg, s')"
    unfolding ensure_registry_def by (elim bindE_Inr_E)
  have "db_properties (ss_db s') = db_properties (ss_db s1)"
    using frame_db [OF frame_ensure_rooms r, of properties_t] by simp
  with ensure_property_row [OF assms(1) p] reg [OF r] show ?thesis by simp
qed

section \<open>The cursor\<close>

lemma advance_cursor_row:
  assumes "clean cursors_t s" and "advance_cursor sv p result now s = (Inr u, s')"
  shows "\<exists>c. filter (\<lambda>c. scr_property_id c = ppr_id p \<and> scr_source c = dv_cursor_source sv)
                (db_cursors (ss_db s')) = [c]
         \<and> scr_cursor_value c = sc_cursor_value (sy_next_cursor result)
         \<and> scr_last_success_at c = map_option (utc sv) (sc_last_success_at (sy_next_cursor result))"
proof -
  let ?q = "filter (\<lambda>c. scr_property_id c = ppr_id p \<and> scr_source c = dv_cursor_source sv)"
  have sel: "select_cursor sv p s = (one_or_none (?q (db_cursors (ss_db s))), s)"
    using scalar_one_or_none_clean [OF assms(1), of ?q] by (simp add: select_cursor_def)
  show ?thesis
  proof (cases "one_or_none (?q (db_cursors (ss_db s)))")
    case (Inl e)
    with assms(2) sel show ?thesis by (simp add: advance_cursor_def Let_def)
  next
    case (Inr found)
    show ?thesis
    proof (cases found)
      case None
      with Inr have "?q (db_cursors (ss_db s)) = []" by (simp add: one_or_none_None)
      with assms(2) sel Inr None show ?thesis
        by (auto simp: advance_cursor_def Let_def bindE_def fresh_id_def draw_uuid_def add_row_def)
    next
      case (Some row)
      with Inr have "?q (db_cursors (ss_db s)) = [row]" by (simp add: one_or_none_Some)
      with assms(2) sel Inr Some show ?thesis
        by (auto simp: advance_cursor_def Let_def bindE_def set_row_def filter_assign)
    qed
  qed
qed

lemma load_cursor:
  assumes "clean properties_t s" and "clean cursors_t s"
    and "filter (\<lambda>r. ppr_key r = property_key sv) (db_properties (ss_db s)) = [p]"
    and "filter (\<lambda>c. scr_property_id c = ppr_id p \<and> scr_source c = dv_cursor_source sv) (db_cursors (ss_db s)) = [c]"
  shows "load_cursor_state sv s
     = (Inr \<lparr>sc_last_success_at = scr_last_success_at c, sc_cursor_value = scr_cursor_value c\<rparr>, s)"
  using scalar_one_or_none_clean [OF assms(1), of "filter (\<lambda>r. ppr_key r = property_key sv)"]
    scalar_one_or_none_clean [OF assms(2),
      of "filter (\<lambda>c. scr_property_id c = ppr_id p \<and> scr_source c = dv_cursor_source sv)"] assms(3,4)
  by (simp add: load_cursor_state_def select_cursor_def property_key_def)


section \<open>The steps of a sync\<close>

text \<open>A sync that returned went through its steps; each is a run from the state of the one before.\<close>

lemma start_sync_run_flushed:
  assumes "start_sync_run sv result reg c s = (Inr i, s')"
  shows "ss_flushed s' = ss_db s'" "flush_ok (ss_flushed s) (ss_db s')" "ss_autoflush s' = ss_autoflush s"
  using assms
  by (auto simp: start_sync_run_def bindE_def fresh_id_def draw_uuid_def add_row_def flush_def split: if_splits)

lemma transaction_given:
  assumes "bindE (given_or_fresh sv corr) (\<lambda>c. transaction (body c)) s = (Inr v, s')"
  obtains c s0 s1 where "ss_db s0 = ss_db s" "ss_flushed s0 = ss_flushed s" "ss_autoflush s0 = ss_autoflush s"
    "body c s0 = (Inr v, s1)" "flush_ok (ss_flushed s1) (ss_db s1)" "s' = s1\<lparr>ss_flushed := ss_db s1\<rparr>"
    "given_or_fresh sv corr s = (Inr c, s0)"
proof -
  from assms obtain c s0 where c: "given_or_fresh sv corr s = (Inr c, s0)" and t: "transaction (body c) s0 = (Inr v, s')"
    by (elim bindE_Inr_E)
  from t obtain s1 where "body c s0 = (Inr v, s1)" "flush_ok (ss_flushed s1) (ss_db s1)" "s' = s1\<lparr>ss_flushed := ss_db s1\<rparr>"
    by (elim transaction_Inr)
  with c show thesis by (intro that) (auto dest: given_or_fresh_run)
qed

lemma store_result_steps:
  assumes "store_result sv result reg run_id c s = (Inr ps, s')"
  defines "now \<equiv> utc sv (sy_finished_at result)"
  obtains aff s1 rc s2 s3 where
    "sync_bookings sv reg now c (sy_bookings result) ([], 0) s = (Inr aff, s1)"
    "recalculate_rooms sv reg (fst aff) now c s1 = (Inr rc, s2)"
    "advance_cursor sv (rg_property reg) result now s2 = (Inr (), s3)"
    "set_row sync_runs_t run_id (\<lambda>r. r\<lparr>srr_processed_bookings := int (length (sy_bookings result))\<rparr>) s3 = (Inr (), s')"
    "ps_success ps" "ps_room_states_created ps = rc_room_states_created rc"
    "ps_outbox_events_created ps = rc_outbox_events_created rc"
  using assms unfolding store_result_def Let_def by (auto elim!: bindE_Inr_E)

section \<open>The cursor advances with a successful poll only\<close>

lemma cursor_stored:
  assumes "apply_sync_result sv result corr (new_session d n) = (Inr ps, s')" and "keys_ok d" and "sy_success result"
  shows "load_cursor_state sv (new_session (ss_db s') m) =
    (Inr \<lparr>sc_last_success_at = map_option (utc sv) (sc_last_success_at (sy_next_cursor result)),
          sc_cursor_value = sc_cursor_value (sy_next_cursor result)\<rparr>, new_session (ss_db s') m)"
proof -
  from assms(1) obtain c s0 s1 where s0: "ss_db s0 = d" "ss_flushed s0 = d" "\<not> ss_autoflush s0"
    and body: "sync_body sv result c s0 = (Inr ps, s1)" and fl: "flush_ok (ss_flushed s1) (ss_db s1)"
    and s': "ss_db s' = ss_db s1"
    unfolding apply_sync_result_def by (elim transaction_given) (auto simp: new_session_def)
  from body assms(3) obtain reg sa run_id sb where reg: "ensure_registry sv s0 = (Inr reg, sa)"
    and run: "start_sync_run sv result reg c sa = (Inr run_id, sb)"
    and st: "store_result sv result reg run_id c sb = (Inr ps, s1)"
    unfolding sync_body_def by (auto elim!: bindE_Inr_E)
  from st obtain aff sc rc sd se where steps:
    "sync_bookings sv reg (utc sv (sy_finished_at result)) c (sy_bookings result) ([], 0) sb = (Inr aff, sc)"
    "recalculate_rooms sv reg (fst aff) (utc sv (sy_finished_at result)) c sc = (Inr rc, sd)"
    "advance_cursor sv (rg_property reg) result (utc sv (sy_finished_at result)) sd = (Inr (), se)"
    and last: "set_row sync_runs_t run_id (\<lambda>r. r\<lparr>srr_processed_bookings := int (length (sy_bookings result))\<rparr>) se = (Inr (), s1)"
    by (elim store_result_steps)
  have c0: "clean properties_t s0" "clean cursors_t s0"
    using assms(2) s0 by (simp_all add: clean_def keys_ok_def)
  note props = ensure_registry_property [OF c0(1) reg]
  have same: "db_properties (ss_db s1) = db_properties (ss_db sa)"
    using frame_db [OF frame_start_sync_run run, of properties_t]
      frame_db [OF frame_sync_bookings steps(1), of properties_t]
      frame_db [OF frame_recalculate_rooms steps(2), of properties_t]
      frame_db [OF frame_advance_cursor steps(3), of properties_t]
      frame_db [OF frame_set_row last, of properties_t] by simp
  have "clean cursors_t sd"
    using frame_clean [OF frame_ensure_registry reg, of cursors_t] frame_clean [OF frame_start_sync_run run, of cursors_t]
      frame_clean [OF frame_sync_bookings steps(1), of cursors_t]
      frame_clean [OF frame_recalculate_rooms steps(2), of cursors_t] c0(2) by simp
  from advance_cursor_row [OF this steps(3)] frame_db [OF frame_set_row last, of cursors_t]
  obtain cur where cur: "filter (\<lambda>c. scr_property_id c = ppr_id (rg_property reg) \<and> scr_source c = dv_cursor_source sv)
        (db_cursors (ss_db s1)) = [cur]"
    "scr_cursor_value cur = sc_cursor_value (sy_next_cursor result)"
    "scr_last_success_at cur = map_option (utc sv) (sc_last_success_at (sy_next_cursor result))"
    by auto
  note k = keys_ok_flush [OF fl, folded s']
  show ?thesis
    using load_cursor [of "new_session (ss_db s') m" sv "rg_property reg" cur] keys_ok_clean [OF k, of m]
      props same cur s' by (simp add: new_session_def)
qed

text \<open>A failed poll is recorded and changes nothing else.\<close>

lemma failed_poll:
  assumes "apply_sync_result sv result corr (new_session d n) = (Inr ps, s')" and "\<not> sy_success result"
  shows "db_bookings (ss_db s') = db_bookings d" "db_assignments (ss_db s') = db_assignments d"
    "db_room_states (ss_db s') = db_room_states d" "db_overrides (ss_db s') = db_overrides d"
    "db_cursors (ss_db s') = db_cursors d" "db_outbox (ss_db s') = db_outbox d"
    "db_audit (ss_db s') = db_audit d" "\<not> ps_success ps"
proof -
  from assms(1) obtain c s0 s1 where s0: "ss_db s0 = d"
    and body: "sync_body sv result c s0 = (Inr ps, s1)" and s': "ss_db s' = ss_db s1"
    unfolding apply_sync_result_def by (elim transaction_given) (auto simp: new_session_def)
  from body assms(2) obtain reg sa run_id where reg: "ensure_registry sv s0 = (Inr reg, sa)"
    and run: "start_sync_run sv result reg c sa = (Inr run_id, s1)" and ps: "ps = failed_outcome run_id"
    unfolding sync_body_def by (auto elim!: bindE_Inr_E)
  show "db_bookings (ss_db s') = db_bookings d" "db_assignments (ss_db s') = db_assignments d"
    "db_room_states (ss_db s') = db_room_states d" "db_overrides (ss_db s') = db_overrides d"
    "db_cursors (ss_db s') = db_cursors d" "db_outbox (ss_db s') = db_outbox d" "db_audit (ss_db s') = db_audit d"
    using frame_db [OF frame_ensure_registry reg] frame_db [OF frame_start_sync_run run] s0 s'
    by (metis indep_simps table_simps)+
  show "\<not> ps_success ps" using ps by (simp add: failed_outcome_def)
qed


section \<open>The mirror of the Clock bookings\<close>

text \<open>
  What the evaluation reads of a booking id: the booking row with the identity of its current
  assignment, normalised. The time it was first seen is the store's own.
\<close>

definition booking_at :: "property_row \<Rightarrow> database \<Rightarrow> string \<Rightarrow> booking_row option" where
  "booking_at p d cid =
     find (\<lambda>b. bkr_property_id b = ppr_id p \<and> bkr_clock_booking_id b = cid) (db_bookings d)"

definition assignment_at :: "database \<Rightarrow> uuid \<Rightarrow> assignment_row option" where
  "assignment_at d bid =
     (case filter (\<lambda>a. asr_booking_id a = bid \<and> asr_is_current a) (db_assignments d) of
        [] \<Rightarrow> None | a # as \<Rightarrow> Some (last (a # as)))"

definition mirror :: "property_row \<Rightarrow> database \<Rightarrow> string \<rightharpoonup> normalized_booking" where
  "mirror p d cid =
     Option.bind (booking_at p d cid) (\<lambda>b.
     case normalized_from_row (ppr_key p) b (assignment_at d (bkr_id b)) of
       Inr nb \<Rightarrow> Some (nb\<lparr>nb_first_seen_at := None\<rparr>) | Inl _ \<Rightarrow> None)"

definition mirrored :: "db_service \<Rightarrow> datetime \<Rightarrow> string \<Rightarrow> normalized_booking \<Rightarrow> normalized_booking" where
  "mirrored sv now key nb =
     nb\<lparr>nb_property_id := key,
        nb_created_at := map_option Aware (optional_to_utc (dv_tz sv) (nb_created_at nb)),
        nb_updated_at := map_option Aware (optional_to_utc (dv_tz sv) (nb_updated_at nb)),
        nb_status_changed_at := map_option Aware (optional_to_utc (dv_tz sv) (nb_status_changed_at nb)),
        nb_physical_room_id := (if has_physical_room nb then nb_physical_room_id nb else None),
        nb_physical_room_number := (if has_physical_room nb then nb_physical_room_number nb else None),
        nb_first_seen_at := None,
        nb_last_seen_at := Some (Aware (seen_at sv (nb_last_seen_at nb) now))\<rparr>"

lemma attention_text_truthy: "truthy (Some (attention_reason_value a))"
  by (cases a) simp_all

lemma normalized_written:
  assumes "valid_booking nb" and "bkr_clock_booking_id r0 = nb_clock_booking_id nb"
    and "map_option assignment_row_identity a = assignment_identity nb"
  shows "normalized_from_row key (write_booking sv nb now r0) a =
     Inr ((mirrored sv now key nb)\<lparr>nb_first_seen_at := Some (Aware (bkr_first_seen_at r0))\<rparr>)"
proof -
  have rooms: "Option.bind a asr_clock_room_id = (if has_physical_room nb then nb_physical_room_id nb else None)"
    "Option.bind a asr_physical_room_number = (if has_physical_room nb then nb_physical_room_number nb else None)"
    using assms(3) by (cases a; auto simp: assignment_row_identity_def assignment_identity_def split: if_splits)+
  let ?m = "(mirrored sv now key nb)\<lparr>nb_first_seen_at := Some (Aware (bkr_first_seen_at r0))\<rparr>"
  have "mk_normalized_booking ?m = Inr ?m"
    using assms(1) by (simp add: mk_normalized_booking_Inr valid_booking_def mirrored_def)
  moreover have "normalized_from_row key (write_booking sv nb now r0) a = mk_normalized_booking ?m"
    using assms(2) attention_text_truthy [of "nb_attention_reason nb"]
    unfolding normalized_from_row_def write_booking_def
    by (cases "has_physical_room nb"; simp add: rooms; intro arg_cong [where f = mk_normalized_booking]
        normalized_booking.equality; simp add: mirrored_def)
  ultimately show ?thesis by simp
qed

lemma normalized_identity_cong:
  assumes "map_option assignment_row_identity a = map_option assignment_row_identity a'"
  shows "normalized_from_row key b a = normalized_from_row key b a'"
proof -
  have "Option.bind a asr_clock_room_id = Option.bind a' asr_clock_room_id"
    "Option.bind a asr_physical_room_number = Option.bind a' asr_physical_room_number"
    using assms by (cases a; cases a'; simp add: assignment_row_identity_def)+
  then show ?thesis by (simp add: normalized_from_row_def)
qed

subsection \<open>Storing a booking\<close>

lemma write_booking_simps [simp]:
  "bkr_id (write_booking sv nb now r) = bkr_id r"
  "bkr_property_id (write_booking sv nb now r) = bkr_property_id r"
  "bkr_clock_booking_id (write_booking sv nb now r) = bkr_clock_booking_id r"
  "bkr_first_seen_at (write_booking sv nb now r) = bkr_first_seen_at r"
  by (simp_all add: write_booking_def)

lemma find_filter: "find P xs = (case filter P xs of [] \<Rightarrow> None | x # _ \<Rightarrow> Some x)"
  by (induction xs) auto

lemma flushed_clean:
  assumes "ss_flushed s = ss_db s" and "\<not> ss_autoflush s" and "keys_ok (ss_db s)"
  shows "clean bookings_t s" "clean assignments_t s"
  using assms by (simp_all add: clean_def keys_ok_def)

lemma upsert_stored:
  assumes "clean bookings_t s" and "upsert_booking sv p nb now s = (Inr (row, ch), s')"
  shows "\<exists>r0. row = write_booking sv nb now r0 \<and> bkr_clock_booking_id r0 = nb_clock_booking_id nb"
    and "booking_at p (ss_db s') (nb_clock_booking_id nb) = Some row"
    and "cid \<noteq> nb_clock_booking_id nb \<Longrightarrow> booking_at p (ss_db s') cid = booking_at p (ss_db s) cid"
    and "db_assignments (ss_db s') = db_assignments (ss_db s)"
    and "ss_flushed s' = ss_db s'" "keys_ok (ss_db s')" "\<not> ss_autoflush s'"
proof -
  let ?P = "\<lambda>cid b. bkr_property_id b = ppr_id p \<and> bkr_clock_booking_id b = cid"
  let ?q = "filter (?P (nb_clock_booking_id nb))"
  have sel: "scalar_one_or_none bookings_t ?q s = (one_or_none (?q (db_bookings (ss_db s))), s)"
    using scalar_one_or_none_clean [OF assms(1), of ?q] by simp
  obtain found where f: "one_or_none (?q (db_bookings (ss_db s))) = Inr found"
    using assms(2) sel by (cases "one_or_none (?q (db_bookings (ss_db s)))") (auto simp: upsert_booking_def)
  note run = assms(2) [unfolded upsert_booking_def]
  have a: "\<not> ss_autoflush s" using assms(1) by (simp add: clean_def)
  have "(\<exists>r0. row = write_booking sv nb now r0 \<and> bkr_clock_booking_id r0 = nb_clock_booking_id nb)
    \<and> filter (?P (nb_clock_booking_id nb)) (db_bookings (ss_db s')) = [row]
    \<and> (\<forall>cid. cid \<noteq> nb_clock_booking_id nb \<longrightarrow>
          filter (?P cid) (db_bookings (ss_db s')) = filter (?P cid) (db_bookings (ss_db s)))
    \<and> db_assignments (ss_db s') = db_assignments (ss_db s)
    \<and> ss_flushed s' = ss_db s' \<and> keys_ok (ss_db s') \<and> \<not> ss_autoflush s'"
  proof (cases found)
    case None
    with f have none: "?q (db_bookings (ss_db s)) = []" by (simp add: one_or_none_None)
    let ?r0 = "new_booking_row sv (dv_uuid4 sv (ss_draws s)) p nb now"
    have "bkr_property_id ?r0 = ppr_id p" "bkr_clock_booking_id ?r0 = nb_clock_booking_id nb"
      by (simp_all add: new_booking_row_def)
    with run sel f None none a show ?thesis
      by (auto simp: bindE_def fresh_id_def draw_uuid_def add_row_def flush_def Let_def
          split: if_splits intro: keys_ok_flush)
  next
    case (Some r0)
    with f have one: "?q (db_bookings (ss_db s)) = [r0]" by (simp add: one_or_none_Some)
    have r0: "bkr_property_id r0 = ppr_id p" "bkr_clock_booking_id r0 = nb_clock_booking_id nb"
      "r0 \<in> set (db_bookings (ss_db s))"
      using filter_eq_ConsD [OF one] by auto
    let ?f = "write_booking sv nb now" let ?g = "\<lambda>r. if bkr_id r = bkr_id r0 then ?f r else r"
    have dist: "distinct (map bkr_id (db_bookings (ss_db s)))" using assms(1) by (simp add: clean_def)
    have same: "r = r0" if "r \<in> set (db_bookings (ss_db s))" "bkr_id r = bkr_id r0" for r
      using dist that r0(3) by (auto simp: distinct_map inj_on_def)
    have flt: "filter (?P cid) (map ?g (db_bookings (ss_db s))) = map ?g (filter (?P cid) (db_bookings (ss_db s)))" for cid
      by (rule filter_assign) simp
    have other: "map ?g (filter (?P cid) (db_bookings (ss_db s))) = filter (?P cid) (db_bookings (ss_db s))"
      if "cid \<noteq> nb_clock_booking_id nb" for cid
      using same r0(2) that by (intro map_idI) auto
    from run sel f Some a have s': "s' = s\<lparr>ss_db := db_bookings_update (map ?g) (ss_db s),
        ss_flushed := db_bookings_update (map ?g) (ss_db s)\<rparr>"
      and row: "row = ?f r0" and fl: "flush_ok (ss_flushed s) (db_bookings_update (map ?g) (ss_db s))"
      by (auto simp: bindE_def set_row_def flush_def Let_def split: if_splits)
    show ?thesis
      using s' row fl r0 one other a by (auto simp: flt intro: keys_ok_flush)
  qed
  then show "\<exists>r0. row = write_booking sv nb now r0 \<and> bkr_clock_booking_id r0 = nb_clock_booking_id nb"
    "booking_at p (ss_db s') (nb_clock_booking_id nb) = Some row"
    "cid \<noteq> nb_clock_booking_id nb \<Longrightarrow> booking_at p (ss_db s') cid = booking_at p (ss_db s) cid"
    "db_assignments (ss_db s') = db_assignments (ss_db s)"
    "ss_flushed s' = ss_db s'" "keys_ok (ss_db s')" "\<not> ss_autoflush s'"
    by (simp_all add: booking_at_def find_filter)
qed


subsection \<open>Storing its assignment\<close>

lemma assignment_at_filter:
  "filter (\<lambda>a. asr_booking_id a = bid \<and> asr_is_current a) (db_assignments d) = [] \<Longrightarrow> assignment_at d bid = None"
  "filter (\<lambda>a. asr_booking_id a = bid \<and> asr_is_current a) (db_assignments d) = [a] \<Longrightarrow> assignment_at d bid = Some a"
  by (simp_all add: assignment_at_def)

lemma assignment_at_cong:
  assumes "filter (\<lambda>a. asr_booking_id a = bid \<and> asr_is_current a) (db_assignments d)
    = filter (\<lambda>a. asr_booking_id a = bid \<and> asr_is_current a) (db_assignments d')"
  shows "assignment_at d bid = assignment_at d' bid"
  using assms by (simp add: assignment_at_def)

text \<open>
  Ending, moving and adding assignments of one booking, as the list of its current ones changes;
  the assignments of other bookings stay.
\<close>

lemma current_after_set:
  assumes "distinct (map asr_id rows)" and "filter (\<lambda>a. asr_booking_id a = bid \<and> asr_is_current a) rows = [cur]"
    and "\<And>a. asr_booking_id (f a) = asr_booking_id a"
  defines "g \<equiv> \<lambda>a. if asr_id a = asr_id cur then f a else a"
  shows "filter (\<lambda>a. asr_booking_id a = bid \<and> asr_is_current a) (map g rows) = (if asr_is_current (f cur) then [f cur] else [])"
    and "b \<noteq> bid \<Longrightarrow> filter (\<lambda>a. asr_booking_id a = b \<and> asr_is_current a) (map g rows)
        = filter (\<lambda>a. asr_booking_id a = b \<and> asr_is_current a) rows"
proof -
  let ?P = "\<lambda>b a. asr_booking_id a = b \<and> asr_is_current a"
  from filter_eq_ConsD [OF assms(2)] obtain us vs where rows: "rows = us @ cur # vs"
    and P: "\<forall>u\<in>set us. \<not> ?P bid u" "?P bid cur" and rest: "[] = filter (?P bid) vs"
    by blast
  have "asr_id x \<noteq> asr_id cur" if "x \<in> set us \<union> set vs" for x
    using assms(1) that unfolding rows by (auto simp: image_iff)
  then have id: "map g us = us" "map g vs = vs" by (auto intro!: map_idI simp: g_def)
  have split: "map g rows = us @ f cur # vs" by (simp add: rows id) (simp add: g_def)
  have "filter (?P bid) us = []" using P(1) by (auto simp: filter_empty_conv)
  with P rest show "filter (?P bid) (map g rows) = (if asr_is_current (f cur) then [f cur] else [])"
    by (simp add: split assms(3))
  show "filter (?P b) (map g rows) = filter (?P b) rows" if "b \<noteq> bid"
    using that P unfolding split unfolding rows by (simp add: assms(3))
qed

lemma new_assignment_stored:
  assumes "new_assignment sv prop row nb r aff now c s = (Inr ch, s')"
  shows "\<exists>a. db_assignments (ss_db s') = db_assignments (ss_db s) @ [a] \<and> asr_booking_id a = bkr_id row
    \<and> asr_is_current a \<and> assignment_row_identity a = (nb_physical_room_id nb, nb_physical_room_number nb)"
  using assms
  by (auto simp: new_assignment_def Let_def bindE_def fresh_id_def draw_uuid_def add_row_def audit_def
      assignment_row_identity_def split: if_splits)

lemma assignment_rows:
  assumes "clean assignments_t s" and "sync_assignment sv reg row nb now c s = (Inr ch, s')"
  defines "cur \<equiv> \<lambda>rows b. filter (\<lambda>a. asr_booking_id a = b \<and> asr_is_current a) rows"
  shows "(case assignment_identity nb of
           None \<Rightarrow> cur (db_assignments (ss_db s')) (bkr_id row) = []
         | Some ident \<Rightarrow> \<exists>a. cur (db_assignments (ss_db s')) (bkr_id row) = [a] \<and> assignment_row_identity a = ident)
    \<and> (\<forall>b. b \<noteq> bkr_id row \<longrightarrow> cur (db_assignments (ss_db s')) b = cur (db_assignments (ss_db s)) b)"
proof -
  let ?rows = "db_assignments (ss_db s)" let ?bid = "bkr_id row"
  have dist: "distinct (map asr_id ?rows)" using assms(1) by (simp add: clean_def)
  have sel: "current_assignment row s = (one_or_none (cur ?rows ?bid), s)"
    using scalar_one_or_none_clean [OF assms(1), of "filter (\<lambda>a. asr_booking_id a = ?bid \<and> asr_is_current a)"]
    by (simp add: current_assignment_def cur_def)
  then obtain old where old: "one_or_none (cur ?rows ?bid) = Inr old"
    using assms(2) by (cases "one_or_none (cur ?rows ?bid)") (auto simp: sync_assignment_def Let_def)
  note defs = sync_assignment_def Let_def bindE_def end_assignment_def set_row_def audit_def fresh_id_def
    draw_uuid_def add_row_def
  note set = current_after_set [OF dist, of ?bid]
  show ?thesis
  proof (cases old)
    case None
    with old have none: "cur ?rows ?bid = []" by (simp add: one_or_none_None)
    show ?thesis
    proof (cases "assignment_identity nb")
      case None
      with assms(2) sel old \<open>old = None\<close> none show ?thesis by (simp add: sync_assignment_def Let_def)
    next
      case (Some ident)
      with assms(2) sel old \<open>old = None\<close>
      have "new_assignment sv (Some (ppr_id (rg_property reg))) row nb (resolve_room reg nb) [] now c s = (Inr ch, s')"
        by (simp add: sync_assignment_def Let_def)
      from new_assignment_stored [OF this] Some none show ?thesis
        by (auto simp: cur_def assignment_identity_def split: if_splits)
    qed
  next
    case (Some a)
    with old have one: "cur ?rows ?bid = [a]" by (simp add: one_or_none_Some)
    let ?stop = "\<lambda>a. a\<lparr>asr_is_current := False, asr_removed_at := Some now\<rparr>"
    show ?thesis
    proof (cases "assignment_identity nb")
      case None
      with assms(2) sel old \<open>old = Some a\<close>
      have "db_assignments (ss_db s') = map (\<lambda>x. if asr_id x = asr_id a then ?stop x else x) ?rows"
        by (auto simp: defs)
      with set [of a ?stop] one None show ?thesis by (simp add: cur_def)
    next
      case (Some ident)
      consider (same) "assignment_row_identity a = ident" "asr_room_id a = map_option rmr_id (resolve_room reg nb)"
        | (moved) "assignment_row_identity a = ident" "asr_room_id a \<noteq> map_option rmr_id (resolve_room reg nb)"
        | (other) "assignment_row_identity a \<noteq> ident" by blast
      then show ?thesis
      proof cases
        case same
        with assms(2) sel old \<open>old = Some a\<close> Some have "s' = s" by (auto simp: sync_assignment_def Let_def)
        with one same Some show ?thesis by simp
      next
        case moved
        let ?f = "\<lambda>a. a\<lparr>asr_room_id := map_option rmr_id (resolve_room reg nb)\<rparr>"
        from moved assms(2) sel old \<open>old = Some a\<close> Some
        have "db_assignments (ss_db s') = map (\<lambda>x. if asr_id x = asr_id a then ?f x else x) ?rows"
          by (auto simp: defs)
        moreover have "asr_is_current a" using one filter_eq_ConsD [of _ ?rows a "[]"] by (auto simp: cur_def)
        ultimately show ?thesis
          using set [of a ?f] one Some moved by (simp add: cur_def assignment_row_identity_def)
      next
        case other
        let ?s1 = "snd (end_assignment a now s)"
        from other assms(2) sel old \<open>old = Some a\<close> Some
        have run: "new_assignment sv (Some (ppr_id (rg_property reg))) row nb (resolve_room reg nb)
                (opt_list (asr_room_id a)) now c ?s1 = (Inr ch, s')"
          by (simp add: sync_assignment_def Let_def end_assignment_def set_row_def bindE_def)
        have ended: "db_assignments (ss_db ?s1) = map (\<lambda>x. if asr_id x = asr_id a then ?stop x else x) ?rows"
          by (simp add: end_assignment_def set_row_def)
        from new_assignment_stored [OF run] set [of a ?stop] one Some ended show ?thesis
          by (auto simp: cur_def assignment_identity_def split: if_splits)
      qed
    qed
  qed
qed

lemma assignment_stored:
  assumes "clean assignments_t s" and "sync_assignment sv reg row nb now c s = (Inr ch, s')"
  shows "map_option assignment_row_identity (assignment_at (ss_db s') (bkr_id row)) = assignment_identity nb"
    and "b \<noteq> bkr_id row \<Longrightarrow> assignment_at (ss_db s') b = assignment_at (ss_db s) b"
  using assignment_rows [OF assms]
  by (auto simp: assignment_at_def split: option.splits)


subsection \<open>Storing a list of bookings\<close>

lemma booking_at_in: "booking_at p d cid = Some b \<Longrightarrow> b \<in> set (db_bookings d) \<and> bkr_clock_booking_id b = cid"
  by (auto simp: booking_at_def dest: find_SomeD)

lemma sync_booking_mirror:
  assumes "clean bookings_t s" and "sync_booking sv reg now c nb acc s = (Inr acc', s')" and "valid_booking nb"
  defines "p \<equiv> rg_property reg"
  shows "mirror p (ss_db s') = (mirror p (ss_db s))(nb_clock_booking_id nb \<mapsto> mirrored sv now (ppr_key p) nb)"
    and "clean bookings_t s'"
proof -
  from assms(2) obtain row ch s1 change s2 n where up: "upsert_booking sv p nb now s = (Inr (row, ch), s1)"
    and asg: "sync_assignment sv reg row nb now c s1 = (Inr change, s2)"
    and aud: "(if \<not> has_physical_room nb then audit_unassigned_if_needed sv p row nb now c else ret 0) s2 = (Inr n, s')"
    unfolding sync_booking_def p_def by (auto elim!: bindE_Inr_E split: prod.splits)
  note up_rows = upsert_stored [OF assms(1) up]
  have c1: "clean bookings_t s1" "clean assignments_t s1"
    using flushed_clean [OF up_rows(5,7,6)] by simp_all
  note asg_rows = assignment_stored [OF c1(2) asg]
  have "frame assignments_t (if \<not> has_physical_room nb then audit_unassigned_if_needed sv p row nb now c else ret 0)"
    "frame bookings_t (if \<not> has_physical_room nb then audit_unassigned_if_needed sv p row nb now c else ret 0)"
    by (auto intro: frames)
  note f = this
  have bk: "booking_at p (ss_db s') = booking_at p (ss_db s1)"
    using frame_db [OF frame_sync_assignment asg, of bookings_t] frame_db [OF f(2) aud]
    by (auto simp: booking_at_def)
  have as: "assignment_at (ss_db s') = assignment_at (ss_db s2)"
    using frame_db [OF f(1) aud] by (auto simp: assignment_at_def)
  show "clean bookings_t s'"
    using c1(1) frame_clean [OF frame_sync_assignment asg, of bookings_t] frame_clean [OF f(2) aud] by simp
  show "mirror p (ss_db s') = (mirror p (ss_db s))(nb_clock_booking_id nb \<mapsto> mirrored sv now (ppr_key p) nb)"
  proof
    fix cid
    show "mirror p (ss_db s') cid
      = ((mirror p (ss_db s))(nb_clock_booking_id nb \<mapsto> mirrored sv now (ppr_key p) nb)) cid"
    proof (cases "cid = nb_clock_booking_id nb")
      case True
      from up_rows(1) obtain r0 where "row = write_booking sv nb now r0" "bkr_clock_booking_id r0 = nb_clock_booking_id nb"
        by blast
      with normalized_written [OF assms(3), of r0 "assignment_at (ss_db s2) (bkr_id row)"] asg_rows(1) up_rows(2) True
      show ?thesis by (simp add: mirror_def bk as) (simp add: mirrored_def)
    next
      case False
      have at: "booking_at p (ss_db s') cid = booking_at p (ss_db s) cid" using up_rows(3) [OF False] bk by simp
      have "assignment_at (ss_db s') (bkr_id b) = assignment_at (ss_db s) (bkr_id b)"
        if b: "booking_at p (ss_db s) cid = Some b" for b
      proof -
        have "b \<in> set (db_bookings (ss_db s1))" "row \<in> set (db_bookings (ss_db s1))" "b \<noteq> row"
          using b at bk up_rows(2) False booking_at_in [of p "ss_db s1"] by (metis)+
        then have "bkr_id b \<noteq> bkr_id row" using up_rows(6) by (auto simp: keys_ok_def distinct_map inj_on_def)
        then show ?thesis using asg_rows(2) up_rows(4) by (simp add: as assignment_at_def)
      qed
      with at False show ?thesis by (cases "booking_at p (ss_db s) cid") (simp_all add: mirror_def)
    qed
  qed
qed

lemma sync_bookings_mirror:
  assumes "clean bookings_t s" and "sync_bookings sv reg now c nbs acc s = (Inr acc', s')"
    and "list_all valid_booking nbs"
  defines "p \<equiv> rg_property reg"
  shows "mirror p (ss_db s')
    = mirror p (ss_db s) ++ map_of (rev (map (\<lambda>nb. (nb_clock_booking_id nb, mirrored sv now (ppr_key p) nb)) nbs))"
  using assms(1-3)
proof (induction nbs arbitrary: acc s)
  case Nil
  then show ?case by simp
next
  case (Cons nb nbs)
  from Cons.prems(2) obtain acc1 s1 where 1: "sync_booking sv reg now c nb acc s = (Inr acc1, s1)"
    and 2: "sync_bookings sv reg now c nbs acc1 s1 = (Inr acc', s')"
    by (auto elim!: bindE_Inr_E)
  have v: "valid_booking nb" "list_all valid_booking nbs" using Cons.prems(3) by simp_all
  note m = sync_booking_mirror [OF Cons.prems(1) 1 v(1), folded p_def]
  from Cons.IH [OF m(2) 2 v(2)] show ?case unfolding m(1)
    by (auto simp: fun_eq_iff map_add_def split: option.split)
qed

lemma sync_mirror:
  assumes "apply_sync_result sv result corr (new_session d n) = (Inr ps, s')" and "keys_ok d"
    and "sy_success result" and "list_all valid_booking (sy_bookings result)"
  shows "\<exists>p. filter (\<lambda>r. ppr_key r = property_key sv) (db_properties (ss_db s')) = [p]
    \<and> mirror p (ss_db s') = mirror p d
        ++ map_of (rev (map (\<lambda>nb. (nb_clock_booking_id nb, mirrored sv (utc sv (sy_finished_at result)) (property_key sv) nb))
                            (sy_bookings result)))"
proof -
  from assms(1) obtain c s0 s1 where s0: "ss_db s0 = d" "ss_flushed s0 = d" "\<not> ss_autoflush s0"
    and body: "sync_body sv result c s0 = (Inr ps, s1)" and s': "ss_db s' = ss_db s1"
    unfolding apply_sync_result_def by (elim transaction_given) (auto simp: new_session_def)
  from body assms(3) obtain reg sa run_id sb where reg: "ensure_registry sv s0 = (Inr reg, sa)"
    and run: "start_sync_run sv result reg c sa = (Inr run_id, sb)"
    and st: "store_result sv result reg run_id c sb = (Inr ps, s1)"
    unfolding sync_body_def by (auto elim!: bindE_Inr_E)
  from st obtain aff sc rc sd se where steps:
    "sync_bookings sv reg (utc sv (sy_finished_at result)) c (sy_bookings result) ([], 0) sb = (Inr aff, sc)"
    "recalculate_rooms sv reg (fst aff) (utc sv (sy_finished_at result)) c sc = (Inr rc, sd)"
    "advance_cursor sv (rg_property reg) result (utc sv (sy_finished_at result)) sd = (Inr (), se)"
    and last: "set_row sync_runs_t run_id (\<lambda>r. r\<lparr>srr_processed_bookings := int (length (sy_bookings result))\<rparr>) se = (Inr (), s1)"
    by (elim store_result_steps)
  let ?p = "rg_property reg"
  have c0: "clean properties_t s0" "clean bookings_t s0"
    using assms(2) s0 by (simp_all add: clean_def keys_ok_def)
  have p: "filter (\<lambda>r. ppr_key r = property_key sv) (db_properties (ss_db s1)) = [?p]"
    using ensure_registry_property [OF c0(1) reg]
      frame_db [OF frame_start_sync_run run, of properties_t]
      frame_db [OF frame_sync_bookings steps(1), of properties_t]
      frame_db [OF frame_recalculate_rooms steps(2), of properties_t]
      frame_db [OF frame_advance_cursor steps(3), of properties_t]
      frame_db [OF frame_set_row last, of properties_t] by simp
  have key: "ppr_key ?p = property_key sv" using filter_eq_ConsD [OF p] by auto
  have cb: "clean bookings_t sb"
    using c0(2) frame_clean [OF frame_ensure_registry reg, of bookings_t]
      frame_clean [OF frame_start_sync_run run, of bookings_t] by simp
  have before: "mirror ?p (ss_db sb) = mirror ?p d"
    using frame_db [OF frame_ensure_registry reg, of bookings_t] frame_db [OF frame_start_sync_run run, of bookings_t]
      frame_db [OF frame_ensure_registry reg, of assignments_t] frame_db [OF frame_start_sync_run run, of assignments_t] s0
    by (simp add: mirror_def booking_at_def assignment_at_def fun_eq_iff)
  have after: "mirror ?p (ss_db s1) = mirror ?p (ss_db sc)"
    using frame_db [OF frame_recalculate_rooms steps(2), of bookings_t] frame_db [OF frame_advance_cursor steps(3), of bookings_t]
      frame_db [OF frame_set_row last, of bookings_t]
      frame_db [OF frame_recalculate_rooms steps(2), of assignments_t]
      frame_db [OF frame_advance_cursor steps(3), of assignments_t] frame_db [OF frame_set_row last, of assignments_t]
    by (simp add: mirror_def booking_at_def assignment_at_def fun_eq_iff)
  from sync_bookings_mirror [OF cb steps(1) assms(4)] before after p s' key show ?thesis by auto
qed

subsection \<open>What the evaluation reads is the mirror\<close>

lemma map_of_rev_last:
  "map_of (rev (map (\<lambda>a. (k a, a)) xs)) i
     = (case filter (\<lambda>a. k a = i) xs of [] \<Rightarrow> None | a # as \<Rightarrow> Some (last (a # as)))"
proof (induction xs rule: rev_induct)
  case Nil
  then show ?case by simp
next
  case (snoc x xs)
  then show ?case by (auto split: list.splits)
qed

lemma map_result_find:
  assumes "map_result f rows = Inr ys" and "\<And>row y. row \<in> set rows \<Longrightarrow> f row = Inr y \<Longrightarrow> key y = kr row"
  shows "map_of (map (\<lambda>y. (key y, g y)) ys) i
     = Option.bind (find (\<lambda>row. kr row = i) rows) (\<lambda>row. case f row of Inr y \<Rightarrow> Some (g y) | Inl _ \<Rightarrow> None)"
  using assms
proof (induction rows arbitrary: ys)
  case Nil
  then show ?case by simp
next
  case (Cons row rows)
  from Cons.prems(1) obtain y ys' where y: "f row = Inr y" and ys: "map_result f rows = Inr ys'" "ys = y # ys'"
    by (auto simp: bind_result_Inr)
  from Cons.prems(2) [of row y] y have "kr row = key y" by simp
  with Cons.IH [OF ys(1)] Cons.prems(2) y ys(2) show ?case by auto
qed

lemma normalized_id: "normalized_from_row key b a = Inr nb \<Longrightarrow> nb_clock_booking_id nb = bkr_clock_booking_id b"
  by (auto simp: normalized_from_row_def bind_result_Inr mk_normalized_booking_Inr)

lemma load_cong:
  assumes "clean bookings_t s" "clean assignments_t s" "clean bookings_t s'" "clean assignments_t s'"
    and "db_bookings (ss_db s') = db_bookings (ss_db s)" "db_assignments (ss_db s') = db_assignments (ss_db s)"
  shows "fst (load_normalized_bookings sv p s') = fst (load_normalized_bookings sv p s)"
proof -
  have rows: "scalars bookings_t (filter P) x = (Inr (filter P (db_bookings (ss_db x))), x)" if "clean bookings_t x" for P x
    using scalars_clean [OF that, of "filter P"] by auto
  have as: "scalars assignments_t (filter P) x = (Inr (filter P (db_assignments (ss_db x))), x)" if "clean assignments_t x" for P x
    using scalars_clean [OF that, of "filter P"] by auto
  show ?thesis
    using assms by (simp add: load_normalized_bookings_def bindE_def rows as Let_def split: sum.split)
qed

lemma load_is_mirror:
  assumes "clean bookings_t s" and "clean assignments_t s"
    and "load_normalized_bookings sv p s = (Inr lb, s')"
  shows "map_of (map (\<lambda>nb. (nb_clock_booking_id nb, nb\<lparr>nb_first_seen_at := None\<rparr>)) (lb_bookings lb)) = mirror p (ss_db s)"
proof
  fix cid
  let ?rows = "filter (\<lambda>b. bkr_property_id b = ppr_id p) (db_bookings (ss_db s))"
  let ?as = "filter (\<lambda>a. asr_booking_id a \<in> bkr_id ` set ?rows \<and> asr_is_current a) (db_assignments (ss_db s))"
  let ?f = "\<lambda>row. normalized_from_row (ppr_key p) row
              (map_of (dict_of (map (\<lambda>a. (asr_booking_id a, a)) ?as)) (bkr_id row))"
  have sel: "scalars bookings_t (filter (\<lambda>b. bkr_property_id b = ppr_id p)) s = (Inr ?rows, s)"
    using scalars_clean [OF assms(1), of "filter (\<lambda>b. bkr_property_id b = ppr_id p)"] by auto
  have sel2: "scalars assignments_t (filter (\<lambda>a. asr_booking_id a \<in> bkr_id ` set ?rows \<and> asr_is_current a)) s = (Inr ?as, s)"
    using scalars_clean [OF assms(2), of "filter (\<lambda>a. asr_booking_id a \<in> bkr_id ` set ?rows \<and> asr_is_current a)"] by auto
  have find2: "find (\<lambda>row. bkr_clock_booking_id row = cid) ?rows = booking_at p (ss_db s) cid"
    by (simp add: booking_at_def find_filter conj_commute)
  show "map_of (map (\<lambda>nb. (nb_clock_booking_id nb, nb\<lparr>nb_first_seen_at := None\<rparr>)) (lb_bookings lb)) cid = mirror p (ss_db s) cid"
  proof (cases "?rows = []")
    case True
    with assms(3) sel find2 show ?thesis by (auto simp: load_normalized_bookings_def mirror_def bindE_def)
  next
    case False
    with assms(3) sel sel2 have nbs: "map_result ?f ?rows = Inr (lb_bookings lb)"
      unfolding load_normalized_bookings_def
      by (auto simp: bindE_def Let_def split: sum.splits)
    have asg: "map_of (dict_of (map (\<lambda>a. (asr_booking_id a, a)) ?as)) (bkr_id row) = assignment_at (ss_db s) (bkr_id row)"
      if "row \<in> set ?rows" for row
    proof -
      have "filter (\<lambda>a. asr_booking_id a = bkr_id row) ?as
        = filter (\<lambda>a. asr_booking_id a = bkr_id row \<and> asr_is_current a) (db_assignments (ss_db s))"
        using that by (auto intro!: filter_cong)
      then show ?thesis by (simp add: map_of_dict_of map_of_rev_last assignment_at_def)
    qed
    have "map_of (map (\<lambda>nb. (nb_clock_booking_id nb, nb\<lparr>nb_first_seen_at := None\<rparr>)) (lb_bookings lb)) cid
      = Option.bind (booking_at p (ss_db s) cid) (\<lambda>row. case ?f row of
           Inr y \<Rightarrow> Some (y\<lparr>nb_first_seen_at := None\<rparr>) | Inl _ \<Rightarrow> None)"
      using map_result_find [OF nbs, where key = nb_clock_booking_id and kr = bkr_clock_booking_id
          and g = "\<lambda>nb. nb\<lparr>nb_first_seen_at := None\<rparr>" and i = cid] normalized_id find2 by simp
    also have "\<dots> = mirror p (ss_db s) cid"
    proof (cases "booking_at p (ss_db s) cid")
      case None
      then show ?thesis by (simp add: mirror_def)
    next
      case (Some b)
      with find2 have "b \<in> set ?rows" by (auto dest: find_SomeD)
      with asg [OF this] Some show ?thesis by (simp add: mirror_def)
    qed
    finally show ?thesis .
  qed
qed

end
