(* ===== verification/Recalculation.thy ===== *)
theory Recalculation
  imports Db_Sync_Properties
begin

text \<open>
  The recalculation of rooms as a function of the database it reads. During a recalculation
  nothing is flushed, so every room is evaluated over the database at its start, and the
  recalculation only appends rows: room states, automatic overrides, messages and audit events.
\<close>

section \<open>Reading while rows are pending\<close>

text \<open>The session reads \<open>d\<close> and may have appended states and overrides since.\<close>

definition reads :: "database \<Rightarrow> session \<Rightarrow> bool" where
  "reads d s \<longleftrightarrow>
     \<not> ss_autoflush s \<and> ss_flushed s = d \<and> keys_ok d \<and> db_bookings (ss_db s) = db_bookings d
     \<and> (\<exists>new. db_room_states (ss_db s) = db_room_states d @ new)
     \<and> (\<exists>new. db_overrides (ss_db s) = db_overrides d @ new)"

lemma object_of_grown:
  assumes "tb_get t d = old @ new" and "distinct (map (tb_id t) old)" and "r \<in> set old"
  shows "object_of t d r = r"
proof -
  have "find (\<lambda>x. tb_id t x = tb_id t r) (old @ new) = Some r"
    using assms(2,3) by (induction old) (auto simp: image_iff)
  with assms(1) show ?thesis by (simp add: object_of_def)
qed

lemma scalars_grown:
  assumes "\<not> ss_autoflush s" and "tb_get t (ss_db s) = tb_get t (ss_flushed s) @ new"
    and "distinct (map (tb_id t) (tb_get t (ss_flushed s)))" and "selects q"
  shows "scalars t q s = (Inr (q (tb_get t (ss_flushed s))), s)"
proof -
  have "map (object_of t (ss_db s)) (q (tb_get t (ss_flushed s))) = q (tb_get t (ss_flushed s))"
    using assms(4) object_of_grown [OF assms(2,3)] by (intro map_idI) (auto simp: selects_def)
  with assms(1) show ?thesis by (simp add: scalars_def bindE_def autoflush_def)
qed

lemma latest_by_selects: "selects (\<lambda>rows. latest_by time rid tz (filter P rows))"
  unfolding selects_def latest_by_def by (auto dest!: in_set_takeD)

definition option_hd :: "'a list \<Rightarrow> 'a option" where
  "option_hd xs = (case xs of [] \<Rightarrow> None | x # _ \<Rightarrow> Some x)"

lemma one_or_none_latest: "one_or_none (latest_by time rid tz rows) = Inr (option_hd (latest_by time rid tz rows))"
  by (auto simp: one_or_none_def option_hd_def latest_by_def split: list.split)
     (metis One_nat_def Suc_le_mono le_zero_eq length_Cons length_take list.size(3) list.distinct(1) min.cobounded2 length_0_conv)

lemma latest_grown:
  assumes "\<not> ss_autoflush s" and "tb_get t (ss_db s) = old @ new" and "tb_get t (ss_flushed s) = old"
    and "distinct (map (tb_id t) old)"
  shows "scalar_one_or_none t (\<lambda>rows. latest_by time rid tz (filter P rows)) s
    = (Inr (option_hd (latest_by time rid tz (filter P old))), s)"
proof -
  have "scalars t (\<lambda>rows. latest_by time rid tz (filter P rows)) s = (Inr (latest_by time rid tz (filter P old)), s)"
    using scalars_grown [OF assms(1) _ _ latest_by_selects, of t new time rid tz P] assms(2-4) by simp
  then show ?thesis
    using one_or_none_latest [of time rid tz "filter P old"]
    by (auto simp: scalar_one_or_none_def bindE_def one_or_none_def split: list.splits)
qed

definition room_override_row :: "db_service \<Rightarrow> database \<Rightarrow> uuid \<Rightarrow> override_row option" where
  "room_override_row sv d i =
     option_hd (latest_by ovr_starts_at ovr_id (dv_tz sv) (filter (\<lambda>r. ovr_room_id r = i) (db_overrides d)))"

definition room_last_state :: "db_service \<Rightarrow> database \<Rightarrow> uuid \<Rightarrow> room_state_row option" where
  "room_last_state sv d i =
     option_hd (latest_by rsr_created_at rsr_id (dv_tz sv) (filter (\<lambda>r. rsr_room_id r = i) (db_room_states d)))"

lemma latest_override_reads:
  assumes "reads d s"
  shows "latest_override_row sv i s = (Inr (room_override_row sv d i), s)"
proof -
  from assms obtain new where "db_overrides (ss_db s) = db_overrides d @ new" by (auto simp: reads_def)
  with assms show ?thesis
    using latest_grown [of s overrides_t "db_overrides d" new ovr_starts_at ovr_id "dv_tz sv" "\<lambda>r. ovr_room_id r = i"]
    by (simp add: reads_def keys_ok_def latest_override_row_def room_override_row_def)
qed

lemma latest_state_reads:
  assumes "reads d s"
  shows "latest_room_state sv i s = (Inr (room_last_state sv d i), s)"
proof -
  from assms obtain new where "db_room_states (ss_db s) = db_room_states d @ new" by (auto simp: reads_def)
  with assms show ?thesis
    using latest_grown [of s room_states_t "db_room_states d" new rsr_created_at rsr_id "dv_tz sv" "\<lambda>r. rsr_room_id r = i"]
    by (simp add: reads_def keys_ok_def latest_room_state_def room_last_state_def)
qed

text \<open>The override that counts at a time.\<close>

definition active_override ::
  "db_service \<Rightarrow> database \<Rightarrow> override_row option \<Rightarrow> datetime \<Rightarrow> manual_override option result" where
  "active_override sv d row now =
     (case row of
        None \<Rightarrow> Inr None
      | Some row \<Rightarrow>
          (if \<not> override_row_is_active sv row now then Inr None
           else if ovr_until_checkout row \<and> ovr_booking_id row \<noteq> None then
             (case find (\<lambda>b. bkr_id b = the (ovr_booking_id row)) (db_bookings d) of
                None \<Rightarrow> Inr None
              | Some b \<Rightarrow> manual_override_from_row sv row (Some (bkr_clock_booking_id b)))
           else manual_override_from_row sv row None))"

lemma active_override_reads:
  assumes "reads d s"
  shows "active_override_from_row sv row now s = (active_override sv d row now, s)"
proof -
  have "clean bookings_t s" using assms by (simp add: reads_def clean_def keys_ok_def)
  from get_row_clean [OF this] assms show ?thesis
    by (auto simp: active_override_from_row_def active_override_def bindE_def reads_def split: option.split)
qed

lemma lock_room_reads:
  assumes "reads d s" and "lock_room i s = (r, s')"
  shows "s' = s"
proof -
  have "\<not> ss_autoflush s" using assms(1) by (simp add: reads_def)
  with assms(2) show ?thesis
    by (auto simp: lock_room_def scalar_one_def scalars_def bindE_def autoflush_def split: list.splits sum.splits prod.splits)
qed

section \<open>The evaluation of a room over a database\<close>

definition hotel_time_of :: "db_service \<Rightarrow> datetime \<Rightarrow> datetime" where
  "hotel_time_of sv now = astimezone (dv_tz sv) now (policy_tz (dv_policy sv))"

definition room_evaluation ::
  "db_service \<Rightarrow> room \<Rightarrow> loaded_bookings \<Rightarrow> datetime \<Rightarrow> manual_override option \<Rightarrow> room_state_evaluation" where
  "room_evaluation sv rm loaded now override =
     evaluate_room (dv_tz sv) rm (lb_bookings loaded) (hotel_time_of sv now) (dv_policy sv) override"

definition room_intent ::
  "db_service \<Rightarrow> room \<Rightarrow> loaded_bookings \<Rightarrow> datetime \<Rightarrow> manual_override option \<Rightarrow> uuid
   \<Rightarrow> desired_room_intent option result" where
  "room_intent sv rm loaded now override c =
     derive_room_intent (dv_tz sv) (room_evaluation sv rm loaded now override) (dv_policy sv)
       (hotel_time_of sv now) override (Some c) c"

text \<open>What ends an override, and the messages of a changed state.\<close>

definition ends_override :: "override_row option \<Rightarrow> room_state_evaluation \<Rightarrow> bool" where
  "ends_override row st =
     (case row of None \<Rightarrow> False
      | Some ov \<Rightarrow> ovr_control_mode ov \<noteq> control_mode_value CM_AUTOMATIC \<and> rs_phase st \<noteq> PH_MANUAL_OVERRIDE)"

definition unchanged_state ::
  "db_service \<Rightarrow> room_state_row option \<Rightarrow> room_state_evaluation \<Rightarrow> desired_room_intent option \<Rightarrow> bool" where
  "unchanged_state sv latest st intent =
     (case latest of None \<Rightarrow> False | Some r \<Rightarrow> rsr_payload_hash r = room_state_hash sv st intent)"

definition last_version :: "room_state_row option \<Rightarrow> int" where
  "last_version latest = (case latest of None \<Rightarrow> 0 | Some r \<Rightarrow> rsr_intent_version r)"

lemma next_last_version: "next_intent_version latest = last_version latest + 1"
  by (cases latest) (simp_all add: next_intent_version_def last_version_def)

definition new_messages ::
  "db_service \<Rightarrow> room \<Rightarrow> room_state_evaluation \<Rightarrow> desired_room_intent option \<Rightarrow> room_state_row option \<Rightarrow> bool
   \<Rightarrow> datetime \<Rightarrow> uuid \<Rightarrow> (string \<times> payload) list" where
  "new_messages sv rm st intent latest ended now c =
     (let k = rm_key rm; t = dv_topics sv;
          control = (if ended then [(room_control_state t k, default_control_state_payload sv k now)] else []) in
      if unchanged_state sv latest st intent then control
      else [(room_pms_state t k, pms_state_payload sv st c)]
           @ map (\<lambda>i. (room_intent_state_topic t k, intent_payload (i\<lparr>di_intent_version := next_intent_version latest\<rparr>)))
               (opt_list intent)
           @ control)"

definition message_of_event :: "outbox_event \<Rightarrow> string \<times> payload" where
  "message_of_event e = (oe_topic e, oe_payload e)"

lemma queue_event_run:
  "queue_event sv topic p now c s =
     (Inr (), s\<lparr>ss_draws := ss_draws s + 1,
        ss_db := db_outbox_update (\<lambda>es. es @ [new_outbox_event (dv_uuid4 sv (ss_draws s)) topic p now c]) (ss_db s)\<rparr>)"
  by (simp add: queue_event_def fresh_id_def draw_uuid_def bindE_def add_row_def)

lemma message_of_new [simp]:
  "message_of_event (new_outbox_event i topic p now c) = (topic, p)"
  by (simp add: message_of_event_def new_outbox_event_def)


section \<open>Running a recalculation\<close>

definition automatic_row :: "uuid \<Rightarrow> datetime \<Rightarrow> override_row \<Rightarrow> bool" where
  "automatic_row i now row \<longleftrightarrow>
     ovr_room_id row = i \<and> ovr_control_mode row = control_mode_value CM_AUTOMATIC \<and> ovr_starts_at row = now
     \<and> ovr_hvac_mode row = Some (manual_hvac_mode_value HV_OFF) \<and> ovr_target_temperature_c row = None
     \<and> ovr_expires_at row = None \<and> ovr_checkout_at row = None \<and> \<not> ovr_until_checkout row"

lemma end_override_run:
  assumes "end_inactive_override_if_needed sv p i k row st now c s = (r, s')"
  defines "ended \<equiv> ends_override row st"
  shows "r = Inr (if ended then Some (default_control_state_payload sv k now) else None, if ended then 1 else 0)"
    and "\<exists>new. db_overrides (ss_db s') = db_overrides (ss_db s) @ new
           \<and> (if ended then \<exists>ov. new = [ov] \<and> automatic_row i now ov else new = [])"
    and "ss_flushed s' = ss_flushed s" "ss_autoflush s' = ss_autoflush s"
  using assms
  by (auto simp: end_inactive_override_if_needed_def ends_override_def ended_def bindE_def fresh_id_def
      draw_uuid_def add_row_def audit_def automatic_row_def split: option.splits if_splits)

lemma queue_opt_run:
  assumes "queue_opt sv topic p now c s = (r, s')"
  shows "r = Inr (length (opt_list p))"
    and "\<exists>es. db_outbox (ss_db s') = db_outbox (ss_db s) @ es
           \<and> map message_of_event es = map (Pair topic) (opt_list p)"
    and "ss_flushed s' = ss_flushed s" "ss_autoflush s' = ss_autoflush s"
  using assms by (auto simp: queue_opt_def bindE_def queue_event_run opt_list_def split: option.splits)

definition new_state_ok ::
  "db_service \<Rightarrow> uuid \<Rightarrow> room_state_evaluation \<Rightarrow> desired_room_intent option \<Rightarrow> room_state_row option \<Rightarrow> datetime
   \<Rightarrow> room_state_row \<Rightarrow> bool" where
  "new_state_ok sv i st intent latest now r \<longleftrightarrow>
     rsr_room_id r = i \<and> rsr_automation_phase r = automation_phase_value (rs_phase st)
     \<and> rsr_intent_version r = last_version latest + (if intent = None then 0 else 1)
     \<and> rsr_payload_hash r = room_state_hash sv st intent \<and> rsr_created_at r = now"

lemma publish_state_run:
  assumes "publish_state sv p loaded i rm st intent latest control now c s = (r, s')"
  shows "\<exists>n. r = Inr (1 + length (opt_list intent) + length (opt_list control), n)"
    and "\<exists>row. db_room_states (ss_db s') = db_room_states (ss_db s) @ [row] \<and> new_state_ok sv i st intent latest now row"
    and "\<exists>es. db_outbox (ss_db s') = db_outbox (ss_db s) @ es
           \<and> map message_of_event es =
               [(room_pms_state (dv_topics sv) (rm_key rm), pms_state_payload sv st c)]
               @ map (\<lambda>j. (room_intent_state_topic (dv_topics sv) (rm_key rm),
                           intent_payload (j\<lparr>di_intent_version := next_intent_version latest\<rparr>))) (opt_list intent)
               @ map (Pair (room_control_state (dv_topics sv) (rm_key rm))) (opt_list control)"
    and "ss_flushed s' = ss_flushed s" "ss_autoflush s' = ss_autoflush s"
  using assms
  by (cases intent; cases control;
      auto simp: publish_state_def Let_def bindE_def fresh_id_def draw_uuid_def add_row_def audit_def queue_event_run
        queue_opt_def opt_list_def new_state_ok_def next_last_version last_version_def split: if_splits option.splits)+

text \<open>
  What one room's recalculation appended: nothing for an id outside the registry, otherwise the
  outcome of its evaluation over the database that is read.
\<close>

definition room_outcome ::
  "db_service \<Rightarrow> registry_rows \<Rightarrow> loaded_bookings \<Rightarrow> datetime \<Rightarrow> uuid \<Rightarrow> database \<Rightarrow> uuid \<Rightarrow> room
   \<Rightarrow> session \<Rightarrow> session \<Rightarrow> nat \<times> nat \<Rightarrow> bool" where
  "room_outcome sv reg loaded now c d i rm s s' counts \<longleftrightarrow>
     (\<exists>ov intent st latest ended.
        active_override sv d (room_override_row sv d i) (hotel_time_of sv now) = Inr ov
        \<and> room_intent sv rm loaded now ov c = Inr intent
        \<and> st = room_evaluation sv rm loaded now ov \<and> latest = room_last_state sv d i
        \<and> ended = ends_override (room_override_row sv d i) st
        \<and> (\<exists>es. db_outbox (ss_db s') = db_outbox (ss_db s) @ es
              \<and> map message_of_event es = new_messages sv rm st intent latest ended now c \<and> snd counts = length es)
        \<and> (\<exists>rs. db_room_states (ss_db s') = db_room_states (ss_db s) @ rs
              \<and> (if unchanged_state sv latest st intent then rs = []
                 else \<exists>r. rs = [r] \<and> new_state_ok sv i st intent latest now r) \<and> fst counts = length rs)
        \<and> (\<exists>ovs. db_overrides (ss_db s') = db_overrides (ss_db s) @ ovs
              \<and> (if ended then \<exists>o'. ovs = [o'] \<and> automatic_row i now o' else ovs = [])))"

definition in_scope :: "registry_rows \<Rightarrow> database \<Rightarrow> uuid \<Rightarrow> room option" where
  "in_scope reg d i =
     (if find (\<lambda>r. rmr_id r = i) (db_rooms d) = None then None else map_of (rg_domain_rooms_by_id reg) i)"

lemma recalculate_known_room_run:
  assumes "reads d s" and "recalculate_known_room sv reg loaded now c i rm acc s = (Inr acc', s')"
  shows "\<exists>n_states n_events.
        room_outcome sv reg loaded now c d i rm s s' (n_states, n_events)
        \<and> rc_room_states_created acc' = rc_room_states_created acc + n_states
        \<and> rc_outbox_events_created acc' = rc_outbox_events_created acc + n_events"
    and "ss_flushed s' = ss_flushed s" "ss_autoflush s' = ss_autoflush s"
proof -
  note defs = recalculate_known_room_def Let_def hotel_time_of_def [symmetric] room_evaluation_def [symmetric]
    room_intent_def [symmetric] unchanged_state_def [symmetric]
  let ?row = "room_override_row sv d i" let ?latest = "room_last_state sv d i"
  from assms(2) obtain u0 s0 row1 s1 ov s2 intent s3 latest s4 control n_ov e where
    lock: "lock_room i s = (Inr u0, s0)" and row1: "latest_override_row sv i s0 = (Inr row1, s1)"
    and ov1: "active_override_from_row sv row1 (hotel_time_of sv now) s1 = (Inr ov, s2)"
    and intent1: "lift_result (room_intent sv rm loaded now ov c) s2 = (Inr intent, s3)"
    and latest1: "latest_room_state sv i s3 = (Inr latest, s4)"
    and e1: "end_inactive_override_if_needed sv (rg_property reg) i (rm_key rm) row1
               (room_evaluation sv rm loaded now ov) now c s4 = (Inr (control, n_ov), e)"
    and rest1: "(if unchanged_state sv latest (room_evaluation sv rm loaded now ov) intent then
            bindE (queue_opt sv (room_control_state (dv_topics sv) (rm_key rm)) control now c) (\<lambda>n.
            ret (add_counts acc (if control = None then [] else [rm_key rm]) 0 n n_ov))
          else
            bindE (publish_state sv (rg_property reg) loaded i rm (room_evaluation sv rm loaded now ov) intent
                     latest control now c) (\<lambda>(n_events, n_audit).
            ret (add_counts acc [rm_key rm] 1 n_events (n_ov + n_audit)))) e = (Inr acc', s')"
    unfolding defs by (elim bindE_Inr_E) (auto intro: that split: prod.splits)
  have same: "s0 = s" "s1 = s" "s2 = s" "s3 = s" "s4 = s" "row1 = ?row" "latest = ?latest"
    and ov: "active_override sv d ?row (hotel_time_of sv now) = Inr ov"
    and intent: "room_intent sv rm loaded now ov c = Inr intent"
    using lock_room_reads [OF assms(1) lock] row1 ov1 intent1 latest1
      latest_override_reads [OF assms(1), of sv i] latest_state_reads [OF assms(1), of sv i]
      active_override_reads [OF assms(1), of sv ?row "hotel_time_of sv now"] by auto
  let ?st = "room_evaluation sv rm loaded now ov"
  let ?ended = "ends_override ?row ?st"
  note er = end_override_run [OF e1 [unfolded same]]
  have frames_e: "db_outbox (ss_db e) = db_outbox (ss_db s)" "db_room_states (ss_db e) = db_room_states (ss_db s)"
    using frame_db [OF frame_end_override e1, of outbox_t] frame_db [OF frame_end_override e1, of room_states_t] same
    by simp_all
  have control: "control = (if ?ended then Some (default_control_state_payload sv (rm_key rm) now) else None)"
    using er(1) by simp
  have tails: "map (Pair (room_control_state (dv_topics sv) (rm_key rm))) (opt_list control)
    = (if ?ended then [(room_control_state (dv_topics sv) (rm_key rm), default_control_state_payload sv (rm_key rm) now)]
       else [])"
    by (simp add: control opt_list_def)
  have "\<exists>n_states n_events.
        room_outcome sv reg loaded now c d i rm s s' (n_states, n_events)
        \<and> rc_room_states_created acc' = rc_room_states_created acc + n_states
        \<and> rc_outbox_events_created acc' = rc_outbox_events_created acc + n_events
        \<and> ss_flushed s' = ss_flushed s \<and> ss_autoflush s' = ss_autoflush s"
  proof (cases "unchanged_state sv ?latest ?st intent")
    case True
    with rest1 same obtain n where q: "queue_opt sv (room_control_state (dv_topics sv) (rm_key rm)) control now c e = (Inr n, s')"
      and acc: "acc' = add_counts acc (if control = None then [] else [rm_key rm]) 0 n n_ov"
      by (auto elim!: bindE_Inr_E)
    note qr = queue_opt_run [OF q]
    have kept: "db_room_states (ss_db s') = db_room_states (ss_db e)" "db_overrides (ss_db s') = db_overrides (ss_db e)"
      using frame_db [OF frame_queue_opt q, of room_states_t] frame_db [OF frame_queue_opt q, of overrides_t] by simp_all
    from qr(2) obtain es where es: "db_outbox (ss_db s') = db_outbox (ss_db e) @ es"
      "map message_of_event es = new_messages sv rm ?st intent ?latest ?ended now c"
      using True tails by (auto simp: new_messages_def Let_def)
    have "new_messages sv rm ?st intent ?latest ?ended now c
      = map (Pair (room_control_state (dv_topics sv) (rm_key rm))) (opt_list control)"
      using True tails by (simp add: new_messages_def Let_def)
    with arg_cong [OF es(2), of length] qr(1) have n: "n = length es" by simp
    have "\<exists>ovs. db_overrides (ss_db s') = db_overrides (ss_db s) @ ovs
        \<and> (if ?ended then \<exists>o'. ovs = [o'] \<and> automatic_row i now o' else ovs = [])"
      using er(2) kept by simp
    moreover have "\<exists>es. db_outbox (ss_db s') = db_outbox (ss_db s) @ es
        \<and> map message_of_event es = new_messages sv rm ?st intent ?latest ?ended now c \<and> n = length es"
      using es n frames_e by auto
    moreover have "\<exists>rs. db_room_states (ss_db s') = db_room_states (ss_db s) @ rs
        \<and> (if unchanged_state sv ?latest ?st intent then rs = []
           else \<exists>r. rs = [r] \<and> new_state_ok sv i ?st intent ?latest now r) \<and> 0 = length rs"
      using True kept frames_e by simp
    ultimately have "room_outcome sv reg loaded now c d i rm s s' (0, n)"
      unfolding room_outcome_def fst_conv snd_conv using ov intent by blast
    with acc qr er show ?thesis by (auto simp: add_counts_def same intro!: exI [of _ "0::nat"] exI [of _ n])
  next
    case False
    with rest1 same obtain n n_audit where
      q: "publish_state sv (rg_property reg) loaded i rm ?st intent ?latest control now c e = (Inr (n, n_audit), s')"
      and acc: "acc' = add_counts acc [rm_key rm] 1 n (n_ov + n_audit)"
      by (auto elim!: bindE_Inr_E)
    note qr = publish_state_run [OF q]
    have kept: "db_overrides (ss_db s') = db_overrides (ss_db e)"
      using frame_db [OF frame_publish_state q, of overrides_t] by simp
    let ?msgs = "new_messages sv rm ?st intent ?latest ?ended now c"
    have msgs: "?msgs = [(room_pms_state (dv_topics sv) (rm_key rm), pms_state_payload sv ?st c)]
               @ map (\<lambda>j. (room_intent_state_topic (dv_topics sv) (rm_key rm),
                           intent_payload (j\<lparr>di_intent_version := next_intent_version ?latest\<rparr>))) (opt_list intent)
               @ map (Pair (room_control_state (dv_topics sv) (rm_key rm))) (opt_list control)"
      using False tails by (simp add: new_messages_def Let_def)
    from qr(3) obtain es where es: "db_outbox (ss_db s') = db_outbox (ss_db e) @ es" "map message_of_event es = ?msgs"
      unfolding msgs by blast
    from qr(1) have "n = 1 + length (opt_list intent) + length (opt_list control)" by simp
    with arg_cong [OF es(2), of length] have n: "n = length es" by (simp add: msgs)
    from qr(2) obtain row where row: "db_room_states (ss_db s') = db_room_states (ss_db e) @ [row]"
      "new_state_ok sv i ?st intent ?latest now row" by blast
    have "\<exists>ovs. db_overrides (ss_db s') = db_overrides (ss_db s) @ ovs
        \<and> (if ?ended then \<exists>o'. ovs = [o'] \<and> automatic_row i now o' else ovs = [])"
      using er(2) kept by simp
    moreover have "\<exists>es. db_outbox (ss_db s') = db_outbox (ss_db s) @ es
        \<and> map message_of_event es = ?msgs \<and> n = length es"
      using es n frames_e by auto
    moreover have "\<exists>rs. db_room_states (ss_db s') = db_room_states (ss_db s) @ rs
        \<and> (if unchanged_state sv ?latest ?st intent then rs = []
           else \<exists>r. rs = [r] \<and> new_state_ok sv i ?st intent ?latest now r) \<and> 1 = length rs"
      using False row frames_e by simp
    ultimately have "room_outcome sv reg loaded now c d i rm s s' (1, n)"
      unfolding room_outcome_def fst_conv snd_conv using ov intent by blast
    with acc qr er show ?thesis by (auto simp: add_counts_def same intro!: exI [of _ "1::nat"] exI [of _ n])
  qed
  then show "\<exists>n_states n_events.
        room_outcome sv reg loaded now c d i rm s s' (n_states, n_events)
        \<and> rc_room_states_created acc' = rc_room_states_created acc + n_states
        \<and> rc_outbox_events_created acc' = rc_outbox_events_created acc + n_events"
    and "ss_flushed s' = ss_flushed s" "ss_autoflush s' = ss_autoflush s"
    by blast+
qed

lemma reads_kept:
  assumes "reads d s" and "rows_kept bookings_t s s'" and "ss_flushed s' = ss_flushed s"
    and "\<exists>new. db_room_states (ss_db s') = db_room_states (ss_db s) @ new"
    and "\<exists>new. db_overrides (ss_db s') = db_overrides (ss_db s) @ new"
  shows "reads d s'"
  using assms unfolding reads_def rows_kept_def by (auto simp: append.assoc)


section \<open>Running over the rooms\<close>

lemma recalculate_room_run:
  assumes "reads d s" and "recalculate_room sv reg loaded now c i acc s = (Inr acc', s')"
  shows "case in_scope reg d i of
      None \<Rightarrow> s' = s \<and> acc' = acc
    | Some rm \<Rightarrow> \<exists>n_states n_events.
        room_outcome sv reg loaded now c d i rm s s' (n_states, n_events)
        \<and> rc_room_states_created acc' = rc_room_states_created acc + n_states
        \<and> rc_outbox_events_created acc' = rc_outbox_events_created acc + n_events"
    and "reads d s'"
proof -
  have rooms: "get_row rooms_t i s = (Inr (map_option (object_of rooms_t (ss_db s)) (find (\<lambda>r. rmr_id r = i) (db_rooms d))), s)"
    using assms(1) by (simp add: get_row_def reads_def)
  show "case in_scope reg d i of
      None \<Rightarrow> s' = s \<and> acc' = acc
    | Some rm \<Rightarrow> \<exists>n_states n_events.
        room_outcome sv reg loaded now c d i rm s s' (n_states, n_events)
        \<and> rc_room_states_created acc' = rc_room_states_created acc + n_states
        \<and> rc_outbox_events_created acc' = rc_outbox_events_created acc + n_events"
    and "reads d s'"
  proof (atomize (full), cases "in_scope reg d i")
    case None
    with assms rooms show "(case in_scope reg d i of
      None \<Rightarrow> s' = s \<and> acc' = acc
    | Some rm \<Rightarrow> \<exists>n_states n_events.
        room_outcome sv reg loaded now c d i rm s s' (n_states, n_events)
        \<and> rc_room_states_created acc' = rc_room_states_created acc + n_states
        \<and> rc_outbox_events_created acc' = rc_outbox_events_created acc + n_events) \<and> reads d s'"
      by (auto simp: recalculate_room_def in_scope_def bindE_def split: option.splits if_splits)
  next
    case (Some rm)
    then obtain row where rm: "map_of (rg_domain_rooms_by_id reg) i = Some rm"
      and row: "find (\<lambda>r. rmr_id r = i) (db_rooms d) = Some row"
      by (auto simp: in_scope_def split: if_splits)
    with assms(2) rooms have run: "recalculate_known_room sv reg loaded now c i rm acc s = (Inr acc', s')"
      by (simp add: recalculate_room_def)
    note out = recalculate_known_room_run [OF assms(1) run]
    have "reads d s'"
    proof (rule reads_kept [OF assms(1) frame_run [OF frame_recalculate_known_room run] out(2)])
      from out(1) show "\<exists>new. db_room_states (ss_db s') = db_room_states (ss_db s) @ new"
        "\<exists>new. db_overrides (ss_db s') = db_overrides (ss_db s) @ new"
        unfolding room_outcome_def by blast+
    qed simp_all
    with Some out(1) show "(case in_scope reg d i of
      None \<Rightarrow> s' = s \<and> acc' = acc
    | Some rm \<Rightarrow> \<exists>n_states n_events.
        room_outcome sv reg loaded now c d i rm s s' (n_states, n_events)
        \<and> rc_room_states_created acc' = rc_room_states_created acc + n_states
        \<and> rc_outbox_events_created acc' = rc_outbox_events_created acc + n_events) \<and> reads d s'"
      by simp
  qed
qed

text \<open>What a database holds of one room: its states, its overrides and the messages on its topics.\<close>

definition room_topics_of :: "mqtt_topics \<Rightarrow> string \<Rightarrow> string list" where
  "room_topics_of t k = [room_pms_state t k, room_intent_state_topic t k, room_control_state t k]"

definition states_of :: "uuid \<Rightarrow> session \<Rightarrow> room_state_row list" where
  "states_of i s = filter (\<lambda>r. rsr_room_id r = i) (db_room_states (ss_db s))"

definition overrides_of :: "uuid \<Rightarrow> session \<Rightarrow> override_row list" where
  "overrides_of i s = filter (\<lambda>r. ovr_room_id r = i) (db_overrides (ss_db s))"

definition messages_of :: "mqtt_topics \<Rightarrow> string \<Rightarrow> session \<Rightarrow> (string \<times> payload) list" where
  "messages_of t k s = filter (\<lambda>m. fst m \<in> set (room_topics_of t k)) (map message_of_event (db_outbox (ss_db s)))"

definition same_view :: "mqtt_topics \<Rightarrow> uuid \<Rightarrow> string \<Rightarrow> session \<Rightarrow> session \<Rightarrow> bool" where
  "same_view t i k s s' \<longleftrightarrow>
     states_of i s' = states_of i s \<and> overrides_of i s' = overrides_of i s \<and> messages_of t k s' = messages_of t k s"

lemma room_topics_of_eq:
  "x \<in> set (room_topics_of t k) \<Longrightarrow> x \<in> set (room_topics_of t k') \<Longrightarrow> k = k'"
proof -
  have s: "''/pms/state'' \<in> set room_suffixes" "''/intent/state'' \<in> set room_suffixes" "''/control/state'' \<in> set room_suffixes"
    by (simp_all add: room_suffixes_def)
  show "x \<in> set (room_topics_of t k) \<Longrightarrow> x \<in> set (room_topics_of t k') \<Longrightarrow> k = k'"
    using s by (auto simp: room_topics_of_def room_topics room_topic_eq)
qed

lemma new_messages_topics: "m \<in> set (new_messages sv rm st intent latest ended now c) \<Longrightarrow> fst m \<in> set (room_topics_of (dv_topics sv) (rm_key rm))"
  by (auto simp: new_messages_def room_topics_of_def Let_def split: if_splits)

lemma outcome_other:
  assumes "room_outcome sv reg loaded now c d j rm' s s' counts" and "j \<noteq> i" and "rm_key rm' \<noteq> k"
  shows "same_view (dv_topics sv) i k s s'"
proof -
  from assms(1) obtain st intent latest ended es rs ovs where
    es: "db_outbox (ss_db s') = db_outbox (ss_db s) @ es" "map message_of_event es = new_messages sv rm' st intent latest ended now c"
    and rs: "db_room_states (ss_db s') = db_room_states (ss_db s) @ rs" "\<And>r. r \<in> set rs \<Longrightarrow> rsr_room_id r = j"
    and ovs: "db_overrides (ss_db s') = db_overrides (ss_db s) @ ovs" "\<And>r. r \<in> set ovs \<Longrightarrow> ovr_room_id r = j"
    unfolding room_outcome_def by (force simp: new_state_ok_def automatic_row_def split: if_splits)
  have "fst m \<notin> set (room_topics_of (dv_topics sv) k)" if "m \<in> set (map message_of_event es)" for m
    using that assms(3) new_messages_topics [of m sv rm' st intent latest ended now c]
      room_topics_of_eq [of "fst m" "dv_topics sv" "rm_key rm'" k] unfolding es(2) by blast
  then have "filter (\<lambda>m. fst m \<in> set (room_topics_of (dv_topics sv) k)) (map message_of_event es) = []"
    by (simp only: filter_empty_conv) blast
  moreover have "filter (\<lambda>r. rsr_room_id r = i) rs = []" "filter (\<lambda>r. ovr_room_id r = i) ovs = []"
    using rs(2) ovs(2) assms(2) by (auto simp: filter_empty_conv)
  ultimately show ?thesis
    using es(1) rs(1) ovs(1) by (simp add: same_view_def states_of_def overrides_of_def messages_of_def)
qed

text \<open>The outcome of a room on its view.\<close>

definition view_outcome ::
  "db_service \<Rightarrow> loaded_bookings \<Rightarrow> datetime \<Rightarrow> uuid \<Rightarrow> database \<Rightarrow> uuid \<Rightarrow> room \<Rightarrow> session \<Rightarrow> session
   \<Rightarrow> nat \<times> nat \<Rightarrow> bool" where
  "view_outcome sv loaded now c d i rm s s' counts \<longleftrightarrow>
     (\<exists>ov intent st latest ended rs ovs.
        active_override sv d (room_override_row sv d i) (hotel_time_of sv now) = Inr ov
        \<and> room_intent sv rm loaded now ov c = Inr intent
        \<and> st = room_evaluation sv rm loaded now ov \<and> latest = room_last_state sv d i
        \<and> ended = ends_override (room_override_row sv d i) st
        \<and> messages_of (dv_topics sv) (rm_key rm) s'
            = messages_of (dv_topics sv) (rm_key rm) s @ new_messages sv rm st intent latest ended now c
        \<and> snd counts = length (new_messages sv rm st intent latest ended now c)
        \<and> states_of i s' = states_of i s @ rs
        \<and> (if unchanged_state sv latest st intent then rs = []
           else \<exists>r. rs = [r] \<and> new_state_ok sv i st intent latest now r) \<and> fst counts = length rs
        \<and> overrides_of i s' = overrides_of i s @ ovs
        \<and> (if ended then \<exists>o'. ovs = [o'] \<and> automatic_row i now o' else ovs = []))"

lemma outcome_view:
  assumes "room_outcome sv reg loaded now c d i rm s s' counts"
  shows "view_outcome sv loaded now c d i rm s s' counts"
proof -
  from assms obtain ov intent st latest ended es rs ovs where
    1: "active_override sv d (room_override_row sv d i) (hotel_time_of sv now) = Inr ov"
    "room_intent sv rm loaded now ov c = Inr intent" "st = room_evaluation sv rm loaded now ov"
    "latest = room_last_state sv d i" "ended = ends_override (room_override_row sv d i) st"
    and es: "db_outbox (ss_db s') = db_outbox (ss_db s) @ es"
      "map message_of_event es = new_messages sv rm st intent latest ended now c" "snd counts = length es"
    and rs: "db_room_states (ss_db s') = db_room_states (ss_db s) @ rs"
      "if unchanged_state sv latest st intent then rs = []
           else \<exists>r. rs = [r] \<and> new_state_ok sv i st intent latest now r" "fst counts = length rs"
    and ovs: "db_overrides (ss_db s') = db_overrides (ss_db s) @ ovs"
      "if ended then \<exists>o'. ovs = [o'] \<and> automatic_row i now o' else ovs = []"
    unfolding room_outcome_def by blast
  have "filter (\<lambda>m. fst m \<in> set (room_topics_of (dv_topics sv) (rm_key rm))) (map message_of_event es) = map message_of_event es"
    using new_messages_topics unfolding es(2) by (auto simp: filter_id_conv)
  moreover have "filter (\<lambda>r. rsr_room_id r = i) rs = rs" "filter (\<lambda>r. ovr_room_id r = i) ovs = ovs"
    using rs(2) ovs(2) by (auto simp: new_state_ok_def automatic_row_def split: if_splits)
  moreover have "length es = length (new_messages sv rm st intent latest ended now c)"
    using arg_cong [OF es(2), of length] by simp
  ultimately show ?thesis
    unfolding view_outcome_def using 1 es rs ovs
    by (intro exI [of _ ov] exI [of _ intent] exI [of _ st] exI [of _ latest] exI [of _ ended] exI [of _ rs] exI [of _ ovs])
       (simp add: states_of_def overrides_of_def messages_of_def)
qed

text \<open>
  Over a list of different rooms with different keys, every room's view changes in one step, by
  its own outcome; a room that is not recalculated keeps its view.
\<close>

definition own_keys :: "registry_rows \<Rightarrow> bool" where
  "own_keys reg \<longleftrightarrow>
     (\<forall>i j rm rm'. map_of (rg_domain_rooms_by_id reg) i = Some rm \<longrightarrow> map_of (rg_domain_rooms_by_id reg) j = Some rm'
        \<longrightarrow> i \<noteq> j \<longrightarrow> rm_key rm \<noteq> rm_key rm')"

lemma same_view_trans: "same_view t i k s s' \<Longrightarrow> same_view t i k s' s'' \<Longrightarrow> same_view t i k s s''"
  by (simp add: same_view_def)

lemma same_view_refl [simp]: "same_view t i k s s"
  by (simp add: same_view_def)

lemma view_outcome_cong:
  assumes "view_outcome sv loaded now c d i rm s s' counts"
    and "same_view (dv_topics sv) i (rm_key rm) s0 s" and "same_view (dv_topics sv) i (rm_key rm) s' s1"
  shows "view_outcome sv loaded now c d i rm s0 s1 counts"
  using assms by (simp add: view_outcome_def same_view_def)

lemma recalculate_each_other:
  assumes "reads d s" and "recalculate_each sv reg loaded now c ids acc s = (Inr acc', s')"
    and "own_keys reg" and "map_of (rg_domain_rooms_by_id reg) i = Some rm" and "i \<notin> set ids"
  shows "same_view (dv_topics sv) i (rm_key rm) s s'"
  using assms
proof (induction ids arbitrary: acc s)
  case Nil
  then show ?case by simp
next
  case (Cons j ids)
  from Cons.prems(2) obtain acc1 s1 where 1: "recalculate_room sv reg loaded now c j acc s = (Inr acc1, s1)"
    and 2: "recalculate_each sv reg loaded now c ids acc1 s1 = (Inr acc', s')"
    by (auto elim!: bindE_Inr_E)
  note run = recalculate_room_run [OF Cons.prems(1) 1]
  have "same_view (dv_topics sv) i (rm_key rm) s s1"
  proof (cases "in_scope reg d j")
    case None
    with run(1) show ?thesis by simp
  next
    case (Some rm')
    then have "map_of (rg_domain_rooms_by_id reg) j = Some rm'" by (auto simp: in_scope_def split: if_splits)
    then have "rm_key rm' \<noteq> rm_key rm" "j \<noteq> i"
      using Cons.prems(3-5) unfolding own_keys_def by auto
    with Some run(1) show ?thesis by (auto intro: outcome_other)
  qed
  with Cons.IH [OF run(2) 2] Cons.prems(3-5) show ?case by (auto intro: same_view_trans)
qed

lemma recalculate_each_member:
  assumes "reads d s" and "recalculate_each sv reg loaded now c ids acc s = (Inr acc', s')"
    and "own_keys reg" and "in_scope reg d i = Some rm" and "i \<in> set ids" and "distinct ids"
  shows "\<exists>counts. view_outcome sv loaded now c d i rm s s' counts"
  using assms
proof (induction ids arbitrary: acc s)
  case Nil
  then show ?case by simp
next
  case (Cons j ids)
  from Cons.prems(2) obtain acc1 s1 where 1: "recalculate_room sv reg loaded now c j acc s = (Inr acc1, s1)"
    and 2: "recalculate_each sv reg loaded now c ids acc1 s1 = (Inr acc', s')"
    by (auto elim!: bindE_Inr_E)
  note run = recalculate_room_run [OF Cons.prems(1) 1]
  have rm: "map_of (rg_domain_rooms_by_id reg) i = Some rm"
    using Cons.prems(4) by (auto simp: in_scope_def split: if_splits)
  show ?case
  proof (cases "j = i")
    case True
    with run(1) Cons.prems(4) obtain counts where o: "room_outcome sv reg loaded now c d i rm s s1 counts" by auto
    have "same_view (dv_topics sv) i (rm_key rm) s1 s'"
      using recalculate_each_other [OF run(2) 2 Cons.prems(3) rm] Cons.prems(6) True by simp
    from view_outcome_cong [OF outcome_view [OF o] same_view_refl this] show ?thesis by blast
  next
    case False
    have "recalculate_each sv reg loaded now c [j] acc s = (Inr acc1, s1)" using 1 by (simp add: bindE_def)
    from recalculate_each_other [OF Cons.prems(1) this Cons.prems(3) rm] False
    have sv: "same_view (dv_topics sv) i (rm_key rm) s s1" by simp
    from Cons.IH [OF run(2) 2 Cons.prems(3,4)] Cons.prems(5,6) False
    obtain counts where "view_outcome sv loaded now c d i rm s1 s' counts" by auto
    from view_outcome_cong [OF this sv same_view_refl] show ?thesis by blast
  qed
qed


section \<open>The latest row\<close>

lemma sorted_le_last: "sorted (map f xs) \<Longrightarrow> x \<in> set xs \<Longrightarrow> f x \<le> f (last xs)"
proof (induction xs rule: rev_induct)
  case Nil
  then show ?case by simp
next
  case (snoc y ys)
  then show ?case by (auto simp: sorted_append)
qed

lemma latest_by_last:
  "rows \<noteq> [] \<Longrightarrow> latest_by time rid tz rows = [last (sort_key (\<lambda>r. (instant tz (time r), rid r)) rows)]"
proof -
  assume "rows \<noteq> []"
  then have ne: "sort_key (\<lambda>r. (instant tz (time r), rid r)) rows \<noteq> []"
    by (metis length_0_conv length_sort)
  then obtain xs x where "sort_key (\<lambda>r. (instant tz (time r), rid r)) rows = xs @ [x]" by (metis rev_exhaust)
  then show ?thesis by (simp add: latest_by_def)
qed

lemma option_hd_simps [simp]: "option_hd [] = None" "option_hd (x # xs) = Some x"
  by (simp_all add: option_hd_def)

text \<open>A row later than all others is the latest.\<close>

lemma latest_by_newest:
  assumes "\<And>r. r \<in> set old \<Longrightarrow> instant tz (time r) < instant tz (time new)"
  shows "option_hd (latest_by time rid tz (old @ [new])) = Some new"
proof -
  let ?f = "\<lambda>r. (instant tz (time r), rid r)" let ?s = "sort_key ?f (old @ [new])"
  have ne: "?s \<noteq> []" by (metis append_is_Nil_conv length_0_conv length_sort list.distinct(1))
  have "?f new \<le> ?f (last ?s)" by (rule sorted_le_last) simp_all
  moreover have "last ?s \<in> set (old @ [new])" using last_in_set [OF ne] by simp
  ultimately have "last ?s = new" using assms by (fastforce simp: less_eq_prod_def)
  then show ?thesis by (simp add: latest_by_last)
qed

text \<open>An older row does not become the latest, so the latest of a non-empty list is among the newest.\<close>

lemma latest_by_in: "option_hd (latest_by time rid tz rows) = Some r \<Longrightarrow> r \<in> set rows"
proof -
  assume h: "option_hd (latest_by time rid tz rows) = Some r"
  then have ne: "rows \<noteq> []" by (auto simp: latest_by_def)
  have "sort_key (\<lambda>r. (instant tz (time r), rid r)) rows \<noteq> []" using ne by (metis length_0_conv length_sort)
  from last_in_set [OF this] h show ?thesis by (simp add: latest_by_last [OF ne])
qed

section \<open>Intent versions only grow\<close>

definition version_in :: "mqtt_topics \<Rightarrow> string \<Rightarrow> string \<times> payload \<Rightarrow> int option" where
  "version_in t k m =
     (if fst m \<noteq> room_intent_state_topic t k then None
      else case map_of (snd m) ''intent_version'' of Some (JInt v) \<Rightarrow> Some v | _ \<Rightarrow> None)"

definition published_versions :: "mqtt_topics \<Rightarrow> string \<Rightarrow> database \<Rightarrow> int list" where
  "published_versions t k d = List.map_filter (version_in t k) (map message_of_event (db_outbox d))"

text \<open>The payload that a broker retains of a topic once every message of the outbox is out.\<close>

definition retained_in :: "string \<Rightarrow> (string \<times> payload) list \<Rightarrow> payload option" where
  "retained_in topic ms = map_option snd (find (\<lambda>m. fst m = topic) (rev ms))"

definition retained :: "string \<Rightarrow> database \<Rightarrow> payload option" where
  "retained topic d = retained_in topic (map message_of_event (db_outbox d))"

text \<open>
  The messages last published for a room show a decision of the given digest: its state, and its
  intent, if there is one, under the version of the state row.
\<close>

definition shows_digest :: "db_service \<Rightarrow> string \<Rightarrow> database \<Rightarrow> string \<Rightarrow> int \<Rightarrow> bool" where
  "shows_digest sv k d digest v \<longleftrightarrow>
     (\<exists>st intent c.
        room_state_hash sv st intent = digest
        \<and> retained (room_pms_state (dv_topics sv) k) d = Some (pms_state_payload sv st c)
        \<and> (case intent of None \<Rightarrow> True
            | Some j \<Rightarrow> retained (room_intent_state_topic (dv_topics sv) k) d
                = Some (intent_payload (j\<lparr>di_intent_version := v\<rparr>))))"

definition shows_state :: "db_service \<Rightarrow> string \<Rightarrow> database \<Rightarrow> room_state_row \<Rightarrow> bool" where
  "shows_state sv k d r \<longleftrightarrow> shows_digest sv k d (rsr_payload_hash r) (rsr_intent_version r)"

text \<open>The versions of a room grow up to its last state, and the messages are the ones of that state.\<close>

definition versions_ok :: "db_service \<Rightarrow> string \<Rightarrow> uuid \<Rightarrow> database \<Rightarrow> bool" where
  "versions_ok sv k i d \<longleftrightarrow>
     sorted_wrt (<) (published_versions (dv_topics sv) k d)
     \<and> list_all (\<lambda>v. v \<le> last_version (room_last_state sv d i)) (published_versions (dv_topics sv) k d)
     \<and> (case room_last_state sv d i of None \<Rightarrow> True | Some r \<Rightarrow> shows_state sv k d r)"

definition states_before :: "db_service \<Rightarrow> database \<Rightarrow> datetime \<Rightarrow> bool" where
  "states_before sv d now \<longleftrightarrow>
     list_all (\<lambda>r. instant (dv_tz sv) (rsr_created_at r) < instant (dv_tz sv) now) (db_room_states d)"

lemma version_in_other: "fst m \<notin> set (room_topics_of t k) \<Longrightarrow> version_in t k m = None"
  by (simp add: version_in_def room_topics_of_def)

lemma map_filter_append: "List.map_filter f (xs @ ys) = List.map_filter f xs @ List.map_filter f ys"
  by (simp add: List.map_filter_def)

lemma map_filter_messages:
  "published_versions t k (ss_db s) = List.map_filter (version_in t k) (messages_of t k s)"
proof -
  have "List.map_filter (version_in t k) (filter (\<lambda>m. fst m \<in> set (room_topics_of t k)) ms) = List.map_filter (version_in t k) ms" for ms
    by (induction ms) (simp_all add: map_filter_simps version_in_other split: option.split)
  then show ?thesis by (simp add: published_versions_def messages_of_def)
qed

lemma intent_payload_version: "map_of (intent_payload i) ''intent_version'' = Some (JInt (di_intent_version i))"
  by (simp add: intent_payload_def)

lemma topics_distinct:
  "room_pms_state t k \<noteq> room_intent_state_topic t k'" "room_control_state t k \<noteq> room_intent_state_topic t k'"
  "room_control_state t k \<noteq> room_pms_state t k'"
  by (simp_all add: room_topics room_topic_eq room_suffixes_def)

lemma new_messages_versions:
  "List.map_filter (version_in (dv_topics sv) (rm_key rm)) (new_messages sv rm st intent latest ended now c)
     = (if unchanged_state sv latest st intent \<or> intent = None then [] else [last_version latest + 1])"
  using topics_distinct [of "dv_topics sv" "rm_key rm" "rm_key rm"]
  by (cases intent) (auto simp: new_messages_def Let_def version_in_def map_filter_simps opt_list_def
      intent_payload_version next_last_version)

lemma find_filter_imp: "(\<And>x. P x \<Longrightarrow> Q x) \<Longrightarrow> find P (filter Q xs) = find P xs"
  by (induction xs) auto

lemma find_append: "find P (xs @ ys) = (case find P xs of None \<Rightarrow> find P ys | Some x \<Rightarrow> Some x)"
  by (induction xs) auto

lemma retained_messages:
  assumes "topic \<in> set (room_topics_of t k)"
  shows "retained topic (ss_db s) = retained_in topic (messages_of t k s)"
proof -
  have "find (\<lambda>m. fst m = topic) (filter (\<lambda>m. fst m \<in> set (room_topics_of t k)) xs) = find (\<lambda>m. fst m = topic) xs"
    for xs :: "(string \<times> payload) list"
    by (rule find_filter_imp) (use assms in simp)
  then show ?thesis by (simp add: retained_def retained_in_def messages_of_def rev_filter)
qed

lemma retained_in_append:
  "retained_in topic (ms @ new) = (case retained_in topic new of None \<Rightarrow> retained_in topic ms | Some p \<Rightarrow> Some p)"
  by (simp add: retained_in_def find_append split: option.split)

lemma retained_new_messages:
  assumes "retained_in topic (new_messages sv rm st intent latest ended now c) = new"
  shows "topic = room_pms_state (dv_topics sv) (rm_key rm) \<Longrightarrow>
      new = (if unchanged_state sv latest st intent then None else Some (pms_state_payload sv st c))"
    and "topic = room_intent_state_topic (dv_topics sv) (rm_key rm) \<Longrightarrow>
      new = (if unchanged_state sv latest st intent then None
             else map_option (\<lambda>j. intent_payload (j\<lparr>di_intent_version := next_intent_version latest\<rparr>)) intent)"
  using topics_distinct [of "dv_topics sv" "rm_key rm" "rm_key rm"] assms
  by (cases intent; auto simp: retained_in_def new_messages_def Let_def opt_list_def)+

lemma shows_digest_cong:
  assumes "retained (room_pms_state (dv_topics sv) k) d' = retained (room_pms_state (dv_topics sv) k) d"
    and "retained (room_intent_state_topic (dv_topics sv) k) d' = retained (room_intent_state_topic (dv_topics sv) k) d"
  shows "shows_digest sv k d' h v = shows_digest sv k d h v"
  unfolding shows_digest_def assms by (rule refl)

lemma shows_digest_outbox: "db_outbox d' = db_outbox d \<Longrightarrow> shows_digest sv k d' h v = shows_digest sv k d h v"
  by (rule shows_digest_cong) (simp_all add: retained_def)

lemma shows_digest_view:
  "messages_of (dv_topics sv) k s' = messages_of (dv_topics sv) k s
     \<Longrightarrow> shows_digest sv k (ss_db s') h v = shows_digest sv k (ss_db s) h v"
  by (rule shows_digest_cong) (simp_all add: retained_messages [of _ "dv_topics sv" k] room_topics_of_def)

text \<open>What the outcome of a room leaves as its last state, and that the messages show it.\<close>

lemma outcome_shown:
  assumes "view_outcome sv loaded now c d i rm s s' counts" and d: "db_room_states d = db_room_states (ss_db s)"
    and "states_before sv (ss_db s) now"
    and "case room_last_state sv (ss_db s) i of None \<Rightarrow> True | Some r \<Rightarrow> shows_state sv (rm_key rm) (ss_db s) r"
  obtains ov intent r where
    "active_override sv d (room_override_row sv d i) (hotel_time_of sv now) = Inr ov"
    "room_intent sv rm loaded now ov c = Inr intent"
    "room_last_state sv (ss_db s') i = Some r" "shows_state sv (rm_key rm) (ss_db s') r"
    "rsr_payload_hash r = room_state_hash sv (room_evaluation sv rm loaded now ov) intent"
    "rsr_intent_version r = last_version (room_last_state sv (ss_db s) i)
       + (if unchanged_state sv (room_last_state sv (ss_db s) i) (room_evaluation sv rm loaded now ov) intent \<or> intent = None
          then 0 else 1)"
    "published_versions (dv_topics sv) (rm_key rm) (ss_db s') = published_versions (dv_topics sv) (rm_key rm) (ss_db s)
       @ (if unchanged_state sv (room_last_state sv (ss_db s) i) (room_evaluation sv rm loaded now ov) intent \<or> intent = None
          then [] else [last_version (room_last_state sv (ss_db s) i) + 1])"
proof -
  let ?t = "dv_topics sv" and ?k = "rm_key rm"
  from assms(1) obtain ov intent st latest ended rs where
    1: "active_override sv d (room_override_row sv d i) (hotel_time_of sv now) = Inr ov"
      "room_intent sv rm loaded now ov c = Inr intent"
    and st: "st = room_evaluation sv rm loaded now ov" and latest0: "latest = room_last_state sv d i"
    and msgs: "messages_of ?t ?k s' = messages_of ?t ?k s @ new_messages sv rm st intent latest ended now c"
    and states: "states_of i s' = states_of i s @ rs"
    and rs: "if unchanged_state sv latest st intent then rs = []
           else \<exists>r. rs = [r] \<and> new_state_ok sv i st intent latest now r"
    unfolding view_outcome_def by blast
  have latest: "latest = room_last_state sv (ss_db s) i" using latest0 d by (simp add: room_last_state_def)
  have vs: "published_versions ?t ?k (ss_db s') = published_versions ?t ?k (ss_db s)
      @ (if unchanged_state sv latest st intent \<or> intent = None then [] else [last_version latest + 1])"
    unfolding map_filter_messages msgs by (simp add: map_filter_append new_messages_versions)
  have kept: "retained topic (ss_db s') = (case retained_in topic (new_messages sv rm st intent latest ended now c) of
      None \<Rightarrow> retained topic (ss_db s) | Some p \<Rightarrow> Some p)" if "topic \<in> set (room_topics_of ?t ?k)" for topic
    using that by (simp add: retained_messages [of topic ?t ?k] msgs retained_in_append split: option.split)
  note pms = kept [of "room_pms_state ?t ?k"] retained_new_messages(1) [OF refl refl, of sv rm st intent latest ended now c]
  note int = kept [of "room_intent_state_topic ?t ?k"] retained_new_messages(2) [OF refl refl, of sv rm st intent latest ended now c]
  have in_topics: "room_pms_state ?t ?k \<in> set (room_topics_of ?t ?k)" "room_intent_state_topic ?t ?k \<in> set (room_topics_of ?t ?k)"
    by (simp_all add: room_topics_of_def)
  have "\<exists>r. room_last_state sv (ss_db s') i = Some r \<and> shows_state sv ?k (ss_db s') r
      \<and> rsr_payload_hash r = room_state_hash sv st intent
      \<and> rsr_intent_version r = last_version latest + (if unchanged_state sv latest st intent \<or> intent = None then 0 else 1)"
  proof (cases "unchanged_state sv latest st intent")
    case True
    then obtain r where r: "latest = Some r" "rsr_payload_hash r = room_state_hash sv st intent"
      by (auto simp: unchanged_state_def split: option.splits)
    have "room_last_state sv (ss_db s') i = Some r"
      using rs states True r(1) by (simp add: latest room_last_state_def states_of_def)
    moreover have "shows_state sv ?k (ss_db s') r"
    proof -
      have "shows_digest sv ?k (ss_db s') h v = shows_digest sv ?k (ss_db s) h v" for h v
        by (rule shows_digest_cong) (use True pms int in_topics in simp_all)
      with assms(4) r(1) latest show ?thesis by (simp add: shows_state_def)
    qed
    ultimately show ?thesis using r True by (simp add: last_version_def)
  next
    case False
    with rs obtain r where r: "rs = [r]" "new_state_ok sv i st intent latest now r" by auto
    have "option_hd (latest_by rsr_created_at rsr_id (dv_tz sv) (states_of i s @ [r])) = Some r"
      using assms(3) r by (intro latest_by_newest) (auto simp: states_before_def states_of_def list_all_iff new_state_ok_def)
    then have "room_last_state sv (ss_db s') i = Some r" using r(1) states by (simp add: room_last_state_def states_of_def)
    moreover have "shows_state sv ?k (ss_db s') r"
      unfolding shows_state_def shows_digest_def using False r(2) pms int in_topics
      by (intro exI [of _ st] exI [of _ intent] exI [of _ c])
         (auto simp: new_state_ok_def next_last_version split: option.split)
    ultimately show ?thesis using r(2) False by (auto simp: new_state_ok_def)
  qed
  then obtain r where "room_last_state sv (ss_db s') i = Some r" "shows_state sv ?k (ss_db s') r"
      "rsr_payload_hash r = room_state_hash sv st intent"
      "rsr_intent_version r = last_version latest + (if unchanged_state sv latest st intent \<or> intent = None then 0 else 1)"
    by blast
  from that [OF 1 this [unfolded st latest] vs [unfolded st latest]] show thesis .
qed

lemma versions_step:
  assumes "view_outcome sv loaded now c d i rm s s' counts" and d: "db_room_states d = db_room_states (ss_db s)"
    and "versions_ok sv (rm_key rm) i (ss_db s)" and "states_before sv (ss_db s) now"
  shows "versions_ok sv (rm_key rm) i (ss_db s')"
proof -
  have old: "case room_last_state sv (ss_db s) i of None \<Rightarrow> True | Some r \<Rightarrow> shows_state sv (rm_key rm) (ss_db s) r"
    using assms(3) by (simp add: versions_ok_def)
  show ?thesis
    by (rule outcome_shown [OF assms(1,2,4) old])
       (use assms(3) in \<open>auto simp: versions_ok_def last_version_def sorted_wrt_append list_all_iff split: if_splits\<close>)
qed

section \<open>The rows of the registry\<close>

definition room_ids_at :: "property_row \<Rightarrow> string \<Rightarrow> database \<Rightarrow> uuid list" where
  "room_ids_at p k d = map rmr_id (filter (\<lambda>r. rmr_property_id r = ppr_id p \<and> rmr_key r = k) (db_rooms d))"

definition room_columns :: "room_row \<Rightarrow> uuid \<times> uuid \<times> string" where
  "room_columns r = (rmr_id r, rmr_property_id r, rmr_key r)"

text \<open>The room rows have pending changes at most outside their key columns.\<close>

definition steady_rooms :: "session \<Rightarrow> bool" where
  "steady_rooms s \<longleftrightarrow>
     \<not> ss_autoflush s \<and> map room_columns (db_rooms (ss_flushed s)) = map room_columns (db_rooms (ss_db s))
     \<and> distinct (map rmr_id (db_rooms (ss_db s)))"

lemma object_of_columns:
  assumes "map f old = map f new" and "\<And>r r'. f r = f r' \<Longrightarrow> tb_id t r = tb_id t r'"
    and "distinct (map (tb_id t) new)" and "tb_get t d = new" and "\<And>r r'. f r = f r' \<Longrightarrow> P r = P r'"
  shows "map (object_of t d) (filter P old) = filter P new"
proof -
  have gen: "map (object_of t d) (filter P xs) = filter P ys"
    if "map f xs = map f ys" "set ys \<subseteq> set new" for xs ys
    using that
  proof (induction xs arbitrary: ys)
    case Nil
    then show ?case by simp
  next
    case (Cons x xs)
    from Cons.prems(1) obtain y zs where ys: "ys = y # zs" "f x = f y" "map f xs = map f zs"
      by (metis Cons_eq_map_D list.simps(9))
    have "find (\<lambda>r. tb_id t r = tb_id t y) new = Some y"
      using Cons.prems(2) ys(1) assms(3) by (intro find_id_stored) auto
    then have "object_of t d x = y" using assms(2) [OF ys(2)] assms(4) by (simp add: object_of_def)
    moreover have "P x = P y" using assms(5) [OF ys(2)] .
    ultimately show ?case using Cons.IH [OF ys(3)] Cons.prems(2) ys(1) by simp
  qed
  from gen [OF assms(1)] show ?thesis by simp
qed

lemma select_room_steady:
  assumes "steady_rooms s"
  shows "scalar_one_or_none rooms_t (filter (\<lambda>r. rmr_property_id r = p \<and> rmr_key r = k)) s
    = (one_or_none (filter (\<lambda>r. rmr_property_id r = p \<and> rmr_key r = k) (db_rooms (ss_db s))), s)"
proof -
  have "map (object_of rooms_t (ss_db s)) (filter (\<lambda>r. rmr_property_id r = p \<and> rmr_key r = k) (db_rooms (ss_flushed s)))
    = filter (\<lambda>r. rmr_property_id r = p \<and> rmr_key r = k) (db_rooms (ss_db s))"
    using assms by (intro object_of_columns [of room_columns]) (auto simp: steady_rooms_def room_columns_def)
  with assms show ?thesis
    by (auto simp: scalar_one_or_none_def scalars_def bindE_def autoflush_def steady_rooms_def one_or_none_def
        split: list.split)
qed

lemma ensure_room_run:
  assumes "steady_rooms s" and "ensure_room sv p rm s = (Inr row, s')"
  shows "steady_rooms s'" and "room_ids_at p (rm_key rm) (ss_db s') = [rmr_id row]"
    and "k \<noteq> rm_key rm \<Longrightarrow> room_ids_at p k (ss_db s') = room_ids_at p k (ss_db s)"
    and "rmr_id row \<in> rmr_id ` set (db_rooms (ss_flushed s'))"
    and "keys_ok (ss_flushed s) \<Longrightarrow> keys_ok (ss_flushed s')"
    and "(db_rooms (ss_db s') = db_rooms (ss_db s) @ [row] \<and> ss_flushed s' = ss_db s') \<or> ss_flushed s' = ss_flushed s"
proof -
  let ?P = "\<lambda>k r. rmr_property_id r = ppr_id p \<and> rmr_key r = k"
  note sel = select_room_steady [OF assms(1), of "ppr_id p" "rm_key rm"]
  obtain found where f: "one_or_none (filter (?P (rm_key rm)) (db_rooms (ss_db s))) = Inr found"
    using assms(2) sel by (cases "one_or_none (filter (?P (rm_key rm)) (db_rooms (ss_db s)))") (auto simp: ensure_room_def)
  have a: "\<not> ss_autoflush s" using assms(1) by (simp add: steady_rooms_def)
  have "steady_rooms s' \<and> room_ids_at p (rm_key rm) (ss_db s') = [rmr_id row]
    \<and> (\<forall>k. k \<noteq> rm_key rm \<longrightarrow> room_ids_at p k (ss_db s') = room_ids_at p k (ss_db s))
    \<and> rmr_id row \<in> rmr_id ` set (db_rooms (ss_flushed s'))
    \<and> (keys_ok (ss_flushed s) \<longrightarrow> keys_ok (ss_flushed s'))
    \<and> ((db_rooms (ss_db s') = db_rooms (ss_db s) @ [row] \<and> ss_flushed s' = ss_db s') \<or> ss_flushed s' = ss_flushed s)"
  proof (cases found)
    case None
    with f have none: "filter (?P (rm_key rm)) (db_rooms (ss_db s)) = []" by (simp add: one_or_none_None)
    from assms(2) sel f None a obtain sx where
      s': "s' = s\<lparr>ss_db := db_rooms_update (\<lambda>rs. rs @ [row]) (ss_db s),
             ss_flushed := db_rooms_update (\<lambda>rs. rs @ [row]) (ss_db s), ss_draws := ss_draws s + 1\<rparr>"
      and fl: "flush_ok (ss_flushed s) (db_rooms_update (\<lambda>rs. rs @ [row]) (ss_db s))"
      and row: "rmr_property_id row = ppr_id p" "rmr_key row = rm_key rm"
      by (auto simp: ensure_room_def bindE_def fresh_id_def draw_uuid_def add_row_def flush_def Let_def split: if_splits)
    have k: "keys_ok (db_rooms_update (\<lambda>rs. rs @ [row]) (ss_db s))" using fl by (rule keys_ok_flush)
    then have "distinct (map rmr_id (db_rooms (ss_db s) @ [row]))" by (simp add: keys_ok_def)
    with s' row none a k show ?thesis
      by (simp add: steady_rooms_def room_ids_at_def room_columns_def)
  next
    case (Some r0)
    with f have one: "filter (?P (rm_key rm)) (db_rooms (ss_db s)) = [r0]" by (simp add: one_or_none_Some)
    have r0: "rmr_property_id r0 = ppr_id p" "rmr_key r0 = rm_key rm" "r0 \<in> set (db_rooms (ss_db s))"
      using filter_eq_ConsD [OF one] by auto
    let ?f = "\<lambda>r. r\<lparr>rmr_name := rm_name rm, rmr_entrance_key := rm_entrance_key rm, rmr_floor := rm_floor rm,
                         rmr_clock_room_id := rm_clock_room_id rm, rmr_enabled := rm_enabled rm\<rparr>"
    define g where "g r = (if rmr_id r = rmr_id r0 then ?f r else r)" for r :: room_row
    have g: "rmr_id \<circ> g = rmr_id" "room_columns \<circ> g = room_columns"
      by (auto simp: g_def room_columns_def fun_eq_iff)
    from assms(2) sel f Some have s': "s' = s\<lparr>ss_db := db_rooms_update (map g) (ss_db s)\<rparr>" and row: "row = ?f r0"
      by (auto simp: ensure_room_def bindE_def set_row_def Let_def g_def [abs_def])
    have ids: "map rmr_id (filter (?P k) (map g (db_rooms (ss_db s)))) = map rmr_id (filter (?P k) (db_rooms (ss_db s)))" for k
      unfolding g_def [abs_def] by (subst filter_assign) auto
    have "rmr_id ` set (db_rooms (ss_flushed s)) = rmr_id ` set (db_rooms (ss_db s))"
    proof -
      have "map fst (map room_columns (db_rooms (ss_flushed s))) = map fst (map room_columns (db_rooms (ss_db s)))"
        using assms(1) by (simp only: steady_rooms_def)
      then have "map rmr_id (db_rooms (ss_flushed s)) = map rmr_id (db_rooms (ss_db s))"
        by (simp add: room_columns_def comp_def)
      from arg_cong [OF this, of set] show ?thesis by simp
    qed
    then have fl0: "rmr_id r0 \<in> rmr_id ` set (db_rooms (ss_flushed s))" using r0(3) by simp
    show ?thesis
      using assms(1) one row s' ids fl0 unfolding steady_rooms_def room_ids_at_def by (simp add: g)
  qed
  then show "steady_rooms s'" "room_ids_at p (rm_key rm) (ss_db s') = [rmr_id row]"
    "k \<noteq> rm_key rm \<Longrightarrow> room_ids_at p k (ss_db s') = room_ids_at p k (ss_db s)"
    "rmr_id row \<in> rmr_id ` set (db_rooms (ss_flushed s'))"
    "keys_ok (ss_flushed s) \<Longrightarrow> keys_ok (ss_flushed s')"
    "(db_rooms (ss_db s') = db_rooms (ss_db s) @ [row] \<and> ss_flushed s' = ss_db s') \<or> ss_flushed s' = ss_flushed s"
    by blast+
qed


text \<open>The map from row ids to registry rooms: every room under the one id its key has.\<close>

definition domain_ok :: "property_row \<Rightarrow> (uuid \<times> room) list \<Rightarrow> session \<Rightarrow> bool" where
  "domain_ok p D s \<longleftrightarrow>
     (\<forall>i rm. map_of D i = Some rm \<longrightarrow> room_ids_at p (rm_key rm) (ss_db s) = [i]
        \<and> i \<in> rmr_id ` set (db_rooms (ss_flushed s)))"

lemma map_of_update: "map_of (AList.update k v xs) = (map_of xs)(k \<mapsto> v)"
  by (rule update_conv')

lemma room_ids_in: "room_ids_at p k d = [i] \<Longrightarrow> \<exists>r \<in> set (db_rooms d). rmr_key r = k \<and> rmr_id r = i"
proof -
  assume "room_ids_at p k d = [i]"
  then have "i \<in> set (room_ids_at p k d)" by simp
  then show ?thesis by (auto simp: room_ids_at_def)
qed

lemma ids_at_apart:
  assumes "steady_rooms s" and "room_ids_at p k (ss_db s) = [i]" and "room_ids_at p k' (ss_db s) = [i]"
  shows "k = k'"
  using assms(1) room_ids_in [OF assms(2)] room_ids_in [OF assms(3)]
  by (auto simp: steady_rooms_def distinct_map inj_on_def)

lemma ensure_rooms_run:
  assumes "steady_rooms s" and "ensure_rooms sv p rms acc s = (Inr reg, s')" and "distinct (map rm_key rms)"
    and "domain_ok p (rg_domain_rooms_by_id acc) s"
    and "\<forall>i rm. map_of (rg_domain_rooms_by_id acc) i = Some rm \<longrightarrow> rm_key rm \<notin> rm_key ` set rms"
  shows "steady_rooms s' \<and> domain_ok p (rg_domain_rooms_by_id reg) s' \<and> rg_property reg = rg_property acc
    \<and> (\<forall>rm \<in> set rms. \<exists>i. map_of (rg_domain_rooms_by_id reg) i = Some rm)
    \<and> (\<forall>i rm. map_of (rg_domain_rooms_by_id acc) i = Some rm \<longrightarrow> map_of (rg_domain_rooms_by_id reg) i = Some rm)
    \<and> (\<forall>i rm. map_of (rg_domain_rooms_by_id reg) i = Some rm \<longrightarrow>
          rm \<in> set rms \<or> map_of (rg_domain_rooms_by_id acc) i = Some rm)
    \<and> (keys_ok (ss_flushed s) \<longrightarrow> keys_ok (ss_flushed s'))"
  using assms
proof (induction rms arbitrary: acc s)
  case Nil
  then show ?case by simp
next
  case (Cons rm rms)
  let ?D = "rg_domain_rooms_by_id acc"
  from Cons.prems(2) obtain row s1 where room: "ensure_room sv p rm s = (Inr row, s1)"
    and rest: "ensure_rooms sv p rms
       (acc\<lparr>rg_rooms_by_key := AList.update (rm_key rm) row (rg_rooms_by_key acc),
            rg_rooms_by_clock_id :=
              (if truthy (rm_clock_room_id rm)
               then AList.update (the (rm_clock_room_id rm)) row (rg_rooms_by_clock_id acc)
               else rg_rooms_by_clock_id acc),
            rg_domain_rooms_by_id := AList.update (rmr_id row) rm ?D\<rparr>) s1 = (Inr reg, s')"
    by (auto elim!: bindE_Inr_E)
  note r = ensure_room_run [OF Cons.prems(1) room]
  have old: "room_ids_at p (rm_key rm') (ss_db s1) = [i] \<and> i \<in> rmr_id ` set (db_rooms (ss_flushed s1))
      \<and> i \<noteq> rmr_id row"
    if "map_of ?D i = Some rm'" for i rm'
  proof -
    have k: "rm_key rm' \<noteq> rm_key rm" using Cons.prems(5) that by auto
    have 1: "room_ids_at p (rm_key rm') (ss_db s) = [i]" "i \<in> rmr_id ` set (db_rooms (ss_flushed s))"
      using Cons.prems(4) that by (auto simp: domain_ok_def)
    then have 2: "room_ids_at p (rm_key rm') (ss_db s1) = [i]" using r(3) [OF k] by simp
    have "i \<in> rmr_id ` set (db_rooms (ss_flushed s1))"
    proof -
      from room_ids_in [OF 2] have "i \<in> rmr_id ` set (db_rooms (ss_db s1))" by auto
      with r(6) 1(2) show ?thesis by auto
    qed
    moreover have "i \<noteq> rmr_id row" using ids_at_apart [OF r(1), of p "rm_key rm'" i "rm_key rm"] 2 r(2) k by auto
    ultimately show ?thesis using 2 by simp
  qed
  let ?acc' = "acc\<lparr>rg_rooms_by_key := AList.update (rm_key rm) row (rg_rooms_by_key acc),
            rg_rooms_by_clock_id :=
              (if truthy (rm_clock_room_id rm)
               then AList.update (the (rm_clock_room_id rm)) row (rg_rooms_by_clock_id acc)
               else rg_rooms_by_clock_id acc),
            rg_domain_rooms_by_id := AList.update (rmr_id row) rm ?D\<rparr>"
  have d1: "domain_ok p (rg_domain_rooms_by_id ?acc') s1"
    using old r(2,4) by (auto simp: domain_ok_def map_of_update)
  have d2: "\<forall>i rm'. map_of (rg_domain_rooms_by_id ?acc') i = Some rm' \<longrightarrow> rm_key rm' \<notin> rm_key ` set rms"
    using Cons.prems(3,5) by (auto simp: map_of_update split: if_splits)
  have d3: "distinct (map rm_key rms)" using Cons.prems(3) by simp
  note IH = Cons.IH [OF r(1) rest d3 d1 d2]
  then have "steady_rooms s'" "domain_ok p (rg_domain_rooms_by_id reg) s'" "rg_property reg = rg_property acc"
    "keys_ok (ss_flushed s) \<longrightarrow> keys_ok (ss_flushed s')"
    using r(5) by simp_all
  moreover have "\<exists>i. map_of (rg_domain_rooms_by_id reg) i = Some rm'" if "rm' \<in> set (rm # rms)" for rm'
  proof (cases "rm' = rm")
    case True
    have "map_of (rg_domain_rooms_by_id ?acc') (rmr_id row) = Some rm" by (simp add: map_of_update)
    with IH True show ?thesis by blast
  next
    case False
    with that IH show ?thesis by simp
  qed
  moreover have "map_of (rg_domain_rooms_by_id reg) i = Some rm'" if "map_of ?D i = Some rm'" for i rm'
    using that IH old [OF that] by (simp add: map_of_update)
  moreover have "rm' \<in> set (rm # rms) \<or> map_of ?D i = Some rm'"
    if "map_of (rg_domain_rooms_by_id reg) i = Some rm'" for i rm'
  proof -
    from IH that have "rm' \<in> set rms \<or> map_of (rg_domain_rooms_by_id ?acc') i = Some rm'" by blast
    then show ?thesis by (auto simp: map_of_update split: if_splits)
  qed
  ultimately show ?case by blast
qed

text \<open>What SQL sees has distinct primary keys throughout, since a flush checks them.\<close>

definition flush_safe :: "session \<Rightarrow> session \<Rightarrow> bool" where
  "flush_safe s s' \<longleftrightarrow>
     (keys_ok (ss_flushed s) \<longrightarrow> keys_ok (ss_flushed s')) \<and> ss_autoflush s' = ss_autoflush s"

named_theorems safes \<open>operations that keep the primary keys of what SQL sees distinct\<close>

lemma safe_rel: "reflp flush_safe" "transp flush_safe"
  by (auto simp: reflp_def transp_def flush_safe_def)

lemma safe_bind [safes]: "keeps flush_safe m \<Longrightarrow> (\<And>v. keeps flush_safe (f v)) \<Longrightarrow> keeps flush_safe (bindE m f)"
  by (rule keeps_bindE [OF safe_rel(2)])

lemma safe_prims [safes]:
  "keeps flush_safe (ret v)" "keeps flush_safe (raise e)" "keeps flush_safe (gets f)" "keeps flush_safe (lift_result r)"
  "keeps flush_safe (Pair r)" "keeps flush_safe (add_row t row)" "keeps flush_safe (set_row t i g)"
  "keeps flush_safe flush" "keeps flush_safe autoflush" "keeps flush_safe (fresh_id sv)"
  "keeps flush_safe (get_row t i)"
  by (auto simp: keeps_def flush_safe_def add_row_def set_row_def flush_def autoflush_def fresh_id_def draw_uuid_def
      get_row_def intro: keys_ok_flush)

lemma safe_queries [safes]:
  "keeps flush_safe (scalars t q)" "keeps flush_safe (scalar_one_or_none t q)" "keeps flush_safe (scalar_one t q)"
  unfolding scalars_def scalar_one_or_none_def scalar_one_def
  by (auto intro!: safes split: list.split)

lemma safe_audit [safes]: "keeps flush_safe (audit sv p r b e m d now c)"
  unfolding audit_def by (intro safes)

lemma safe_ensure [safes]: "keeps flush_safe (ensure_property sv)" "keeps flush_safe (ensure_room sv p rm)"
  unfolding ensure_property_def ensure_room_def Let_def by (auto intro!: safes split: option.split)

lemma safe_start_sync [safes]: "keeps flush_safe (start_sync_run sv result reg c)"
  unfolding start_sync_run_def by (intro safes)

lemma safe_upsert [safes]: "keeps flush_safe (upsert_booking sv p nb now)"
  unfolding upsert_booking_def Let_def by (auto intro!: safes split: option.split)

lemma safe_assignment [safes]: "keeps flush_safe (sync_assignment sv reg row nb now c)"
  unfolding sync_assignment_def new_assignment_def current_assignment_def end_assignment_def Let_def
  by (auto intro!: safes split: option.split)

lemma safe_sync_booking [safes]: "keeps flush_safe (sync_booking sv reg now c nb acc)"
  unfolding sync_booking_def audit_unassigned_if_needed_def Let_def
  by (auto intro!: safes split: prod.split option.split)

lemma safe_sync_bookings [safes]: "keeps flush_safe (sync_bookings sv reg now c nbs acc)"
  by (induction nbs arbitrary: acc) (auto intro!: safes)

lemma safe_run: "keeps flush_safe m \<Longrightarrow> m s = (r, s') \<Longrightarrow> flush_safe s s'"
  by (rule keeps_eqD)

lemma ensure_registry_run:
  assumes "ensure_registry sv s = (Inr reg, s')" and "ss_db s = d" "ss_flushed s = d" "\<not> ss_autoflush s"
    and "keys_ok d" and "distinct (map rm_key (rr_rooms (dv_registry sv)))"
  shows "own_keys reg" and "keys_ok (ss_flushed s')"
    and "filter (\<lambda>r. ppr_key r = property_key sv) (db_properties (ss_db s')) = [rg_property reg]"
    and "map_of (rg_domain_rooms_by_id reg) i = Some rm \<Longrightarrow>
      room_ids_at (rg_property reg) (rm_key rm) (ss_db s') = [i] \<and> i \<in> rmr_id ` set (db_rooms (ss_flushed s'))
      \<and> rm \<in> set (rr_rooms (dv_registry sv))"
    and "rm \<in> set (rr_rooms (dv_registry sv)) \<Longrightarrow> \<exists>i. map_of (rg_domain_rooms_by_id reg) i = Some rm"
    and "steady_rooms s'"
proof -
  from assms(1) obtain p s1 where p: "ensure_property sv s = (Inr p, s1)"
    and r: "ensure_rooms sv p (rr_rooms (dv_registry sv))
       \<lparr>rg_property = p, rg_rooms_by_key = [], rg_rooms_by_clock_id = [], rg_domain_rooms_by_id = []\<rparr> s1
       = (Inr reg, s')"
    unfolding ensure_registry_def by (elim bindE_Inr_E)
  have c: "clean properties_t s" "clean rooms_t s" using assms(2-5) by (simp_all add: clean_def keys_ok_def)
  have st: "steady_rooms s1"
    using frame_clean [OF frame_ensure_property p, of rooms_t] c(2) by (simp add: steady_rooms_def clean_def)
  have k: "keys_ok (ss_flushed s1)" using safe_run [OF safe_ensure(1) p] assms(3,5) by (simp add: flush_safe_def)
  note run = ensure_rooms_run [OF st r assms(6)]
  have run': "steady_rooms s'" "domain_ok p (rg_domain_rooms_by_id reg) s'" "rg_property reg = p"
    "\<And>rm. rm \<in> set (rr_rooms (dv_registry sv)) \<Longrightarrow> \<exists>i. map_of (rg_domain_rooms_by_id reg) i = Some rm"
    "\<And>i rm. map_of (rg_domain_rooms_by_id reg) i = Some rm \<Longrightarrow> rm \<in> set (rr_rooms (dv_registry sv))"
    "keys_ok (ss_flushed s')"
    using run k by (auto simp: domain_ok_def)
  show "keys_ok (ss_flushed s')" "steady_rooms s'" by fact+
  show "rm \<in> set (rr_rooms (dv_registry sv)) \<Longrightarrow> \<exists>i. map_of (rg_domain_rooms_by_id reg) i = Some rm"
    by (rule run'(4))
  show at: "map_of (rg_domain_rooms_by_id reg) i = Some rm \<Longrightarrow>
      room_ids_at (rg_property reg) (rm_key rm) (ss_db s') = [i] \<and> i \<in> rmr_id ` set (db_rooms (ss_flushed s'))
      \<and> rm \<in> set (rr_rooms (dv_registry sv))" for i rm
    using run'(2,3,5) by (auto simp: domain_ok_def)
  show "own_keys reg"
    unfolding own_keys_def using at by (metis list.inject)
  show "filter (\<lambda>r. ppr_key r = property_key sv) (db_properties (ss_db s')) = [rg_property reg]"
    using ensure_registry_property [OF c(1) assms(1)] .
qed

section \<open>Intent versions over the operations\<close>

lemma load_normalized_state:
  "\<not> ss_autoflush s \<Longrightarrow> load_normalized_bookings sv p s = (r, s') \<Longrightarrow> s' = s"
  by (auto simp: load_normalized_bookings_def scalars_def bindE_def autoflush_def Let_def
      split: if_splits sum.splits prod.splits)

lemma recalculate_member:
  assumes "reads d s" and "recalculate_rooms sv reg ids now c s = (Inr rc, s')" and "own_keys reg"
    and "in_scope reg d i = Some rm" and "i \<in> set ids"
  obtains loaded counts where "load_normalized_bookings sv (rg_property reg) s = (Inr loaded, s)"
    "view_outcome sv loaded now c d i rm s s' counts"
proof -
  from assms(2,5) obtain loaded s1 where load: "load_normalized_bookings sv (rg_property reg) s = (Inr loaded, s1)"
    and each: "recalculate_each sv reg loaded now c (sort (remdups ids)) no_recalculation s1 = (Inr rc, s')"
    unfolding recalculate_rooms_def by (auto elim!: bindE_Inr_E split: if_splits)
  have s1: "s1 = s" using load_normalized_state [OF _ load] assms(1) by (simp add: reads_def)
  have "distinct (sort (remdups ids))" "i \<in> set (sort (remdups ids))" using assms(5) by simp_all
  with recalculate_each_member [OF assms(1) each [unfolded s1] assms(3,4)] load s1 show thesis by (blast intro: that)
qed

lemma recalculate_view:
  assumes "reads d s" and "recalculate_rooms sv reg ids now c s = (Inr rc, s')" and "own_keys reg"
    and "in_scope reg d i = Some rm"
  shows "same_view (dv_topics sv) i (rm_key rm) s s'
    \<or> (\<exists>loaded counts. load_normalized_bookings sv (rg_property reg) s = (Inr loaded, s)
          \<and> view_outcome sv loaded now c d i rm s s' counts)"
proof (cases "i \<in> set ids")
  case True
  from recalculate_member [OF assms this] show ?thesis by blast
next
  case out: False
  show ?thesis
  proof (cases "ids = []")
    case True
    with assms(2) show ?thesis by (simp add: recalculate_rooms_def)
  next
    case False
    with assms(2) obtain loaded s1 where load: "load_normalized_bookings sv (rg_property reg) s = (Inr loaded, s1)"
      and each: "recalculate_each sv reg loaded now c (sort (remdups ids)) no_recalculation s1 = (Inr rc, s')"
      unfolding recalculate_rooms_def by (auto elim!: bindE_Inr_E)
    have s1: "s1 = s" using load_normalized_state [OF _ load] assms(1) by (simp add: reads_def)
    have rm: "map_of (rg_domain_rooms_by_id reg) i = Some rm" using assms(4) by (auto simp: in_scope_def split: if_splits)
    have "i \<notin> set (sort (remdups ids))" using out by simp
    from recalculate_each_other [OF assms(1) each [unfolded s1] assms(3) rm this] show ?thesis by blast
  qed
qed

definition room_row_id :: "db_service \<Rightarrow> database \<Rightarrow> string \<Rightarrow> uuid option" where
  "room_row_id sv d k =
     (case filter (\<lambda>r. ppr_key r = property_key sv) (db_properties d) of
        [p] \<Rightarrow> (case room_ids_at p k d of [i] \<Rightarrow> Some i | _ \<Rightarrow> None)
      | _ \<Rightarrow> None)"

lemma versions_ok_cong:
  "db_outbox d = db_outbox d' \<Longrightarrow> db_room_states d = db_room_states d' \<Longrightarrow> versions_ok sv k i d = versions_ok sv k i d'"
  using shows_digest_outbox [of d' d]
  by (simp add: versions_ok_def published_versions_def room_last_state_def shows_state_def cong: option.case_cong)

lemma states_before_cong:
  "db_room_states d = db_room_states d' \<Longrightarrow> states_before sv d now = states_before sv d' now"
  by (simp add: states_before_def)

lemma recalculation_versions:
  assumes "recalculate_rooms sv reg ids now c s = (Inr rc, s')" and "own_keys reg"
    and "map_of (rg_domain_rooms_by_id reg) i = Some rm" and "i \<in> rmr_id ` set (db_rooms (ss_flushed s))"
    and "\<not> ss_autoflush s" "keys_ok (ss_flushed s)" "db_bookings (ss_flushed s) = db_bookings (ss_db s)"
    and "clean room_states_t s" "clean overrides_t s"
    and "versions_ok sv (rm_key rm) i (ss_db s)" and "states_before sv (ss_db s) now"
  shows "versions_ok sv (rm_key rm) i (ss_db s')"
proof -
  have r: "reads (ss_flushed s) s" using assms(5-9) by (simp add: reads_def clean_def)
  have "find (\<lambda>r. rmr_id r = i) (db_rooms (ss_flushed s)) \<noteq> None"
    using assms(4) by (auto simp: find_None_iff2)
  then have "in_scope reg (ss_flushed s) i = Some rm" using assms(3) by (simp add: in_scope_def)
  from recalculate_view [OF r assms(1,2) this] show ?thesis
  proof
    assume "same_view (dv_topics sv) i (rm_key rm) s s'"
    then show ?thesis
      using assms(10) shows_digest_view [of sv "rm_key rm" s' s]
      by (simp add: same_view_def versions_ok_def map_filter_messages room_last_state_def states_of_def shows_state_def
          cong: option.case_cong)
  next
    assume "\<exists>loaded counts. load_normalized_bookings sv (rg_property reg) s = (Inr loaded, s)
          \<and> view_outcome sv loaded now c (ss_flushed s) i rm s s' counts"
    then obtain loaded counts where v: "view_outcome sv loaded now c (ss_flushed s) i rm s s' counts" by blast
    show ?thesis using versions_step [OF v _ assms(10,11)] assms(8) by (simp add: clean_def)
  qed
qed

end
