(* ===== verification/System_State.thy ===== *)
theory System_State
  imports Recalculation
begin

text \<open>
  \<^verbatim>\<open>app/system/state.py\<close>: the diagnostics that the runtime publishes and the API shows, read
  from the database. Counts are taken by SQL over the rows that were flushed. Descending order
  puts NULL first, as PostgreSQL does.
\<close>

section \<open>Counting\<close>

definition count_rows :: "'r db_table \<Rightarrow> ('r \<Rightarrow> bool) \<Rightarrow> (session, int) eff" where
  "count_rows t P = bindE autoflush (\<lambda>_. gets (\<lambda>s. int (length (filter P (tb_get t (ss_flushed s))))))"

definition count_bookings :: "uuid \<Rightarrow> booking_status \<Rightarrow> (session, int) eff" where
  "count_bookings property_id status =
     count_rows bookings_t (\<lambda>b. bkr_property_id b = property_id \<and> bkr_booking_status b = booking_status_value status)"

definition count_arrivals :: "uuid \<Rightarrow> datetime \<Rightarrow> (session, int) eff" where
  "count_arrivals property_id now =
     count_rows bookings_t (\<lambda>b. bkr_property_id b = property_id \<and> bkr_arrival_date b = dt_date now)"

definition count_departures :: "uuid \<Rightarrow> datetime \<Rightarrow> (session, int) eff" where
  "count_departures property_id now =
     count_rows bookings_t (\<lambda>b. bkr_property_id b = property_id \<and> bkr_departure_date b = dt_date now)"

definition count_unassigned_arrivals :: "uuid \<Rightarrow> (session, int) eff" where
  "count_unassigned_arrivals property_id =
     bindE autoflush (\<lambda>_.
     gets (\<lambda>s. int (length (filter
       (\<lambda>b. bkr_property_id b = property_id \<and> bkr_booking_status b = booking_status_value BS_EXPECTED
          \<and> \<not> list_ex (\<lambda>a. asr_booking_id a = bkr_id b \<and> asr_is_current a) (db_assignments (ss_flushed s)))
       (db_bookings (ss_flushed s))))))"

definition count_outbox :: "outbox_status list \<Rightarrow> (session, int) eff" where
  "count_outbox statuses = count_rows outbox_t (\<lambda>e. oe_status e \<in> set statuses)"

section \<open>Rows\<close>

text \<open>The rows that rank first of their room.\<close>

definition latest_room_states :: "tzdb \<Rightarrow> (session, room_state_row list) eff" where
  "latest_room_states tz =
     scalars room_states_t (\<lambda>rows.
       filter (\<lambda>r. latest_by rsr_created_at rsr_id tz (filter (\<lambda>x. rsr_room_id x = rsr_room_id r) rows) = [r]) rows)"

text \<open>\<^verbatim>\<open>ORDER BY finished_at DESC, id DESC LIMIT 1\<close> on a nullable column.\<close>

definition last_finished :: "tzdb \<Rightarrow> sync_run_row list \<Rightarrow> sync_run_row list" where
  "last_finished tz rows =
     take 1 (rev (sort_key (\<lambda>r. (srr_finished_at r = None, (case srr_finished_at r of None \<Rightarrow> 0 | Some t \<Rightarrow> instant tz t),
                                 srr_id r)) rows))"

definition last_run :: "tzdb \<Rightarrow> uuid \<Rightarrow> (session, sync_run_row option) eff" where
  "last_run tz property_id =
     scalar_one_or_none sync_runs_t
       (\<lambda>rows. latest_by srr_started_at srr_id tz (filter (\<lambda>r. srr_property_id r = property_id) rows))"

definition last_success :: "tzdb \<Rightarrow> uuid \<Rightarrow> (session, sync_run_row option) eff" where
  "last_success tz property_id =
     scalar_one_or_none sync_runs_t
       (\<lambda>rows. last_finished tz (filter (\<lambda>r. srr_property_id r = property_id \<and> srr_status r = ''success'') rows))"

text \<open>\<^verbatim>\<open>int(delta.total_seconds())\<close>, which truncates.\<close>

fun f_trunc :: "pyfloat \<Rightarrow> int" where
  "f_trunc (Fin q) = (if q < 0 then - \<lfloor>- q\<rfloor> else \<lfloor>q\<rfloor>)"
| "f_trunc _ = 0"

definition whole_seconds :: "timedelta \<Rightarrow> int" where
  "whole_seconds td = f_trunc (total_seconds td)"

definition sync_duration_seconds :: "tzdb \<Rightarrow> sync_run_row option \<Rightarrow> int option" where
  "sync_duration_seconds tz run =
     Option.bind run (\<lambda>r. map_option (\<lambda>finished. whole_seconds (dt_diff tz finished (srr_started_at r))) (srr_finished_at r))"

section \<open>The state\<close>

definition system_status :: "bool \<Rightarrow> bool \<Rightarrow> bool \<Rightarrow> int \<Rightarrow> int \<Rightarrow> int \<Rightarrow> int \<Rightarrow> string" where
  "system_status mqtt_connected mqtt_required last_success_seen room_conflicts rooms_needing_attention
     pending_outbox dead_letter_outbox =
     (if dead_letter_outbox \<noteq> 0 then ''error''
      else if (mqtt_required \<and> \<not> mqtt_connected) \<or> \<not> last_success_seen then ''starting''
      else if pending_outbox \<noteq> 0 then ''degraded''
      else if room_conflicts \<noteq> 0 \<or> rooms_needing_attention \<noteq> 0 then ''attention''
      else ''online'')"

definition system_payload ::
  "tzdb \<Rightarrow> string \<Rightarrow> datetime option \<Rightarrow> datetime option \<Rightarrow> int option \<Rightarrow> int option \<Rightarrow> bool \<Rightarrow> (string \<times> int) list
   \<Rightarrow> datetime \<Rightarrow> payload" where
  "system_payload tz status attempt success duration lag mqtt_connected counts now =
     [(''schema_version'', JInt 1), (''status'', JStr status), (''version'', JStr ''0.1.0''),
      (''last_attempt_at'', json_opt (\<lambda>t. JStr (isoformat tz t)) attempt),
      (''last_success_at'', json_opt (\<lambda>t. JStr (isoformat tz t)) success),
      (''sync_duration_seconds'', json_opt JInt duration), (''lag_seconds'', json_opt JInt lag),
      (''mqtt_connected'', JBool mqtt_connected)]
     @ map (\<lambda>(k, n). (k, JInt n)) counts @ [(''updated_at'', JStr (isoformat tz now))]"

definition count_names :: "string list" where
  "count_names =
     [''rooms_loaded'', ''checked_in_rooms'', ''expected_rooms'', ''arrivals_today'', ''departures_today'',
      ''unassigned_arrivals'', ''room_conflicts'', ''active_manual_overrides'', ''rooms_needing_attention'',
      ''pending_outbox'', ''dead_letter_outbox'']"

definition empty_state :: "tzdb \<Rightarrow> datetime \<Rightarrow> bool \<Rightarrow> payload" where
  "empty_state tz now mqtt_connected =
     system_payload tz ''starting'' None None None None mqtt_connected (map (\<lambda>k. (k, 0)) count_names) now"

text \<open>How many of the latest states have a phase, or need attention.\<close>

definition count_phase :: "automation_phase \<Rightarrow> room_state_row list \<Rightarrow> int" where
  "count_phase ph states = int (length (filter (\<lambda>s. rsr_automation_phase s = automation_phase_value ph) states))"

definition build_system_state ::
  "tzdb \<Rightarrow> string \<Rightarrow> datetime \<Rightarrow> bool \<Rightarrow> bool \<Rightarrow> (session, payload) eff" where
  "build_system_state tz pkey now mqtt_connected mqtt_required =
     bindE (scalar_one_or_none properties_t (filter (\<lambda>r. ppr_key r = pkey))) (\<lambda>property_row.
     case property_row of
       None \<Rightarrow> ret (empty_state tz now mqtt_connected)
     | Some prop \<Rightarrow>
         bindE (last_run tz (ppr_id prop)) (\<lambda>run.
         bindE (last_success tz (ppr_id prop)) (\<lambda>success.
         bindE (latest_room_states tz) (\<lambda>latest_states.
         let hotel_now = astimezone tz now (Zone (ppr_timezone prop));
             room_conflicts = count_phase PH_CONFLICT latest_states;
             active_manual_overrides = count_phase PH_MANUAL_OVERRIDE latest_states;
             rooms_needing_attention = int (length (filter rsr_needs_attention latest_states)) in
         bindE (count_outbox [OB_PENDING, OB_RETRYING, OB_PUBLISHING]) (\<lambda>pending_outbox.
         bindE (count_outbox [OB_DEAD_LETTER]) (\<lambda>dead_letter_outbox.
         bindE (scalars rooms_t (filter (\<lambda>r. rmr_property_id r = ppr_id prop))) (\<lambda>rooms.
         bindE (count_bookings (ppr_id prop) BS_CHECKED_IN) (\<lambda>checked_in.
         bindE (count_bookings (ppr_id prop) BS_EXPECTED) (\<lambda>expected.
         bindE (count_arrivals (ppr_id prop) hotel_now) (\<lambda>arrivals.
         bindE (count_departures (ppr_id prop) hotel_now) (\<lambda>departures.
         bindE (count_unassigned_arrivals (ppr_id prop)) (\<lambda>unassigned.
         let finished = Option.bind success srr_finished_at in
         ret (system_payload tz
                (system_status mqtt_connected mqtt_required (success \<noteq> None) room_conflicts
                   rooms_needing_attention pending_outbox dead_letter_outbox)
                (map_option srr_started_at run) finished (sync_duration_seconds tz success)
                (map_option (\<lambda>t. whole_seconds (dt_diff tz now t)) finished) mqtt_connected
                (zip count_names
                   [int (length rooms), checked_in, expected, arrivals, departures, unassigned, room_conflicts,
                    active_manual_overrides, rooms_needing_attention, pending_outbox, dead_letter_outbox])
                now)))))))))))))"

end
