(* ===== verification/Mqtt_Discovery.thy ===== *)
theory Mqtt_Discovery
  imports Mqtt_Topics Domain_Models
begin

text \<open>
  \<^verbatim>\<open>app/mqtt/discovery.py\<close>: the discovery documents of Home Assistant for the rooms, the
  entrances and the service itself, in the order the generators yield them.
\<close>

section \<open>Texts\<close>

definition replace_char :: "char \<Rightarrow> char \<Rightarrow> string \<Rightarrow> string" where
  "replace_char a b s = map (\<lambda>c. if c = a then b else c) s"

definition is_lower :: "char \<Rightarrow> bool" where
  "is_lower c = (97 \<le> (of_char c :: nat) \<and> (of_char c :: nat) \<le> 122)"

definition is_upper :: "char \<Rightarrow> bool" where
  "is_upper c = (65 \<le> (of_char c :: nat) \<and> (of_char c :: nat) \<le> 90)"

definition upper_char :: "char \<Rightarrow> char" where
  "upper_char c = (if is_lower c then char_of (of_char c - 32 :: nat) else c)"

definition lower_char :: "char \<Rightarrow> char" where
  "lower_char c = (if is_upper c then char_of (of_char c + 32 :: nat) else c)"

text \<open>\<^verbatim>\<open>str.title\<close> on ASCII: the first letter of each run of letters in upper case.\<close>

fun title_after :: "bool \<Rightarrow> string \<Rightarrow> string" where
  "title_after letter [] = []"
| "title_after letter (c # cs) =
     (if letter then lower_char c else upper_char c) # title_after (is_lower c \<or> is_upper c) cs"

definition suffix_title :: "string \<Rightarrow> string" where
  "suffix_title suffix = title_after False (replace_char CHR ''_'' CHR '' '' suffix)"

section \<open>Documents\<close>

definition discovery_topic :: "string \<Rightarrow> string \<Rightarrow> string" where
  "discovery_topic component object_id = ''homeassistant/'' @ component @ ''/'' @ object_id @ ''/config''"

definition availability_fields :: "string \<Rightarrow> payload" where
  "availability_fields topic =
     [(''availability_topic'', JStr topic), (''payload_available'', JStr ''online''),
      (''payload_not_available'', JStr ''offline'')]"

definition object_fields :: "string \<Rightarrow> string \<Rightarrow> payload" where
  "object_fields nm object_id =
     [(''name'', JStr nm), (''object_id'', JStr object_id), (''unique_id'', JStr (''clock_'' @ object_id))]"

definition state_fields :: "string \<Rightarrow> string \<Rightarrow> payload" where
  "state_fields topic template = [(''state_topic'', JStr topic), (''value_template'', JStr template)]"

definition sensor_config ::
  "string \<Rightarrow> string \<Rightarrow> string \<Rightarrow> string \<Rightarrow> payload \<Rightarrow> payload \<Rightarrow> string \<times> payload" where
  "sensor_config object_id nm topic template device availability =
     (discovery_topic ''sensor'' object_id,
      object_fields nm object_id @ state_fields topic template @ [(''device'', JDict device)] @ availability)"

definition binary_sensor_config ::
  "string \<Rightarrow> string \<Rightarrow> string \<Rightarrow> string \<Rightarrow> payload \<Rightarrow> payload \<Rightarrow> string \<times> payload" where
  "binary_sensor_config object_id suffix topic template device availability =
     (discovery_topic ''binary_sensor'' object_id,
      object_fields (suffix_title suffix) object_id @ state_fields topic template
      @ [(''payload_on'', JStr ''True''), (''payload_off'', JStr ''False''), (''device'', JDict device)] @ availability)"

section \<open>Rooms\<close>

definition room_device :: "room \<Rightarrow> payload" where
  "room_device r =
     [(''identifiers'', JList [JStr (''clock_room_'' @ rm_key r)]), (''name'', JStr (rm_name r)),
      (''manufacturer'', JStr ''Clock PMS+ / Home Assistant Orchestrator''),
      (''model'', JStr ''Hotel Room Automation Intent'')]"

definition room_sensors :: "mqtt_topics \<Rightarrow> string \<Rightarrow> (string \<times> string \<times> string \<times> string) list" where
  "room_sensors t k =
     (let state = room_pms_state t k; intent = room_intent_state_topic t k;
          reported = room_reported_state t k ''g301''; outcome = room_intent_result t k ''g301'' in
      [(''pms_status'', ''PMS Status'', state, ''{{ value_json.booking_status }}''),
       (''automation_phase'', ''Automation Phase'', state, ''{{ value_json.automation_phase }}''),
       (''arrival'', ''Arrival'', state, ''{{ value_json.arrival }}''),
       (''departure'', ''Departure'', state, ''{{ value_json.departure }}''),
       (''desired_hvac_mode'', ''Desired HVAC Mode'', intent, ''{{ value_json.hvac.mode }}''),
       (''desired_temperature'', ''Desired Temperature'', intent, ''{{ value_json.hvac.target_temperature_c }}''),
       (''desired_water_heater'', ''Desired Water Heater'', intent, ''{{ value_json.water_heater.enabled }}''),
       (''reported_hvac_mode'', ''Reported HVAC Mode'', reported, ''{{ value_json.hvac.mode }}''),
       (''reported_temperature'', ''Reported Temperature'', reported, ''{{ value_json.ambient_temperature_c }}''),
       (''reported_faults'', ''Reported Faults'', reported, ''{{ value_json.faults | count }}''),
       (''reported_at'', ''Reported At'', reported, ''{{ value_json.reported_at }}''),
       (''last_intent_result'', ''Last Intent Result'', outcome, ''{{ value_json.status }}'')])"

definition room_binary_sensors :: "(string \<times> string) list" where
  "room_binary_sensors =
     [(''reservation_active'', ''{{ value_json.booking_status in ['' @ [CHR 0x27] @ ''expected'' @ [CHR 0x27] @ '', ''
                                @ [CHR 0x27] @ ''checked_in'' @ [CHR 0x27] @ ''] }}''),
      (''needs_attention'', ''{{ value_json.needs_attention }}''),
      (''reported_online'', ''{{ value_json.online }}'')]"

text \<open>The controls: component, suffix, name, fields before and after the command topic.\<close>

definition control_config ::
  "string \<Rightarrow> string \<Rightarrow> string \<Rightarrow> payload \<Rightarrow> string \<Rightarrow> payload \<Rightarrow> payload \<Rightarrow> payload \<Rightarrow> string \<times> payload" where
  "control_config component object_id nm state command extra device availability =
     (discovery_topic component object_id,
      object_fields nm object_id @ state @ [(''command_topic'', JStr command)] @ extra
      @ [(''device'', JDict device)] @ availability)"

definition texts :: "string list \<Rightarrow> json" where
  "texts xs = JList (map JStr xs)"

definition room_controls :: "mqtt_topics \<Rightarrow> string \<Rightarrow> (string \<times> string \<times> string \<times> payload \<times> string \<times> payload) list" where
  "room_controls t k =
     (let state = state_fields (room_control_state t k) in
      [(''select'', ''control_mode'', ''Control Mode'', state ''{{ value_json.control_mode }}'',
        room_control_mode_set t k, [(''options'', texts [''automatic'', ''manual'', ''off''])]),
       (''select'', ''manual_hvac_mode'', ''Manual HVAC Mode'', state ''{{ value_json.manual_hvac_mode }}'',
        room_control_hvac_mode_set t k, [(''options'', texts [''off'', ''heat'', ''cool'', ''auto''])]),
       (''number'', ''manual_temperature'', ''Manual Temperature'',
        state ''{{ value_json.manual_target_temperature_c }}'', room_control_temperature_set t k,
        [(''min'', JInt 16), (''max'', JInt 28), (''step'', JFloat (Fin (1 / 2))),
         (''unit_of_measurement'', JStr [CHR 0xB0, CHR ''C''])]),
       (''select'', ''override_duration'', ''Override Duration'', state ''{{ value_json.override_duration }}'',
        room_control_duration_set t k, [(''options'', texts [''60'', ''240'', ''720'', ''until_checkout''])]),
       (''switch'', ''manual_water_heater'', ''Manual Water Heater'',
        state (''{{ '' @ [CHR 0x27] @ ''on'' @ [CHR 0x27] @ '' if value_json.manual_water_heater_enabled else ''
               @ [CHR 0x27] @ ''off'' @ [CHR 0x27] @ '' }}''),
        room_control_water_heater_set t k, [(''payload_on'', JStr ''on''), (''payload_off'', JStr ''off'')]),
       (''button'', ''return_to_automatic'', ''Return To Automatic'', [],
        room_control_return_to_automatic_set t k, [(''payload_press'', JStr ''return'')])])"

definition room_discovery_configs :: "room \<Rightarrow> mqtt_topics \<Rightarrow> (string \<times> payload) list" where
  "room_discovery_configs r t =
     (let k = rm_key r; device = room_device r; base = ''room_'' @ k;
          availability = availability_fields (availability_topic t) in
      map (\<lambda>(suffix, nm, topic, template).
             sensor_config (base @ ''_'' @ suffix) nm topic template device availability) (room_sensors t k)
      @ map (\<lambda>(suffix, template).
             binary_sensor_config (base @ ''_'' @ suffix) suffix
               (if suffix = ''reported_online'' then room_reported_state t k ''g301'' else room_pms_state t k)
               template device availability) room_binary_sensors
      @ map (\<lambda>(component, suffix, nm, state, command, extra).
             control_config component (base @ ''_'' @ suffix) nm state command extra device availability)
          (room_controls t k))"

section \<open>Entrances\<close>

definition entrance_sensors :: "(string \<times> string \<times> string) list" where
  "entrance_sensors =
     [(''adapter_status'', ''Adapter Status'', ''{{ value_json.status }}''),
      (''last_poll'', ''Last Poll'', ''{{ value_json.last_poll_at }}''),
      (''last_successful_poll'', ''Last Successful Poll'', ''{{ value_json.last_successful_poll_at }}''),
      (''room_mismatches'', ''Room Mismatches'', ''{{ value_json.room_mismatches }}''),
      (''gateway_latency'', ''Gateway Latency'', ''{{ value_json.gateway_latency_ms }}''),
      (''consecutive_failures'', ''Consecutive Failures'', ''{{ value_json.consecutive_failures }}''),
      (''online_slaves'', ''Online Slaves'', ''{{ value_json.online_slaves }}''),
      (''offline_slaves'', ''Offline Slaves'', ''{{ value_json.offline_slaves }}''),
      (''scan_duration'', ''Scan Duration'', ''{{ value_json.scan_duration_ms }}''),
      (''command_queue_depth'', ''Command Queue Depth'', ''{{ value_json.command_queue_depth }}'')]"

definition entrance_binary_sensors :: "(string \<times> string) list" where
  "entrance_binary_sensors =
     [(''adapter_online'', ''{{ value_json.adapter_online }}''),
      (''gateway_online'', ''{{ value_json.gateway_online }}'')]"

definition entrance_configs :: "entrance \<Rightarrow> mqtt_topics \<Rightarrow> (string \<times> payload) list" where
  "entrance_configs e t =
     (let object_prefix = ''entrance_'' @ replace_char CHR ''-'' CHR ''_'' (en_key e);
          state_topic = entrance_adapter_state t (en_key e);
          device = [(''identifiers'', JList [JStr (''clock_entrance_'' @ en_key e)]), (''name'', JStr (en_name e)),
                    (''manufacturer'', JStr ''Clock HA Orchestrator''), (''model'', JStr ''G301 Entrance Adapter'')];
          availability = availability_fields (entrance_adapter_availability t (en_key e)) in
      map (\<lambda>(suffix, nm, template).
             (case sensor_config (object_prefix @ ''_'' @ suffix) nm state_topic template device availability of
                (topic, config) \<Rightarrow>
                  (topic, config @ (if suffix \<in> {''gateway_latency'', ''scan_duration''}
                                    then [(''unit_of_measurement'', JStr ''ms'')] else [])))) entrance_sensors
      @ map (\<lambda>(suffix, template).
             binary_sensor_config (object_prefix @ ''_'' @ suffix) suffix state_topic template device availability)
          entrance_binary_sensors)"

definition entrance_discovery_configs :: "entrance list \<Rightarrow> mqtt_topics \<Rightarrow> (string \<times> payload) list" where
  "entrance_discovery_configs entrances t = concat (map (\<lambda>e. entrance_configs e t) entrances)"

section \<open>The service\<close>

definition system_sensors :: "(string \<times> string \<times> string) list" where
  "system_sensors =
     [(''clock_orchestrator_status'', ''Orchestrator Status'', ''{{ value_json.status }}''),
      (''clock_last_successful_sync'', ''Last Successful Sync'', ''{{ value_json.last_success_at }}''),
      (''clock_sync_lag'', ''Clock Sync Lag'', ''{{ value_json.lag_seconds }}''),
      (''hotel_checked_in_rooms'', ''Checked In Rooms'', ''{{ value_json.checked_in_rooms }}''),
      (''hotel_expected_rooms'', ''Expected Rooms'', ''{{ value_json.expected_rooms }}''),
      (''hotel_arrivals_today'', ''Arrivals Today'', ''{{ value_json.arrivals_today }}''),
      (''hotel_departures_today'', ''Departures Today'', ''{{ value_json.departures_today }}''),
      (''hotel_unassigned_arrivals'', ''Unassigned Arrivals'', ''{{ value_json.unassigned_arrivals }}''),
      (''hotel_room_conflicts'', ''Room Conflicts'', ''{{ value_json.room_conflicts }}''),
      (''hotel_active_manual_overrides'', ''Active Manual Overrides'', ''{{ value_json.active_manual_overrides }}''),
      (''hotel_rooms_needing_attention'', ''Rooms Needing Attention'', ''{{ value_json.rooms_needing_attention }}''),
      (''clock_pending_outbox'', ''Pending Outbox'', ''{{ value_json.pending_outbox }}''),
      (''clock_dead_letter_outbox'', ''Dead Letter Outbox'', ''{{ value_json.dead_letter_outbox }}'')]"

definition system_binary_sensors ::
  "mqtt_topics \<Rightarrow> (string \<times> string \<times> string \<times> string option \<times> string \<times> string) list" where
  "system_binary_sensors t =
     [(''clock_ha_orchestrator_online'', ''Clock HA Orchestrator Online'', availability_topic t, None,
       ''online'', ''offline''),
      (''clock_runtime_ready'', ''Clock Runtime Ready'', system_state_topic t,
       Some ''{{ value_json.runtime_ready }}'', ''True'', ''False''),
      (''clock_mqtt_connected'', ''Clock MQTT Connected'', system_state_topic t,
       Some ''{{ value_json.mqtt_connected }}'', ''True'', ''False''),
      (''clock_policy_scheduler_enabled'', ''Policy Scheduler Enabled'', system_state_topic t,
       Some ''{{ value_json.policy_scheduler_enabled }}'', ''True'', ''False''),
      (''clock_outbox_worker_enabled'', ''Outbox Worker Enabled'', system_state_topic t,
       Some ''{{ value_json.outbox_worker_enabled }}'', ''True'', ''False'')]"

definition system_binary_sensor_config ::
  "mqtt_topics \<Rightarrow> payload \<Rightarrow> string \<times> string \<times> string \<times> string option \<times> string \<times> string
   \<Rightarrow> string \<times> payload" where
  "system_binary_sensor_config t device entry =
     (case entry of (object_id, nm, state_topic, template, payload_on, payload_off) \<Rightarrow>
       (discovery_topic ''binary_sensor'' object_id,
        [(''name'', JStr nm), (''object_id'', JStr object_id), (''unique_id'', JStr object_id),
         (''state_topic'', JStr state_topic), (''payload_on'', JStr payload_on),
         (''payload_off'', JStr payload_off), (''device'', JDict device)]
        @ (case template of
             None \<Rightarrow> []
           | Some tm \<Rightarrow> (''value_template'', JStr tm) # availability_fields (availability_topic t))))"

definition system_discovery_configs :: "mqtt_topics \<Rightarrow> (string \<times> payload) list" where
  "system_discovery_configs t =
     (let device = [(''identifiers'', JList [JStr ''clock_ha_orchestrator'']),
                    (''name'', JStr ''Clock HA Orchestrator''),
                    (''manufacturer'', JStr ''Clock PMS+ / Home Assistant Orchestrator'')] in
      map (system_binary_sensor_config t device) (system_binary_sensors t)
      @ map (\<lambda>(object_id, nm, template).
             sensor_config object_id nm (system_state_topic t) template device
               (availability_fields (availability_topic t))) system_sensors)"

text \<open>The documents \<^verbatim>\<open>AppRuntime.publish_discovery\<close> publishes, in its order.\<close>

definition discovery_documents :: "room_registry \<Rightarrow> mqtt_topics \<Rightarrow> (string \<times> payload) list" where
  "discovery_documents reg t =
     system_discovery_configs t @ entrance_discovery_configs (rr_entrances reg) t
     @ concat (map (\<lambda>r. room_discovery_configs r t) (rr_rooms reg))"

section \<open>The topics of the documents\<close>

text \<open>A topic is its component and object id; neither the components nor the ids hide in one another.\<close>

lemma discovery_topic_eq:
  assumes "CHR ''/'' \<notin> set c" and "CHR ''/'' \<notin> set c'"
  shows "discovery_topic c i = discovery_topic c' i' \<longleftrightarrow> c = c' \<and> i = i'"
proof
  assume "discovery_topic c i = discovery_topic c' i'"
  then have e: "c @ CHR ''/'' # i @ ''/config'' = c' @ CHR ''/'' # i' @ ''/config''"
    by (simp add: discovery_topic_def)
  have "takeWhile ((\<noteq>) CHR ''/'') (c @ CHR ''/'' # i @ ''/config'') = c"
    using assms(1) by (induction c) auto
  moreover have "takeWhile ((\<noteq>) CHR ''/'') (c' @ CHR ''/'' # i' @ ''/config'') = c'"
    using assms(2) by (induction c') auto
  ultimately have "c = c'" by (simp add: e)
  with e show "c = c' \<and> i = i'" by simp
qed simp

text \<open>The topics of one room, as pairs of a component and a suffix.\<close>

definition room_entities :: "(string \<times> string) list" where
  "room_entities =
     map (\<lambda>s. (''sensor'', s))
       [''_pms_status'', ''_automation_phase'', ''_arrival'', ''_departure'', ''_desired_hvac_mode'',
        ''_desired_temperature'', ''_desired_water_heater'', ''_reported_hvac_mode'',
        ''_reported_temperature'', ''_reported_faults'', ''_reported_at'', ''_last_intent_result'']
     @ map (\<lambda>s. (''binary_sensor'', s)) [''_reservation_active'', ''_needs_attention'', ''_reported_online'']
     @ [(''select'', ''_control_mode''), (''select'', ''_manual_hvac_mode''), (''number'', ''_manual_temperature''),
        (''select'', ''_override_duration''), (''switch'', ''_manual_water_heater''),
        (''button'', ''_return_to_automatic'')]"

definition entrance_entities :: "(string \<times> string) list" where
  "entrance_entities =
     map (\<lambda>s. (''sensor'', s))
       [''_adapter_status'', ''_last_poll'', ''_last_successful_poll'', ''_room_mismatches'',
        ''_gateway_latency'', ''_consecutive_failures'', ''_online_slaves'', ''_offline_slaves'',
        ''_scan_duration'', ''_command_queue_depth'']
     @ map (\<lambda>s. (''binary_sensor'', s)) [''_adapter_online'', ''_gateway_online'']"

definition entity_topic :: "string \<Rightarrow> string \<Rightarrow> string \<times> string \<Rightarrow> string" where
  "entity_topic base key entity = discovery_topic (fst entity) (base @ key @ snd entity)"

lemma room_topics_of:
  "map fst (room_discovery_configs r t) = map (entity_topic ''room_'' (rm_key r)) room_entities"
  by (simp add: room_discovery_configs_def Let_def room_sensors_def room_binary_sensors_def room_controls_def
      room_entities_def entity_topic_def sensor_config_def binary_sensor_config_def control_config_def)

lemma entrance_topics_of:
  "map fst (entrance_configs e t)
     = map (entity_topic ''entrance_'' (replace_char CHR ''-'' CHR ''_'' (en_key e))) entrance_entities"
  by (simp add: entrance_configs_def Let_def entrance_sensors_def entrance_binary_sensors_def
      entrance_entities_def entity_topic_def sensor_config_def binary_sensor_config_def)

lemma entity_topics_clash:
  "list_all (\<lambda>e. CHR ''/'' \<notin> set (fst e) \<and> list_all (\<lambda>e'. e = e' \<or> clash (snd e) (snd e')) room_entities) room_entities"
  "list_all (\<lambda>e. CHR ''/'' \<notin> set (fst e) \<and> list_all (\<lambda>e'. e = e' \<or> clash (snd e) (snd e')) entrance_entities) entrance_entities"
  by code_simp+

lemma entity_topic_eq:
  assumes "list_all (\<lambda>e. CHR ''/'' \<notin> set (fst e) \<and> list_all (\<lambda>e'. e = e' \<or> clash (snd e) (snd e')) es) es"
    and "e \<in> set es" and "e' \<in> set es"
  shows "entity_topic base k e = entity_topic base k' e' \<longleftrightarrow> k = k' \<and> e = e'"
proof
  assume eq: "entity_topic base k e = entity_topic base k' e'"
  have "CHR ''/'' \<notin> set (fst e)" "CHR ''/'' \<notin> set (fst e')" and clash: "e = e' \<or> clash (snd e) (snd e')"
    using assms by (auto simp: list_all_iff)
  with eq have "k @ snd e = k' @ snd e'" by (simp add: entity_topic_def discovery_topic_eq)
  with clash_append [of "snd e" "snd e'" k k'] clash have "e = e'" by blast
  with \<open>k @ snd e = k' @ snd e'\<close> show "k = k' \<and> e = e'" by simp
qed simp

lemma distinct_concat_map:
  assumes inj: "\<And>k k' e e'. e \<in> set es \<Longrightarrow> e' \<in> set es \<Longrightarrow> g k e = g k' e' \<longleftrightarrow> k = k' \<and> e = e'"
    and "distinct es" and "es \<noteq> []"
  shows "distinct (concat (map (\<lambda>k. map (g k) es) ks)) \<longleftrightarrow> distinct ks"
proof (induction ks)
  case (Cons k ks)
  have "inj_on (g k) (set es)" using inj by (auto simp: inj_on_def)
  moreover have "g k ` set es \<inter> (\<Union>k'\<in>set ks. g k' ` set es) = {} \<longleftrightarrow> k \<notin> set ks"
  proof -
    obtain e where "e \<in> set es" using assms(3) by (meson hd_in_set)
    then show ?thesis using inj by (auto 4 4)
  qed
  ultimately show ?case using Cons assms(2) by (auto simp: distinct_map)
qed simp

lemma entity_lists: "distinct room_entities" "distinct entrance_entities" "room_entities \<noteq> []" "entrance_entities \<noteq> []"
  by code_simp+

text \<open>The topics of a registry: of the service, its entrances and its rooms.\<close>

definition system_entities :: "(string \<times> string) list" where
  "system_entities =
     map (\<lambda>s. (''binary_sensor'', s))
       [''clock_ha_orchestrator_online'', ''clock_runtime_ready'', ''clock_mqtt_connected'',
        ''clock_policy_scheduler_enabled'', ''clock_outbox_worker_enabled'']
     @ map (\<lambda>s. (''sensor'', s))
       [''clock_orchestrator_status'', ''clock_last_successful_sync'', ''clock_sync_lag'',
        ''hotel_checked_in_rooms'', ''hotel_expected_rooms'', ''hotel_arrivals_today'',
        ''hotel_departures_today'', ''hotel_unassigned_arrivals'', ''hotel_room_conflicts'',
        ''hotel_active_manual_overrides'', ''hotel_rooms_needing_attention'', ''clock_pending_outbox'',
        ''clock_dead_letter_outbox'']"

lemma system_topics_of:
  "map fst (system_discovery_configs t) = map (\<lambda>(c, i). discovery_topic c i) system_entities"
  by (simp add: system_discovery_configs_def Let_def system_sensors_def system_binary_sensors_def
      system_entities_def system_binary_sensor_config_def sensor_config_def)

definition entrance_id :: "entrance \<Rightarrow> string" where
  "entrance_id e = replace_char CHR ''-'' CHR ''_'' (en_key e)"

lemma discovery_topics:
  "map fst (discovery_documents reg t)
     = map (\<lambda>(c, i). discovery_topic c i) system_entities
       @ concat (map (\<lambda>k. map (entity_topic ''entrance_'' k) entrance_entities) (map entrance_id (rr_entrances reg)))
       @ concat (map (\<lambda>k. map (entity_topic ''room_'' k) room_entities) (map rm_key (rr_rooms reg)))"
  by (simp add: discovery_documents_def entrance_discovery_configs_def map_concat comp_def system_topics_of
      entrance_topics_of room_topics_of entrance_id_def)

lemma entity_components:
  "e \<in> set room_entities \<Longrightarrow> CHR ''/'' \<notin> set (fst e)"
  "e \<in> set entrance_entities \<Longrightarrow> CHR ''/'' \<notin> set (fst e)"
  "e \<in> set system_entities \<Longrightarrow> CHR ''/'' \<notin> set (fst e) \<and> hd (snd e) \<in> set ''ch''"
  by (auto simp: room_entities_def entrance_entities_def system_entities_def)

lemma entity_apart:
  "e \<in> set room_entities \<Longrightarrow> e' \<in> set entrance_entities
     \<Longrightarrow> entity_topic ''entrance_'' k' e' \<noteq> entity_topic ''room_'' k e"
  "e \<in> set room_entities \<Longrightarrow> s \<in> set system_entities
     \<Longrightarrow> discovery_topic (fst s) (snd s) \<noteq> entity_topic ''room_'' k e"
  "e' \<in> set entrance_entities \<Longrightarrow> s \<in> set system_entities
     \<Longrightarrow> discovery_topic (fst s) (snd s) \<noteq> entity_topic ''entrance_'' k' e'"
  using entity_components(1) [of e] entity_components(2) [of e'] entity_components(3) [of s]
  by (auto simp: entity_topic_def discovery_topic_eq)

lemma system_topics_distinct: "distinct (map (\<lambda>(c, i). discovery_topic c i) system_entities)"
  by (simp add: system_entities_def discovery_topic_eq)

lemma topic_lists_apart:
  "set (concat (map (\<lambda>k. map (entity_topic ''entrance_'' k) entrance_entities) ks))
     \<inter> set (concat (map (\<lambda>k. map (entity_topic ''room_'' k) room_entities) ls)) = {}"
  "set (map (\<lambda>(c, i). discovery_topic c i) system_entities)
     \<inter> (set (concat (map (\<lambda>k. map (entity_topic ''entrance_'' k) entrance_entities) ks))
        \<union> set (concat (map (\<lambda>k. map (entity_topic ''room_'' k) room_entities) ls))) = {}"
proof -
  show "set (concat (map (\<lambda>k. map (entity_topic ''entrance_'' k) entrance_entities) ks))
     \<inter> set (concat (map (\<lambda>k. map (entity_topic ''room_'' k) room_entities) ls)) = {}"
    using entity_apart(1) unfolding set_concat set_map image_image
    by (intro equals0I, elim IntE UN_E imageE) metis
  show "set (map (\<lambda>(c, i). discovery_topic c i) system_entities)
     \<inter> (set (concat (map (\<lambda>k. map (entity_topic ''entrance_'' k) entrance_entities) ks))
        \<union> set (concat (map (\<lambda>k. map (entity_topic ''room_'' k) room_entities) ls))) = {}"
    using entity_apart(2,3) unfolding set_concat set_map image_image
    by (intro equals0I, elim IntE UnE UN_E imageE; simp only: case_prod_beta) metis+
qed

lemma registry_topics_distinct:
  "distinct (map fst (discovery_documents reg t))
     \<longleftrightarrow> distinct (map rm_key (rr_rooms reg)) \<and> distinct (map entrance_id (rr_entrances reg))"
proof -
  have "distinct (concat (map (\<lambda>k. map (entity_topic ''room_'' k) room_entities) ks)) \<longleftrightarrow> distinct ks" for ks
    by (rule distinct_concat_map) (simp_all add: entity_topic_eq [OF entity_topics_clash(1)] entity_lists)
  moreover have "distinct (concat (map (\<lambda>k. map (entity_topic ''entrance_'' k) entrance_entities) ks)) \<longleftrightarrow> distinct ks" for ks
    by (rule distinct_concat_map) (simp_all add: entity_topic_eq [OF entity_topics_clash(2)] entity_lists)
  ultimately show ?thesis
    unfolding discovery_topics distinct_append set_append topic_lists_apart
    by (simp only: system_topics_distinct simp_thms conj_commute)
qed
end
