(* ===== verification/Runtime.thy ===== *)
theory Runtime
  imports Clock_Clients Clock_Db_Sync System_State Mqtt_Discovery
begin

text \<open>
  \<^verbatim>\<open>app/runtime.py\<close>: the runtime that owns the health of the service and composes the clients, the
  database services and the outbox. A session is opened on the committed database; one whose
  service commits hands its database on, one that only reads is discarded. The world is the
  committed database, the counter of drawn ids, the state behind the clients and the clock, the
  random generator and the health. \<open>None\<close> is a run that never returns.
\<close>

section \<open>Health\<close>

record runtime_health =
  rh_database_connected :: bool
  rh_migration_current :: bool
  rh_mqtt_connected :: bool
  rh_workers_started :: bool
  rh_errors :: "string list"
  rh_worker_errors :: "(string \<times> string) list"
  rh_requires_mqtt :: bool

definition new_health :: "bool \<Rightarrow> runtime_health" where
  "new_health requires_mqtt =
     \<lparr>rh_database_connected = False, rh_migration_current = False, rh_mqtt_connected = False,
      rh_workers_started = False, rh_errors = [], rh_worker_errors = [], rh_requires_mqtt = requires_mqtt\<rparr>"

definition ready :: "runtime_health \<Rightarrow> bool" where
  "ready h =
     (rh_database_connected h \<and> rh_migration_current h \<and> (rh_mqtt_connected h \<or> \<not> rh_requires_mqtt h)
      \<and> rh_errors h = [] \<and> rh_worker_errors h = [])"

section \<open>The runtime and its world\<close>

text \<open>
  \<open>ar_clock\<close> is what \<^verbatim>\<open>_build_clock_client\<close> returned, a client and the field mapping, and \<open>ar_mqtt\<close>
  the MQTT client when the settings enable it.
\<close>

record ('c, 'r) app_runtime =
  ar_settings :: settings
  ar_service :: db_service
  ar_clock :: "('c list_bookings \<times> clock_field_mapping) option"
  ar_mqtt :: "'c mqtt_client option"
  ar_now :: "'c \<Rightarrow> datetime \<times> 'c"
  ar_uniform :: "rat \<Rightarrow> 'r \<Rightarrow> rat \<times> 'r"

record ('c, 'r) runtime_world =
  rw_db :: database
  rw_draws :: nat
  rw_io :: 'c
  rw_random :: 'r
  rw_health :: runtime_health

type_synonym ('c, 'r, 'a) rt = "(('c, 'r) runtime_world, 'a) eff"

definition with_session :: "(session, 'a) eff \<Rightarrow> ('c, 'r, 'a) rt" where
  "with_session m w =
     (case m (new_session (rw_db w) (rw_draws w)) of
        (r, s) \<Rightarrow> (r, w\<lparr>rw_db := ss_db s, rw_draws := ss_draws s\<rparr>))"

definition read_session :: "(session, 'a) eff \<Rightarrow> ('c, 'r, 'a) rt" where
  "read_session m w =
     (case m (new_session (rw_db w) (rw_draws w)) of (r, s) \<Rightarrow> (r, w\<lparr>rw_draws := ss_draws s\<rparr>))"

definition on_io :: "('c, 'a) eff \<Rightarrow> ('c, 'r, 'a) rt" where
  "on_io m w = (case m (rw_io w) of (r, c) \<Rightarrow> (r, w\<lparr>rw_io := c\<rparr>))"

definition utcnow :: "('c, 'r) app_runtime \<Rightarrow> ('c, 'r, datetime) rt" where
  "utcnow ar = on_io (\<lambda>c. case ar_now ar c of (t, c') \<Rightarrow> (Inr t, c'))"

definition uuid4 :: "('c, 'r) app_runtime \<Rightarrow> ('c, 'r, uuid) rt" where
  "uuid4 ar w = (Inr (dv_uuid4 (ar_service ar) (rw_draws w)), w\<lparr>rw_draws := rw_draws w + 1\<rparr>)"

definition connected :: "('c, 'r) app_runtime \<Rightarrow> ('c, 'r) runtime_world \<Rightarrow> bool" where
  "connected ar w = (case ar_mqtt ar of None \<Rightarrow> False | Some client \<Rightarrow> mq_connected client (rw_io w))"

definition refresh_health :: "('c, 'r) app_runtime \<Rightarrow> ('c, 'r, unit) rt" where
  "refresh_health ar = modify (\<lambda>w. w\<lparr>rw_health := (rw_health w)\<lparr>rh_mqtt_connected := connected ar w\<rparr>\<rparr>)"

section \<open>Publishing\<close>

definition publish_direct :: "('c, 'r) app_runtime \<Rightarrow> string \<Rightarrow> string \<Rightarrow> ('c, 'r, bool) rt" where
  "publish_direct ar topic text w =
     (case ar_mqtt ar of
        None \<Rightarrow> (Inr False, w)
      | Some client \<Rightarrow>
          (if \<not> mq_connected client (rw_io w) then (Inr False, w)
           else
             bindE (on_io (mq_publish client topic text 1 True)) (\<lambda>receipt.
             ret (case receipt of None \<Rightarrow> True | Some rt \<Rightarrow> rt_rc rt \<in> {Some 0, None})) w))"

text \<open>\<^verbatim>\<open>serialize_payload\<close> of a dict is its JSON text.\<close>

fun publish_all :: "('c, 'r) app_runtime \<Rightarrow> (string \<times> payload) list \<Rightarrow> ('c, 'r, unit) rt" where
  "publish_all ar [] = ret ()"
| "publish_all ar ((topic, payload) # rest) =
     bindE (case ar_mqtt ar of
              None \<Rightarrow> ret False
            | Some client \<Rightarrow> publish_direct ar topic (mq_dumps client payload)) (\<lambda>_.
     publish_all ar rest)"

definition publish_availability :: "('c, 'r) app_runtime \<Rightarrow> string \<Rightarrow> ('c, 'r, unit) rt" where
  "publish_availability ar status =
     bindE (publish_direct ar (availability_topic (dv_topics (ar_service ar))) status) (\<lambda>_. ret ())"

definition when_connected :: "('c, 'r) app_runtime \<Rightarrow> ('c, 'r, unit) rt \<Rightarrow> ('c, 'r, unit) rt" where
  "when_connected ar m w = (if connected ar w then m w else (Inr (), w))"

definition publish_discovery :: "('c, 'r) app_runtime \<Rightarrow> ('c, 'r, unit) rt" where
  "publish_discovery ar =
     when_connected ar
       (publish_all ar (discovery_documents (dv_registry (ar_service ar)) (dv_topics (ar_service ar))))"

text \<open>\<^verbatim>\<open>payload.update(...)\<close>\<close>

definition update_payload :: "payload \<Rightarrow> payload \<Rightarrow> payload" where
  "update_payload d new = fold (\<lambda>(k, v) d. AList.update k v d) new d"

definition system_state :: "('c, 'r) app_runtime \<Rightarrow> ('c, 'r, payload) rt" where
  "system_state ar =
     (let sv = ar_service ar; s = ar_settings ar in
      bindE (refresh_health ar) (\<lambda>_.
      bindE (utcnow ar) (\<lambda>now.
      bindE (gets (connected ar)) (\<lambda>mqtt_connected.
      bindE (read_session
               (build_system_state (dv_tz sv) (pr_key (rr_property (dv_registry sv))) now mqtt_connected
                  (se_mqtt_enabled s))) (\<lambda>payload.
      bindE (gets rw_health) (\<lambda>health.
      ret (update_payload payload
             [(''runtime_ready'', JBool (ready health)),
              (''clock_polling_enabled'', JBool (se_clock_polling_enabled s)),
              (''policy_scheduler_enabled'', JBool (se_policy_scheduler_enabled s)),
              (''outbox_worker_enabled'', JBool (se_outbox_worker_enabled s)),
              (''worker_errors'', JDict (map (\<lambda>(k, v). (k, JStr v)) (rh_worker_errors health)))])))))))"

definition publish_system_state :: "('c, 'r) app_runtime \<Rightarrow> ('c, 'r, unit) rt" where
  "publish_system_state ar =
     when_connected ar
       (bindE (refresh_health ar) (\<lambda>_.
        bindE (system_state ar) (\<lambda>payload.
        publish_all ar [(system_state_topic (dv_topics (ar_service ar)), payload)])))"

text \<open>The control states of the rooms, read in one session.\<close>

fun control_payloads :: "db_service \<Rightarrow> datetime \<Rightarrow> room list \<Rightarrow> (session, (string \<times> payload) list) eff" where
  "control_payloads sv now [] = ret []"
| "control_payloads sv now (rm # rms) =
     bindE (control_state_payload sv (rm_key rm) now) (\<lambda>p.
     bindE (control_payloads sv now rms) (\<lambda>ps.
     ret ((room_control_state (dv_topics sv) (rm_key rm), p) # ps)))"

definition publish_control_states :: "('c, 'r) app_runtime \<Rightarrow> ('c, 'r, unit) rt" where
  "publish_control_states ar =
     (let sv = ar_service ar in
      when_connected ar
        (bindE (utcnow ar) (\<lambda>now.
         bindE (read_session (control_payloads sv now (rr_rooms (dv_registry sv)))) (\<lambda>payloads.
         publish_all ar payloads))))"

definition publish_mqtt_reconnect_state :: "('c, 'r) app_runtime \<Rightarrow> ('c, 'r, unit) rt" where
  "publish_mqtt_reconnect_state ar =
     bindE (refresh_health ar) (\<lambda>_.
     bindE (publish_availability ar ''online'') (\<lambda>_.
     bindE (publish_control_states ar) (\<lambda>_.
     publish_system_state ar)))"

section \<open>The periodic work\<close>

definition clock_settings_of :: "settings \<Rightarrow> clock_settings" where
  "clock_settings_of s =
     \<lparr>cs_reconciliation_days_past = se_clock_reconciliation_days_past s,
      cs_reconciliation_days_future = se_clock_reconciliation_days_future s,
      cs_sync_overlap_seconds = se_clock_sync_overlap_seconds s\<rparr>"

definition sync_service ::
  "('c, 'r) app_runtime \<Rightarrow> 'c list_bookings \<Rightarrow> clock_field_mapping \<Rightarrow> 'c clock_sync_service" where
  "sync_service ar client mapping =
     \<lparr>sv_list_bookings = client, sv_settings = clock_settings_of (ar_settings ar),
      sv_property_id = pr_key (rr_property (dv_registry (ar_service ar))), sv_mapping = mapping,
      sv_text = dv_text (ar_service ar)\<rparr>"

definition persisted_payload :: "persisted_sync_result \<Rightarrow> payload" where
  "persisted_payload p =
     [(''success'', JBool (ps_success p)), (''processed_bookings'', JInt (int (ps_processed_bookings p))),
      (''affected_room_keys'', JList (map JStr (ps_affected_room_keys p))),
      (''room_states_created'', JInt (int (ps_room_states_created p))),
      (''outbox_events_created'', JInt (int (ps_outbox_events_created p))),
      (''audit_events_created'', JInt (int (ps_audit_events_created p)))]"

text \<open>The poll between the session that reads the cursor and the one that stores the result.\<close>

definition store_poll :: "('c, 'r) app_runtime \<Rightarrow> sync_run_result \<Rightarrow> ('c, 'r, payload) rt" where
  "store_poll ar result =
     bindE (uuid4 ar) (\<lambda>correlation.
     bindE (with_session (apply_sync_result (ar_service ar) result (Some correlation))) (\<lambda>persisted.
     bindE (publish_system_state ar) (\<lambda>_.
     ret (persisted_payload persisted))))"

definition given_now :: "('c, 'r) app_runtime \<Rightarrow> datetime option \<Rightarrow> ('c, 'r, datetime) rt" where
  "given_now ar now = (case now of None \<Rightarrow> utcnow ar | Some t \<Rightarrow> ret t)"

text \<open>
  The cursor is read, then the client is polled; the runtime awaits its answers, so the rounds of
  other workers can come before the result is stored. The poll carries the time it started at.
\<close>

definition poll_phase ::
  "('c, 'r) app_runtime \<Rightarrow> datetime option \<Rightarrow> ('c, 'r) runtime_world
   \<Rightarrow> (sync_run_result result \<times> ('c, 'r) runtime_world) option" where
  "poll_phase ar now0 w0 =
     (case ar_clock ar of
        None \<Rightarrow> Some (Inl (ClockMappingRequired ''Clock client is not configured for synchronization''), w0)
      | Some (client, mapping) \<Rightarrow>
          (case bindE (given_now ar now0)
                  (\<lambda>now. bindE (read_session (load_cursor_state (ar_service ar))) (\<lambda>cursor. ret (now, cursor))) w0 of
             (Inl e, w1) \<Rightarrow> Some (Inl e, w1)
           | (Inr (now, cursor), w1) \<Rightarrow>
               (case poll_once (sync_service ar client mapping) cursor now (rw_io w1) of
                  None \<Rightarrow> None
                | Some (result, c) \<Rightarrow> Some (Inr result, w1\<lparr>rw_io := c\<rparr>))))"

definition run_sync_once ::
  "('c, 'r) app_runtime \<Rightarrow> datetime option \<Rightarrow> ('c, 'r) runtime_world
   \<Rightarrow> (payload result \<times> ('c, 'r) runtime_world) option" where
  "run_sync_once ar now0 w0 =
     (case poll_phase ar now0 w0 of
        None \<Rightarrow> None
      | Some (Inl e, w1) \<Rightarrow> Some (Inl e, w1)
      | Some (Inr result, w1) \<Rightarrow> Some (store_poll ar result w1))"

definition run_policy_once :: "('c, 'r) app_runtime \<Rightarrow> datetime option \<Rightarrow> ('c, 'r, payload) rt" where
  "run_policy_once ar now0 =
     bindE (given_now ar now0) (\<lambda>now.
     bindE (uuid4 ar) (\<lambda>correlation.
     bindE (with_session (evaluate_all_rooms (ar_service ar) (Aware now) (Some correlation))) (\<lambda>result.
     bindE (publish_system_state ar) (\<lambda>_.
     ret [(''affected_room_keys'', JList (map JStr (ps_affected_room_keys result))),
          (''room_states_created'', JInt (int (ps_room_states_created result))),
          (''outbox_events_created'', JInt (int (ps_outbox_events_created result)))]))))"

definition outbox_settings_of :: "settings \<Rightarrow> outbox_settings" where
  "outbox_settings_of s =
     \<lparr>os_client_id = se_mqtt_client_id s, os_batch_size = se_outbox_batch_size s,
      os_max_attempts = se_outbox_max_attempts s,
      os_stale_publish_seconds = se_outbox_stale_publish_seconds s,
      os_publish_timeout_seconds = se_mqtt_publish_timeout_seconds s\<rparr>"

text \<open>The three transactions on the outbox table, within a world.\<close>

definition outbox_pass :: "('c, 'r) app_runtime \<Rightarrow> 'c mqtt_client \<Rightarrow> ('c, 'r, nat) rt" where
  "outbox_pass ar client w =
     (case Outbox.run_outbox_once (dv_tz (ar_service ar)) (ar_uniform ar) client (outbox_settings_of (ar_settings ar))
             \<lparr>ow_table = db_outbox (rw_db w), ow_client = rw_io w, ow_random = rw_random w\<rparr> of
        (n, ow) \<Rightarrow>
          (Inr n, w\<lparr>rw_db := (rw_db w)\<lparr>db_outbox := ow_table ow\<rparr>, rw_io := ow_client ow, rw_random := ow_random ow\<rparr>))"

definition run_outbox :: "('c, 'r) app_runtime \<Rightarrow> ('c, 'r, nat) rt" where
  "run_outbox ar w =
     (case ar_mqtt ar of
        None \<Rightarrow> (Inr 0, w)
      | Some client \<Rightarrow>
          bindE (refresh_health ar) (\<lambda>_ w1.
            if \<not> mq_connected client (snd (mq_now client (rw_io w1))) then outbox_pass ar client w1
            else bindE (outbox_pass ar client) (\<lambda>n. bindE (publish_system_state ar) (\<lambda>_. ret n)) w1) w)"

text \<open>One round of \<^verbatim>\<open>_periodic\<close>: an exception of the callback becomes the worker's error, a return removes it.\<close>

definition set_worker_error :: "string \<Rightarrow> string \<Rightarrow> ('c, 'r, unit) rt" where
  "set_worker_error nm e =
     modify (\<lambda>w. w\<lparr>rw_health := (rw_health w)\<lparr>rh_worker_errors := AList.update nm e (rh_worker_errors (rw_health w))\<rparr>\<rparr>)"

definition pop_worker_error :: "string \<Rightarrow> ('c, 'r, unit) rt" where
  "pop_worker_error nm =
     modify (\<lambda>w. w\<lparr>rw_health := (rw_health w)\<lparr>rh_worker_errors := AList.delete nm (rh_worker_errors (rw_health w))\<rparr>\<rparr>)"

definition record_outcome :: "string \<Rightarrow> 'a result \<Rightarrow> ('c, 'r, unit) rt" where
  "record_outcome nm outcome =
     (case outcome of Inr _ \<Rightarrow> pop_worker_error nm | Inl e \<Rightarrow> set_worker_error nm (exc_class_name e))"

definition periodic_round :: "string \<Rightarrow> ('c, 'r, 'a) rt \<Rightarrow> ('c, 'r, unit) rt" where
  "periodic_round nm callback = bindE (attemptE callback) (record_outcome nm)"

section \<open>Commands of Home Assistant\<close>

definition room_subscriptions :: "mqtt_topics \<Rightarrow> string \<Rightarrow> (string \<times> string) list" where
  "room_subscriptions t k =
     fold (\<lambda>(topic, field). AList.update topic field)
       [(room_control_mode_set t k, ''mode''), (room_control_hvac_mode_set t k, ''hvac-mode''),
        (room_control_temperature_set t k, ''temperature''), (room_control_duration_set t k, ''duration''),
        (room_control_water_heater_set t k, ''water-heater''),
        (room_control_return_to_automatic_set t k, ''return-to-automatic'')] []"

text \<open>The calls of \<^verbatim>\<open>subscribe\<close>, each with the room and the field its handler is made for.\<close>

definition control_subscriptions :: "room_registry \<Rightarrow> mqtt_topics \<Rightarrow> (string \<times> string \<times> string) list" where
  "control_subscriptions reg t =
     concat (map (\<lambda>rm. map (\<lambda>(topic, field). (topic, rm_key rm, field)) (room_subscriptions t (rm_key rm)))
               (rr_rooms reg))"

definition control_commands :: "('c, 'r) app_runtime \<Rightarrow> string \<Rightarrow> string \<Rightarrow> string \<Rightarrow> ('c, 'r, unit) rt" where
  "control_commands ar rkey field payload =
     (let sv = ar_service ar in
      bindE (utcnow ar) (\<lambda>now.
      bindE (uuid4 ar) (\<lambda>correlation.
      bindE (attemptE
        (bindE (with_session (transaction (apply_mqtt_command sv rkey field payload (Aware now) (Some correlation)))) (\<lambda>result.
         case (cr_accepted result, cr_room_key result) of
           (True, Some k) \<Rightarrow>
             bindE (with_session (evaluate_room_keys sv [k] (Aware now) (Some (cr_correlation_id result)))) (\<lambda>_. ret ())
         | _ \<Rightarrow> ret ())))
        (record_outcome ''mqtt-command''))))"

definition handle_control_message :: "('c, 'r) app_runtime \<Rightarrow> string \<Rightarrow> string \<Rightarrow> string \<Rightarrow> ('c, 'r, unit) rt" where
  "handle_control_message ar rkey field payload =
     bindE (control_commands ar rkey field payload) (\<lambda>_. publish_system_state ar)"

section \<open>Start and stop\<close>

text \<open>
  What starting uses of the environment: a query on the engine, the migration revisions, the
  field mapping's file, the file system and the HTTP client of the Clock clients, and the
  connection and subscriptions of the MQTT client.
\<close>

record 'c environment =
  ev_select_one :: "('c, unit) eff"
  ev_current_revision :: "string option"
  ev_expected_head :: "string option"
  ev_load_mapping :: "string \<Rightarrow> clock_field_mapping result"
  ev_fixture_load :: "string \<Rightarrow> ('c, json) eff"
  ev_rest :: "'c rest_client"
  ev_connect :: "('c, unit) eff"
  ev_subscribe :: "string \<Rightarrow> ('c, unit) eff"
  ev_disconnect :: "('c, unit) eff"

text \<open>The live client is built without a contract.\<close>

definition build_clock_client ::
  "'c environment \<Rightarrow> settings \<Rightarrow> ('c list_bookings \<times> clock_field_mapping) option result" where
  "build_clock_client ev s =
     (if se_clock_client_mode s = CLOCK_DISABLED then Inr None
      else
        bind_result (ev_load_mapping ev (se_clock_field_mapping_path s)) (\<lambda>mapping.
        if se_clock_client_mode s = CLOCK_FIXTURE then
          (case se_clock_fixture_bookings_path s of
             None \<Rightarrow> Inl AssertionError
           | Some path \<Rightarrow>
               Inr (Some (fixture_list_bookings
                            \<lparr>fx_bookings_path = path, fx_rooms_path = se_clock_fixture_rooms_path s,
                             fx_load = ev_fixture_load ev\<rparr>, mapping)))
        else Inr (Some (rest_list_bookings ((ev_rest ev)\<lparr>rc_settings := s, rc_contract := None\<rparr>), mapping))))"

definition set_health :: "(runtime_health \<Rightarrow> runtime_health) \<Rightarrow> ('c, 'r, unit) rt" where
  "set_health f = modify (\<lambda>w. w\<lparr>rw_health := f (rw_health w)\<rparr>)"

definition verify_database :: "'c environment \<Rightarrow> ('c, 'r, unit) rt" where
  "verify_database ev =
     bindE (on_io (ev_select_one ev)) (\<lambda>_. set_health (\<lambda>h. h\<lparr>rh_database_connected := True\<rparr>))"

definition revision_text :: "string option \<Rightarrow> string" where
  "revision_text r = (case r of None \<Rightarrow> ''None'' | Some t \<Rightarrow> t)"

definition verify_migration_head :: "'c environment \<Rightarrow> ('c, 'r, unit) rt" where
  "verify_migration_head ev =
     (if ev_current_revision ev \<noteq> ev_expected_head ev
      then set_health (\<lambda>h. h\<lparr>rh_errors := rh_errors h @
             [''database migration is not current: current='' @ revision_text (ev_current_revision ev)
              @ '', expected='' @ revision_text (ev_expected_head ev)]\<rparr>)
      else set_health (\<lambda>h. h\<lparr>rh_migration_current := True\<rparr>))"

text \<open>The tasks that are started: their names, intervals and what each round calls.\<close>

definition background_tasks :: "('c, 'r) app_runtime \<Rightarrow> (string \<times> int) list" where
  "background_tasks ar =
     (let s = ar_settings ar in
      (if se_clock_polling_enabled s \<and> ar_clock ar \<noteq> None
       then [(''clock-sync'', se_clock_poll_interval_seconds s)] else [])
      @ (if se_policy_scheduler_enabled s then [(''policy'', se_policy_tick_seconds s)] else [])
      @ (if se_outbox_worker_enabled s \<and> ar_mqtt ar \<noteq> None then [(''outbox'', se_outbox_poll_seconds s)] else []))"

fun subscribe_all :: "'c environment \<Rightarrow> string list \<Rightarrow> ('c, 'r, unit) rt" where
  "subscribe_all ev [] = ret ()"
| "subscribe_all ev (t # ts) = bindE (on_io (ev_subscribe ev t)) (\<lambda>_. subscribe_all ev ts)"

definition subscribe_home_assistant_commands :: "'c environment \<Rightarrow> ('c, 'r) app_runtime \<Rightarrow> ('c, 'r, unit) rt" where
  "subscribe_home_assistant_commands ev ar =
     (if ar_mqtt ar = None then ret ()
      else subscribe_all ev
        (map fst (control_subscriptions (dv_registry (ar_service ar)) (dv_topics (ar_service ar)))))"

definition start_mqtt :: "'c environment \<Rightarrow> ('c, 'r) app_runtime \<Rightarrow> ('c, 'r, unit) rt" where
  "start_mqtt ev ar =
     bindE (on_io (ev_connect ev)) (\<lambda>_.
     bindE (refresh_health ar) (\<lambda>_.
     bindE (subscribe_home_assistant_commands ev ar) (\<lambda>_.
     bindE (publish_availability ar ''online'') (\<lambda>_.
     bindE (publish_discovery ar) (\<lambda>_.
     bindE (publish_control_states ar) (\<lambda>_.
     publish_system_state ar))))))"

text \<open>\<open>client\<close> is the MQTT client that the settings would construct.\<close>

definition start ::
  "'c environment \<Rightarrow> 'c mqtt_client \<Rightarrow> ('c, 'r) app_runtime \<Rightarrow> ('c, 'r, ('c, 'r) app_runtime \<times> (string \<times> int) list) rt" where
  "start ev client ar =
     bindE (verify_database ev) (\<lambda>_.
     bindE (verify_migration_head ev) (\<lambda>_.
     bindE (lift_result (build_clock_client ev (ar_settings ar))) (\<lambda>clock.
     let ar = ar\<lparr>ar_clock := clock,
                 ar_mqtt := (if se_mqtt_enabled (ar_settings ar) then Some client else None)\<rparr> in
     bindE (if se_mqtt_enabled (ar_settings ar) then start_mqtt ev ar else ret ()) (\<lambda>_.
     let tasks = background_tasks ar in
     bindE (set_health (\<lambda>h. h\<lparr>rh_workers_started := (tasks \<noteq> [])\<rparr>)) (\<lambda>_.
     ret (ar, tasks))))))"

text \<open>The tasks are cancelled first; what remains is the MQTT client.\<close>

definition stop :: "'c environment \<Rightarrow> ('c, 'r) app_runtime \<Rightarrow> ('c, 'r, unit) rt" where
  "stop ev ar =
     (if ar_mqtt ar = None then ret ()
      else bindE (on_io (ev_disconnect ev)) (\<lambda>_. refresh_health ar))"

section \<open>Steps of the runtime\<close>

text \<open>
  A state is a world and the result of a poll that is not stored yet; the lock of the runtime
  admits one. A round of a worker, a command, a request to reconcile or the callback of a new
  connection is a step, and the environment may change what lies behind the clients in between.
  The label is the time a step's database operation carries.
\<close>

type_synonym ('c, 'r) runtime_state = "('c, 'r) runtime_world \<times> sync_run_result option"

definition time_read :: "('c, 'r) app_runtime \<Rightarrow> ('c, 'r) runtime_world \<Rightarrow> datetime" where
  "time_read ar w = fst (ar_now ar (rw_io w))"

inductive runtime_step ::
  "('c, 'r) app_runtime \<Rightarrow> ('c, 'r) runtime_state \<Rightarrow> datetime option \<Rightarrow> ('c, 'r) runtime_state \<Rightarrow> bool"
  for ar where
  polled: "poll_phase ar None w = Some (Inr result, w') \<Longrightarrow> runtime_step ar (w, None) None (w', Some result)"
| poll_raised:
    "\<lbrakk>poll_phase ar None w = Some (Inl e, w'); record_outcome ''clock-sync'' (Inl e :: unit result) w' = (r, w'')\<rbrakk>
       \<Longrightarrow> runtime_step ar (w, None) None (w'', None)"
| stored:
    "periodic_round ''clock-sync'' (store_poll ar result) w = (r, w')
       \<Longrightarrow> runtime_step ar (w, Some result) (Some (sy_finished_at result)) (w', None)"
| reconciled:
    "store_poll ar result w = (r, w')
       \<Longrightarrow> runtime_step ar (w, Some result) (Some (sy_finished_at result)) (w', None)"
| policy_run:
    "periodic_round ''policy'' (run_policy_once ar None) w = (r, w')
       \<Longrightarrow> runtime_step ar (w, p) (Some (time_read ar w)) (w', p)"
| outbox_run: "periodic_round ''outbox'' (run_outbox ar) w = (r, w') \<Longrightarrow> runtime_step ar (w, p) None (w', p)"
| commanded:
    "handle_control_message ar k field payload w = (r, w')
       \<Longrightarrow> runtime_step ar (w, p) (Some (time_read ar w)) (w', p)"
| reconnected: "publish_mqtt_reconnect_state ar w = (r, w') \<Longrightarrow> runtime_step ar (w, p) None (w', p)"
| elsewhere: "runtime_step ar (w, p) None (w\<lparr>rw_io := c\<rparr>, p)"

text \<open>Runs from a start state, with the labels of their steps in order.\<close>

inductive runtime_run ::
  "('c, 'r) app_runtime \<Rightarrow> ('c, 'r) runtime_state \<Rightarrow> datetime list \<Rightarrow> ('c, 'r) runtime_state \<Rightarrow> bool"
  for ar s0 where
  run_refl: "runtime_run ar s0 [] s0"
| run_step:
    "\<lbrakk>runtime_run ar s0 ts s; runtime_step ar s l s'\<rbrakk>
       \<Longrightarrow> runtime_run ar s0 (ts @ (case l of None \<Rightarrow> [] | Some t \<Rightarrow> [t])) s'"

end
