(* ===== verification/Api_Routes.thy ===== *)
theory Api_Routes
  imports Runtime
begin

text \<open>
  \<^verbatim>\<open>app/api/routes.py\<close>: the HTTP endpoints. A request names the endpoint with the parameters FastAPI
  has parsed; an answer is a status code with a body, or the error of an HTTPException. Any other
  exception of a handler is an internal error. The world is the runtime's with the three gauges of
  the metrics; the text that \<^verbatim>\<open>generate_latest\<close> renders from them is the parameter \<open>render\<close>.
\<close>

section \<open>Answers\<close>

datatype api_error =
    HTTPException int json
  | InternalError pyexc

record gauges =
  ga_sync_lag :: pyfloat
  ga_pending_outbox :: pyfloat
  ga_dead_letter_outbox :: pyfloat

definition new_gauges :: gauges where
  "new_gauges = \<lparr>ga_sync_lag = Fin 0, ga_pending_outbox = Fin 0, ga_dead_letter_outbox = Fin 0\<rparr>"

record ('c, 'r) api_world =
  aw_world :: "('c, 'r) runtime_world"
  aw_gauges :: gauges

datatype api_body = Json json | Text string

type_synonym answer = "api_error + (int \<times> api_body)"

text \<open>What a handler returns or raises, as an answer with its status code.\<close>

definition answer_of :: "int \<Rightarrow> 'a result \<Rightarrow> ('a \<Rightarrow> json) \<Rightarrow> answer" where
  "answer_of code r f = (case r of Inl e \<Rightarrow> Inl (InternalError e) | Inr v \<Rightarrow> Inr (code, Json (f v)))"

definition in_runtime ::
  "('c, 'r, 'a) rt \<Rightarrow> ('a result \<Rightarrow> answer) \<Rightarrow> ('c, 'r) api_world \<Rightarrow> answer \<times> ('c, 'r) api_world" where
  "in_runtime m f aw = (case m (aw_world aw) of (r, w) \<Rightarrow> (f r, aw\<lparr>aw_world := w\<rparr>))"

section \<open>Dependencies\<close>

definition get_runtime :: "('c, 'r) app_runtime option \<Rightarrow> api_error + ('c, 'r) app_runtime" where
  "get_runtime state =
     (case state of None \<Rightarrow> Inl (HTTPException 503 (JStr ''runtime is not initialized'')) | Some ar \<Rightarrow> Inr ar)"

definition require_admin :: "settings \<Rightarrow> string option \<Rightarrow> api_error + unit" where
  "require_admin s x_admin_api_key =
     (let expected = se_admin_api_key s in
      if expected = None \<and> se_app_env s \<noteq> ENV_PRODUCTION then Inr ()
      else if expected = None \<or> x_admin_api_key \<noteq> expected
      then Inl (HTTPException 401 (JStr ''admin authentication required''))
      else Inr ())"

section \<open>Payloads\<close>

definition room_payload :: "room_row \<Rightarrow> payload" where
  "room_payload row =
     [(''id'', JUuid (rmr_id row)), (''key'', JStr (rmr_key row)), (''name'', JStr (rmr_name row)),
      (''entrance_key'', JStr (rmr_entrance_key row)), (''floor'', json_opt JStr (rmr_floor row)),
      (''clock_room_id'', json_opt JStr (rmr_clock_room_id row)), (''enabled'', JBool (rmr_enabled row))]"

definition room_state_payload :: "tzdb \<Rightarrow> room_state_row option \<Rightarrow> json" where
  "room_state_payload tz row0 =
     json_opt (\<lambda>row. JDict
       [(''automation_phase'', JStr (rsr_automation_phase row)),
        (''booking_id'', json_opt JUuid (rsr_booking_id row)),
        (''needs_attention'', JBool (rsr_needs_attention row)),
        (''attention_reason'', json_opt JStr (rsr_attention_reason row)),
        (''effective_from'', JStr (isoformat tz (rsr_effective_from row))),
        (''expires_at'', json_opt (\<lambda>t. JStr (isoformat tz t)) (rsr_expires_at row)),
        (''intent_version'', JInt (rsr_intent_version row)),
        (''created_at'', JStr (isoformat tz (rsr_created_at row)))]) row0"

definition booking_payload :: "tzdb \<Rightarrow> booking_row \<Rightarrow> assignment_row option \<Rightarrow> payload" where
  "booking_payload tz row assignment =
     [(''id'', JUuid (bkr_id row)), (''clock_booking_id'', JStr (bkr_clock_booking_id row)),
      (''booking_number'', json_opt JStr (bkr_booking_number row)),
      (''external_source'', json_opt JStr (bkr_external_source row)),
      (''external_reference'', json_opt JStr (bkr_external_reference row)),
      (''booking_status'', JStr (bkr_booking_status row)),
      (''source_booking_status'', JStr (bkr_source_booking_status row)),
      (''arrival_date'', JStr (date_iso (bkr_arrival_date row))),
      (''departure_date'', JStr (date_iso (bkr_departure_date row))),
      (''updated_at'', json_opt (\<lambda>t. JStr (isoformat tz t)) (bkr_updated_at row)),
      (''needs_attention'', JBool (bkr_needs_attention row)),
      (''attention_reason'', json_opt JStr (bkr_attention_reason row)),
      (''assignment'',
       json_opt (\<lambda>a. JDict
         [(''clock_room_id'', json_opt JStr (asr_clock_room_id a)),
          (''physical_room_number'', json_opt JStr (asr_physical_room_number a)),
          (''assigned_at'', JStr (isoformat tz (asr_assigned_at a)))]) assignment)]"

definition audit_payload :: "tzdb \<Rightarrow> audit_row \<Rightarrow> json" where
  "audit_payload tz row = JDict
     [(''id'', JUuid (aur_id row)), (''event_type'', JStr (aur_event_type row)),
      (''message'', JStr (aur_message row)), (''payload'', json_opt JDict (aur_payload row)),
      (''created_at'', JStr (isoformat tz (aur_created_at row))),
      (''correlation_id'', JUuid (aur_correlation_id row))]"

section \<open>Endpoints\<close>

definition live :: answer where
  "live = Inr (200, Json (JDict [(''status'', JStr ''live'')]))"

definition error_fields :: "runtime_health \<Rightarrow> payload" where
  "error_fields h = [(''worker_errors'', JDict (map (\<lambda>(k, v). (k, JStr v)) (rh_worker_errors h)))]"

definition health_fields :: "string \<Rightarrow> runtime_health \<Rightarrow> payload" where
  "health_fields status h =
     [(''status'', JStr status), (''database_connected'', JBool (rh_database_connected h)),
      (''migration_current'', JBool (rh_migration_current h)),
      (''mqtt_connected'', JBool (rh_mqtt_connected h)), (''workers_started'', JBool (rh_workers_started h))]"

definition get_ready :: "('c, 'r) app_runtime \<Rightarrow> ('c, 'r) api_world \<Rightarrow> answer \<times> ('c, 'r) api_world" where
  "get_ready ar =
     in_runtime (bindE (refresh_health ar) (\<lambda>_. gets rw_health))
       (\<lambda>r. case r of
          Inl e \<Rightarrow> Inl (InternalError e)
        | Inr h \<Rightarrow>
            (if \<not> ready h
             then Inl (HTTPException 503 (JDict (health_fields ''not_ready'' h
                         @ [(''errors'', texts (rh_errors h))] @ error_fields h)))
             else Inr (200, Json (JDict (health_fields ''ready'' h @ error_fields h)))))"

text \<open>\<^verbatim>\<open>float(cast(int, state[key]))\<close>\<close>

definition state_number :: "payload \<Rightarrow> string \<Rightarrow> pyfloat result" where
  "state_number state key =
     (case map_of state key of
        None \<Rightarrow> Inl (KeyError key)
      | Some (JInt n) \<Rightarrow> Inr (round64 (of_int n))
      | Some _ \<Rightarrow> Inl (TypeError ''float() argument must be a string or a real number''))"

definition set_gauges :: "payload \<Rightarrow> gauges \<Rightarrow> unit result \<times> gauges" where
  "set_gauges state =
     bindE (if map_of state ''lag_seconds'' = Some JNull then ret ()
            else bindE (lift_result (state_number state ''lag_seconds'')) (\<lambda>v. modify (ga_sync_lag_update (\<lambda>_. v)))) (\<lambda>_.
     bindE (bindE (lift_result (state_number state ''pending_outbox'')) (\<lambda>v. modify (ga_pending_outbox_update (\<lambda>_. v)))) (\<lambda>_.
     bindE (lift_result (state_number state ''dead_letter_outbox'')) (\<lambda>v. modify (ga_dead_letter_outbox_update (\<lambda>_. v)))))"

definition metrics ::
  "(gauges \<Rightarrow> string) \<Rightarrow> ('c, 'r) app_runtime \<Rightarrow> ('c, 'r) api_world \<Rightarrow> answer \<times> ('c, 'r) api_world" where
  "metrics render ar aw =
     (case system_state ar (aw_world aw) of
        (Inl e, w) \<Rightarrow> (Inl (InternalError e), aw\<lparr>aw_world := w\<rparr>)
      | (Inr state, w) \<Rightarrow>
          (case set_gauges state (aw_gauges aw) of
             (r, g) \<Rightarrow>
               (case r of Inl e \<Rightarrow> Inl (InternalError e) | Inr _ \<Rightarrow> Inr (200, Text (render g)),
                aw\<lparr>aw_world := w, aw_gauges := g\<rparr>)))"

definition sync_status :: "('c, 'r) app_runtime \<Rightarrow> ('c, 'r) api_world \<Rightarrow> answer \<times> ('c, 'r) api_world" where
  "sync_status ar = in_runtime (system_state ar) (\<lambda>r. answer_of 200 r JDict)"

definition reconcile ::
  "('c, 'r) app_runtime \<Rightarrow> ('c, 'r) api_world \<Rightarrow> (answer \<times> ('c, 'r) api_world) option" where
  "reconcile ar aw =
     map_option (\<lambda>(r, w). (answer_of 202 r (\<lambda>p. JDict [(''status'', JStr ''accepted''), (''result'', JDict p)]),
                           aw\<lparr>aw_world := w\<rparr>))
       (run_sync_once ar None (aw_world aw))"

text \<open>The statements; the order of texts is the one of their code points.\<close>

definition rooms :: "('c, 'r) api_world \<Rightarrow> answer \<times> ('c, 'r) api_world" where
  "rooms =
     in_runtime (read_session (scalars rooms_t (sort_key (\<lambda>r. (rmr_entrance_key r, rmr_key r)))))
       (\<lambda>r. answer_of 200 r (\<lambda>rows. JList (map (JDict \<circ> room_payload) rows)))"

definition not_loaded :: "string \<Rightarrow> string \<Rightarrow> api_error" where
  "not_loaded what key = HTTPException 404 (JStr (what @ '' not loaded: '' @ key))"

definition one_of :: "string \<Rightarrow> string \<Rightarrow> json option result \<Rightarrow> answer" where
  "one_of what key r =
     (case r of Inl e \<Rightarrow> Inl (InternalError e) | Inr None \<Rightarrow> Inl (not_loaded what key)
      | Inr (Some j) \<Rightarrow> Inr (200, Json j))"

definition room_endpoint :: "tzdb \<Rightarrow> string \<Rightarrow> ('c, 'r) api_world \<Rightarrow> answer \<times> ('c, 'r) api_world" where
  "room_endpoint tz room_key =
     in_runtime (read_session (
       bindE (scalar_one_or_none rooms_t (filter (\<lambda>r. rmr_key r = room_key))) (\<lambda>row.
       case row of
         None \<Rightarrow> ret None
       | Some rm \<Rightarrow>
           bindE (scalar_one_or_none room_states_t
                    (\<lambda>rows. latest_by rsr_created_at rsr_id tz (filter (\<lambda>s. rsr_room_id s = rmr_id rm) rows)))
             (\<lambda>latest_state.
           ret (Some (JDict (room_payload rm @ [(''latest_state'', room_state_payload tz latest_state)])))))))
       (one_of ''room'' room_key)"

definition booking_endpoint :: "tzdb \<Rightarrow> string \<Rightarrow> ('c, 'r) api_world \<Rightarrow> answer \<times> ('c, 'r) api_world" where
  "booking_endpoint tz clock_booking_id =
     in_runtime (read_session (
       bindE (scalar_one_or_none bookings_t (filter (\<lambda>b. bkr_clock_booking_id b = clock_booking_id))) (\<lambda>row.
       case row of
         None \<Rightarrow> ret None
       | Some b \<Rightarrow>
           bindE (scalar_one_or_none assignments_t
                    (filter (\<lambda>a. asr_booking_id a = bkr_id b \<and> asr_is_current a))) (\<lambda>assignment.
           ret (Some (JDict (booking_payload tz b assignment)))))))
       (one_of ''booking'' clock_booking_id)"

definition newest_first :: "tzdb \<Rightarrow> audit_row list \<Rightarrow> audit_row list" where
  "newest_first tz rows = rev (sort_key (\<lambda>r. (instant tz (aur_created_at r), aur_id r)) rows)"

definition audit_endpoint :: "tzdb \<Rightarrow> int \<Rightarrow> int \<Rightarrow> ('c, 'r) api_world \<Rightarrow> answer \<times> ('c, 'r) api_world" where
  "audit_endpoint tz limit0 offset0 =
     (let limit = min (max limit0 1) 500; offset = max offset0 0 in
      in_runtime (read_session (scalars audit_t (\<lambda>rows. take (nat limit) (drop (nat offset) (newest_first tz rows)))))
        (\<lambda>r. answer_of 200 r (\<lambda>rows. JList (map (audit_payload tz) rows))))"

section \<open>Requests\<close>

datatype api_request =
    GET_live
  | GET_ready
  | GET_metrics
  | GET_sync_status
  | POST_reconcile "string option"
  | GET_rooms
  | GET_room string
  | GET_booking string
  | GET_audit "string option" int int

text \<open>The administrator's key a request carries, for the endpoints that depend on \<^verbatim>\<open>require_admin\<close>.\<close>

fun admin_header :: "api_request \<Rightarrow> string option option" where
  "admin_header (POST_reconcile key) = Some key"
| "admin_header (GET_audit key _ _) = Some key"
| "admin_header _ = None"

definition admitted :: "settings \<Rightarrow> api_request \<Rightarrow> api_error + unit" where
  "admitted s req = (case admin_header req of None \<Rightarrow> Inr () | Some key \<Rightarrow> require_admin s key)"

definition endpoint ::
  "(gauges \<Rightarrow> string) \<Rightarrow> ('c, 'r) app_runtime \<Rightarrow> api_request \<Rightarrow> ('c, 'r) api_world
   \<Rightarrow> (answer \<times> ('c, 'r) api_world) option" where
  "endpoint render ar req aw =
     (let tz = dv_tz (ar_service ar) in
      case req of
        GET_live \<Rightarrow> Some (live, aw)
      | GET_ready \<Rightarrow> Some (get_ready ar aw)
      | GET_metrics \<Rightarrow> Some (metrics render ar aw)
      | GET_sync_status \<Rightarrow> Some (sync_status ar aw)
      | POST_reconcile _ \<Rightarrow> reconcile ar aw
      | GET_rooms \<Rightarrow> Some (rooms aw)
      | GET_room k \<Rightarrow> Some (room_endpoint tz k aw)
      | GET_booking k \<Rightarrow> Some (booking_endpoint tz k aw)
      | GET_audit _ limit offset \<Rightarrow> Some (audit_endpoint tz limit offset aw))"

text \<open>The dependencies are resolved before the endpoint runs; only \<^verbatim>\<open>live\<close> has none.\<close>

definition handle_request ::
  "(gauges \<Rightarrow> string) \<Rightarrow> ('c, 'r) app_runtime option \<Rightarrow> api_request \<Rightarrow> ('c, 'r) api_world
   \<Rightarrow> (answer \<times> ('c, 'r) api_world) option" where
  "handle_request render state req aw =
     (if req = GET_live then Some (live, aw)
      else case get_runtime state of
        Inl e \<Rightarrow> Some (Inl e, aw)
      | Inr ar \<Rightarrow>
          (case admitted (ar_settings ar) req of
             Inl e \<Rightarrow> Some (Inl e, aw)
           | Inr _ \<Rightarrow> endpoint render ar req aw))"

end
