(* ===== verification/Intent_Versions.thy ===== *)
theory Intent_Versions
  imports Recalculation
begin

text \<open>
  The database services as a sequence of operations: the results of polls, evaluations of all
  rooms or of some, and commands of the panels, each in its own session and transaction. Over
  such a run the intent versions that are published for a room only grow, as long as the
  operations carry increasing times; and they can be issued twice when they do not.
\<close>

section \<open>Operations and runs\<close>

datatype db_op =
    OpSync sync_run_result
  | OpEvaluateAll datetime
  | OpEvaluateKeys "string list" datetime
  | OpCommand string string string datetime

fun op_time :: "db_service \<Rightarrow> db_op \<Rightarrow> datetime" where
  "op_time sv (OpSync result) = utc sv (sy_finished_at result)"
| "op_time sv (OpEvaluateAll now) = utc sv now"
| "op_time sv (OpEvaluateKeys keys now) = utc sv now"
| "op_time sv (OpCommand k field payload now) = utc sv now"

fun op_run :: "db_service \<Rightarrow> db_op \<Rightarrow> (session, unit) eff" where
  "op_run sv (OpSync result) = bindE (apply_sync_result sv result None) (\<lambda>_. ret ())"
| "op_run sv (OpEvaluateAll now) = bindE (evaluate_all_rooms sv (Aware now) None) (\<lambda>_. ret ())"
| "op_run sv (OpEvaluateKeys keys now) = bindE (evaluate_room_keys sv keys (Aware now) None) (\<lambda>_. ret ())"
| "op_run sv (OpCommand k field payload now) =
     bindE (transaction (apply_mqtt_command sv k field payload (Aware now) None)) (\<lambda>_. ret ())"

text \<open>An operation that raises leaves the database as it was.\<close>

fun run_ops :: "db_service \<Rightarrow> db_op list \<Rightarrow> database \<times> nat \<Rightarrow> database \<times> nat" where
  "run_ops sv [] (d, n) = (d, n)"
| "run_ops sv (op # ops) (d, n) =
     (case op_run sv op (new_session d n) of (_, s) \<Rightarrow> run_ops sv ops (ss_db s, ss_draws s))"

lemma op_run_raised:
  assumes "op_run sv op (new_session d n) = (Inl e, s)"
  shows "ss_db s = d"
proof -
  have given: "ss_db s' = d" if "given_or_fresh sv None (new_session d n) = (r, s')" for r s'
    using given_or_fresh_run(1) [OF that] by (simp add: new_session_def)
  have tr: "ss_db s = d"
    if "bindE (given_or_fresh sv None) (\<lambda>c. transaction (m c)) (new_session d n) = (Inl e, s)" for m :: "uuid \<Rightarrow> (session, 'z) eff"
  proof -
    obtain r0 s0 where g: "given_or_fresh sv None (new_session d n) = (r0, s0)" by fastforce
    with given_or_fresh_Inr [of sv None "new_session d n"] obtain c where "r0 = Inr c" by (cases r0) auto
    with g that have "transaction (m c) s0 = (Inl e, s)" by simp
    from transaction_Inl(1) [OF this] given [OF g] show ?thesis by simp
  qed
  have drop: "m x = (Inl e, s)" if "bindE m (\<lambda>_. ret ()) x = (Inl e, s)" for m :: "(session, 'y) eff" and x
    using that by (auto simp: bindE_def split: prod.splits sum.splits)
  show ?thesis
  proof (cases op)
    case (OpSync result)
    with assms drop tr show ?thesis by (auto simp: apply_sync_result_def)
  next
    case (OpEvaluateAll now)
    with assms drop tr show ?thesis by (auto simp: evaluate_all_rooms_def)
  next
    case (OpEvaluateKeys keys now)
    with assms drop tr show ?thesis by (auto simp: evaluate_room_keys_def)
  next
    case (OpCommand k field payload now)
    with assms drop have "transaction (apply_mqtt_command sv k field payload (Aware now) None) (new_session d n) = (Inl e, s)" by auto
    from transaction_Inl(1) [OF this] show ?thesis by (simp add: new_session_def)
  qed
qed

section \<open>Row ids are stable\<close>

lemma room_row_id_Some:
  "room_row_id sv d k = Some i \<longleftrightarrow>
     (\<exists>p. filter (\<lambda>r. ppr_key r = property_key sv) (db_properties d) = [p] \<and> room_ids_at p k d = [i])"
  by (auto simp: room_row_id_def split: list.splits)

lemma room_row_id_inj:
  assumes "distinct (map rmr_id (db_rooms d))" and "room_row_id sv d k = Some i" and "room_row_id sv d k' = Some i"
  shows "k = k'"
proof -
  obtain p where "room_ids_at p k d = [i]" "room_ids_at p k' d = [i]" using assms(2,3) by (auto simp: room_row_id_Some)
  from room_ids_in [OF this(1)] room_ids_in [OF this(2)] assms(1) show ?thesis by (auto simp: distinct_map inj_on_def)
qed

lemma ensure_property_id:
  assumes "clean properties_t s" and "ensure_property sv s = (Inr p, s')"
    and "filter (\<lambda>r. ppr_key r = property_key sv) (db_properties (ss_db s)) = [p0]"
  shows "ppr_id p = ppr_id p0"
proof -
  have "scalar_one_or_none properties_t (filter (\<lambda>r. ppr_key r = property_key sv)) s = (Inr (Some p0), s)"
    using scalar_one_or_none_clean [OF assms(1), of "filter (\<lambda>r. ppr_key r = property_key sv)"] assms(3) by simp
  with assms(2) show ?thesis
    by (auto simp: ensure_property_def Let_def property_key_def bindE_def set_row_def)
qed

lemma ensure_room_id:
  assumes "steady_rooms s" and "ensure_room sv p rm s = (Inr row, s')" and "room_ids_at p k (ss_db s) = [i]"
  shows "room_ids_at p k (ss_db s') = [i]"
proof (cases "k = rm_key rm")
  case False
  with ensure_room_run(3) [OF assms(1,2)] assms(3) show ?thesis by simp
next
  case True
  then obtain r0 where r0: "filter (\<lambda>r. rmr_property_id r = ppr_id p \<and> rmr_key r = rm_key rm) (db_rooms (ss_db s)) = [r0]"
    "rmr_id r0 = i"
    using assms(3) by (auto simp: room_ids_at_def map_eq_Cons_conv)
  with select_room_steady [OF assms(1), of "ppr_id p" "rm_key rm"] assms(2)
  have "rmr_id row = i" by (auto simp: ensure_room_def bindE_def set_row_def Let_def)
  with ensure_room_run(2) [OF assms(1,2)] True show ?thesis by simp
qed

lemma ensure_rooms_id:
  assumes "steady_rooms s" and "ensure_rooms sv p rms acc s = (Inr reg, s')" and "room_ids_at p k (ss_db s) = [i]"
  shows "room_ids_at p k (ss_db s') = [i]"
  using assms
proof (induction rms arbitrary: acc s)
  case Nil
  then show ?case by simp
next
  case (Cons rm rms)
  from Cons.prems(2) obtain row s1 acc1 where 1: "ensure_room sv p rm s = (Inr row, s1)"
    and 2: "ensure_rooms sv p rms acc1 s1 = (Inr reg, s')"
    by (auto elim!: bindE_Inr_E)
  from Cons.IH [OF ensure_room_run(1) [OF Cons.prems(1) 1] 2] ensure_room_id [OF Cons.prems(1) 1 Cons.prems(3)]
  show ?case by simp
qed

lemma ensure_registry_id:
  assumes "ensure_registry sv s = (Inr reg, s')" and "ss_db s = d" "ss_flushed s = d" "\<not> ss_autoflush s" "keys_ok d"
    and "room_row_id sv d k = Some i"
  shows "room_row_id sv (ss_db s') k = Some i"
proof -
  have c: "clean properties_t s" "clean rooms_t s" using assms(2-5) by (simp_all add: clean_def keys_ok_def)
  from assms(1) obtain p s1 where p: "ensure_property sv s = (Inr p, s1)"
    and r: "ensure_rooms sv p (rr_rooms (dv_registry sv))
       \<lparr>rg_property = p, rg_rooms_by_key = [], rg_rooms_by_clock_id = [], rg_domain_rooms_by_id = []\<rparr> s1
       = (Inr reg, s')"
    unfolding ensure_registry_def by (elim bindE_Inr_E)
  from assms(6) obtain p0 where p0: "filter (\<lambda>r. ppr_key r = property_key sv) (db_properties d) = [p0]"
    and ids: "room_ids_at p0 k d = [i]" by (auto simp: room_row_id_Some)
  have "ppr_id p = ppr_id p0" using ensure_property_id [OF c(1) p] p0 assms(2) by simp
  then have "room_ids_at p k (ss_db s1) = [i]"
    using ids frame_db [OF frame_ensure_property p, of rooms_t] assms(2) by (simp add: room_ids_at_def)
  moreover have "steady_rooms s1"
    using frame_clean [OF frame_ensure_property p, of rooms_t] c(2) by (simp add: steady_rooms_def clean_def)
  ultimately have "room_ids_at p k (ss_db s') = [i]" using ensure_rooms_id r by blast
  moreover have "filter (\<lambda>r. ppr_key r = property_key sv) (db_properties (ss_db s')) = [p]"
    using ensure_property_row [OF c(1) p] frame_db [OF frame_ensure_rooms r, of properties_t] by simp
  ultimately show ?thesis by (simp add: room_row_id_Some)
qed


section \<open>New states carry the time of their operation\<close>

definition later_states :: "(uuid \<Rightarrow> bool) \<Rightarrow> session \<Rightarrow> datetime \<Rightarrow> session \<Rightarrow> bool" where
  "later_states known s now s' \<longleftrightarrow>
     (\<exists>new. db_room_states (ss_db s') = db_room_states (ss_db s) @ new
        \<and> (\<forall>r \<in> set new. rsr_created_at r = now \<and> known (rsr_room_id r)))"

definition in_registry :: "registry_rows \<Rightarrow> uuid \<Rightarrow> bool" where
  "in_registry reg i \<longleftrightarrow> map_of (rg_domain_rooms_by_id reg) i \<noteq> None"

lemma later_states_refl: "db_room_states (ss_db s') = db_room_states (ss_db s) \<Longrightarrow> later_states known s now s'"
  by (auto simp: later_states_def)

lemma later_states_trans:
  "later_states known s now s' \<Longrightarrow> later_states known s' now s'' \<Longrightarrow> later_states known s now s''"
  by (fastforce simp: later_states_def)

lemma outcome_later:
  "room_outcome sv reg loaded now c d i rm s s' counts \<Longrightarrow> known i \<Longrightarrow> later_states known s now s'"
  unfolding room_outcome_def later_states_def by (force simp: new_state_ok_def split: if_splits)

lemma recalculate_each_later:
  assumes "reads d s" and "recalculate_each sv reg loaded now c ids acc s = (Inr acc', s')"
  shows "later_states (in_registry reg) s now s'"
  using assms
proof (induction ids arbitrary: acc s)
  case Nil
  then show ?case by (simp add: later_states_refl)
next
  case (Cons j ids)
  from Cons.prems(2) obtain acc1 s1 where 1: "recalculate_room sv reg loaded now c j acc s = (Inr acc1, s1)"
    and 2: "recalculate_each sv reg loaded now c ids acc1 s1 = (Inr acc', s')"
    by (auto elim!: bindE_Inr_E)
  note run = recalculate_room_run [OF Cons.prems(1) 1]
  have "later_states (in_registry reg) s now s1"
  proof (cases "in_scope reg d j")
    case None
    with run(1) show ?thesis by (simp add: later_states_refl)
  next
    case (Some rm)
    moreover from this have "in_registry reg j" by (simp add: in_registry_def in_scope_def split: if_splits)
    ultimately show ?thesis using run(1) by (auto intro: outcome_later)
  qed
  with Cons.IH [OF run(2) 2] show ?case by (rule later_states_trans [rotated])
qed

lemma recalculate_rooms_later:
  assumes "reads d s" and "recalculate_rooms sv reg ids now c s = (Inr rc, s')"
  shows "later_states (in_registry reg) s now s'"
proof (cases "ids = []")
  case True
  with assms(2) show ?thesis by (simp add: recalculate_rooms_def later_states_refl)
next
  case False
  with assms(2) obtain loaded s1 where load: "load_normalized_bookings sv (rg_property reg) s = (Inr loaded, s1)"
    and each: "recalculate_each sv reg loaded now c (sort (remdups ids)) no_recalculation s1 = (Inr rc, s')"
    unfolding recalculate_rooms_def by (auto elim!: bindE_Inr_E)
  have "s1 = s" using load_normalized_state [OF _ load] assms(1) by (simp add: reads_def)
  with recalculate_each_later [OF assms(1)] each show ?thesis by simp
qed

lemma states_before_later:
  assumes "later_states known s now s'" and "states_before sv (ss_db s) now"
    and "instant (dv_tz sv) now < instant (dv_tz sv) t"
  shows "states_before sv (ss_db s') t"
  using assms by (fastforce simp: later_states_def states_before_def list_all_iff)

section \<open>Every operation keeps the versions increasing\<close>

definition room_versions_ok :: "db_service \<Rightarrow> database \<Rightarrow> string \<Rightarrow> bool" where
  "room_versions_ok sv d k =
     (case room_row_id sv d k of
        Some i \<Rightarrow> versions_ok sv k i d | None \<Rightarrow> published_versions (dv_topics sv) k d = [])"

text \<open>Every state is one of a room of the property.\<close>

definition states_known :: "db_service \<Rightarrow> database \<Rightarrow> bool" where
  "states_known sv d \<longleftrightarrow> (\<forall>r \<in> set (db_room_states d). \<exists>k. room_row_id sv d k = Some (rsr_room_id r))"

definition versions_inv :: "db_service \<Rightarrow> database \<Rightarrow> bool" where
  "versions_inv sv d \<longleftrightarrow> keys_ok d \<and> states_known sv d \<and> list_all (\<lambda>rm. room_versions_ok sv d (rm_key rm)) (rr_rooms (dv_registry sv))"

lemma room_row_id_cong:
  assumes "db_properties d = db_properties d'" "db_rooms d = db_rooms d'"
  shows "room_row_id sv d k = room_row_id sv d' k"
proof -
  have "room_ids_at p k d = room_ids_at p k d'" for p using assms(2) by (simp add: room_ids_at_def)
  then show ?thesis using assms(1) by (simp add: room_row_id_def cong: list.case_cong)
qed

lemma states_known_cong:
  assumes "db_room_states d = db_room_states d'" "db_properties d = db_properties d'" "db_rooms d = db_rooms d'"
  shows "states_known sv d = states_known sv d'"
  using room_row_id_cong [OF assms(2,3)] assms(1) by (simp add: states_known_def)

lemma states_known_mono:
  assumes "states_known sv d" and "db_room_states d' = db_room_states d"
    and "\<And>k i. room_row_id sv d k = Some i \<Longrightarrow> room_row_id sv d' k = Some i"
  shows "states_known sv d'"
  using assms unfolding states_known_def by metis

lemma room_last_state_known:
  assumes "states_known sv d" and "distinct (map rmr_id (db_rooms d'))" and "room_row_id sv d' k = Some i"
    and "\<And>k i. room_row_id sv d k = Some i \<Longrightarrow> room_row_id sv d' k = Some i"
    and "room_row_id sv d k = None"
  shows "room_last_state sv d i = None"
proof (rule ccontr)
  assume "room_last_state sv d i \<noteq> None"
  then obtain r where "r \<in> set (db_room_states d)" "rsr_room_id r = i"
    unfolding room_last_state_def using latest_by_in by fastforce
  then obtain k' where "room_row_id sv d k' = Some i" using assms(1) unfolding states_known_def by blast
  with assms(4) [OF this] room_row_id_inj [OF assms(2,3)] assms(5) show False by simp
qed

lemma rows_kept_same [simp]: "rows_kept t s s"
  by (simp add: rows_kept_def)

text \<open>The id that a room has in the registry's rows is one whose states the invariant covers.\<close>

lemma registered_versions:
  assumes "ensure_registry sv s = (Inr reg, s1)" and "ss_db s = d" "ss_flushed s = d" "\<not> ss_autoflush s"
    and "distinct (map rm_key (rr_rooms (dv_registry sv)))" and "versions_inv sv d"
    and "map_of (rg_domain_rooms_by_id reg) i = Some rm"
  shows "versions_ok sv (rm_key rm) i d"
proof -
  have k: "keys_ok d" and known: "states_known sv d" using assms(6) by (simp_all add: versions_inv_def)
  note R = ensure_registry_run [OF assms(1-4) k assms(5)]
  have id: "room_row_id sv (ss_db s1) (rm_key rm) = Some i" using R(3) R(4) [OF assms(7)] by (auto simp: room_row_id_Some)
  have ok: "room_versions_ok sv d (rm_key rm)"
    using assms(6) R(4) [OF assms(7)] by (simp add: versions_inv_def list_all_iff)
  show ?thesis
  proof (cases "room_row_id sv d (rm_key rm)")
    case None
    have "room_last_state sv d i = None"
    proof (rule room_last_state_known [OF known _ id])
      show "distinct (map rmr_id (db_rooms (ss_db s1)))" using R(6) by (simp add: steady_rooms_def)
    qed (use ensure_registry_id [OF assms(1-4) k] None in simp_all)
    with ok None show ?thesis by (simp add: versions_ok_def room_versions_ok_def)
  next
    case (Some j)
    with ensure_registry_id [OF assms(1-4) k] have "room_row_id sv (ss_db s1) (rm_key rm) = Some j" by blast
    with id have "j = i" by simp
    with Some ok show ?thesis by (simp add: room_versions_ok_def)
  qed
qed

text \<open>A recalculation of some rooms right after the registry was written.\<close>

lemma recalculated_versions:
  assumes "ensure_registry sv s = (Inr reg, s1)" and "ss_db s = d" "ss_flushed s = d" "\<not> ss_autoflush s"
    and "distinct (map rm_key (rr_rooms (dv_registry sv)))" and "versions_inv sv d" and "states_before sv d now"
    and "recalculate_rooms sv reg ids now c s2 = (Inr rc, s3)"
    and "rows_kept properties_t s1 s2" "rows_kept rooms_t s1 s2" "rows_kept room_states_t s1 s2"
      "rows_kept overrides_t s1 s2" "rows_kept outbox_t s1 s2"
    and "keys_ok (ss_flushed s2)" "db_bookings (ss_flushed s2) = db_bookings (ss_db s2)"
  shows "rm \<in> set (rr_rooms (dv_registry sv)) \<Longrightarrow> room_versions_ok sv (ss_db s3) (rm_key rm)"
    and "later_states (in_registry reg) s2 now s3" and "db_room_states (ss_db s2) = db_room_states d"
    and "states_known sv (ss_db s3)"
proof -
  have k: "keys_ok d" using assms(6) by (simp add: versions_inv_def)
  note R = ensure_registry_run [OF assms(1-4) k assms(5)]
  have c: "clean room_states_t s" "clean overrides_t s" using assms(2-4) k by (simp_all add: clean_def keys_ok_def)
  have c2: "clean room_states_t s2" "clean overrides_t s2"
    using frame_clean [OF frame_ensure_registry assms(1), of room_states_t] frame_clean [OF frame_ensure_registry assms(1), of overrides_t]
      c rows_kept_clean [OF assms(11)] rows_kept_clean [OF assms(12)] by simp_all
  have a2: "\<not> ss_autoflush s2" using c2 by (simp add: clean_def)
  have db2: "db_outbox (ss_db s2) = db_outbox d" "db_room_states (ss_db s2) = db_room_states d"
    using frame_db [OF frame_ensure_registry assms(1), of outbox_t] frame_db [OF frame_ensure_registry assms(1), of room_states_t]
      assms(2,11,13) by (simp_all add: rows_kept_def)
  show "db_room_states (ss_db s2) = db_room_states d" by fact
  have r: "reads (ss_flushed s2) s2" using c2 assms(14,15) by (simp add: reads_def clean_def)
  show later: "later_states (in_registry reg) s2 now s3" by (rule recalculate_rooms_later [OF r assms(8)])
  have same: "db_properties (ss_db s3) = db_properties (ss_db s1)" "db_rooms (ss_db s3) = db_rooms (ss_db s1)"
    using frame_db [OF frame_recalculate_rooms assms(8), of properties_t]
      frame_db [OF frame_recalculate_rooms assms(8), of rooms_t] assms(9,10) by (simp_all add: rows_kept_def)
  have row_id: "room_row_id sv (ss_db s1) (rm_key rm) = Some i" "room_row_id sv (ss_db s3) (rm_key rm) = Some i"
    if "map_of (rg_domain_rooms_by_id reg) i = Some rm" for i rm
    using R(3) R(4) [OF that] room_row_id_cong [OF same] by (auto simp: room_row_id_Some)
  show "states_known sv (ss_db s3)"
    unfolding states_known_def
  proof
    fix r
    assume "r \<in> set (db_room_states (ss_db s3))"
    then consider "r \<in> set (db_room_states d)" | "in_registry reg (rsr_room_id r)"
      using later db2(2) by (auto simp: later_states_def)
    then show "\<exists>k. room_row_id sv (ss_db s3) k = Some (rsr_room_id r)"
    proof cases
      case 1
      then obtain k' where "room_row_id sv d k' = Some (rsr_room_id r)"
        using assms(6) unfolding versions_inv_def states_known_def by blast
      then show ?thesis using ensure_registry_id [OF assms(1-4) k] room_row_id_cong [OF same] by auto
    next
      case 2
      then show ?thesis using row_id(2) by (auto simp: in_registry_def)
    qed
  qed
  assume rm: "rm \<in> set (rr_rooms (dv_registry sv))"
  obtain i where i: "map_of (rg_domain_rooms_by_id reg) i = Some rm" using R(5) [OF rm] by blast
  note at = R(4) [OF i]
  have ids2: "i \<in> rmr_id ` set (db_rooms (ss_flushed s2))"
  proof -
    have "i \<in> rmr_id ` set (db_rooms (ss_db s1))" using room_ids_in [of "rg_property reg" "rm_key rm" "ss_db s1" i] at by auto
    with at assms(10) show ?thesis by (auto simp: rows_kept_def)
  qed
  have old: "versions_ok sv (rm_key rm) i d" by (rule registered_versions [OF assms(1-6) i])
  have "versions_ok sv (rm_key rm) i (ss_db s3)"
  proof (rule recalculation_versions [OF assms(8) R(1) i ids2 a2 assms(14,15) c2])
    show "versions_ok sv (rm_key rm) i (ss_db s2)" using old db2 versions_ok_cong by metis
    show "states_before sv (ss_db s2) now" using assms(7) db2 states_before_cong by metis
  qed
  moreover note row_id(2) [OF i]
  ultimately show "room_versions_ok sv (ss_db s3) (rm_key rm)" by (simp add: room_versions_ok_def)
qed

lemma room_versions_cong:
  assumes "db_outbox d = db_outbox d'" "db_room_states d = db_room_states d'" "db_properties d = db_properties d'"
    "db_rooms d = db_rooms d'"
  shows "room_versions_ok sv d k = room_versions_ok sv d' k"
proof -
  have "room_row_id sv d k = room_row_id sv d' k" by (rule room_row_id_cong [OF assms(3,4)])
  moreover have "published_versions t k d = published_versions t k d'" for t using assms by (simp add: published_versions_def)
  ultimately show ?thesis using versions_ok_cong [OF assms(1,2)] by (simp add: room_versions_ok_def cong: option.case_cong)
qed

lemma evaluate_inv:
  assumes "evaluate_body sv ids now c s = (Inr ps, s')" and "ss_db s = d" "ss_flushed s = d" "\<not> ss_autoflush s"
    and "distinct (map rm_key (rr_rooms (dv_registry sv)))" and "versions_inv sv d" and "states_before sv d now"
    and "flush_ok (ss_flushed s') (ss_db s')"
  shows "versions_inv sv (ss_db s')"
    and "instant (dv_tz sv) now < instant (dv_tz sv) t \<Longrightarrow> states_before sv (ss_db s') t"
proof -
  from assms(1) obtain reg s1 rc s2 u where reg: "ensure_registry sv s = (Inr reg, s1)"
    and rc: "recalculate_rooms sv reg (ids reg) now c s1 = (Inr rc, s2)" and u: "fresh_id sv s2 = (Inr u, s')"
    unfolding evaluate_body_def by (auto elim!: bindE_Inr_E)
  have k: "keys_ok d" using assms(6) by (simp add: versions_inv_def)
  have b: "db_bookings (ss_flushed s1) = db_bookings (ss_db s1)"
    using frame_clean [OF frame_ensure_registry reg, of bookings_t] assms(2-4) k by (simp add: clean_def keys_ok_def)
  note Q = recalculated_versions [OF reg assms(2-7) rc rows_kept_same rows_kept_same rows_kept_same rows_kept_same rows_kept_same
      ensure_registry_run(2) [OF reg assms(2-4) k assms(5)] b]
  have same: "db_outbox (ss_db s') = db_outbox (ss_db s2)" "db_room_states (ss_db s') = db_room_states (ss_db s2)"
    "db_properties (ss_db s') = db_properties (ss_db s2)" "db_rooms (ss_db s') = db_rooms (ss_db s2)"
    using frame_db [OF frame_fresh u, of outbox_t] frame_db [OF frame_fresh u, of room_states_t]
      frame_db [OF frame_fresh u, of properties_t] frame_db [OF frame_fresh u, of rooms_t] by simp_all
  show "versions_inv sv (ss_db s')"
    using Q(1,4) keys_ok_flush [OF assms(8)] room_versions_cong [OF same] states_known_cong [OF same(2-4)]
    by (simp add: versions_inv_def list_all_iff)
  show "states_before sv (ss_db s') t" if lt: "instant (dv_tz sv) now < instant (dv_tz sv) t"
  proof -
    have "states_before sv (ss_db s1) now" using assms(7) Q(3) states_before_cong by metis
    from states_before_later [OF Q(2) this lt] same(2) show ?thesis using states_before_cong by metis
  qed
qed


lemma clean_sync_booking:
  assumes "clean bookings_t s" and "sync_booking sv reg now c nb acc s = (Inr acc', s')"
  shows "clean bookings_t s'"
proof -
  let ?aud = "\<lambda>row. if \<not> has_physical_room nb then audit_unassigned_if_needed sv (rg_property reg) row nb now c else ret 0"
  from assms(2) obtain row ch s1 change s2 n where up: "upsert_booking sv (rg_property reg) nb now s = (Inr (row, ch), s1)"
    and asg: "sync_assignment sv reg row nb now c s1 = (Inr change, s2)" and aud: "?aud row s2 = (Inr n, s')"
    unfolding sync_booking_def by (auto elim!: bindE_Inr_E split: prod.splits)
  note up_rows = upsert_stored [OF assms(1) up]
  have "frame bookings_t (?aud row)" by (auto intro: frames)
  with flushed_clean(1) [OF up_rows(5,7,6)] frame_clean [OF frame_sync_assignment asg, of bookings_t] frame_clean [of bookings_t "?aud row" s2, OF _ aud]
  show ?thesis by simp
qed

lemma clean_sync_bookings:
  "clean bookings_t s \<Longrightarrow> sync_bookings sv reg now c nbs acc s = (Inr acc', s') \<Longrightarrow> clean bookings_t s'"
proof (induction nbs arbitrary: acc s)
  case (Cons nb nbs)
  from Cons.prems(2) obtain acc1 s1 where 1: "sync_booking sv reg now c nb acc s = (Inr acc1, s1)"
    and 2: "sync_bookings sv reg now c nbs acc1 s1 = (Inr acc', s')"
    by (auto elim!: bindE_Inr_E)
  from Cons.IH [OF clean_sync_booking [OF Cons.prems(1) 1] 2] show ?case .
qed simp

lemma rows_kept_two: "rows_kept t s1 s2 \<Longrightarrow> rows_kept t s2 s3 \<Longrightarrow> rows_kept t s1 s3"
  using rows_kept_trans [of t] by (auto dest: transpD)

lemma sync_inv:
  assumes "sync_body sv result c s = (Inr ps, s')" and "ss_db s = d" "ss_flushed s = d" "\<not> ss_autoflush s"
    and "distinct (map rm_key (rr_rooms (dv_registry sv)))" and "versions_inv sv d"
    and "states_before sv d (utc sv (sy_finished_at result))" and "flush_ok (ss_flushed s') (ss_db s')"
  shows "versions_inv sv (ss_db s')"
    and "instant (dv_tz sv) (utc sv (sy_finished_at result)) < instant (dv_tz sv) t \<Longrightarrow> states_before sv (ss_db s') t"
proof -
  let ?now = "utc sv (sy_finished_at result)"
  from assms(1) obtain reg sa run_id sb where reg: "ensure_registry sv s = (Inr reg, sa)"
    and run: "start_sync_run sv result reg c sa = (Inr run_id, sb)"
    and rest: "(if \<not> sy_success result then ret (failed_outcome run_id) else store_result sv result reg run_id c) sb = (Inr ps, s')"
    unfolding sync_body_def by (auto elim!: bindE_Inr_E)
  have k: "keys_ok d" using assms(6) by (simp add: versions_inv_def)
  have ka: "keys_ok (ss_flushed sa)" by (rule ensure_registry_run(2) [OF reg assms(2-4) k assms(5)])
  have fa: "rows_kept properties_t sa sb" "rows_kept rooms_t sa sb" "rows_kept room_states_t sa sb"
    "rows_kept overrides_t sa sb" "rows_kept outbox_t sa sb"
    by (simp_all add: frame_run [OF frame_start_sync_run run])
  have ca: "clean bookings_t sa"
    using frame_clean [OF frame_ensure_registry reg, of bookings_t] assms(2-4) k by (simp add: clean_def keys_ok_def)
  have cb: "clean bookings_t sb" using frame_clean [OF frame_start_sync_run run, of bookings_t] ca by simp
  have kb: "keys_ok (ss_flushed sb)" using safe_run [OF safe_start_sync run] ka by (simp add: flush_safe_def)
  obtain ids rc s2 s3 where
    r2: "rows_kept properties_t sa s2" "rows_kept rooms_t sa s2" "rows_kept room_states_t sa s2"
      "rows_kept overrides_t sa s2" "rows_kept outbox_t sa s2"
    and k2: "keys_ok (ss_flushed s2)" "db_bookings (ss_flushed s2) = db_bookings (ss_db s2)"
    and rc: "recalculate_rooms sv reg ids ?now c s2 = (Inr rc, s3)"
    and same: "db_outbox (ss_db s') = db_outbox (ss_db s3)" "db_room_states (ss_db s') = db_room_states (ss_db s3)"
      "db_properties (ss_db s') = db_properties (ss_db s3)" "db_rooms (ss_db s') = db_rooms (ss_db s3)"
  proof (cases "sy_success result")
    case False
    with rest have "s' = sb" by simp
    then show thesis
      by (intro that [OF fa, of "[]" no_recalculation sb]) (use kb cb in \<open>simp_all add: recalculate_rooms_def clean_def\<close>)
  next
    case True
    with rest have "store_result sv result reg run_id c sb = (Inr ps, s')" by simp
    then obtain aff sc rc sd se where steps: "sync_bookings sv reg ?now c (sy_bookings result) ([], 0) sb = (Inr aff, sc)"
      "recalculate_rooms sv reg (fst aff) ?now c sc = (Inr rc, sd)"
      "advance_cursor sv (rg_property reg) result ?now sd = (Inr (), se)"
      and last: "set_row sync_runs_t run_id (\<lambda>r. r\<lparr>srr_processed_bookings := int (length (sy_bookings result))\<rparr>) se = (Inr (), s')"
      by (elim store_result_steps)
    have fb: "rows_kept properties_t sb sc" "rows_kept rooms_t sb sc" "rows_kept room_states_t sb sc"
      "rows_kept overrides_t sb sc" "rows_kept outbox_t sb sc"
      by (simp_all add: frame_run [OF frame_sync_bookings steps(1)])
    have "clean bookings_t sc" by (rule clean_sync_bookings [OF cb steps(1)])
    moreover have "keys_ok (ss_flushed sc)" using safe_run [OF safe_sync_bookings steps(1)] kb by (simp add: flush_safe_def)
    ultimately show thesis
      using frame_db [OF frame_advance_cursor steps(3), of outbox_t] frame_db [OF frame_set_row last, of outbox_t]
        frame_db [OF frame_advance_cursor steps(3), of room_states_t] frame_db [OF frame_set_row last, of room_states_t]
        frame_db [OF frame_advance_cursor steps(3), of properties_t] frame_db [OF frame_set_row last, of properties_t]
        frame_db [OF frame_advance_cursor steps(3), of rooms_t] frame_db [OF frame_set_row last, of rooms_t]
      by (intro that [OF rows_kept_two [OF fa(1) fb(1)] rows_kept_two [OF fa(2) fb(2)]
            rows_kept_two [OF fa(3) fb(3)] rows_kept_two [OF fa(4) fb(4)] rows_kept_two [OF fa(5) fb(5)] _ _ steps(2)]) (simp_all add: clean_def)
  qed
  note Q = recalculated_versions [OF reg assms(2-7) rc r2 k2]
  show "versions_inv sv (ss_db s')"
    using Q(1,4) keys_ok_flush [OF assms(8)] room_versions_cong [OF same] states_known_cong [OF same(2-4)]
    by (simp add: versions_inv_def list_all_iff)
  show "states_before sv (ss_db s') t" if lt: "instant (dv_tz sv) ?now < instant (dv_tz sv) t"
  proof -
    have "states_before sv (ss_db s2) ?now" using assms(7) Q(3) states_before_cong by metis
    from states_before_later [OF Q(2) this lt] same(2) show ?thesis using states_before_cong by metis
  qed
qed

section \<open>Commands of the panels\<close>

definition same_versions :: "mqtt_topics \<Rightarrow> session \<Rightarrow> session \<Rightarrow> bool" where
  "same_versions t s s' \<longleftrightarrow>
     (\<forall>k. published_versions t k (ss_db s') = published_versions t k (ss_db s)
        \<and> retained (room_pms_state t k) (ss_db s') = retained (room_pms_state t k) (ss_db s)
        \<and> retained (room_intent_state_topic t k) (ss_db s') = retained (room_intent_state_topic t k) (ss_db s))"

lemma same_versions_rel: "transp (same_versions t)"
  by (auto simp: transp_def same_versions_def)

lemma same_versions_frame: "frame outbox_t m \<Longrightarrow> keeps (same_versions t) m"
  by (auto simp: keeps_def rows_kept_def same_versions_def published_versions_def retained_def)

lemma same_versions_bind: "keeps (same_versions t) m \<Longrightarrow> (\<And>v. keeps (same_versions t) (f v)) \<Longrightarrow> keeps (same_versions t) (bindE m f)"
  by (rule keeps_bindE [OF same_versions_rel])

lemma same_versions_control: "keeps (same_versions (dv_topics sv)) (queue_event sv (room_control_state (dv_topics sv) k) p now c)"
  unfolding keeps_def same_versions_def
  by (auto simp: queue_event_run published_versions_def map_filter_append map_filter_simps version_in_def topics_distinct
      retained_def retained_in_def)

lemma same_versions_accept: "keeps (same_versions (dv_topics sv)) (accept_row sv p r k f row now c)"
  unfolding accept_row_def Let_def
  by (intro same_versions_bind same_versions_control same_versions_frame) (auto intro!: frames)

lemma same_versions_command: "keeps (same_versions (dv_topics sv)) (apply_mqtt_command sv k field payload now corr)"
proof -
  note parts = same_versions_frame [OF frame_correlation] same_versions_frame [OF frame_ensure_property]
    same_versions_frame [OF frame_ensure_room] same_versions_frame [OF frame_attempt [OF frame_build_override]]
  show ?thesis
  proof (cases "by_key (dv_registry sv) k")
    case None
    then show ?thesis
      unfolding apply_mqtt_command_def Let_def
      by (intro same_versions_bind parts; simp) (rule same_versions_frame, auto intro!: frames)
  next
    case (Some rm)
    then show ?thesis
      unfolding apply_mqtt_command_def Let_def
      by (intro same_versions_bind parts; simp; intro same_versions_bind parts; simp split: sum.split)
         (auto intro: same_versions_accept same_versions_frame intro!: frames)
  qed
qed

lemma command_rows:
  assumes "apply_mqtt_command sv k field payload now corr s = (Inr res, s')"
  obtains p s0 s1 s2 where "ss_db s0 = ss_db s" "ss_flushed s0 = ss_flushed s" "ss_autoflush s0 = ss_autoflush s"
    "ensure_property sv s0 = (Inr p, s1)" "s2 = s1 \<or> (\<exists>rm row. ensure_room sv p rm s1 = (Inr row, s2))"
    "db_properties (ss_db s') = db_properties (ss_db s2)" "db_rooms (ss_db s') = db_rooms (ss_db s2)"
proof -
  let ?now = "to_utc (dv_tz sv) now"
  let ?unknown = "\<lambda>c p. bindE (audit_rejected sv p None k field ''room is not in the configured registry'' ?now c)
      (\<lambda>_. ret \<lparr>cr_accepted = False, cr_room_key = None, cr_correlation_id = c, cr_error = Some ''unknown_room''\<rparr>)"
  let ?known = "\<lambda>c p rm row. bindE (attemptE (build_override_row sv row field payload ?now)) (\<lambda>built.
          case built of
            Inr ov \<Rightarrow> accept_row sv p row (rm_key rm) field ov ?now c
          | Inl e \<Rightarrow>
              (if is_ValueError e then
                 bindE (audit_rejected sv p (Some (rmr_id row)) (rm_key rm) field (exc_text sv e) ?now c) (\<lambda>_.
                 ret \<lparr>cr_accepted = False, cr_room_key = Some (rm_key rm), cr_correlation_id = c,
                      cr_error = Some (exc_text sv e)\<rparr>)
               else raise e))"
  from assms obtain c s0 p s1 where c: "given_or_fresh sv corr s = (Inr c, s0)" and p: "ensure_property sv s0 = (Inr p, s1)"
    and rest: "(case by_key (dv_registry sv) k of None \<Rightarrow> ?unknown c p
        | Some rm \<Rightarrow> bindE (ensure_room sv p rm) (?known c p rm)) s1 = (Inr res, s')"
    unfolding apply_mqtt_command_def Let_def given_or_fresh_def by (elim bindE_Inr_E) blast
  note first = given_or_fresh_run [OF c] p
  have kept: "frame properties_t (?unknown c p)" "frame rooms_t (?unknown c p)"
    "frame properties_t (?known c p rm row)" "frame rooms_t (?known c p rm row)" for rm row
    by (auto intro!: frames split: sum.split)
  show thesis
  proof (cases "by_key (dv_registry sv) k")
    case None
    with rest have "?unknown c p s1 = (Inr res, s')" by simp
    from frame_db [OF kept(1) this] frame_db [OF kept(2) this] first show thesis by (intro that [of s0 p s1 s1]) simp_all
  next
    case (Some rm)
    with rest obtain row s2 where room: "ensure_room sv p rm s1 = (Inr row, s2)" and "?known c p rm row s2 = (Inr res, s')"
      by (auto elim: bindE_Inr_E)
    from frame_db [OF kept(3) this(2)] frame_db [OF kept(4) this(2)] first room show thesis
      by (intro that [of s0 p s1 s2]) auto
  qed
qed


lemma room_versions_mono:
  assumes "room_versions_ok sv d k" and "\<And>i. room_row_id sv d k = Some i \<Longrightarrow> room_row_id sv d' k = Some i"
    and "published_versions (dv_topics sv) k d' = published_versions (dv_topics sv) k d"
    and "db_room_states d' = db_room_states d"
    and "\<And>h v. shows_digest sv k d' h v = shows_digest sv k d h v"
    and "\<And>i. room_row_id sv d k = None \<Longrightarrow> room_row_id sv d' k = Some i \<Longrightarrow> room_last_state sv d i = None"
  shows "room_versions_ok sv d' k"
proof (cases "room_row_id sv d k")
  case None
  with assms show ?thesis
    by (auto simp: room_versions_ok_def versions_ok_def room_last_state_def split: option.split)
next
  case (Some i)
  from assms(2) [OF this] Some assms(1,3-5) show ?thesis
    by (simp add: room_versions_ok_def versions_ok_def room_last_state_def shows_state_def cong: option.case_cong)
qed

lemma command_inv:
  assumes "apply_mqtt_command sv k field payload now corr s = (Inr res, s')"
    and "ss_db s = d" "ss_flushed s = d" "\<not> ss_autoflush s" and "versions_inv sv d"
    and "flush_ok (ss_flushed s') (ss_db s')"
  shows "versions_inv sv (ss_db s')" and "db_room_states (ss_db s') = db_room_states d"
proof -
  from assms(5) have k: "keys_ok d" by (simp add: versions_inv_def)
  from assms(1) obtain p s0 s1 s2 where s0: "ss_db s0 = d" "ss_flushed s0 = d" "\<not> ss_autoflush s0"
    and p: "ensure_property sv s0 = (Inr p, s1)" and room: "s2 = s1 \<or> (\<exists>rm row. ensure_room sv p rm s1 = (Inr row, s2))"
    and same: "db_properties (ss_db s') = db_properties (ss_db s2)" "db_rooms (ss_db s') = db_rooms (ss_db s2)"
    by (elim command_rows) (use assms(2-4) in auto)
  have c: "clean properties_t s0" "clean rooms_t s0" using s0 k by (simp_all add: clean_def keys_ok_def)
  have steady: "steady_rooms s1"
    using frame_clean [OF frame_ensure_property p, of rooms_t] c(2) by (simp add: steady_rooms_def clean_def)
  have ids: "room_row_id sv (ss_db s') key = Some i" if old: "room_row_id sv d key = Some i" for key i
  proof -
    from old obtain p0 where p0: "filter (\<lambda>r. ppr_key r = property_key sv) (db_properties d) = [p0]" "room_ids_at p0 key d = [i]"
      by (auto simp: room_row_id_Some)
    have "ppr_id p = ppr_id p0" using ensure_property_id [OF c(1) p] p0(1) s0(1) by simp
    then have "room_ids_at p key (ss_db s1) = [i]"
      using p0(2) frame_db [OF frame_ensure_property p, of rooms_t] s0(1) by (simp add: room_ids_at_def)
    with room ensure_room_id [OF steady] have "room_ids_at p key (ss_db s2) = [i]" by blast
    moreover have "db_properties (ss_db s2) = db_properties (ss_db s1)"
      using room frame_db [OF frame_ensure_room, of properties_t] by fastforce
    ultimately show ?thesis
      using ensure_property_row [OF c(1) p] same by (simp add: room_row_id_Some room_ids_at_def)
  qed
  have "same_versions (dv_topics sv) s s'" by (rule keeps_eqD [OF same_versions_command assms(1)])
  note kept = this [unfolded same_versions_def, rule_format]
  have vs: "published_versions (dv_topics sv) key (ss_db s') = published_versions (dv_topics sv) key d"
    "shows_digest sv key (ss_db s') h v = shows_digest sv key d h v" for key h v
    using kept [of key] assms(2) by (simp, intro shows_digest_cong) simp_all
  show st: "db_room_states (ss_db s') = db_room_states d"
    using frame_db [OF frame_apply_command assms(1), of room_states_t] assms(2) by simp
  show "versions_inv sv (ss_db s')"
    unfolding versions_inv_def list_all_iff
  proof (intro conjI ballI)
    show kept: "keys_ok (ss_db s')" by (rule keys_ok_flush [OF assms(6)])
    have known: "states_known sv d" using assms(5) by (simp add: versions_inv_def)
    then show "states_known sv (ss_db s')" by (rule states_known_mono [OF _ st ids])
    fix rm
    assume "rm \<in> set (rr_rooms (dv_registry sv))"
    then have "room_versions_ok sv d (rm_key rm)" using assms(5) by (simp add: versions_inv_def list_all_iff)
    then show "room_versions_ok sv (ss_db s') (rm_key rm)"
      by (rule room_versions_mono [OF _ ids vs(1) st vs(2)])
         (use room_last_state_known [OF known _ _ ids] kept in \<open>simp_all add: keys_ok_def\<close>)
  qed
qed

section \<open>Runs\<close>

lemma op_run_inv:
  assumes "op_run sv op (new_session d n) = (r, s')" and "versions_inv sv d" and "states_before sv d (op_time sv op)"
    and "distinct (map rm_key (rr_rooms (dv_registry sv)))"
  shows "versions_inv sv (ss_db s')"
    and "instant (dv_tz sv) (op_time sv op) < instant (dv_tz sv) t \<Longrightarrow> states_before sv (ss_db s') t"
proof (atomize (full), cases r)
  case (Inl e)
  with assms(1) have "ss_db s' = d" by (auto intro: op_run_raised)
  with assms(2,3) show "versions_inv sv (ss_db s')
    \<and> (instant (dv_tz sv) (op_time sv op) < instant (dv_tz sv) t \<longrightarrow> states_before sv (ss_db s') t)"
    by (force simp: states_before_def list_all_iff)
next
  case (Inr u)
  have new: "\<not> ss_autoflush (new_session d n)" "ss_db (new_session d n) = d" "ss_flushed (new_session d n) = d"
    by (simp_all add: new_session_def)
  have unit: "\<exists>v. m x = (Inr v, s')" if "bindE m (\<lambda>_. ret ()) x = (Inr u, s')" for m :: "(session, 'y) eff" and x
    using that by (auto elim: bindE_Inr_E)
  let ?goal = "versions_inv sv (ss_db s')
    \<and> (instant (dv_tz sv) (op_time sv op) < instant (dv_tz sv) t \<longrightarrow> states_before sv (ss_db s') t)"
  have evaluated: ?goal
    if run: "bindE (given_or_fresh sv None) (\<lambda>c. transaction (evaluate_body sv ids (utc sv now) c)) (new_session d n) = (Inr ps, s')"
      and time: "op_time sv op = utc sv now" for ids now ps
  proof -
    from run obtain c s0 s1 where s0: "ss_db s0 = d" "ss_flushed s0 = d" "\<not> ss_autoflush s0"
      and body: "evaluate_body sv ids (utc sv now) c s0 = (Inr ps, s1)" and fl: "flush_ok (ss_flushed s1) (ss_db s1)"
      and s': "ss_db s' = ss_db s1"
      by (elim transaction_given) (use new in auto)
    from evaluate_inv [OF body s0 assms(4,2) assms(3) [unfolded time] fl] s' time show ?thesis by simp
  qed
  show ?goal
  proof (cases op)
    case (OpSync result)
    with assms(1) Inr unit obtain ps where "apply_sync_result sv result None (new_session d n) = (Inr ps, s')" by fastforce
    then obtain c s0 s1 where s0: "ss_db s0 = d" "ss_flushed s0 = d" "\<not> ss_autoflush s0"
      and body: "sync_body sv result c s0 = (Inr ps, s1)" and fl: "flush_ok (ss_flushed s1) (ss_db s1)"
      and s': "ss_db s' = ss_db s1"
      unfolding apply_sync_result_def by (elim transaction_given) (use new in auto)
    from assms(3) OpSync have "states_before sv d (utc sv (sy_finished_at result))" by simp
    from sync_inv [OF body s0 assms(4,2) this fl] s' OpSync show ?thesis by simp
  next
    case (OpEvaluateAll now)
    with assms(1) Inr unit obtain ps where "evaluate_all_rooms sv (Aware now) None (new_session d n) = (Inr ps, s')" by fastforce
    with evaluated OpEvaluateAll show ?thesis by (auto simp: evaluate_all_rooms_def)
  next
    case (OpEvaluateKeys keys now)
    with assms(1) Inr unit obtain ps where "evaluate_room_keys sv keys (Aware now) None (new_session d n) = (Inr ps, s')" by fastforce
    with evaluated OpEvaluateKeys show ?thesis by (auto simp: evaluate_room_keys_def)
  next
    case (OpCommand k field payload now)
    with assms(1) Inr unit obtain res where
      "transaction (apply_mqtt_command sv k field payload (Aware now) None) (new_session d n) = (Inr res, s')" by fastforce
    then obtain s1 where body: "apply_mqtt_command sv k field payload (Aware now) None (new_session d n) = (Inr res, s1)"
      and fl: "flush_ok (ss_flushed s1) (ss_db s1)" and s': "ss_db s' = ss_db s1"
      by (elim transaction_Inr) auto
    note C = command_inv [OF body new(2,3,1) assms(2) fl]
    have "states_before sv (ss_db s') t" if "instant (dv_tz sv) (op_time sv op) < instant (dv_tz sv) t"
      using that assms(3) C(2) s' by (force simp: states_before_def list_all_iff)
    with C(1) s' show ?thesis by simp
  qed
qed

definition times_grow :: "db_service \<Rightarrow> db_op list \<Rightarrow> bool" where
  "times_grow sv ops = sorted_wrt (\<lambda>a b. instant (dv_tz sv) (op_time sv a) < instant (dv_tz sv) (op_time sv b)) ops"

lemma run_ops_inv:
  assumes "versions_inv sv d" and "times_grow sv ops" and "\<And>op. op \<in> set ops \<Longrightarrow> states_before sv d (op_time sv op)"
    and "distinct (map rm_key (rr_rooms (dv_registry sv)))"
  shows "versions_inv sv (fst (run_ops sv ops (d, n)))"
  using assms(1-3)
proof (induction ops arbitrary: d n)
  case Nil
  then show ?case by simp
next
  case (Cons op ops)
  obtain r s' where run: "op_run sv op (new_session d n) = (r, s')" by fastforce
  note inv = op_run_inv [OF run Cons.prems(1) Cons.prems(3) assms(4)]
  have "versions_inv sv (fst (run_ops sv ops (ss_db s', ss_draws s')))"
  proof (rule Cons.IH)
    show "versions_inv sv (ss_db s')" using inv(1) by simp
    show "times_grow sv ops" using Cons.prems(2) by (simp add: times_grow_def)
    show "states_before sv (ss_db s') (op_time sv op')" if "op' \<in> set ops" for op'
      using inv(2) [of "op_time sv op'"] that Cons.prems(2) by (simp add: times_grow_def)
  qed
  with run show ?case by simp
qed

lemma empty_versions_inv: "versions_inv sv empty_database"
  by (simp add: versions_inv_def empty_database_def keys_ok_def states_known_def room_versions_ok_def room_row_id_def
      published_versions_def map_filter_simps list_all_iff)

lemma room_versions_sorted:
  assumes "versions_inv sv d" and "rm \<in> set (rr_rooms (dv_registry sv))"
  shows "sorted_wrt (<) (published_versions (dv_topics sv) (rm_key rm) d)"
proof -
  have "room_versions_ok sv d (rm_key rm)" using assms by (simp add: versions_inv_def list_all_iff)
  then show ?thesis by (cases "room_row_id sv d (rm_key rm)") (simp_all add: room_versions_ok_def versions_ok_def)
qed

lemma versions_grow:
  assumes "distinct (map rm_key (rr_rooms (dv_registry sv)))" and "times_grow sv ops"
    and "rm \<in> set (rr_rooms (dv_registry sv))"
  shows "sorted_wrt (<) (published_versions (dv_topics sv) (rm_key rm) (fst (run_ops sv ops (empty_database, n))))"
proof -
  note empty_versions_inv
  moreover have "states_before sv empty_database t" for t by (simp add: states_before_def empty_database_def)
  ultimately have "versions_inv sv (fst (run_ops sv ops (empty_database, n)))" using assms(1,2) by (intro run_ops_inv)
  with assms(3) show ?thesis by (simp add: room_versions_sorted)
qed

end
