(* ===== verification/Control_Panel.thy ===== *)
theory Control_Panel
  imports Intent_Versions
begin

text \<open>
  The manual control of a room as an abstract panel: a draft of the override and the time it
  lasts to. Commands change one field of the draft that is in force; after its time the panel
  falls back to automatic control. The history of override rows in the database refines it.
\<close>

section \<open>The panel\<close>

record panel =
  pn_draft :: override_draft
  pn_until :: "datetime option"

definition idle_panel :: panel where
  "idle_panel = \<lparr>pn_draft = default_override_draft, pn_until = None\<rparr>"

definition panel_live :: "db_service \<Rightarrow> panel \<Rightarrow> datetime \<Rightarrow> bool" where
  "panel_live sv p now = (case pn_until p of None \<Rightarrow> False | Some t \<Rightarrow> dt_less (dv_tz sv) now t)"

definition panel_draft :: "db_service \<Rightarrow> panel \<Rightarrow> datetime \<Rightarrow> override_draft" where
  "panel_draft sv p now = (if panel_live sv p now then pn_draft p else default_override_draft)"

definition clamped :: "automation_policy \<Rightarrow> override_draft \<Rightarrow> override_draft" where
  "clamped ap d = d\<lparr>od_target_temperature_c := map_option (clamp_temperature ap) (od_target_temperature_c d)\<rparr>"

text \<open>A command at a time, with the checkout of the room's current booking if there is one.\<close>

definition panel_command ::
  "db_service \<Rightarrow> booking_boundary option \<Rightarrow> datetime \<Rightarrow> string \<Rightarrow> string \<Rightarrow> panel \<Rightarrow> panel result" where
  "panel_command sv boundary now field text p =
     (let ap = hp_automation (dv_policy sv) in
      bind_result (command_draft ap (panel_draft sv p now) field text) (\<lambda>d.
      if od_control_mode d = CM_AUTOMATIC then Inr idle_panel
      else if od_duration d = ''until_checkout'' then
        (case boundary of
           None \<Rightarrow> Inl (ValueError ''until_checkout requires a current assigned reservation'')
         | Some b \<Rightarrow> Inr \<lparr>pn_draft = clamped ap d, pn_until = Some (bb_checkout_at b)\<rparr>)
      else Inr \<lparr>pn_draft = clamped ap d,
                pn_until = Some (dt_plus now (int_of_digits (od_duration d) * minute_us))\<rparr>))"

section \<open>Rows that show a panel\<close>

text \<open>The columns of a row that is in force or was, up to the times.\<close>

definition row_has_draft :: "override_row \<Rightarrow> override_draft \<Rightarrow> bool" where
  "row_has_draft r d \<longleftrightarrow>
     od_control_mode d \<noteq> CM_AUTOMATIC \<and> ovr_control_mode r = control_mode_value (od_control_mode d)
     \<and> ovr_hvac_mode r = Some (manual_hvac_mode_value (od_hvac_mode d))
     \<and> ovr_target_temperature_c r = od_target_temperature_c d
     \<and> ovr_water_heater_enabled r = od_water_heater_enabled d \<and> od_duration d \<in> set SUPPORTED_DURATIONS"

definition row_lasts :: "override_row \<Rightarrow> string \<Rightarrow> datetime \<Rightarrow> bool" where
  "row_lasts r duration t \<longleftrightarrow>
     dt_zone t = UTC
     \<and> (if duration = ''until_checkout''
        then ovr_until_checkout r \<and> ovr_booking_id r \<noteq> None \<and> ovr_checkout_at r = Some t
        else \<not> ovr_until_checkout r \<and> ovr_expires_at r = Some t \<and> dt_zone (ovr_starts_at r) = UTC
             \<and> t = dt_plus (ovr_starts_at r) (int_of_digits duration * minute_us))"

definition panel_shown :: "override_row option \<Rightarrow> panel \<Rightarrow> bool" where
  "panel_shown row p \<longleftrightarrow>
     (case row of
        None \<Rightarrow> p = idle_panel
      | Some r \<Rightarrow>
          (case pn_until p of
             None \<Rightarrow> p = idle_panel \<and> ovr_control_mode r = control_mode_value CM_AUTOMATIC
           | Some t \<Rightarrow> row_has_draft r (pn_draft p) \<and> row_lasts r (od_duration (pn_draft p)) t))"

lemma utc_of_UTC [simp]: "dt_zone t = UTC \<Longrightarrow> utc sv t = t"
  by (simp add: astimezone_def)

lemma control_value_eq [simp]: "control_mode_value m = control_mode_value m' \<longleftrightarrow> m = m'"
  by (metis enum_roundtrips(3) Inr_inject)

lemma control_value_automatic [simp]: "control_mode_value m = ''automatic'' \<longleftrightarrow> m = CM_AUTOMATIC"
  by (cases m) simp_all

lemma hvac_value_text [simp]: "manual_hvac_mode_value h \<noteq> []"
  by (cases h) simp_all

text \<open>The minutes of a duration survive the seconds and the division by 60 in floating point.\<close>

lemma minutes_from_floats:
  assumes "d \<in> set SUPPORTED_DURATIONS" and "d \<noteq> ''until_checkout''"
  shows "bind_result (f_round (f_over_int (total_seconds (int_of_digits d * minute_us)) 60))
            (\<lambda>m. Inr (if show_int m \<in> set SUPPORTED_DURATIONS then show_int m else DEFAULT_DURATION)) = Inr d"
proof -
  have n: "int_of_digits ''60'' = 60" "int_of_digits ''240'' = 240" "int_of_digits ''720'' = 720"
    by (simp_all add: int_of_digits_def)
  have s: "show_int 60 = ''60''" "show_int 240 = ''240''" "show_int 720 = ''720''" by code_simp+
  have r: "round64 3600 = Fin 3600" "round64 14400 = Fin 14400" "round64 43200 = Fin 43200"
    "round64 60 = Fin 60" "round64 240 = Fin 240" "round64 720 = Fin 720"
    using round64_of_int [of 3600] round64_of_int [of 14400] round64_of_int [of 43200]
      round64_of_int [of 60] round64_of_int [of 240] round64_of_int [of 720] by simp_all
  have h: "round_half_even 60 = 60" "round_half_even 240 = 240" "round_half_even 720 = 720" by simp_all
  from assms consider "d = ''60''" | "d = ''240''" | "d = ''720''" by (auto simp: SUPPORTED_DURATIONS_def)
  then show ?thesis by cases (simp_all add: n s r total_seconds_def SUPPORTED_DURATIONS_def)
qed

lemma duration_shown:
  assumes "row_lasts r d t" and "d \<in> set SUPPORTED_DURATIONS"
  shows "duration_from_row sv r = Inr d"
proof (cases "d = ''until_checkout''")
  case True
  with assms(1) show ?thesis by (simp add: row_lasts_def duration_from_row_def)
next
  case False
  with assms(1) have "ovr_expires_at r = Some t" "\<not> ovr_until_checkout r" "dt_zone t = UTC" "dt_zone (ovr_starts_at r) = UTC"
    "dt_diff (dv_tz sv) t (ovr_starts_at r) = int_of_digits d * minute_us"
    by (simp_all add: row_lasts_def dt_diff_def)
  with minutes_from_floats [OF assms(2) False] show ?thesis
    by (simp add: duration_from_row_def del: utc_of_UTC add: utc_of_UTC [of _ sv, simplified])
qed

lemma shown_active:
  assumes "panel_shown (Some r) p" and "dt_zone now = UTC"
  shows "override_row_is_active sv r now = panel_live sv p now"
proof (cases "pn_until p")
  case None
  with assms(1) show ?thesis by (simp add: panel_shown_def override_row_is_active_def panel_live_def)
next
  case (Some t)
  with assms show ?thesis
    by (auto simp: panel_shown_def row_has_draft_def row_lasts_def override_row_is_active_def panel_live_def astimezone_def
        split: if_splits)
qed

lemma current_draft_shown:
  assumes "latest_override_row sv i s = (Inr row, s)" and "panel_shown row p" and "dt_zone now = UTC"
  shows "current_draft sv i now s = (Inr (panel_draft sv p now), s)"
proof (cases row)
  case None
  with assms show ?thesis
    by (simp add: current_draft_def bindE_def panel_shown_def panel_draft_def panel_live_def idle_panel_def)
next
  case (Some r)
  note active = shown_active [OF assms(2) [unfolded Some] assms(3), of sv]
  show ?thesis
  proof (cases "panel_live sv p now")
    case False
    with assms(1) Some active show ?thesis by (simp add: current_draft_def bindE_def panel_draft_def)
  next
    case True
    then obtain t where t: "pn_until p = Some t" by (auto simp: panel_live_def split: option.splits)
    with assms(2) Some have d: "row_has_draft r (pn_draft p)" "row_lasts r (od_duration (pn_draft p)) t"
      by (simp_all add: panel_shown_def)
    have "duration_from_row sv r = Inr (od_duration (pn_draft p))"
      using duration_shown [OF d(2)] d(1) by (simp add: row_has_draft_def)
    with True assms(1) Some active d(1) show ?thesis
      by (auto simp: current_draft_def bindE_def panel_draft_def row_has_draft_def hvac_mode_text_def)
  qed
qed


section \<open>A command on the stored rows\<close>

text \<open>The booking boundary as a function of the database.\<close>

definition room_boundary :: "db_service \<Rightarrow> database \<Rightarrow> uuid \<Rightarrow> datetime \<Rightarrow> booking_boundary option" where
  "room_boundary sv d i now =
     Option.bind (room_last_state sv d i) (\<lambda>st.
     Option.bind (rsr_booking_id st) (\<lambda>b.
     if rsr_automation_phase st \<notin> set boundary_phases then None
     else Option.bind (find (\<lambda>r. bkr_id r = b) (db_bookings d)) (\<lambda>bk.
       let checkout = utc sv (combine (bkr_departure_date bk)
             (pp_default_check_out_time (hp_property (dv_policy sv))) (policy_tz (dv_policy sv)))
       in if dt_le (dv_tz sv) checkout (utc sv now) then None
          else Some \<lparr>bb_booking_id = bkr_id bk, bb_checkout_at = checkout\<rparr>)))"

lemma latest_state_clean:
  assumes "clean room_states_t s"
  shows "latest_room_state sv i s = (Inr (room_last_state sv (ss_db s) i), s)"
  using latest_grown [of s room_states_t "db_room_states (ss_db s)" "[]" rsr_created_at rsr_id "dv_tz sv" "\<lambda>r. rsr_room_id r = i"]
    assms by (simp add: latest_room_state_def room_last_state_def clean_def)

lemma latest_override_clean:
  assumes "clean overrides_t s"
  shows "latest_override_row sv i s = (Inr (room_override_row sv (ss_db s) i), s)"
  using latest_grown [of s overrides_t "db_overrides (ss_db s)" "[]" ovr_starts_at ovr_id "dv_tz sv" "\<lambda>r. ovr_room_id r = i"]
    assms by (simp add: latest_override_row_def room_override_row_def clean_def)

lemma boundary_clean:
  assumes "clean room_states_t s" and "clean bookings_t s"
  shows "current_booking_boundary sv i now s = (Inr (room_boundary sv (ss_db s) i now), s)"
  using get_row_clean [OF assms(2)]
  by (simp add: current_booking_boundary_def room_boundary_def bindE_def latest_state_clean [OF assms(1)] Let_def
      split: option.split)

lemma boundary_zone: "room_boundary sv d i now = Some b \<Longrightarrow> dt_zone (bb_checkout_at b) = UTC"
  by (auto simp: room_boundary_def bind_eq_Some_conv Let_def split: if_splits)

lemma default_supported [simp]: "DEFAULT_DURATION \<in> set SUPPORTED_DURATIONS"
  by (simp add: DEFAULT_DURATION_def SUPPORTED_DURATIONS_def)

lemma control_mode_cases [simp]: "v \<noteq> CM_AUTOMATIC \<Longrightarrow> v \<noteq> CM_OFF \<Longrightarrow> v = CM_MANUAL"
  by (cases v) simp_all

lemma drafted_duration:
  assumes "command_draft ap base field payload = Inr d" and "od_duration base \<in> set SUPPORTED_DURATIONS"
  shows "od_duration d \<in> set SUPPORTED_DURATIONS"
proof -
  have "od_duration d \<in> {od_duration base, DEFAULT_DURATION} \<union> set SUPPORTED_DURATIONS"
    using assms(1) by (auto simp: command_draft_def bind_result_Inr parse_duration_def split: if_splits control_mode.splits)
  with assms(2) show ?thesis by auto
qed

lemma panel_draft_duration: "panel_shown row p \<Longrightarrow> od_duration (panel_draft sv p now) \<in> set SUPPORTED_DURATIONS"
  by (auto simp: panel_draft_def panel_live_def panel_shown_def row_has_draft_def default_override_draft_def
      idle_panel_def split: option.splits)

text \<open>Building a row implements the panel's command.\<close>

lemma build_row_shown:
  assumes "clean overrides_t s" "clean room_states_t s" "clean bookings_t s"
    and "panel_shown (room_override_row sv (ss_db s) (rmr_id rr)) p" and "dt_zone now = UTC"
    and "build_override_row sv rr field payload now s = (r, s')"
  shows "case bind_result (payload_text sv payload)
             (\<lambda>msg. panel_command sv (room_boundary sv (ss_db s) (rmr_id rr) now) now field msg p) of
           Inl e \<Rightarrow> r = Inl e
         | Inr p' \<Rightarrow> \<exists>row. r = Inr row \<and> panel_shown (Some row) p' \<and> ovr_room_id row = rmr_id rr \<and> ovr_starts_at row = now"
proof (cases "payload_text sv payload")
  case (Inl e)
  with assms(6) show ?thesis by (simp add: build_override_row_def Let_def)
next
  case (Inr msg)
  let ?ap = "hp_automation (dv_policy sv)" let ?base = "panel_draft sv p now"
  note base = current_draft_shown [OF latest_override_clean [OF assms(1)] assms(4,5)]
  note bound = boundary_clean [OF assms(2,3)]
  note defs = build_override_row_def panel_command_def Let_def
  show ?thesis
  proof (cases "command_draft ?ap ?base field msg")
    case (Inl e)
    with assms(6) Inr base show ?thesis by (simp add: defs)
  next
    case (Inr d)
    note draft = this
    have dur: "od_duration d \<in> set SUPPORTED_DURATIONS"
      by (rule drafted_duration [OF Inr panel_draft_duration [OF assms(4)]])
    consider (auto) "od_control_mode d = CM_AUTOMATIC"
      | (none) "od_control_mode d \<noteq> CM_AUTOMATIC" "od_duration d = ''until_checkout''"
          "room_boundary sv (ss_db s) (rmr_id rr) now = None"
      | (checkout) b where "od_control_mode d \<noteq> CM_AUTOMATIC" "od_duration d = ''until_checkout''"
          "room_boundary sv (ss_db s) (rmr_id rr) now = Some b"
      | (timed) "od_control_mode d \<noteq> CM_AUTOMATIC" "od_duration d \<noteq> ''until_checkout''"
      by (cases "room_boundary sv (ss_db s) (rmr_id rr) now") auto
    then show ?thesis
    proof cases
      case auto
      with assms(6) base \<open>payload_text sv payload = Inr msg\<close> draft show ?thesis
        by (auto simp: defs bindE_def fresh_id_def draw_uuid_def panel_shown_def idle_panel_def)
    next
      case none
      with assms(6) base \<open>payload_text sv payload = Inr msg\<close> draft bound show ?thesis
        by (auto simp: defs bindE_def expiry_for_duration_def)
    next
      case checkout
      with assms(6) base \<open>payload_text sv payload = Inr msg\<close> draft bound dur boundary_zone [OF checkout(3)] show ?thesis
        by (auto simp: defs bindE_def expiry_for_duration_def fresh_id_def draw_uuid_def panel_shown_def
            row_has_draft_def row_lasts_def clamped_def)
    next
      case timed
      with assms(5,6) base \<open>payload_text sv payload = Inr msg\<close> draft dur show ?thesis
        by (auto simp: defs bindE_def expiry_for_duration_def fresh_id_def draw_uuid_def panel_shown_def
            row_has_draft_def row_lasts_def clamped_def)
    qed
  qed
qed


section \<open>Refinement\<close>

lemma accepted_row:
  assumes "accept_row sv p rr k field row now c s = (Inr res, s')"
  shows "cr_accepted res" and "db_overrides (ss_db s') = db_overrides (ss_db s) @ [row\<lparr>ovr_command_id := c\<rparr>]"
proof -
  from assms obtain s1 s2 payload s3 s4 where add: "add_row overrides_t (row\<lparr>ovr_command_id := c\<rparr>) s = (Inr (), s1)"
    and fl: "flush s1 = (Inr (), s2)"
    and q: "queue_event sv (room_control_state (dv_topics sv) k) payload now c s2 = (Inr (), s3)"
    and a: "audit sv (Some (ppr_id p)) (Some (rmr_id rr)) None ''manual_override_command_accepted''
               ''Home Assistant manual override command accepted.''
               [(''room_key'', JStr k), (''field'', JStr field),
                (''control_mode'', JStr (ovr_control_mode row)), (''command_id'', JUuid c)] now c s3 = (Inr (), s4)"
    and res: "res = \<lparr>cr_accepted = True, cr_room_key = Some k, cr_correlation_id = c, cr_error = None\<rparr>" "s' = s4"
    unfolding accept_row_def Let_def by (auto elim!: bindE_Inr_E simp: lift_result_def)
  show "cr_accepted res" by (simp add: res)
  from add frame_db [OF frame_flush fl, of overrides_t] frame_db [OF frame_queue_event q, of overrides_t]
    frame_db [OF frame_audit a, of overrides_t] res(2)
  show "db_overrides (ss_db s') = db_overrides (ss_db s) @ [row\<lparr>ovr_command_id := c\<rparr>]"
    by (auto simp: add_row_def)
qed

lemma newest_override:
  assumes "db_overrides d' = db_overrides d @ [row]" and "ovr_room_id row = i"
    and "\<And>r. r \<in> set (db_overrides d) \<Longrightarrow> ovr_room_id r = i \<Longrightarrow> instant (dv_tz sv) (ovr_starts_at r) < instant (dv_tz sv) (ovr_starts_at row)"
  shows "room_override_row sv d' i = Some row"
proof -
  have "option_hd (latest_by ovr_starts_at ovr_id (dv_tz sv) (filter (\<lambda>r. ovr_room_id r = i) (db_overrides d) @ [row])) = Some row"
    using assms(3) by (intro latest_by_newest) auto
  with assms(1,2) show ?thesis by (simp add: room_override_row_def)
qed

lemma command_refines:
  assumes "apply_mqtt_command sv k field payload now corr (new_session d n) = (Inr res, s')"
    and "keys_ok d" and "by_key (dv_registry sv) k = Some rm"
    and "room_row_id sv (ss_db s') (rm_key rm) = Some i"
    and "panel_shown (room_override_row sv d i) p"
  shows "case bind_result (payload_text sv payload)
             (\<lambda>msg. panel_command sv (room_boundary sv d i (to_utc (dv_tz sv) now)) (to_utc (dv_tz sv) now) field msg p) of
           Inl e \<Rightarrow> \<not> cr_accepted res \<and> cr_error res = Some (exc_text sv e) \<and> db_overrides (ss_db s') = db_overrides d
         | Inr p' \<Rightarrow> cr_accepted res \<and> (\<exists>ov. db_overrides (ss_db s') = db_overrides d @ [ov] \<and> panel_shown (Some ov) p'
             \<and> ovr_room_id ov = i \<and> ovr_starts_at ov = to_utc (dv_tz sv) now)"
proof -
  let ?now = "to_utc (dv_tz sv) now"
  let ?reject = "\<lambda>c pr row e. bindE (audit_rejected sv pr (Some (rmr_id row)) (rm_key rm) field (exc_text sv e) ?now c) (\<lambda>_.
                 ret \<lparr>cr_accepted = False, cr_room_key = Some (rm_key rm), cr_correlation_id = c, cr_error = Some (exc_text sv e)\<rparr>)"
  let ?rest = "\<lambda>c pr row built. case built of
            Inr ov \<Rightarrow> accept_row sv pr row (rm_key rm) field ov ?now c
          | Inl e \<Rightarrow> (if is_ValueError e then ?reject c pr row e else raise e)"
  from assms(1,3) obtain c s0 pr s1 row s2 built s3 where c: "given_or_fresh sv corr (new_session d n) = (Inr c, s0)"
    and pr: "ensure_property sv s0 = (Inr pr, s1)" and row: "ensure_room sv pr rm s1 = (Inr row, s2)"
    and build: "build_override_row sv row field payload ?now s2 = (built, s3)"
    and rest: "?rest c pr row built s3 = (Inr res, s')"
    unfolding apply_mqtt_command_def Let_def given_or_fresh_def
    by (auto elim!: bindE_Inr_E simp: attemptE_def split: prod.splits)
  have s0: "ss_db s0 = d" "ss_flushed s0 = d" "\<not> ss_autoflush s0"
    using given_or_fresh_run [OF c] by (simp_all add: new_session_def)
  have c0: "clean properties_t s0" "clean rooms_t s0" "clean overrides_t s0" "clean room_states_t s0" "clean bookings_t s0"
    using s0 assms(2) by (simp_all add: clean_def keys_ok_def)
  have steady: "steady_rooms s1"
    using frame_clean [OF frame_ensure_property pr, of rooms_t] c0(2) by (simp add: steady_rooms_def clean_def)
  have c2: "clean overrides_t s2" "clean room_states_t s2" "clean bookings_t s2"
    using c0(3-5) by (simp_all add: frame_clean [OF frame_ensure_property pr] frame_clean [OF frame_ensure_room row])
  have d2: "db_overrides (ss_db s2) = db_overrides d" "db_room_states (ss_db s2) = db_room_states d"
    "db_bookings (ss_db s2) = db_bookings d"
    using s0(1) frame_db [OF frame_ensure_property pr, of overrides_t] frame_db [OF frame_ensure_room row, of overrides_t]
      frame_db [OF frame_ensure_property pr, of room_states_t] frame_db [OF frame_ensure_room row, of room_states_t]
      frame_db [OF frame_ensure_property pr, of bookings_t] frame_db [OF frame_ensure_room row, of bookings_t] by simp_all
  have d3: "db_overrides (ss_db s3) = db_overrides d" "db_properties (ss_db s3) = db_properties (ss_db s2)" "db_rooms (ss_db s3) = db_rooms (ss_db s2)"
    using frame_db [OF frame_build_override build, of overrides_t] frame_db [OF frame_build_override build, of properties_t]
      frame_db [OF frame_build_override build, of rooms_t] d2(1) by simp_all
  have "frame properties_t (?rest c pr row built)" "frame rooms_t (?rest c pr row built)"
    by (auto intro!: frames split: sum.split)
  from frame_db [OF this(1) rest] frame_db [OF this(2) rest]
  have d': "db_properties (ss_db s') = db_properties (ss_db s1)" "db_rooms (ss_db s') = db_rooms (ss_db s2)"
    using d3 frame_db [OF frame_ensure_room row, of properties_t] by simp_all
  have i: "rmr_id row = i"
    using assms(4) ensure_property_row [OF c0(1) pr] ensure_room_run(2) [OF steady row] d'
    by (auto simp: room_row_id_Some room_ids_at_def)
  have same: "room_override_row sv (ss_db s2) i = room_override_row sv d i" "room_boundary sv (ss_db s2) i ?now = room_boundary sv d i ?now"
    by (simp_all only: room_override_row_def room_boundary_def room_last_state_def d2)
  let ?abs = "bind_result (payload_text sv payload) (\<lambda>msg. panel_command sv (room_boundary sv d i ?now) ?now field msg p)"
  have built: "case ?abs of Inl e \<Rightarrow> built = Inl e
         | Inr p' \<Rightarrow> \<exists>ov. built = Inr ov \<and> panel_shown (Some ov) p' \<and> ovr_room_id ov = i \<and> ovr_starts_at ov = ?now"
    by (rule build_row_shown [OF c2 _ zone_to_utc build, of p, unfolded i same, OF assms(5)])
  show ?thesis
  proof (cases ?abs)
    case (Inl e)
    with built rest have rej: "?reject c pr row e s3 = (Inr res, s')" by (simp split: if_splits)
    have "frame overrides_t (?reject c pr row e)" by (intro frames) simp
    from frame_db [OF this rej] rej d3(1) Inl show ?thesis by (auto elim!: bindE_Inr_E)
  next
    case (Inr p')
    with built obtain ov where ov: "built = Inr ov" "panel_shown (Some ov) p'" "ovr_room_id ov = i" "ovr_starts_at ov = ?now" by auto
    with rest have acc: "accept_row sv pr row (rm_key rm) field ov ?now c s3 = (Inr res, s')" by simp
    note kept = accepted_row [OF acc]
    have "panel_shown (Some (ov\<lparr>ovr_command_id := c\<rparr>)) p'"
      using ov(2) by (auto simp: panel_shown_def row_has_draft_def row_lasts_def split: option.splits)
    with kept ov(3,4) d3(1) Inr show ?thesis by simp
  qed
qed


section \<open>The commands of the panel as a table\<close>

text \<open>The target that a draft keeps when its heating is switched on: its own unless it has none or zero.\<close>

fun kept_target :: "automation_policy \<Rightarrow> pyfloat option \<Rightarrow> pyfloat" where
  "kept_target ap (Some (Fin q)) = (if q = 0 then ap_default_heating_target_c ap else Fin q)"
| "kept_target ap (Some v) = v"
| "kept_target ap None = ap_default_heating_target_c ap"

text \<open>One rule for each command of the contract (\<^verbatim>\<open>docs/mqtt-contract.md\<close>): the topic's last part, the text, and
the draft it makes of the draft in force. What no rule allows is refused.\<close>

inductive panel_allows ::
  "automation_policy \<Rightarrow> override_draft \<Rightarrow> string \<Rightarrow> string \<Rightarrow> override_draft \<Rightarrow> bool"
  for ap d where
  return: "panel_allows ap d ''return-to-automatic'' text
     \<lparr>od_control_mode = CM_AUTOMATIC, od_hvac_mode = HV_OFF, od_target_temperature_c = None,
      od_water_heater_enabled = None, od_duration = ''60''\<rparr>"
| automatic: "panel_allows ap d ''mode'' ''automatic''
     (d\<lparr>od_control_mode := CM_AUTOMATIC, od_hvac_mode := HV_OFF, od_target_temperature_c := None,
        od_water_heater_enabled := None\<rparr>)"
| all_off: "panel_allows ap d ''mode'' ''off''
     (d\<lparr>od_control_mode := CM_OFF, od_hvac_mode := HV_OFF, od_target_temperature_c := None,
        od_water_heater_enabled := Some False\<rparr>)"
| manual: "panel_allows ap d ''mode'' ''manual''
     (d\<lparr>od_control_mode := CM_MANUAL, od_hvac_mode := (if od_hvac_mode d = HV_OFF then HV_AUTO else od_hvac_mode d),
        od_target_temperature_c := Some (kept_target ap (od_target_temperature_c d))\<rparr>)"
| hvac_off: "panel_allows ap d ''hvac-mode'' ''off''
     (d\<lparr>od_control_mode := CM_MANUAL, od_hvac_mode := HV_OFF, od_target_temperature_c := None\<rparr>)"
| hvac: "(text, m) \<in> {(''heat'', HV_HEAT), (''cool'', HV_COOL), (''auto'', HV_AUTO)} \<Longrightarrow>
     panel_allows ap d ''hvac-mode'' text
     (d\<lparr>od_control_mode := CM_MANUAL, od_hvac_mode := m,
        od_target_temperature_c := Some (kept_target ap (od_target_temperature_c d))\<rparr>)"
| temperature: "py_float text = Some t \<Longrightarrow>
     panel_allows ap d ''temperature'' text
     (d\<lparr>od_control_mode := CM_MANUAL, od_hvac_mode := (if od_hvac_mode d = HV_OFF then HV_HEAT else od_hvac_mode d),
        od_target_temperature_c := Some (clamp_temperature ap t)\<rparr>)"
| timed: "(text, minutes) \<in> {(''60'', 60), (''240'', 240), (''720'', 720)} \<Longrightarrow>
     minutes \<le> ap_manual_override_max_minutes ap \<Longrightarrow> od_control_mode d \<noteq> CM_AUTOMATIC \<Longrightarrow>
     panel_allows ap d ''duration'' text (d\<lparr>od_duration := text\<rparr>)"
| to_checkout: "od_control_mode d \<noteq> CM_AUTOMATIC \<Longrightarrow>
     panel_allows ap d ''duration'' ''until_checkout'' (d\<lparr>od_duration := ''until_checkout''\<rparr>)"
| heater_on: "lower text \<in> {''on'', ''true'', ''1'', ''yes''} \<Longrightarrow>
     panel_allows ap d ''water-heater'' text (d\<lparr>od_control_mode := CM_MANUAL, od_water_heater_enabled := Some True\<rparr>)"
| heater_off: "lower text \<in> {''off'', ''false'', ''0'', ''no''} \<Longrightarrow>
     panel_allows ap d ''water-heater'' text (d\<lparr>od_control_mode := CM_MANUAL, od_water_heater_enabled := Some False\<rparr>)"

lemma kept_target_or: "target_or t (ap_default_heating_target_c ap) = kept_target ap t"
  by (cases "(ap, t)" rule: kept_target.cases) (auto simp: target_or_def f_truthy_def)

lemma control_mode_text: "control_mode_of v = Inr m \<longleftrightarrow> v = control_mode_value m"
  by (auto simp: enum_roundtrips) (auto simp: control_mode_of_def enum_of_value_def all_control_mode_def split: if_splits)

lemma hvac_mode_texts: "manual_hvac_mode_of v = Inr m \<longleftrightarrow> v = manual_hvac_mode_value m"
  by (auto simp: enum_roundtrips) (auto simp: manual_hvac_mode_of_def enum_of_value_def all_manual_hvac_mode_def split: if_splits)

text \<open>The branches of the code are that table.\<close>

lemma mode_texts:
  "parse_control_mode v = Inr m \<longleftrightarrow> v = control_mode_value m"
  "parse_hvac_mode v = Inr h \<longleftrightarrow> v = manual_hvac_mode_value h"
  by (simp_all add: parse_control_mode_def parse_hvac_mode_def control_mode_text [symmetric] hvac_mode_texts [symmetric]
      split: sum.splits)

lemma duration_values: "int_of_digits ''60'' = 60" "int_of_digits ''240'' = 240" "int_of_digits ''720'' = 720"
  by (simp_all add: int_of_digits_def)

lemma duration_text:
  "parse_duration v ap = Inr w \<longleftrightarrow> w = v \<and> (v = ''until_checkout''
     \<or> (\<exists>n. (v, n) \<in> {(''60'', 60), (''240'', 240), (''720'', 720)} \<and> n \<le> ap_manual_override_max_minutes ap))"
  by (auto simp: parse_duration_def SUPPORTED_DURATIONS_def duration_values)

lemma boolean_text:
  "boolean_payload v = Inr b \<longleftrightarrow> (b \<and> lower v \<in> {''on'', ''true'', ''1'', ''yes''}
     \<or> \<not> b \<and> lower v \<in> {''off'', ''false'', ''0'', ''no''})"
  by (auto simp: boolean_payload_def Let_def)

lemma temperature_text: "parse_temperature v = Inr t \<longleftrightarrow> py_float v = Some t"
  by (simp add: parse_temperature_def split: option.split)

text \<open>The branches of the code are that table.\<close>

lemmas command_texts = mode_texts duration_text boolean_text temperature_text

lemma parsed_modes [simp]:
  "parse_control_mode ''automatic'' = Inr CM_AUTOMATIC" "parse_control_mode ''off'' = Inr CM_OFF"
  "parse_control_mode ''manual'' = Inr CM_MANUAL" "parse_hvac_mode ''off'' = Inr HV_OFF"
  "parse_hvac_mode ''heat'' = Inr HV_HEAT" "parse_hvac_mode ''cool'' = Inr HV_COOL" "parse_hvac_mode ''auto'' = Inr HV_AUTO"
  by (simp_all add: mode_texts)

lemma allowed_draft_if: "panel_allows ap d field v d' \<Longrightarrow> command_draft ap d field v = Inr d'"
proof (induction rule: panel_allows.induct)
  case (hvac v m)
  then show ?case by (auto simp: command_draft_def kept_target_or)
next
  case (temperature v t)
  then have "parse_temperature v = Inr t" by (simp add: temperature_text)
  then show ?case by (simp add: command_draft_def)
next
  case (timed v minutes)
  then have "parse_duration v ap = Inr v" by (auto simp: duration_text)
  with timed show ?case by (simp add: command_draft_def)
next
  case to_checkout
  have "parse_duration ''until_checkout'' ap = Inr ''until_checkout''" by (simp add: duration_text)
  with to_checkout show ?case by (simp add: command_draft_def)
next
  case (heater_on v)
  then have "boolean_payload v = Inr True" by (simp add: boolean_text)
  then show ?case by (simp add: command_draft_def)
next
  case (heater_off v)
  then have "boolean_payload v = Inr False" by (simp add: boolean_text)
  then show ?case by (simp add: command_draft_def)
qed (simp_all add: command_draft_def DEFAULT_DURATION_def kept_target_or)

lemma allowed_draft: "panel_allows ap d field v d' \<longleftrightarrow> command_draft ap d field v = Inr d'"
proof
  assume "panel_allows ap d field v d'"
  then show "command_draft ap d field v = Inr d'" by (rule allowed_draft_if)
next
  assume a: "command_draft ap d field v = Inr d'"
  consider "field = ''return-to-automatic''" | "field = ''mode''" | "field = ''hvac-mode''" | "field = ''temperature''"
    | "field = ''duration''" | "field = ''water-heater''"
    using a by (auto simp: command_draft_def split: if_splits)
  then show "panel_allows ap d field v d'"
  proof cases
    case 1
    with a show ?thesis using panel_allows.return [of ap d v] by (simp add: command_draft_def DEFAULT_DURATION_def)
  next
    case 2
    with a obtain m where "v = control_mode_value m" by (auto simp: command_draft_def bind_result_Inr command_texts)
    with a 2 show ?thesis
      using panel_allows.automatic [of ap d] panel_allows.all_off [of ap d] panel_allows.manual [of ap d]
      by (cases m) (auto simp: command_draft_def bind_result_Inr command_texts kept_target_or)
  next
    case 3
    with a obtain h where "v = manual_hvac_mode_value h" by (auto simp: command_draft_def bind_result_Inr command_texts)
    with a 3 show ?thesis
      using panel_allows.hvac_off [of ap d] panel_allows.hvac [of v h ap d]
      by (cases h) (auto simp: command_draft_def bind_result_Inr command_texts kept_target_or)
  next
    case 4
    with a show ?thesis
      using panel_allows.temperature [of v _ ap d] by (auto simp: command_draft_def bind_result_Inr command_texts)
  next
    case 5
    with a have d: "od_control_mode d \<noteq> CM_AUTOMATIC" "parse_duration v ap = Inr v" "d' = d\<lparr>od_duration := v\<rparr>"
      by (auto simp: command_draft_def bind_result_Inr duration_text split: if_splits)
    from d(2) show ?thesis unfolding duration_text d(3) 5
      using panel_allows.timed [of v _ ap d] panel_allows.to_checkout [of d ap] d(1) by blast
  next
    case 6
    with a show ?thesis
      using panel_allows.heater_on [of v ap d] panel_allows.heater_off [of v ap d]
      by (auto simp: command_draft_def bind_result_Inr boolean_text)
  qed
qed

text \<open>A command on the panel: an automatic draft releases it, any other holds until the checkout of the
room's current booking or for the minutes of its duration. The temperature of the draft is brought
into the limits of the policy.\<close>

inductive panel_step ::
  "db_service \<Rightarrow> booking_boundary option \<Rightarrow> datetime \<Rightarrow> string \<Rightarrow> string \<Rightarrow> panel \<Rightarrow> panel \<Rightarrow> bool"
  for sv boundary now field msg p where
  released: "panel_allows (hp_automation (dv_policy sv)) (panel_draft sv p now) field msg d \<Longrightarrow> od_control_mode d = CM_AUTOMATIC \<Longrightarrow>
     panel_step sv boundary now field msg p idle_panel"
| held_to_checkout: "panel_allows (hp_automation (dv_policy sv)) (panel_draft sv p now) field msg d \<Longrightarrow> od_control_mode d \<noteq> CM_AUTOMATIC \<Longrightarrow>
     od_duration d = ''until_checkout'' \<Longrightarrow> boundary = Some b \<Longrightarrow>
     panel_step sv boundary now field msg p
       \<lparr>pn_draft = clamped (hp_automation (dv_policy sv)) d, pn_until = Some (bb_checkout_at b)\<rparr>"
| held_for: "panel_allows (hp_automation (dv_policy sv)) (panel_draft sv p now) field msg d \<Longrightarrow> od_control_mode d \<noteq> CM_AUTOMATIC \<Longrightarrow>
     (od_duration d, minutes) \<in> {(''60'', 60), (''240'', 240), (''720'', 720)} \<Longrightarrow>
     panel_step sv boundary now field msg p
       \<lparr>pn_draft = clamped (hp_automation (dv_policy sv)) d, pn_until = Some (dt_plus now (minutes * minute_us))\<rparr>"

lemma step_is_command:
  assumes "panel_shown row p"
  shows "panel_step sv boundary now field msg p p' \<longleftrightarrow> panel_command sv boundary now field msg p = Inr p'"
proof
  assume "panel_step sv boundary now field msg p p'"
  then show "panel_command sv boundary now field msg p = Inr p'"
    by cases (auto simp: panel_command_def Let_def allowed_draft duration_values)
next
  assume c: "panel_command sv boundary now field msg p = Inr p'"
  then obtain d where d: "command_draft (hp_automation (dv_policy sv)) (panel_draft sv p now) field msg = Inr d"
    by (auto simp: panel_command_def Let_def bind_result_Inr)
  note dur = drafted_duration [OF d panel_draft_duration [OF assms]]
  note rules = panel_step.released [OF d [folded allowed_draft]] panel_step.held_to_checkout [OF d [folded allowed_draft]]
    panel_step.held_for [OF d [folded allowed_draft]]
  consider "od_control_mode d = CM_AUTOMATIC"
    | "od_control_mode d \<noteq> CM_AUTOMATIC" "od_duration d = ''until_checkout''"
    | m :: int where "od_control_mode d \<noteq> CM_AUTOMATIC" "(od_duration d, m) \<in> {(''60'', 60), (''240'', 240), (''720'', 720)}"
    using dur by (auto simp: SUPPORTED_DURATIONS_def)
  then show "panel_step sv boundary now field msg p p'"
  proof cases
    case 1
    with c d show ?thesis using rules(1) by (simp add: panel_command_def)
  next
    case 2
    with c d show ?thesis using rules(2) by (auto simp: panel_command_def split: option.splits)
  next
    case 3
    with c d show ?thesis using rules(3) [of m] by (auto simp: panel_command_def duration_values)
  qed
qed

end
