(* ===== verification/Override_Safety.thy ===== *)
theory Override_Safety
  imports Control_Panel Policy_Properties
begin

text \<open>
  The shape of the override rows: what the commands and the recalculations store can always be
  read back, and never makes the derivation of an intent raise.
\<close>

section \<open>The shape of a row\<close>

definition override_row_ok :: "override_row \<Rightarrow> bool" where
  "override_row_ok r \<longleftrightarrow>
     (\<exists>m h. ovr_control_mode r = control_mode_value m \<and> ovr_hvac_mode r = Some (manual_hvac_mode_value h)
        \<and> (h = HV_OFF \<longleftrightarrow> ovr_target_temperature_c r = None))
     \<and> (ovr_until_checkout r \<longrightarrow> ovr_expires_at r = None)"

definition overrides_ok :: "database \<Rightarrow> bool" where
  "overrides_ok d \<longleftrightarrow> list_all override_row_ok (db_overrides d)"

definition draft_ok :: "override_draft \<Rightarrow> bool" where
  "draft_ok d \<longleftrightarrow> (od_hvac_mode d = HV_OFF \<longleftrightarrow> od_target_temperature_c d = None)"

lemma drafted_ok:
  assumes "command_draft ap base field payload = Inr d" and "draft_ok base"
  shows "draft_ok d"
  using assms
  by (auto simp: command_draft_def bind_result_Inr draft_ok_def split: if_splits control_mode.splits)
     (auto dest!: arg_cong [where f = od_target_temperature_c])

lemma current_draft_ok:
  assumes "clean overrides_t s" and "overrides_ok (ss_db s)" and "current_draft sv i now s = (Inr d, s')"
  shows "draft_ok d"
proof -
  have idle: "draft_ok default_override_draft" by (simp add: draft_ok_def default_override_draft_def)
  show ?thesis
  proof (cases "room_override_row sv (ss_db s) i")
    case None
    with assms(3) latest_override_clean [OF assms(1), of sv i] idle show ?thesis by (simp add: current_draft_def)
  next
    case (Some r)
    then have "r \<in> set (db_overrides (ss_db s))"
      unfolding room_override_row_def by (auto dest!: latest_by_in)
    with assms(2) obtain m h where "ovr_control_mode r = control_mode_value m"
      "ovr_hvac_mode r = Some (manual_hvac_mode_value h)" "h = HV_OFF \<longleftrightarrow> ovr_target_temperature_c r = None"
      by (auto simp: overrides_ok_def list_all_iff override_row_ok_def)
    with assms(3) latest_override_clean [OF assms(1), of sv i] Some idle show ?thesis
      by (auto simp: current_draft_def hvac_mode_text_def bind_result_Inr draft_ok_def split: if_splits)
  qed
qed

lemma built_row_ok:
  assumes "clean overrides_t s" and "overrides_ok (ss_db s)"
    and "build_override_row sv rr field payload now s = (Inr row, s')"
  shows "override_row_ok row"
proof -
  from assms(3) obtain msg base s1 d where "payload_text sv payload = Inr msg"
    and base: "current_draft sv (rmr_id rr) now s = (Inr base, s1)"
    and draft: "command_draft (hp_automation (dv_policy sv)) base field msg = Inr d"
    and row: "ovr_control_mode row = control_mode_value (od_control_mode d)"
      "ovr_hvac_mode row = Some (manual_hvac_mode_value (od_hvac_mode d))"
      "ovr_target_temperature_c row = map_option (clamp_temperature (hp_automation (dv_policy sv))) (od_target_temperature_c d)"
      "ovr_until_checkout row \<longrightarrow> ovr_expires_at row = None"
    unfolding build_override_row_def Let_def
    by (auto elim!: bindE_Inr_E simp: lift_result_def expiry_for_duration_def split: if_splits prod.splits)
  have "draft_ok d" by (rule drafted_ok [OF draft current_draft_ok [OF assms(1,2) base]])
  with row show ?thesis by (auto simp: override_row_ok_def draft_ok_def)
qed

section \<open>Every operation keeps the shape\<close>

definition keeps_overrides :: "session \<Rightarrow> session \<Rightarrow> bool" where
  "keeps_overrides s s' \<longleftrightarrow> (overrides_ok (ss_db s) \<longrightarrow> overrides_ok (ss_db s'))"

lemma keeps_overrides_bind:
  "keeps keeps_overrides m \<Longrightarrow> (\<And>v. keeps keeps_overrides (f v)) \<Longrightarrow> keeps keeps_overrides (bindE m f)"
  by (rule keeps_bindE) (auto simp: transp_def keeps_overrides_def)

lemma keeps_overrides_frame: "frame overrides_t m \<Longrightarrow> keeps keeps_overrides m"
  by (auto simp: keeps_def rows_kept_def keeps_overrides_def overrides_ok_def)

lemma keeps_overrides_end: "keeps keeps_overrides (end_inactive_override_if_needed sv p i k row st now c)"
  unfolding keeps_def keeps_overrides_def
  using control_value_automatic
  by (auto simp: end_inactive_override_if_needed_def bindE_def fresh_id_def draw_uuid_def add_row_def audit_def
      overrides_ok_def override_row_ok_def split: option.splits
      intro!: exI [of _ CM_AUTOMATIC] exI [of _ HV_OFF])

lemmas keeps_overrides_intros = keeps_overrides_bind keeps_overrides_end

lemma keeps_overrides_known_room: "keeps keeps_overrides (recalculate_known_room sv reg loaded now c i rm acc)"
  unfolding recalculate_known_room_def Let_def
  by (intro keeps_overrides_intros)
     (auto intro!: keeps_overrides_frame frames split: prod.split)

lemma keeps_overrides_each: "keeps keeps_overrides (recalculate_each sv reg loaded now c ids acc)"
proof (induction ids arbitrary: acc)
  case Nil
  then show ?case by (auto intro: keeps_overrides_frame frames)
next
  case (Cons i ids)
  have "keeps keeps_overrides (recalculate_room sv reg loaded now c i acc)"
    unfolding recalculate_room_def
    by (intro keeps_overrides_bind keeps_overrides_frame [OF frame_get_row])
       (auto intro: keeps_overrides_known_room keeps_overrides_frame frames split: option.split)
  with Cons show ?case by (simp add: keeps_overrides_bind)
qed

lemma keeps_overrides_rooms: "keeps keeps_overrides (recalculate_rooms sv reg ids now c)"
  unfolding recalculate_rooms_def
  by (auto intro!: keeps_overrides_bind keeps_overrides_each intro: keeps_overrides_frame frames)

lemma keeps_overrides_sync: "keeps keeps_overrides (sync_body sv result c)"
proof -
  have "keeps keeps_overrides (store_result sv result reg run_id c)" for reg run_id
    unfolding store_result_def Let_def
    by (intro keeps_overrides_bind keeps_overrides_rooms) (auto intro!: keeps_overrides_frame frames)
  then show ?thesis
    unfolding sync_body_def
    by (intro keeps_overrides_bind) (auto intro!: keeps_overrides_frame frames)
qed

lemma keeps_overrides_evaluate: "keeps keeps_overrides (evaluate_body sv ids now c)"
  unfolding evaluate_body_def
  by (intro keeps_overrides_bind keeps_overrides_rooms) (auto intro!: keeps_overrides_frame frames)

lemma keeps_overrides_transaction: "keeps keeps_overrides m \<Longrightarrow> keeps keeps_overrides (transaction m)"
  unfolding keeps_def keeps_overrides_def transaction_def
  by (auto simp: bindE_def flush_def split: prod.splits sum.splits if_splits)

lemma keeps_overrides_command:
  assumes "apply_mqtt_command sv k field payload now corr (new_session d n) = (Inr res, s')"
    and "keys_ok d" and "overrides_ok d"
  shows "overrides_ok (ss_db s')"
proof -
  let ?now = "to_utc (dv_tz sv) now"
  let ?known = "\<lambda>c pr rm row built. case built of
            Inr ov \<Rightarrow> accept_row sv pr row (rm_key rm) field ov ?now c
          | Inl e \<Rightarrow> (if is_ValueError e then
               bindE (audit_rejected sv pr (Some (rmr_id row)) (rm_key rm) field (exc_text sv e) ?now c) (\<lambda>_.
                 ret \<lparr>cr_accepted = False, cr_room_key = Some (rm_key rm), cr_correlation_id = c, cr_error = Some (exc_text sv e)\<rparr>)
             else raise e)"
  let ?unknown = "\<lambda>c pr. bindE (audit_rejected sv pr None k field ''room is not in the configured registry'' ?now c)
      (\<lambda>_. ret \<lparr>cr_accepted = False, cr_room_key = None, cr_correlation_id = c, cr_error = Some ''unknown_room''\<rparr>)"
  from assms(1) obtain c s0 pr s1 where c: "given_or_fresh sv corr (new_session d n) = (Inr c, s0)"
    and pr: "ensure_property sv s0 = (Inr pr, s1)"
    and rest: "(case by_key (dv_registry sv) k of None \<Rightarrow> ?unknown c pr
        | Some rm \<Rightarrow> bindE (ensure_room sv pr rm) (\<lambda>row.
            bindE (attemptE (build_override_row sv row field payload ?now)) (?known c pr rm row))) s1 = (Inr res, s')"
    unfolding apply_mqtt_command_def Let_def given_or_fresh_def by (elim bindE_Inr_E) blast
  have s0: "ss_db s0 = d" "clean overrides_t s0"
    using given_or_fresh_run [OF c] assms(2) by (simp_all add: new_session_def clean_def keys_ok_def)
  have s1: "clean overrides_t s1" "overrides_ok (ss_db s1)"
    using frame_clean [OF frame_ensure_property pr, of overrides_t] frame_db [OF frame_ensure_property pr, of overrides_t] s0 assms(3)
    by (simp_all add: overrides_ok_def)
  show ?thesis
  proof (cases "by_key (dv_registry sv) k")
    case None
    with rest have run: "?unknown c pr s1 = (Inr res, s')" by simp
    have "frame overrides_t (?unknown c pr)" by (intro frames) simp
    from frame_db [OF this run] s1(2) show ?thesis by (simp add: overrides_ok_def)
  next
    case (Some rm)
    with rest obtain row s2 built s3 where row: "ensure_room sv pr rm s1 = (Inr row, s2)"
      and build: "build_override_row sv row field payload ?now s2 = (built, s3)"
      and run: "?known c pr rm row built s3 = (Inr res, s')"
      by (auto elim!: bindE_Inr_E simp: attemptE_def split: prod.splits)
    have s2: "clean overrides_t s2" "overrides_ok (ss_db s2)"
      using frame_clean [OF frame_ensure_room row, of overrides_t] frame_db [OF frame_ensure_room row, of overrides_t] s1
      by (simp_all add: overrides_ok_def)
    have s3: "overrides_ok (ss_db s3)"
      using frame_db [OF frame_build_override build, of overrides_t] s2(2) by (simp add: overrides_ok_def)
    show ?thesis
    proof (cases built)
      case (Inl e)
      have "frame overrides_t (?known c pr rm row (Inl e))" by (auto intro!: frames)
      from frame_db [OF this run [unfolded Inl]] s3 show ?thesis by (simp add: overrides_ok_def)
    next
      case (Inr ov)
      have "override_row_ok ov" by (rule built_row_ok [OF s2 build [unfolded Inr]])
      with Inr run accepted_row(2) [of sv pr row "rm_key rm" field ov ?now c s3 res s'] s3 show ?thesis
        by (simp add: overrides_ok_def override_row_ok_def)
    qed
  qed
qed

lemma op_overrides_ok:
  assumes "op_run sv op (new_session d n) = (r, s')" and "keys_ok d" and "overrides_ok d"
  shows "keys_ok (ss_db s') \<and> overrides_ok (ss_db s')"
proof (cases r)
  case (Inl e)
  with op_run_raised [of sv op d n e s'] assms show ?thesis by simp
next
  case (Inr u)
  have unit: "\<exists>v. m x = (Inr v, s')" if "bindE m (\<lambda>_. ret ()) x = (Inr u, s')" for m :: "(session, 'y) eff" and x
    using that by (auto elim: bindE_Inr_E)
  have given: "keys_ok (ss_db s') \<and> overrides_ok (ss_db s')"
    if run: "bindE (given_or_fresh sv None) (\<lambda>c. transaction (body c)) (new_session d n) = (Inr v, s')"
      and body: "\<And>c. keeps keeps_overrides (body c)" for body :: "uuid \<Rightarrow> (session, 'x) eff" and v
  proof -
    from run obtain c s0 s1 where s0: "ss_db s0 = d" and b: "body c s0 = (Inr v, s1)"
      and fl: "flush_ok (ss_flushed s1) (ss_db s1)" and s': "ss_db s' = ss_db s1"
      by (elim transaction_given) (auto simp: new_session_def)
    from keeps_eqD [OF body b] s0 s' assms(3) keys_ok_flush [OF fl] show ?thesis by (simp add: keeps_overrides_def)
  qed
  show ?thesis
  proof (cases op)
    case (OpSync result)
    with assms(1) Inr unit obtain ps where "apply_sync_result sv result None (new_session d n) = (Inr ps, s')" by fastforce
    then show ?thesis unfolding apply_sync_result_def by (rule given [OF _ keeps_overrides_sync])
  next
    case (OpEvaluateAll now)
    with assms(1) Inr unit obtain ps where "evaluate_all_rooms sv (Aware now) None (new_session d n) = (Inr ps, s')" by fastforce
    then show ?thesis unfolding evaluate_all_rooms_def by (rule given [OF _ keeps_overrides_evaluate])
  next
    case (OpEvaluateKeys keys now)
    with assms(1) Inr unit obtain ps where "evaluate_room_keys sv keys (Aware now) None (new_session d n) = (Inr ps, s')" by fastforce
    then show ?thesis unfolding evaluate_room_keys_def by (rule given [OF _ keeps_overrides_evaluate])
  next
    case (OpCommand k field payload now)
    with assms(1) Inr unit obtain res where
      "transaction (apply_mqtt_command sv k field payload (Aware now) None) (new_session d n) = (Inr res, s')" by fastforce
    then obtain s1 where body: "apply_mqtt_command sv k field payload (Aware now) None (new_session d n) = (Inr res, s1)"
      and fl: "flush_ok (ss_flushed s1) (ss_db s1)" and s': "ss_db s' = ss_db s1"
      by (elim transaction_Inr) auto
    with keeps_overrides_command [OF body assms(2,3)] keys_ok_flush [OF fl] show ?thesis by simp
  qed
qed

lemma run_ops_overrides_ok:
  "keys_ok d \<Longrightarrow> overrides_ok d \<Longrightarrow> overrides_ok (fst (run_ops sv ops (d, n)))"
proof (induction ops arbitrary: d n)
  case (Cons op ops)
  obtain r s' where run: "op_run sv op (new_session d n) = (r, s')" by fastforce
  with op_overrides_ok [OF run Cons.prems] Cons.IH show ?case by simp
qed simp


section \<open>Reading the rows back\<close>

lemma stored_override_reads:
  assumes "overrides_ok d"
  shows "\<exists>ov. active_override sv d (room_override_row sv d i) now = Inr ov
    \<and> (\<forall>v. ov = Some v \<longrightarrow> override_hvac_ok v \<and> (mo_until_checkout v \<longrightarrow> mo_expires_at v = None))"
proof -
  have read: "\<exists>ov. manual_override_from_row sv r b = Inr ov
      \<and> (\<forall>v. ov = Some v \<longrightarrow> override_hvac_ok v \<and> (mo_until_checkout v \<longrightarrow> mo_expires_at v = None))"
    if "override_row_ok r" for r b
    using that enum_roundtrips(4) [of HV_OFF]
    by (auto simp: override_row_ok_def manual_override_from_row_def hvac_mode_text_def override_hvac_ok_def)
  show ?thesis
  proof (cases "room_override_row sv d i")
    case None
    then show ?thesis by (simp add: active_override_def)
  next
    case (Some r)
    then have "r \<in> set (db_overrides d)" unfolding room_override_row_def by (auto dest!: latest_by_in)
    with assms have "override_row_ok r" by (simp add: overrides_ok_def list_all_iff)
    with Some read [OF this] show ?thesis by (auto simp: active_override_def split: option.split)
  qed
qed

end
