(* ===== verification/Runtime_Invariants.thy ===== *)
theory Runtime_Invariants
  imports Runtime Override_Safety Intent_Versions
begin

text \<open>
  What holds in every state the runtime reaches, whatever the order of its workers' rounds, the
  commands and the reconnections: a locale turns an invariant that every database service keeps
  into one of the runs, and is interpreted for the overrides and for the intent versions.
\<close>

section \<open>What a step does to the database\<close>

definition same_db :: "('c, 'r) runtime_world \<Rightarrow> ('c, 'r) runtime_world \<Rightarrow> bool" where
  "same_db w w' \<longleftrightarrow> rw_db w' = rw_db w"

lemma same_db_rel: "reflp same_db" "transp same_db"
  by (auto simp: same_db_def reflp_def transp_def)

lemma same_db_basic:
  "keeps same_db (ret v)" "keeps same_db (gets f)" "keeps same_db (lift_result r)"
  "keeps same_db (read_session m)" "keeps same_db (on_io i)" "keeps same_db (uuid4 ar)"
  "keeps same_db (set_worker_error nm e)" "keeps same_db (pop_worker_error nm)"
  "keeps same_db (refresh_health ar)" "keeps same_db (utcnow ar)"
  by (auto simp: keeps_ret keeps_gets keeps_lift same_db_rel)
    (auto simp: keeps_def same_db_def read_session_def on_io_def uuid4_def set_worker_error_def
      pop_worker_error_def refresh_health_def utcnow_def split: prod.splits)

lemma same_db_bind: "keeps same_db m \<Longrightarrow> (\<And>v. keeps same_db (f v)) \<Longrightarrow> keeps same_db (bindE m f)"
  by (rule keeps_bindE [OF same_db_rel(2)])

lemma same_db_when: "keeps same_db m \<Longrightarrow> keeps same_db (when_connected ar m)"
  by (simp add: keeps_def when_connected_def same_db_def)

lemma same_db_direct: "keeps same_db (publish_direct ar topic text)"
proof -
  have "same_db w (snd (publish_direct ar topic text w))" for w
  proof (cases "ar_mqtt ar")
    case None
    then show ?thesis by (simp add: publish_direct_def same_db_def)
  next
    case (Some client)
    have "keeps same_db (bindE (on_io (mq_publish client topic text 1 True)) (\<lambda>receipt.
        ret (case receipt of None \<Rightarrow> True | Some rt \<Rightarrow> rt_rc rt \<in> {Some 0, None})))"
      by (intro same_db_bind same_db_basic)
    from keepsD [OF this, of w] Some show ?thesis by (simp add: publish_direct_def same_db_def)
  qed
  then show ?thesis by (simp add: keeps_def)
qed

lemma same_db_all: "keeps same_db (publish_all ar ps)"
proof (induction ps)
  case Nil
  show ?case by (simp add: keeps_def same_db_def)
next
  case (Cons p ps)
  obtain topic payload where "p = (topic, payload)" by fastforce
  with Cons show ?case by (auto intro!: same_db_bind same_db_direct same_db_basic split: option.split)
qed

lemma same_db_publish:
  "keeps same_db (publish_system_state ar)" "keeps same_db (publish_mqtt_reconnect_state ar)"
proof -
  show sys: "keeps same_db (publish_system_state ar)"
    unfolding publish_system_state_def system_state_def Let_def
    by (intro same_db_when same_db_bind same_db_all same_db_basic)
  show "keeps same_db (publish_mqtt_reconnect_state ar)"
    unfolding publish_mqtt_reconnect_state_def publish_availability_def publish_control_states_def Let_def
    by (intro same_db_when same_db_bind same_db_all same_db_basic same_db_direct sys)
qed

lemma same_db_record: "keeps same_db (record_outcome nm outcome)"
  by (cases outcome) (simp_all add: record_outcome_def same_db_basic)

lemma same_db_given_now: "keeps same_db (given_now ar now)"
  by (cases now) (simp_all add: given_now_def same_db_basic)

lemma poll_phase_db:
  assumes "poll_phase ar now w = Some (r, w')"
  shows "rw_db w' = rw_db w"
proof (cases "ar_clock ar")
  case None
  with assms show ?thesis by (auto simp: poll_phase_def)
next
  case (Some cm)
  have "keeps same_db (bindE (given_now ar now)
          (\<lambda>now. bindE (read_session (load_cursor_state (ar_service ar))) (\<lambda>cursor. ret (now, cursor))))"
    by (intro same_db_bind same_db_given_now same_db_basic)
  note kept = keeps_eqD [OF this, of w]
  from assms Some kept show ?thesis
    by (auto simp: poll_phase_def same_db_def split: prod.splits sum.splits option.splits)
qed

text \<open>The outbox passes keep the ids, topics and payloads of all rows.\<close>

definition outbox_kept :: "database \<Rightarrow> database \<Rightarrow> bool" where
  "outbox_kept d d' \<longleftrightarrow>
     d' = d\<lparr>db_outbox := db_outbox d'\<rparr>
     \<and> map (\<lambda>r. (oe_id r, oe_topic r, oe_payload r)) (db_outbox d')
       = map (\<lambda>r. (oe_id r, oe_topic r, oe_payload r)) (db_outbox d)"

definition row_kept :: "outbox_event \<Rightarrow> uuid \<times> string \<times> payload" where
  "row_kept r = (oe_id r, oe_topic r, oe_payload r)"

lemma row_kept_updates:
  "(\<And>r. row_kept (f r) = row_kept r) \<Longrightarrow> map row_kept (update_rows p f table) = map row_kept table"
  by (simp add: update_rows_def)

lemma row_kept_record: "row_kept (fst (record_one uniform policy now result row r)) = row_kept row"
  by (auto simp: record_one_def row_kept_def Let_def split: prod.splits)

lemma row_kept_record_table:
  "map row_kept (fst (record_in_table uniform policy now result table r)) = map row_kept table"
proof (induction table)
  case (Cons row rows)
  with row_kept_record [of uniform policy now result row r] show ?case by (auto split: prod.splits)
qed simp

lemma row_kept_results:
  "map row_kept (fst (record_results uniform policy now results table r)) = map row_kept table"
proof (induction results arbitrary: table r)
  case (Cons x xs)
  with row_kept_record_table [of uniform policy now x table r] show ?case by (auto split: prod.splits)
qed simp

lemma outbox_parts_kept:
  "claim_pending tz locked wid now n0 table = (ms, table') \<Longrightarrow> map row_kept table' = map row_kept table"
  "record_results uniform policy now results table r = (table', r') \<Longrightarrow> map row_kept table' = map row_kept table"
  "reads_now client x = (t, y) \<Longrightarrow> ow_table y = ow_table x"
proof -
  show "claim_pending tz locked wid now n0 table = (ms, table') \<Longrightarrow> map row_kept table' = map row_kept table"
    by (auto simp: claim_pending_def Let_def row_kept_updates row_kept_def)
  show "record_results uniform policy now results table r = (table', r') \<Longrightarrow> map row_kept table' = map row_kept table"
    using row_kept_results [of uniform policy now results table r] by simp
  show "reads_now client x = (t, y) \<Longrightarrow> ow_table y = ow_table x"
    by (auto simp: reads_now_def split: prod.splits)
qed

lemma outbox_run_kept:
  assumes "Outbox.run_outbox_once tz uniform client s w = (n, w')"
  shows "map row_kept (ow_table w') = map row_kept (ow_table w)"
proof -
  obtain t1 w1 where 1: "reads_now client w = (t1, w1)" by fastforce
  let ?w2 = "w1\<lparr>ow_table := snd (release_stale_publishing tz t1 (os_stale_publish_seconds s * 1000000) (ow_table w1))\<rparr>"
  have w2: "map row_kept (ow_table ?w2) = map row_kept (ow_table w)"
    using outbox_parts_kept(3) [OF 1] by (simp add: release_stale_publishing_def row_kept_updates row_kept_def)
  obtain t2 w3 where 3: "reads_now client ?w2 = (t2, w3)" by fastforce
  obtain ms table where c: "claim_pending tz (\<lambda>_. False) (os_client_id s) t2 (os_batch_size s) (ow_table w3) = (ms, table)"
    by fastforce
  have table: "map row_kept table = map row_kept (ow_table w)"
    using outbox_parts_kept(1) [OF c] outbox_parts_kept(3) [OF 3] w2 by simp
  obtain outcome cl where p: "publish_pending client (os_publish_timeout_seconds s) ms (ow_client w3) = (outcome, cl)" by fastforce
  obtain t3 w4 where 4: "reads_now client (w3\<lparr>ow_table := table, ow_client := cl\<rparr>) = (t3, w4)" by fastforce
  have w4: "map row_kept (ow_table w4) = map row_kept (ow_table w)"
    using outbox_parts_kept(3) [OF 4] table by simp
  have "map row_kept (fst (record_results uniform pol t3 results (ow_table w4) r)) = map row_kept (ow_table w)" for pol results r
    by (simp add: row_kept_results w4)
  with assms table w2 show ?thesis
    unfolding Outbox.run_outbox_once_def Let_def 1 3 c p 4 prod.case
    by (auto split: if_splits sum.splits prod.splits simp: 1 3 c p 4 dest: outbox_parts_kept(2) [THEN trans [OF _ w4]])
qed

lemma outbox_pass_db:
  assumes "outbox_pass ar client w = (r, w')"
  shows "outbox_kept (rw_db w) (rw_db w')"
proof -
  obtain n ow where run: "Outbox.run_outbox_once (dv_tz (ar_service ar)) (ar_uniform ar) client (outbox_settings_of (ar_settings ar))
      \<lparr>ow_table = db_outbox (rw_db w), ow_client = rw_io w, ow_random = rw_random w\<rparr> = (n, ow)" by fastforce
  with assms have "rw_db w' = (rw_db w)\<lparr>db_outbox := ow_table ow\<rparr>" by (auto simp: outbox_pass_def)
  with outbox_run_kept [OF run] show ?thesis by (simp add: outbox_kept_def row_kept_def cong: map_cong)
qed

lemma outbox_kept_refl [simp]: "outbox_kept d d"
  by (simp add: outbox_kept_def)

lemma outbox_round_db:
  assumes "periodic_round ''outbox'' (run_outbox ar) w = (r, w')"
  shows "outbox_kept (rw_db w) (rw_db w')"
proof -
  obtain x w1 where run: "run_outbox ar w = (x, w1)" and rec: "record_outcome ''outbox'' x w1 = (r, w')"
    using assms by (auto simp: periodic_round_def bindE_attemptE split: prod.splits)
  have "outbox_kept (rw_db w) (rw_db w1)"
  proof (cases "ar_mqtt ar")
    case None
    with run show ?thesis by (auto simp: run_outbox_def)
  next
    case (Some client)
    let ?w1 = "snd (refresh_health ar w)"
    have r1: "refresh_health ar w = (Inr (), ?w1)" "rw_db ?w1 = rw_db w" by (simp_all add: refresh_health_def)
    obtain n w2 where pass: "outbox_pass ar client ?w1 = (n, w2)" by fastforce
    note kept = outbox_pass_db [OF pass, unfolded r1(2)]
    have "keeps same_db (bindE (publish_system_state ar) (\<lambda>_. ret m))" for m :: nat
      by (intro same_db_bind same_db_publish same_db_basic)
    note pub = keeps_eqD [OF this, unfolded same_db_def]
    from run Some r1(1) pass have "w1 = w2 \<or> (\<exists>(m :: nat) y. bindE (publish_system_state ar) (\<lambda>_. ret m) w2 = (y, w1))"
      by (auto simp: run_outbox_def bindE_def [of "refresh_health ar"] bindE_def [of "outbox_pass ar client"]
          split: if_splits prod.splits sum.splits)
    with kept pub show ?thesis by (metis)
  qed
  with keeps_eqD [OF same_db_record rec] show ?thesis by (simp add: same_db_def)
qed

lemma transaction_new_Inl: "transaction m (new_session d n) = (Inl e, s) \<Longrightarrow> ss_db s = d"
  using transaction_Inl(1) [of m "new_session d n" e s] by (simp add: new_session_def)

lemma utcnow_run: "utcnow ar w = (Inr (time_read ar w), w\<lparr>rw_io := snd (ar_now ar (rw_io w))\<rparr>)"
  by (simp add: utcnow_def on_io_def time_read_def split: prod.split)

section \<open>Invariants of the runs\<close>

locale runtime_invariant =
  fixes ar :: "('c, 'r) app_runtime"
    and I :: "database \<Rightarrow> bool"
    and before :: "database \<Rightarrow> datetime \<Rightarrow> bool"
    and lt :: "datetime \<Rightarrow> datetime \<Rightarrow> bool"
  assumes sync:
    "\<lbrakk>sync_body (ar_service ar) result c (new_session d n) = (Inr v, s); flush_ok (ss_flushed s) (ss_db s);
      I d; before d (sy_finished_at result)\<rbrakk>
       \<Longrightarrow> I (ss_db s) \<and> (\<forall>t. lt (sy_finished_at result) t \<longrightarrow> before (ss_db s) t)"
    and evaluate:
    "\<lbrakk>evaluate_body (ar_service ar) ids (utc (ar_service ar) now) c (new_session d n) = (Inr v, s);
      flush_ok (ss_flushed s) (ss_db s); I d; before d now\<rbrakk>
       \<Longrightarrow> I (ss_db s) \<and> (\<forall>t. lt now t \<longrightarrow> before (ss_db s) t)"
    and command:
    "\<lbrakk>apply_mqtt_command (ar_service ar) k field payload (Aware now) corr (new_session d n) = (Inr res, s);
      flush_ok (ss_flushed s) (ss_db s); I d\<rbrakk>
       \<Longrightarrow> I (ss_db s) \<and> (\<forall>t. before d t \<longrightarrow> before (ss_db s) t)"
    and outbox: "I d \<Longrightarrow> outbox_kept d d' \<Longrightarrow> I d'"
    and before_outbox: "before d t \<Longrightarrow> outbox_kept d d' \<Longrightarrow> before d' t"
    and later: "before d t \<Longrightarrow> lt t t' \<Longrightarrow> before d t'"
begin

definition holds :: "('c, 'r) runtime_world \<Rightarrow> datetime list \<Rightarrow> bool" where
  "holds w ts \<longleftrightarrow> I (rw_db w) \<and> (\<forall>t. (\<forall>t0 \<in> set ts. lt t0 t) \<longrightarrow> before (rw_db w) t)"

definition done_at :: "datetime \<Rightarrow> database \<Rightarrow> bool" where
  "done_at now d \<longleftrightarrow> I d \<and> (\<forall>t. lt now t \<longrightarrow> before d t)"

lemma stored_session:
  assumes "with_session (apply_sync_result (ar_service ar) result (Some c)) w = (r, w')"
    and "I (rw_db w)" and "before (rw_db w) (sy_finished_at result)"
  shows "done_at (sy_finished_at result) (rw_db w')"
proof -
  obtain s where run: "transaction (sync_body (ar_service ar) result c) (new_session (rw_db w) (rw_draws w)) = (r, s)"
    and w': "rw_db w' = ss_db s"
    using assms(1) by (auto simp: with_session_def apply_sync_result_def given_or_fresh_def split: prod.splits)
  show ?thesis
  proof (cases r)
    case (Inl e)
    from transaction_new_Inl [OF run [unfolded Inl]] w' assms(2,3) show ?thesis
      by (auto simp: done_at_def intro: later)
  next
    case (Inr v)
    with run obtain s1 where "sync_body (ar_service ar) result c (new_session (rw_db w) (rw_draws w)) = (Inr v, s1)"
      "flush_ok (ss_flushed s1) (ss_db s1)" "s = s1\<lparr>ss_flushed := ss_db s1\<rparr>" by (auto elim: transaction_Inr)
    with sync [of result c "rw_db w" "rw_draws w" v s1] assms(2,3) w' show ?thesis by (simp add: done_at_def)
  qed
qed

lemma evaluated_session:
  assumes "with_session (transaction (evaluate_body (ar_service ar) ids (utc (ar_service ar) now) c)) w = (r, w')"
    and "I (rw_db w)" and "before (rw_db w) now"
  shows "done_at now (rw_db w')"
proof -
  obtain s where run: "transaction (evaluate_body (ar_service ar) ids (utc (ar_service ar) now) c)
      (new_session (rw_db w) (rw_draws w)) = (r, s)" and w': "rw_db w' = ss_db s"
    using assms(1) by (auto simp: with_session_def split: prod.splits)
  show ?thesis
  proof (cases r)
    case (Inl e)
    from transaction_new_Inl [OF run [unfolded Inl]] w' assms(2,3) show ?thesis
      by (auto simp: done_at_def intro: later)
  next
    case (Inr v)
    with run obtain s1 where "evaluate_body (ar_service ar) ids (utc (ar_service ar) now) c
        (new_session (rw_db w) (rw_draws w)) = (Inr v, s1)"
      "flush_ok (ss_flushed s1) (ss_db s1)" "s = s1\<lparr>ss_flushed := ss_db s1\<rparr>" by (auto elim: transaction_Inr)
    with evaluate [of ids now c "rw_db w" "rw_draws w" v s1] assms(2,3) w' show ?thesis by (simp add: done_at_def)
  qed
qed

lemma commanded_session:
  assumes "with_session (transaction (apply_mqtt_command (ar_service ar) k field payload (Aware now) corr)) w = (r, w')"
    and "I (rw_db w)"
  shows "I (rw_db w') \<and> (\<forall>t. before (rw_db w) t \<longrightarrow> before (rw_db w') t)"
proof -
  obtain s where run: "transaction (apply_mqtt_command (ar_service ar) k field payload (Aware now) corr)
      (new_session (rw_db w) (rw_draws w)) = (r, s)" and w': "rw_db w' = ss_db s"
    using assms(1) by (auto simp: with_session_def split: prod.splits)
  show ?thesis
  proof (cases r)
    case (Inl e)
    from transaction_new_Inl [OF run [unfolded Inl]] w' assms(2) show ?thesis by simp
  next
    case (Inr v)
    with run obtain s1 where "apply_mqtt_command (ar_service ar) k field payload (Aware now) corr
        (new_session (rw_db w) (rw_draws w)) = (Inr v, s1)"
      "flush_ok (ss_flushed s1) (ss_db s1)" "s = s1\<lparr>ss_flushed := ss_db s1\<rparr>" by (auto elim: transaction_Inr)
    with command [of k field payload now corr "rw_db w" "rw_draws w" v s1] assms(2) w' show ?thesis by simp
  qed
qed

lemma store_done:
  assumes "store_poll ar result w = (r, w')" and "I (rw_db w)" and "before (rw_db w) (sy_finished_at result)"
  shows "done_at (sy_finished_at result) (rw_db w')"
proof -
  obtain c w1 where c: "uuid4 ar w = (Inr c, w1)" "rw_db w1 = rw_db w" by (simp add: uuid4_def)
  obtain x w2 where st: "with_session (apply_sync_result (ar_service ar) result (Some c)) w1 = (x, w2)" by fastforce
  have "keeps same_db (bindE (publish_system_state ar) (\<lambda>_. ret (persisted_payload v)))" for v
    by (intro same_db_bind same_db_publish same_db_basic)
  note pub = keeps_eqD [OF this, unfolded same_db_def]
  have "rw_db w' = rw_db w2"
    using assms(1) c(1) st pub by (cases x) (auto simp: store_poll_def)
  with stored_session [OF st] c(2) assms(2,3) show ?thesis by simp
qed

lemma policy_done:
  assumes "run_policy_once ar None w = (r, w')" and "I (rw_db w)" and "before (rw_db w) (time_read ar w)"
  shows "done_at (time_read ar w) (rw_db w')"
proof -
  let ?sv = "ar_service ar" and ?t = "time_read ar w"
  obtain w1 where t: "given_now ar None w = (Inr ?t, w1)" "rw_db w1 = rw_db w"
    using utcnow_run [of ar w] by (simp add: given_now_def)
  obtain c w2 where c: "uuid4 ar w1 = (Inr c, w2)" "rw_db w2 = rw_db w1" by (simp add: uuid4_def)
  obtain x w3 where ev: "with_session (evaluate_all_rooms ?sv (Aware ?t) (Some c)) w2 = (x, w3)" by fastforce
  let ?pub = "\<lambda>v. bindE (publish_system_state ar) (\<lambda>_. ret
      [(''affected_room_keys'', JList (map JStr (ps_affected_room_keys v))),
       (''room_states_created'', JInt (int (ps_room_states_created v))),
       (''outbox_events_created'', JInt (int (ps_outbox_events_created v)))])"
  have "keeps same_db (?pub v)" for v by (intro same_db_bind same_db_publish same_db_basic)
  note pub = keeps_eqD [OF this, unfolded same_db_def]
  have "rw_db w' = rw_db w3"
    using assms(1) t(1) c(1) ev pub by (cases x) (auto simp: run_policy_once_def)
  moreover have eq: "evaluate_all_rooms ?sv (Aware ?t) (Some c)
      = transaction (evaluate_body ?sv (\<lambda>reg. map fst (rg_domain_rooms_by_id reg)) (utc ?sv ?t) c)"
    by (rule ext) (simp add: evaluate_all_rooms_def given_or_fresh_def)
  ultimately show ?thesis using evaluated_session [OF ev [unfolded eq]] t(2) c(2) assms(2,3) by simp
qed

lemma command_done:
  assumes "handle_control_message ar k field payload w = (r, w')" and "I (rw_db w)" and "before (rw_db w) (time_read ar w)"
  shows "done_at (time_read ar w) (rw_db w')"
proof -
  let ?sv = "ar_service ar" and ?t = "time_read ar w"
  obtain w1 where t: "utcnow ar w = (Inr ?t, w1)" "rw_db w1 = rw_db w"
    using utcnow_run [of ar w] by simp
  obtain c w2 where c: "uuid4 ar w1 = (Inr c, w2)" "rw_db w2 = rw_db w1" by (simp add: uuid4_def)
  obtain x w3 where cmd: "with_session (transaction (apply_mqtt_command ?sv k field payload (Aware ?t) (Some c))) w2 = (x, w3)"
    by fastforce
  have I3: "I (rw_db w3)" "before (rw_db w3) ?t" using commanded_session [OF cmd] t(2) c(2) assms(2,3) by simp_all
  let ?rest = "\<lambda>res. case (cr_accepted res, cr_room_key res) of
      (True, Some k) \<Rightarrow> bindE (with_session (evaluate_room_keys ?sv [k] (Aware ?t) (Some (cr_correlation_id res)))) (\<lambda>_. ret ())
    | _ \<Rightarrow> ret ()"
  have done3: "done_at ?t (rw_db w3)" using I3 later by (auto simp: done_at_def)
  have rest: "done_at ?t (rw_db w4)" if "?rest res w3 = (y, w4)" for res y w4
  proof (cases "(cr_accepted res, cr_room_key res)")
    case (Pair b ko)
    show ?thesis
    proof (cases "b \<and> ko \<noteq> None")
      case False
      with that Pair done3 show ?thesis by (auto split: option.splits)
    next
      case True
      then obtain k' where k': "ko = Some k'" and b by auto
      obtain z w5 where ev: "with_session (evaluate_room_keys ?sv [k'] (Aware ?t) (Some (cr_correlation_id res))) w3 = (z, w5)"
        by fastforce
      have w5: "w4 = w5" using that Pair k' \<open>b\<close> ev by (cases z) simp_all
      have eq: "evaluate_room_keys ?sv [k'] (Aware ?t) (Some (cr_correlation_id res))
          = transaction (evaluate_body ?sv (room_ids_of_keys [k']) (utc ?sv ?t) (cr_correlation_id res))"
        by (rule ext) (simp add: evaluate_room_keys_def given_or_fresh_def)
      from evaluated_session [OF ev [unfolded eq] I3] w5 show ?thesis by simp
    qed
  qed
  obtain y w4 where both: "bindE (with_session (transaction (apply_mqtt_command ?sv k field payload (Aware ?t) (Some c)))) ?rest w2
      = (y, w4)" by fastforce
  have "done_at ?t (rw_db w4)"
  proof (cases x)
    case (Inl e)
    with both cmd done3 show ?thesis by simp
  next
    case (Inr res)
    with both cmd have "?rest res w3 = (y, w4)" by simp
    then show ?thesis by (rule rest)
  qed
  moreover have "rw_db w' = rw_db w4"
  proof -
    have "handle_control_message ar k field payload w
        = bindE (record_outcome ''mqtt-command'' y) (\<lambda>_. publish_system_state ar) w4"
      using both t(1) c(1)
      by (simp add: handle_control_message_def control_commands_def Let_def bindE_def [of "bindE _ _"]
          bindE_def [of "record_outcome _ _"] attemptE_def split: prod.split)
    with assms(1) have run: "bindE (record_outcome ''mqtt-command'' y) (\<lambda>_. publish_system_state ar) w4 = (r, w')" by simp
    have "keeps same_db (bindE (record_outcome ''mqtt-command'' y) (\<lambda>_. publish_system_state ar))"
      by (intro same_db_bind same_db_record same_db_publish)
    from keeps_eqD [OF this run] show ?thesis by (simp add: same_db_def)
  qed
  ultimately show ?thesis by simp
qed

lemma round_done:
  assumes "periodic_round nm m w = (r, w')" and "\<And>x w1. m w = (x, w1) \<Longrightarrow> done_at t (rw_db w1)"
  shows "done_at t (rw_db w')"
proof -
  obtain x w1 where run: "m w = (x, w1)" by fastforce
  with assms(1) have "record_outcome nm x w1 = (r, w')" by (simp add: periodic_round_def bindE_attemptE)
  from keeps_eqD [OF same_db_record this] assms(2) [OF run] show ?thesis by (simp add: same_db_def)
qed

lemma done_holds: "done_at t (rw_db w') \<Longrightarrow> holds w' (ts @ [t])"
  by (simp add: done_at_def holds_def)

lemma kept_holds: "holds w ts \<Longrightarrow> outbox_kept (rw_db w) (rw_db w') \<Longrightarrow> holds w' ts"
  unfolding holds_def by (blast intro: outbox before_outbox)

lemma same_holds: "holds w ts \<Longrightarrow> rw_db w' = rw_db w \<Longrightarrow> holds w' ts"
  by (simp add: holds_def)

lemma step_holds:
  assumes "runtime_step ar s l s'" and "holds (fst s) ts"
    and "case l of None \<Rightarrow> True | Some t \<Rightarrow> \<forall>t0 \<in> set ts. lt t0 t"
  shows "holds (fst s') (ts @ (case l of None \<Rightarrow> [] | Some t \<Rightarrow> [t]))"
  using assms(1)
proof cases
  case (polled w result w')
  with poll_phase_db [OF polled(4)] assms(2) show ?thesis by (simp add: same_holds)
next
  case (poll_raised w e w' r w'')
  from keeps_eqD [OF same_db_record poll_raised(5)] poll_phase_db [OF poll_raised(4)] poll_raised(1-3) assms(2)
  show ?thesis by (simp add: same_db_def same_holds [of w])
next
  case (stored result w r w')
  have "done_at (sy_finished_at result) (rw_db w')"
    by (rule round_done [OF stored(4)], erule store_done) (use stored(1,2) assms(2,3) in \<open>simp_all add: holds_def\<close>)
  with stored(2,3) show ?thesis by (simp add: done_holds)
next
  case (reconciled result w r w')
  have "done_at (sy_finished_at result) (rw_db w')"
    by (rule store_done [OF reconciled(4)]) (use reconciled(1,2) assms(2,3) in \<open>simp_all add: holds_def\<close>)
  with reconciled(2,3) show ?thesis by (simp add: done_holds)
next
  case (policy_run w r w' p)
  have "done_at (time_read ar w) (rw_db w')"
    by (rule round_done [OF policy_run(4)], erule policy_done) (use policy_run(1,2) assms(2,3) in \<open>simp_all add: holds_def\<close>)
  with policy_run(2,3) show ?thesis by (simp add: done_holds)
next
  case (outbox_run w r w' p)
  from outbox_round_db [OF outbox_run(4)] outbox_run(1-3) assms(2) show ?thesis by (simp add: kept_holds [of w])
next
  case (commanded k field payload w r w' p)
  have "done_at (time_read ar w) (rw_db w')"
    by (rule command_done [OF commanded(4)]) (use commanded(1,2) assms(2,3) in \<open>simp_all add: holds_def\<close>)
  with commanded(2,3) show ?thesis by (simp add: done_holds)
next
  case (reconnected w r w' p)
  from keeps_eqD [OF same_db_publish(2) reconnected(4)] reconnected(1-3) assms(2)
  show ?thesis by (simp add: same_db_def same_holds [of w])
next
  case (elsewhere w p c)
  with assms(2) show ?thesis by (simp add: holds_def)
qed

lemma run_holds:
  assumes "runtime_run ar s0 ts s" and "sorted_wrt lt ts" and "I (rw_db (fst s0))" and "\<And>t. before (rw_db (fst s0)) t"
  shows "holds (fst s) ts"
  using assms
proof (induction rule: runtime_run.induct)
  case run_refl
  then show ?case by (simp add: holds_def)
next
  case (run_step ts s l s')
  have "sorted_wrt lt ts" "case l of None \<Rightarrow> True | Some t \<Rightarrow> \<forall>t0 \<in> set ts. lt t0 t"
    using run_step.prems(1) by (auto simp: sorted_wrt_append split: option.splits)
  with step_holds [OF run_step.hyps(2)] run_step.IH run_step.prems(2,3) show ?case by blast
qed

end

text \<open>Whatever the order of the steps, every stored override reads back as a valid override.\<close>

interpretation overrides: runtime_invariant ar "\<lambda>d. keys_ok d \<and> overrides_ok d" "\<lambda>_ _. True" "\<lambda>_ _. True" for ar
proof
  fix result c d n v s
  assume run: "sync_body (ar_service ar) result c (new_session d n) = (Inr v, s)" "flush_ok (ss_flushed s) (ss_db s)"
    "keys_ok d \<and> overrides_ok d"
  from keeps_eqD [OF keeps_overrides_sync run(1)] run(3) keys_ok_flush [OF run(2)]
  show "(keys_ok (ss_db s) \<and> overrides_ok (ss_db s)) \<and> (\<forall>t. True \<longrightarrow> True)"
    by (simp add: keeps_overrides_def new_session_def)
next
  fix ids now c d n v s
  assume run: "evaluate_body (ar_service ar) ids (utc (ar_service ar) now) c (new_session d n) = (Inr v, s)"
    "flush_ok (ss_flushed s) (ss_db s)" "keys_ok d \<and> overrides_ok d"
  from keeps_eqD [OF keeps_overrides_evaluate run(1)] run(3) keys_ok_flush [OF run(2)]
  show "(keys_ok (ss_db s) \<and> overrides_ok (ss_db s)) \<and> (\<forall>t. True \<longrightarrow> True)"
    by (simp add: keeps_overrides_def new_session_def)
next
  fix k field payload now corr d n res s
  assume run: "apply_mqtt_command (ar_service ar) k field payload (Aware now) corr (new_session d n) = (Inr res, s)"
    "flush_ok (ss_flushed s) (ss_db s)" "keys_ok d \<and> overrides_ok d"
  from keeps_overrides_command [OF run(1)] run(3) keys_ok_flush [OF run(2)]
  show "(keys_ok (ss_db s) \<and> overrides_ok (ss_db s)) \<and> (\<forall>t. True \<longrightarrow> True)" by simp
next
  fix d d'
  assume "keys_ok d \<and> overrides_ok d" "outbox_kept d d'"
  moreover from this(2) obtain x where "d' = d\<lparr>db_outbox := x\<rparr>" unfolding outbox_kept_def by blast
  ultimately show "keys_ok d' \<and> overrides_ok d'" by (simp add: keys_ok_def overrides_ok_def)
qed simp_all

text \<open>With growing times, the versions published for each room of the registry increase.\<close>

definition keyed :: "('c, 'r) app_runtime \<Rightarrow> bool" where
  "keyed ar \<longleftrightarrow> distinct (map rm_key (rr_rooms (dv_registry (ar_service ar))))"

definition earlier :: "('c, 'r) app_runtime \<Rightarrow> datetime \<Rightarrow> datetime \<Rightarrow> bool" where
  "earlier ar t t' \<longleftrightarrow>
     instant (dv_tz (ar_service ar)) (utc (ar_service ar) t) < instant (dv_tz (ar_service ar)) (utc (ar_service ar) t')"

lemma versions_outbox_kept:
  assumes "versions_inv sv d" and "outbox_kept d d'"
  shows "versions_inv sv d'"
proof -
  from assms(2) obtain x where x: "d' = d\<lparr>db_outbox := x\<rparr>" unfolding outbox_kept_def by blast
  have d': "db_room_states d' = db_room_states d" "db_properties d' = db_properties d" "db_rooms d' = db_rooms d"
    "keys_ok d' = keys_ok d" unfolding x by (simp_all add: keys_ok_def)
  have messages: "map message_of_event (db_outbox d') = map message_of_event (db_outbox d)"
    using arg_cong [OF conjunct2 [OF assms(2) [unfolded outbox_kept_def]], of "map snd"]
    by (simp add: message_of_event_def [abs_def] comp_def)
  then have "published_versions t k d' = published_versions t k d" for t k by (simp add: published_versions_def)
  moreover have "shows_digest sv k d' h v = shows_digest sv k d h v" for k h v
    by (rule shows_digest_cong) (simp_all add: retained_def messages)
  ultimately have "room_versions_ok sv d' k = room_versions_ok sv d k" for k
    using d' room_row_id_cong [OF d'(2,3)]
    by (simp add: room_versions_ok_def versions_ok_def room_last_state_def shows_state_def cong: option.case_cong)
  moreover have "states_known sv d' = states_known sv d" by (rule states_known_cong) (simp_all add: d')
  ultimately show ?thesis using assms(1) d'(4) by (simp add: versions_inv_def)
qed

interpretation versions: runtime_invariant ar "\<lambda>d. keyed ar \<longrightarrow> versions_inv (ar_service ar) d"
    "\<lambda>d t. keyed ar \<longrightarrow> states_before (ar_service ar) d (utc (ar_service ar) t)" "earlier ar" for ar
proof
  fix result c d n v s
  assume run: "sync_body (ar_service ar) result c (new_session d n) = (Inr v, s)" "flush_ok (ss_flushed s) (ss_db s)"
    and inv: "keyed ar \<longrightarrow> versions_inv (ar_service ar) d"
      "keyed ar \<longrightarrow> states_before (ar_service ar) d (utc (ar_service ar) (sy_finished_at result))"
  show "(keyed ar \<longrightarrow> versions_inv (ar_service ar) (ss_db s)) \<and>
      (\<forall>t. earlier ar (sy_finished_at result) t \<longrightarrow> keyed ar \<longrightarrow> states_before (ar_service ar) (ss_db s) (utc (ar_service ar) t))"
  proof (intro conjI impI allI)
    assume k: "keyed ar"
    note step = sync_inv [OF run(1) _ _ _ k [unfolded keyed_def] inv(1) [rule_format, OF k] inv(2) [rule_format, OF k] run(2)]
    show "versions_inv (ar_service ar) (ss_db s)" by (rule step(1)) (simp_all add: new_session_def)
    show "states_before (ar_service ar) (ss_db s) (utc (ar_service ar) t)" if "earlier ar (sy_finished_at result) t" for t
      by (rule step(2)) (use that in \<open>simp_all add: new_session_def earlier_def\<close>)
  qed
next
  fix ids now c d n v s
  assume run: "evaluate_body (ar_service ar) ids (utc (ar_service ar) now) c (new_session d n) = (Inr v, s)"
    "flush_ok (ss_flushed s) (ss_db s)"
    and inv: "keyed ar \<longrightarrow> versions_inv (ar_service ar) d" "keyed ar \<longrightarrow> states_before (ar_service ar) d (utc (ar_service ar) now)"
  show "(keyed ar \<longrightarrow> versions_inv (ar_service ar) (ss_db s)) \<and>
      (\<forall>t. earlier ar now t \<longrightarrow> keyed ar \<longrightarrow> states_before (ar_service ar) (ss_db s) (utc (ar_service ar) t))"
  proof (intro conjI impI allI)
    assume k: "keyed ar"
    note step = evaluate_inv [OF run(1) _ _ _ k [unfolded keyed_def] inv(1) [rule_format, OF k] inv(2) [rule_format, OF k] run(2)]
    show "versions_inv (ar_service ar) (ss_db s)" by (rule step(1)) (simp_all add: new_session_def)
    show "states_before (ar_service ar) (ss_db s) (utc (ar_service ar) t)" if "earlier ar now t" for t
      by (rule step(2)) (use that in \<open>simp_all add: new_session_def earlier_def\<close>)
  qed
next
  fix k field payload now corr d n res s
  assume run: "apply_mqtt_command (ar_service ar) k field payload (Aware now) corr (new_session d n) = (Inr res, s)"
    "flush_ok (ss_flushed s) (ss_db s)"
    and inv: "keyed ar \<longrightarrow> versions_inv (ar_service ar) d"
  show "(keyed ar \<longrightarrow> versions_inv (ar_service ar) (ss_db s)) \<and>
      (\<forall>t. (keyed ar \<longrightarrow> states_before (ar_service ar) d (utc (ar_service ar) t))
         \<longrightarrow> keyed ar \<longrightarrow> states_before (ar_service ar) (ss_db s) (utc (ar_service ar) t))"
  proof (intro conjI impI allI)
    assume k: "keyed ar"
    note step = command_inv [OF run(1) _ _ _ inv [rule_format, OF k] run(2)]
    show "versions_inv (ar_service ar) (ss_db s)" by (rule step(1)) (simp_all add: new_session_def)
    have "db_room_states (ss_db s) = db_room_states d" by (rule step(2)) (simp_all add: new_session_def)
    then show "states_before (ar_service ar) (ss_db s) (utc (ar_service ar) t)"
      if "keyed ar \<longrightarrow> states_before (ar_service ar) d (utc (ar_service ar) t)" for t
      using that k by (simp add: states_before_def)
  qed
next
  fix d d'
  assume "keyed ar \<longrightarrow> versions_inv (ar_service ar) d" "outbox_kept d d'"
  then show "keyed ar \<longrightarrow> versions_inv (ar_service ar) d'" using versions_outbox_kept by blast
next
  fix d t d'
  assume b: "keyed ar \<longrightarrow> states_before (ar_service ar) d (utc (ar_service ar) t)" and "outbox_kept d d'"
  from this(2) obtain x where "d' = d\<lparr>db_outbox := x\<rparr>" unfolding outbox_kept_def by blast
  with b show "keyed ar \<longrightarrow> states_before (ar_service ar) d' (utc (ar_service ar) t)" by (simp add: states_before_def)
next
  fix d t t'
  assume "keyed ar \<longrightarrow> states_before (ar_service ar) d (utc (ar_service ar) t)" "earlier ar t t'"
  then show "keyed ar \<longrightarrow> states_before (ar_service ar) d (utc (ar_service ar) t')"
    by (force simp: states_before_def earlier_def list_all_iff)
qed

end
