(* ===== verification/Db_Sync_Theorems.thy ===== *)
theory Db_Sync_Theorems
  imports Intent_Versions Room_State_Properties
begin

text \<open>
  The properties of the database synchronisation, with runs of a service over one room.
\<close>

section \<open>A service with one room\<close>

text \<open>Its digest keeps the phase of a room state, which is what the runs below distinguish.\<close>

definition demo_text :: py_text where
  "demo_text =
     \<lparr>pt_str = (\<lambda>_. []), pt_int = (\<lambda>_. Inr 0), pt_date_fromisoformat = (\<lambda>_. Inr 0),
      pt_datetime_fromisoformat = (\<lambda>_. Inr (Naive 0)),
      pt_sha256_json = (\<lambda>d. case map_of d ''phase'' of Some (JStr s) \<Rightarrow> s | _ \<Rightarrow> [])\<rparr>"

definition demo_registry :: room_registry where
  "demo_registry =
     \<lparr>rr_property = \<lparr>pr_key = ''p'', pr_name = ''H'', pr_timezone = ''Europe/Sofia''\<rparr>,
      rr_entrances = [], rr_rooms = [sample_room ''101'' None]\<rparr>"

definition demo_service :: db_service where
  "demo_service =
     \<lparr>dv_registry = demo_registry, dv_policy = default_hotel_policy, dv_topics = default_mqtt_topics,
      dv_cursor_source = ''clock_bookings'', dv_uuid4 = UUID, dv_tz = fixed_tzdb 0, dv_text = demo_text,
      dv_decode = (\<lambda>_. Inl UnicodeDecodeError), dv_decode_error = []\<rparr>"

definition demo_result :: "bool \<Rightarrow> normalized_booking list \<Rightarrow> int \<Rightarrow> sync_run_result" where
  "demo_result ok bs t =
     \<lparr>sy_success = ok, sy_bookings = bs, sy_started_at = utc_at t, sy_finished_at = utc_at t,
      sy_next_cursor = \<lparr>sc_last_success_at = Some (utc_at t), sc_cursor_value = None\<rparr>, sy_error = None\<rparr>"

text \<open>A guest who is checked in, with the room assigned by its number.\<close>

definition demo_guest :: normalized_booking where
  "demo_guest = (sample_booking ''b1'' BS_CHECKED_IN 10 14 None (Some ''101''))\<lparr>nb_property_id := ''p''\<rparr>"

definition demo_sync :: "bool \<Rightarrow> normalized_booking list \<Rightarrow> persisted_sync_result result \<times> session" where
  "demo_sync ok bs = apply_sync_result demo_service (demo_result ok bs (12 * day_us)) None (new_session empty_database 0)"

lemma keys_ok_empty [simp]: "keys_ok empty_database"
  by (simp add: keys_ok_def empty_database_def)

lemma demo_sync_returns: "fst (demo_sync True []) \<noteq> Inl e" "fst (demo_sync False [demo_guest]) \<noteq> Inl e"
proof -
  have "(case fst (demo_sync True []) of Inr _ \<Rightarrow> True | Inl _ \<Rightarrow> False)" by code_simp
  then show "fst (demo_sync True []) \<noteq> Inl e" by auto
  have "(case fst (demo_sync False [demo_guest]) of Inr _ \<Rightarrow> True | Inl _ \<Rightarrow> False)" by code_simp
  then show "fst (demo_sync False [demo_guest]) \<noteq> Inl e" by auto
qed

lemma demo_guest_stored: "fst (demo_sync True [demo_guest]) \<noteq> Inl e"
proof -
  have "(case fst (demo_sync True [demo_guest]) of Inr _ \<Rightarrow> True | Inl _ \<Rightarrow> False)" by code_simp
  then show ?thesis by auto
qed

lemma demo_run:
  assumes "\<And>e. fst (demo_sync ok bs) \<noteq> Inl e"
  obtains ps s' where "apply_sync_result demo_service (demo_result ok bs (12 * day_us)) None (new_session empty_database 0) = (Inr ps, s')"
    "demo_sync ok bs = (Inr ps, s')"
  using assms by (cases "demo_sync ok bs"; cases "fst (demo_sync ok bs)") (auto simp: demo_sync_def)

section \<open>The cursor\<close>

text \<open>C16. After a successful poll was applied, the cursor that the next poll loads is the one the
poll ended with, in UTC, whatever cursors were stored before: the next window starts where this
one ended.\<close>

theorem cursor_follows_poll:
  assumes "apply_sync_result sv result corr (new_session d n) = (Inr ps, s')" and "keys_ok d" and "sy_success result"
  shows "load_cursor_state sv (new_session (ss_db s') m) =
    (Inr \<lparr>sc_last_success_at = map_option (utc sv) (sc_last_success_at (sy_next_cursor result)),
          sc_cursor_value = sc_cursor_value (sy_next_cursor result)\<rparr>, new_session (ss_db s') m)"
  by (rule cursor_stored [OF assms])

theorem cursor_follows_poll_witness:
  "fst (load_cursor_state demo_service (new_session (ss_db (snd (demo_sync True []))) 0)) =
    Inr \<lparr>sc_last_success_at = Some (utc demo_service (utc_at (12 * day_us))), sc_cursor_value = None\<rparr>"
proof -
  from demo_sync_returns(1) obtain ps s' where
    run: "apply_sync_result demo_service (demo_result True [] (12 * day_us)) None (new_session empty_database 0) = (Inr ps, s')"
      "demo_sync True [] = (Inr ps, s')"
    by (rule demo_run)
  from cursor_follows_poll [OF run(1) keys_ok_empty] run(2) show ?thesis by (simp add: demo_result_def)
qed

text \<open>What a failed poll adds.\<close>

lemma failed_poll_run:
  assumes "apply_sync_result sv result corr (new_session d n) = (Inr ps, s')" and "\<not> sy_success result"
  shows "\<exists>run. db_sync_runs (ss_db s') = db_sync_runs d @ [run] \<and> srr_id run = ps_sync_run_id ps
    \<and> srr_status run = ''failed'' \<and> srr_error_classification run = sy_error result
    \<and> srr_started_at run = utc sv (sy_started_at result) \<and> srr_finished_at run = Some (utc sv (sy_finished_at result))
    \<and> srr_processed_bookings run = 0 \<and> (\<forall>c. corr = Some c \<longrightarrow> srr_correlation_id run = c)"
    and "ps = failed_outcome (ps_sync_run_id ps)"
proof -
  from assms(1) obtain c s0 where c: "given_or_fresh sv corr (new_session d n) = (Inr c, s0)"
    and trans: "transaction (sync_body sv result c) s0 = (Inr ps, s')"
    unfolding apply_sync_result_def by (elim bindE_Inr_E)
  from trans obtain s1 where body: "sync_body sv result c s0 = (Inr ps, s1)" and s': "ss_db s' = ss_db s1"
    by (elim transaction_Inr) auto
  have s0: "ss_db s0 = d" using given_or_fresh_run [OF c] by (simp add: new_session_def)
  have corr: "\<forall>c'. corr = Some c' \<longrightarrow> c = c'" using c by (auto simp: given_or_fresh_def)
  from body assms(2) obtain reg sa run_id where reg: "ensure_registry sv s0 = (Inr reg, sa)"
    and run: "start_sync_run sv result reg c sa = (Inr run_id, s1)" and ps: "ps = failed_outcome run_id"
    unfolding sync_body_def by (auto elim!: bindE_Inr_E)
  have "db_sync_runs (ss_db sa) = db_sync_runs d"
    using frame_db [OF frame_ensure_registry reg, of sync_runs_t] s0 by simp
  moreover from run obtain row sb sc where add: "add_row sync_runs_t row sb = (Inr (), sc)" and fl: "flush sc = (Inr (), s1)"
    and sb: "ss_db sb = ss_db sa"
    and row: "row = \<lparr>srr_id = run_id, srr_property_id = ppr_id (rg_property reg),
               srr_started_at = utc sv (sy_started_at result), srr_finished_at = Some (utc sv (sy_finished_at result)),
               srr_status = ''failed'', srr_processed_bookings = 0, srr_error_classification = sy_error result,
               srr_correlation_id = c\<rparr>"
    using assms(2) unfolding start_sync_run_def
    by (auto elim!: bindE_Inr_E simp: fresh_id_def draw_uuid_def)
  moreover have "db_sync_runs (ss_db s1) = db_sync_runs (ss_db sb) @ [row]"
    using add fl by (auto simp: add_row_def flush_def split: if_splits)
  ultimately show "\<exists>run. db_sync_runs (ss_db s') = db_sync_runs d @ [run] \<and> srr_id run = ps_sync_run_id ps
    \<and> srr_status run = ''failed'' \<and> srr_error_classification run = sy_error result
    \<and> srr_started_at run = utc sv (sy_started_at result) \<and> srr_finished_at run = Some (utc sv (sy_finished_at result))
    \<and> srr_processed_bookings run = 0 \<and> (\<forall>c. corr = Some c \<longrightarrow> srr_correlation_id run = c)"
    using corr by (intro exI [of _ row]) (auto simp: s' ps failed_outcome_def)
  show "ps = failed_outcome (ps_sync_run_id ps)" by (simp add: ps failed_outcome_def)
qed

text \<open>C17. A failed poll is recorded as one run with the status failed, its two times, its error and no booking
processed, and is answered with a failure under the id of that run. Apart from the rows that mirror the
registry of rooms it leaves everything else as it was: bookings, assignments, room states, overrides,
the cursor, the outbox and the audit.\<close>

theorem failed_poll_keeps:
  assumes "apply_sync_result sv result corr (new_session d n) = (Inr ps, s')" and "\<not> sy_success result"
  shows "(\<exists>run. db_sync_runs (ss_db s') = db_sync_runs d @ [run] \<and> srr_id run = ps_sync_run_id ps
        \<and> srr_status run = ''failed'' \<and> srr_error_classification run = sy_error result
        \<and> srr_started_at run = utc sv (sy_started_at result) \<and> srr_finished_at run = Some (utc sv (sy_finished_at result))
        \<and> srr_processed_bookings run = 0 \<and> (\<forall>c. corr = Some c \<longrightarrow> srr_correlation_id run = c))
    \<and> \<not> ps_success ps \<and> ps_processed_bookings ps = 0
    \<and> db_bookings (ss_db s') = db_bookings d \<and> db_assignments (ss_db s') = db_assignments d
    \<and> db_room_states (ss_db s') = db_room_states d \<and> db_overrides (ss_db s') = db_overrides d
    \<and> db_cursors (ss_db s') = db_cursors d \<and> db_outbox (ss_db s') = db_outbox d
    \<and> db_audit (ss_db s') = db_audit d"
proof -
  have "ps_processed_bookings ps = 0"
    by (subst failed_poll_run(2) [OF assms]) (simp add: failed_outcome_def)
  then show ?thesis using failed_poll [OF assms] failed_poll_run(1) [OF assms] by blast
qed

theorem failed_poll_keeps_witness:
  "\<exists>run. db_sync_runs (ss_db (snd (demo_sync False [demo_guest]))) = [run] \<and> srr_status run = ''failed''
     \<and> db_bookings (ss_db (snd (demo_sync False [demo_guest]))) = [] \<and> db_cursors (ss_db (snd (demo_sync False [demo_guest]))) = []"
proof -
  from demo_sync_returns(2) obtain ps s' where
    run: "apply_sync_result demo_service (demo_result False [demo_guest] (12 * day_us)) None (new_session empty_database 0) = (Inr ps, s')"
      "demo_sync False [demo_guest] = (Inr ps, s')"
    by (rule demo_run)
  from failed_poll_keeps [OF run(1)] run(2) show ?thesis by (auto simp: demo_result_def empty_database_def)
qed

section \<open>The stored bookings mirror the polls\<close>

text \<open>C6. What is stored refines a map from Clock booking ids to bookings: a successful poll
updates that map with the polled bookings, the last one of an id winning, and touches no other
entry. The map reads a booking row with its current assignment as the evaluation does, so the
rows, the assignment history and their foreign keys implement a plain overwrite.\<close>

theorem sync_refines_mirror:
  assumes "apply_sync_result sv result corr (new_session d n) = (Inr ps, s')" and "keys_ok d"
    and "sy_success result" and "list_all valid_booking (sy_bookings result)"
  shows "\<exists>p. filter (\<lambda>r. ppr_key r = property_key sv) (db_properties (ss_db s')) = [p]
    \<and> mirror p (ss_db s') = mirror p d
        ++ map_of (rev (map (\<lambda>nb. (nb_clock_booking_id nb, mirrored sv (utc sv (sy_finished_at result)) (property_key sv) nb))
                            (sy_bookings result)))"
  by (rule sync_mirror [OF assms])

theorem sync_refines_mirror_witness:
  "\<exists>p. mirror p (ss_db (snd (demo_sync True [demo_guest]))) ''b1''
     = Some (mirrored demo_service (utc demo_service (utc_at (12 * day_us))) ''p'' demo_guest)"
proof -
  from demo_guest_stored obtain ps s' where
    run: "apply_sync_result demo_service (demo_result True [demo_guest] (12 * day_us)) None (new_session empty_database 0) = (Inr ps, s')"
      "demo_sync True [demo_guest] = (Inr ps, s')"
    by (rule demo_run)
  have "list_all valid_booking (sy_bookings (demo_result True [demo_guest] (12 * day_us)))"
    by (simp add: demo_result_def demo_guest_def sample_booking_def valid_booking_def ge_zero_def)
  moreover have "nb_clock_booking_id demo_guest = ''b1''" "property_key demo_service = ''p''"
    by (simp_all add: demo_guest_def sample_booking_def property_key_def demo_service_def demo_registry_def)
  ultimately show ?thesis
    using sync_refines_mirror [OF run(1) keys_ok_empty] run(2) by (simp add: demo_result_def) (metis fun_upd_same)
qed

lemma map_result_keys:
  assumes "map_result f rows = Inr ys" and "\<And>row y. f row = Inr y \<Longrightarrow> key y = kr row"
  shows "map key ys = map kr rows"
  using assms(1)
proof (induction rows arbitrary: ys)
  case (Cons row rows)
  then obtain y ys' where "f row = Inr y" "map_result f rows = Inr ys'" "ys = y # ys'" by (auto simp: bind_result_Inr)
  with Cons.IH assms(2) show ?case by simp
qed simp

lemma loaded_rows:
  assumes "clean bookings_t s" and "load_normalized_bookings sv p s = (Inr lb, s')"
  shows "map nb_clock_booking_id (lb_bookings lb)
    = map bkr_clock_booking_id (filter (\<lambda>b. bkr_property_id b = ppr_id p) (db_bookings (ss_db s)))"
proof -
  let ?rows = "filter (\<lambda>b. bkr_property_id b = ppr_id p) (db_bookings (ss_db s))"
  have sel: "scalars bookings_t (filter (\<lambda>b. bkr_property_id b = ppr_id p)) s = (Inr ?rows, s)"
    using scalars_clean [OF assms(1), of "filter (\<lambda>b. bkr_property_id b = ppr_id p)"] by auto
  show ?thesis
  proof (cases "?rows = []")
    case True
    with assms(2) sel show ?thesis by (auto simp: load_normalized_bookings_def bindE_def)
  next
    case False
    with assms(2) sel obtain f where "map_result (\<lambda>row. normalized_from_row (ppr_key p) row (f row)) ?rows = Inr (lb_bookings lb)"
      unfolding load_normalized_bookings_def by (auto simp: bindE_def Let_def split: sum.splits prod.splits)
    then show ?thesis by (rule map_result_keys) (rule normalized_id)
  qed
qed

text \<open>C18. The bookings a recalculation evaluates are exactly that map. The loaded list has one booking for
each stored row of the property, in the order of the rows, no two of them with the same id, and the
booking under an id is what the map holds there, with the identity of its current assignment. The
tables are as the database keeps them: primary keys are unique, and so is a property's booking id.\<close>

theorem evaluation_reads_mirror:
  assumes "keys_ok d" and "uq_bookings (db_bookings d)"
    and "load_normalized_bookings sv p (new_session d n) = (Inr lb, s')"
  shows "map nb_clock_booking_id (lb_bookings lb)
      = map bkr_clock_booking_id (filter (\<lambda>b. bkr_property_id b = ppr_id p) (db_bookings d))
    \<and> distinct (map nb_clock_booking_id (lb_bookings lb))
    \<and> map_of (map (\<lambda>nb. (nb_clock_booking_id nb, nb\<lparr>nb_first_seen_at := None\<rparr>)) (lb_bookings lb)) = mirror p d"
proof -
  let ?rows = "filter (\<lambda>b. bkr_property_id b = ppr_id p) (db_bookings d)"
  note clean = keys_ok_clean(3,4) [OF assms(1)]
  have ids: "map nb_clock_booking_id (lb_bookings lb) = map bkr_clock_booking_id ?rows"
    using loaded_rows [OF clean(1) assms(3)] by (simp add: new_session_def)
  have "distinct (map (\<lambda>b. (bkr_property_id b, bkr_clock_booking_id b)) ?rows)"
    using assms(2) unfolding uq_bookings_def by (rule distinct_map_filter)
  then have "distinct (map bkr_clock_booking_id ?rows)" by (auto simp: distinct_map inj_on_def)
  with ids load_is_mirror [OF clean assms(3)] show ?thesis by (simp add: new_session_def)
qed

definition demo_property :: property_row where
  "demo_property = \<lparr>ppr_id = UUID 1, ppr_key = ''p'', ppr_name = ''H'', ppr_timezone = ''Europe/Sofia''\<rparr>"

definition demo_database :: database where
  "demo_database = ss_db (snd (demo_sync True [demo_guest]))"

lemma demo_database_loads:
  "keys_ok demo_database \<and> uq_bookings (db_bookings demo_database)"
  "case fst (load_normalized_bookings demo_service demo_property (new_session demo_database 0)) of
     Inr lb \<Rightarrow> map nb_clock_booking_id (lb_bookings lb) = [''b1''] | Inl _ \<Rightarrow> False"
  by code_simp+

theorem evaluation_reads_mirror_witness:
  "\<exists>lb s'. load_normalized_bookings demo_service demo_property (new_session demo_database 0) = (Inr lb, s')
     \<and> length (lb_bookings lb) = 1 \<and> distinct (map nb_clock_booking_id (lb_bookings lb))
     \<and> mirror demo_property demo_database ''b1'' \<noteq> None \<and> mirror demo_property demo_database ''b2'' = None"
proof -
  obtain lb s' where run: "load_normalized_bookings demo_service demo_property (new_session demo_database 0) = (Inr lb, s')"
    and ids: "map nb_clock_booking_id (lb_bookings lb) = [''b1'']"
    using demo_database_loads(2)
    by (cases "load_normalized_bookings demo_service demo_property (new_session demo_database 0)";
        cases "fst (load_normalized_bookings demo_service demo_property (new_session demo_database 0))") auto
  from ids obtain nb where nb: "lb_bookings lb = [nb]" "nb_clock_booking_id nb = ''b1''" by auto
  note facts = evaluation_reads_mirror [OF conjunct1 [OF demo_database_loads(1)] conjunct2 [OF demo_database_loads(1)] run]
  have one: "map_of (map (\<lambda>nb. (nb_clock_booking_id nb, nb\<lparr>nb_first_seen_at := None\<rparr>)) (lb_bookings lb)) k
      = (if k = ''b1'' then Some (nb\<lparr>nb_first_seen_at := None\<rparr>) else None)" for k
    by (simp add: nb)
  have "mirror demo_property demo_database ''b1'' \<noteq> None" "mirror demo_property demo_database ''b2'' = None"
    unfolding conjunct2 [OF conjunct2 [OF facts], symmetric] one by simp_all
  moreover have "length (lb_bookings lb) = 1" by (simp add: nb)
  ultimately show ?thesis using run facts by blast
qed

section \<open>Intent versions\<close>

text \<open>Starting with an empty database, whatever polls, policy runs and panel commands follow each
other, the intent versions published for a room of the registry increase strictly, so the adapters'
rejection of old versions never rejects a newer state, as long as each operation carries a later
time than the ones before.\<close>

theorem published_versions_increase:
  assumes "distinct (map rm_key (rr_rooms (dv_registry sv)))" and "times_grow sv ops"
    and "rm \<in> set (rr_rooms (dv_registry sv))"
  shows "sorted_wrt (<) (published_versions (dv_topics sv) (rm_key rm) (fst (run_ops sv ops (empty_database, n))))"
  by (rule versions_grow [OF assms])

definition demo_ops :: "db_op list" where
  "demo_ops = [OpEvaluateAll (utc_at (12 * day_us)), OpSync (demo_result True [demo_guest] (12 * day_us + minute_us)),
     OpCommand ''101'' ''mode'' ''off'' (utc_at (12 * day_us + 2 * minute_us)),
     OpEvaluateKeys [''101''] (utc_at (12 * day_us + 3 * minute_us))]"

theorem published_versions_increase_witness:
  "sorted_wrt (<) (published_versions default_mqtt_topics ''101'' (fst (run_ops demo_service demo_ops (empty_database, 0))))"
proof -
  have "times_grow demo_service demo_ops"
    by (simp add: times_grow_def demo_ops_def demo_result_def demo_service_def instant_astimezone fixed_tzdb_ok)
  moreover have "sample_room ''101'' None \<in> set (rr_rooms (dv_registry demo_service))"
    "distinct (map rm_key (rr_rooms (dv_registry demo_service)))"
    by (simp_all add: demo_service_def demo_registry_def)
  ultimately show ?thesis
    using published_versions_increase [of demo_service demo_ops "sample_room ''101'' None" 0]
    by (simp add: demo_service_def sample_room_def)
qed

definition late_poll_database :: database where
  "late_poll_database =
     (let row = write_booking demo_service demo_guest (utc_at (12 * day_us))
                  (new_booking_row demo_service (UUID 92) demo_property demo_guest (utc_at (12 * day_us)))
      in empty_database
      \<lparr>db_properties := [demo_property],
       db_rooms := [\<lparr>rmr_id = UUID 91, rmr_property_id = UUID 1, rmr_key = ''101'', rmr_name = ''101'',
                     rmr_entrance_key = ''entrance_a'', rmr_floor = None, rmr_clock_room_id = None, rmr_enabled = True\<rparr>],
       db_bookings := [row],
       db_assignments := [\<lparr>asr_id = UUID 93, asr_booking_id = UUID 92, asr_room_id = Some (UUID 91),
                           asr_clock_room_id = None, asr_physical_room_number = Some ''101'',
                           asr_assigned_at = utc_at (12 * day_us), asr_removed_at = None, asr_is_current = True\<rparr>],
       db_room_states := [\<lparr>rsr_id = UUID 94, rsr_room_id = UUID 91, rsr_automation_phase = ''occupied'',
                           rsr_booking_id = Some (UUID 92), rsr_needs_attention = False,
                           rsr_attention_reason = Some ''none'', rsr_effective_from = utc_at (12 * day_us),
                           rsr_expires_at = None, rsr_intent_version = 7, rsr_payload_hash = ''occupied'',
                           rsr_created_at = utc_at (12 * day_us + 2 * minute_us)\<rparr>]\<rparr>)"

definition late_poll_ops :: "db_op list" where
  "late_poll_ops =
     [OpSync (demo_result True [demo_guest\<lparr>nb_booking_status := BS_CHECKED_OUT, nb_payload_hash := ''h2''\<rparr>]
               (12 * day_us + minute_us)),
      OpEvaluateAll (utc_at (12 * day_us + 3 * minute_us))]"

text \<open>The order of the times is needed. A poll carries the time it started at; when a policy run
commits while the poll is under way, the state that the poll adds is older than the latest one,
the next run takes its version from the other state, and the room's topic gets one version twice
with different payloads.\<close>

theorem late_poll_repeats_version:
  "published_versions default_mqtt_topics ''101'' (fst (run_ops demo_service late_poll_ops (late_poll_database, 0))) = [8, 8]"
  by code_simp

text \<open>A late poll also hides a decision. The guest is checked in again by the next poll: the decision is the
one of the state that stays the newest, so neither this poll nor the policy runs after it publish
anything, and the message retained for the occupied room is the vacant one of the late poll.\<close>

definition reverted_poll_ops :: "db_op list" where
  "reverted_poll_ops =
     [OpSync (demo_result True [demo_guest\<lparr>nb_booking_status := BS_CHECKED_OUT, nb_payload_hash := ''h2''\<rparr>]
               (12 * day_us + minute_us)),
      OpSync (demo_result True [demo_guest] (12 * day_us + 3 * minute_us)),
      OpEvaluateAll (utc_at (12 * day_us + 4 * minute_us))]"

definition shown_phases :: "string \<Rightarrow> database \<Rightarrow> json option list" where
  "shown_phases k d =
     map (\<lambda>(_, p). map_of p ''automation_phase'')
       (filter (\<lambda>(topic, _). topic = room_pms_state default_mqtt_topics k) (map message_of_event (db_outbox d)))"

theorem late_poll_hides_decision:
  "case (fst (run_ops demo_service reverted_poll_ops (late_poll_database, 0)), ()) of (d, _) \<Rightarrow>
     map bkr_booking_status (db_bookings d) = [''checked_in'']
     \<and> map rsr_automation_phase (db_room_states d) = [''occupied'', ''vacant'']
     \<and> shown_phases ''101'' d = [Some (JStr ''vacant'')]"
  by code_simp

section \<open>A new assignment is evaluated one poll late\<close>

text \<open>The runtime's sessions do not autoflush, and a new assignment is added without a flush, so
the recalculation of the same poll does not see it: a guest who is checked in and assigned to a
room leaves the room evaluated as vacant. With autoflush the same poll finds it occupied.\<close>

theorem assignment_missed_by_its_poll:
  "map rsr_automation_phase (db_room_states demo_database) = [''vacant'']
   \<and> map rsr_automation_phase (db_room_states (ss_db (snd
       (apply_sync_result demo_service (demo_result True [demo_guest] (12 * day_us)) None
         ((new_session empty_database 0)\<lparr>ss_autoflush := True\<rparr>))))) = [''occupied'']"
proof
  show "map rsr_automation_phase (db_room_states demo_database) = [''vacant'']" by code_simp
  show "map rsr_automation_phase (db_room_states (ss_db (snd
       (apply_sync_result demo_service (demo_result True [demo_guest] (12 * day_us)) None
         ((new_session empty_database 0)\<lparr>ss_autoflush := True\<rparr>))))) = [''occupied'']" by code_simp
qed

end
