(* ===== verification/Api_Theorems.thy ===== *)
theory Api_Theorems
  imports Api_Routes Runtime_Invariants Db_Sync_Theorems
begin

text \<open>
  The properties of the HTTP endpoints: who is admitted, what a request may change, and what the
  pages of the audit trail show.
\<close>

section \<open>What a request does to the database\<close>

lemma in_runtime_db: "keeps same_db m \<Longrightarrow> rw_db (aw_world (snd (in_runtime m f aw))) = rw_db (aw_world aw)"
  using keepsD [of same_db m "aw_world aw"] by (auto simp: in_runtime_def same_db_def split: prod.splits)

lemma same_db_system_state: "keeps same_db (system_state ar)"
  unfolding system_state_def Let_def by (intro same_db_bind same_db_basic)

lemma metrics_db: "rw_db (aw_world (snd (metrics render ar aw))) = rw_db (aw_world aw)"
  using keepsD [OF same_db_system_state [of ar], of "aw_world aw"]
  by (auto simp: metrics_def same_db_def split: prod.splits sum.splits)

lemma read_endpoint_db:
  assumes "endpoint render ar req aw = Some (a, aw')" and "\<And>key. req \<noteq> POST_reconcile key"
  shows "rw_db (aw_world aw') = rw_db (aw_world aw)"
proof -
  have "rw_db (aw_world (snd (get_ready ar aw))) = rw_db (aw_world aw)"
    unfolding get_ready_def by (intro in_runtime_db same_db_bind same_db_basic)
  moreover have "rw_db (aw_world (snd (sync_status ar aw))) = rw_db (aw_world aw)"
    unfolding sync_status_def by (intro in_runtime_db same_db_system_state)
  moreover have "rw_db (aw_world (snd (rooms aw))) = rw_db (aw_world aw)"
    "rw_db (aw_world (snd (room_endpoint tz k aw))) = rw_db (aw_world aw)"
    "rw_db (aw_world (snd (booking_endpoint tz k aw))) = rw_db (aw_world aw)"
    "rw_db (aw_world (snd (audit_endpoint tz l off aw))) = rw_db (aw_world aw)" for tz k l off
    unfolding rooms_def room_endpoint_def booking_endpoint_def audit_endpoint_def Let_def
    by (intro in_runtime_db same_db_basic)+
  ultimately show ?thesis
    using assms metrics_db [of render ar aw]
    by (cases req) (simp_all add: endpoint_def Let_def, (metis snd_conv)+)
qed

section \<open>Pages\<close>

lemma newest_first_facts:
  "set (newest_first tz rows) = set rows" "length (newest_first tz rows) = length rows"
  by (simp_all add: newest_first_def)

text \<open>With distinct ids the order is strict: by time, then by id, both descending.\<close>

lemma newest_first_order:
  assumes "distinct (map aur_id rows)"
  shows "mset (newest_first tz rows) = mset rows"
    and "sorted_wrt (\<lambda>a b. instant tz (aur_created_at b) < instant tz (aur_created_at a)
           \<or> instant tz (aur_created_at b) = instant tz (aur_created_at a) \<and> aur_id b < aur_id a) (newest_first tz rows)"
proof -
  let ?k = "\<lambda>r. (instant tz (aur_created_at r), aur_id r)"
  show "mset (newest_first tz rows) = mset rows" by (simp add: newest_first_def)
  have "distinct (map ?k rows)" using assms by (auto simp: distinct_map inj_on_def)
  moreover have "mset (map ?k (sort_key ?k rows)) = mset (map ?k rows)" by simp
  ultimately have "distinct (map ?k (sort_key ?k rows))" using mset_eq_imp_distinct_iff by blast
  then have "sorted_wrt (<) (map ?k (sort_key ?k rows))" by (simp add: strict_sorted_iff)
  then have descending: "sorted_wrt (\<lambda>a b. ?k a < ?k b) (sort_key ?k rows)" by (simp only: sorted_wrt_map)
  show "sorted_wrt (\<lambda>a b. instant tz (aur_created_at b) < instant tz (aur_created_at a)
      \<or> instant tz (aur_created_at b) = instant tz (aur_created_at a) \<and> aur_id b < aur_id a) (newest_first tz rows)"
    unfolding newest_first_def sorted_wrt_rev by (rule sorted_wrt_mono_rel [OF _ descending]) auto
qed

lemma concat_pages: "concat (map (\<lambda>i. take l (drop (i * l) xs)) [0..<n]) = take (n * l) xs"
proof (induction n)
  case (Suc n)
  have "take (n * l) xs @ take l (drop (n * l) xs) = take (n * l + l) xs" by (simp only: take_add)
  with Suc show ?case by (simp add: add.commute)
qed simp

lemma audit_page:
  assumes "distinct (map aur_id (db_audit (rw_db (aw_world aw))))"
  shows "audit_endpoint tz limit offset aw
    = (Inr (200, Json (JList (map (audit_payload tz)
         (take (nat (min (max limit 1) 500)) (drop (nat (max offset 0)) (newest_first tz (db_audit (rw_db (aw_world aw)))))))))
       , aw)"
proof -
  let ?s = "new_session (rw_db (aw_world aw)) (rw_draws (aw_world aw))"
  have "clean audit_t ?s" using assms by (simp add: clean_def new_session_def)
  then have "scalars audit_t (\<lambda>rows. take n (drop m (newest_first tz rows))) ?s
      = (Inr (take n (drop m (newest_first tz (db_audit (rw_db (aw_world aw)))))), ?s)" for n m
    by (subst scalars_clean) (auto simp: newest_first_facts new_session_def dest!: in_set_takeD in_set_dropD)
  then show ?thesis
    by (simp add: audit_endpoint_def Let_def in_runtime_def read_session_def answer_of_def) (simp add: new_session_def)
qed

section \<open>Properties\<close>

text \<open>A runtime of a production system for the witnesses.\<close>

definition production_settings :: settings where
  "production_settings = default_settings
     \<lparr>se_app_env := ENV_PRODUCTION, se_secret_key := ''s3cret'', se_admin_api_key := Some ''k3y''\<rparr>"

definition api_runtime :: "(int, unit) app_runtime" where
  "api_runtime =
     \<lparr>ar_settings = production_settings, ar_service = demo_service, ar_clock = None, ar_mqtt = None,
      ar_now = (\<lambda>c. (utc_at c, c + minute_us)), ar_uniform = (\<lambda>b r. (0, r))\<rparr>"

definition audit_rows :: "audit_row list" where
  "audit_rows = map (\<lambda>n. \<lparr>aur_id = UUID n, aur_property_id = None, aur_room_id = None, aur_booking_id = None,
       aur_event_type = ''t'', aur_message = ''m'', aur_payload = None, aur_created_at = utc_at (3 - n),
       aur_correlation_id = UUID 0\<rparr>) [1, 2, 3]"

definition api_world_with :: "audit_row list \<Rightarrow> (int, unit) api_world" where
  "api_world_with rows =
     \<lparr>aw_world = \<lparr>rw_db = empty_database\<lparr>db_audit := rows\<rparr>, rw_draws = 0, rw_io = 0, rw_random = (), rw_health = new_health True\<rparr>,
      aw_gauges = new_gauges\<rparr>"

lemma audit_of_world: "db_audit (rw_db (aw_world (api_world_with rows))) = rows"
  by (simp add: api_world_with_def)

lemma validated_production:
  assumes "validate_runtime_security s = Inr s'" and "se_app_env s' = ENV_PRODUCTION"
  shows "\<exists>key. se_admin_api_key s' = Some key"
  using assms by (auto simp: validate_runtime_security_def split: if_splits)

text \<open>C27. With accepted settings of a production system, the two administrative endpoints, the reconciliation
\<^verbatim>\<open>POST /api/v1/sync/reconcile\<close> and the audit trail \<^verbatim>\<open>GET /api/v1/audit\<close>, run only for a request that
carries the configured key: every other one is answered 401 and changes nothing, so a production
system is never left open by a missing key.\<close>

theorem admin_key_required:
  assumes "mk_settings s = Inr (ar_settings ar)" and "se_app_env (ar_settings ar) = ENV_PRODUCTION"
  shows "\<exists>key. se_admin_api_key (ar_settings ar) = Some key
    \<and> (\<forall>header. handle_request render (Some ar) (POST_reconcile header) aw
        = (if header = Some key then endpoint render ar (POST_reconcile header) aw
           else Some (Inl (HTTPException 401 (JStr ''admin authentication required'')), aw)))
    \<and> (\<forall>header limit offset. handle_request render (Some ar) (GET_audit header limit offset) aw
        = (if header = Some key then endpoint render ar (GET_audit header limit offset) aw
           else Some (Inl (HTTPException 401 (JStr ''admin authentication required'')), aw)))"
proof -
  from assms obtain key where "se_admin_api_key (ar_settings ar) = Some key"
    by (auto simp: mk_settings_def bind_result_Inr dest: validated_production)
  then show ?thesis
    by (intro exI [of _ key]) (auto simp: handle_request_def get_runtime_def admitted_def require_admin_def)
qed

theorem admin_key_required_witness:
  "mk_settings production_settings = Inr (ar_settings api_runtime)
   \<and> handle_request (\<lambda>_. []) (Some api_runtime) (POST_reconcile None) (api_world_with [])
       = Some (Inl (HTTPException 401 (JStr ''admin authentication required'')), api_world_with [])
   \<and> handle_request (\<lambda>_. []) (Some api_runtime) (GET_audit (Some ''wrong'') 10 0) (api_world_with audit_rows)
       = Some (Inl (HTTPException 401 (JStr ''admin authentication required'')), api_world_with audit_rows)"
proof -
  have ok: "mk_settings production_settings = Inr (ar_settings api_runtime)" by code_simp
  have prod: "se_app_env (ar_settings api_runtime) = ENV_PRODUCTION" by (simp add: api_runtime_def production_settings_def)
  have "se_admin_api_key (ar_settings api_runtime) \<noteq> Some ''wrong''" by (simp add: api_runtime_def production_settings_def)
  with admin_key_required [OF ok prod, of "\<lambda>_. []" "api_world_with []"]
    admin_key_required [OF ok prod, of "\<lambda>_. []" "api_world_with audit_rows"] ok
  show ?thesis by fastforce
qed

text \<open>A request changes the database only when it is the one to reconcile and it is admitted: every other
request, with whatever parameters and whatever the clients behind the service do, leaves all rows as
they were.\<close>

theorem requests_only_read:
  assumes "handle_request render state req aw = Some (a, aw')"
  shows "rw_db (aw_world aw') = rw_db (aw_world aw)
    \<or> (\<exists>key ar. req = POST_reconcile key \<and> state = Some ar \<and> require_admin (ar_settings ar) key = Inr ())"
proof (cases "\<exists>ar. state = Some ar \<and> admitted (ar_settings ar) req = Inr () \<and> req \<noteq> GET_live")
  case False
  then have "aw' = aw"
    using assms by (auto simp: handle_request_def get_runtime_def split: if_splits option.splits sum.splits)
  then show ?thesis by simp
next
  case True
  then obtain ar where ar: "state = Some ar" "admitted (ar_settings ar) req = Inr ()" "req \<noteq> GET_live" by blast
  with assms have "endpoint render ar req aw = Some (a, aw')" by (simp add: handle_request_def get_runtime_def)
  from read_endpoint_db [OF this] ar show ?thesis by (cases req) (auto simp: admitted_def)
qed

theorem requests_only_read_witness:
  "\<exists>a aw'. handle_request (\<lambda>_. []) (Some api_runtime) (GET_room ''1'') (api_world_with audit_rows) = Some (a, aw')
     \<and> rw_db (aw_world aw') = empty_database\<lparr>db_audit := audit_rows\<rparr>"
proof -
  obtain a aw' where run: "handle_request (\<lambda>_. []) (Some api_runtime) (GET_room ''1'') (api_world_with audit_rows) = Some (a, aw')"
    by (simp add: handle_request_def get_runtime_def admitted_def endpoint_def Let_def) (metis surj_pair)
  from requests_only_read [OF run] have "rw_db (aw_world aw') = rw_db (aw_world (api_world_with audit_rows))" by blast
  with run show ?thesis by (auto simp: api_world_with_def)
qed

text \<open>C32. The pages of the audit trail: for an admitted request a page size from 1 to 500 is taken as it is, and
the pages 0, 1, 2, ... of that size, taken in order, hold every event of the trail exactly once (as a
multiset they are the stored rows), from the newest to the oldest: times descend, and among events of one
time the ids do. A read does not change the service, so this holds for the pages one request after
another fetches.\<close>

theorem audit_pages_cover_trail:
  assumes "require_admin (ar_settings ar) key = Inr ()" and "1 \<le> l" and "l \<le> 500"
    and "distinct (map aur_id (db_audit (rw_db (aw_world aw))))"
    and "tz = dv_tz (ar_service ar)"
  shows "\<exists>page.
    (\<forall>i. handle_request render (Some ar) (GET_audit key l (int i * l)) aw
           = Some (Inr (200, Json (JList (map (audit_payload tz) (page i)))), aw))
    \<and> (\<forall>n. length (db_audit (rw_db (aw_world aw))) \<le> n * nat l \<longrightarrow>
         mset (concat (map page [0..<n])) = mset (db_audit (rw_db (aw_world aw)))
         \<and> sorted_wrt (\<lambda>a b. instant tz (aur_created_at b) < instant tz (aur_created_at a)
             \<or> instant tz (aur_created_at b) = instant tz (aur_created_at a) \<and> aur_id b < aur_id a)
             (concat (map page [0..<n])))"
proof -
  let ?rows = "db_audit (rw_db (aw_world aw))"
  let ?page = "\<lambda>i. take (nat l) (drop (i * nat l) (newest_first tz ?rows))"
  have "handle_request render (Some ar) (GET_audit key l (int i * l)) aw
      = Some (Inr (200, Json (JList (map (audit_payload tz) (?page i)))), aw)" for i
  proof -
    have "nat (max (int i * l) 0) = i * nat l" and "nat (min (max l 1) 500) = nat l"
      using assms(2,3) by (simp_all add: nat_mult_distrib)
    with audit_page [OF assms(4), of tz l "int i * l"] show ?thesis
      using assms(1) by (simp add: handle_request_def get_runtime_def admitted_def endpoint_def Let_def assms(5))
  qed
  moreover have "concat (map ?page [0..<n]) = newest_first tz ?rows" if "length ?rows \<le> n * nat l" for n
    using that by (simp add: concat_pages newest_first_facts)
  ultimately show ?thesis
    by (intro exI [of _ ?page] conjI allI impI) (simp_all add: newest_first_order [OF assms(4)])
qed

theorem audit_pages_cover_trail_witness:
  "\<exists>page. handle_request (\<lambda>_. []) (Some api_runtime) (GET_audit (Some ''k3y'') 2 0) (api_world_with audit_rows)
      = Some (Inr (200, Json (JList (map (audit_payload (fixed_tzdb 0)) (page 0)))), api_world_with audit_rows)
    \<and> mset (page 0 @ page (1 :: nat)) = mset audit_rows
    \<and> sorted_wrt (\<lambda>a b. instant (fixed_tzdb 0) (aur_created_at b) < instant (fixed_tzdb 0) (aur_created_at a)
         \<or> instant (fixed_tzdb 0) (aur_created_at b) = instant (fixed_tzdb 0) (aur_created_at a) \<and> aur_id b < aur_id a)
       (page 0 @ page 1)"
proof -
  let ?order = "sorted_wrt (\<lambda>a b. instant (fixed_tzdb 0) (aur_created_at b) < instant (fixed_tzdb 0) (aur_created_at a)
      \<or> instant (fixed_tzdb 0) (aur_created_at b) = instant (fixed_tzdb 0) (aur_created_at a) \<and> aur_id b < aur_id a)"
  have admin: "require_admin (ar_settings api_runtime) (Some ''k3y'') = Inr ()"
    by (simp add: require_admin_def api_runtime_def production_settings_def)
  have ids: "distinct (map aur_id (db_audit (rw_db (aw_world (api_world_with audit_rows)))))"
    by (simp add: audit_of_world audit_rows_def)
  have tz: "fixed_tzdb 0 = dv_tz (ar_service api_runtime)" by (simp add: api_runtime_def demo_service_def)
  have size: "1 \<le> (2 :: int)" "(2 :: int) \<le> 500" by simp_all
  have "\<exists>page. (\<forall>i. handle_request (\<lambda>_. []) (Some api_runtime) (GET_audit (Some ''k3y'') 2 (int i * 2)) (api_world_with audit_rows)
      = Some (Inr (200, Json (JList (map (audit_payload (fixed_tzdb 0)) (page i)))), api_world_with audit_rows))
    \<and> (\<forall>n. length audit_rows \<le> n * nat 2 \<longrightarrow> mset (concat (map page [0..<n])) = mset audit_rows
      \<and> ?order (concat (map page [0..<n])))"
    by (rule audit_pages_cover_trail [OF admin size ids tz, unfolded audit_of_world])
  then obtain page where page: "\<forall>i. handle_request (\<lambda>_. []) (Some api_runtime) (GET_audit (Some ''k3y'') 2 (int i * 2))
        (api_world_with audit_rows)
      = Some (Inr (200, Json (JList (map (audit_payload (fixed_tzdb 0)) (page i)))), api_world_with audit_rows)"
    and all: "\<forall>n. length audit_rows \<le> n * nat 2 \<longrightarrow> mset (concat (map page [0..<n])) = mset audit_rows
      \<and> ?order (concat (map page [0..<n]))"
    by (elim exE conjE) (rule that)
  have "length audit_rows \<le> 2 * nat 2" "concat (map page [0..<2]) = page 0 @ page 1" by (simp_all add: audit_rows_def upt_rec)
  with all [rule_format, of 2] have "mset (page 0 @ page 1) = mset audit_rows \<and> ?order (page 0 @ page 1)" by (simp only:)
  moreover from page [rule_format, of 0] have "handle_request (\<lambda>_. []) (Some api_runtime) (GET_audit (Some ''k3y'') 2 0)
      (api_world_with audit_rows)
      = Some (Inr (200, Json (JList (map (audit_payload (fixed_tzdb 0)) (page 0)))), api_world_with audit_rows)" by simp
  ultimately show ?thesis by blast
qed

end
