(* ===== verification/Service_Runs.thy ===== *)
theory Service_Runs
  imports Api_Theorems Runtime_Invariants
begin

text \<open>
  The whole service: the steps of the runtime between the requests of the HTTP interface and the
  commands of the panels. A command runs on a thread of the MQTT client's executor in two
  transactions, so other steps can come between them; an endpoint runs on a thread of the HTTP
  server, and a request to reconcile takes the steps of a poll and its storing. The invariants of
  the runtime are carried over to these runs by the same locale.
\<close>

section \<open>The two transactions of a command\<close>

text \<open>
  The evaluation that an accepted command still needs: the time it was read at, the room's key and
  the correlation id.
\<close>

type_synonym open_command = "datetime \<times> string \<times> uuid"

definition stored_outcome :: "datetime \<Rightarrow> command_result result \<Rightarrow> ('c, 'r, open_command option) rt" where
  "stored_outcome now outcome =
     (case outcome of
        Inl e \<Rightarrow> bindE (record_outcome ''mqtt-command'' (Inl e :: unit result)) (\<lambda>_. ret None)
      | Inr result \<Rightarrow>
          (case (cr_accepted result, cr_room_key result) of
             (True, Some k) \<Rightarrow> ret (Some (now, k, cr_correlation_id result))
           | _ \<Rightarrow> bindE (record_outcome ''mqtt-command'' (Inr () :: unit result)) (\<lambda>_. ret None)))"

definition store_command ::
  "('c, 'r) app_runtime \<Rightarrow> string \<Rightarrow> string \<Rightarrow> string \<Rightarrow> ('c, 'r, open_command option) rt" where
  "store_command ar rkey field payload =
     bindE (utcnow ar) (\<lambda>now.
     bindE (uuid4 ar) (\<lambda>correlation.
     bindE (attemptE (with_session (transaction
               (apply_mqtt_command (ar_service ar) rkey field payload (Aware now) (Some correlation)))))
       (stored_outcome now)))"

definition evaluate_command :: "('c, 'r) app_runtime \<Rightarrow> open_command \<Rightarrow> ('c, 'r, unit) rt" where
  "evaluate_command ar cmd =
     (case cmd of (now, k, correlation) \<Rightarrow>
        bindE (attemptE (with_session (evaluate_room_keys (ar_service ar) [k] (Aware now) (Some correlation))))
          (record_outcome ''mqtt-command''))"

lemma record_outcome_returns: "\<exists>w'. record_outcome nm x w = (Inr (), w')"
  by (cases x) (auto simp: record_outcome_def set_worker_error_def pop_worker_error_def modify_def)

text \<open>Without a step in between they are the commands of the runtime.\<close>

lemma control_commands_phases:
  "control_commands ar k field payload
     = bindE (store_command ar k field payload) (\<lambda>cmd. case cmd of None \<Rightarrow> ret () | Some c \<Rightarrow> evaluate_command ar c)"
proof
  fix w
  let ?sv = "ar_service ar"
  obtain t w1 where 1: "utcnow ar w = (Inr t, w1)" using utcnow_run by blast
  obtain c w2 where 2: "uuid4 ar w1 = (Inr c, w2)" by (simp add: uuid4_def)
  obtain x w3 where 3: "with_session (transaction (apply_mqtt_command ?sv k field payload (Aware t) (Some c))) w2 = (x, w3)" by fastforce
  show "control_commands ar k field payload w
     = bindE (store_command ar k field payload) (\<lambda>cmd. case cmd of None \<Rightarrow> ret () | Some c \<Rightarrow> evaluate_command ar c) w"
  proof (cases x)
    case (Inl e)
    obtain w4 where "record_outcome ''mqtt-command'' (Inl e :: unit result) w3 = (Inr (), w4)" using record_outcome_returns by blast
    with 1 2 3 Inl show ?thesis
      by (simp add: control_commands_def store_command_def stored_outcome_def Let_def bindE_def attemptE_def)
  next
    case (Inr res)
    obtain w4 where rec: "record_outcome ''mqtt-command'' (Inr () :: unit result) w3 = (Inr (), w4)" using record_outcome_returns by blast
    show ?thesis
    proof (cases "cr_accepted res \<and> cr_room_key res \<noteq> None")
      case False
      with 1 2 3 Inr rec show ?thesis
        by (auto simp: control_commands_def store_command_def stored_outcome_def Let_def bindE_def attemptE_def split: option.split bool.split)
    next
      case True
      then obtain k' where "cr_accepted res" "cr_room_key res = Some k'" by auto
      with 1 2 3 Inr show ?thesis
        by (auto simp: control_commands_def store_command_def stored_outcome_def evaluate_command_def Let_def bindE_def attemptE_def record_outcome_def
            split: prod.split sum.split)
    qed
  qed
qed

section \<open>Steps of the service\<close>

record ('c, 'r) service_state =
  sn_api :: "('c, 'r) api_world"
  sn_poll :: "sync_run_result option"
  sn_commands :: "open_command list"

abbreviation sn_world :: "('c, 'r) service_state \<Rightarrow> ('c, 'r) runtime_world" where
  "sn_world s \<equiv> aw_world (sn_api s)"

definition with_runtime :: "('c, 'r) service_state \<Rightarrow> ('c, 'r) runtime_state \<Rightarrow> ('c, 'r) service_state" where
  "with_runtime s rs = s\<lparr>sn_api := (sn_api s)\<lparr>aw_world := fst rs\<rparr>, sn_poll := snd rs\<rparr>"

inductive service_step ::
  "(gauges \<Rightarrow> string) \<Rightarrow> ('c, 'r) app_runtime \<Rightarrow> ('c, 'r) service_state \<Rightarrow> datetime option \<Rightarrow> ('c, 'r) service_state \<Rightarrow> bool"
  for render ar where
  runtime: "runtime_step ar (sn_world s, sn_poll s) l rs \<Longrightarrow> service_step render ar s l (with_runtime s rs)"
| command_stored:
    "store_command ar k field payload (sn_world s) = (Inr cmd, w')
       \<Longrightarrow> service_step render ar s None (with_runtime s (w', sn_poll s)\<lparr>sn_commands := opt_list cmd @ sn_commands s\<rparr>)"
| command_evaluated:
    "\<lbrakk>sn_commands s = before @ (t, k, c) # after; evaluate_command ar (t, k, c) (sn_world s) = (r, w')\<rbrakk>
       \<Longrightarrow> service_step render ar s (Some t) (with_runtime s (w', sn_poll s)\<lparr>sn_commands := before @ after\<rparr>)"
| state_published:
    "publish_system_state ar (sn_world s) = (r, w') \<Longrightarrow> service_step render ar s None (with_runtime s (w', sn_poll s))"
| requested:
    "\<lbrakk>handle_request render (Some ar) req (sn_api s) = Some (a, aw'); \<And>key. req \<noteq> POST_reconcile key\<rbrakk>
       \<Longrightarrow> service_step render ar s None (s\<lparr>sn_api := aw'\<rparr>)"
| reconcile_refused:
    "\<lbrakk>handle_request render (Some ar) (POST_reconcile key) (sn_api s) = Some (a, aw');
      require_admin (ar_settings ar) key \<noteq> Inr ()\<rbrakk>
       \<Longrightarrow> service_step render ar s None (s\<lparr>sn_api := aw'\<rparr>)"
| reconcile_raised:
    "\<lbrakk>sn_poll s = None; poll_phase ar None (sn_world s) = Some (Inl e, w')\<rbrakk>
       \<Longrightarrow> service_step render ar s None (with_runtime s (w', None))"

inductive service_run ::
  "(gauges \<Rightarrow> string) \<Rightarrow> ('c, 'r) app_runtime \<Rightarrow> ('c, 'r) service_state \<Rightarrow> datetime list \<Rightarrow> ('c, 'r) service_state \<Rightarrow> bool"
  for render ar s0 where
  no_step: "service_run render ar s0 [] s0"
| one_more:
    "\<lbrakk>service_run render ar s0 ts s; service_step render ar s l s'\<rbrakk>
       \<Longrightarrow> service_run render ar s0 (ts @ opt_list l) s'"

lemma with_runtime_simps [simp]:
  "sn_world (with_runtime s rs) = fst rs" "sn_poll (with_runtime s rs) = snd rs"
  by (simp_all add: with_runtime_def)

lemma no_poll: "sn_poll s = None \<Longrightarrow> s\<lparr>sn_api := aw, sn_poll := None\<rparr> = s\<lparr>sn_api := aw\<rparr>"
  by (cases s) simp

lemma opt_list_case: "opt_list l = (case l of None \<Rightarrow> [] | Some t \<Rightarrow> [t])"
  by (cases l) (simp_all add: opt_list_def)

text \<open>The runs of the runtime are runs of the service.\<close>

lemma runtime_runs_serve:
  assumes "runtime_run ar (w0, None) ts rs"
  shows "\<exists>s. service_run render ar \<lparr>sn_api = \<lparr>aw_world = w0, aw_gauges = g\<rparr>, sn_poll = None, sn_commands = []\<rparr> ts s
    \<and> (sn_world s, sn_poll s) = rs"
  using assms
proof (induction rule: runtime_run.induct)
  case run_refl
  then show ?case by (intro exI conjI) (rule no_step, simp)
next
  case (run_step ts rs l rs')
  then obtain s where s: "service_run render ar \<lparr>sn_api = \<lparr>aw_world = w0, aw_gauges = g\<rparr>, sn_poll = None, sn_commands = []\<rparr> ts s"
    "(sn_world s, sn_poll s) = rs" by blast
  with run_step.hyps(2) have "service_step render ar s l (with_runtime s rs')" by (auto intro: service_step.runtime)
  from one_more [OF s(1) this] show ?case
    by (intro exI [of _ "with_runtime s rs'"]) (simp add: opt_list_case)
qed

text \<open>An admitted request to reconcile, served at once, is the steps of its poll.\<close>

lemma reconcile_serves:
  assumes "handle_request render (Some ar) (POST_reconcile key) (sn_api s) = Some (a, aw')" and "sn_poll s = None"
  shows "\<exists>ts. service_run render ar s ts (s\<lparr>sn_api := aw'\<rparr>)"
proof (cases "require_admin (ar_settings ar) key = Inr ()")
  case False
  from one_more [OF no_step reconcile_refused [OF assms(1) this]] show ?thesis by (auto simp: opt_list_def)
next
  case True
  with assms(1) obtain r w where run: "run_sync_once ar None (sn_world s) = Some (r, w)" and aw': "aw' = (sn_api s)\<lparr>aw_world := w\<rparr>"
    by (auto simp: handle_request_def get_runtime_def admitted_def endpoint_def Let_def reconcile_def)
  then consider e where "poll_phase ar None (sn_world s) = Some (Inl e, w)"
    | result w1 where "poll_phase ar None (sn_world s) = Some (Inr result, w1)" "store_poll ar result w1 = (r, w)"
    by (auto simp: run_sync_once_def split: option.splits sum.splits)
  then show ?thesis
  proof cases
    case 1
    from one_more [OF no_step reconcile_raised [OF assms(2) 1]] assms(2) show ?thesis by (auto simp: with_runtime_def aw' no_poll)
  next
    case 2
    have "runtime_step ar (sn_world s, sn_poll s) None (w1, Some result)" using 2(1) assms(2) by (simp add: polled)
    note 1 = one_more [OF no_step service_step.runtime [OF this]]
    have "runtime_step ar (w1, Some result) (Some (sy_finished_at result)) (w, None)" by (rule reconciled [OF 2(2)])
    then have "service_step render ar (with_runtime s (w1, Some result)) (Some (sy_finished_at result))
        (with_runtime (with_runtime s (w1, Some result)) (w, None))"
      by (intro service_step.runtime) simp
    from one_more [OF 1 this] assms(2) show ?thesis by (auto simp: with_runtime_def aw' no_poll)
  qed
qed

section \<open>The invariants in the runs of the service\<close>

context runtime_invariant begin

lemma store_command_holds:
  assumes "store_command ar k field payload w = (r, w')" and "holds w ts"
  shows "holds w' ts"
proof -
  let ?sv = "ar_service ar"
  obtain t w1 where 1: "utcnow ar w = (Inr t, w1)" "rw_db w1 = rw_db w" using utcnow_run [of ar w] by simp
  obtain c w2 where 2: "uuid4 ar w1 = (Inr c, w2)" "rw_db w2 = rw_db w1" by (simp add: uuid4_def)
  obtain x w3 where 3: "with_session (transaction (apply_mqtt_command ?sv k field payload (Aware t) (Some c))) w2 = (x, w3)" by fastforce
  have "holds w2 ts" using assms(2) 1(2) 2(2) by (simp add: holds_def)
  with commanded_session [OF 3] have 4: "holds w3 ts" by (auto simp: holds_def)
  have quiet: "keeps same_db (bindE (record_outcome ''mqtt-command'' y) (\<lambda>_. ret None))" for y :: "unit result"
    by (intro same_db_bind same_db_record same_db_basic)
  have kept: "keeps same_db (stored_outcome t x)"
    by (cases x) (auto simp: stored_outcome_def quiet same_db_basic split: option.split bool.split)
  have "stored_outcome t x w3 = (r, w')"
    using assms(1) 1(1) 2(1) 3 by (simp add: store_command_def bindE_def attemptE_def)
  from keeps_eqD [OF kept this] have "rw_db w' = rw_db w3" by (simp add: same_db_def)
  with 4 show ?thesis by (rule same_holds)
qed

lemma evaluate_command_holds:
  assumes "evaluate_command ar (t, k, c) w = (r, w')" and "holds w ts" and "\<forall>t0 \<in> set ts. lt t0 t"
  shows "holds w' (ts @ [t])"
proof -
  obtain x w1 where ev: "with_session (evaluate_room_keys (ar_service ar) [k] (Aware t) (Some c)) w = (x, w1)" by fastforce
  have eq: "evaluate_room_keys (ar_service ar) [k] (Aware t) (Some c)
      = transaction (evaluate_body (ar_service ar) (room_ids_of_keys [k]) (utc (ar_service ar) t) c)"
    by (rule ext) (simp add: evaluate_room_keys_def given_or_fresh_def)
  have "done_at t (rw_db w1)" by (rule evaluated_session [OF ev [unfolded eq]]) (use assms(2,3) in \<open>simp_all add: holds_def\<close>)
  moreover have "rw_db w' = rw_db w1"
  proof -
    have "record_outcome ''mqtt-command'' x w1 = (r, w')"
      using assms(1) ev by (simp add: evaluate_command_def bindE_def attemptE_def)
    from keeps_eqD [OF same_db_record this] show ?thesis by (simp add: same_db_def)
  qed
  ultimately show ?thesis by (simp add: done_holds)
qed

lemma request_holds:
  assumes "handle_request render (Some ar) req aw = Some (a, aw')" and "holds (aw_world aw) ts"
    and "(\<forall>key. req \<noteq> POST_reconcile key) \<or> admitted (ar_settings ar) req \<noteq> Inr ()"
  shows "holds (aw_world aw') ts"
proof -
  have "rw_db (aw_world aw') = rw_db (aw_world aw)"
  proof (cases "req = GET_live \<or> admitted (ar_settings ar) req \<noteq> Inr ()")
    case True
    with assms(1) show ?thesis by (auto simp: handle_request_def get_runtime_def split: if_splits sum.splits)
  next
    case False
    with assms(1) have "endpoint render ar req aw = Some (a, aw')" by (simp add: handle_request_def get_runtime_def)
    with read_endpoint_db assms(3) False show ?thesis by blast
  qed
  with assms(2) show ?thesis by (simp add: holds_def)
qed

lemma service_step_holds:
  assumes "service_step render ar s l s'" and "holds (sn_world s) ts" and "\<forall>t \<in> set (opt_list l). \<forall>t0 \<in> set ts. lt t0 t"
  shows "holds (sn_world s') (ts @ opt_list l)"
  using assms(1)
proof cases
  case (runtime rs)
  from step_holds [OF runtime(2)] assms(2,3) show ?thesis
    unfolding runtime(1) opt_list_case by (auto split: option.splits)
next
  case (command_stored k field payload cmd w')
  with store_command_holds [OF command_stored(3) assms(2)] show ?thesis by (simp add: opt_list_def)
next
  case (command_evaluated before t k c after r w')
  with evaluate_command_holds [OF command_evaluated(4) assms(2)] assms(3) show ?thesis by (simp add: opt_list_def)
next
  case (state_published r w')
  from keeps_eqD [OF same_db_publish(1) state_published(3)] same_holds [OF assms(2)] state_published(1,2) show ?thesis
    by (simp add: same_db_def opt_list_def)
next
  case (requested req a aw')
  with request_holds [OF requested(3) assms(2)] show ?thesis by (simp add: opt_list_def)
next
  case (reconcile_refused key a aw')
  with request_holds [OF reconcile_refused(3) assms(2)] show ?thesis by (simp add: opt_list_def admitted_def)
next
  case (reconcile_raised e w')
  from poll_phase_db [OF reconcile_raised(4)] same_holds [OF assms(2)] reconcile_raised(1,2) show ?thesis by (simp add: opt_list_def)
qed

lemma service_run_holds:
  assumes "service_run render ar s0 ts s" and "sorted_wrt lt ts" and "I (rw_db (sn_world s0))"
    and "\<And>t. before (rw_db (sn_world s0)) t"
  shows "holds (sn_world s) ts"
  using assms
proof (induction rule: service_run.induct)
  case no_step
  then show ?case by (simp add: holds_def)
next
  case (one_more ts s l s')
  have "sorted_wrt lt ts" "\<forall>t \<in> set (opt_list l). \<forall>t0 \<in> set ts. lt t0 t"
    using one_more.prems(1) by (auto simp: sorted_wrt_append)
  with service_step_holds [OF one_more.hyps(2)] one_more.IH one_more.prems(2,3) show ?case by blast
qed

end

end
