(* ===== verification/Mqtt_Client.thy ===== *)
theory Mqtt_Client
  imports Outbox Settings
begin

text \<open>
  \<^verbatim>\<open>app/mqtt/client.py\<close>: the client that keeps the handlers of the subscribed topics and its
  connection flag, subscribes again on every connection, and hands messages to an executor. The
  paho client is an argument: a record of the calls that are made on it, over its state; the
  executor is the list of the jobs submitted to it. The handlers are values of any type.
\<close>

section \<open>State\<close>

text \<open>\<open>JobConnected\<close> is the \<^verbatim>\<open>on_connect\<close> callback the client was given, \<open>JobMessage\<close> a handler's run.\<close>

datatype 'h job =
    JobConnected
  | JobMessage 'h string string

record ('h, 'c) managed_client =
  mm_connected :: bool
  mm_connect_error :: "string option"
  mm_connect_event :: bool
  mm_disconnect_event :: bool
  mm_handlers :: "(string \<times> 'h) list"
  mm_jobs :: "'h job list"
  mm_executor_open :: bool
  mm_paho :: 'c

text \<open>
  The calls on the paho client; \<open>pa_matches\<close> is \<^verbatim>\<open>topic_matches_sub\<close>, \<open>pa_wait\<close> waits for the
  event set by a callback and says whether it came in time.
\<close>

record ('h, 'c) paho =
  pa_connect :: "string \<Rightarrow> int \<Rightarrow> ('c, unit) eff"
  pa_loop_start :: "('c, unit) eff"
  pa_loop_stop :: "('c, unit) eff"
  pa_disconnect :: "('c, unit) eff"
  pa_subscribe :: "string \<Rightarrow> ('c, unit) eff"
  pa_publish :: "'c mqtt_publish"
  pa_matches :: "string \<Rightarrow> string \<Rightarrow> bool"
  pa_wait :: "int \<Rightarrow> ('h, 'c) managed_client \<Rightarrow> bool \<times> ('h, 'c) managed_client"

definition new_managed_client :: "'c \<Rightarrow> ('h, 'c) managed_client" where
  "new_managed_client c =
     \<lparr>mm_connected = False, mm_connect_error = None, mm_connect_event = False, mm_disconnect_event = False,
      mm_handlers = [], mm_jobs = [], mm_executor_open = True, mm_paho = c\<rparr>"

definition on_paho :: "('c, 'a) eff \<Rightarrow> (('h, 'c) managed_client, 'a) eff" where
  "on_paho m mc = (case m (mm_paho mc) of (r, c) \<Rightarrow> (r, mc\<lparr>mm_paho := c\<rparr>))"

definition will_topic :: "settings \<Rightarrow> string" where
  "will_topic s = se_mqtt_topic_prefix s @ ''/system/clock-ha-orchestrator/availability''"

section \<open>Calls\<close>

definition client_connect :: "('h, 'c) paho \<Rightarrow> settings \<Rightarrow> (('h, 'c) managed_client, unit) eff" where
  "client_connect pa s =
     bindE (modify (\<lambda>mc. mc\<lparr>mm_connect_event := False, mm_disconnect_event := False, mm_connect_error := None\<rparr>)) (\<lambda>_.
     bindE (on_paho (pa_connect pa (se_mqtt_host s) (se_mqtt_port s))) (\<lambda>_.
     bindE (on_paho (pa_loop_start pa)) (\<lambda>_.
     bindE (\<lambda>mc. case pa_wait pa (se_mqtt_connect_timeout_seconds s) mc of (ok, mc') \<Rightarrow> (Inr ok, mc')) (\<lambda>ok.
     bindE (gets (\<lambda>mc. (mm_connected mc, mm_connect_error mc))) (\<lambda>(connected, err).
     if \<not> ok then bindE (on_paho (pa_loop_stop pa)) (\<lambda>_. raise TimeoutError)
     else if \<not> connected
     then bindE (on_paho (pa_loop_stop pa)) (\<lambda>_. raise (OtherError ''ConnectionError''))
     else ret ())))))"

definition client_publish ::
  "('h, 'c) paho \<Rightarrow> string \<Rightarrow> string \<Rightarrow> int \<Rightarrow> bool \<Rightarrow> (('h, 'c) managed_client, 'c publish_receipt option) eff" where
  "client_publish pa topic payload qos retain = on_paho (pa_publish pa topic payload qos retain)"

definition wait_for_receipt :: "'c publish_receipt option \<Rightarrow> int \<Rightarrow> ('c, unit) eff" where
  "wait_for_receipt receipt timeout_seconds =
     (case receipt of
        None \<Rightarrow> ret ()
      | Some rt \<Rightarrow> (case rt_wait_for_publish rt of None \<Rightarrow> ret () | Some wait \<Rightarrow> wait timeout_seconds))"

definition client_disconnect :: "('h, 'c) paho \<Rightarrow> settings \<Rightarrow> (('h, 'c) managed_client, unit) eff" where
  "client_disconnect pa s =
     bindE (gets mm_connected) (\<lambda>connected.
     bindE (if connected
            then bindE (client_publish pa (will_topic s) ''offline'' 1 True) (\<lambda>receipt.
                 on_paho (wait_for_receipt receipt (se_mqtt_publish_timeout_seconds s)))
            else ret ()) (\<lambda>_.
     bindE (on_paho (pa_disconnect pa)) (\<lambda>_.
     bindE (\<lambda>mc. case pa_wait pa (se_mqtt_connect_timeout_seconds s) mc of (ok, mc') \<Rightarrow> (Inr ok, mc')) (\<lambda>_.
     bindE (on_paho (pa_loop_stop pa)) (\<lambda>_.
     modify (\<lambda>mc. mc\<lparr>mm_executor_open := False, mm_jobs := []\<rparr>))))))"

definition client_subscribe :: "('h, 'c) paho \<Rightarrow> string \<Rightarrow> 'h \<Rightarrow> (('h, 'c) managed_client, unit) eff" where
  "client_subscribe pa topic handler =
     bindE (modify (\<lambda>mc. mc\<lparr>mm_handlers := AList.update topic handler (mm_handlers mc)\<rparr>)) (\<lambda>_.
     bindE (gets mm_connected) (\<lambda>connected.
     if connected then on_paho (pa_subscribe pa topic) else ret ()))"

text \<open>A series of subscriptions, each topic with its handler.\<close>

fun subscribe_handlers :: "('h, 'c) paho \<Rightarrow> (string \<times> 'h) list \<Rightarrow> (('h, 'c) managed_client, unit) eff" where
  "subscribe_handlers pa [] = ret ()"
| "subscribe_handlers pa ((topic, handler) # rest) =
     bindE (client_subscribe pa topic handler) (\<lambda>_. subscribe_handlers pa rest)"

section \<open>Callbacks\<close>

text \<open>\<^verbatim>\<open>executor.submit\<close> raises once the executor is shut down.\<close>

definition submit :: "'h job \<Rightarrow> (('h, 'c) managed_client, unit) eff" where
  "submit job mc =
     (if mm_executor_open mc then (Inr (), mc\<lparr>mm_jobs := mm_jobs mc @ [job]\<rparr>)
      else (Inl (RuntimeError ''cannot schedule new futures after shutdown''), mc))"

fun subscribe_topics :: "('h, 'c) paho \<Rightarrow> string list \<Rightarrow> (('h, 'c) managed_client, unit) eff" where
  "subscribe_topics pa [] = ret ()"
| "subscribe_topics pa (t # ts) = bindE (on_paho (pa_subscribe pa t)) (\<lambda>_. subscribe_topics pa ts)"

text \<open>\<open>failure\<close> is the text of a reason code that is a failure.\<close>

definition on_connect :: "('h, 'c) paho \<Rightarrow> bool \<Rightarrow> string option \<Rightarrow> (('h, 'c) managed_client, unit) eff" where
  "on_connect pa has_callback failure =
     bindE (modify (\<lambda>mc. mc\<lparr>mm_connected := (failure = None)\<rparr>)) (\<lambda>_.
     bindE (case failure of
              None \<Rightarrow>
                bindE (modify (\<lambda>mc. mc\<lparr>mm_connect_error := None\<rparr>)) (\<lambda>_.
                bindE (gets (\<lambda>mc. map fst (mm_handlers mc))) (\<lambda>topics.
                bindE (subscribe_topics pa topics) (\<lambda>_.
                if has_callback then submit JobConnected else ret ())))
            | Some reason \<Rightarrow> modify (\<lambda>mc. mc\<lparr>mm_connect_error := Some reason\<rparr>)) (\<lambda>_.
     modify (\<lambda>mc. mc\<lparr>mm_connect_event := True\<rparr>)))"

definition on_disconnect :: "(('h, 'c) managed_client, unit) eff" where
  "on_disconnect = modify (\<lambda>mc. mc\<lparr>mm_connected := False, mm_disconnect_event := True\<rparr>)"

fun dispatch ::
  "('h, 'c) paho \<Rightarrow> (string \<times> 'h) list \<Rightarrow> string \<Rightarrow> string \<Rightarrow> (('h, 'c) managed_client, unit) eff" where
  "dispatch pa [] topic payload = ret ()"
| "dispatch pa ((sub, handler) # hs) topic payload =
     bindE (if pa_matches pa sub topic then submit (JobMessage handler topic payload) else ret ()) (\<lambda>_.
     dispatch pa hs topic payload)"

definition on_message :: "('h, 'c) paho \<Rightarrow> string \<Rightarrow> string \<Rightarrow> (('h, 'c) managed_client, unit) eff" where
  "on_message pa topic payload =
     bindE (gets mm_handlers) (\<lambda>handlers. dispatch pa handlers topic payload)"

section \<open>Steps\<close>

text \<open>
  A step is a call or a callback; between them the paho client's state may change on its own,
  for example when the broker drops the connection. A broker may forget the subscriptions of a
  lost connection, so only a state that is not connected changes them arbitrarily.
\<close>

inductive client_step ::
  "('h, 'c) paho \<Rightarrow> ('c \<Rightarrow> string set) \<Rightarrow> ('h, 'c) managed_client \<Rightarrow> ('h, 'c) managed_client \<Rightarrow> bool"
  for pa subs where
  connect_step: "on_connect pa b failure mc = (r, mc') \<Longrightarrow> client_step pa subs mc mc'"
| disconnect_step: "on_disconnect mc = (r, mc') \<Longrightarrow> client_step pa subs mc mc'"
| message_step: "on_message pa topic payload mc = (r, mc') \<Longrightarrow> client_step pa subs mc mc'"
| subscribe_step: "client_subscribe pa topic h mc = (Inr (), mc') \<Longrightarrow> client_step pa subs mc mc'"
| broker_step: "subs (mm_paho mc) \<subseteq> subs c \<or> \<not> mm_connected mc \<Longrightarrow> client_step pa subs mc (mc\<lparr>mm_paho := c\<rparr>)"


section \<open>Subscriptions and dispatch\<close>

text \<open>The documented behaviour of \<^verbatim>\<open>subscribe\<close>: the topic is added to the subscriptions.\<close>

definition subscribing :: "('h, 'c) paho \<Rightarrow> ('c \<Rightarrow> string set) \<Rightarrow> bool" where
  "subscribing pa subs \<longleftrightarrow>
     (\<forall>t c. fst (pa_subscribe pa t c) = Inr () \<and> insert t (subs c) \<subseteq> subs (snd (pa_subscribe pa t c)))"

definition all_subscribed :: "('c \<Rightarrow> string set) \<Rightarrow> ('h, 'c) managed_client \<Rightarrow> bool" where
  "all_subscribed subs mc \<longleftrightarrow> (mm_connected mc \<longrightarrow> fst ` set (mm_handlers mc) \<subseteq> subs (mm_paho mc))"

lemma subscribe_topics_run:
  assumes "subscribing pa subs"
  shows "\<exists>c. subscribe_topics pa ts mc = (Inr (), mc\<lparr>mm_paho := c\<rparr>) \<and> set ts \<union> subs (mm_paho mc) \<subseteq> subs c"
proof (induction ts arbitrary: mc)
  case Nil
  show ?case by (rule exI [of _ "mm_paho mc"]) simp
next
  case (Cons t ts)
  obtain c1 where 1: "pa_subscribe pa t (mm_paho mc) = (Inr (), c1)" and s1: "insert t (subs (mm_paho mc)) \<subseteq> subs c1"
    using assms unfolding subscribing_def by (metis prod.collapse)
  from Cons [of "mc\<lparr>mm_paho := c1\<rparr>"] obtain c where
    "subscribe_topics pa ts (mc\<lparr>mm_paho := c1\<rparr>) = (Inr (), mc\<lparr>mm_paho := c\<rparr>)" "set ts \<union> subs c1 \<subseteq> subs c" by auto
  with 1 s1 show ?case by (intro exI [of _ c]) (auto simp: bindE_def on_paho_def)
qed

lemma submit_frame:
  "submit job mc = (r, mc') \<Longrightarrow> mm_connected mc' = mm_connected mc \<and> mm_handlers mc' = mm_handlers mc \<and> mm_paho mc' = mm_paho mc"
  by (auto simp: submit_def split: if_splits)

lemma on_connect_subscribed:
  assumes "subscribing pa subs" and "on_connect pa b failure mc = (r, mc')"
  shows "all_subscribed subs mc'"
proof (cases failure)
  case (Some reason)
  with assms(2) show ?thesis by (auto simp: on_connect_def all_subscribed_def bindE_def)
next
  case None
  let ?mc = "mc\<lparr>mm_connected := True, mm_connect_error := None\<rparr>"
  obtain c where c: "subscribe_topics pa (map fst (mm_handlers mc)) ?mc = (Inr (), ?mc\<lparr>mm_paho := c\<rparr>)"
    and sub: "fst ` set (mm_handlers mc) \<subseteq> subs c"
    using subscribe_topics_run [OF assms(1), of "map fst (mm_handlers mc)" ?mc] by auto
  have "mm_handlers mc' = mm_handlers mc \<and> mm_paho mc' = c"
    using assms(2) None c
    by (cases b) (auto simp: on_connect_def bindE_def submit_def split: if_splits)
  with sub show ?thesis by (simp add: all_subscribed_def)
qed

lemma dispatch_run:
  assumes "mm_executor_open mc"
  shows "dispatch pa hs topic payload mc
    = (Inr (), mc\<lparr>mm_jobs := mm_jobs mc @ map (\<lambda>(s, h). JobMessage h topic payload)
                               (filter (\<lambda>(s, h). pa_matches pa s topic) hs)\<rparr>)"
  using assms
proof (induction hs arbitrary: mc)
  case (Cons sh hs)
  obtain s h where "sh = (s, h)" by fastforce
  with Cons show ?case by (cases "pa_matches pa s topic") (simp_all add: bindE_def submit_def)
qed simp

lemma dispatch_frame:
  "dispatch pa hs topic payload mc = (r, mc')
     \<Longrightarrow> mm_connected mc' = mm_connected mc \<and> mm_handlers mc' = mm_handlers mc \<and> mm_paho mc' = mm_paho mc"
proof (induction hs arbitrary: mc)
  case (Cons sh hs)
  then show ?case by (cases sh) (auto simp: bindE_def submit_def split: if_splits prod.splits sum.splits)
qed simp

lemma client_step_subscribed:
  assumes "subscribing pa subs" and "client_step pa subs mc mc'" and "all_subscribed subs mc"
  shows "all_subscribed subs mc'"
  using assms(2)
proof (cases rule: client_step.cases)
  case (connect_step b failure r)
  with on_connect_subscribed [OF assms(1)] show ?thesis by simp
next
  case (disconnect_step r)
  then show ?thesis by (auto simp: on_disconnect_def all_subscribed_def)
next
  case (message_step topic payload r)
  then have "mm_connected mc' = mm_connected mc \<and> mm_handlers mc' = mm_handlers mc \<and> mm_paho mc' = mm_paho mc"
    using dispatch_frame by (fastforce simp: on_message_def)
  with assms(3) show ?thesis by (simp add: all_subscribed_def)
next
  case (subscribe_step topic h)
  obtain c1 where 1: "pa_subscribe pa topic (mm_paho mc) = (Inr (), c1)" and s1: "insert topic (subs (mm_paho mc)) \<subseteq> subs c1"
    using assms(1) unfolding subscribing_def by (metis prod.collapse)
  have "fst ` set (AList.update topic h (mm_handlers mc)) = insert topic (fst ` set (mm_handlers mc))"
    by (simp add: update_conv' flip: dom_map_of_conv_image_fst)
  moreover have "mm_handlers mc' = AList.update topic h (mm_handlers mc) \<and> mm_connected mc' = mm_connected mc
      \<and> (mm_connected mc \<longrightarrow> mm_paho mc' = c1)"
    using subscribe_step 1 by (auto simp: client_subscribe_def bindE_def on_paho_def split: if_splits)
  ultimately show ?thesis using assms(3) s1 by (auto simp only: all_subscribed_def)
next
  case (broker_step c)
  with assms(3) show ?thesis by (auto simp: all_subscribed_def)
qed
end
