(* ===== verification/Lifecycle.thy ===== *)
theory Lifecycle
  imports Service_Runs Mqtt_Client
begin

text \<open>
  The life of the process around the runtime: the handlers that the runtime gives to the MQTT
  client and the jobs its executor runs, and the application's lifespan, which starts the runtime,
  serves, and stops it.
\<close>

section \<open>Jobs of the executor\<close>

text \<open>\<^verbatim>\<open>_control_handler\<close>: the closure over a room's key and a field.\<close>

definition control_handler ::
  "('c, 'r) app_runtime \<Rightarrow> string \<times> string \<Rightarrow> string \<Rightarrow> string \<Rightarrow> ('c, 'r, unit) rt" where
  "control_handler ar h received_topic payload =
     (case h of (rkey, field) \<Rightarrow> handle_control_message ar rkey field payload)"

text \<open>\<^verbatim>\<open>_safe_call\<close>: every exception is suppressed.\<close>

definition safe_call :: "('c, 'r, unit) rt \<Rightarrow> ('c, 'r, unit) rt" where
  "safe_call callback = bindE (attemptE callback) (\<lambda>_. ret ())"

fun run_job :: "('c, 'r) app_runtime \<Rightarrow> (string \<times> string) job \<Rightarrow> ('c, 'r, unit) rt" where
  "run_job ar JobConnected = safe_call (publish_mqtt_reconnect_state ar)"
| "run_job ar (JobMessage h topic payload) = safe_call (control_handler ar h topic payload)"

lemma safe_call_run: "m w = (r, w') \<Longrightarrow> safe_call m w = (Inr (), w')"
  by (simp add: safe_call_def bindE_def attemptE_def)

text \<open>A job never lets an exception out, and it is a step of the service.\<close>

lemma job_serves:
  assumes "run_job ar job (sn_world s) = (r, w')"
  shows "r = Inr ()" and "\<exists>l. service_step render ar s l (with_runtime s (w', sn_poll s))"
proof -
  have "r = Inr () \<and> (\<exists>l. service_step render ar s l (with_runtime s (w', sn_poll s)))"
  proof (cases job)
    case JobConnected
    obtain x w1 where run: "publish_mqtt_reconnect_state ar (sn_world s) = (x, w1)" by fastforce
    from safe_call_run [of "publish_mqtt_reconnect_state ar" "sn_world s", OF run] assms JobConnected have "r = Inr ()" "w' = w1" by simp_all
    with service_step.runtime [OF reconnected [OF run]] show ?thesis by blast
  next
    case (JobMessage h topic payload)
    obtain k field where h: "h = (k, field)" by fastforce
    obtain x w1 where run: "handle_control_message ar k field payload (sn_world s) = (x, w1)" by fastforce
    then have "control_handler ar h topic payload (sn_world s) = (x, w1)" by (simp add: control_handler_def h)
    from safe_call_run [of "control_handler ar h topic payload" "sn_world s", OF this] assms JobMessage have "r = Inr ()" "w' = w1" by simp_all
    with service_step.runtime [OF commanded [OF run]] show ?thesis by blast
  qed
  then show "r = Inr ()" "\<exists>l. service_step render ar s l (with_runtime s (w', sn_poll s))" by simp_all
qed

section \<open>The lifespan of the application\<close>

text \<open>
  \<^verbatim>\<open>lifespan\<close>: a start that raises ends the process before anything is served; after one that
  returns, the runtime is stopped whatever serving does, and an exception of stopping wins.
\<close>

definition lifespan ::
  "'c environment \<Rightarrow> 'c mqtt_client \<Rightarrow> ('c, 'r) app_runtime
   \<Rightarrow> (('c, 'r) app_runtime \<Rightarrow> (string \<times> int) list \<Rightarrow> ('c, 'r, unit) rt) \<Rightarrow> ('c, 'r, unit) rt" where
  "lifespan ev client ar serve =
     bindE (start ev client ar) (\<lambda>(started, tasks).
     bindE (attemptE (serve started tasks)) (\<lambda>served.
     bindE (stop ev started) (\<lambda>_.
     lift_result served)))"

lemma lifespan_disconnects:
  assumes "start ev client ar w0 = (Inr (started, tasks), w1)" and "serve started tasks w1 = (x, w2)"
    and "ar_mqtt started = Some c" and "ev_disconnect ev (rw_io w2) = (Inr (), io)"
  shows "\<exists>w3. lifespan ev client ar serve w0 = (x, w3) \<and> rw_io w3 = io \<and> rw_db w3 = rw_db w2
    \<and> rh_mqtt_connected (rw_health w3) = mq_connected c io"
  using assms
  by (cases x) (auto simp: lifespan_def bindE_def attemptE_def stop_def on_io_def refresh_health_def modify_def connected_def
      lift_result_def)

lemma failed_start_serves_nothing:
  "start ev client ar w0 = (Inl e, w1) \<Longrightarrow> lifespan ev client ar serve w0 = (Inl e, w1)"
  by (simp add: lifespan_def)

end
