(* ===== verification/Control_Theorems.thy ===== *)
theory Control_Theorems
  imports Override_Safety Db_Sync_Theorems
begin

text \<open>
  The properties of the manual control: commands and the rows they leave, on their own and
  together with the recalculations.
\<close>

section \<open>Commands refine the panel\<close>

text \<open>C8. The rows of a room's overrides refine an abstract panel, a draft with an end, whose commands are
given by the table of \<open>panel_allows\<close> (the texts, the durations in minutes and the drafts) and the three rules
of \<open>panel_step\<close> (released, held to the checkout, held for its minutes), independently of the code's parsers.
When a command for a configured room returns, it is accepted exactly when the table allows it on the
draft in force at that time, and it then appends exactly one row, of that room and starting at the
command's time, that shows the panel after the step: the draft is written as columns and its duration
is recovered from the two times in floating point. A refused command is answered with the error of its
parsing and appends nothing. The appended row is the room's newest one, so that the next command starts
from it, under the condition that every earlier row of the room starts before the command's time.\<close>

theorem command_refines_panel:
  assumes "transaction (apply_mqtt_command sv k field payload now corr) (new_session d n) = (Inr res, s')"
    and "keys_ok d" and "by_key (dv_registry sv) k = Some rm"
    and "room_row_id sv (ss_db s') (rm_key rm) = Some i"
    and "panel_shown (room_override_row sv d i) p"
    and "sent = to_utc (dv_tz sv) now"
  shows "(cr_accepted res \<longleftrightarrow>
        (\<exists>msg p'. payload_text sv payload = Inr msg \<and> panel_step sv (room_boundary sv d i sent) sent field msg p p'))
    \<and> (\<forall>msg p'. payload_text sv payload = Inr msg \<longrightarrow> panel_step sv (room_boundary sv d i sent) sent field msg p p' \<longrightarrow>
        (\<exists>ov. db_overrides (ss_db s') = db_overrides d @ [ov] \<and> panel_shown (Some ov) p'
           \<and> ovr_room_id ov = i \<and> ovr_starts_at ov = sent)
        \<and> ((\<forall>r \<in> set (db_overrides d). ovr_room_id r = i \<longrightarrow> instant (dv_tz sv) (ovr_starts_at r) < instant (dv_tz sv) sent)
             \<longrightarrow> panel_shown (room_override_row sv (ss_db s') i) p'))
    \<and> (\<not> cr_accepted res \<longrightarrow> db_overrides (ss_db s') = db_overrides d
        \<and> (\<exists>e. bind_result (payload_text sv payload) (\<lambda>msg. panel_command sv (room_boundary sv d i sent) sent field msg p) = Inl e
             \<and> cr_error res = Some (exc_text sv e)))"
proof -
  from assms(1) obtain s1 where run: "apply_mqtt_command sv k field payload now corr (new_session d n) = (Inr res, s1)"
    and s': "ss_db s' = ss_db s1"
    by (elim transaction_Inr) auto
  let ?abs = "bind_result (payload_text sv payload) (\<lambda>msg. panel_command sv (room_boundary sv d i sent) sent field msg p)"
  note refined = command_refines [OF run assms(2,3) assms(4) [unfolded s'] assms(5), folded s' assms(6)]
  note step = step_is_command [OF assms(5), of sv "room_boundary sv d i sent" sent field]
  show ?thesis
  proof (cases ?abs)
    case (Inl e)
    then have "panel_step sv (room_boundary sv d i sent) sent field msg p p' \<Longrightarrow> payload_text sv payload \<noteq> Inr msg" for msg p'
      by (auto simp: step)
    with refined Inl show ?thesis by auto
  next
    case (Inr p')
    then obtain msg where msg: "payload_text sv payload = Inr msg" "panel_command sv (room_boundary sv d i sent) sent field msg p = Inr p'"
      by (auto simp: bind_result_Inr)
    from refined Inr obtain ov where ov: "cr_accepted res" "db_overrides (ss_db s') = db_overrides d @ [ov]"
      "panel_shown (Some ov) p'" "ovr_room_id ov = i" "ovr_starts_at ov = sent" by auto
    have "room_override_row sv (ss_db s') i = Some ov"
      if "\<forall>r \<in> set (db_overrides d). ovr_room_id r = i \<longrightarrow> instant (dv_tz sv) (ovr_starts_at r) < instant (dv_tz sv) sent"
      using that ov by (intro newest_override [of _ d]) auto
    with ov msg show ?thesis by (auto simp: step)
  qed
qed

definition demo_command :: "string \<Rightarrow> string \<Rightarrow> database \<Rightarrow> command_result result \<times> session" where
  "demo_command field payload d =
     transaction (apply_mqtt_command demo_service ''101'' field payload (Aware (utc_at (12 * day_us))) None) (new_session d 0)"

lemma demo_command_run:
  "case demo_command ''mode'' ''off'' empty_database of
     (Inr res, s') \<Rightarrow> room_row_id demo_service (ss_db s') ''101'' = Some (UUID 2) | _ \<Rightarrow> False"
  by code_simp

theorem command_refines_panel_witness:
  "\<exists>p'. panel_shown (room_override_row demo_service (ss_db (snd (demo_command ''mode'' ''off'' empty_database))) (UUID 2)) p'
     \<and> pn_until p' = Some (utc_at (12 * day_us + 60 * minute_us)) \<and> od_control_mode (pn_draft p') = CM_OFF"
proof -
  from demo_command_run obtain res s' where
    run: "transaction (apply_mqtt_command demo_service ''101'' ''mode'' ''off'' (Aware (utc_at (12 * day_us))) None)
            (new_session empty_database 0) = (Inr res, s')"
    and i: "room_row_id demo_service (ss_db s') ''101'' = Some (UUID 2)" and s': "snd (demo_command ''mode'' ''off'' empty_database) = s'"
    by (auto simp: demo_command_def split: prod.splits sum.splits)
  have known: "by_key (dv_registry demo_service) ''101'' = Some (sample_room ''101'' None)"
    by (simp add: by_key_def demo_service_def demo_registry_def sample_room_def)
  have idle: "panel_shown (room_override_row demo_service empty_database (UUID 2)) idle_panel"
    by (simp add: room_override_row_def latest_by_def empty_database_def option_hd_def panel_shown_def)
  have msg: "payload_text demo_service ''off'' = Inr ''off''" by code_simp
  have draft: "command_draft ap default_override_draft ''mode'' ''off''
      = Inr \<lparr>od_control_mode = CM_OFF, od_hvac_mode = HV_OFF, od_target_temperature_c = None,
             od_water_heater_enabled = Some False, od_duration = ''60''\<rparr>" for ap
    using enum_roundtrips(3) [of CM_OFF]
    by (simp add: command_draft_def parse_control_mode_def default_override_draft_def DEFAULT_DURATION_def)
  have step: "panel_command demo_service b (utc_at t) ''mode'' ''off'' idle_panel
      = Inr \<lparr>pn_draft = \<lparr>od_control_mode = CM_OFF, od_hvac_mode = HV_OFF, od_target_temperature_c = None,
                         od_water_heater_enabled = Some False, od_duration = ''60''\<rparr>,
             pn_until = Some (utc_at (t + 3600000000))\<rparr>" for b t
    by (simp add: panel_command_def panel_draft_def panel_live_def idle_panel_def draft clamped_def int_of_digits_def
        dt_plus_def utc_at_def)
  have "rm_key (sample_room ''101'' None) = ''101''" by (simp add: sample_room_def)
  with i have "room_row_id demo_service (ss_db s') (rm_key (sample_room ''101'' None)) = Some (UUID 2)" by simp
  note refined = command_refines_panel [OF run keys_ok_empty known this idle refl, unfolded msg, simplified sum.inject]
  have now: "to_utc (dv_tz demo_service) (Aware (utc_at (12 * day_us))) = utc_at (12 * day_us)" by (simp add: astimezone_def)
  let ?b = "room_boundary demo_service empty_database (UUID 2) (utc_at (12 * day_us))"
  let ?p = "\<lparr>pn_draft = \<lparr>od_control_mode = CM_OFF, od_hvac_mode = HV_OFF, od_target_temperature_c = None,
       od_water_heater_enabled = Some False, od_duration = ''60''\<rparr>, pn_until = Some (utc_at (12 * day_us + 3600000000))\<rparr>"
  have allowed: "panel_step demo_service ?b (utc_at (12 * day_us)) ''mode'' ''off'' idle_panel ?p"
    by (simp only: step_is_command [OF idle] step)
  note second = conjunct1 [OF conjunct2 [OF refined], unfolded now, rule_format, OF refl allowed]
  have "\<forall>r \<in> set (db_overrides empty_database). ovr_room_id r = UUID 2 \<longrightarrow>
      instant (dv_tz demo_service) (ovr_starts_at r) < instant (dv_tz demo_service) (utc_at (12 * day_us))"
    by (simp add: empty_database_def)
  with second have "panel_shown (room_override_row demo_service (ss_db s') (UUID 2)) ?p" by blast
  then show ?thesis unfolding s' by (intro exI [of _ ?p]) simp
qed

section \<open>Overrides and evaluations\<close>

lemma evaluates_with_stored_override:
  assumes "overrides_ok d" and "policy_times_ok (dv_policy sv)" and "rm_key rm \<noteq> []"
    and "\<forall>b \<in> set (lb_bookings loaded). nb_arrival_date b < nb_departure_date b"
  shows "\<exists>ov intent. active_override sv d (room_override_row sv d i) (hotel_time_of sv now) = Inr ov
    \<and> room_intent sv rm loaded now ov c = Inr (Some intent) \<and> intent_ok (dv_tz sv) intent"
proof -
  from stored_override_reads [OF assms(1), of sv i "hotel_time_of sv now"] obtain ov where
    ov: "active_override sv d (room_override_row sv d i) (hotel_time_of sv now) = Inr ov"
    "\<forall>v. ov = Some v \<longrightarrow> override_hvac_ok v \<and> (mo_until_checkout v \<longrightarrow> mo_expires_at v = None)" by blast
  from evaluated_intent [OF assms(2,4) ov(2) assms(3)]
  obtain intent where "derive_room_intent (dv_tz sv)
      (evaluate_room (dv_tz sv) rm (lb_bookings loaded) (hotel_time_of sv now) (dv_policy sv) ov) (dv_policy sv)
      (hotel_time_of sv now) ov (Some c) c = Inr (Some intent)" "intent_ok (dv_tz sv) intent" by blast
  with ov(1) show ?thesis by (auto simp: room_intent_def room_evaluation_def)
qed

text \<open>Whatever polls, policy runs and panel commands follow each other on an empty database, the
override rows they leave never make an evaluation raise: the row in force of every room reads
back, and the room's intent is derived from it and passes every validator, provided the stored
bookings last at least one night.\<close>

theorem stored_overrides_never_break_evaluation:
  assumes "policy_times_ok (dv_policy sv)" and "rm_key rm \<noteq> []"
    and "\<forall>b \<in> set (lb_bookings loaded). nb_arrival_date b < nb_departure_date b"
  shows "\<exists>ov intent. active_override sv (fst (run_ops sv ops (empty_database, n)))
           (room_override_row sv (fst (run_ops sv ops (empty_database, n))) i) (hotel_time_of sv now) = Inr ov
    \<and> room_intent sv rm loaded now ov c = Inr (Some intent) \<and> intent_ok (dv_tz sv) intent"
proof -
  have "overrides_ok empty_database" by (simp add: overrides_ok_def empty_database_def)
  then show ?thesis by (intro evaluates_with_stored_override run_ops_overrides_ok assms) simp_all
qed

theorem stored_overrides_never_break_evaluation_witness:
  "\<exists>ov intent. active_override demo_service (fst (run_ops demo_service demo_ops (empty_database, 0)))
        (room_override_row demo_service (fst (run_ops demo_service demo_ops (empty_database, 0))) (UUID 2))
        (hotel_time_of demo_service (utc_at (13 * day_us))) = Inr ov
    \<and> room_intent demo_service (sample_room ''101'' None) \<lparr>lb_bookings = [demo_guest], lb_ids_by_clock_booking_id = []\<rparr>
        (utc_at (13 * day_us)) ov (UUID 9) = Inr (Some intent)"
proof -
  have "policy_times_ok (dv_policy demo_service)"
    by (simp add: demo_service_def policy_times_ok_def sample_defs)
  moreover have "rm_key (sample_room ''101'' None) \<noteq> []" by (simp add: sample_room_def)
  moreover have "\<forall>b \<in> set (lb_bookings \<lparr>lb_bookings = [demo_guest], lb_ids_by_clock_booking_id = []\<rparr>).
      nb_arrival_date b < nb_departure_date b"
    by (simp add: demo_guest_def sample_booking_def)
  ultimately show ?thesis
    using stored_overrides_never_break_evaluation [of demo_service "sample_room ''101'' None"
        "\<lparr>lb_bookings = [demo_guest], lb_ids_by_clock_booking_id = []\<rparr>"] by blast
qed

text \<open>
  An override of a room without a current booking: the command is accepted and published as
  active for an hour, and the evaluation that follows it in the same message ends it.
\<close>

definition vacant_room_ops :: "db_op list" where
  "vacant_room_ops =
     [OpEvaluateAll (utc_at (12 * day_us)), OpCommand ''101'' ''mode'' ''off'' (utc_at (12 * day_us + minute_us)),
      OpEvaluateKeys [''101''] (utc_at (12 * day_us + minute_us))]"

text \<open>A command for a room whose guest has not arrived is accepted, for example to switch the room
off for an hour, and undone by the evaluation that the same message triggers: it adds an automatic
row of the scheduler, with the time of the command.\<close>

theorem override_of_vacant_room_ends_at_once:
  "map (\<lambda>r. (ovr_control_mode r, dt_wall (ovr_starts_at r))) (db_overrides (fst (run_ops demo_service vacant_room_ops (empty_database, 0))))
     = [(''off'', 12 * day_us + minute_us), (''automatic'', 12 * day_us + minute_us)]"
  by code_simp

text \<open>A policy that allows overrides of half an hour at most.\<close>

definition short_policy :: automation_policy where
  "short_policy = default_automation_policy\<lparr>ap_manual_override_max_minutes := 30\<rparr>"

definition short_service :: db_service where
  "short_service =
     demo_service\<lparr>dv_policy := default_hotel_policy\<lparr>hp_automation := short_policy\<rparr>\<rparr>"

text \<open>The policy's maximum is checked for a duration command only: under a maximum of 30 minutes the
duration 60 is refused, and any other command starts an override of the default 60 minutes.\<close>

theorem default_duration_ignores_maximum:
  "parse_duration ''60'' short_policy = Inl (ValueError ''manual override duration exceeds policy maximum'')
   \<and> map_sum id pn_until (panel_command short_service None (utc_at (12 * day_us)) ''mode'' ''off'' idle_panel)
       = Inr (Some (utc_at (12 * day_us + 60 * minute_us)))"
  by code_simp

end
