(* ===== verification/Dashboard.thy ===== *)
theory Dashboard
  imports Mqtt_Discovery
begin

text \<open>
  \<^verbatim>\<open>app/dashboard/generator.py\<close>: the Home Assistant dashboard of a registry, as the JSON document
  \<^verbatim>\<open>generate_dashboard\<close> returns, and the entities its cards refer to.
\<close>

section \<open>Cards\<close>

definition heading_card :: "string \<Rightarrow> json" where
  "heading_card s = JDict [(''type'', JStr ''heading''), (''heading'', JStr s)]"

definition entities_card :: "payload \<Rightarrow> string list \<Rightarrow> json" where
  "entities_card title ids = JDict ((''type'', JStr ''entities'') # title @ [(''entities'', texts ids)])"

definition tile_card :: "string \<Rightarrow> payload \<Rightarrow> json" where
  "tile_card i extra = JDict ([(''type'', JStr ''tile''), (''entity'', JStr i)] @ extra)"

definition conditional_card :: "string \<Rightarrow> string \<Rightarrow> json \<Rightarrow> json" where
  "conditional_card i state_not inner =
     JDict [(''type'', JStr ''conditional''),
            (''conditions'', JList [JDict [(''entity'', JStr i), (''state_not'', JStr state_not)]]),
            (''card'', inner)]"

definition badge :: "string \<Rightarrow> json" where
  "badge i = JDict [(''type'', JStr ''entity''), (''entity'', JStr i)]"

definition sections_view :: "string \<Rightarrow> json list \<Rightarrow> json" where
  "sections_view title cards =
     JDict [(''title'', JStr title), (''type'', JStr ''sections''),
            (''sections'', JList [JDict [(''type'', JStr ''grid''), (''cards'', JList cards)]])]"

section \<open>Views\<close>

definition overview_view :: json where
  "overview_view = sections_view ''Overview''
     [JDict [(''type'', JStr ''heading''), (''heading'', JStr ''Today''),
             (''badges'', JList (map badge
                [''binary_sensor.clock_ha_orchestrator_online'', ''binary_sensor.clock_runtime_ready'',
                 ''sensor.clock_orchestrator_status'']))],
      tile_card ''sensor.hotel_arrivals_today'' [(''name'', JStr ''Arrivals'')],
      tile_card ''sensor.hotel_departures_today'' [(''name'', JStr ''Departures'')],
      tile_card ''sensor.hotel_checked_in_rooms'' [(''name'', JStr ''Checked In'')],
      tile_card ''sensor.hotel_expected_rooms'' [(''name'', JStr ''Expected'')],
      heading_card ''Attention'',
      conditional_card ''sensor.hotel_unassigned_arrivals'' ''0''
        (tile_card ''sensor.hotel_unassigned_arrivals'' [(''color'', JStr ''amber'')]),
      conditional_card ''sensor.hotel_room_conflicts'' ''0''
        (tile_card ''sensor.hotel_room_conflicts'' [(''color'', JStr ''red'')]),
      conditional_card ''sensor.hotel_active_manual_overrides'' ''0''
        (tile_card ''sensor.hotel_active_manual_overrides'' [(''color'', JStr ''blue'')]),
      conditional_card ''sensor.clock_dead_letter_outbox'' ''0''
        (tile_card ''sensor.clock_dead_letter_outbox'' [(''color'', JStr ''red'')])]"

definition arrivals_view :: json where
  "arrivals_view = sections_view ''Arrivals''
     [heading_card ''Today'',
      entities_card [] [''sensor.hotel_arrivals_today'', ''sensor.hotel_unassigned_arrivals'']]"

definition departures_view :: json where
  "departures_view = sections_view ''Departures''
     [heading_card ''Today'', entities_card [] [''sensor.hotel_departures_today'']]"

text \<open>The entity id of a control or sensor: its component, a dot, the prefix and the suffix.\<close>

definition prefixed :: "string \<Rightarrow> (string \<times> string) list \<Rightarrow> string list" where
  "prefixed prefix = map (\<lambda>(component, suffix). component @ ''.'' @ prefix @ suffix)"

definition room_control_entities :: "(string \<times> string) list" where
  "room_control_entities =
     [(''sensor'', ''_automation_phase''), (''select'', ''_control_mode''), (''select'', ''_manual_hvac_mode''),
      (''number'', ''_manual_temperature''), (''select'', ''_override_duration''),
      (''switch'', ''_manual_water_heater''), (''button'', ''_return_to_automatic'')]"

definition room_control_card :: "string \<Rightarrow> json" where
  "room_control_card k =
     entities_card [(''title'', JStr (''Room '' @ k))] (prefixed (''room_'' @ k) room_control_entities)"

definition manual_overrides_view :: "string list \<Rightarrow> json" where
  "manual_overrides_view room_keys = sections_view ''Manual''
     ([heading_card ''Manual Overrides'', tile_card ''sensor.hotel_active_manual_overrides'' []]
      @ map (\<lambda>k. conditional_card (''select.room_'' @ k @ ''_control_mode'') ''automatic'' (room_control_card k))
          room_keys)"

definition alerts_view :: json where
  "alerts_view = sections_view ''Alerts''
     [heading_card ''Needs Attention'',
      entities_card []
        [''sensor.hotel_unassigned_arrivals'', ''sensor.hotel_room_conflicts'',
         ''sensor.hotel_rooms_needing_attention'', ''sensor.hotel_active_manual_overrides'',
         ''sensor.clock_sync_lag'', ''sensor.clock_pending_outbox'', ''sensor.clock_dead_letter_outbox'']]"

definition integration_view :: json where
  "integration_view = sections_view ''Integration''
     [heading_card ''Orchestrator'',
      entities_card []
        [''binary_sensor.clock_ha_orchestrator_online'', ''binary_sensor.clock_runtime_ready'',
         ''binary_sensor.clock_mqtt_connected'', ''binary_sensor.clock_policy_scheduler_enabled'',
         ''binary_sensor.clock_outbox_worker_enabled'', ''sensor.clock_orchestrator_status'',
         ''sensor.clock_last_successful_sync'', ''sensor.clock_sync_lag'', ''sensor.clock_pending_outbox'',
         ''sensor.clock_dead_letter_outbox'']]"

definition room_card_entities :: "(string \<times> string) list" where
  "room_card_entities =
     map (\<lambda>s. (''sensor'', s))
       [''_pms_status'', ''_automation_phase'', ''_arrival'', ''_departure'', ''_desired_hvac_mode'',
        ''_desired_temperature'', ''_desired_water_heater'', ''_reported_hvac_mode'',
        ''_reported_temperature'', ''_reported_faults'', ''_reported_at'']
     @ [(''binary_sensor'', ''_reported_online''), (''select'', ''_control_mode''),
        (''select'', ''_manual_hvac_mode''), (''number'', ''_manual_temperature''),
        (''select'', ''_override_duration''), (''switch'', ''_manual_water_heater''),
        (''button'', ''_return_to_automatic''), (''binary_sensor'', ''_needs_attention'')]"

definition room_card :: "string \<Rightarrow> json" where
  "room_card k =
     entities_card [(''title'', JStr (''Room '' @ k))] (prefixed (''room_'' @ k) room_card_entities)"

definition entrance_prefix :: "string \<Rightarrow> string" where
  "entrance_prefix k = ''entrance_'' @ replace_char CHR ''-'' CHR ''_'' k"

definition entrance_card_entities :: "(string \<times> string) list" where
  "entrance_card_entities =
     [(''sensor'', ''_adapter_status''), (''binary_sensor'', ''_adapter_online''),
      (''binary_sensor'', ''_gateway_online''), (''sensor'', ''_last_poll''),
      (''sensor'', ''_last_successful_poll''), (''sensor'', ''_gateway_latency''),
      (''sensor'', ''_consecutive_failures''), (''sensor'', ''_online_slaves''),
      (''sensor'', ''_offline_slaves''), (''sensor'', ''_scan_duration''),
      (''sensor'', ''_command_queue_depth''), (''sensor'', ''_room_mismatches'')]"

definition entrance_view :: "entrance \<Rightarrow> string list \<Rightarrow> json" where
  "entrance_view e room_keys = sections_view (en_name e)
     ([heading_card (en_name e),
       entities_card [(''title'', JStr ''Gateway and Adapter'')]
         (prefixed (entrance_prefix (en_key e)) entrance_card_entities)]
      @ map room_card room_keys)"

text \<open>The keys in the order of the entrances, and the rooms of one entrance in the order of their keys.\<close>

definition dashboard_room_keys :: "room_registry \<Rightarrow> string list" where
  "dashboard_room_keys reg = map rm_key (sort_key (\<lambda>r. (rm_entrance_key r, rm_key r)) (rr_rooms reg))"

definition entrance_room_keys :: "room_registry \<Rightarrow> entrance \<Rightarrow> string list" where
  "entrance_room_keys reg e =
     (case map_of (rooms_by_entrance reg) (en_key e) of None \<Rightarrow> [] | Some rooms \<Rightarrow> map rm_key rooms)"

definition generate_dashboard :: "room_registry \<Rightarrow> json" where
  "generate_dashboard reg =
     JDict [(''title'', JStr (pr_name (rr_property reg) @ '' Reception'')),
            (''views'', JList
               ([overview_view, arrivals_view, departures_view,
                 manual_overrides_view (dashboard_room_keys reg), alerts_view, integration_view]
                @ map (\<lambda>e. entrance_view e (entrance_room_keys reg e)) (rr_entrances reg)))]"

section \<open>The entities a dashboard refers to\<close>

definition text_items :: "json \<Rightarrow> string list" where
  "text_items j = (case j of JStr s \<Rightarrow> [s]
     | JList vs \<Rightarrow> concat (map (\<lambda>v. case v of JStr s \<Rightarrow> [s] | _ \<Rightarrow> []) vs) | _ \<Rightarrow> [])"

text \<open>Every text under a key \<^verbatim>\<open>entity\<close> or \<^verbatim>\<open>entities\<close>, however deep.\<close>

fun entity_references :: "json \<Rightarrow> string list" where
  "entity_references (JDict kvs) =
     concat (map (\<lambda>kv. if fst kv = ''entity'' \<or> fst kv = ''entities'' then text_items (snd kv)
                       else entity_references (snd kv)) kvs)"
| "entity_references (JList vs) = concat (map entity_references vs)"
| "entity_references j = []"

lemma text_items_texts [simp]: "text_items (texts xs) = xs" "text_items (JStr s) = [s]"
  by (induction xs) (simp_all add: text_items_def texts_def)

lemma entity_references_cards [simp]:
  "entity_references (heading_card s) = []"
  "entity_references (badge i) = [i]"
  "entity_references (entities_card [] ids) = ids"
  "entity_references (entities_card [(''title'', JStr s)] ids) = ids"
  "entity_references (tile_card i []) = [i]"
  "entity_references (tile_card i [(''name'', JStr s)]) = [i]"
  "entity_references (tile_card i [(''color'', JStr s)]) = [i]"
  "entity_references (conditional_card i v inner) = i # entity_references inner"
  "entity_references (sections_view s cards) = concat (map entity_references cards)"
  by (simp_all add: heading_card_def badge_def entities_card_def tile_card_def conditional_card_def
      sections_view_def)

section \<open>Entities and discovery documents\<close>

text \<open>The discovery topic of an entity id: Home Assistant names an entity \<^verbatim>\<open>component.object_id\<close>.\<close>

definition entity_document :: "string \<Rightarrow> string" where
  "entity_document i = discovery_topic (takeWhile ((\<noteq>) CHR ''.'') i) (tl (dropWhile ((\<noteq>) CHR ''.'') i))"

lemma entity_document_dot: "CHR ''.'' \<notin> set c \<Longrightarrow> entity_document (c @ ''.'' @ x) = discovery_topic c x"
proof -
  assume "CHR ''.'' \<notin> set c"
  then have "takeWhile ((\<noteq>) CHR ''.'') (c @ ''.'' @ x) = c" "dropWhile ((\<noteq>) CHR ''.'') (c @ ''.'' @ x) = ''.'' @ x"
    by (induction c) auto
  then show ?thesis by (simp add: entity_document_def)
qed

lemma entity_document_prefixed:
  assumes "list_all (\<lambda>e. CHR ''.'' \<notin> set (fst e)) es"
  shows "map entity_document (prefixed (base @ k) es) = map (entity_topic base k) es"
  using assms
proof (induction es)
  case (Cons e es)
  then show ?case
    using entity_document_dot [of "fst e" "base @ k @ snd e"]
    by (simp add: prefixed_def case_prod_beta entity_topic_def)
qed (simp add: prefixed_def)

lemma card_components:
  "list_all (\<lambda>e. CHR ''.'' \<notin> set (fst e)) room_card_entities"
  "list_all (\<lambda>e. CHR ''.'' \<notin> set (fst e)) room_control_entities"
  "list_all (\<lambda>e. CHR ''.'' \<notin> set (fst e)) entrance_card_entities"
  by code_simp+

lemmas card_documents = card_components [THEN entity_document_prefixed]

text \<open>The views that are the same for every registry refer to the entities of the service.\<close>

definition service_references :: "string list" where
  "service_references =
     concat (map entity_references [overview_view, arrivals_view, departures_view, alerts_view, integration_view])"

lemma service_documents:
  "set (map entity_document (''sensor.hotel_active_manual_overrides'' # service_references))
     = set (map (\<lambda>(c, i). discovery_topic c i) system_entities)"
  by code_simp

text \<open>The rooms and entrances: what their cards refer to among what is announced for them.\<close>

lemma room_card_covers:
  "set room_entities = insert (''sensor'', ''_last_intent_result'')
     (insert (''binary_sensor'', ''_reservation_active'') (set room_card_entities))"
  "set room_control_entities \<subseteq> set room_card_entities"
  "set entrance_card_entities = set entrance_entities"
  "(''select'', ''_control_mode'') \<in> set room_control_entities"
  by code_simp+

lemmas room_documents = card_documents(1,2) [of "''room_''", simplified]
lemmas entrance_documents = card_documents(3) [of "''entrance_''", simplified]
lemmas room_document_sets = room_documents [THEN arg_cong [of _ _ set], unfolded set_map]

lemma control_references:
  "entity_references (conditional_card (''select.room_'' @ k @ ''_control_mode'') v (room_control_card k))
     = (''select.room_'' @ k @ ''_control_mode'') # prefixed (''room_'' @ k) room_control_entities"
  "entity_references (room_card k) = prefixed (''room_'' @ k) room_card_entities"
  by (simp_all add: room_control_card_def room_card_def)

lemma control_documents:
  "set (map entity_document (entity_references
       (conditional_card (''select.room_'' @ k @ ''_control_mode'') v (room_control_card k))))
     = entity_topic ''room_'' k ` set room_control_entities"
proof -
  have "entity_document (''select.room_'' @ k @ ''_control_mode'') = entity_topic ''room_'' k (''select'', ''_control_mode'')"
    using entity_document_dot [of "''select''" "''room_'' @ k @ ''_control_mode''"] by (simp add: entity_topic_def)
  then show ?thesis
    using room_card_covers(4) unfolding control_references
    by (simp add: room_document_sets insert_absorb)
qed

lemma dashboard_references:
  "set (map entity_document (entity_references (generate_dashboard reg)))
     = set (map (\<lambda>(c, i). discovery_topic c i) system_entities)
       \<union> (\<Union>k\<in>set (dashboard_room_keys reg). entity_topic ''room_'' k ` set room_control_entities)
       \<union> (\<Union>e\<in>set (rr_entrances reg). entity_topic ''entrance_'' (entrance_id e) ` set entrance_entities
            \<union> (\<Union>k\<in>set (entrance_room_keys reg e). entity_topic ''room_'' k ` set room_card_entities))"
proof -
  have entrance: "set (map entity_document (entity_references (entrance_view e ks)))
      = entity_topic ''entrance_'' (entrance_id e) ` set entrance_entities
        \<union> (\<Union>k\<in>set ks. entity_topic ''room_'' k ` set room_card_entities)" for e ks
  proof -
    have "map entity_document (entity_references (entrance_view e ks))
        = map (entity_topic ''entrance_'' (entrance_id e)) entrance_card_entities
          @ concat (map (\<lambda>k. map (entity_topic ''room_'' k) room_card_entities) ks)"
      by (simp add: entrance_view_def control_references map_concat comp_def room_documents
          entrance_documents entrance_prefix_def
          entrance_id_def)
    then show ?thesis by (simp del: map_map add: room_card_covers(3))
  qed
  have manual: "set (map entity_document (entity_references (manual_overrides_view ks)))
      = insert (entity_document ''sensor.hotel_active_manual_overrides'')
          (\<Union>k\<in>set ks. entity_topic ''room_'' k ` set room_control_entities)" for ks
    unfolding control_documents [of _ "''automatic''", symmetric]
    by (simp add: manual_overrides_view_def image_UN)
  have "set (map entity_document (entity_references (generate_dashboard reg)))
      = set (map entity_document service_references)
        \<union> set (map entity_document (entity_references (manual_overrides_view (dashboard_room_keys reg))))
        \<union> (\<Union>e\<in>set (rr_entrances reg).
             set (map entity_document (entity_references (entrance_view e (entrance_room_keys reg e)))))"
    by (auto simp: generate_dashboard_def service_references_def)
  then show ?thesis
    unfolding entrance manual service_documents [symmetric] by auto
qed

lemma map_of_keyed: "e \<in> set es \<Longrightarrow> map_of (map (\<lambda>e. (f e, g (f e))) es) (f e) = Some (g (f e))"
  by (induction es) auto

lemma dashboard_rooms:
  "set (dashboard_room_keys reg) = rm_key ` set (rr_rooms reg)"
  "e \<in> set (rr_entrances reg) \<Longrightarrow>
     set (entrance_room_keys reg e) = rm_key ` {r \<in> set (rr_rooms reg). rm_entrance_key r = en_key e}"
proof -
  show "set (dashboard_room_keys reg) = rm_key ` set (rr_rooms reg)" by (simp add: dashboard_room_keys_def)
  assume "e \<in> set (rr_entrances reg)"
  then have "map_of (rooms_by_entrance reg) (en_key e)
      = Some (sort_key rm_key (filter (\<lambda>r. rm_entrance_key r = en_key e) (rr_rooms reg)))"
    unfolding rooms_by_entrance_def by (rule map_of_keyed)
  then show "set (entrance_room_keys reg e) = rm_key ` {r \<in> set (rr_rooms reg). rm_entrance_key r = en_key e}"
    by (simp add: entrance_room_keys_def)
qed

lemma rooms_of_entrances:
  assumes "registry_ok reg"
  shows "(\<Union>e\<in>set (rr_entrances reg). set (entrance_room_keys reg e)) = rm_key ` set (rr_rooms reg)"
proof -
  have "(\<Union>e\<in>set (rr_entrances reg). set (entrance_room_keys reg e))
      = (\<Union>e\<in>set (rr_entrances reg). rm_key ` {r \<in> set (rr_rooms reg). rm_entrance_key r = en_key e})"
    by (simp add: dashboard_rooms(2))
  also have "\<dots> = rm_key ` set (rr_rooms reg)" using assms by (force simp: registry_ok_def)
  finally show ?thesis .
qed

lemma room_topic_sets:
  "entity_topic ''room_'' k ` set room_entities
     = {discovery_topic ''sensor'' (''room_'' @ k @ ''_last_intent_result''),
        discovery_topic ''binary_sensor'' (''room_'' @ k @ ''_reservation_active'')}
       \<union> entity_topic ''room_'' k ` set room_card_entities"
  "entity_topic ''room_'' k ` set room_control_entities \<subseteq> entity_topic ''room_'' k ` set room_card_entities"
  unfolding room_card_covers(1) using room_card_covers(2) by (auto simp: entity_topic_def)

lemma dashboard_and_documents:
  assumes "registry_ok reg"
  shows "set (map fst (discovery_documents reg t))
    = set (map entity_document (entity_references (generate_dashboard reg)))
      \<union> (\<Union>r\<in>set (rr_rooms reg).
           {discovery_topic ''sensor'' (''room_'' @ rm_key r @ ''_last_intent_result''),
            discovery_topic ''binary_sensor'' (''room_'' @ rm_key r @ ''_reservation_active'')})"
proof -
  let ?S = "set (map (\<lambda>(c, i). discovery_topic c i) system_entities)"
  let ?E = "\<Union>e\<in>set (rr_entrances reg). entity_topic ''entrance_'' (entrance_id e) ` set entrance_entities"
  let ?P = "\<Union>r\<in>set (rr_rooms reg).
      {discovery_topic ''sensor'' (''room_'' @ rm_key r @ ''_last_intent_result''),
       discovery_topic ''binary_sensor'' (''room_'' @ rm_key r @ ''_reservation_active'')}"
  let ?T = "\<lambda>es. \<Union>k\<in>rm_key ` set (rr_rooms reg). entity_topic ''room_'' k ` set es"
  have docs: "set (map fst (discovery_documents reg t)) = ?S \<union> ?E \<union> ?T room_entities"
    unfolding discovery_topics by (simp only: set_append set_concat set_map image_image Un_assoc UN_simps)
  have rooms: "?T room_entities = ?P \<union> ?T room_card_entities"
    unfolding room_topic_sets(1) by (simp only: UN_Un_distrib image_image UN_simps)
  have "(\<Union>e\<in>set (rr_entrances reg). \<Union>k\<in>set (entrance_room_keys reg e).
        entity_topic ''room_'' k ` set room_card_entities) = ?T room_card_entities"
    unfolding rooms_of_entrances [OF assms, symmetric] by simp
  then have refs: "set (map entity_document (entity_references (generate_dashboard reg)))
      = ?S \<union> ?E \<union> (?T room_control_entities \<union> ?T room_card_entities)"
    unfolding dashboard_references dashboard_rooms(1) UN_Un_distrib by (simp only: Un_ac)
  have absorb: "?T room_control_entities \<union> ?T room_card_entities = ?T room_card_entities"
    using room_topic_sets(2) by (intro subset_Un_eq [THEN iffD1] UN_mono subset_refl) blast
  show ?thesis unfolding docs rooms refs absorb by (simp only: Un_ac)
qed
end
