(* ===== verification/Adapter_States.thy ===== *)
theory Adapter_States
  imports G301_Worker Mqtt_Discovery Clock_Db_Sync
begin

text \<open>
  \<^verbatim>\<open>app/mqtt/schemas.py\<close>: what the adapters report, with the validation of the models, and the JSON
  documents (\<^verbatim>\<open>model_dump(mode="json")\<close>) that Home Assistant reads with the templates of the
  discovery documents.
\<close>

section \<open>Reported rooms\<close>

datatype component = CO_HVAC | CO_WATER_HEATER | CO_CONVECTORS

fun component_value :: "component \<Rightarrow> string" where
  "component_value CO_HVAC = ''hvac''"
| "component_value CO_WATER_HEATER = ''water_heater''"
| "component_value CO_CONVECTORS = ''convectors''"

record reported_hvac_state =
  rh_enabled :: bool
  rh_mode :: manual_hvac_mode
  rh_target_temperature_c :: "pyfloat option"

record reported_binary_state =
  rb_enabled :: bool

record reported_room_state =
  rr_schema_version :: int
  rr_room_key :: string
  rr_adapter_key :: string
  rr_handled_components :: "component list"
  rr_intent_version :: "int option"
  rr_online :: bool
  rr_reported_at :: py_datetime
  rr_hvac :: "reported_hvac_state option"
  rr_water_heater :: "reported_binary_state option"
  rr_convectors :: "reported_binary_state option"
  rr_ambient_temperature_c :: "pyfloat option"
  rr_faults :: "string list"
  rr_device_model :: "string option"
  rr_firmware_version :: "string option"
  rr_capability_profile :: "payload option"
  rr_last_successful_command_version :: "int option"
  rr_local_change_detected :: bool
  rr_raw_registers :: "(string \<times> int) list option"
  rr_correlation_id :: "uuid option"

text \<open>The components that carry a payload.\<close>

definition reported_components :: "reported_room_state \<Rightarrow> component list" where
  "reported_components r =
     (if rr_hvac r \<noteq> None then [CO_HVAC] else []) @ (if rr_water_heater r \<noteq> None then [CO_WATER_HEATER] else [])
     @ (if rr_convectors r \<noteq> None then [CO_CONVECTORS] else [])"

definition validate_component_ownership :: "reported_room_state \<Rightarrow> reported_room_state result" where
  "validate_component_ownership r =
     (let handled = set (rr_handled_components r); reported = set (reported_components r) in
      if has_duplicates (rr_handled_components r)
      then Inl (ValidationError ''handled_components cannot contain duplicates'')
      else if \<not> reported \<subseteq> handled
      then Inl (ValidationError ''component payloads must be owned by handled_components'')
      else if rr_online r \<and> handled \<noteq> reported
      then Inl (ValidationError ''online reports must include every handled component payload'')
      else case rr_reported_at r of
        Naive _ \<Rightarrow> Inl (ValidationError ''reported_at must be timezone-aware'')
      | Aware _ \<Rightarrow> Inr r)"

definition mk_reported_room_state :: "reported_room_state \<Rightarrow> reported_room_state result" where
  "mk_reported_room_state r =
     (if rr_schema_version r \<noteq> 1 then Inl (ValidationError ''Input should be 1'')
      else if rr_room_key r = [] \<or> rr_adapter_key r = []
      then Inl (ValidationError ''String should have at least 1 character'')
      else if rr_handled_components r = []
      then Inl (ValidationError ''List should have at least 1 item after validation'')
      else if (case rr_intent_version r of None \<Rightarrow> False | Some v \<Rightarrow> v < 1)
      then Inl (ValidationError ''Input should be greater than or equal to 1'')
      else validate_component_ownership r)"

definition reported_hvac_payload :: "reported_hvac_state \<Rightarrow> json" where
  "reported_hvac_payload h = JDict
     [(''enabled'', JBool (rh_enabled h)), (''mode'', JStr (manual_hvac_mode_value (rh_mode h))),
      (''target_temperature_c'', json_opt JFloat (rh_target_temperature_c h))]"

definition reported_binary_payload :: "reported_binary_state \<Rightarrow> json" where
  "reported_binary_payload b = JDict [(''enabled'', JBool (rb_enabled b))]"

definition reported_payload :: "reported_room_state \<Rightarrow> payload" where
  "reported_payload r =
     [(''schema_version'', JInt (rr_schema_version r)), (''room_key'', JStr (rr_room_key r)),
      (''adapter_key'', JStr (rr_adapter_key r)),
      (''handled_components'', texts (map component_value (rr_handled_components r))),
      (''intent_version'', json_opt JInt (rr_intent_version r)), (''online'', JBool (rr_online r)),
      (''reported_at'', JDateTime (rr_reported_at r)),
      (''hvac'', json_opt reported_hvac_payload (rr_hvac r)),
      (''water_heater'', json_opt reported_binary_payload (rr_water_heater r)),
      (''convectors'', json_opt reported_binary_payload (rr_convectors r)),
      (''ambient_temperature_c'', json_opt JFloat (rr_ambient_temperature_c r)), (''faults'', texts (rr_faults r)),
      (''device_model'', json_opt JStr (rr_device_model r)),
      (''firmware_version'', json_opt JStr (rr_firmware_version r)),
      (''capability_profile'', json_opt JDict (rr_capability_profile r)),
      (''last_successful_command_version'', json_opt JInt (rr_last_successful_command_version r)),
      (''local_change_detected'', JBool (rr_local_change_detected r)),
      (''raw_registers'', json_opt (\<lambda>m. JDict (map (\<lambda>(k, v). (k, JInt v)) m)) (rr_raw_registers r)),
      (''correlation_id'', json_opt JUuid (rr_correlation_id r))]"

section \<open>Execution results\<close>

fun execution_status_value :: "execution_status \<Rightarrow> string" where
  "execution_status_value ES_ACCEPTED = ''accepted''"
| "execution_status_value ES_QUEUED = ''queued''"
| "execution_status_value ES_WRITING = ''writing''"
| "execution_status_value ES_APPLIED = ''applied''"
| "execution_status_value ES_APPLIED_UNCONFIRMED = ''applied_unconfirmed''"
| "execution_status_value ES_REJECTED = ''rejected''"
| "execution_status_value ES_TIMEOUT = ''timeout''"
| "execution_status_value ES_MODBUS_EXCEPTION = ''modbus_exception''"
| "execution_status_value ES_READBACK_MISMATCH = ''readback_mismatch''"
| "execution_status_value ES_DEVICE_OFFLINE = ''device_offline''"
| "execution_status_value ES_NOT_YET_EFFECTIVE = ''not_yet_effective''"
| "execution_status_value ES_EXPIRED = ''expired''"
| "execution_status_value ES_STALE = ''stale''"
| "execution_status_value ES_FAILED = ''failed''"
| "execution_status_value ES_SKIPPED = ''skipped''"

definition result_payload :: "intent_execution_result \<Rightarrow> payload" where
  "result_payload r =
     [(''schema_version'', JInt (er_schema_version r)), (''room_key'', JStr (er_room_key r)),
      (''intent_version'', JInt (er_intent_version r)), (''adapter_key'', JStr (er_adapter_key r)),
      (''handled_components'', texts (er_handled_components r)),
      (''status'', JStr (execution_status_value (er_status r))), (''message'', json_opt JStr (er_message r)),
      (''applied_at'', JDateTime (Aware (er_applied_at r))),
      (''register_writes'', JList (map (\<lambda>w. JDict [(''address'', JStr (wr_address w)), (''value'', JInt (wr_value w))])
                                     (er_register_writes r))),
      (''mismatches'', JDict (map (\<lambda>(k, e, ob, d). (k, JDict [(''expected'', JInt e), (''observed'', json_opt JInt ob),
                                                               (''description'', JStr d)])) (er_mismatches r))),
      (''correlation_id'', JUuid (er_correlation_id r))]"

section \<open>Entrances\<close>

datatype adapter_status = AS_IDLE | AS_POLLING | AS_COMMANDING | AS_DEGRADED | AS_OFFLINE

fun adapter_status_value :: "adapter_status \<Rightarrow> string" where
  "adapter_status_value AS_IDLE = ''idle''"
| "adapter_status_value AS_POLLING = ''polling''"
| "adapter_status_value AS_COMMANDING = ''commanding''"
| "adapter_status_value AS_DEGRADED = ''degraded''"
| "adapter_status_value AS_OFFLINE = ''offline''"

record entrance_adapter_report =
  ea_schema_version :: int
  ea_entrance_key :: string
  ea_status :: adapter_status
  ea_adapter_online :: bool
  ea_gateway_online :: bool
  ea_room_mismatches :: int
  ea_last_poll_at :: "py_datetime option"
  ea_last_successful_poll_at :: "py_datetime option"
  ea_gateway_latency_ms :: "pyfloat option"
  ea_consecutive_failures :: int
  ea_last_modbus_exception :: "string option"
  ea_configured_slaves :: int
  ea_online_slaves :: int
  ea_offline_slaves :: int
  ea_scan_duration_ms :: "pyfloat option"
  ea_command_queue_depth :: int
  ea_updated_at :: py_datetime

definition not_negative :: "pyfloat option \<Rightarrow> bool" where
  "not_negative v = (case v of None \<Rightarrow> True | Some f \<Rightarrow> f_le (Fin 0) f)"

definition mk_entrance_adapter_report :: "entrance_adapter_report \<Rightarrow> entrance_adapter_report result" where
  "mk_entrance_adapter_report a =
     (if list_ex (\<lambda>n. n < 0)
           [ea_room_mismatches a, ea_consecutive_failures a, ea_configured_slaves a, ea_online_slaves a,
            ea_offline_slaves a, ea_command_queue_depth a]
         \<or> \<not> not_negative (ea_gateway_latency_ms a) \<or> \<not> not_negative (ea_scan_duration_ms a)
      then Inl (ValidationError ''Input should be greater than or equal to 0'')
      else Inr a)"

definition entrance_payload :: "entrance_adapter_report \<Rightarrow> payload" where
  "entrance_payload a =
     [(''schema_version'', JInt (ea_schema_version a)), (''entrance_key'', JStr (ea_entrance_key a)),
      (''status'', JStr (adapter_status_value (ea_status a))), (''adapter_online'', JBool (ea_adapter_online a)),
      (''gateway_online'', JBool (ea_gateway_online a)), (''room_mismatches'', JInt (ea_room_mismatches a)),
      (''last_poll_at'', json_opt JDateTime (ea_last_poll_at a)),
      (''last_successful_poll_at'', json_opt JDateTime (ea_last_successful_poll_at a)),
      (''gateway_latency_ms'', json_opt JFloat (ea_gateway_latency_ms a)),
      (''consecutive_failures'', JInt (ea_consecutive_failures a)),
      (''last_modbus_exception'', json_opt JStr (ea_last_modbus_exception a)),
      (''configured_slaves'', JInt (ea_configured_slaves a)), (''online_slaves'', JInt (ea_online_slaves a)),
      (''offline_slaves'', JInt (ea_offline_slaves a)), (''scan_duration_ms'', json_opt JFloat (ea_scan_duration_ms a)),
      (''command_queue_depth'', JInt (ea_command_queue_depth a)), (''updated_at'', JDateTime (ea_updated_at a))]"

section \<open>What a template reads\<close>

fun text_after :: "string \<Rightarrow> string \<Rightarrow> string" where
  "text_after p [] = []"
| "text_after p (c # cs) =
     (if take (length p) (c # cs) = p then drop (length p) (c # cs) else text_after p cs)"

text \<open>The names of a path, up to the first blank.\<close>

fun path_parts :: "string \<Rightarrow> string list" where
  "path_parts [] = [[]]"
| "path_parts (c # cs) =
     (if c = CHR '' '' then [[]]
      else if c = CHR ''.'' then [] # path_parts cs
      else case path_parts cs of [] \<Rightarrow> [[c]] | p # ps \<Rightarrow> (c # p) # ps)"

text \<open>The path of fields after \<^verbatim>\<open>value_json\<close>.\<close>

definition template_path :: "string \<Rightarrow> string list" where
  "template_path template = path_parts (text_after ''value_json.'' template)"

fun has_path :: "payload \<Rightarrow> string list \<Rightarrow> bool" where
  "has_path d [] = True"
| "has_path d (k # ks) =
     (case map_of d k of
        None \<Rightarrow> False
      | Some v \<Rightarrow> ks = [] \<or> (case v of JDict d' \<Rightarrow> has_path d' ks | _ \<Rightarrow> False))"

text \<open>Whether the template of a document finds its field in what was published on its state topic.\<close>

definition document_readable :: "(string \<Rightarrow> payload) \<Rightarrow> payload \<Rightarrow> bool" where
  "document_readable published doc =
     (case (map_of doc ''state_topic'', map_of doc ''value_template'') of
        (Some (JStr topic), Some (JStr template)) \<Rightarrow> has_path (published topic) (template_path template)
      | _ \<Rightarrow> True)"

end
