(* ===== verification/Discovery_Contract.thy ===== *)
theory Discovery_Contract
  imports Adapter_States Runtime
begin

text \<open>
  The contract between the discovery documents and the states: the field a document's template
  reads is in every state that is published on the document's topic.
\<close>

section \<open>Templates\<close>

lemma template_paths:
  "template_path ''{{ value_json.active_manual_overrides }}'' = [''active_manual_overrides'']"
  "template_path ''{{ value_json.adapter_online }}'' = [''adapter_online'']"
  "template_path ''{{ value_json.ambient_temperature_c }}'' = [''ambient_temperature_c'']"
  "template_path ''{{ value_json.arrival }}'' = [''arrival'']"
  "template_path ''{{ value_json.arrivals_today }}'' = [''arrivals_today'']"
  "template_path ''{{ value_json.automation_phase }}'' = [''automation_phase'']"
  "template_path ''{{ value_json.checked_in_rooms }}'' = [''checked_in_rooms'']"
  "template_path ''{{ value_json.command_queue_depth }}'' = [''command_queue_depth'']"
  "template_path ''{{ value_json.consecutive_failures }}'' = [''consecutive_failures'']"
  "template_path ''{{ value_json.control_mode }}'' = [''control_mode'']"
  "template_path ''{{ value_json.dead_letter_outbox }}'' = [''dead_letter_outbox'']"
  "template_path ''{{ value_json.departure }}'' = [''departure'']"
  "template_path ''{{ value_json.departures_today }}'' = [''departures_today'']"
  "template_path ''{{ value_json.expected_rooms }}'' = [''expected_rooms'']"
  "template_path ''{{ value_json.faults | count }}'' = [''faults'']"
  "template_path ''{{ value_json.gateway_latency_ms }}'' = [''gateway_latency_ms'']"
  "template_path ''{{ value_json.gateway_online }}'' = [''gateway_online'']"
  "template_path ''{{ value_json.hvac.mode }}'' = [''hvac'', ''mode'']"
  "template_path ''{{ value_json.hvac.target_temperature_c }}'' = [''hvac'', ''target_temperature_c'']"
  "template_path ''{{ value_json.lag_seconds }}'' = [''lag_seconds'']"
  "template_path ''{{ value_json.last_poll_at }}'' = [''last_poll_at'']"
  "template_path ''{{ value_json.last_success_at }}'' = [''last_success_at'']"
  "template_path ''{{ value_json.last_successful_poll_at }}'' = [''last_successful_poll_at'']"
  "template_path ''{{ value_json.manual_hvac_mode }}'' = [''manual_hvac_mode'']"
  "template_path ''{{ value_json.manual_target_temperature_c }}'' = [''manual_target_temperature_c'']"
  "template_path ''{{ value_json.mqtt_connected }}'' = [''mqtt_connected'']"
  "template_path ''{{ value_json.needs_attention }}'' = [''needs_attention'']"
  "template_path ''{{ value_json.offline_slaves }}'' = [''offline_slaves'']"
  "template_path ''{{ value_json.online }}'' = [''online'']"
  "template_path ''{{ value_json.online_slaves }}'' = [''online_slaves'']"
  "template_path ''{{ value_json.outbox_worker_enabled }}'' = [''outbox_worker_enabled'']"
  "template_path ''{{ value_json.override_duration }}'' = [''override_duration'']"
  "template_path ''{{ value_json.pending_outbox }}'' = [''pending_outbox'']"
  "template_path ''{{ value_json.policy_scheduler_enabled }}'' = [''policy_scheduler_enabled'']"
  "template_path ''{{ value_json.reported_at }}'' = [''reported_at'']"
  "template_path ''{{ value_json.room_conflicts }}'' = [''room_conflicts'']"
  "template_path ''{{ value_json.room_mismatches }}'' = [''room_mismatches'']"
  "template_path ''{{ value_json.rooms_needing_attention }}'' = [''rooms_needing_attention'']"
  "template_path ''{{ value_json.runtime_ready }}'' = [''runtime_ready'']"
  "template_path ''{{ value_json.scan_duration_ms }}'' = [''scan_duration_ms'']"
  "template_path ''{{ value_json.status }}'' = [''status'']"
  "template_path ''{{ value_json.unassigned_arrivals }}'' = [''unassigned_arrivals'']"
  "template_path ''{{ value_json.water_heater.enabled }}'' = [''water_heater'', ''enabled'']"
  "template_path ''{{ value_json.booking_status }}'' = [''booking_status'']"
  by (simp_all add: template_path_def)

lemma special_template_paths:
  "template_path (''{{ value_json.booking_status in ['' @ [CHR 0x27] @ ''expected'' @ [CHR 0x27] @ '', ''
     @ [CHR 0x27] @ ''checked_in'' @ [CHR 0x27] @ ''] }}'') = [''booking_status'']"
  "template_path (''{{ '' @ [CHR 0x27] @ ''on'' @ [CHR 0x27] @ '' if value_json.manual_water_heater_enabled else ''
     @ [CHR 0x27] @ ''off'' @ [CHR 0x27] @ '' }}'') = [''manual_water_heater_enabled'']"
  by (simp_all add: template_path_def)

section \<open>The fields of the states\<close>

text \<open>What every value satisfies that a computation returns.\<close>

definition yields :: "('s, 'a) eff \<Rightarrow> ('a \<Rightarrow> bool) \<Rightarrow> bool" where
  "yields m P \<longleftrightarrow> (\<forall>s v s'. m s = (Inr v, s') \<longrightarrow> P v)"

lemma yields_bind: "(\<And>v. yields (f v) P) \<Longrightarrow> yields (bindE m f) P"
  by (auto simp: yields_def bindE_def split: prod.splits sum.splits)

lemma yields_chain:
  assumes "yields m Q" and "\<And>v. Q v \<Longrightarrow> yields (f v) P"
  shows "yields (bindE m f) P"
  unfolding yields_def
proof (intro allI impI)
  fix s v s'
  assume "bindE m f s = (Inr v, s')"
  then obtain u s1 where "m s = (Inr u, s1)" "f u s1 = (Inr v, s')" by (rule bindE_Inr_E)
  with assms show "P v" unfolding yields_def by blast
qed

lemma yields_ret: "P v \<Longrightarrow> yields (ret v) P"
  by (simp add: yields_def)

lemma yields_lift: "(\<And>v. r = Inr v \<Longrightarrow> P v) \<Longrightarrow> yields (lift_result r) P"
  by (simp add: yields_def)

lemma yields_read:
  assumes "yields m P"
  shows "yields (read_session m) P"
proof -
  have "P v" if "read_session m w = (Inr v, w')" for w v w'
  proof -
    from that obtain s where "m (new_session (rw_db w) (rw_draws w)) = (Inr v, s)"
      by (auto simp: read_session_def split: prod.splits)
    with assms show ?thesis by (auto simp: yields_def)
  qed
  then show ?thesis unfolding yields_def by blast
qed

lemma yieldsD: "yields m P \<Longrightarrow> m s = (Inr v, s') \<Longrightarrow> P v"
  by (auto simp: yields_def)

lemma control_state_fields:
  assumes "control_state_payload sv k now s = (Inr p, s')"
  shows "map fst p = [''schema_version'', ''room_key'', ''control_mode'', ''manual_hvac_mode'',
    ''manual_target_temperature_c'', ''override_duration'', ''manual_water_heater_enabled'', ''active'', ''until_checkout'',
    ''expires_at'', ''command_id'', ''updated_at'']"
proof -
  have default: "map fst (default_control_state_payload sv k now) = [''schema_version'', ''room_key'', ''control_mode'',
    ''manual_hvac_mode'', ''manual_target_temperature_c'', ''override_duration'', ''manual_water_heater_enabled'', ''active'',
    ''until_checkout'', ''expires_at'', ''command_id'', ''updated_at'']" for now
    by (simp add: default_control_state_payload_def)
  have row: "map fst q = [''schema_version'', ''room_key'', ''control_mode'', ''manual_hvac_mode'',
    ''manual_target_temperature_c'', ''override_duration'', ''manual_water_heater_enabled'', ''active'', ''until_checkout'',
    ''expires_at'', ''command_id'', ''updated_at'']"
    if "control_state_payload_from_override sv k row now active = Inr q" for row now active q
    using that by (auto simp: control_state_payload_from_override_def default bind_result_Inr Let_def
        split: option.splits if_splits)
  let ?P = "\<lambda>p. map fst p = [''schema_version'', ''room_key'', ''control_mode'', ''manual_hvac_mode'',
    ''manual_target_temperature_c'', ''override_duration'', ''manual_water_heater_enabled'', ''active'', ''until_checkout'',
    ''expires_at'', ''command_id'', ''updated_at'']"
  have "yields (control_state_payload sv k now) ?P"
    unfolding control_state_payload_def Let_def
    by (intro yields_bind) (auto intro!: yields_bind yields_ret yields_lift simp: default row split: option.split)
  from yieldsD [OF this assms] show ?thesis .
qed

lemma updated_fields: "fst ` set (update_payload d new) = fst ` set d \<union> fst ` set new"
proof -
  have "fst ` set (fold (\<lambda>(k, v). AList.update k v) new d) = fst ` set d \<union> fst ` set new"
    by (induction new arbitrary: d) (simp_all add: case_prod_beta AList.dom_update Un_insert_left insert_commute)
  then show ?thesis by (simp add: update_payload_def)
qed

definition state_fields_published :: "string list" where
  "state_fields_published =
     [''status'', ''last_success_at'', ''lag_seconds'', ''mqtt_connected''] @ count_names
     @ [''runtime_ready'', ''policy_scheduler_enabled'', ''outbox_worker_enabled'']"

lemma system_state_fields:
  assumes "system_state ar w = (Inr p, w')"
  shows "set state_fields_published \<subseteq> fst ` set p"
proof -
  let ?B = "\<lambda>q. set ([''status'', ''last_success_at'', ''lag_seconds'', ''mqtt_connected''] @ count_names) \<subseteq> fst ` set q"
  have payload: "?B (system_payload tz status attempt success duration lag mqtt (zip count_names ns) now)"
    if "length ns = length count_names" for tz status attempt success duration lag mqtt ns now
  proof -
    have "fst ` set (zip count_names ns) = set count_names"
      using that by (metis list.set_map map_fst_zip)
    then show ?thesis by (auto simp: system_payload_def image_iff split_beta) force+
  qed
  have "map (\<lambda>k. (k, 0 :: int)) count_names = zip count_names (map (\<lambda>_. 0) count_names)"
    by (simp add: zip_map2 zip_same_conv_map)
  with payload [of "map (\<lambda>_. 0) count_names"]
  have empty: "?B (empty_state tz now mqtt)" for tz now mqtt by (simp add: empty_state_def)
  have build: "yields (build_system_state tz key now c r) ?B" for tz key now c r
  proof -
    have length: "length count_names = 11" by (simp add: count_names_def)
    show ?thesis
      unfolding build_system_state_def Let_def
      by (intro yields_bind, split option.split)
        (intro conjI impI allI yields_bind yields_ret empty payload, simp add: length)
  qed
  have updated: "yields (bindE (gets rw_health) (\<lambda>health. ret (update_payload q (new health))))
      (\<lambda>p. set state_fields_published \<subseteq> fst ` set p)"
    if "?B q" "\<And>h. {''runtime_ready'', ''policy_scheduler_enabled'', ''outbox_worker_enabled''} \<subseteq> fst ` set (new h)" for q new
    using that by (intro yields_bind yields_ret) (auto simp: updated_fields state_fields_published_def)
  have "yields (system_state ar) (\<lambda>p. set state_fields_published \<subseteq> fst ` set p)"
    unfolding system_state_def Let_def
    by (intro yields_bind yields_chain [OF yields_read [OF build]] updated) auto
  then show ?thesis using assms by (rule yieldsD)
qed

section \<open>Readable documents\<close>

lemma has_path_key: "has_path d [k] \<longleftrightarrow> k \<in> fst ` set d"
  by (auto split: option.split dest: map_of_SomeD simp: map_of_eq_None_iff) (force dest: map_of_SomeD)

lemmas readable_simps = document_readable_def sensor_config_def binary_sensor_config_def control_config_def
  object_fields_def state_fields_def availability_fields_def template_paths special_template_paths [simplified]

lemma entrance_readable:
  assumes "published (entrance_adapter_state t (en_key e)) = entrance_payload a"
  shows "list_all (document_readable published) (map snd (entrance_configs e t))"
  by (simp add: entrance_configs_def Let_def entrance_sensors_def entrance_binary_sensors_def readable_simps assms
      entrance_payload_def)

text \<open>The document that reads the reported mode of a room's climate; a report may leave the climate out.\<close>

definition reads_reported_mode :: "mqtt_topics \<Rightarrow> room \<Rightarrow> payload \<Rightarrow> bool" where
  "reads_reported_mode t r doc \<longleftrightarrow>
     map_of doc ''state_topic'' = Some (JStr (room_reported_state t (rm_key r) ''g301''))
     \<and> map_of doc ''value_template'' = Some (JStr ''{{ value_json.hvac.mode }}'')"

lemma mode_unreadable:
  assumes "reads_reported_mode t r doc" and "published (room_reported_state t (rm_key r) ''g301'') = reported_payload rep"
    and "rr_hvac rep = None"
  shows "\<not> document_readable published doc"
  using assms by (simp add: reads_reported_mode_def document_readable_def template_paths reported_payload_def)

lemma room_readable:
  assumes "published (room_pms_state t (rm_key r)) = pms_state_payload sv st c"
    and "published (room_intent_state_topic t (rm_key r)) = intent_payload i"
    and "control_state_payload sv (rm_key r) now s = (Inr (published (room_control_state t (rm_key r))), s')"
    and "published (room_reported_state t (rm_key r) ''g301'') = reported_payload rep"
    and "published (room_intent_result t (rm_key r) ''g301'') = result_payload er"
  shows "list_all (\<lambda>doc. document_readable published doc \<or> rr_hvac rep = None \<and> reads_reported_mode t r doc)
    (map snd (room_discovery_configs r t))"
proof -
  note panel = control_state_fields [OF assms(3)]
  have control: "has_path (published (room_control_state t (rm_key r))) [k]"
    if "k \<in> {''control_mode'', ''manual_hvac_mode'', ''manual_target_temperature_c'', ''override_duration'', ''manual_water_heater_enabled''}" for k
    using that unfolding has_path_key list.set_map [symmetric] panel by auto
  have mode: "has_path (reported_payload rep) [''hvac'', ''mode'']" if "rr_hvac rep \<noteq> None"
    using that by (auto simp: reported_payload_def reported_hvac_payload_def)
  have reported: "has_path (reported_payload rep) [k]"
    if "k \<in> {''ambient_temperature_c'', ''faults'', ''reported_at'', ''online''}" for k
    using that unfolding has_path_key by (auto simp: reported_payload_def)
  have "has_path (pms_state_payload sv st c) [k]"
    if "k \<in> {''booking_status'', ''automation_phase'', ''arrival'', ''departure'', ''needs_attention''}" for k
    using that unfolding has_path_key by (auto simp: pms_state_payload_def Let_def)
  moreover have "has_path (intent_payload i) [''hvac'', ''mode'']" "has_path (intent_payload i) [''hvac'', ''target_temperature_c'']"
    "has_path (intent_payload i) [''water_heater'', ''enabled'']" "has_path (result_payload er) [''status'']"
    by (simp_all add: intent_payload_def hvac_payload_def binary_payload_def result_payload_def)
  ultimately show ?thesis
    using control reported mode
    by (cases "rr_hvac rep = None")
      (simp_all add: room_discovery_configs_def Let_def room_sensors_def room_binary_sensors_def room_controls_def
        reads_reported_mode_def readable_simps assms(1,2,4,5) del: has_path.simps)
qed

lemma system_readable:
  assumes "system_state ar w = (Inr (published (system_state_topic t)), w')"
  shows "list_all (document_readable published) (map snd (system_discovery_configs t))"
proof -
  have "has_path (published (system_state_topic t)) [k]" if "k \<in> set state_fields_published" for k
    using system_state_fields [OF assms] that unfolding has_path_key by blast
  then show ?thesis
    by (simp add: system_discovery_configs_def Let_def system_sensors_def system_binary_sensors_def
        system_binary_sensor_config_def readable_simps state_fields_published_def count_names_def del: has_path.simps)
qed

text \<open>All documents of a registry.\<close>

lemma documents_readable:
  assumes "\<And>e. e \<in> set (rr_entrances registry) \<Longrightarrow> list_all P (map snd (entrance_configs e t))"
    and "\<And>r. r \<in> set (rr_rooms registry) \<Longrightarrow> list_all P (map snd (room_discovery_configs r t))"
    and "list_all P (map snd (system_discovery_configs t))"
  shows "list_all P (map snd (discovery_documents registry t))"
  using assms by (fastforce simp: discovery_documents_def entrance_discovery_configs_def list_all_iff)

end
