(* ===== verification/Client_Theorems.thy ===== *)
theory Client_Theorems
  imports Runtime Mqtt_Client Dashboard Discovery_Contract Api_Theorems
begin

text \<open>
  The properties of the clients at the edges of the service: the Clock clients that polls run on,
  the settings they are built from, the MQTT client with the command subscriptions, the
  discovery topics, and the dashboard.
\<close>

section \<open>Settings\<close>

lemma check_bounds_all:
  "check_bounds bs = Inr () \<longleftrightarrow> (\<forall>(v, lo, hi) \<in> set bs. lo \<le> v \<and> (\<forall>h. hi = Some h \<longrightarrow> v \<le> h))"
  by (induction bs rule: check_bounds.induct) (auto split: option.split)

lemma mk_settings_Inr:
  assumes "mk_settings s0 = Inr s"
  obtains url prefix where "s = s0\<lparr>se_clock_base_url := url, se_mqtt_topic_prefix := prefix\<rparr>"
    and "url = rstrip_by (\<lambda>c. c = CHR ''/'') (se_clock_base_url s0)"
    and "prefix = strip_by (\<lambda>c. c = CHR ''/'') (se_mqtt_topic_prefix s0)" and "prefix \<noteq> []"
    and "check_bounds (bounded_fields s0) = Inr ()" and "validate_runtime_security s = Inr s"
    and "starts_with ''https://'' (se_clock_base_url s0)"
  using assms
  by (auto simp: mk_settings_def bind_result_Inr require_https_clock_def normalize_mqtt_prefix_def Let_def
      validate_runtime_security_def split: if_splits)

text \<open>C24. Accepted settings always have what the runtime builds from them: the client mode finds its
fixture path, so the runtime's assertion never fails and only the field mapping's file can stop the
construction; workers that need a client have one configured; the intervals and batch sizes are
positive; and the topic prefix is the one the topics are built with, so the MQTT client's last will
is published on the availability topic that the discovery documents announce.\<close>

theorem accepted_settings_suffice:
  assumes "mk_settings s0 = Inr s"
  shows "(case build_clock_client ev s of Inl e \<Rightarrow> ev_load_mapping ev (se_clock_field_mapping_path s) = Inl e
            | Inr client \<Rightarrow> (client = None) = (se_clock_client_mode s = CLOCK_DISABLED))
    \<and> (se_clock_polling_enabled s \<longrightarrow> se_clock_client_mode s \<noteq> CLOCK_DISABLED)
    \<and> (se_outbox_worker_enabled s \<longrightarrow> se_mqtt_enabled s)
    \<and> 60 \<le> se_clock_poll_interval_seconds s \<and> 10 \<le> se_policy_tick_seconds s \<and> 1 \<le> se_outbox_poll_seconds s
    \<and> 1 \<le> se_outbox_batch_size s \<and> 1 \<le> se_outbox_max_attempts s
    \<and> mk_mqtt_topics (se_mqtt_topic_prefix s) = \<lparr>mt_prefix = se_mqtt_topic_prefix s\<rparr>
    \<and> will_topic s = availability_topic (mk_mqtt_topics (se_mqtt_topic_prefix s))"
proof -
  from assms obtain url prefix where s: "s = s0\<lparr>se_clock_base_url := url, se_mqtt_topic_prefix := prefix\<rparr>"
    and prefix: "prefix = strip_by (\<lambda>c. c = CHR ''/'') (se_mqtt_topic_prefix s0)"
    and bounds: "check_bounds (bounded_fields s0) = Inr ()" and sec: "validate_runtime_security s = Inr s"
    by (elim mk_settings_Inr)
  have topics: "mk_mqtt_topics (se_mqtt_topic_prefix s) = \<lparr>mt_prefix = se_mqtt_topic_prefix s\<rparr>"
    by (simp add: s prefix mk_mqtt_topics_def strip_by_idem)
  have range: "60 \<le> se_clock_poll_interval_seconds s \<and> 10 \<le> se_policy_tick_seconds s \<and> 1 \<le> se_outbox_poll_seconds s
    \<and> 1 \<le> se_outbox_batch_size s \<and> 1 \<le> se_outbox_max_attempts s"
    using bounds unfolding check_bounds_all by (simp add: bounded_fields_def s)
  have mode: "se_clock_client_mode s = CLOCK_FIXTURE \<Longrightarrow> se_clock_fixture_bookings_path s \<noteq> None"
    "se_clock_polling_enabled s \<Longrightarrow> se_clock_client_mode s \<noteq> CLOCK_DISABLED"
    "se_outbox_worker_enabled s \<Longrightarrow> se_mqtt_enabled s"
    using sec by (auto simp: validate_runtime_security_def split: if_splits)
  have "case build_clock_client ev s of Inl e \<Rightarrow> ev_load_mapping ev (se_clock_field_mapping_path s) = Inl e
      | Inr client \<Rightarrow> (client = None) = (se_clock_client_mode s = CLOCK_DISABLED)"
    using mode(1) by (cases "ev_load_mapping ev (se_clock_field_mapping_path s)") (auto simp: build_clock_client_def)
  with range mode(2,3) topics show ?thesis by (simp add: will_topic_def availability_topic_def)
qed

text \<open>A server that answers every request with an empty list and counts the requests in its state.\<close>

definition demo_live_client :: "(string \<times> string) list rest_client" where
  "demo_live_client =
     \<lparr>rc_settings = default_settings, rc_contract = None, rc_tz = fixed_tzdb 0,
      rc_text = \<lparr>pt_str = (\<lambda>_. []), pt_int = (\<lambda>_. Inr 0), pt_date_fromisoformat = (\<lambda>_. Inr 0),
                 pt_datetime_fromisoformat = (\<lambda>_. Inr (Naive 0)), pt_sha256_json = (\<lambda>_. [])\<rparr>,
      rc_format = (\<lambda>t _. Inr t),
      rc_get = (\<lambda>auth url params c. (Inr \<lparr>hr_status_code = 200, hr_json = Inr (JList [])\<rparr>, (url, []) # c)),
      rc_retry = (\<lambda>p n m. m)\<rparr>"

definition demo_environment :: "(string \<times> string) list environment" where
  "demo_environment =
     \<lparr>ev_select_one = ret (), ev_current_revision = None, ev_expected_head = None,
      ev_load_mapping = (\<lambda>_. Inr \<lparr>fm_booking_id = ''id'', fm_status = ''status'', fm_arrival_date = ''arrival'',
         fm_departure_date = ''departure'', fm_updated_at = None, fm_created_at = None, fm_status_changed_at = None,
         fm_booking_number = None, fm_external_source = None, fm_external_reference = None, fm_room_type_id = None, fm_room_type_name = None, fm_physical_room_id = None,
         fm_physical_room_number = None, fm_adults = None, fm_children = None\<rparr>),
      ev_fixture_load = (\<lambda>_. ret (JList [])), ev_rest = demo_live_client, ev_connect = ret (),
      ev_subscribe = (\<lambda>_. ret ()), ev_disconnect = ret ()\<rparr>"

definition demo_settings :: settings where
  "demo_settings = default_settings
     \<lparr>se_mqtt_topic_prefix := ''/hotel/v1/'', se_mqtt_enabled := True, se_outbox_worker_enabled := True,
      se_clock_client_mode := CLOCK_FIXTURE, se_clock_fixture_bookings_path := Some ''bookings.json'',
      se_clock_polling_enabled := True\<rparr>"

lemma demo_settings_accepted:
  "mk_settings demo_settings = Inr (demo_settings\<lparr>se_mqtt_topic_prefix := ''hotel/v1''\<rparr>)"
  by code_simp

theorem accepted_settings_suffice_witness:
  "is_Inr (build_clock_client demo_environment (demo_settings\<lparr>se_mqtt_topic_prefix := ''hotel/v1''\<rparr>))
   \<and> will_topic (demo_settings\<lparr>se_mqtt_topic_prefix := ''hotel/v1''\<rparr>) = availability_topic (mk_mqtt_topics ''hotel/v1'')"
  using accepted_settings_suffice [OF demo_settings_accepted, of demo_environment]
  by (auto simp: demo_environment_def split: sum.splits)

section \<open>The live Clock client\<close>

text \<open>Whatever the settings say, the live Clock client that the runtime builds never sends a
request: it has no verified contract, so every poll fails with ClockMappingRequired before the HTTP
client is called, hands out no booking and leaves the cursor where it was. The endpoint paths of the
settings alone do not enable live calls, as the documentation promises.\<close>

theorem live_client_sends_nothing:
  assumes "build_clock_client ev s = Inr (Some (client, mapping))" and "se_clock_client_mode s = CLOCK_LIVE"
  shows "poll_once (sync_service ar client mapping) cursor now c
    = Some (\<lparr>sy_success = False, sy_bookings = [], sy_started_at = now, sy_finished_at = now,
             sy_next_cursor = cursor, sy_error = Some ''ClockMappingRequired''\<rparr>, c)"
proof -
  have "client = rest_list_bookings ((ev_rest ev)\<lparr>rc_settings := s, rc_contract := None\<rparr>)"
    using assms by (auto simp: build_clock_client_def bind_result_Inr)
  then show ?thesis
    by (simp add: poll_once_def sync_service_def collect_pages.simps rest_list_bookings_def require_confirmed_contract_def bindE_def)
qed

theorem live_client_sends_nothing_witness:
  "\<exists>client mapping. build_clock_client demo_environment (default_settings\<lparr>se_clock_client_mode := CLOCK_LIVE\<rparr>)
       = Inr (Some (client, mapping))
     \<and> (\<forall>(ar :: ((string \<times> string) list, unit) app_runtime) cursor now. poll_once (sync_service ar client mapping) cursor now []
       = Some (\<lparr>sy_success = False, sy_bookings = [], sy_started_at = now, sy_finished_at = now,
               sy_next_cursor = cursor, sy_error = Some ''ClockMappingRequired''\<rparr>, []))"
proof -
  obtain client mapping where b: "build_clock_client demo_environment (default_settings\<lparr>se_clock_client_mode := CLOCK_LIVE\<rparr>)
       = Inr (Some (client, mapping))"
    by (simp add: build_clock_client_def demo_environment_def)
  then show ?thesis using live_client_sends_nothing [OF b, of _ _ _ "[]"] by auto
qed

section \<open>Polls return\<close>

text \<open>C23. A poll returns, on every state behind the client, when the client reads fixtures or when the
contract of the REST client names no cursor key for the bookings: its paging loop then makes one
pass, whatever the file or the server holds, and errors end it too.\<close>

theorem unpaged_polls_return:
  assumes "sv_list_bookings sv = fixture_list_bookings fx
    \<or> sv_list_bookings sv = rest_list_bookings cl
      \<and> (\<forall>ca. rc_contract cl = Some ca \<longrightarrow> cc_next_cursor_key (ca_bookings ca) = None)"
  shows "\<exists>r c'. poll_once sv cursor now c = Some (r, c')"
  using assms
proof
  assume "sv_list_bookings sv = fixture_list_bookings fx"
  then show ?thesis by (rule fixture.poll_returns)
next
  assume "sv_list_bookings sv = rest_list_bookings cl
      \<and> (\<forall>ca. rc_contract cl = Some ca \<longrightarrow> cc_next_cursor_key (ca_bookings ca) = None)"
  then have "sv_list_bookings sv = rest_list_bookings (without_cursor cl)" by (simp add: without_cursor_id)
  then show ?thesis by (rule unpaged.poll_returns)
qed

definition demo_fixture :: "json fixture_client" where
  "demo_fixture = \<lparr>fx_bookings_path = ''bookings.json'', fx_rooms_path = None, fx_load = (\<lambda>path c. (Inr c, c))\<rparr>"

definition demo_polling :: "json clock_sync_service" where
  "demo_polling =
     \<lparr>sv_list_bookings = fixture_list_bookings demo_fixture,
      sv_settings = clock_settings_of default_settings, sv_property_id = ''p'',
      sv_mapping = (case ev_load_mapping demo_environment [] of Inr m \<Rightarrow> m | _ \<Rightarrow> undefined),
      sv_text = rc_text demo_live_client\<rparr>"

theorem unpaged_polls_return_witness:
  "\<exists>r c'. poll_once demo_polling \<lparr>sc_last_success_at = None, sc_cursor_value = None\<rparr> (utc_at 0) (JInt 1) = Some (r, c')"
proof -
  have "sv_list_bookings demo_polling = fixture_list_bookings demo_fixture" by (simp add: demo_polling_def)
  from unpaged_polls_return [OF disjI1 [OF this]] show ?thesis .
qed

section \<open>Discovery topics\<close>

text \<open>C25. The retained discovery documents of a registry never overwrite each other exactly when no two
entrance keys become equal by turning hyphens into underscores: the topics of the service, the
entrances and the rooms are pairwise distinct, whatever characters the room keys hold. The validation
of the registry accepts keys that collide, as the witness shows.\<close>

theorem discovery_topics_distinct:
  assumes "mk_room_registry registry = Inr accepted"
  shows "distinct (map fst (discovery_documents accepted t))
    \<longleftrightarrow> distinct (map (\<lambda>e. replace_char CHR ''-'' CHR ''_'' (en_key e)) (rr_entrances accepted))"
proof -
  have "distinct (map rm_key (rr_rooms accepted))" using assms by (simp add: mk_room_registry_Inr registry_ok_def)
  then show ?thesis by (simp add: registry_topics_distinct entrance_id_def [abs_def])
qed

definition colliding_registry :: room_registry where
  "colliding_registry =
     \<lparr>rr_property = \<lparr>pr_key = ''p'', pr_name = ''H'', pr_timezone = ''Europe/Sofia''\<rparr>,
      rr_entrances = map (\<lambda>k. \<lparr>en_key = k, en_name = k, en_gateway_host = None, en_gateway_port = None, en_enabled = True\<rparr>) [''a-b'', ''a_b''],
      rr_rooms = []\<rparr>"

theorem discovery_topics_distinct_witness:
  "mk_room_registry colliding_registry = Inr colliding_registry
   \<and> \<not> distinct (map fst (discovery_documents colliding_registry default_mqtt_topics))"
proof -
  have ok: "mk_room_registry colliding_registry = Inr colliding_registry" by code_simp
  have "\<not> distinct (map (\<lambda>e. replace_char CHR ''-'' CHR ''_'' (en_key e)) (rr_entrances colliding_registry))" by code_simp
  with discovery_topics_distinct [OF ok, of default_mqtt_topics] ok show ?thesis by simp
qed

section \<open>Dashboard\<close>

text \<open>C31. For a registry that the validation accepts, the dashboard and the discovery documents agree: every
entity a card refers to is one that the service announces under that entity's topic, and every announced
entity is on the dashboard except, for each room, the last intent result and the active reservation.\<close>

theorem dashboard_shows_what_is_announced:
  assumes "mk_room_registry registry = Inr accepted"
  shows "set (map fst (discovery_documents accepted t))
    = set (map entity_document (entity_references (generate_dashboard accepted)))
      \<union> (\<Union>r\<in>set (rr_rooms accepted).
           {discovery_topic ''sensor'' (''room_'' @ rm_key r @ ''_last_intent_result''),
            discovery_topic ''binary_sensor'' (''room_'' @ rm_key r @ ''_reservation_active'')})"
  using assms by (intro dashboard_and_documents) (simp add: mk_room_registry_Inr)

definition small_registry :: room_registry where
  "small_registry = colliding_registry
     \<lparr>rr_entrances := take 1 (rr_entrances colliding_registry),
      rr_rooms := [\<lparr>rm_key = ''201'', rm_name = ''Room 201'', rm_entrance_key = ''a-b'', rm_floor = None,
        rm_clock_room_id = None, rm_g301 = None, rm_enabled = True\<rparr>]\<rparr>"

theorem dashboard_shows_what_is_announced_witness:
  "mk_room_registry small_registry = Inr small_registry
   \<and> discovery_topic ''sensor'' ''room_201_last_intent_result''
       \<in> set (map fst (discovery_documents small_registry default_mqtt_topics))"
proof -
  have ok: "mk_room_registry small_registry = Inr small_registry" by code_simp
  have "\<exists>r\<in>set (rr_rooms small_registry). rm_key r = ''201''" by code_simp
  then obtain r where "r \<in> set (rr_rooms small_registry)" "rm_key r = ''201''" by blast
  then have "discovery_topic ''sensor'' ''room_201_last_intent_result'' \<in> (\<Union>r\<in>set (rr_rooms small_registry).
           {discovery_topic ''sensor'' (''room_'' @ rm_key r @ ''_last_intent_result''),
            discovery_topic ''binary_sensor'' (''room_'' @ rm_key r @ ''_reservation_active'')})"
    by (intro UN_I [of r]) simp_all
  then show ?thesis using ok unfolding dashboard_shows_what_is_announced [OF ok] by blast
qed

section \<open>Templates\<close>

text \<open>C26. The discovery documents and the published states agree on their fields, with one exception. When every
topic carries a state of the kind the service, its adapters and the entrances publish on it, a document of
the registry finds the field that its template reads in the state of its own topic, unless it is the
document that reads the reported mode of a room (\<^verbatim>\<open>hvac.mode\<close> of the reported state) and that room's report
leaves out the climate, as the schema allows and an adapter does for a unit that is offline; then, and only
then, the field is missing.\<close>

theorem discovery_reads_published_fields:
  assumes "\<And>r. r \<in> set (rr_rooms registry) \<Longrightarrow> published (room_pms_state t (rm_key r)) = pms_state_payload sv (st r) (c r)"
    and "\<And>r. r \<in> set (rr_rooms registry) \<Longrightarrow> published (room_intent_state_topic t (rm_key r)) = intent_payload (i r)"
    and "\<And>r. r \<in> set (rr_rooms registry) \<Longrightarrow>
      control_state_payload sv (rm_key r) now (s r) = (Inr (published (room_control_state t (rm_key r))), s' r)"
    and "\<And>r. r \<in> set (rr_rooms registry) \<Longrightarrow> published (room_reported_state t (rm_key r) ''g301'') = reported_payload (rep r)"
    and "\<And>r. r \<in> set (rr_rooms registry) \<Longrightarrow> published (room_intent_result t (rm_key r) ''g301'') = result_payload (er r)"
    and "\<And>e. e \<in> set (rr_entrances registry) \<Longrightarrow> published (entrance_adapter_state t (en_key e)) = entrance_payload (a e)"
    and "system_state ar w = (Inr (published (system_state_topic t)), w')"
  shows "list_all (\<lambda>doc. document_readable published doc
      \<longleftrightarrow> \<not> (\<exists>r \<in> set (rr_rooms registry). rr_hvac (rep r) = None \<and> reads_reported_mode t r doc))
    (map snd (discovery_documents registry t))"
proof -
  let ?Q = "\<lambda>doc. document_readable published doc
    \<or> (\<exists>r \<in> set (rr_rooms registry). rr_hvac (rep r) = None \<and> reads_reported_mode t r doc)"
  have "list_all ?Q (map snd (discovery_documents registry t))"
  proof (rule documents_readable)
    show "list_all ?Q (map snd (entrance_configs e t))" if "e \<in> set (rr_entrances registry)" for e
      using entrance_readable [where published = published, OF assms(6) [OF that]] by (rule list.pred_mono_strong) simp
    show "list_all ?Q (map snd (room_discovery_configs r t))" if "r \<in> set (rr_rooms registry)" for r
      using room_readable [where published = published, OF assms(1-5) [OF that]] by (rule list.pred_mono_strong) (use that in blast)
    show "list_all ?Q (map snd (system_discovery_configs t))"
      using system_readable [where published = published, OF assms(7)] by (rule list.pred_mono_strong) simp
  qed
  then show ?thesis by (rule list.pred_mono_strong) (auto dest: mode_unreadable [where published = published, OF _ assms(4)])
qed

definition demo_evaluation :: room_state_evaluation where
  "demo_evaluation =
     \<lparr>rs_room_key = Some ''201'', rs_phase = PH_VACANT, rs_booking = None, rs_needs_attention = False,
      rs_attention_reason = AR_NONE, rs_reason = ''vacant'', rs_effective_from = utc_at 0, rs_expires_at = None\<rparr>"

definition demo_report :: reported_room_state where
  "demo_report =
     \<lparr>rr_schema_version = 1, rr_room_key = ''201'', rr_adapter_key = ''g301'', rr_handled_components = [CO_HVAC],
      rr_intent_version = None, rr_online = True, rr_reported_at = Aware (utc_at 0),
      rr_hvac = Some \<lparr>rh_enabled = True, rh_mode = HV_HEAT, rh_target_temperature_c = None\<rparr>, rr_water_heater = None,
      rr_convectors = None, rr_ambient_temperature_c = None, rr_faults = [], rr_device_model = None,
      rr_firmware_version = None, rr_capability_profile = None, rr_last_successful_command_version = None,
      rr_local_change_detected = False, rr_raw_registers = None, rr_correlation_id = None\<rparr>"

definition demo_outcome :: intent_execution_result where
  "demo_outcome =
     \<lparr>er_schema_version = 1, er_room_key = ''201'', er_intent_version = 1, er_adapter_key = ''g301'',
      er_handled_components = [''hvac''], er_status = ES_APPLIED, er_message = None, er_applied_at = utc_at 0,
      er_register_writes = [], er_mismatches = [], er_correlation_id = UUID 1\<rparr>"

definition demo_adapter :: entrance_adapter_report where
  "demo_adapter =
     \<lparr>ea_schema_version = 1, ea_entrance_key = ''a-b'', ea_status = AS_IDLE, ea_adapter_online = True,
      ea_gateway_online = True, ea_room_mismatches = 0, ea_last_poll_at = None, ea_last_successful_poll_at = None,
      ea_gateway_latency_ms = None, ea_consecutive_failures = 0, ea_last_modbus_exception = None,
      ea_configured_slaves = 1, ea_online_slaves = 1, ea_offline_slaves = 0, ea_scan_duration_ms = None,
      ea_command_queue_depth = 0, ea_updated_at = Aware (utc_at 0)\<rparr>"

text \<open>What is on the topics of the small registry, given the state of the service.\<close>

definition demo_published :: "reported_hvac_state option \<Rightarrow> payload \<Rightarrow> string \<Rightarrow> payload" where
  "demo_published climate state topic =
     (let t = default_mqtt_topics in
      case map_of
        [(room_pms_state t ''201'', pms_state_payload demo_service demo_evaluation (UUID 0)),
         (room_intent_state_topic t ''201'', intent_payload (sample_intent heat_22)),
         (room_control_state t ''201'', default_control_state_payload demo_service ''201'' (utc_at 0)),
         (room_reported_state t ''201'' ''g301'', reported_payload (demo_report\<lparr>rr_hvac := climate\<rparr>)),
         (room_intent_result t ''201'' ''g301'', result_payload demo_outcome),
         (entrance_adapter_state t ''a-b'', entrance_payload demo_adapter)] topic of
        None \<Rightarrow> state | Some p \<Rightarrow> p)"

lemma small_registry_members:
  "r \<in> set (rr_rooms small_registry) \<Longrightarrow> rm_key r = ''201''"
  "e \<in> set (rr_entrances small_registry) \<Longrightarrow> en_key e = ''a-b''"
  by (auto simp: small_registry_def colliding_registry_def)

theorem discovery_reads_published_fields_witness:
  "\<forall>climate. \<exists>state. list_all (\<lambda>doc. document_readable (demo_published climate state) doc
       \<longleftrightarrow> \<not> (climate = None \<and> reads_reported_mode default_mqtt_topics (sample_room ''201'' None) doc))
     (map snd (discovery_documents small_registry default_mqtt_topics))"
proof
  fix climate
  have "is_Inr (fst (system_state api_runtime (aw_world (api_world_with []))))" by code_simp
  then obtain state w' where run: "system_state api_runtime (aw_world (api_world_with [])) = (Inr state, w')"
    by (cases "system_state api_runtime (aw_world (api_world_with []))") (auto simp: is_Inr_iff)
  have control: "control_state_payload demo_service ''201'' (utc_at 0) (new_session empty_database 0)
      = (Inr (default_control_state_payload demo_service ''201'' (utc_at 0)), new_session empty_database 0)"
    by (simp add: control_state_payload_def scalar_one_or_none_def scalars_def autoflush_def new_session_def empty_database_def bindE_def)
  have "list_all (\<lambda>doc. document_readable (demo_published climate state) doc
      \<longleftrightarrow> \<not> (\<exists>r \<in> set (rr_rooms small_registry). rr_hvac (demo_report\<lparr>rr_hvac := climate\<rparr>) = None
             \<and> reads_reported_mode default_mqtt_topics r doc))
     (map snd (discovery_documents small_registry default_mqtt_topics))"
    by (rule discovery_reads_published_fields [where sv = demo_service and st = "\<lambda>_. demo_evaluation" and c = "\<lambda>_. UUID 0"
          and i = "\<lambda>_. sample_intent heat_22" and now = "utc_at 0" and s = "\<lambda>_. new_session empty_database 0"
          and s' = "\<lambda>_. new_session empty_database 0" and rep = "\<lambda>_. demo_report\<lparr>rr_hvac := climate\<rparr>" and er = "\<lambda>_. demo_outcome"
          and a = "\<lambda>_. demo_adapter" and ar = api_runtime and w = "aw_world (api_world_with [])" and w' = w'])
      (auto simp: small_registry_members control run demo_published_def default_mqtt_topics_def
        room_pms_state_def room_intent_state_topic_def room_control_state_def room_reported_state_def
        room_intent_result_def entrance_adapter_state_def system_state_topic_def)
  moreover have "(\<exists>r \<in> set (rr_rooms small_registry). reads_reported_mode default_mqtt_topics r doc)
      \<longleftrightarrow> reads_reported_mode default_mqtt_topics (sample_room ''201'' None) doc" for doc
  proof -
    have "r \<in> set (rr_rooms small_registry) \<Longrightarrow> reads_reported_mode default_mqtt_topics r doc
        = reads_reported_mode default_mqtt_topics (sample_room ''201'' None) doc" for r
      by (simp add: reads_reported_mode_def small_registry_members sample_room_def)
    moreover have "\<exists>r. r \<in> set (rr_rooms small_registry)" by (auto simp: small_registry_def colliding_registry_def)
    ultimately show ?thesis by blast
  qed
  ultimately show "\<exists>state. list_all (\<lambda>doc. document_readable (demo_published climate state) doc
       \<longleftrightarrow> \<not> (climate = None \<and> reads_reported_mode default_mqtt_topics (sample_room ''201'' None) doc))
     (map snd (discovery_documents small_registry default_mqtt_topics))"
    by (intro exI [of _ state]) simp
qed

end
