(* ===== verification/Runtime_Theorems.thy ===== *)
theory Runtime_Theorems
  imports Lifecycle Control_Theorems Client_Theorems
begin

text \<open>
  The properties of the runtime: the invariants of every run of its workers, commands and
  callbacks, the health its workers report, and the way of a command's message from its topic to
  the room it is for.
\<close>

section \<open>Runs of the runtime\<close>

text \<open>In every run of the runtime that starts with an empty database, the versions of the intents
published for a room of the registry increase strictly, through policy rounds, polls that are stored
after other rounds, panel commands with the evaluation that follows them, outbox passes, reconnections
and failures of any of these, as long as the times that the database operations carry grow. The
adapters' rejection of old versions then never rejects a newer state.\<close>

theorem runtime_versions_increase:
  assumes "runtime_run ar (w0, None) ts (w, p)" and "rw_db w0 = empty_database"
    and "sorted_wrt (earlier ar) ts" and "mk_room_registry (dv_registry (ar_service ar)) = Inr registry"
    and "rm \<in> set (rr_rooms registry)"
  shows "sorted_wrt (<) (published_versions (dv_topics (ar_service ar)) (rm_key rm) (rw_db w))"
proof -
  have registry: "registry = dv_registry (ar_service ar)" "keyed ar"
    using assms(4) by (simp_all add: mk_room_registry_Inr registry_ok_def keyed_def)
  have "versions_inv (ar_service ar) empty_database" "states_before (ar_service ar) empty_database t" for t
    by (rule empty_versions_inv) (simp add: states_before_def empty_database_def)
  then have "versions.holds ar w ts" using versions.run_holds [OF assms(1,3)] assms(2) by simp
  then have "versions_inv (ar_service ar) (rw_db w)" using registry(2) unfolding versions.holds_def by blast
  with assms(5) registry(1) show ?thesis by (simp add: room_versions_sorted)
qed

definition demo_hotel :: room_registry where
  "demo_hotel = demo_registry
     \<lparr>rr_entrances := [\<lparr>en_key = ''entrance_a'', en_name = ''A'', en_gateway_host = None, en_gateway_port = None,
                       en_enabled = True\<rparr>]\<rparr>"

definition demo_runtime :: "(int, unit) app_runtime" where
  "demo_runtime =
     \<lparr>ar_settings = default_settings, ar_service = demo_service\<lparr>dv_registry := demo_hotel\<rparr>, ar_clock = None, ar_mqtt = None,
      ar_now = (\<lambda>c. (utc_at c, c + minute_us)), ar_uniform = (\<lambda>b r. (0, r))\<rparr>"

definition demo_world :: "(int, unit) runtime_world" where
  "demo_world =
     \<lparr>rw_db = empty_database, rw_draws = 0, rw_io = 12 * day_us, rw_random = (), rw_health = new_health True\<rparr>"

text \<open>A policy round and a command.\<close>

definition demo_after_policy :: "(int, unit) runtime_world" where
  "demo_after_policy = snd (periodic_round ''policy'' (run_policy_once demo_runtime None) demo_world)"

definition demo_after_command :: "(int, unit) runtime_world" where
  "demo_after_command = snd (handle_control_message demo_runtime ''101'' ''mode'' ''off'' demo_after_policy)"

lemma demo_runs:
  "runtime_run demo_runtime (demo_world, None)
     [time_read demo_runtime demo_world, time_read demo_runtime demo_after_policy] (demo_after_command, None)"
proof -
  have 1: "runtime_step demo_runtime (demo_world, None) (Some (time_read demo_runtime demo_world)) (demo_after_policy, None)"
    unfolding demo_after_policy_def by (rule runtime_step.policy_run) (rule prod.collapse [symmetric])
  have 2: "runtime_step demo_runtime (demo_after_policy, None) (Some (time_read demo_runtime demo_after_policy)) (demo_after_command, None)"
    unfolding demo_after_command_def by (rule runtime_step.commanded) (rule prod.collapse [symmetric])
  from run_step [OF run_step [OF run_refl 1] 2] show ?thesis by simp
qed

lemma demo_policy_evaluated:
  "case (demo_after_policy, ()) of (w, _) \<Rightarrow> rw_io w = 12 * day_us + minute_us
     \<and> (case db_overrides (rw_db w) of [] \<Rightarrow> True | _ \<Rightarrow> False)"
  by code_simp

lemma demo_policy_facts:
  "rw_io demo_after_policy = 12 * day_us + minute_us" "db_overrides (rw_db demo_after_policy) = []"
  using demo_policy_evaluated by (simp_all split: list.splits)

lemma demo_times_grow:
  "sorted_wrt (earlier demo_runtime) [time_read demo_runtime demo_world, time_read demo_runtime demo_after_policy]"
proof -
  have "rw_io demo_world < rw_io demo_after_policy" by (simp add: demo_policy_facts demo_world_def)
  then show ?thesis
    by (simp add: time_read_def demo_runtime_def earlier_def demo_service_def instant_astimezone fixed_tzdb_ok)
qed

theorem runtime_versions_increase_witness:
  "sorted_wrt (<) (published_versions default_mqtt_topics ''101'' (rw_db demo_after_command))"
proof -
  note demo_times_grow
  moreover have "mk_room_registry (dv_registry (ar_service demo_runtime)) = Inr demo_hotel" by code_simp
  moreover have "rw_db demo_world = empty_database" by (simp add: demo_world_def)
  moreover have "sample_room ''101'' None \<in> set (rr_rooms demo_hotel)" by (simp add: demo_hotel_def demo_registry_def)
  ultimately have "sorted_wrt (<) (published_versions (dv_topics (ar_service demo_runtime)) (rm_key (sample_room ''101'' None))
      (rw_db demo_after_command))"
    using runtime_versions_increase [OF demo_runs] by blast
  then show ?thesis by (simp add: demo_runtime_def demo_service_def sample_room_def)
qed

text \<open>No order of polls, policy rounds, commands, outbox passes and reconnections, whatever their
times, leaves an override row that stops an evaluation: in every run from an empty database the row
in force of a room reads back and the room's intent is derived from it and passes every validator,
provided the room's key is not empty and the bookings last at least one night. A panel cannot wedge the recalculation of the hotel.\<close>

theorem runtime_overrides_never_break_evaluation:
  assumes "runtime_run ar (w0, None) ts (w, p)" and "rw_db w0 = empty_database"
    and "policy_times_ok (dv_policy (ar_service ar))" and "rm_key rm \<noteq> []"
    and "\<forall>b \<in> set (lb_bookings loaded). nb_arrival_date b < nb_departure_date b"
  shows "\<exists>ov intent. active_override (ar_service ar) (rw_db w) (room_override_row (ar_service ar) (rw_db w) i)
             (hotel_time_of (ar_service ar) now) = Inr ov
    \<and> room_intent (ar_service ar) rm loaded now ov c = Inr (Some intent) \<and> intent_ok (dv_tz (ar_service ar)) intent"
proof -
  have "keys_ok empty_database \<and> overrides_ok empty_database"
    by (rule conjI [OF keys_ok_empty]) (simp add: overrides_ok_def empty_database_def)
  then have "overrides.holds w ts" 
    using overrides.run_holds [OF assms(1)] assms(2) by (simp add: sorted_wrt_iff_nth_less)
  then have "overrides_ok (rw_db w)" unfolding overrides.holds_def by blast
  from evaluates_with_stored_override [OF this assms(3-5)] show ?thesis .
qed

theorem runtime_overrides_never_break_evaluation_witness:
  "\<exists>ov intent. active_override (ar_service demo_runtime) (rw_db demo_after_command)
        (room_override_row (ar_service demo_runtime) (rw_db demo_after_command) (UUID 2)) (hotel_time_of (ar_service demo_runtime) (utc_at (13 * day_us))) = Inr ov
    \<and> room_intent (ar_service demo_runtime) (sample_room ''101'' None) \<lparr>lb_bookings = [demo_guest], lb_ids_by_clock_booking_id = []\<rparr>
        (utc_at (13 * day_us)) ov (UUID 9) = Inr (Some intent)"
proof -
  have "policy_times_ok (dv_policy (ar_service demo_runtime))"
    by (simp add: demo_runtime_def demo_service_def policy_times_ok_def sample_defs)
  moreover have "rm_key (sample_room ''101'' None) \<noteq> []" by (simp add: sample_room_def)
  moreover have "\<forall>b \<in> set (lb_bookings \<lparr>lb_bookings = [demo_guest], lb_ids_by_clock_booking_id = []\<rparr>).
      nb_arrival_date b < nb_departure_date b"
    by (simp add: demo_guest_def sample_booking_def)
  ultimately show ?thesis
    using runtime_overrides_never_break_evaluation [OF demo_runs, of "sample_room ''101'' None"
        "\<lparr>lb_bookings = [demo_guest], lb_ids_by_clock_booking_id = []\<rparr>"]
    by (simp add: demo_world_def) blast
qed

section \<open>Health\<close>

text \<open>C20. A round of a worker never lets an exception out, so the worker goes on, and its entry in the
health afterwards is the outcome of this round: the class name of the exception that its callback
raised, or none when it returned, while the entries of the other workers stay as the callback left
them. A round that ends with the service ready therefore returned.\<close>

theorem worker_rounds_report:
  assumes "periodic_round nm callback w = (r, w')"
  shows "r = Inr ()
    \<and> map_of (rh_worker_errors (rw_health w')) nm
        = (case fst (callback w) of Inl e \<Rightarrow> Some (exc_class_name e) | Inr _ \<Rightarrow> None)
    \<and> (\<forall>other. other \<noteq> nm \<longrightarrow> map_of (rh_worker_errors (rw_health w')) other
        = map_of (rh_worker_errors (rw_health (snd (callback w)))) other)
    \<and> (ready (rw_health w') \<longrightarrow> is_Inr (fst (callback w)))"
proof (cases "callback w")
  case (Pair x w1)
  have del: "map_of (AList.delete nm al) other = (if other = nm then None else map_of al other)" for al :: "(string \<times> string) list" and other
    by (simp add: delete_conv')
  show ?thesis
    using assms Pair
    by (cases x) (auto simp: periodic_round_def bindE_attemptE record_outcome_def set_worker_error_def
        pop_worker_error_def update_conv' del ready_def)
qed

theorem worker_rounds_report_witness:
  "map_of (rh_worker_errors (rw_health (snd (periodic_round ''clock-sync'' (raise TimeoutError) demo_world)))) ''clock-sync''
     = Some ''TimeoutError''"
  using worker_rounds_report [of "''clock-sync''" "raise TimeoutError" demo_world] by (metis exc_class_name.simps(9) fst_conv prod.collapse raise_def sum.case(1))
section \<open>The commands of Home Assistant\<close>

definition control_suffixes :: "(string \<times> string) list" where
  "control_suffixes =
     [(''/control/mode/set'', ''mode''), (''/control/hvac-mode/set'', ''hvac-mode''),
      (''/control/temperature/set'', ''temperature''), (''/control/duration/set'', ''duration''),
      (''/control/water-heater/set'', ''water-heater''),
      (''/control/return-to-automatic/set'', ''return-to-automatic'')]"

lemma control_suffixes_known: "fst ` set control_suffixes \<subseteq> set room_suffixes" "distinct (map fst control_suffixes)"
  by (auto simp: control_suffixes_def room_suffixes_def)

lemma update_fresh: "k \<notin> fst ` set al \<Longrightarrow> AList.update k v al = al @ [(k, v)]"
  by (induction al) auto

lemma fold_update_fresh:
  "distinct (map fst xs) \<Longrightarrow> fst ` set xs \<inter> fst ` set al = {}
     \<Longrightarrow> fold (\<lambda>(k, v). AList.update k v) xs al = al @ xs"
proof (induction xs arbitrary: al)
  case (Cons x xs)
  then show ?case by (cases x) (auto simp: update_fresh)
qed simp

lemma control_topic_eq:
  assumes "e \<in> set control_suffixes" "e' \<in> set control_suffixes"
  shows "room_topic t (fst e) k = room_topic t (fst e') k' \<longleftrightarrow> k = k' \<and> e = e'"
proof -
  have "fst e \<in> set room_suffixes" "fst e' \<in> set room_suffixes" using assms control_suffixes_known(1) by auto
  moreover have "fst e = fst e' \<Longrightarrow> e = e'"
    using assms control_suffixes_known(2) by (metis eq_key_imp_eq_value prod.collapse)
  ultimately show ?thesis by (auto simp: room_topic_eq)
qed

lemma room_subscriptions_list:
  "room_subscriptions t k = map (\<lambda>(s, f). (room_topic t s k, f)) control_suffixes"
proof -
  have "inj_on (\<lambda>e. room_topic t (fst e) k) (set control_suffixes)" by (simp add: inj_on_def control_topic_eq)
  moreover have "distinct control_suffixes" by (simp add: control_suffixes_def)
  ultimately have "distinct (map fst (map (\<lambda>(s, f). (room_topic t s k, f)) control_suffixes))"
    by (simp add: distinct_map comp_def split_def)
  from fold_update_fresh [OF this, of "[]"] show ?thesis
    by (simp add: room_subscriptions_def room_topics control_suffixes_def)
qed

lemma control_subscriptions_topics:
  "map fst (control_subscriptions registry t)
     = concat (map (\<lambda>k. map (\<lambda>sf. room_topic t (fst sf) k) control_suffixes) (map rm_key (rr_rooms registry)))"
  by (simp add: control_subscriptions_def room_subscriptions_list map_concat comp_def split_def)

lemma control_topics_distinct:
  assumes "distinct (map rm_key (rr_rooms registry))"
  shows "distinct (map fst (control_subscriptions registry t))"
proof -
  have "distinct control_suffixes" "control_suffixes \<noteq> []" by (simp_all add: control_suffixes_def)
  from distinct_concat_map [of control_suffixes "\<lambda>k sf. room_topic t (fst sf) k", OF control_topic_eq this] assms
  show ?thesis unfolding control_subscriptions_topics by blast
qed

lemma subscribe_handlers_run:
  assumes "subscribe_handlers pa hs mc = (Inr (), mc')"
  shows "mm_handlers mc' = fold (\<lambda>(k, v). AList.update k v) hs (mm_handlers mc)
    \<and> mm_executor_open mc' = mm_executor_open mc \<and> mm_jobs mc' = mm_jobs mc"
  using assms
proof (induction hs arbitrary: mc)
  case (Cons h hs)
  obtain topic f where h: "h = (topic, f)" by fastforce
  with Cons.prems obtain mc1 where 1: "client_subscribe pa topic f mc = (Inr (), mc1)"
    and 2: "subscribe_handlers pa hs mc1 = (Inr (), mc')" by (auto elim!: bindE_Inr_E)
  have "mm_handlers mc1 = AList.update topic f (mm_handlers mc) \<and> mm_executor_open mc1 = mm_executor_open mc
      \<and> mm_jobs mc1 = mm_jobs mc"
    using 1 by (cases "mm_connected mc") (auto simp: client_subscribe_def bindE_def on_paho_def split: prod.splits sum.splits)
  with Cons.IH [OF 2] h show ?case by simp
qed simp

lemma filter_one_key:
  "distinct (map fst al) \<Longrightarrow> (k, v) \<in> set al \<Longrightarrow> filter (\<lambda>(s, h). s = k) al = [(k, v)]"
proof (induction al)
  case (Cons a al)
  show ?case
  proof (cases "fst a = k")
    case True
    with Cons.prems have "a = (k, v)" "k \<notin> fst ` set al" by (auto simp: image_iff)
    then show ?thesis by (force simp: filter_empty_conv image_iff)
  next
    case False
    with Cons show ?thesis by auto
  qed
qed simp

text \<open>No wildcard of a topic filter.\<close>

definition plain_topic :: "string \<Rightarrow> bool" where
  "plain_topic s \<longleftrightarrow> CHR ''+'' \<notin> set s \<and> CHR ''#'' \<notin> set s"

text \<open>C21. After the runtime has subscribed the command topics of a registry, a message on such a topic
submits exactly one job, the one for the topic's room and field, and that job handles the command of
this room and suppresses what it raises, whatever other rooms there are and whatever characters,
slashes included, their keys hold; wildcards excepted. No other room is commanded by it.\<close>

theorem command_reaches_its_room:
  assumes "mk_room_registry reg0 = Inr registry"
    and "subscribe_handlers pa (control_subscriptions registry t) (new_managed_client c) = (Inr (), mc)"
    and "\<And>sub topic. plain_topic sub \<Longrightarrow> pa_matches pa sub topic = (sub = topic)"
    and "plain_topic (mt_prefix t)" and "\<forall>r \<in> set (rr_rooms registry). plain_topic (rm_key r)"
    and "r \<in> set (rr_rooms registry)" and "(topic, field) \<in> set (room_subscriptions t (rm_key r))"
  shows "on_message pa topic payload mc
      = (Inr (), mc\<lparr>mm_jobs := mm_jobs mc @ [JobMessage (rm_key r, field) topic payload]\<rparr>)
    \<and> run_job ar (JobMessage (rm_key r, field) topic payload) = safe_call (handle_control_message ar (rm_key r) field payload)"
proof -
  let ?subs = "control_subscriptions registry t"
  have "distinct (map rm_key (rr_rooms registry))" using assms(1) by (simp add: mk_room_registry_Inr registry_ok_def)
  then have dist: "distinct (map fst ?subs)" by (rule control_topics_distinct)
  from subscribe_handlers_run [OF assms(2)] fold_update_fresh [OF dist, of "[]"]
  have mc: "mm_handlers mc = ?subs" "mm_executor_open mc" by (simp_all add: new_managed_client_def)
  have plain: "plain_topic s" if "(s, h) \<in> set ?subs" for s h
  proof -
    have "s \<in> set (map fst ?subs)" using that by force
    then obtain r' sf where "r' \<in> set (rr_rooms registry)" "sf \<in> set control_suffixes" "s = room_topic t (fst sf) (rm_key r')"
      unfolding control_subscriptions_topics by auto
    then show ?thesis
      using assms(4,5) by (auto simp: plain_topic_def room_topic_def control_suffixes_def)
  qed
  have "filter (\<lambda>(s, h). pa_matches pa s topic) ?subs = filter (\<lambda>(s, h). s = topic) ?subs"
    using plain assms(3) by (intro filter_cong) auto
  also have "\<dots> = [(topic, rm_key r, field)]"
    by (rule filter_one_key [OF dist]) (use assms(6,7) in \<open>auto simp: control_subscriptions_def\<close>)
  finally show ?thesis using dispatch_run [OF mc(2)] mc(1) by (simp add: on_message_def control_handler_def)
qed

definition demo_paho :: "(string \<times> string, string list) paho" where
  "demo_paho =
     \<lparr>pa_connect = (\<lambda>_ _. ret ()), pa_loop_start = ret (), pa_loop_stop = ret (), pa_disconnect = ret (),
      pa_subscribe = (\<lambda>t c. (Inr (), t # c)), pa_publish = (\<lambda>_ _ _ _. ret None), pa_matches = (=),
      pa_wait = (\<lambda>_ mc. (True, mc))\<rparr>"

theorem command_reaches_its_room_witness:
  "\<exists>mc. subscribe_handlers demo_paho (control_subscriptions demo_hotel default_mqtt_topics) (new_managed_client []) = (Inr (), mc)
    \<and> mm_jobs (snd (on_message demo_paho ''hotel/v1/rooms/101/control/mode/set'' ''off'' mc))
        = [JobMessage (''101'', ''mode'') ''hotel/v1/rooms/101/control/mode/set'' ''off'']"
proof -
  have s: "fst (subscribe_handlers demo_paho (control_subscriptions demo_hotel default_mqtt_topics) (new_managed_client [])) = Inr ()"
    by code_simp
  then obtain mc where mc: "subscribe_handlers demo_paho (control_subscriptions demo_hotel default_mqtt_topics) (new_managed_client []) = (Inr (), mc)"
    by (metis prod.collapse)
  have registry: "mk_room_registry demo_hotel = Inr demo_hotel" by code_simp
  have plain: "plain_topic (mt_prefix default_mqtt_topics)" "\<forall>r \<in> set (rr_rooms demo_hotel). plain_topic (rm_key r)"
    unfolding plain_topic_def by code_simp+
  have topic: "(''hotel/v1/rooms/101/control/mode/set'', ''mode'')
      \<in> set (room_subscriptions default_mqtt_topics (rm_key (sample_room ''101'' None)))" by code_simp
  have room: "sample_room ''101'' None \<in> set (rr_rooms demo_hotel)" by (simp add: demo_hotel_def demo_registry_def)
  have jobs: "mm_jobs mc = []" using subscribe_handlers_run [OF mc] by (simp add: new_managed_client_def)
  have "on_message demo_paho ''hotel/v1/rooms/101/control/mode/set'' ''off'' mc
      = (Inr (), mc\<lparr>mm_jobs := mm_jobs mc @ [JobMessage (rm_key (sample_room ''101'' None), ''mode'')
          ''hotel/v1/rooms/101/control/mode/set'' ''off'']\<rparr>)"
    using command_reaches_its_room [OF registry mc _ plain room topic, of "''off''" demo_runtime] by (simp add: demo_paho_def)
  with mc jobs show ?thesis by (simp add: sample_room_def)
qed

text \<open>C22. Whenever the MQTT client is connected, the broker holds a subscription for every topic that has
a handler, through any order of connections, failed connections, losses of the connection, messages
and new subscriptions: each connection subscribes all of them again, so a broker that forgot them
loses no command topic for longer than the connection is down. A subscription that is asked for while the
client is connected is taken to reach the broker (hypothesis subscribing on the library's client).\<close>

theorem connected_client_is_subscribed:
  assumes "(client_step pa subs)\<^sup>*\<^sup>* (new_managed_client c) mc" and "subscribing pa subs"
    and "mm_connected mc" and "(topic, h) \<in> set (mm_handlers mc)"
  shows "topic \<in> subs (mm_paho mc)"
proof -
  from assms(1) have "all_subscribed subs mc"
    by (induction rule: rtranclp_induct)
      (auto simp: all_subscribed_def new_managed_client_def dest: client_step_subscribed [OF assms(2), unfolded all_subscribed_def])
  with assms(3,4) show ?thesis by (force simp: all_subscribed_def)
qed

theorem connected_client_is_subscribed_witness:
  "''t'' \<in> set (mm_paho (snd (on_connect demo_paho False None
      (snd (client_subscribe demo_paho ''t'' (''101'', ''mode'') (new_managed_client []))))))"
proof -
  let ?m0 = "new_managed_client [] :: (string \<times> string, string list) managed_client"
  let ?m1 = "snd (client_subscribe demo_paho ''t'' (''101'', ''mode'') ?m0)"
  let ?m2 = "snd (on_connect demo_paho False None ?m1)"
  have "client_subscribe demo_paho ''t'' (''101'', ''mode'') ?m0 = (Inr (), ?m1)"
    by (simp add: client_subscribe_def new_managed_client_def)
  then have "client_step demo_paho set ?m0 ?m1" by (rule subscribe_step)
  moreover have "client_step demo_paho set ?m1 ?m2" by (rule connect_step) (rule prod.collapse [symmetric])
  ultimately have "(client_step demo_paho set)\<^sup>*\<^sup>* ?m0 ?m2" by simp
  moreover have "subscribing demo_paho set" by (auto simp: subscribing_def demo_paho_def)
  moreover have "mm_connected ?m2" "(''t'', ''101'', ''mode'') \<in> set (mm_handlers ?m2)" by code_simp+
  ultimately show ?thesis by (rule connected_client_is_subscribed)
qed
end
