(* ===== verification/Service_Theorems.thy ===== *)
theory Service_Theorems
  imports Runtime_Theorems Service_Runs
begin

text \<open>
  The invariants of the runtime in every run of the whole service, with the requests of the HTTP
  interface and the two transactions of each command as steps of their own.
\<close>

section \<open>Versions\<close>

text \<open>What the versions' invariant says of the database a run has reached, for a time later than all of the run.\<close>

lemma service_versions_inv:
  assumes "service_run render ar s0 ts s" and "rw_db (sn_world s0) = empty_database"
    and "sorted_wrt (earlier ar) (ts @ [t])" and "mk_room_registry (dv_registry (ar_service ar)) = Inr registry"
  shows "registry = dv_registry (ar_service ar)" "distinct (map rm_key (rr_rooms registry))"
    and "versions_inv (ar_service ar) (rw_db (sn_world s))" "states_before (ar_service ar) (rw_db (sn_world s)) (utc (ar_service ar) t)"
proof -
  show registry: "registry = dv_registry (ar_service ar)" "distinct (map rm_key (rr_rooms registry))"
    using assms(4) by (simp_all add: mk_room_registry_Inr registry_ok_def)
  have "versions_inv (ar_service ar) empty_database" "states_before (ar_service ar) empty_database t" for t
    by (rule empty_versions_inv) (simp add: states_before_def empty_database_def)
  then have "versions.holds ar (sn_world s) ts"
    using versions.service_run_holds [OF assms(1)] assms(2,3) by (simp add: sorted_wrt_append)
  moreover have "\<forall>t0 \<in> set ts. earlier ar t0 t" using assms(3) by (simp add: sorted_wrt_append)
  moreover have "keyed ar" using registry by (simp add: keyed_def)
  ultimately show "versions_inv (ar_service ar) (rw_db (sn_world s))"
    "states_before (ar_service ar) (rw_db (sn_world s)) (utc (ar_service ar) t)"
    unfolding versions.holds_def by blast+
qed

text \<open>C7. In every run of the service that starts with an empty database, the versions of the intents
published for a room of the registry increase strictly: through policy rounds, polls that are stored
after other rounds, panel commands whose evaluation comes after other steps, requests of any kind,
outbox passes, reconnections and failures of any of these, as long as the times that the evaluations
carry grow. The adapters' rejection of old versions then never rejects a newer state.\<close>

theorem service_versions_increase:
  assumes "service_run render ar s0 ts s" and "rw_db (sn_world s0) = empty_database"
    and "sorted_wrt (earlier ar) ts" and "mk_room_registry (dv_registry (ar_service ar)) = Inr registry"
    and "rm \<in> set (rr_rooms registry)"
  shows "sorted_wrt (<) (published_versions (dv_topics (ar_service ar)) (rm_key rm) (rw_db (sn_world s)))"
proof -
  have registry: "registry = dv_registry (ar_service ar)" "keyed ar"
    using assms(4) by (simp_all add: mk_room_registry_Inr registry_ok_def keyed_def)
  have "versions_inv (ar_service ar) empty_database" "states_before (ar_service ar) empty_database t" for t
    by (rule empty_versions_inv) (simp add: states_before_def empty_database_def)
  then have "versions.holds ar (sn_world s) ts" using versions.service_run_holds [OF assms(1,3)] assms(2) by simp
  then have "versions_inv (ar_service ar) (rw_db (sn_world s))" using registry(2) unfolding versions.holds_def by blast
  with assms(5) registry(1) show ?thesis by (simp add: room_versions_sorted)
qed

definition demo_start :: "(int, unit) service_state" where
  "demo_start = \<lparr>sn_api = \<lparr>aw_world = demo_world, aw_gauges = new_gauges\<rparr>, sn_poll = None, sn_commands = []\<rparr>"

lemma demo_start_world: "sn_world demo_start = demo_world"
  by (simp add: demo_start_def)

text \<open>A policy round, a command and a request for the rooms.\<close>

lemma demo_service_runs:
  "\<exists>s. service_run (\<lambda>_. []) demo_runtime demo_start
     [time_read demo_runtime demo_world, time_read demo_runtime demo_after_policy] s \<and> sn_world s = demo_after_command"
proof -
  from runtime_runs_serve [OF demo_runs, of "\<lambda>_. []" new_gauges] obtain s where
    run: "service_run (\<lambda>_. []) demo_runtime demo_start
       [time_read demo_runtime demo_world, time_read demo_runtime demo_after_policy] s" and s: "sn_world s = demo_after_command"
    by (auto simp: demo_start_def)
  then show ?thesis by blast
qed

lemma demo_hotel_valid: "mk_room_registry (dv_registry (ar_service demo_runtime)) = Inr demo_hotel"
  by code_simp

theorem service_versions_increase_witness:
  "\<exists>s. sn_world s = demo_after_command
     \<and> sorted_wrt (<) (published_versions default_mqtt_topics ''101'' (rw_db (sn_world s)))"
proof -
  from demo_service_runs obtain s where run: "service_run (\<lambda>_. []) demo_runtime demo_start
       [time_read demo_runtime demo_world, time_read demo_runtime demo_after_policy] s" and s: "sn_world s = demo_after_command"
    by blast
  have "rw_db (sn_world demo_start) = empty_database" by (simp add: demo_start_def demo_world_def)
  moreover have "sample_room ''101'' None \<in> set (rr_rooms demo_hotel)" by (simp add: demo_hotel_def demo_registry_def)
  ultimately have "sorted_wrt (<) (published_versions (dv_topics (ar_service demo_runtime)) (rm_key (sample_room ''101'' None))
      (rw_db (sn_world s)))"
    using service_versions_increase [OF run _ demo_times_grow demo_hotel_valid] by blast
  with s show ?thesis by (auto simp: demo_runtime_def demo_service_def sample_room_def)
qed

section \<open>Overrides\<close>

text \<open>C19. No order of polls, policy rounds, transactions of commands, requests, outbox passes and
reconnections, whatever their times, leaves an override row that stops an evaluation: in every run
of the service from an empty database the row in force of a room reads back and the room's intent is
derived from it and passes every validator, provided the room's key is not empty and the bookings last
at least one night. A panel cannot wedge the recalculation of the hotel.\<close>

theorem service_overrides_never_break_evaluation:
  assumes "service_run render ar s0 ts s" and "rw_db (sn_world s0) = empty_database"
    and "policy_times_ok (dv_policy (ar_service ar))" and "rm_key rm \<noteq> []"
    and "\<forall>b \<in> set (lb_bookings loaded). nb_arrival_date b < nb_departure_date b"
  shows "\<exists>ov intent. active_override (ar_service ar) (rw_db (sn_world s)) (room_override_row (ar_service ar) (rw_db (sn_world s)) i)
             (hotel_time_of (ar_service ar) now) = Inr ov
    \<and> room_intent (ar_service ar) rm loaded now ov c = Inr (Some intent) \<and> intent_ok (dv_tz (ar_service ar)) intent"
proof -
  have "keys_ok empty_database \<and> overrides_ok empty_database"
    by (rule conjI [OF keys_ok_empty]) (simp add: overrides_ok_def empty_database_def)
  then have "overrides.holds (sn_world s) ts"
    using overrides.service_run_holds [OF assms(1)] assms(2) by (simp add: sorted_wrt_iff_nth_less)
  then have "overrides_ok (rw_db (sn_world s))" unfolding overrides.holds_def by blast
  from evaluates_with_stored_override [OF this assms(3-5)] show ?thesis .
qed

theorem service_overrides_never_break_evaluation_witness:
  "\<exists>s ov intent. sn_world s = demo_after_command
    \<and> active_override (ar_service demo_runtime) (rw_db (sn_world s))
        (room_override_row (ar_service demo_runtime) (rw_db (sn_world s)) (UUID 2)) (hotel_time_of (ar_service demo_runtime) (utc_at (13 * day_us))) = Inr ov
    \<and> room_intent (ar_service demo_runtime) (sample_room ''101'' None) \<lparr>lb_bookings = [demo_guest], lb_ids_by_clock_booking_id = []\<rparr>
        (utc_at (13 * day_us)) ov (UUID 9) = Inr (Some intent)"
proof -
  from demo_service_runs obtain s where run: "service_run (\<lambda>_. []) demo_runtime demo_start
       [time_read demo_runtime demo_world, time_read demo_runtime demo_after_policy] s" and s: "sn_world s = demo_after_command"
    by blast
  have "rw_db (sn_world demo_start) = empty_database" by (simp add: demo_start_def demo_world_def)
  moreover have "policy_times_ok (dv_policy (ar_service demo_runtime))"
    by (simp add: demo_runtime_def demo_service_def policy_times_ok_def sample_defs)
  moreover have "rm_key (sample_room ''101'' None) \<noteq> []" by (simp add: sample_room_def)
  moreover have "\<forall>b \<in> set (lb_bookings \<lparr>lb_bookings = [demo_guest], lb_ids_by_clock_booking_id = []\<rparr>).
      nb_arrival_date b < nb_departure_date b"
    by (simp add: demo_guest_def sample_booking_def)
  ultimately show ?thesis
    using service_overrides_never_break_evaluation [OF run, of "sample_room ''101'' None"
        "\<lparr>lb_bookings = [demo_guest], lb_ids_by_clock_booking_id = []\<rparr>"] s
    by blast
qed

end
