(* ===== verification/Published_Decisions.thy ===== *)
theory Published_Decisions
  imports Service_Theorems
begin

text \<open>
  What the evaluation promises of the messages: after an evaluation of a room, the messages last
  published on its topics show the decision over the rows that the evaluation read. The decision is
  a function of those rows; the invariant of the runs carries what earlier evaluations have published.
\<close>

section \<open>What the digest covers\<close>

text \<open>
  The digest is taken of all that the messages say but the time they are effective from, the
  correlation id and the version: two decisions with the same digested text have the same messages
  up to these.
\<close>

lemma json_opt_eq:
  assumes "json_opt (\<lambda>x. JDict (f x)) a = json_opt (\<lambda>x. JDict (f x)) b" and "\<And>x y. f x = f y \<Longrightarrow> g x = g y"
  shows "json_opt g a = json_opt g b"
proof (cases a)
  case None
  with assms(1) show ?thesis by (cases b) (simp_all add: json_opt_def)
next
  case (Some x)
  with assms(1) obtain y where "b = Some y" "f x = f y" by (cases b) (simp_all add: json_opt_def)
  with Some show ?thesis by (simp add: json_opt_def assms(2) [of x y])
qed

lemma digest_determines_messages:
  assumes "room_state_hash_payload sv st intent = room_state_hash_payload sv st' intent'"
  shows "dict_pop ''effective_from'' (pms_state_payload sv st c) = dict_pop ''effective_from'' (pms_state_payload sv st' c)"
    and "map_option (\<lambda>i. dict_pop ''effective_from'' (intent_payload (i\<lparr>di_intent_version := v, di_correlation_id := c\<rparr>))) intent
      = map_option (\<lambda>i. dict_pop ''effective_from'' (intent_payload (i\<lparr>di_intent_version := v, di_correlation_id := c\<rparr>))) intent'"
proof -
  have eq: "json_opt JStr (rs_room_key st) = json_opt JStr (rs_room_key st')"
    "automation_phase_value (rs_phase st) = automation_phase_value (rs_phase st')"
    "json_opt (\<lambda>b. JDict (booking_hash_payload b)) (rs_booking st) = json_opt (\<lambda>b. JDict (booking_hash_payload b)) (rs_booking st')"
    "rs_needs_attention st = rs_needs_attention st'"
    "attention_reason_value (rs_attention_reason st) = attention_reason_value (rs_attention_reason st')"
    "rs_reason st = rs_reason st'"
    "json_opt (\<lambda>t. JStr (isoformat (dv_tz sv) t)) (rs_expires_at st) = json_opt (\<lambda>t. JStr (isoformat (dv_tz sv) t)) (rs_expires_at st')"
    "json_opt (\<lambda>i. JDict (dict_pop ''effective_from'' (stable_payload i))) intent
      = json_opt (\<lambda>i. JDict (dict_pop ''effective_from'' (stable_payload i))) intent'"
    using assms by (simp_all add: room_state_hash_payload_def)
  have booking: "JStr (booking_status_value (nb_booking_status b)) = JStr (booking_status_value (nb_booking_status b'))"
    "JStr (nb_clock_booking_id b) = JStr (nb_clock_booking_id b')"
    "JStr (date_iso (nb_arrival_date b)) = JStr (date_iso (nb_arrival_date b'))"
    "JStr (date_iso (nb_departure_date b)) = JStr (date_iso (nb_departure_date b'))"
    if "booking_hash_payload b = booking_hash_payload b'" for b b'
    using that by (simp_all add: booking_hash_payload_def)
  note shown = json_opt_eq [OF eq(3) booking(1)] json_opt_eq [OF eq(3) booking(2)] json_opt_eq [OF eq(3) booking(3)]
    json_opt_eq [OF eq(3) booking(4)]
  show "dict_pop ''effective_from'' (pms_state_payload sv st c) = dict_pop ''effective_from'' (pms_state_payload sv st' c)"
    by (simp add: pms_state_payload_def dict_pop_def Let_def shown eq(1,2,4-7))
  have intent: "dict_pop ''effective_from'' (intent_payload (i\<lparr>di_intent_version := v, di_correlation_id := c\<rparr>))
      = dict_pop ''effective_from'' (intent_payload (j\<lparr>di_intent_version := v, di_correlation_id := c\<rparr>))"
    if "dict_pop ''effective_from'' (stable_payload i) = dict_pop ''effective_from'' (stable_payload j)" for i j
    using that by (simp add: stable_payload_eq intent_payload_def dict_pop_def)
  show "map_option (\<lambda>i. dict_pop ''effective_from'' (intent_payload (i\<lparr>di_intent_version := v, di_correlation_id := c\<rparr>))) intent
      = map_option (\<lambda>i. dict_pop ''effective_from'' (intent_payload (i\<lparr>di_intent_version := v, di_correlation_id := c\<rparr>))) intent'"
    using eq(8) by (cases intent; cases intent') (auto simp: json_opt_def intro: intent)
qed

section \<open>The decision over the stored rows\<close>

text \<open>The state and the intent of a room whose row has the id \<open>i\<close>, for the bookings of a property.\<close>

definition decision ::
  "db_service \<Rightarrow> database \<Rightarrow> property_row \<Rightarrow> uuid \<Rightarrow> room \<Rightarrow> datetime \<Rightarrow> uuid
   \<Rightarrow> (room_state_evaluation \<times> desired_room_intent option) result" where
  "decision sv d p i rm now c =
     bind_result (fst (load_normalized_bookings sv p (new_session d 0))) (\<lambda>loaded.
     bind_result (active_override sv d (room_override_row sv d i) (hotel_time_of sv now)) (\<lambda>override.
     bind_result (room_intent sv rm loaded now override c) (\<lambda>intent.
     Inr (room_evaluation sv rm loaded now override, intent))))"

lemma evaluated_room_shown:
  assumes "evaluate_body sv ids now c (new_session d n) = (Inr ps, s')"
    and "distinct (map rm_key (rr_rooms (dv_registry sv)))" and "versions_inv sv d" and "states_before sv d now"
    and "rm \<in> set (rr_rooms (dv_registry sv))"
    and "\<And>reg s1 i. ensure_registry sv (new_session d n) = (Inr reg, s1) \<Longrightarrow> map_of (rg_domain_rooms_by_id reg) i = Some rm
           \<Longrightarrow> i \<in> set (ids reg)"
  obtains p i st intent v where "p \<in> set (db_properties (ss_db s'))" "ppr_key p = property_key sv"
    "room_row_id sv (ss_db s') (rm_key rm) = Some i" "decision sv d p i rm now c = Inr (st, intent)"
    "shows_digest sv (rm_key rm) (ss_db s') (room_state_hash sv st intent) v"
    "\<forall>v' \<in> set (published_versions (dv_topics sv) (rm_key rm) (ss_db s')). v' \<le> v"
proof -
  let ?s = "new_session d n"
  have new: "ss_db ?s = d" "ss_flushed ?s = d" "\<not> ss_autoflush ?s" by (simp_all add: new_session_def)
  have k: "keys_ok d" using assms(3) by (simp add: versions_inv_def)
  from assms(1) obtain reg s1 rc s2 u where reg: "ensure_registry sv ?s = (Inr reg, s1)"
    and rc: "recalculate_rooms sv reg (ids reg) now c s1 = (Inr rc, s2)" and u: "fresh_id sv s2 = (Inr u, s')"
    unfolding evaluate_body_def by (auto elim!: bindE_Inr_E)
  note R = ensure_registry_run [OF reg new k assms(2)]
  obtain i where i: "map_of (rg_domain_rooms_by_id reg) i = Some rm" using R(5) [OF assms(5)] by blast
  note clean0 = keys_ok_clean [OF k, of n]
  have c1: "clean room_states_t s1" "clean overrides_t s1" "clean bookings_t s1" "clean assignments_t s1"
    using frame_clean [OF frame_ensure_registry reg, of room_states_t] frame_clean [OF frame_ensure_registry reg, of overrides_t]
      frame_clean [OF frame_ensure_registry reg, of bookings_t] frame_clean [OF frame_ensure_registry reg, of assignments_t]
      clean0 by simp_all
  have db1: "db_room_states (ss_db s1) = db_room_states d" "db_overrides (ss_db s1) = db_overrides d"
    "db_bookings (ss_db s1) = db_bookings d" "db_assignments (ss_db s1) = db_assignments d" "db_outbox (ss_db s1) = db_outbox d"
    using frame_db [OF frame_ensure_registry reg, of room_states_t] frame_db [OF frame_ensure_registry reg, of overrides_t]
      frame_db [OF frame_ensure_registry reg, of bookings_t] frame_db [OF frame_ensure_registry reg, of assignments_t]
      frame_db [OF frame_ensure_registry reg, of outbox_t] new by simp_all
  let ?d1 = "ss_flushed s1"
  have fl1: "db_room_states ?d1 = db_room_states d" "db_overrides ?d1 = db_overrides d" "db_bookings ?d1 = db_bookings d"
    using c1 db1 by (simp_all add: clean_def)
  have r: "reads ?d1 s1" using c1 R(2) by (simp add: reads_def clean_def)
  have scope: "in_scope reg ?d1 i = Some rm"
    using i R(4) [OF i] by (auto simp: in_scope_def find_None_iff2)
  obtain loaded counts where load: "load_normalized_bookings sv (rg_property reg) s1 = (Inr loaded, s1)"
    and view: "view_outcome sv loaded now c ?d1 i rm s1 s2 counts"
    by (rule recalculate_member [OF r rc R(1) scope assms(6) [OF reg i]])
  have same2: "db_outbox (ss_db s') = db_outbox (ss_db s2)" "db_properties (ss_db s') = db_properties (ss_db s1)"
      "db_rooms (ss_db s') = db_rooms (ss_db s1)"
    using frame_db [OF frame_fresh u, of outbox_t] frame_db [OF frame_fresh u, of properties_t] frame_db [OF frame_fresh u, of rooms_t]
      frame_db [OF frame_recalculate_rooms rc, of properties_t] frame_db [OF frame_recalculate_rooms rc, of rooms_t] by simp_all
  have row_id: "room_row_id sv (ss_db s') (rm_key rm) = Some i"
    using R(3) R(4) [OF i] room_row_id_cong [OF same2(2,3)] by (auto simp: room_row_id_Some)
  have "versions_ok sv (rm_key rm) i d" by (rule registered_versions [OF reg new assms(2,3) i])
  with db1(1,5) have ok1: "versions_ok sv (rm_key rm) i (ss_db s1)" using versions_ok_cong by metis
  have before1: "states_before sv (ss_db s1) now" using assms(4) states_before_cong [OF db1(1)] by simp
  have old: "case room_last_state sv (ss_db s1) i of None \<Rightarrow> True | Some r \<Rightarrow> shows_state sv (rm_key rm) (ss_db s1) r"
    using ok1 by (simp add: versions_ok_def)
  have d1: "db_room_states ?d1 = db_room_states (ss_db s1)" using c1(1) by (simp add: clean_def)
  obtain ov intent r where 1: "active_override sv ?d1 (room_override_row sv ?d1 i) (hotel_time_of sv now) = Inr ov"
      "room_intent sv rm loaded now ov c = Inr intent" "room_last_state sv (ss_db s2) i = Some r"
      "shows_state sv (rm_key rm) (ss_db s2) r"
      "rsr_payload_hash r = room_state_hash sv (room_evaluation sv rm loaded now ov) intent"
    by (rule outcome_shown [OF view d1 before1 old])
  have ok2: "versions_ok sv (rm_key rm) i (ss_db s2)" by (rule versions_step [OF view d1 ok1 before1])
  have "fst (load_normalized_bookings sv (rg_property reg) (new_session d 0)) = Inr loaded"
    using load_cong [OF c1(3,4) keys_ok_clean(3,4) [OF k]] load db1(3,4) by (simp add: new_session_def)
  moreover have "active_override sv d (room_override_row sv d i) (hotel_time_of sv now) = Inr ov"
    using 1(1) unfolding active_override_def room_override_row_def fl1(2,3) .
  ultimately have dec: "decision sv d (rg_property reg) i rm now c = Inr (room_evaluation sv rm loaded now ov, intent)"
    using 1(2) by (simp add: decision_def)
  have p: "rg_property reg \<in> set (db_properties (ss_db s'))" "ppr_key (rg_property reg) = property_key sv"
    using filter_eq_ConsD [OF R(3)] same2(2) by auto
  have vs: "published_versions (dv_topics sv) (rm_key rm) (ss_db s') = published_versions (dv_topics sv) (rm_key rm) (ss_db s2)"
    using same2(1) by (simp add: published_versions_def)
  show thesis
  proof (rule that [OF p row_id dec])
    show "shows_digest sv (rm_key rm) (ss_db s') (room_state_hash sv (room_evaluation sv rm loaded now ov) intent) (rsr_intent_version r)"
      using 1(4,5) shows_digest_outbox [OF same2(1)] by (simp add: shows_state_def)
    show "\<forall>v' \<in> set (published_versions (dv_topics sv) (rm_key rm) (ss_db s')). v' \<le> rsr_intent_version r"
      using ok2 1(3) unfolding vs by (simp add: versions_ok_def last_version_def list_all_iff)
  qed
qed

section \<open>A round of the policy worker\<close>

lemma run_policy_parts:
  assumes "run_policy_once ar None w = (Inr v, w')"
  obtains c n ps s where "transaction (evaluate_body (ar_service ar) (\<lambda>reg. map fst (rg_domain_rooms_by_id reg))
        (utc (ar_service ar) (time_read ar w)) c) (new_session (rw_db w) n) = (Inr ps, s)" "rw_db w' = ss_db s"
proof -
  let ?sv = "ar_service ar" and ?t = "time_read ar w"
  from assms obtain now w1 c w2 ps w3 u where now: "given_now ar None w = (Inr now, w1)" and c: "uuid4 ar w1 = (Inr c, w2)"
    and ev: "with_session (evaluate_all_rooms ?sv (Aware now) (Some c)) w2 = (Inr ps, w3)"
    and pub: "publish_system_state ar w3 = (Inr u, w')"
    unfolding run_policy_once_def by (auto elim!: bindE_Inr_E)
  have 1: "now = ?t" "rw_db w1 = rw_db w" using now utcnow_run [of ar w] by (auto simp: given_now_def)
  have 2: "rw_db w2 = rw_db w1" using c by (auto simp: uuid4_def)
  have 4: "rw_db w' = rw_db w3" using keeps_eqD [OF same_db_publish(1) pub] by (simp add: same_db_def)
  have "evaluate_all_rooms ?sv (Aware ?t) (Some c)
      = transaction (evaluate_body ?sv (\<lambda>reg. map fst (rg_domain_rooms_by_id reg)) (utc ?sv ?t) c)"
    by (rule ext) (simp add: evaluate_all_rooms_def given_or_fresh_def)
  with ev 1 2 obtain s where "transaction (evaluate_body ?sv (\<lambda>reg. map fst (rg_domain_rooms_by_id reg)) (utc ?sv ?t) c)
      (new_session (rw_db w) (rw_draws w2)) = (Inr ps, s)" "rw_db w3 = ss_db s"
    by (auto simp: with_session_def split: prod.splits)
  with 4 show thesis by (intro that) simp_all
qed

text \<open>C4. After a policy round that returns, the messages last queued for every room show the decision over the
stored rows, provided the evaluations did not overlap: the service started with an empty database, and
the times that its evaluations carry grew from each to the next and up to this round. Then the stored
bookings and the override in force determine a state and an intent, and the messages last queued for the
room's topics have the digest of that decision, under a version that no queued one exceeds. An adapter
that takes the newest version therefore carries out what the policy asks for at that time. The digest
covers all that the messages say but the time, the correlation id and the version (lemma
digest_determines_messages). When a poll overlaps a policy round, so that its time is older than a
stored state's, the messages can keep showing another decision (theorem late_poll_hides_decision).\<close>

theorem policy_round_shows_decisions:
  assumes "service_run render ar s0 ts s" and "rw_db (sn_world s0) = empty_database"
    and "sorted_wrt (earlier ar) (ts @ [time_read ar (sn_world s)])"
    and "mk_room_registry (dv_registry (ar_service ar)) = Inr registry" and "rm \<in> set (rr_rooms registry)"
    and "run_policy_once ar None (sn_world s) = (Inr result, w')"
  shows "\<exists>p i c st intent v.
    p \<in> set (db_properties (rw_db w')) \<and> ppr_key p = property_key (ar_service ar)
    \<and> room_row_id (ar_service ar) (rw_db w') (rm_key rm) = Some i
    \<and> decision (ar_service ar) (rw_db (sn_world s)) p i rm (utc (ar_service ar) (time_read ar (sn_world s))) c = Inr (st, intent)
    \<and> shows_digest (ar_service ar) (rm_key rm) (rw_db w') (room_state_hash (ar_service ar) st intent) v
    \<and> (\<forall>v' \<in> set (published_versions (dv_topics (ar_service ar)) (rm_key rm) (rw_db w')). v' \<le> v)"
proof -
  note inv = service_versions_inv [OF assms(1-4)]
  obtain c n ps x where tr: "transaction (evaluate_body (ar_service ar) (\<lambda>reg. map fst (rg_domain_rooms_by_id reg))
        (utc (ar_service ar) (time_read ar (sn_world s))) c) (new_session (rw_db (sn_world s)) n) = (Inr ps, x)" and w': "rw_db w' = ss_db x"
    by (rule run_policy_parts [OF assms(6)])
  from tr obtain s1 where body: "evaluate_body (ar_service ar) (\<lambda>reg. map fst (rg_domain_rooms_by_id reg))
        (utc (ar_service ar) (time_read ar (sn_world s))) c (new_session (rw_db (sn_world s)) n) = (Inr ps, s1)" and x: "ss_db x = ss_db s1"
    by (elim transaction_Inr) auto
  have "i \<in> set (map fst (rg_domain_rooms_by_id reg))" if "map_of (rg_domain_rooms_by_id reg) i = Some rm" for reg i
    using map_of_SomeD [OF that] by force
  then show ?thesis
    unfolding w' x
    by (rule evaluated_room_shown [OF body inv(2) [unfolded inv(1)] inv(3,4) assms(5) [unfolded inv(1)]]) blast+
qed

section \<open>A command of a panel\<close>







section \<open>On the demonstration runtime\<close>

definition demo_policy_round :: "payload result \<times> (int, unit) runtime_world" where
  "demo_policy_round = run_policy_once demo_runtime None demo_world"


lemma demo_policy_returns: "is_Inr (fst demo_policy_round)"
  by code_simp



theorem policy_round_shows_decisions_witness:
  "\<exists>st intent v. shows_digest (ar_service demo_runtime) ''101'' (rw_db (snd demo_policy_round))
     (room_state_hash (ar_service demo_runtime) st intent) v"
proof -
  obtain result w' where run: "run_policy_once demo_runtime None demo_world = (Inr result, w')"
    using demo_policy_returns unfolding demo_policy_round_def by (cases "run_policy_once demo_runtime None demo_world"; cases "fst (run_policy_once demo_runtime None demo_world)") auto
  have "sample_room ''101'' None \<in> set (rr_rooms demo_hotel)" by (simp add: demo_hotel_def demo_registry_def)
  moreover have "rw_db (sn_world demo_start) = empty_database" by (simp add: demo_start_def demo_world_def)
  moreover have "sorted_wrt (earlier demo_runtime) ([] @ [time_read demo_runtime (sn_world demo_start)])" by simp
  ultimately have "\<exists>st intent v. shows_digest (ar_service demo_runtime) (rm_key (sample_room ''101'' None)) (rw_db w')
     (room_state_hash (ar_service demo_runtime) st intent) v"
    using policy_round_shows_decisions [OF no_step [of "\<lambda>_. []" demo_runtime "demo_start"] _ _ demo_hotel_valid _ run [folded demo_start_world]] by blast
  then show ?thesis by (simp add: demo_policy_round_def run sample_room_def)
qed


end
