(* ===== verification/Schema.thy ===== *)
theory Schema
  imports Domain_Models
begin

text \<open>
  Relational schemas with their rows, and the operations of Alembic (\<^verbatim>\<open>op.create_table\<close> and its
  companions) that \<^verbatim>\<open>migrations/versions\<close> applies to them on PostgreSQL. An operation changes the
  description of a table or its rows and fails when what it names does not exist, exists already
  or when the rows violate a constraint of the changed schema. A row lists its columns with their
  values in the order of the table; NULL is \<open>JNull\<close>. Types of values are not checked.
\<close>

section \<open>Schemas\<close>

datatype sql_type = SQL_UUID | SQL_String nat | SQL_Text | SQL_Date | SQL_DateTime | SQL_Integer | SQL_Float
  | SQL_Boolean | SQL_JSONB

record column =
  co_name :: string
  co_type :: sql_type
  co_nullable :: bool

datatype table_constraint =
    PrimaryKey string "string list"
  | Unique string "string list"
  | ForeignKey string "string list" string "string list"

fun constraint_name :: "table_constraint \<Rightarrow> string" where
  "constraint_name (PrimaryKey n _) = n"
| "constraint_name (Unique n _) = n"
| "constraint_name (ForeignKey n _ _ _) = n"

fun constraint_columns :: "table_constraint \<Rightarrow> string list" where
  "constraint_columns (PrimaryKey _ cs) = cs"
| "constraint_columns (Unique _ cs) = cs"
| "constraint_columns (ForeignKey _ cs _ _) = cs"

text \<open>An index with an optional boolean column that its rows must have set.\<close>

record table_index =
  ix_name :: string
  ix_columns :: "string list"
  ix_unique :: bool
  ix_where :: "string option"

record sql_table =
  ta_name :: string
  ta_columns :: "column list"
  ta_constraints :: "table_constraint list"
  ta_indexes :: "table_index list"
  ta_rows :: "payload list"

type_synonym schema = "sql_table list"

definition column_names :: "sql_table \<Rightarrow> string list" where
  "column_names t = map co_name (ta_columns t)"

section \<open>Constraints\<close>

definition cell :: "payload \<Rightarrow> string \<Rightarrow> json" where
  "cell row c = (case map_of row c of None \<Rightarrow> JNull | Some v \<Rightarrow> v)"

text \<open>Rows with a NULL among the columns never collide.\<close>

definition unique_rows :: "string list \<Rightarrow> payload list \<Rightarrow> bool" where
  "unique_rows cs rows =
     distinct (filter (\<lambda>key. JNull \<notin> set key) (map (\<lambda>row. map (cell row) cs) rows))"

definition find_table :: "string \<Rightarrow> schema \<Rightarrow> sql_table option" where
  "find_table n s = find (\<lambda>t. ta_name t = n) s"

definition references_ok :: "schema \<Rightarrow> payload list \<Rightarrow> string list \<Rightarrow> string \<Rightarrow> string list \<Rightarrow> bool" where
  "references_ok s rows cs target ts =
     (case find_table target s of
        None \<Rightarrow> False
      | Some u \<Rightarrow>
          list_all (\<lambda>row. JNull \<in> set (map (cell row) cs)
                     \<or> map (cell row) cs \<in> set (map (\<lambda>r. map (cell r) ts) (ta_rows u))) rows)"

fun constraint_ok :: "schema \<Rightarrow> payload list \<Rightarrow> table_constraint \<Rightarrow> bool" where
  "constraint_ok s rows (PrimaryKey _ cs) =
     (unique_rows cs rows \<and> list_all (\<lambda>row. list_all (\<lambda>c. cell row c \<noteq> JNull) cs) rows)"
| "constraint_ok s rows (Unique _ cs) = unique_rows cs rows"
| "constraint_ok s rows (ForeignKey _ cs target ts) = references_ok s rows cs target ts"

definition index_ok :: "payload list \<Rightarrow> table_index \<Rightarrow> bool" where
  "index_ok rows ix =
     (ix_unique ix \<longrightarrow>
        unique_rows (ix_columns ix)
          (case ix_where ix of None \<Rightarrow> rows | Some c \<Rightarrow> filter (\<lambda>row. cell row c = JBool True) rows))"

definition column_ok :: "payload list \<Rightarrow> column \<Rightarrow> bool" where
  "column_ok rows c = (co_nullable c \<or> list_all (\<lambda>row. cell row (co_name c) \<noteq> JNull) rows)"

definition table_valid :: "schema \<Rightarrow> sql_table \<Rightarrow> bool" where
  "table_valid s t =
     (list_all (column_ok (ta_rows t)) (ta_columns t) \<and> list_all (constraint_ok s (ta_rows t)) (ta_constraints t)
      \<and> list_all (index_ok (ta_rows t)) (ta_indexes t))"

definition schema_ok :: "schema \<Rightarrow> bool" where
  "schema_ok s = list_all (table_valid s) s"

section \<open>Operations\<close>

text \<open>A column of \<^verbatim>\<open>sa.Column\<close>: its type, whether it is nullable, and the inline constraints.\<close>

record column_spec = column +
  cs_primary_key :: bool
  cs_unique :: bool
  cs_foreign_key :: "(string \<times> string) option"

definition sa_column :: "string \<Rightarrow> sql_type \<Rightarrow> bool \<Rightarrow> column_spec" where
  "sa_column n ty nullable =
     \<lparr>co_name = n, co_type = ty, co_nullable = nullable, cs_primary_key = False, cs_unique = False,
      cs_foreign_key = None\<rparr>"

definition primary_id :: column_spec where
  "primary_id = (sa_column ''id'' SQL_UUID False)\<lparr>cs_primary_key := True\<rparr>"

definition fk_column :: "string \<Rightarrow> string \<Rightarrow> bool \<Rightarrow> column_spec" where
  "fk_column n target nullable = (sa_column n SQL_UUID nullable)\<lparr>cs_foreign_key := Some (target, ''id'')\<rparr>"

text \<open>The name PostgreSQL gives to a constraint without one.\<close>

definition generated_name :: "string \<Rightarrow> string list \<Rightarrow> string \<Rightarrow> string" where
  "generated_name table cs suffix = join_with ''_'' (table # cs @ [suffix])"

definition inline_constraints :: "string \<Rightarrow> column_spec \<Rightarrow> table_constraint list" where
  "inline_constraints table c =
     (if cs_primary_key c then [PrimaryKey (table @ ''_pkey'') [co_name c]] else [])
     @ (if cs_unique c then [Unique (generated_name table [co_name c] ''key'') [co_name c]] else [])
     @ (case cs_foreign_key c of
          None \<Rightarrow> []
        | Some (target, tc) \<Rightarrow> [ForeignKey (generated_name table [co_name c] ''fkey'') [co_name c] target [tc]])"

definition plain_column :: "column_spec \<Rightarrow> column" where
  "plain_column c = \<lparr>co_name = co_name c, co_type = co_type c, co_nullable = co_nullable c\<rparr>"

text \<open>The values an UPDATE assigns.\<close>

datatype sql_expr = SQL_Const json | SQL_Column string | SQL_Coalesce "sql_expr list"

fun eval_sql :: "payload \<Rightarrow> sql_expr \<Rightarrow> json" where
  "eval_sql row (SQL_Const v) = v"
| "eval_sql row (SQL_Column c) = cell row c"
| "eval_sql row (SQL_Coalesce es) =
     (case filter (\<lambda>v. v \<noteq> JNull) (map (eval_sql row) es) of [] \<Rightarrow> JNull | v # _ \<Rightarrow> v)"

datatype operation =
    CreateTable string "column_spec list" "string list list"
  | DropTable string
  | AddColumn string column_spec
  | DropColumn string string
  | AlterNullable string string bool
  | CreateIndex string string "string list" bool "string option"
  | DropIndex string string
  | CreateUnique string string "string list"
  | CreateForeignKey string string string "string list" "string list"
  | DropConstraint string string
  | UpdateRows string string sql_expr

abbreviation ProgrammingError :: pyexc where
  "ProgrammingError \<equiv> OtherError ''ProgrammingError''"

text \<open>An ALTER TABLE, and the functions on one table.\<close>

definition put_table :: "string \<Rightarrow> sql_table \<Rightarrow> schema \<Rightarrow> schema" where
  "put_table n t s = map (\<lambda>u. if ta_name u = n then t else u) s"

definition on_table :: "string \<Rightarrow> (sql_table \<Rightarrow> sql_table result) \<Rightarrow> schema \<Rightarrow> schema result" where
  "on_table n f s =
     (case find_table n s of
        None \<Rightarrow> Inl ProgrammingError
      | Some t \<Rightarrow> bind_result (f t) (\<lambda>t'. Inr (put_table n t' s)))"

definition object_names :: "sql_table \<Rightarrow> string list" where
  "object_names t = map constraint_name (ta_constraints t) @ map ix_name (ta_indexes t)"

definition add_constraint :: "table_constraint \<Rightarrow> sql_table \<Rightarrow> sql_table result" where
  "add_constraint c t =
     (if constraint_name c \<in> set (object_names t) \<or> \<not> set (constraint_columns c) \<subseteq> set (column_names t)
      then Inl ProgrammingError
      else Inr (t\<lparr>ta_constraints := ta_constraints t @ [c]\<rparr>))"

definition drop_constraint :: "string \<Rightarrow> sql_table \<Rightarrow> sql_table result" where
  "drop_constraint n t =
     (if n \<notin> set (map constraint_name (ta_constraints t)) then Inl ProgrammingError
      else Inr (t\<lparr>ta_constraints := filter (\<lambda>c. constraint_name c \<noteq> n) (ta_constraints t)\<rparr>))"

definition add_index :: "table_index \<Rightarrow> sql_table \<Rightarrow> sql_table result" where
  "add_index ix t =
     (if ix_name ix \<in> set (object_names t) \<or> \<not> set (ix_columns ix) \<subseteq> set (column_names t)
         \<or> (case ix_where ix of None \<Rightarrow> False | Some c \<Rightarrow> c \<notin> set (column_names t))
      then Inl ProgrammingError
      else Inr (t\<lparr>ta_indexes := ta_indexes t @ [ix]\<rparr>))"

definition drop_index :: "string \<Rightarrow> sql_table \<Rightarrow> sql_table result" where
  "drop_index n t =
     (if n \<notin> set (map ix_name (ta_indexes t)) then Inl ProgrammingError
      else Inr (t\<lparr>ta_indexes := filter (\<lambda>ix. ix_name ix \<noteq> n) (ta_indexes t)\<rparr>))"

text \<open>A new column is NULL in the rows there are; a dropped one takes its constraints and indexes along.\<close>

definition add_column :: "column \<Rightarrow> sql_table \<Rightarrow> sql_table result" where
  "add_column c t =
     (if co_name c \<in> set (column_names t) then Inl ProgrammingError
      else Inr (t\<lparr>ta_columns := ta_columns t @ [c], ta_rows := map (\<lambda>row. row @ [(co_name c, JNull)]) (ta_rows t)\<rparr>))"

definition drop_column :: "string \<Rightarrow> sql_table \<Rightarrow> sql_table result" where
  "drop_column c t =
     (if c \<notin> set (column_names t) then Inl ProgrammingError
      else Inr (t\<lparr>ta_columns := filter (\<lambda>x. co_name x \<noteq> c) (ta_columns t),
                  ta_constraints := filter (\<lambda>k. c \<notin> set (constraint_columns k)) (ta_constraints t),
                  ta_indexes := filter (\<lambda>ix. c \<notin> set (ix_columns ix) \<and> ix_where ix \<noteq> Some c) (ta_indexes t),
                  ta_rows := map (filter (\<lambda>kv. fst kv \<noteq> c)) (ta_rows t)\<rparr>))"

definition alter_nullable :: "string \<Rightarrow> bool \<Rightarrow> sql_table \<Rightarrow> sql_table result" where
  "alter_nullable c nullable t =
     (if c \<notin> set (column_names t) then Inl ProgrammingError
      else Inr (t\<lparr>ta_columns := map (\<lambda>x. if co_name x = c then x\<lparr>co_nullable := nullable\<rparr> else x) (ta_columns t)\<rparr>))"

definition update_rows_sql :: "string \<Rightarrow> sql_expr \<Rightarrow> sql_table \<Rightarrow> sql_table result" where
  "update_rows_sql c e t =
     (if c \<notin> set (column_names t) then Inl ProgrammingError
      else Inr (t\<lparr>ta_rows := map (\<lambda>row. map (\<lambda>(k, v). (k, if k = c then eval_sql row e else v)) row) (ta_rows t)\<rparr>))"

definition create_table :: "string \<Rightarrow> column_spec list \<Rightarrow> string list list \<Rightarrow> schema \<Rightarrow> schema result" where
  "create_table n cols uniques s =
     (if find_table n s \<noteq> None \<or> has_duplicates (map co_name cols) then Inl ProgrammingError
      else Inr (s @ [\<lparr>ta_name = n, ta_columns = map plain_column cols,
                      ta_constraints = concat (map (inline_constraints n) cols)
                        @ map (\<lambda>cs. Unique (generated_name n cs ''key'') cs) uniques,
                      ta_indexes = [], ta_rows = []\<rparr>]))"

fun refers_to :: "string \<Rightarrow> table_constraint \<Rightarrow> bool" where
  "refers_to n (ForeignKey _ _ target _) = (target = n)"
| "refers_to n _ = False"

definition drop_table :: "string \<Rightarrow> schema \<Rightarrow> schema result" where
  "drop_table n s =
     (if find_table n s = None \<or> list_ex (\<lambda>t. ta_name t \<noteq> n \<and> list_ex (refers_to n) (ta_constraints t)) s
      then Inl ProgrammingError
      else Inr (filter (\<lambda>t. ta_name t \<noteq> n) s))"

fun change :: "operation \<Rightarrow> schema \<Rightarrow> schema result" where
  "change (CreateTable n cols uniques) s = create_table n cols uniques s"
| "change (DropTable n) s = drop_table n s"
| "change (AddColumn n c) s = on_table n (add_column (plain_column c)) s"
| "change (DropColumn n c) s = on_table n (drop_column c) s"
| "change (AlterNullable n c nullable) s = on_table n (alter_nullable c nullable) s"
| "change (CreateIndex i n cs unique where_column) s =
     on_table n (add_index \<lparr>ix_name = i, ix_columns = cs, ix_unique = unique, ix_where = where_column\<rparr>) s"
| "change (DropIndex i n) s = on_table n (drop_index i) s"
| "change (CreateUnique k n cs) s = on_table n (add_constraint (Unique k cs)) s"
| "change (CreateForeignKey k n target cs ts) s = on_table n (add_constraint (ForeignKey k cs target ts)) s"
| "change (DropConstraint k n) s = on_table n (drop_constraint k) s"
| "change (UpdateRows n c e) s = on_table n (update_rows_sql c e) s"

text \<open>A statement whose result would violate a constraint is refused.\<close>

definition apply_operation :: "operation \<Rightarrow> schema \<Rightarrow> schema result" where
  "apply_operation o1 s =
     bind_result (change o1 s) (\<lambda>s'. if schema_ok s' then Inr s' else Inl (OtherError ''IntegrityError''))"

fun apply_operations :: "operation list \<Rightarrow> schema \<Rightarrow> schema result" where
  "apply_operations [] s = Inr s"
| "apply_operations (o1 # os) s = bind_result (apply_operation o1 s) (apply_operations os)"

end
