(* ===== verification/Schema_Laws.thy ===== *)
theory Schema_Laws
  imports Schema
begin

text \<open>
  Laws of the schema operations: on tables without rows an operation succeeds as soon as the
  tables it refers to exist, and what an operation adds the opposite one takes away.
\<close>

section \<open>Tables without rows\<close>

definition rowless :: "schema \<Rightarrow> bool" where
  "rowless s \<longleftrightarrow> (\<forall>t \<in> set s. ta_rows t = [])"

fun targets_of :: "table_constraint \<Rightarrow> string list" where
  "targets_of (ForeignKey _ _ target _) = [target]"
| "targets_of _ = []"

definition table_targets :: "sql_table \<Rightarrow> string set" where
  "table_targets t = (\<Union>c \<in> set (ta_constraints t). set (targets_of c))"

definition closed_schema :: "schema \<Rightarrow> bool" where
  "closed_schema s \<longleftrightarrow> (\<forall>t \<in> set s. table_targets t \<subseteq> ta_name ` set s)"

lemma find_table_None: "find_table n s = None \<longleftrightarrow> n \<notin> ta_name ` set s"
  by (auto simp: find_table_def find_None_iff)

lemma find_table_SomeD: "find_table n s = Some t \<Longrightarrow> t \<in> set s \<and> ta_name t = n"
  by (auto simp: find_table_def dest: find_SomeD)

lemma unique_rows_Nil [simp]: "unique_rows cs []"
  by (simp add: unique_rows_def)

lemma rowless_ok:
  assumes "rowless s" and "closed_schema s"
  shows "schema_ok s"
proof -
  have "constraint_ok s [] c" if "set (targets_of c) \<subseteq> ta_name ` set s" for c
    using that by (cases c) (auto simp: references_ok_def find_table_None split: option.split)
  then have "table_valid s t" if "t \<in> set s" for t
  proof -
    have "ta_rows t = []" "\<forall>c \<in> set (ta_constraints t). set (targets_of c) \<subseteq> ta_name ` set s"
      using that assms by (force simp: rowless_def, unfold closed_schema_def table_targets_def) blast
    moreover have "column_ok [] c" "index_ok [] ix" for c ix
      by (simp_all add: column_ok_def index_ok_def split: option.split)
    ultimately show ?thesis
      using \<open>\<And>c. set (targets_of c) \<subseteq> ta_name ` set s \<Longrightarrow> constraint_ok s [] c\<close>
      by (simp add: table_valid_def list_all_iff)
  qed
  then show ?thesis by (simp add: schema_ok_def list_all_iff)
qed

text \<open>Operations without the final check.\<close>

fun change_all :: "operation list \<Rightarrow> schema \<Rightarrow> schema result" where
  "change_all [] s = Inr s"
| "change_all (o1 # os) s = bind_result (change o1 s) (change_all os)"

lemma change_all_append: "change_all (os @ os') s = bind_result (change_all os s) (change_all os')"
  by (induction os arbitrary: s) (auto simp: bind_result_def split: sum.splits)

lemma apply_operations_append:
  "apply_operations (os @ os') s = bind_result (apply_operations os s) (apply_operations os')"
  by (induction os arbitrary: s) (auto simp: bind_result_def split: sum.splits)

text \<open>The tables there are after an operation, and whether those it refers to are among them.\<close>

fun names_after :: "operation \<Rightarrow> string list \<Rightarrow> string list" where
  "names_after (CreateTable n _ _) ns = ns @ [n]"
| "names_after (DropTable n) ns = filter (\<lambda>m. m \<noteq> n) ns"
| "names_after _ ns = ns"

fun targets_known :: "operation \<Rightarrow> string list \<Rightarrow> bool" where
  "targets_known (CreateTable n cols _) ns =
     list_all (\<lambda>c. case cs_foreign_key c of None \<Rightarrow> True | Some (target, _) \<Rightarrow> target \<in> set ns) cols"
| "targets_known (CreateForeignKey _ _ target _ _) ns = (target \<in> set ns)"
| "targets_known _ ns = True"

fun all_targets_known :: "operation list \<Rightarrow> string list \<Rightarrow> bool" where
  "all_targets_known [] ns = True"
| "all_targets_known (o1 # os) ns = (targets_known o1 ns \<and> all_targets_known os (names_after o1 ns))"

text \<open>What a function on one table keeps: its name and that it has no rows; and the tables it refers to.\<close>

definition gentle :: "string list \<Rightarrow> (sql_table \<Rightarrow> sql_table result) \<Rightarrow> bool" where
  "gentle ns f \<longleftrightarrow> (\<forall>t t'. f t = Inr t' \<longrightarrow>
     ta_name t' = ta_name t \<and> (ta_rows t = [] \<longrightarrow> ta_rows t' = [])
     \<and> table_targets t' \<subseteq> table_targets t \<union> set ns)"

lemma gentle_functions:
  "gentle ns (add_column c)" "gentle ns (drop_column k)" "gentle ns (alter_nullable k b)"
  "gentle ns (add_index ix)" "gentle ns (drop_index k)" "gentle ns (drop_constraint k)"
  "gentle ns (update_rows_sql k e)" "set (targets_of con) \<subseteq> set ns \<Longrightarrow> gentle ns (add_constraint con)"
  by (auto simp: gentle_def table_targets_def add_column_def drop_column_def alter_nullable_def add_index_def
      drop_index_def drop_constraint_def update_rows_sql_def add_constraint_def split: if_splits)

lemma on_table_gentle:
  assumes "on_table n f s = Inr s'" and "gentle (map ta_name s) f" and "rowless s" and "closed_schema s"
  shows "rowless s' \<and> closed_schema s' \<and> map ta_name s' = map ta_name s"
proof -
  from assms(1) obtain t t' where t: "find_table n s = Some t" "f t = Inr t'"
    and s': "s' = map (\<lambda>u. if ta_name u = n then t' else u) s"
    by (auto simp: on_table_def put_table_def bind_result_Inr split: option.splits)
  have names: "map ta_name s' = map ta_name s"
    using assms(2) t find_table_SomeD [OF t(1)] by (auto simp: s' gentle_def)
  then have same: "ta_name ` set s' = ta_name ` set s" by (metis list.set_map)
  have "table_targets t' \<subseteq> ta_name ` set s"
    using assms(2,4) t find_table_SomeD [OF t(1)] by (fastforce simp: gentle_def closed_schema_def)
  moreover have "ta_rows t' = []"
    using assms(2,3) t find_table_SomeD [OF t(1)] by (auto simp: gentle_def rowless_def)
  ultimately show ?thesis
    using assms(3,4) names by (auto simp: closed_schema_def rowless_def same) (auto simp: s' split: if_splits)
qed

lemma change_rowless:
  assumes "change o1 s = Inr s'" and "rowless s" and "closed_schema s" and "targets_known o1 (map ta_name s)"
  shows "rowless s' \<and> closed_schema s' \<and> map ta_name s' = names_after o1 (map ta_name s)"
proof (cases o1)
  case (CreateTable n cols uniques)
  have "table_targets t \<subseteq> ta_name ` set s"
    if "t = \<lparr>ta_name = n, ta_columns = map plain_column cols, ta_constraints = concat (map (inline_constraints n) cols)
         @ map (\<lambda>cs. Unique (generated_name n cs ''key'') cs) uniques, ta_indexes = [], ta_rows = []\<rparr>" for t
    using assms(4) that CreateTable
    by (auto simp: table_targets_def inline_constraints_def list_all_iff split: if_splits option.splits) metis
  with assms CreateTable show ?thesis
    by (auto simp: create_table_def rowless_def closed_schema_def split: if_splits) blast+
next
  case (DropTable n)
  have "target \<noteq> n" if "t \<in> set s" "ta_name t \<noteq> n" "target \<in> table_targets t"
    "\<not> list_ex (\<lambda>t. ta_name t \<noteq> n \<and> list_ex (refers_to n) (ta_constraints t)) s" for t target
  proof
    assume "target = n"
    with that(3) obtain c where "c \<in> set (ta_constraints t)" "n \<in> set (targets_of c)" by (auto simp: table_targets_def)
    moreover from this(2) have "refers_to n c" by (cases c) auto
    ultimately have "list_ex (refers_to n) (ta_constraints t)" by (auto simp: list_ex_iff)
    with that(1,2,4) show False by (auto simp: list_ex_iff)
  qed
  with assms DropTable show ?thesis
    by (auto simp: drop_table_def rowless_def closed_schema_def filter_map comp_def split: if_splits) fast
qed (use assms in \<open>auto dest!: on_table_gentle intro: gentle_functions\<close>)

lemma changes_rowless:
  assumes "change_all os s = Inr s'" and "rowless s" and "closed_schema s" and "all_targets_known os (map ta_name s)"
  shows "rowless s' \<and> closed_schema s'"
  using assms
proof (induction os arbitrary: s)
  case (Cons o1 os)
  then obtain s1 where "change o1 s = Inr s1" "change_all os s1 = Inr s'" by (auto simp: bind_result_Inr)
  with change_rowless [of o1 s s1] Cons show ?case by auto
qed simp

lemma apply_rowless:
  assumes "rowless s" and "closed_schema s" and "all_targets_known os (map ta_name s)"
  shows "apply_operations os s = change_all os s"
  using assms
proof (induction os arbitrary: s)
  case (Cons o1 os)
  show ?case
  proof (cases "change o1 s")
    case (Inr s')
    with change_rowless [OF Inr] Cons rowless_ok [of s'] show ?thesis
      by (simp add: apply_operation_def)
  qed (simp add: apply_operation_def)
qed simp

section \<open>Inverse operations\<close>

text \<open>Tables whose constraints, indexes and rows speak of their columns only.\<close>

definition table_wf :: "sql_table \<Rightarrow> bool" where
  "table_wf t \<longleftrightarrow> distinct (column_names t)
     \<and> (\<forall>c \<in> set (ta_constraints t). set (constraint_columns c) \<subseteq> set (column_names t))
     \<and> (\<forall>ix \<in> set (ta_indexes t). set (ix_columns ix) \<subseteq> set (column_names t)
          \<and> (\<forall>c \<in> set_option (ix_where ix). c \<in> set (column_names t)))
     \<and> (\<forall>row \<in> set (ta_rows t). map fst row = column_names t)"

definition schema_wf :: "schema \<Rightarrow> bool" where
  "schema_wf s \<longleftrightarrow> distinct (map ta_name s) \<and> (\<forall>t \<in> set s. table_wf t)"

definition keeps_wf :: "(sql_table \<Rightarrow> sql_table result) \<Rightarrow> bool" where
  "keeps_wf f \<longleftrightarrow> (\<forall>t t'. table_wf t \<longrightarrow> f t = Inr t' \<longrightarrow> table_wf t' \<and> ta_name t' = ta_name t)"

lemma keeps_wf_functions:
  "keeps_wf (add_column c)" "keeps_wf (alter_nullable k b)" "keeps_wf (add_index ix)" "keeps_wf (drop_index k)"
  "keeps_wf (drop_constraint k)" "keeps_wf (update_rows_sql k e)" "keeps_wf (add_constraint con)"
proof -
  show "keeps_wf (add_column c)"
    by (auto simp: keeps_wf_def table_wf_def add_column_def column_names_def split: if_splits)
  have same: "table_wf t'" if "column_names t' = column_names t" "ta_constraints t' = ta_constraints t"
    "ta_indexes t' = ta_indexes t" "map (map fst) (ta_rows t') = map (map fst) (ta_rows t)" "table_wf t" for t t'
  proof -
    have "map fst ` set (ta_rows t') = map fst ` set (ta_rows t)" using that(4) by (metis list.set_map)
    then show ?thesis using that(1-3,5) by (simp add: table_wf_def) (metis image_iff)
  qed
  have "co_name \<circ> (\<lambda>x. if co_name x = k then x\<lparr>co_nullable := b\<rparr> else x) = co_name" by auto
  then have "table_wf (t\<lparr>ta_columns := map (\<lambda>x. if co_name x = k then x\<lparr>co_nullable := b\<rparr> else x) (ta_columns t)\<rparr>)"
    if "table_wf t" for t
    using that by - (rule same [of _ t], simp_all add: column_names_def)
  then show "keeps_wf (alter_nullable k b)" by (auto simp: keeps_wf_def alter_nullable_def split: if_splits)
  show "keeps_wf (add_index ix)"
    by (auto simp: keeps_wf_def table_wf_def add_index_def column_names_def split: if_splits option.splits)
  show "keeps_wf (drop_index k)" "keeps_wf (drop_constraint k)" "keeps_wf (add_constraint con)"
    by (auto simp: keeps_wf_def table_wf_def drop_index_def drop_constraint_def add_constraint_def column_names_def
        split: if_splits)
  have "map fst (map (\<lambda>(k', v). (k', if k' = k then eval_sql row e else v)) row') = map fst row'" for row row'
    by (simp add: case_prod_beta comp_def)
  then have "table_wf (t\<lparr>ta_rows := map (\<lambda>row. map (\<lambda>(k', v). (k', if k' = k then eval_sql row e else v)) row) (ta_rows t)\<rparr>)"
    if "table_wf t" for t
    using that by - (rule same [of _ t], simp_all add: column_names_def)
  then show "keeps_wf (update_rows_sql k e)" by (auto simp: keeps_wf_def update_rows_sql_def split: if_splits)
qed

text \<open>One function on a table undoes another.\<close>

definition undoes :: "(sql_table \<Rightarrow> sql_table result) \<Rightarrow> (sql_table \<Rightarrow> sql_table result) \<Rightarrow> bool" where
  "undoes g f \<longleftrightarrow> (\<forall>t t'. table_wf t \<longrightarrow> f t = Inr t' \<longrightarrow> g t' = Inr t)"

lemma filter_other_names: "n \<notin> f ` set xs \<Longrightarrow> filter (\<lambda>x. f x \<noteq> n) xs = xs"
  by (auto simp: filter_id_conv)

lemma undone:
  "undoes (drop_column (co_name c)) (add_column c)"
  "undoes (drop_index (ix_name ix)) (add_index ix)"
  "undoes (drop_constraint (constraint_name con)) (add_constraint con)"
proof -
  have "filter (\<lambda>kv. fst kv \<noteq> co_name c) row = row" if "map fst row = map co_name cols" "co_name c \<notin> co_name ` set cols"
    for row :: payload and cols :: "column list"
    using that(2) by (intro filter_other_names) (metis that(1) list.set_map)
  moreover have "filter (\<lambda>k. co_name c \<notin> set (constraint_columns k)) ks = ks"
    if "\<forall>k \<in> set ks. set (constraint_columns k) \<subseteq> co_name ` set cols" "co_name c \<notin> co_name ` set cols" for ks and cols :: "column list"
    using that by (auto simp: filter_id_conv)
  moreover have "filter (\<lambda>ix. co_name c \<notin> set (ix_columns ix) \<and> ix_where ix \<noteq> Some (co_name c)) xs = xs"
    if "\<forall>ix \<in> set xs. set (ix_columns ix) \<subseteq> co_name ` set cols \<and> (\<forall>c \<in> set_option (ix_where ix). c \<in> co_name ` set cols)"
      "co_name c \<notin> co_name ` set cols" for xs and cols :: "column list"
    using that by (auto simp: filter_id_conv)
  ultimately show "undoes (drop_column (co_name c)) (add_column c)"
    by (auto simp: undoes_def table_wf_def add_column_def drop_column_def column_names_def filter_other_names comp_def
        split: if_splits intro!: sql_table.equality map_idI)
  show "undoes (drop_index (ix_name ix)) (add_index ix)"
    by (auto simp: undoes_def add_index_def drop_index_def object_names_def filter_other_names split: if_splits)
  show "undoes (drop_constraint (constraint_name con)) (add_constraint con)"
    by (auto simp: undoes_def add_constraint_def drop_constraint_def object_names_def filter_other_names split: if_splits)
qed

lemma put_table_laws:
  "ta_name t = n \<Longrightarrow> find_table n s \<noteq> None \<Longrightarrow> find_table n (put_table n t s) = Some t"
  "ta_name t = n \<Longrightarrow> put_table n u (put_table n t s) = put_table n u s"
  "find_table n s = Some t \<Longrightarrow> distinct (map ta_name s) \<Longrightarrow> put_table n t s = s"
  "ta_name t = n \<Longrightarrow> map ta_name (put_table n t s) = map ta_name s"
proof -
  show "ta_name t = n \<Longrightarrow> find_table n s \<noteq> None \<Longrightarrow> find_table n (put_table n t s) = Some t"
    by (induction s) (auto simp: find_table_def put_table_def)
  show "ta_name t = n \<Longrightarrow> put_table n u (put_table n t s) = put_table n u s"
    "ta_name t = n \<Longrightarrow> map ta_name (put_table n t s) = map ta_name s"
    by (simp_all add: put_table_def)
  show "find_table n s = Some t \<Longrightarrow> distinct (map ta_name s) \<Longrightarrow> put_table n t s = s"
  proof (induction s)
    case (Cons u us)
    then have other: "ta_name x \<noteq> ta_name u" if "x \<in> set us" for x using that by (metis distinct.simps(2) image_eqI list.set_map list.simps(9))
    with Cons show ?case by (auto simp: find_table_def put_table_def split: if_splits intro!: map_idI dest: other)
  qed (simp add: put_table_def)
qed

lemma on_table_Inr:
  "on_table n f s = Inr s' \<longleftrightarrow> (\<exists>t t'. find_table n s = Some t \<and> f t = Inr t' \<and> s' = put_table n t' s)"
  by (auto simp: on_table_def bind_result_Inr split: option.split)

lemma on_table_wf:
  assumes "keeps_wf f" and "schema_wf s" and "on_table n f s = Inr s'"
  shows "schema_wf s'"
proof -
  from assms(3) obtain t t' where t: "find_table n s = Some t" "f t = Inr t'" "s' = put_table n t' s"
    by (auto simp: on_table_Inr)
  from find_table_SomeD [OF t(1)] assms(1,2) t(2) have "table_wf t'" "ta_name t' = n"
    by (auto simp: keeps_wf_def schema_wf_def)
  with assms(2) t(3) show ?thesis
    by (simp add: schema_wf_def put_table_laws) (auto simp: put_table_def)
qed

lemma on_table_undone:
  assumes "undoes g f" and "keeps_wf f" and "schema_wf s" and "on_table n f s = Inr s'"
  shows "on_table n g s' = Inr s"
proof -
  from assms(4) obtain t t' where t: "find_table n s = Some t" "f t = Inr t'" "s' = put_table n t' s"
    by (auto simp: on_table_Inr)
  from find_table_SomeD [OF t(1)] assms(1-3) t(2) have "g t' = Inr t" "ta_name t' = n" "distinct (map ta_name s)"
    by (auto simp: keeps_wf_def schema_wf_def undoes_def)
  with t show ?thesis by (auto simp: on_table_Inr put_table_laws)
qed

section \<open>Undoing a list of additions\<close>

fun inverse_op :: "operation \<Rightarrow> operation" where
  "inverse_op (AddColumn n c) = DropColumn n (co_name c)"
| "inverse_op (CreateIndex i n _ _ _) = DropIndex i n"
| "inverse_op (CreateUnique k n _) = DropConstraint k n"
| "inverse_op (CreateForeignKey k n _ _ _) = DropConstraint k n"
| "inverse_op o1 = o1"

fun is_addition :: "operation \<Rightarrow> bool" where
  "is_addition (AddColumn _ _) = True"
| "is_addition (CreateIndex _ _ _ _ _) = True"
| "is_addition (CreateUnique _ _ _) = True"
| "is_addition (CreateForeignKey _ _ _ _ _) = True"
| "is_addition _ = False"

lemma co_name_plain [simp]: "co_name (plain_column c) = co_name c"
  by (simp add: plain_column_def)

lemma addition_undone:
  assumes "is_addition o1" and "schema_wf s" and "change o1 s = Inr s'"
  shows "change (inverse_op o1) s' = Inr s \<and> schema_wf s'"
proof (cases o1)
  case (AddColumn n c)
  then show ?thesis
    using assms on_table_undone [OF undone(1) keeps_wf_functions(1), of s n "plain_column c" s']
      on_table_wf [OF keeps_wf_functions(1), of s n "plain_column c" s'] by simp
next
  case (CreateIndex i n cs u w)
  let ?ix = "\<lparr>ix_name = i, ix_columns = cs, ix_unique = u, ix_where = w\<rparr>"
  show ?thesis
    using CreateIndex assms on_table_undone [OF undone(2) keeps_wf_functions(3), of s n ?ix s']
      on_table_wf [OF keeps_wf_functions(3), of s n ?ix s'] by simp
next
  case (CreateUnique k n cs)
  then show ?thesis
    using assms on_table_undone [OF undone(3) keeps_wf_functions(7), of s n "Unique k cs" s']
      on_table_wf [OF keeps_wf_functions(7), of s n "Unique k cs" s'] by simp
next
  case (CreateForeignKey k n target cs ts)
  then show ?thesis
    using assms on_table_undone [OF undone(3) keeps_wf_functions(7), of s n "ForeignKey k cs target ts" s']
      on_table_wf [OF keeps_wf_functions(7), of s n "ForeignKey k cs target ts" s'] by simp
qed (use assms in simp_all)

lemma apply_operation_Inr:
  "apply_operation o1 s = Inr s' \<longleftrightarrow> change o1 s = Inr s' \<and> schema_ok s'"
  by (auto simp: apply_operation_def bind_result_Inr split: if_splits)

lemma additions_undone:
  assumes "list_all is_addition os" and "schema_wf s" and "schema_ok s" and "apply_operations os s = Inr s'"
  shows "apply_operations (rev (map inverse_op os)) s' = Inr s \<and> schema_wf s' \<and> schema_ok s'"
  using assms
proof (induction os arbitrary: s)
  case (Cons o1 os)
  from Cons.prems obtain s1 where s1: "change o1 s = Inr s1" "schema_ok s1" "apply_operations os s1 = Inr s'"
    by (auto simp: bind_result_Inr apply_operation_Inr)
  from addition_undone [OF _ Cons.prems(2) s1(1)] Cons.prems(1)
  have undo: "change (inverse_op o1) s1 = Inr s" and "schema_wf s1" by auto
  with Cons.IH [OF _ _ s1(2,3)] Cons.prems(1,3) show ?case
    by (simp add: apply_operations_append apply_operation_Inr [THEN iffD2])
qed simp

section \<open>Structure\<close>

text \<open>A schema without its rows; an operation acts on the description of a table alone.\<close>

definition structure_of :: "schema \<Rightarrow> schema" where
  "structure_of s = map (\<lambda>t. t\<lparr>ta_rows := []\<rparr>) s"

definition clear_rows :: "sql_table \<Rightarrow> sql_table" where
  "clear_rows t = t\<lparr>ta_rows := []\<rparr>"

lemma structure_map: "structure_of s = map clear_rows s"
  by (simp add: structure_of_def clear_rows_def [abs_def])

lemma clear_rows_simps [simp]:
  "ta_name (clear_rows t) = ta_name t" "ta_columns (clear_rows t) = ta_columns t"
  "ta_constraints (clear_rows t) = ta_constraints t" "ta_indexes (clear_rows t) = ta_indexes t"
  "ta_rows (clear_rows t) = []" "column_names (clear_rows t) = column_names t"
  "object_names (clear_rows t) = object_names t" "table_targets (clear_rows t) = table_targets t"
  by (simp_all add: clear_rows_def column_names_def object_names_def table_targets_def)

lemma structure_names [simp]: "map ta_name (structure_of s) = map ta_name s" "ta_name ` set (structure_of s) = ta_name ` set s"
  by (simp_all add: structure_map image_image)

lemma find_table_structure: "find_table n (structure_of s) = map_option clear_rows (find_table n s)"
  by (induction s) (simp_all add: structure_map find_table_def)

lemma put_table_structure: "structure_of (put_table n t s) = put_table n (clear_rows t) (structure_of s)"
  by (simp add: structure_map put_table_def)

definition on_structure :: "(sql_table \<Rightarrow> sql_table result) \<Rightarrow> bool" where
  "on_structure f \<longleftrightarrow> (\<forall>t t'. f t = Inr t' \<longrightarrow> f (clear_rows t) = Inr (clear_rows t'))"

lemma on_structure_functions:
  "on_structure (add_column c)" "on_structure (drop_column k)" "on_structure (alter_nullable k b)"
  "on_structure (add_index ix)" "on_structure (drop_index k)" "on_structure (drop_constraint k)"
  "on_structure (update_rows_sql k e)" "on_structure (add_constraint con)"
  by (auto simp: on_structure_def add_column_def drop_column_def alter_nullable_def add_index_def
      drop_index_def drop_constraint_def update_rows_sql_def add_constraint_def clear_rows_def
      column_names_def object_names_def split: option.splits)

lemma on_table_structure:
  "on_structure f \<Longrightarrow> on_table n f s = Inr s' \<Longrightarrow> on_table n f (structure_of s) = Inr (structure_of s')"
  by (auto simp: on_table_Inr find_table_structure put_table_structure on_structure_def)

lemma change_structure:
  assumes "change o1 s = Inr s'" and "\<And>n. o1 \<noteq> DropTable n" and "\<And>n cols us. o1 \<noteq> CreateTable n cols us"
  shows "change o1 (structure_of s) = Inr (structure_of s')"
  using assms by (cases o1) (auto intro!: on_table_structure on_structure_functions)

fun alters_table :: "operation \<Rightarrow> bool" where
  "alters_table (CreateTable _ _ _) = False"
| "alters_table (DropTable _) = False"
| "alters_table _ = True"

lemma apply_structure:
  assumes "list_all alters_table os" and "apply_operations os s = Inr s'"
  shows "change_all os (structure_of s) = Inr (structure_of s')"
  using assms
proof (induction os arbitrary: s)
  case (Cons o1 os)
  from Cons.prems obtain s1 where s1: "change o1 s = Inr s1" "apply_operations os s1 = Inr s'"
    by (auto simp: bind_result_Inr apply_operation_Inr)
  have "change o1 (structure_of s) = Inr (structure_of s1)"
    by (rule change_structure [OF s1(1)]) (use Cons.prems(1) in auto)
  with Cons.IH [OF _ s1(2)] Cons.prems(1) show ?case by simp
qed simp

section \<open>Changes of one column\<close>

definition set_nullable :: "string \<Rightarrow> bool \<Rightarrow> column \<Rightarrow> column" where
  "set_nullable c b x = (if co_name x = c then x\<lparr>co_nullable := b\<rparr> else x)"

lemma set_nullable_name [simp]: "co_name (set_nullable c b x) = co_name x"
  by (simp add: set_nullable_def)

lemma alter_nullable_Inr:
  "alter_nullable c b t = Inr t' \<longleftrightarrow>
     c \<in> set (column_names t) \<and> t' = t\<lparr>ta_columns := map (set_nullable c b) (ta_columns t)\<rparr>"
  by (auto simp: alter_nullable_def set_nullable_def [abs_def])

lemma column_names_set_nullable [simp]:
  "column_names (t\<lparr>ta_columns := map (set_nullable c b) cols\<rparr>) = map co_name cols"
  by (simp add: column_names_def comp_def)

text \<open>Dropping a column forgets what was done to it.\<close>

lemma drop_column_forgets:
  "alter_nullable c b t = Inr t' \<Longrightarrow> drop_column c t' = drop_column c t"
  "update_rows_sql c e t = Inr t' \<Longrightarrow> drop_column c t' = drop_column c t"
proof -
  have "filter (\<lambda>x. co_name x \<noteq> c) (map (set_nullable c b) cols) = filter (\<lambda>x. co_name x \<noteq> c) cols" for cols
    by (induction cols) (auto simp: set_nullable_def)
  then show "alter_nullable c b t = Inr t' \<Longrightarrow> drop_column c t' = drop_column c t"
    by (auto simp: alter_nullable_Inr drop_column_def) (simp_all add: column_names_def)
  have "filter (\<lambda>kv. fst kv \<noteq> c) (map (\<lambda>(k, v). (k, if k = c then w else v)) row) = filter (\<lambda>kv. fst kv \<noteq> c) row"
    for w and row :: payload
    by (induction row) auto
  then show "update_rows_sql c e t = Inr t' \<Longrightarrow> drop_column c t' = drop_column c t"
    by (auto simp: update_rows_sql_def drop_column_def column_names_def split: if_splits)
qed

text \<open>Setting a column to be nullable and back, when it was not.\<close>

lemma alter_nullable_back:
  assumes "alter_nullable c True t = Inr t'" and "\<forall>x \<in> set (ta_columns t). co_name x = c \<longrightarrow> \<not> co_nullable x"
  shows "alter_nullable c False t' = Inr t"
proof -
  have "map (set_nullable c False) (map (set_nullable c True) (ta_columns t)) = ta_columns t"
    using assms(2) by (intro map_idI [THEN trans [OF map_map]]) (auto simp: set_nullable_def)
  with assms(1) show ?thesis by (auto simp: alter_nullable_Inr column_names_def)
qed

text \<open>A COALESCE that starts with a column that is never NULL assigns the column to itself.\<close>

lemma coalesce_unchanged:
  assumes "table_wf t" and "c \<in> set (column_names t)" and "\<forall>row \<in> set (ta_rows t). cell row c \<noteq> JNull"
  shows "update_rows_sql c (SQL_Coalesce (SQL_Column c # es)) t = Inr t"
proof -
  have "map (\<lambda>(k, v). (k, if k = c then cell row c else v)) row = row" if "row \<in> set (ta_rows t)" for row
  proof -
    have "distinct (map fst row)" using assms(1) that by (simp add: table_wf_def)
    then have "cell row k = v" if "(k, v) \<in> set row" for k v using that by (simp add: cell_def)
    then show ?thesis by (intro map_idI) auto
  qed
  note kept = this
  have "map (\<lambda>row. map (\<lambda>(k, v). (k, if k = c then eval_sql row (SQL_Coalesce (SQL_Column c # es)) else v)) row)
      (ta_rows t) = ta_rows t"
  proof (rule map_idI)
    fix row
    assume row: "row \<in> set (ta_rows t)"
    with assms(3) have "eval_sql row (SQL_Coalesce (SQL_Column c # es)) = cell row c" by simp
    with kept [OF row]
    show "map (\<lambda>(k, v). (k, if k = c then eval_sql row (SQL_Coalesce (SQL_Column c # es)) else v)) row = row"
      by (simp only:)
  qed
  with assms(2) show ?thesis by (simp add: update_rows_sql_def)
qed

lemma drop_constraint_back:
  assumes "drop_constraint (constraint_name k) t = Inr t'" and "ta_constraints t = ks @ [k]"
    and "distinct (object_names t)" and "table_wf t"
  shows "add_constraint k t' = Inr t"
proof -
  have "constraint_name k \<notin> constraint_name ` set ks \<union> ix_name ` set (ta_indexes t)"
    using assms(2,3) by (auto simp: object_names_def)
  moreover have "filter (\<lambda>c. constraint_name c \<noteq> constraint_name k) ks = ks"
    using calculation by (intro filter_other_names) auto
  ultimately show ?thesis
    using assms(1,2,4) by (auto simp: drop_constraint_def add_constraint_def object_names_def column_names_def table_wf_def
        split: if_splits)
qed

end
