(* ===== verification/Migrations.thy ===== *)
theory Migrations
  imports Schema
begin

text \<open>
  The migrations of \<^verbatim>\<open>migrations/versions\<close>, each with its revision, the one it follows, and the
  operations of \<^verbatim>\<open>upgrade\<close> and \<^verbatim>\<open>downgrade\<close> in their order, and the tables that the declarations of
  \<^verbatim>\<open>app/persistence/models.py\<close> describe, as the statements that create them.
\<close>

section \<open>0001: the initial schema\<close>

definition upgrade_0001 :: "operation list" where
  "upgrade_0001 =
     [CreateTable ''properties''
        [primary_id, (sa_column ''key'' (SQL_String 120) False)\<lparr>cs_unique := True\<rparr>,
         sa_column ''name'' (SQL_String 255) False, sa_column ''timezone'' (SQL_String 80) False]
        [],
      CreateTable ''rooms''
        [primary_id, fk_column ''property_id'' ''properties'' False,
         sa_column ''key'' (SQL_String 80) False, sa_column ''name'' (SQL_String 255) False,
         sa_column ''floor'' (SQL_String 80) False, sa_column ''clock_room_id'' (SQL_String 120) True,
         sa_column ''enabled'' SQL_Boolean False]
        [[''property_id'', ''clock_room_id'']],
      CreateTable ''bookings''
        [primary_id, fk_column ''property_id'' ''properties'' False,
         sa_column ''clock_booking_id'' (SQL_String 120) False,
         sa_column ''booking_number'' (SQL_String 120) True,
         sa_column ''external_source'' (SQL_String 120) True,
         sa_column ''external_reference'' (SQL_String 255) True,
         sa_column ''booking_status'' (SQL_String 80) False,
         sa_column ''source_booking_status'' (SQL_String 120) False,
         sa_column ''arrival_date'' SQL_Date False, sa_column ''departure_date'' SQL_Date False,
         sa_column ''created_at'' SQL_DateTime True, sa_column ''updated_at'' SQL_DateTime True,
         sa_column ''status_changed_at'' SQL_DateTime True,
         sa_column ''room_type_id'' (SQL_String 120) True,
         sa_column ''room_type_name'' (SQL_String 255) True, sa_column ''adults'' SQL_Integer True,
         sa_column ''children'' SQL_Integer True, sa_column ''first_seen_at'' SQL_DateTime False,
         sa_column ''last_seen_at'' SQL_DateTime False, sa_column ''payload_hash'' (SQL_String 64) False,
         sa_column ''needs_attention'' SQL_Boolean False,
         sa_column ''attention_reason'' (SQL_String 120) True]
        [[''property_id'', ''clock_booking_id'']],
      CreateTable ''booking_room_assignments''
        [primary_id, fk_column ''booking_id'' ''bookings'' False, fk_column ''room_id'' ''rooms'' True,
         sa_column ''clock_room_id'' (SQL_String 120) True,
         sa_column ''physical_room_number'' (SQL_String 120) True,
         sa_column ''assigned_at'' SQL_DateTime False, sa_column ''removed_at'' SQL_DateTime True,
         sa_column ''is_current'' SQL_Boolean False]
        [[''booking_id'', ''is_current'']],
      CreateTable ''room_states''
        [primary_id, fk_column ''room_id'' ''rooms'' False,
         sa_column ''automation_phase'' (SQL_String 80) False, fk_column ''booking_id'' ''bookings'' True,
         sa_column ''needs_attention'' SQL_Boolean False,
         sa_column ''attention_reason'' (SQL_String 120) True,
         sa_column ''effective_from'' SQL_DateTime False, sa_column ''expires_at'' SQL_DateTime True,
         sa_column ''intent_version'' SQL_Integer False, sa_column ''payload_hash'' (SQL_String 64) False,
         sa_column ''created_at'' SQL_DateTime False]
        [],
      CreateTable ''room_policy_overrides''
        [primary_id, fk_column ''room_id'' ''rooms'' False,
         (sa_column ''command_id'' SQL_UUID False)\<lparr>cs_unique := True\<rparr>,
         sa_column ''control_mode'' (SQL_String 80) False, sa_column ''hvac_mode'' (SQL_String 80) True,
         sa_column ''target_temperature_c'' SQL_Float True,
         sa_column ''water_heater_enabled'' SQL_Boolean True, sa_column ''starts_at'' SQL_DateTime False,
         sa_column ''expires_at'' SQL_DateTime True, sa_column ''until_checkout'' SQL_Boolean False,
         sa_column ''created_by'' (SQL_String 120) True]
        [],
      CreateTable ''sync_cursors''
        [primary_id, fk_column ''property_id'' ''properties'' False,
         sa_column ''source'' (SQL_String 80) False, sa_column ''cursor_value'' SQL_Text True,
         sa_column ''last_success_at'' SQL_DateTime True, sa_column ''updated_at'' SQL_DateTime False]
        [],
      CreateTable ''sync_runs''
        [primary_id, fk_column ''property_id'' ''properties'' False,
         sa_column ''started_at'' SQL_DateTime False, sa_column ''finished_at'' SQL_DateTime True,
         sa_column ''status'' (SQL_String 80) False, sa_column ''processed_bookings'' SQL_Integer False,
         sa_column ''error_classification'' (SQL_String 120) True,
         sa_column ''correlation_id'' SQL_UUID False]
        [],
      CreateTable ''outbox_events''
        [primary_id, sa_column ''topic'' SQL_Text False, sa_column ''payload'' SQL_JSONB False,
         sa_column ''qos'' SQL_Integer False, sa_column ''retain'' SQL_Boolean False,
         sa_column ''status'' (SQL_String 80) False, sa_column ''attempts'' SQL_Integer False,
         sa_column ''created_at'' SQL_DateTime False, sa_column ''published_at'' SQL_DateTime True,
         sa_column ''correlation_id'' SQL_UUID False]
        [],
      CreateTable ''audit_events''
        [primary_id, fk_column ''property_id'' ''properties'' True, fk_column ''room_id'' ''rooms'' True,
         fk_column ''booking_id'' ''bookings'' True, sa_column ''event_type'' (SQL_String 120) False,
         sa_column ''message'' SQL_Text False, sa_column ''payload'' SQL_JSONB True,
         sa_column ''created_at'' SQL_DateTime False, sa_column ''correlation_id'' SQL_UUID False]
        []]"

definition downgrade_0001 :: "operation list" where
  "downgrade_0001 =
     map DropTable
       [''audit_events'', ''outbox_events'', ''sync_runs'', ''sync_cursors'', ''room_policy_overrides'',
        ''room_states'', ''booking_room_assignments'', ''bookings'', ''rooms'', ''properties'']"

section \<open>0002: the uniqueness constraints\<close>

definition upgrade_0002 :: "operation list" where
  "upgrade_0002 =
     [DropConstraint ''booking_room_assignments_booking_id_is_current_key'' ''booking_room_assignments'',
      CreateIndex ''uq_booking_room_assignments_current'' ''booking_room_assignments'' [''booking_id''] True
        (Some ''is_current''),
      CreateUnique ''uq_rooms_property_key'' ''rooms'' [''property_id'', ''key''],
      CreateUnique ''uq_sync_cursors_property_source'' ''sync_cursors'' [''property_id'', ''source'']]"

definition downgrade_0002 :: "operation list" where
  "downgrade_0002 =
     [DropConstraint ''uq_sync_cursors_property_source'' ''sync_cursors'',
      DropConstraint ''uq_rooms_property_key'' ''rooms'',
      DropIndex ''uq_booking_room_assignments_current'' ''booking_room_assignments'',
      CreateUnique ''booking_room_assignments_booking_id_is_current_key'' ''booking_room_assignments''
        [''booking_id'', ''is_current'']]"

section \<open>0003: retries and claims of the outbox\<close>

definition upgrade_0003 :: "operation list" where
  "upgrade_0003 =
     [AddColumn ''outbox_events'' (sa_column ''next_attempt_at'' SQL_DateTime True),
      AddColumn ''outbox_events'' (sa_column ''last_error'' SQL_Text True),
      AddColumn ''outbox_events'' (sa_column ''claimed_at'' SQL_DateTime True),
      AddColumn ''outbox_events'' (sa_column ''claimed_by'' (SQL_String 120) True),
      CreateIndex ''ix_outbox_events_claimable'' ''outbox_events'' [''status'', ''next_attempt_at'', ''created_at'']
        False None]"

definition downgrade_0003 :: "operation list" where
  "downgrade_0003 =
     [DropIndex ''ix_outbox_events_claimable'' ''outbox_events'', DropColumn ''outbox_events'' ''claimed_by'',
      DropColumn ''outbox_events'' ''claimed_at'', DropColumn ''outbox_events'' ''last_error'',
      DropColumn ''outbox_events'' ''next_attempt_at'']"

section \<open>0004: the booking of an override\<close>

definition upgrade_0004 :: "operation list" where
  "upgrade_0004 =
     [AddColumn ''room_policy_overrides'' (sa_column ''booking_id'' SQL_UUID True),
      AddColumn ''room_policy_overrides'' (sa_column ''checkout_at'' SQL_DateTime True),
      CreateForeignKey ''fk_room_policy_overrides_booking_id'' ''room_policy_overrides'' ''bookings'' [''booking_id'']
        [''id'']]"

definition downgrade_0004 :: "operation list" where
  "downgrade_0004 =
     [DropConstraint ''fk_room_policy_overrides_booking_id'' ''room_policy_overrides'',
      DropColumn ''room_policy_overrides'' ''checkout_at'', DropColumn ''room_policy_overrides'' ''booking_id'']"

section \<open>0005: the entrance of a room\<close>

definition upgrade_0005 :: "operation list" where
  "upgrade_0005 =
     [AddColumn ''rooms'' (sa_column ''entrance_key'' (SQL_String 120) True),
      UpdateRows ''rooms'' ''entrance_key'' (SQL_Const (JStr ''legacy_unassigned'')),
      AlterNullable ''rooms'' ''entrance_key'' False,
      AlterNullable ''rooms'' ''floor'' True,
      CreateIndex ''ix_rooms_property_entrance_key'' ''rooms'' [''property_id'', ''entrance_key''] False None]"

definition downgrade_0005 :: "operation list" where
  "downgrade_0005 =
     [DropIndex ''ix_rooms_property_entrance_key'' ''rooms'',
      UpdateRows ''rooms'' ''floor''
        (SQL_Coalesce [SQL_Column ''floor'', SQL_Column ''entrance_key'', SQL_Const (JStr ''legacy'')]),
      AlterNullable ''rooms'' ''floor'' False,
      DropColumn ''rooms'' ''entrance_key'']"

section \<open>The chain\<close>

record migration =
  mg_revision :: string
  mg_down_revision :: "string option"
  mg_upgrade :: "operation list"
  mg_downgrade :: "operation list"

definition migrations :: "migration list" where
  "migrations =
     [\<lparr>mg_revision = ''20260617_0001'', mg_down_revision = None,
       mg_upgrade = upgrade_0001, mg_downgrade = downgrade_0001\<rparr>,
      \<lparr>mg_revision = ''20260617_0002'', mg_down_revision = Some ''20260617_0001'',
       mg_upgrade = upgrade_0002, mg_downgrade = downgrade_0002\<rparr>,
      \<lparr>mg_revision = ''20260617_0003'', mg_down_revision = Some ''20260617_0002'',
       mg_upgrade = upgrade_0003, mg_downgrade = downgrade_0003\<rparr>,
      \<lparr>mg_revision = ''20260618_0004'', mg_down_revision = Some ''20260617_0003'',
       mg_upgrade = upgrade_0004, mg_downgrade = downgrade_0004\<rparr>,
      \<lparr>mg_revision = ''20260618_0005'', mg_down_revision = Some ''20260618_0004'',
       mg_upgrade = upgrade_0005, mg_downgrade = downgrade_0005\<rparr>]"

text \<open>Following the chain upwards from a revision, one migration after another.\<close>

fun upgrade_from :: "nat \<Rightarrow> string option \<Rightarrow> schema \<Rightarrow> schema result" where
  "upgrade_from 0 r s = Inr s"
| "upgrade_from (Suc n) r s =
     (case find (\<lambda>m. mg_down_revision m = r) migrations of
        None \<Rightarrow> Inr s
      | Some m \<Rightarrow> bind_result (apply_operations (mg_upgrade m) s) (upgrade_from n (Some (mg_revision m))))"

definition upgrade_to_head :: "schema \<Rightarrow> schema result" where
  "upgrade_to_head s = upgrade_from (length migrations) None s"

section \<open>The tables of the models\<close>

definition model_tables :: "operation list" where
  "model_tables =
     [CreateTable ''properties''
        [primary_id, (sa_column ''key'' (SQL_String 120) False)\<lparr>cs_unique := True\<rparr>,
         sa_column ''name'' (SQL_String 255) False, sa_column ''timezone'' (SQL_String 80) False]
        [],
      CreateTable ''rooms''
        [primary_id, fk_column ''property_id'' ''properties'' False,
         sa_column ''key'' (SQL_String 80) False, sa_column ''name'' (SQL_String 255) False,
         sa_column ''entrance_key'' (SQL_String 120) False, sa_column ''floor'' (SQL_String 80) True,
         sa_column ''clock_room_id'' (SQL_String 120) True, sa_column ''enabled'' SQL_Boolean False]
        [[''property_id'', ''key''], [''property_id'', ''clock_room_id'']],
      CreateTable ''bookings''
        [primary_id, fk_column ''property_id'' ''properties'' False,
         sa_column ''clock_booking_id'' (SQL_String 120) False,
         sa_column ''booking_number'' (SQL_String 120) True,
         sa_column ''external_source'' (SQL_String 120) True,
         sa_column ''external_reference'' (SQL_String 255) True,
         sa_column ''booking_status'' (SQL_String 80) False,
         sa_column ''source_booking_status'' (SQL_String 120) False,
         sa_column ''arrival_date'' SQL_Date False, sa_column ''departure_date'' SQL_Date False,
         sa_column ''created_at'' SQL_DateTime True, sa_column ''updated_at'' SQL_DateTime True,
         sa_column ''status_changed_at'' SQL_DateTime True,
         sa_column ''room_type_id'' (SQL_String 120) True,
         sa_column ''room_type_name'' (SQL_String 255) True, sa_column ''adults'' SQL_Integer True,
         sa_column ''children'' SQL_Integer True, sa_column ''first_seen_at'' SQL_DateTime False,
         sa_column ''last_seen_at'' SQL_DateTime False, sa_column ''payload_hash'' (SQL_String 64) False,
         sa_column ''needs_attention'' SQL_Boolean False,
         sa_column ''attention_reason'' (SQL_String 120) True]
        [[''property_id'', ''clock_booking_id'']],
      CreateTable ''booking_room_assignments''
        [primary_id, fk_column ''booking_id'' ''bookings'' False, fk_column ''room_id'' ''rooms'' True,
         sa_column ''clock_room_id'' (SQL_String 120) True,
         sa_column ''physical_room_number'' (SQL_String 120) True,
         sa_column ''assigned_at'' SQL_DateTime False, sa_column ''removed_at'' SQL_DateTime True,
         sa_column ''is_current'' SQL_Boolean False]
        [],
      CreateIndex ''uq_booking_room_assignments_current'' ''booking_room_assignments'' [''booking_id''] True (Some ''is_current''),
      CreateTable ''room_states''
        [primary_id, fk_column ''room_id'' ''rooms'' False,
         sa_column ''automation_phase'' (SQL_String 80) False, fk_column ''booking_id'' ''bookings'' True,
         sa_column ''needs_attention'' SQL_Boolean False,
         sa_column ''attention_reason'' (SQL_String 120) True,
         sa_column ''effective_from'' SQL_DateTime False, sa_column ''expires_at'' SQL_DateTime True,
         sa_column ''intent_version'' SQL_Integer False, sa_column ''payload_hash'' (SQL_String 64) False,
         sa_column ''created_at'' SQL_DateTime False]
        [],
      CreateTable ''room_policy_overrides''
        [primary_id, fk_column ''room_id'' ''rooms'' False, fk_column ''booking_id'' ''bookings'' True,
         (sa_column ''command_id'' SQL_UUID False)\<lparr>cs_unique := True\<rparr>,
         sa_column ''control_mode'' (SQL_String 80) False, sa_column ''hvac_mode'' (SQL_String 80) True,
         sa_column ''target_temperature_c'' SQL_Float True,
         sa_column ''water_heater_enabled'' SQL_Boolean True, sa_column ''starts_at'' SQL_DateTime False,
         sa_column ''expires_at'' SQL_DateTime True, sa_column ''checkout_at'' SQL_DateTime True,
         sa_column ''until_checkout'' SQL_Boolean False, sa_column ''created_by'' (SQL_String 120) True]
        [],
      CreateTable ''sync_cursors''
        [primary_id, fk_column ''property_id'' ''properties'' False,
         sa_column ''source'' (SQL_String 80) False, sa_column ''cursor_value'' SQL_Text True,
         sa_column ''last_success_at'' SQL_DateTime True, sa_column ''updated_at'' SQL_DateTime False]
        [[''property_id'', ''source'']],
      CreateTable ''sync_runs''
        [primary_id, fk_column ''property_id'' ''properties'' False,
         sa_column ''started_at'' SQL_DateTime False, sa_column ''finished_at'' SQL_DateTime True,
         sa_column ''status'' (SQL_String 80) False, sa_column ''processed_bookings'' SQL_Integer False,
         sa_column ''error_classification'' (SQL_String 120) True,
         sa_column ''correlation_id'' SQL_UUID False]
        [],
      CreateTable ''outbox_events''
        [primary_id, sa_column ''topic'' SQL_Text False, sa_column ''payload'' SQL_JSONB False,
         sa_column ''qos'' SQL_Integer False, sa_column ''retain'' SQL_Boolean False,
         sa_column ''status'' (SQL_String 80) False, sa_column ''attempts'' SQL_Integer False,
         sa_column ''next_attempt_at'' SQL_DateTime True, sa_column ''last_error'' SQL_Text True,
         sa_column ''claimed_at'' SQL_DateTime True, sa_column ''claimed_by'' (SQL_String 120) True,
         sa_column ''created_at'' SQL_DateTime False, sa_column ''published_at'' SQL_DateTime True,
         sa_column ''correlation_id'' SQL_UUID False]
        [],
      CreateTable ''audit_events''
        [primary_id, fk_column ''property_id'' ''properties'' True, fk_column ''room_id'' ''rooms'' True,
         fk_column ''booking_id'' ''bookings'' True, sa_column ''event_type'' (SQL_String 120) False,
         sa_column ''message'' SQL_Text False, sa_column ''payload'' SQL_JSONB True,
         sa_column ''created_at'' SQL_DateTime False, sa_column ''correlation_id'' SQL_UUID False]
        []]"

definition create_all :: "schema result" where
  "create_all = apply_operations model_tables []"

end
