(* ===== verification/Migration_Theorems.thy ===== *)
theory Migration_Theorems
  imports Schema_Laws Migrations Persistence
begin

text \<open>
  The properties of the migrations: the schema they lead to is the one of the models, a downgrade
  undoes its upgrade on any data, and the uniqueness checks of the session model are those of the
  migrated tables.
\<close>

section \<open>The chain\<close>

definition upgrades_to :: "nat \<Rightarrow> operation list" where
  "upgrades_to k = concat (map mg_upgrade (take k migrations))"

lemma migration_upgrades:
  "map mg_upgrade migrations = [upgrade_0001, upgrade_0002, upgrade_0003, upgrade_0004, upgrade_0005]"
  "map mg_downgrade migrations = [downgrade_0001, downgrade_0002, downgrade_0003, downgrade_0004, downgrade_0005]"
  by (simp_all add: migrations_def)

lemma chain_steps:
  "upgrade_from 0 r = Inr"
  "upgrade_from (Suc n) None
     = (\<lambda>s. bind_result (apply_operations upgrade_0001 s) (upgrade_from n (Some ''20260617_0001'')))"
  "upgrade_from (Suc n) (Some ''20260617_0001'')
     = (\<lambda>s. bind_result (apply_operations upgrade_0002 s) (upgrade_from n (Some ''20260617_0002'')))"
  "upgrade_from (Suc n) (Some ''20260617_0002'')
     = (\<lambda>s. bind_result (apply_operations upgrade_0003 s) (upgrade_from n (Some ''20260617_0003'')))"
  "upgrade_from (Suc n) (Some ''20260617_0003'')
     = (\<lambda>s. bind_result (apply_operations upgrade_0004 s) (upgrade_from n (Some ''20260618_0004'')))"
  "upgrade_from (Suc n) (Some ''20260618_0004'')
     = (\<lambda>s. bind_result (apply_operations upgrade_0005 s) (upgrade_from n (Some ''20260618_0005'')))"
  by (rule ext, simp add: migrations_def)+

lemma bind_result_Inr_right: "bind_result r Inr = r"
  by (cases r) simp_all

text \<open>The revisions name each other without a gap, so the order of the list is the one of the chain.\<close>

lemma upgrade_to_head_chain: "upgrade_to_head s = apply_operations (upgrades_to 5) s"
proof -
  have "length migrations = Suc (Suc (Suc (Suc (Suc 0))))" by (simp add: migrations_def)
  moreover have "upgrades_to 5 = upgrade_0001 @ upgrade_0002 @ upgrade_0003 @ upgrade_0004 @ upgrade_0005"
    by (simp add: upgrades_to_def migrations_def)
  moreover have "apply_operations (os @ os') = (\<lambda>s. bind_result (apply_operations os s) (apply_operations os'))" for os os'
    by (rule ext) (rule apply_operations_append)
  ultimately show ?thesis
    unfolding upgrade_to_head_def by (simp only: chain_steps bind_result_Inr_right)
qed

lemma rowless_Nil [simp]: "rowless []" "closed_schema []"
  by (simp_all add: rowless_def closed_schema_def)

lemma chain_targets: "all_targets_known (upgrades_to 5) []" "all_targets_known model_tables []"
  by code_simp+

lemma all_targets_known_append: "all_targets_known (os @ os') ns \<Longrightarrow> all_targets_known os ns"
  by (induction os arbitrary: ns) auto

lemma upgrades_to_prefix: "k \<le> 5 \<Longrightarrow> \<exists>rest. upgrades_to 5 = upgrades_to k @ rest"
  unfolding upgrades_to_def by (metis append_take_drop_id concat_append map_append min.absorb1 take_take)

lemma empty_upgrades: "k \<le> 5 \<Longrightarrow> apply_operations (upgrades_to k) [] = change_all (upgrades_to k) []"
  using upgrades_to_prefix [of k] all_targets_known_append chain_targets(1)
  by (intro apply_rowless) auto

section \<open>The models\<close>

fun nameless :: "table_constraint \<Rightarrow> table_constraint" where
  "nameless (PrimaryKey _ cs) = PrimaryKey [] cs"
| "nameless (Unique _ cs) = Unique [] cs"
| "nameless (ForeignKey _ cs target ts) = ForeignKey [] cs target ts"

text \<open>The same table up to the order of its columns, the names of its constraints and plain indexes.\<close>

definition same_table :: "sql_table \<Rightarrow> sql_table \<Rightarrow> bool" where
  "same_table t u =
     (ta_name t = ta_name u \<and> set (ta_columns t) = set (ta_columns u)
      \<and> nameless ` set (ta_constraints t) = nameless ` set (ta_constraints u)
      \<and> set (filter ix_unique (ta_indexes t)) = set (filter ix_unique (ta_indexes u)))"

definition plain_indexes :: "schema \<Rightarrow> (string \<times> string list) list" where
  "plain_indexes s =
     concat (map (\<lambda>t. map (\<lambda>ix. (ta_name t, ix_columns ix)) (filter (\<lambda>ix. \<not> ix_unique ix) (ta_indexes t))) s)"

lemma head_and_models:
  "case change_all (upgrades_to 5) [] of
     Inl _ \<Rightarrow> False
   | Inr s \<Rightarrow>
       (case change_all model_tables [] of
          Inl _ \<Rightarrow> False
        | Inr m \<Rightarrow> list_all2 same_table s m
            \<and> plain_indexes s = [(''rooms'', [''property_id'', ''entrance_key'']),
                                 (''outbox_events'', [''status'', ''next_attempt_at'', ''created_at''])]
            \<and> plain_indexes m = [])"
  by code_simp

section \<open>Databases at a revision\<close>

text \<open>The structure the first \<open>k\<close> migrations produce, with any rows that it admits.\<close>

definition rows_shaped :: "schema \<Rightarrow> bool" where
  "rows_shaped s \<longleftrightarrow> (\<forall>t \<in> set s. \<forall>row \<in> set (ta_rows t). map fst row = column_names t)"

definition at_revision :: "nat \<Rightarrow> schema \<Rightarrow> bool" where
  "at_revision k s \<longleftrightarrow>
     apply_operations (upgrades_to k) [] = Inr (structure_of s) \<and> rows_shaped s \<and> schema_ok s"

definition assignments_key :: table_constraint where
  "assignments_key = Unique ''booking_room_assignments_booking_id_is_current_key'' [''booking_id'', ''is_current'']"

lemma initial_structure:
  "case change_all upgrade_0001 [] of
     Inl _ \<Rightarrow> False
   | Inr s \<Rightarrow> schema_wf s
       \<and> (case find_table ''booking_room_assignments'' s of
            None \<Rightarrow> False
          | Some t \<Rightarrow> distinct (object_names t) \<and> ta_constraints t \<noteq> [] \<and> last (ta_constraints t) = assignments_key)"
  by code_simp

lemma floor_structure:
  "case change_all (upgrades_to 4) [] of
     Inl _ \<Rightarrow> False
   | Inr s \<Rightarrow>
       (case find_table ''rooms'' s of
          None \<Rightarrow> False
        | Some t \<Rightarrow> \<not> list_ex (\<lambda>c. co_name c = ''floor'' \<and> co_nullable c) (ta_columns t) \<and> ''floor'' \<in> set (column_names t))"
  by code_simp

lemma additions_of:
  "list_all is_addition (tl upgrade_0002)" "list_all is_addition upgrade_0003" "list_all is_addition upgrade_0004"
  "rev (map inverse_op upgrade_0003) = downgrade_0003" "rev (map inverse_op upgrade_0004) = downgrade_0004"
  "rev (map inverse_op (tl upgrade_0002)) = butlast downgrade_0002"
  "list_all alters_table (upgrade_0002 @ upgrade_0003 @ upgrade_0004 @ upgrade_0005)"
  by (simp_all add: upgrade_0002_def upgrade_0003_def upgrade_0004_def upgrade_0005_def downgrade_0002_def
      downgrade_0003_def downgrade_0004_def sa_column_def)

text \<open>The upgrades after the first keep schemas well formed.\<close>

lemma change_wf:
  assumes "alters_table o1" and "\<And>n c. o1 \<noteq> DropColumn n c" and "schema_wf s" and "change o1 s = Inr s'"
  shows "schema_wf s'"
  using assms by (cases o1) (auto intro: on_table_wf keeps_wf_functions)

fun drops_column :: "operation \<Rightarrow> bool" where
  "drops_column (DropColumn _ _) = True"
| "drops_column _ = False"

lemma changes_wf:
  assumes "list_all (\<lambda>o1. alters_table o1 \<and> \<not> drops_column o1) os" and "schema_wf s" and "change_all os s = Inr s'"
  shows "schema_wf s'"
  using assms
proof (induction os arbitrary: s)
  case (Cons o1 os)
  from Cons.prems obtain s1 where s1: "change o1 s = Inr s1" "change_all os s1 = Inr s'" by (auto simp: bind_result_Inr)
  have "schema_wf s1" by (rule change_wf [OF _ _ Cons.prems(2) s1(1)]) (use Cons.prems(1) in auto)
  with Cons.IH s1(2) Cons.prems(1) show ?case by auto
qed simp

lemma structure_wf: "schema_wf (structure_of s) \<Longrightarrow> rows_shaped s \<Longrightarrow> schema_wf s"
  by (auto simp: schema_wf_def table_wf_def rows_shaped_def structure_map comp_def)

lemma at_revision_wf:
  assumes "at_revision k s" and "1 \<le> k" and "k \<le> 5"
  shows "schema_wf s"
proof -
  obtain later where later: "upgrades_to k = upgrade_0001 @ later" "set later \<subseteq> set (upgrade_0002 @ upgrade_0003 @ upgrade_0004 @ upgrade_0005)"
  proof -
    from assms(2) obtain j where "k = Suc j" by (metis One_nat_def Suc_le_D)
    then have "upgrades_to k = upgrade_0001 @ concat (take j [upgrade_0002, upgrade_0003, upgrade_0004, upgrade_0005])"
      by (simp add: upgrades_to_def take_map [symmetric] migration_upgrades)
    then show ?thesis by (rule that) (auto dest: in_set_takeD)
  qed
  have "list_all (\<lambda>o1. alters_table o1 \<and> \<not> drops_column o1) (upgrade_0002 @ upgrade_0003 @ upgrade_0004 @ upgrade_0005)"
    by (simp add: upgrade_0002_def upgrade_0003_def upgrade_0004_def upgrade_0005_def)
  with later(2) have ops: "list_all (\<lambda>o1. alters_table o1 \<and> \<not> drops_column o1) later" by (auto simp: list_all_iff)
  from assms(1) empty_upgrades [OF assms(3)] have "change_all (upgrade_0001 @ later) [] = Inr (structure_of s)"
    by (simp add: at_revision_def later(1))
  then obtain s1 where s1: "change_all upgrade_0001 [] = Inr s1" "change_all later s1 = Inr (structure_of s)"
    by (auto simp: change_all_append bind_result_Inr)
  with initial_structure have "schema_wf s1" by simp
  from changes_wf [OF ops this s1(2)] have "schema_wf (structure_of s)" .
  with assms(1) show ?thesis by (simp add: at_revision_def structure_wf)
qed

section \<open>Downgrades\<close>

lemma apply_one: "apply_operations [o1] s = apply_operation o1 s"
  by (simp add: bind_result_def split: sum.split)

lemma structure_table:
  assumes "at_revision k s" and "k \<le> 5"
    and "case change_all (upgrades_to k) [] of Inl _ \<Rightarrow> False
         | Inr u \<Rightarrow> (case find_table n u of None \<Rightarrow> False | Some t \<Rightarrow> P t)"
  shows "\<exists>t. find_table n s = Some t \<and> P (clear_rows t)"
  using assms empty_upgrades [OF assms(2)]
  by (auto simp: at_revision_def find_table_structure split: option.splits)

text \<open>The initial tables are dropped in an order in which no table refers to a dropped one.\<close>

lemma initial_dropped:
  "case change_all upgrade_0001 [] of
     Inl _ \<Rightarrow> False
   | Inr s \<Rightarrow> all_targets_known downgrade_0001 (map ta_name s) \<and> change_all downgrade_0001 s = Inr []"
  by code_simp

lemma initial_runs:
  "apply_operations upgrade_0001 [] = change_all upgrade_0001 []" "all_targets_known upgrade_0001 []"
proof -
  have one: "upgrades_to 1 = upgrade_0001" by (simp add: upgrades_to_def migrations_def)
  show "apply_operations upgrade_0001 [] = change_all upgrade_0001 []"
    using empty_upgrades [of 1] by (simp only: one one_le_numeral)
  show "all_targets_known upgrade_0001 []"
    using upgrades_to_prefix [of 1] all_targets_known_append chain_targets(1) unfolding one by fastforce
qed

lemma downgrade_initial:
  assumes "at_revision 0 s" and "apply_operations upgrade_0001 s = Inr s'"
  shows "apply_operations downgrade_0001 s' = Inr s"
proof -
  have "s = []" using assms(1) by (simp add: at_revision_def upgrades_to_def structure_map)
  with assms(2) initial_runs(1) have run: "change_all upgrade_0001 [] = Inr s'" by simp
  from changes_rowless [OF this] initial_runs(2) have "rowless s'" "closed_schema s'" by simp_all
  with initial_dropped run apply_rowless [of s' downgrade_0001] \<open>s = []\<close> show ?thesis by simp
qed

lemma downgrade_additions:
  assumes "at_revision k s" and "1 \<le> k" and "k \<le> 5"
    and "list_all is_addition up" and "rev (map inverse_op up) = down" and "apply_operations up s = Inr s'"
  shows "apply_operations down s' = Inr s"
  using additions_undone [OF assms(4) at_revision_wf [OF assms(1-3)] _ assms(6)] assms(1,5)
  by (simp add: at_revision_def)

lemma downgrade_constraints:
  assumes "at_revision 1 s" and "apply_operations upgrade_0002 s = Inr s'"
  shows "apply_operations downgrade_0002 s' = Inr s"
proof -
  let ?a = "''booking_room_assignments''" and ?drop = "drop_constraint (constraint_name assignments_key)"
  have wf: "schema_wf s" and ok: "schema_ok s"
    using at_revision_wf [OF assms(1)] assms(1) by (simp_all add: at_revision_def)
  have first: "upgrade_0002 = DropConstraint (constraint_name assignments_key) ?a # tl upgrade_0002"
    by (simp add: upgrade_0002_def assignments_key_def)
  have "apply_operations (DropConstraint (constraint_name assignments_key) ?a # tl upgrade_0002) s = Inr s'"
    by (simp only: first [symmetric] assms(2))
  then obtain s1 where s1: "on_table ?a ?drop s = Inr s1" "schema_ok s1" "apply_operations (tl upgrade_0002) s1 = Inr s'"
    unfolding apply_operations.simps bind_result_Inr apply_operation_Inr change.simps by blast
  from s1(1) obtain t t1 where t: "find_table ?a s = Some t" "?drop t = Inr t1" "s1 = put_table ?a t1 s"
    by (auto simp: on_table_Inr)
  have "upgrades_to 1 = upgrade_0001" by (simp add: upgrades_to_def migrations_def)
  with structure_table [OF assms(1), where n = ?a and P = "\<lambda>t. distinct (object_names t) \<and> ta_constraints t \<noteq> [] \<and> last (ta_constraints t) = assignments_key"]
    initial_structure t(1)
  have k: "distinct (object_names t)" "ta_constraints t = butlast (ta_constraints t) @ [assignments_key]"
    by (auto split: sum.splits) (metis append_butlast_last_id)
  have tn: "table_wf t" "ta_name t = ?a" "distinct (map ta_name s)"
    using find_table_SomeD [OF t(1)] wf by (auto simp: schema_wf_def)
  have "add_constraint assignments_key t1 = Inr t" by (rule drop_constraint_back [OF t(2) k(2,1) tn(1)])
  moreover have "ta_name t1 = ?a" using t(2) tn(2) by (auto simp: drop_constraint_def split: if_splits)
  ultimately have "on_table ?a (add_constraint assignments_key) s1 = Inr s"
    using t(1,3) tn by (auto simp: on_table_Inr put_table_laws)
  then have "apply_operation (last downgrade_0002) s1 = Inr s"
    using ok by (simp add: apply_operation_Inr downgrade_0002_def assignments_key_def)
  moreover have "apply_operations (butlast downgrade_0002) s' = Inr s1"
    using additions_undone [OF additions_of(1) on_table_wf [OF keeps_wf_functions(5) wf s1(1)] s1(2,3)] additions_of(6) by simp
  moreover have "downgrade_0002 = butlast downgrade_0002 @ [last downgrade_0002]" by (simp add: downgrade_0002_def)
  ultimately show ?thesis by (metis apply_one apply_operations_append bind_result_simps(2))
qed

text \<open>The steps of the last upgrade on the table of the rooms.\<close>

lemma apply_on_table:
  assumes "apply_operation o1 (put_table n t s) = Inr s'" and "\<And>u. change o1 u = on_table n f u"
    and "find_table n s \<noteq> None" and "ta_name t = n" and "keeps_wf f" and "table_wf t"
  shows "\<exists>t'. f t = Inr t' \<and> s' = put_table n t' s \<and> schema_ok s' \<and> ta_name t' = n \<and> table_wf t'"
  using assms by (auto simp: apply_operation_Inr on_table_Inr put_table_laws keeps_wf_def)

lemma table_applies:
  assumes "f t = Inr t'" and "\<And>u. change o1 u = on_table n f u" and "find_table n s \<noteq> None" and "ta_name t = n"
    and "schema_ok (put_table n t' s)"
  shows "apply_operation o1 (put_table n t s) = Inr (put_table n t' s)"
  using assms by (simp add: apply_operation_Inr on_table_Inr put_table_laws)

lemma entrance_steps:
  assumes "apply_operations upgrade_0005 s = Inr s'" and "schema_wf s"
  shows "\<exists>t t1 t2 t3 t4 t5. find_table ''rooms'' s = Some t \<and> s' = put_table ''rooms'' t5 s
    \<and> add_column \<lparr>co_name = ''entrance_key'', co_type = SQL_String 120, co_nullable = True\<rparr> t = Inr t1
    \<and> update_rows_sql ''entrance_key'' (SQL_Const (JStr ''legacy_unassigned'')) t1 = Inr t2
    \<and> alter_nullable ''entrance_key'' False t2 = Inr t3 \<and> alter_nullable ''floor'' True t3 = Inr t4
    \<and> add_index \<lparr>ix_name = ''ix_rooms_property_entrance_key'', ix_columns = [''property_id'', ''entrance_key''],
         ix_unique = False, ix_where = None\<rparr> t4 = Inr t5
    \<and> schema_ok (put_table ''rooms'' t3 s) \<and> schema_ok (put_table ''rooms'' t4 s)
    \<and> table_wf t \<and> table_wf t3 \<and> table_wf t4 \<and> ta_name t = ''rooms'' \<and> ta_name t3 = ''rooms'' \<and> ta_name t4 = ''rooms''
    \<and> ta_name t5 = ''rooms''"
proof -
  let ?n = "''rooms''"
  have "map (\<lambda>o1. is_Inr (change o1 [])) upgrade_0005 \<noteq> []" by (simp add: upgrade_0005_def)
  obtain s1 s2 s3 s4 where run:
    "apply_operation (AddColumn ?n (sa_column ''entrance_key'' (SQL_String 120) True)) s = Inr s1"
    "apply_operation (UpdateRows ?n ''entrance_key'' (SQL_Const (JStr ''legacy_unassigned''))) s1 = Inr s2"
    "apply_operation (AlterNullable ?n ''entrance_key'' False) s2 = Inr s3"
    "apply_operation (AlterNullable ?n ''floor'' True) s3 = Inr s4"
    "apply_operation (CreateIndex ''ix_rooms_property_entrance_key'' ?n [''property_id'', ''entrance_key''] False None) s4 = Inr s'"
    using assms(1) unfolding upgrade_0005_def apply_operations.simps bind_result_Inr by blast
  from run(1) obtain t where t: "find_table ?n s = Some t" by (auto simp: apply_operation_Inr on_table_Inr)
  with assms(2) find_table_SomeD [OF t] have wf: "table_wf t" "ta_name t = ?n" "put_table ?n t s = s"
    by (auto simp: schema_wf_def put_table_laws)
  note step = apply_on_table [where n = ?n and s = s, OF _ _ _ _ keeps_wf_functions(1)]
    apply_on_table [where n = ?n and s = s, OF _ _ _ _ keeps_wf_functions(6)]
    apply_on_table [where n = ?n and s = s, OF _ _ _ _ keeps_wf_functions(2)]
    apply_on_table [where n = ?n and s = s, OF _ _ _ _ keeps_wf_functions(3)]
  from t have here: "find_table ?n s \<noteq> None" by simp
  have "apply_operation (AddColumn ?n (sa_column ''entrance_key'' (SQL_String 120) True)) (put_table ?n t s) = Inr s1"
    by (simp only: wf(3) run(1))
  from step(1) [OF this change.simps(3) here wf(2,1)]
  obtain t1 where t1: "add_column (plain_column (sa_column ''entrance_key'' (SQL_String 120) True)) t = Inr t1"
    "s1 = put_table ?n t1 s" "ta_name t1 = ?n" "table_wf t1"
    by blast
  from step(2) [OF run(2) [unfolded t1(2)] change.simps(11) here t1(3,4)]
  obtain t2 where t2: "update_rows_sql ''entrance_key'' (SQL_Const (JStr ''legacy_unassigned'')) t1 = Inr t2"
    "s2 = put_table ?n t2 s" "ta_name t2 = ?n" "table_wf t2" by blast
  from step(3) [OF run(3) [unfolded t2(2)] change.simps(5) here t2(3,4)]
  obtain t3 where t3: "alter_nullable ''entrance_key'' False t2 = Inr t3" "s3 = put_table ?n t3 s" "schema_ok s3"
    "ta_name t3 = ?n" "table_wf t3" by blast
  from step(3) [OF run(4) [unfolded t3(2)] change.simps(5) here t3(4,5)]
  obtain t4 where t4: "alter_nullable ''floor'' True t3 = Inr t4" "s4 = put_table ?n t4 s" "schema_ok s4"
    "ta_name t4 = ?n" "table_wf t4" by blast
  from step(4) [OF run(5) [unfolded t4(2)] change.simps(6) here t4(4,5)]
  obtain t5 where t5: "add_index \<lparr>ix_name = ''ix_rooms_property_entrance_key'', ix_columns = [''property_id'', ''entrance_key''],
         ix_unique = False, ix_where = None\<rparr> t4 = Inr t5" "s' = put_table ?n t5 s" "ta_name t5 = ?n" by blast
  have "plain_column (sa_column ''entrance_key'' (SQL_String 120) True)
      = \<lparr>co_name = ''entrance_key'', co_type = SQL_String 120, co_nullable = True\<rparr>"
    by (simp add: plain_column_def sa_column_def)
  with t wf t1 t2 t3 t4 t5 show ?thesis by auto
qed

lemma downgrade_entrance:
  assumes "at_revision 4 s" and "apply_operations upgrade_0005 s = Inr s'"
  shows "apply_operations downgrade_0005 s' = Inr s"
proof -
  let ?n = "''rooms''" and ?e = "''entrance_key''"
  have wf: "schema_wf s" and ok: "schema_ok s"
    using at_revision_wf [OF assms(1)] assms(1) by (simp_all add: at_revision_def)
  from entrance_steps [OF assms(2) wf] obtain t t1 t2 t3 t4 t5 where t: "find_table ?n s = Some t" "s' = put_table ?n t5 s"
    and steps: "add_column \<lparr>co_name = ?e, co_type = SQL_String 120, co_nullable = True\<rparr> t = Inr t1"
      "update_rows_sql ?e (SQL_Const (JStr ''legacy_unassigned'')) t1 = Inr t2"
      "alter_nullable ?e False t2 = Inr t3" "alter_nullable ''floor'' True t3 = Inr t4"
      "add_index \<lparr>ix_name = ''ix_rooms_property_entrance_key'', ix_columns = [''property_id'', ?e],
         ix_unique = False, ix_where = None\<rparr> t4 = Inr t5"
    and oks: "schema_ok (put_table ?n t3 s)" "schema_ok (put_table ?n t4 s)"
    and wfs: "table_wf t" "table_wf t3" "table_wf t4" and names: "ta_name t = ?n" "ta_name t3 = ?n" "ta_name t4 = ?n" "ta_name t5 = ?n"
    by blast
  from structure_table [OF assms(1), where n = ?n and P = "\<lambda>t. \<not> list_ex (\<lambda>c. co_name c = ''floor'' \<and> co_nullable c) (ta_columns t) \<and> ''floor'' \<in> set (column_names t)"]
    floor_structure t(1)
  have "\<not> list_ex (\<lambda>c. co_name c = ''floor'' \<and> co_nullable c) (ta_columns t)" "''floor'' \<in> set (column_names t)"
    by (auto split: sum.splits)
  then have floor: "\<forall>x \<in> set (ta_columns t3). co_name x = ''floor'' \<longrightarrow> \<not> co_nullable x" "''floor'' \<in> set (column_names t3)"
    using steps(1-3) by (auto simp: list_ex_iff add_column_def update_rows_sql_def alter_nullable_Inr set_nullable_def column_names_def split: if_splits)
  have "t3 \<in> set (put_table ?n t3 s)" using find_table_SomeD [OF t(1)] by (auto simp: put_table_def)
  with oks(1) have "\<forall>x \<in> set (ta_columns t3). column_ok (ta_rows t3) x"
    by (auto simp: schema_ok_def table_valid_def list_all_iff)
  with floor have "\<forall>row \<in> set (ta_rows t3). cell row ''floor'' \<noteq> JNull"
    by (fastforce simp: column_ok_def column_names_def list_all_iff)
  with steps(4) have "\<forall>row \<in> set (ta_rows t4). cell row ''floor'' \<noteq> JNull" by (auto simp: alter_nullable_Inr)
  moreover have "''floor'' \<in> set (column_names t4)" using steps(4) floor(2) by (auto simp: alter_nullable_Inr column_names_def)
  ultimately have coalesce:
    "update_rows_sql ''floor'' (SQL_Coalesce [SQL_Column ''floor'', SQL_Column ?e, SQL_Const (JStr ''legacy'')]) t4 = Inr t4"
    using wfs(3) by (intro coalesce_unchanged) auto
  have index: "drop_index ''ix_rooms_property_entrance_key'' t5 = Inr t4"
    using undone(2) [unfolded undoes_def, rule_format, OF wfs(3) steps(5)] by simp
  have nullable: "alter_nullable ''floor'' False t4 = Inr t3" by (rule alter_nullable_back [OF steps(4) floor(1)])
  have "drop_column ?e t3 = drop_column ?e t1"
    using drop_column_forgets(1) [OF steps(3)] drop_column_forgets(2) [OF steps(2)] by simp
  then have column: "drop_column ?e t3 = Inr t"
    using undone(1) [unfolded undoes_def, rule_format, OF wfs(1) steps(1)] by simp
  from t(1) have here: "find_table ?n s \<noteq> None" by simp
  note applies = table_applies [where s = s and n = ?n, OF _ _ here]
  have same: "put_table ?n t s = s" using t(1) wf by (simp add: put_table_laws schema_wf_def)
  have "apply_operation (DropIndex ''ix_rooms_property_entrance_key'' ?n) s' = Inr (put_table ?n t4 s)"
    unfolding t(2) by (rule applies [OF index change.simps(7) names(4) oks(2)])
  moreover have "apply_operation (UpdateRows ?n ''floor'' (SQL_Coalesce [SQL_Column ''floor'', SQL_Column ?e, SQL_Const (JStr ''legacy'')]))
      (put_table ?n t4 s) = Inr (put_table ?n t4 s)"
    by (rule applies [OF coalesce change.simps(11) names(3) oks(2)])
  moreover have "apply_operation (AlterNullable ?n ''floor'' False) (put_table ?n t4 s) = Inr (put_table ?n t3 s)"
    by (rule applies [OF nullable change.simps(5) names(3) oks(1)])
  moreover have "apply_operation (DropColumn ?n ?e) (put_table ?n t3 s) = Inr (put_table ?n t s)"
    by (rule applies [OF column change.simps(4) names(2)]) (simp only: same ok)
  ultimately show ?thesis by (simp add: downgrade_0005_def same)
qed

section \<open>Revisions\<close>

lemma applied_wf:
  assumes "list_all (\<lambda>o1. alters_table o1 \<and> \<not> drops_column o1) os" and "schema_wf s" and "apply_operations os s = Inr s'"
  shows "schema_wf s'"
  using assms
proof (induction os arbitrary: s)
  case (Cons o1 os)
  from Cons.prems obtain s1 where s1: "change o1 s = Inr s1" "apply_operations os s1 = Inr s'"
    by (auto simp: bind_result_Inr apply_operation_Inr)
  have "schema_wf s1" by (rule change_wf [OF _ _ Cons.prems(2) s1(1)]) (use Cons.prems(1) in auto)
  with Cons.IH s1(2) Cons.prems(1) show ?case by auto
qed simp

lemma applied_ok: "apply_operations os s = Inr s' \<Longrightarrow> os \<noteq> [] \<Longrightarrow> schema_ok s'"
proof (induction os arbitrary: s)
  case (Cons o1 os)
  then show ?case by (cases "os = []") (auto simp: bind_result_Inr apply_operation_Inr)
qed simp

lemma upgrades_to_Suc: "k < 5 \<Longrightarrow> upgrades_to (Suc k) = upgrades_to k @ mg_upgrade (migrations ! k)"
proof -
  assume "k < 5"
  moreover have "length migrations = 5" by (simp add: migrations_def)
  ultimately show ?thesis by (simp add: upgrades_to_def take_Suc_conv_app_nth)
qed

lemma upgraded_from_initial:
  assumes "at_revision k s" and "1 \<le> k" and "k < 5" and "apply_operations (mg_upgrade (migrations ! k)) s = Inr s'"
  shows "at_revision (Suc k) s'"
proof -
  let ?up = "mg_upgrade (migrations ! k)"
  have "?up \<in> {upgrade_0002, upgrade_0003, upgrade_0004, upgrade_0005}"
    using assms(2,3) by (auto simp: migrations_def less_Suc_eq numeral_eq_Suc)
  then have ops: "list_all (\<lambda>o1. alters_table o1 \<and> \<not> drops_column o1) ?up" "?up \<noteq> []"
    by (auto simp: upgrade_0002_def upgrade_0003_def upgrade_0004_def upgrade_0005_def)
  then have "list_all alters_table ?up" by (auto simp: list_all_iff)
  from apply_structure [OF this assms(4)] assms(1,3)
  have "change_all (upgrades_to (Suc k)) [] = Inr (structure_of s')"
    by (simp add: at_revision_def empty_upgrades upgrades_to_Suc change_all_append)
  moreover have "schema_wf s'" using applied_wf [OF ops(1) at_revision_wf assms(4)] assms(1-3) by simp
  ultimately show ?thesis
    using applied_ok [OF assms(4) ops(2)] assms(3)
    by (auto simp: at_revision_def empty_upgrades rows_shaped_def schema_wf_def table_wf_def)
qed

lemma upgraded_to_initial:
  assumes "apply_operations upgrade_0001 [] = Inr s'"
  shows "at_revision 1 s'"
proof -
  have one: "upgrades_to 1 = upgrade_0001" by (simp add: upgrades_to_def migrations_def)
  from assms have "rowless s'" using changes_rowless [of upgrade_0001 "[]" s'] initial_runs by simp
  then have "structure_of s' = s'" by (auto simp: structure_of_def rowless_def intro!: map_idI)
  moreover have "upgrade_0001 \<noteq> []" by (simp add: upgrade_0001_def)
  ultimately show ?thesis
    using assms applied_ok [OF assms] \<open>rowless s'\<close> unfolding at_revision_def one by (auto simp: rows_shaped_def rowless_def)
qed

section \<open>Properties\<close>

text \<open>C28. The migrations, run one after another on an empty database, succeed and lead to the tables the models
declare: the same columns with their types and nullability, the same primary keys, uniqueness
constraints, foreign keys and unique indexes, up to the names of constraints and the order of
columns. Beyond them the migrations create two plain indexes.\<close>

theorem migrations_reach_models:
  "\<exists>s m. upgrade_to_head [] = Inr s \<and> create_all = Inr m \<and> list_all2 same_table s m
    \<and> plain_indexes s = [(''rooms'', [''property_id'', ''entrance_key'']),
                         (''outbox_events'', [''status'', ''next_attempt_at'', ''created_at''])]
    \<and> plain_indexes m = []"
proof -
  have "upgrade_to_head [] = change_all (upgrades_to 5) []"
    by (simp add: upgrade_to_head_chain empty_upgrades)
  moreover have "create_all = change_all model_tables []"
    unfolding create_all_def using chain_targets(2) by (intro apply_rowless) simp_all
  ultimately show ?thesis using head_and_models by (auto split: sum.splits)
qed

text \<open>C29. A downgrade undoes its upgrade: whatever rows a database at the revision of the upgrade holds, once the
upgrade has run, the database is at the next revision and the downgrade succeeds and restores it exactly,
its rows included, even where it rewrites a column.\<close>

theorem downgrade_undoes_upgrade:
  assumes "k < 5" and "at_revision k s" and "apply_operations (mg_upgrade (migrations ! k)) s = Inr s'"
  shows "at_revision (Suc k) s' \<and> apply_operations (mg_downgrade (migrations ! k)) s' = Inr s"
proof (cases "k = 0")
  case True
  moreover from this assms(2) have "s = []" by (simp add: at_revision_def upgrades_to_def structure_map)
  ultimately show ?thesis
    using assms upgraded_to_initial [of s'] downgrade_initial [of s s'] by (simp add: migrations_def)
next
  case False
  with assms(1) consider "k = 1" | "k = 2" | "k = 3" | "k = 4" by linarith
  then have "apply_operations (mg_downgrade (migrations ! k)) s' = Inr s"
  proof cases
    case 1
    then show ?thesis using assms downgrade_constraints [of s s'] by (simp add: migrations_def)
  next
    case 2
    then show ?thesis
      using assms downgrade_additions [OF assms(2) _ _ additions_of(2,4)] by (simp add: migrations_def)
  next
    case 3
    then show ?thesis
      using assms downgrade_additions [OF assms(2) _ _ additions_of(3,5)] by (simp add: migrations_def)
  next
    case 4
    then show ?thesis using assms downgrade_entrance [of s s'] by (simp add: migrations_def)
  qed
  with upgraded_from_initial [OF assms(2) _ assms(1,3)] False show ?thesis by simp
qed

text \<open>A database at revision 4 with a property and one room on the ground floor.\<close>

definition with_rows :: "(string \<times> payload) list \<Rightarrow> schema \<Rightarrow> schema" where
  "with_rows contents s =
     map (\<lambda>t. t\<lparr>ta_rows := map (\<lambda>(n, cells). map (\<lambda>c. (c, cell cells c)) (column_names t))
                            (filter (\<lambda>(n, cells). n = ta_name t) contents)\<rparr>) s"

definition one_room :: "(string \<times> payload) list" where
  "one_room =
     [(''properties'', [(''id'', JInt 1), (''key'', JStr ''p''), (''name'', JStr ''H''), (''timezone'', JStr ''UTC'')]),
      (''rooms'', [(''id'', JInt 2), (''property_id'', JInt 1), (''key'', JStr ''101''), (''name'', JStr ''Room''),
                   (''floor'', JStr ''ground''), (''enabled'', JBool True)])]"

lemma one_room_upgrades:
  "case change_all (upgrades_to 4) [] of
     Inl _ \<Rightarrow> False
   | Inr u \<Rightarrow> rowless u \<and> schema_ok (with_rows one_room u) \<and> is_Inr (apply_operations upgrade_0005 (with_rows one_room u))"
  by code_simp

lemma structure_with_rows: "rowless u \<Longrightarrow> structure_of (with_rows contents u) = u"
  by (auto simp: structure_of_def with_rows_def rowless_def intro!: map_idI)

lemma rows_shaped_with_rows: "rows_shaped (with_rows contents u)"
  by (auto simp: rows_shaped_def with_rows_def comp_def column_names_def)

lemma with_rows_at_revision:
  assumes "change_all (upgrades_to k) [] = Inr u" and "k \<le> 5" and "rowless u" and "schema_ok (with_rows contents u)"
  shows "at_revision k (with_rows contents u)"
  using assms by (simp add: at_revision_def empty_upgrades structure_with_rows rows_shaped_with_rows)

theorem downgrade_undoes_upgrade_witness:
  "\<exists>s s'. at_revision 4 s \<and> s = with_rows one_room (structure_of s) \<and> apply_operations upgrade_0005 s = Inr s'
     \<and> apply_operations downgrade_0005 s' = Inr s"
proof -
  obtain u where u: "change_all (upgrades_to 4) [] = Inr u" "rowless u" "schema_ok (with_rows one_room u)"
    "is_Inr (apply_operations upgrade_0005 (with_rows one_room u))"
    using one_room_upgrades by (auto split: sum.splits)
  then obtain s' where s': "apply_operations upgrade_0005 (with_rows one_room u) = Inr s'" by (auto simp: is_Inr_iff)
  have at4: "at_revision 4 (with_rows one_room u)" by (rule with_rows_at_revision [OF u(1) _ u(2,3)]) simp
  have "mg_upgrade (migrations ! 4) = upgrade_0005" "mg_downgrade (migrations ! 4) = downgrade_0005"
    by (simp_all add: migrations_def)
  with downgrade_undoes_upgrade [of 4, OF _ at4] s' have "apply_operations downgrade_0005 s' = Inr (with_rows one_room u)"
    by simp
  with at4 s' structure_with_rows [OF u(2)] show ?thesis by metis
qed

text \<open>
  The downgrade of the second migration cannot always run later: it asks again for one row per
  booking and value of \<^verbatim>\<open>is_current\<close>, and the service keeps every removed assignment.
\<close>

definition moved_guest :: "(string \<times> payload) list" where
  "moved_guest =
     [(''properties'', [(''id'', JInt 1), (''key'', JStr ''p''), (''name'', JStr ''H''), (''timezone'', JStr ''UTC'')]),
      (''bookings'', map (\<lambda>c. (c, JStr ''x''))
         [''clock_booking_id'', ''booking_status'', ''source_booking_status'', ''arrival_date'', ''departure_date'',
          ''first_seen_at'', ''last_seen_at'', ''payload_hash'', ''needs_attention'']
         @ [(''id'', JInt 2), (''property_id'', JInt 1)])]
     @ map (\<lambda>n. (''booking_room_assignments'', [(''id'', JInt n), (''booking_id'', JInt 2),
                 (''assigned_at'', JInt n), (''is_current'', JBool False)])) [3, 4]"

lemma history_blocks_downgrade:
  "case change_all (upgrades_to 2) [] of
     Inl _ \<Rightarrow> False
   | Inr u \<Rightarrow> schema_ok (with_rows moved_guest u)
       \<and> apply_operations downgrade_0002 (with_rows moved_guest u) = Inl (OtherError ''IntegrityError'')"
  by code_simp
end
