(* ===== verification/Session_Schema.thy ===== *)
theory Session_Schema
  imports Migration_Theorems
begin

text \<open>
  The rows of the session model as rows of the migrated tables: what the session checks when it
  flushes is what the database's constraints demand.
\<close>

section \<open>Rows as cells\<close>

definition datetime_cell :: "datetime \<Rightarrow> json" where
  "datetime_cell t = JDateTime (Aware t)"

definition property_cells :: "property_row \<Rightarrow> payload" where
  "property_cells r =
     [(''id'', JUuid (ppr_id r)), (''key'', JStr (ppr_key r)), (''name'', JStr (ppr_name r)),
      (''timezone'', JStr (ppr_timezone r))]"

definition room_cells :: "room_row \<Rightarrow> payload" where
  "room_cells r =
     [(''id'', JUuid (rmr_id r)), (''property_id'', JUuid (rmr_property_id r)), (''key'', JStr (rmr_key r)),
      (''name'', JStr (rmr_name r)), (''floor'', json_opt JStr (rmr_floor r)),
      (''clock_room_id'', json_opt JStr (rmr_clock_room_id r)), (''enabled'', JBool (rmr_enabled r)),
      (''entrance_key'', JStr (rmr_entrance_key r))]"

definition booking_cells :: "booking_row \<Rightarrow> payload" where
  "booking_cells r =
     [(''id'', JUuid (bkr_id r)), (''property_id'', JUuid (bkr_property_id r)),
      (''clock_booking_id'', JStr (bkr_clock_booking_id r)),
      (''booking_number'', json_opt JStr (bkr_booking_number r)),
      (''external_source'', json_opt JStr (bkr_external_source r)),
      (''external_reference'', json_opt JStr (bkr_external_reference r)),
      (''booking_status'', JStr (bkr_booking_status r)),
      (''source_booking_status'', JStr (bkr_source_booking_status r)),
      (''arrival_date'', JDate (bkr_arrival_date r)), (''departure_date'', JDate (bkr_departure_date r)),
      (''created_at'', json_opt datetime_cell (bkr_created_at r)),
      (''updated_at'', json_opt datetime_cell (bkr_updated_at r)),
      (''status_changed_at'', json_opt datetime_cell (bkr_status_changed_at r)),
      (''room_type_id'', json_opt JStr (bkr_room_type_id r)),
      (''room_type_name'', json_opt JStr (bkr_room_type_name r)),
      (''adults'', json_opt JInt (bkr_adults r)), (''children'', json_opt JInt (bkr_children r)),
      (''first_seen_at'', datetime_cell (bkr_first_seen_at r)),
      (''last_seen_at'', datetime_cell (bkr_last_seen_at r)), (''payload_hash'', JStr (bkr_payload_hash r)),
      (''needs_attention'', JBool (bkr_needs_attention r)),
      (''attention_reason'', json_opt JStr (bkr_attention_reason r))]"

definition assignment_cells :: "assignment_row \<Rightarrow> payload" where
  "assignment_cells r =
     [(''id'', JUuid (asr_id r)), (''booking_id'', JUuid (asr_booking_id r)),
      (''room_id'', json_opt JUuid (asr_room_id r)), (''clock_room_id'', json_opt JStr (asr_clock_room_id r)),
      (''physical_room_number'', json_opt JStr (asr_physical_room_number r)),
      (''assigned_at'', datetime_cell (asr_assigned_at r)),
      (''removed_at'', json_opt datetime_cell (asr_removed_at r)), (''is_current'', JBool (asr_is_current r))]"

definition override_cells :: "override_row \<Rightarrow> payload" where
  "override_cells r =
     [(''id'', JUuid (ovr_id r)), (''room_id'', JUuid (ovr_room_id r)), (''command_id'', JUuid (ovr_command_id r)),
      (''control_mode'', JStr (ovr_control_mode r)), (''hvac_mode'', json_opt JStr (ovr_hvac_mode r)),
      (''target_temperature_c'', json_opt JFloat (ovr_target_temperature_c r)),
      (''water_heater_enabled'', json_opt JBool (ovr_water_heater_enabled r)),
      (''starts_at'', datetime_cell (ovr_starts_at r)), (''expires_at'', json_opt datetime_cell (ovr_expires_at r)),
      (''until_checkout'', JBool (ovr_until_checkout r)), (''created_by'', json_opt JStr (ovr_created_by r)),
      (''booking_id'', json_opt JUuid (ovr_booking_id r)), (''checkout_at'', json_opt datetime_cell (ovr_checkout_at r))]"

definition cursor_cells :: "cursor_row \<Rightarrow> payload" where
  "cursor_cells r =
     [(''id'', JUuid (scr_id r)), (''property_id'', JUuid (scr_property_id r)), (''source'', JStr (scr_source r)),
      (''cursor_value'', json_opt JStr (scr_cursor_value r)),
      (''last_success_at'', json_opt datetime_cell (scr_last_success_at r)),
      (''updated_at'', datetime_cell (scr_updated_at r))]"

section \<open>Uniqueness\<close>

text \<open>The keys a table keeps unique besides its primary key, with the column an index requires.\<close>

definition unique_keys :: "sql_table \<Rightarrow> (string list \<times> string option) list" where
  "unique_keys t =
     List.map_filter (\<lambda>c. case c of Unique _ cs \<Rightarrow> Some (cs, None) | _ \<Rightarrow> None) (ta_constraints t)
     @ map (\<lambda>ix. (ix_columns ix, ix_where ix)) (filter ix_unique (ta_indexes t))"

definition key_ok :: "payload list \<Rightarrow> string list \<times> string option \<Rightarrow> bool" where
  "key_ok rows k =
     unique_rows (fst k) (case snd k of None \<Rightarrow> rows | Some c \<Rightarrow> filter (\<lambda>row. cell row c = JBool True) rows)"

text \<open>Whether rows violate none of the uniqueness constraints and unique indexes of a table.\<close>

definition uniqueness_ok :: "schema \<Rightarrow> string \<Rightarrow> payload list \<Rightarrow> bool" where
  "uniqueness_ok s n rows =
     (case find_table n s of None \<Rightarrow> False | Some t \<Rightarrow> list_all (key_ok rows) (unique_keys t))"

definition head_keys :: "(string \<times> (string list \<times> string option) list) list" where
  "head_keys =
     [(''properties'', [([''key''], None)]),
      (''rooms'', [([''property_id'', ''clock_room_id''], None), ([''property_id'', ''key''], None)]),
      (''bookings'', [([''property_id'', ''clock_booking_id''], None)]),
      (''booking_room_assignments'', [([''booking_id''], Some ''is_current'')]),
      (''room_states'', []),
      (''room_policy_overrides'', [([''command_id''], None)]),
      (''sync_cursors'', [([''property_id'', ''source''], None)]),
      (''sync_runs'', []), (''outbox_events'', []), (''audit_events'', [])]"

lemma head_unique_keys:
  "case change_all (upgrades_to 5) [] of
     Inl _ \<Rightarrow> False | Inr s \<Rightarrow> map (\<lambda>t. (ta_name t, unique_keys t)) s = head_keys"
  by code_simp

lemma head_uniqueness:
  assumes "upgrade_to_head [] = Inr s" and "map_of head_keys n = Some keys"
  shows "uniqueness_ok s n rows = list_all (key_ok rows) keys"
proof -
  have "map (\<lambda>t. (ta_name t, unique_keys t)) s = head_keys"
    using assms(1) head_unique_keys by (simp add: upgrade_to_head_chain empty_upgrades)
  then have "map_of (map (\<lambda>t. (ta_name t, unique_keys t)) s) n = Some keys" using assms(2) by simp
  then have "map_option unique_keys (find_table n s) = Some keys"
    by (induction s) (auto simp: find_table_def split: if_splits)
  then show ?thesis by (auto simp: uniqueness_ok_def)
qed

lemma distinct_key:
  assumes "\<And>x y. f x = f y \<longleftrightarrow> g x = g y"
  shows "distinct (map f xs) \<longleftrightarrow> distinct (map g xs)"
  by (induction xs) (auto simp: assms image_iff)

lemma filter_map_rows: "filter P (map f xs) = map f (filter (P \<circ> f) xs)"
  by (simp add: filter_map)

lemmas cells_defs = property_cells_def room_cells_def booking_cells_def assignment_cells_def override_cells_def
  cursor_cells_def

lemma session_keys:
  "list_all (key_ok (map property_cells ps)) [([''key''], None)] \<longleftrightarrow> uq_properties ps"
  "list_all (key_ok (map room_cells rs)) [([''property_id'', ''clock_room_id''], None), ([''property_id'', ''key''], None)]
     \<longleftrightarrow> uq_rooms rs"
  "list_all (key_ok (map booking_cells bs)) [([''property_id'', ''clock_booking_id''], None)] \<longleftrightarrow> uq_bookings bs"
  "list_all (key_ok (map assignment_cells as)) [([''booking_id''], Some ''is_current'')] \<longleftrightarrow> uq_assignments as"
  "list_all (key_ok (map override_cells os)) [([''command_id''], None)] \<longleftrightarrow> uq_overrides os"
  "list_all (key_ok (map cursor_cells cs)) [([''property_id'', ''source''], None)] \<longleftrightarrow> uq_cursors cs"
proof -
  show "list_all (key_ok (map property_cells ps)) [([''key''], None)] \<longleftrightarrow> uq_properties ps"
    by (simp add: key_ok_def unique_rows_def cell_def cells_defs comp_def uq_properties_def)
      (rule distinct_key, simp)
  show "list_all (key_ok (map booking_cells bs)) [([''property_id'', ''clock_booking_id''], None)] \<longleftrightarrow> uq_bookings bs"
    by (simp add: key_ok_def unique_rows_def cell_def cells_defs comp_def uq_bookings_def)
      (rule distinct_key, simp)
  show "list_all (key_ok (map assignment_cells as)) [([''booking_id''], Some ''is_current'')] \<longleftrightarrow> uq_assignments as"
    by (simp add: key_ok_def unique_rows_def cell_def cells_defs comp_def uq_assignments_def filter_map_rows)
      (rule distinct_key, simp)
  show "list_all (key_ok (map override_cells os)) [([''command_id''], None)] \<longleftrightarrow> uq_overrides os"
    by (simp add: key_ok_def unique_rows_def cell_def cells_defs comp_def uq_overrides_def)
      (rule distinct_key, simp)
  show "list_all (key_ok (map cursor_cells cs)) [([''property_id'', ''source''], None)] \<longleftrightarrow> uq_cursors cs"
    by (simp add: key_ok_def unique_rows_def cell_def cells_defs comp_def uq_cursors_def)
      (rule distinct_key, simp)
  have "unique_rows [''property_id'', ''key''] (map room_cells rs)
      \<longleftrightarrow> distinct (map (\<lambda>r. (rmr_property_id r, rmr_key r)) rs)"
    by (simp add: unique_rows_def cell_def cells_defs comp_def) (rule distinct_key, simp)
  moreover have opt: "JNull = json_opt JStr c \<longleftrightarrow> c = None" "json_opt JStr c = json_opt JStr d \<longleftrightarrow> c = d" for c d
    by (cases c; cases d; simp)+
  have "unique_rows [''property_id'', ''clock_room_id''] (map room_cells rs)
      \<longleftrightarrow> distinct (map (\<lambda>r. (rmr_property_id r, rmr_clock_room_id r)) (filter (\<lambda>r. rmr_clock_room_id r \<noteq> None) rs))"
    by (simp add: unique_rows_def cell_def cells_defs comp_def filter_map_rows opt(1)) (rule distinct_key, simp add: opt(2))
  ultimately show "list_all (key_ok (map room_cells rs)) [([''property_id'', ''clock_room_id''], None), ([''property_id'', ''key''], None)]
     \<longleftrightarrow> uq_rooms rs"
    by (auto simp: key_ok_def uq_rooms_def)
qed

text \<open>What the session checks at a flush is what the migrated database enforces: for each of the six tables
with a uniqueness constraint or unique index besides its primary key, the check holds of the rows
exactly when no such constraint is violated; the other four tables have none, as the session assumes.\<close>

theorem flush_checks_schema:
  "\<exists>s. upgrade_to_head [] = Inr s
    \<and> (\<forall>rows. uniqueness_ok s ''properties'' (map property_cells rows) \<longleftrightarrow> uq_properties rows)
    \<and> (\<forall>rows. uniqueness_ok s ''rooms'' (map room_cells rows) \<longleftrightarrow> uq_rooms rows)
    \<and> (\<forall>rows. uniqueness_ok s ''bookings'' (map booking_cells rows) \<longleftrightarrow> uq_bookings rows)
    \<and> (\<forall>rows. uniqueness_ok s ''booking_room_assignments'' (map assignment_cells rows) \<longleftrightarrow> uq_assignments rows)
    \<and> (\<forall>rows. uniqueness_ok s ''room_policy_overrides'' (map override_cells rows) \<longleftrightarrow> uq_overrides rows)
    \<and> (\<forall>rows. uniqueness_ok s ''sync_cursors'' (map cursor_cells rows) \<longleftrightarrow> uq_cursors rows)
    \<and> (\<forall>rows. uniqueness_ok s ''room_states'' rows \<and> uniqueness_ok s ''sync_runs'' rows
          \<and> uniqueness_ok s ''outbox_events'' rows \<and> uniqueness_ok s ''audit_events'' rows)"
proof -
  obtain s where s: "upgrade_to_head [] = Inr s"
    using head_unique_keys by (auto simp: upgrade_to_head_chain empty_upgrades split: sum.splits)
  note keys = head_uniqueness [OF s]
  have head: "map_of head_keys ''properties'' = Some [([''key''], None)]"
    "map_of head_keys ''rooms'' = Some [([''property_id'', ''clock_room_id''], None), ([''property_id'', ''key''], None)]"
    "map_of head_keys ''bookings'' = Some [([''property_id'', ''clock_booking_id''], None)]"
    "map_of head_keys ''booking_room_assignments'' = Some [([''booking_id''], Some ''is_current'')]"
    "map_of head_keys ''room_policy_overrides'' = Some [([''command_id''], None)]"
    "map_of head_keys ''sync_cursors'' = Some [([''property_id'', ''source''], None)]"
    "map_of head_keys ''room_states'' = Some []" "map_of head_keys ''sync_runs'' = Some []"
    "map_of head_keys ''outbox_events'' = Some []" "map_of head_keys ''audit_events'' = Some []"
    by (simp_all add: head_keys_def)
  show ?thesis
    using s by (intro exI [of _ s]) (simp only: head [THEN keys] session_keys list.pred_inject(1) simp_thms)
qed

end
