(* ===== verification/Spec2Isabelle.thy ===== *)
theory Spec2Isabelle
  imports Room_To_Unit Outbox_Properties Clock_Properties Published_Decisions Session_Schema
begin

text \<open>
  A verification library for the Clock to Home Assistant orchestrator: a service that polls
  the bookings of a hotel from the Clock property management system, derives a desired state
  for every room, publishes the states over MQTT through an outbox, and drives G301 heat
  pump controllers through one worker per entrance.

  \<^bold>\<open>The parts and how they interact.\<close> Bookings come from Clock as JSON payloads
  (\<^verbatim>\<open>app/clock\<close>), are normalised and stored. The state machine (\<^verbatim>\<open>app/domain/state_machine.py\<close>)
  evaluates each room of the registry over the bookings, the policy engine
  (\<^verbatim>\<open>app/policy/engine.py\<close>) turns the evaluation into a \<open>DesiredRoomIntent\<close>, the database
  services (\<^verbatim>\<open>app/clock/db_sync.py\<close>) give it a version and queue it, and the outbox
  (\<^verbatim>\<open>app/outbox\<close>) publishes it. Home Assistant's panels send commands over MQTT, which
  \<^verbatim>\<open>app/policy/control.py\<close> stores as override rows. The runtime (\<^verbatim>\<open>app/runtime.py\<close>) runs the polls,
  the policy rounds and the outbox passes in turn, handles the commands and reports the health.
  The entrance worker (\<^verbatim>\<open>app/g301_adapter\<close>) receives an intent, plans register writes for the
  room's slave, writes them over an RTU bus, reads the status registers back and answers.

  \<^bold>\<open>Theories.\<close>
  \<^item> \<open>Prelude\<close>: exceptions as a datatype, results as a sum, state passing with exceptions
    (\<open>eff\<close>), triples over it, and the lemmas on lists and sorting that the components share.
  \<^item> \<open>PyFloat\<close>: Python floats as exact rationals with the infinities and NaN; products,
    quotients and sums are rounded to binary64 with ties to even (\<open>round64\<close>), comparisons,
    \<open>min\<close>, \<open>max\<close> and \<open>round\<close> are Python's. Signed zeros and subnormal underflow are not told
    apart; no modelled operation depends on them.
  \<^item> \<open>PyTime\<close>: dates as proleptic day ordinals, times and durations in microseconds, aware
    datetimes as wall time, fold and zone, ordered as Python orders them (by wall time within a
    zone, by instant across zones). The IANA database is the parameter \<open>tzdb\<close>.
  \<^item> \<open>Domain_Enums\<close>, \<open>Domain_Models\<close>: \<^verbatim>\<open>app/domain/enums.py\<close> and \<^verbatim>\<open>models.py\<close>; a pydantic model is a
    record, its validators a constructor \<open>mk_...\<close> that returns the record or the exception.
  \<^item> \<open>Room_State_Machine\<close>, \<open>Room_State_Properties\<close>: \<^verbatim>\<open>app/domain/state_machine.py\<close>.
  \<^item> \<open>Policy_Engine\<close>, \<open>Policy_Properties\<close>: \<^verbatim>\<open>app/policy/engine.py\<close> and \<^verbatim>\<open>commands.py\<close>; the table of
    intents (\<open>intent_table\<close>) is the abstract description of the engine, and
    \<open>derive_room_intent_table\<close> shows that its branches implement it.
  \<^item> \<open>G301_Registers\<close>, \<open>G301_Planner\<close>, \<open>G301_Transport\<close>, \<open>G301_Simulator\<close>, \<open>G301_Worker\<close>: the files
    of \<^verbatim>\<open>app/g301_adapter\<close>. The bus client is the interface \<open>register_client\<close> (what its calls may
    raise), interpreted on the register and the entrance simulator.
  \<^item> \<open>G301_Worker_Invariant\<close>: the worker's invariant \<open>worker_inv\<close> for any client that meets the
    interface (\<open>served_bus\<close>), operation by operation. \<open>G301_Worker_Frames\<close>: one proof over
    \<open>worker_steps\<close> for every relation between states that the primitive updates keep,
    interpreted for the frame (which room and slave change) and for the watermarks (versions
    only grow). \<open>G301_Simulation\<close>: the worker on the simulated entrance (\<open>bench\<close>), from
    planning through the delayed status registers to the answer. \<open>G301_Worker_Properties\<close>: the
    properties of the worker.
  \<^item> \<open>Room_To_Unit\<close>: bookings, evaluation, intent, worker and unit composed.
  \<^item> \<open>Outbox\<close>, \<open>Outbox_Properties\<close>: \<^verbatim>\<open>app/outbox/service.py\<close> and \<open>run_outbox_once\<close> of
    \<^verbatim>\<open>app/runtime.py\<close>. The table is a list of rows; a row lock of another transaction is a
    predicate on rows; the MQTT client is a computation that answers, raises or refuses.
  \<^item> \<open>Clock_Normalizer\<close>, \<open>Clock_Sync\<close>, \<open>Clock_Properties\<close>: \<^verbatim>\<open>app/clock/normalizer.py\<close>, \<^verbatim>\<open>sync.py\<close> and
    the contracts of \<^verbatim>\<open>interface.py\<close>. \<open>Clock_Clients\<close>: the fixture and the REST client; the locale
    \<open>finite_client\<close> is what the paging loop needs of a client to return, interpreted on both.
  \<^item> \<open>Persistence\<close>: the tables of \<^verbatim>\<open>app/persistence/models.py\<close> and the SQLAlchemy session: pending
    objects beside the rows that statements see, flush with its constraints, autoflush,
    transactions that roll back. \<open>Session_Frames\<close>, \<open>Service_Frames\<close>: which tables an operation
    leaves alone.
  \<^item> \<open>Clock_Db_Sync\<close>: \<^verbatim>\<open>app/clock/db_sync.py\<close>, every operation. \<open>Db_Sync_Properties\<close> (bookings,
    assignments and the cursor against an abstract mirror of the polls), \<open>Recalculation\<close> (what the
    recalculation of a room does), \<open>Intent_Versions\<close> (over runs of operations: versions grow, and the
    messages last published for a room are those of its last state) and
    \<open>Db_Sync_Theorems\<close> prove its properties.
  \<^item> \<open>Policy_Control\<close>: \<^verbatim>\<open>app/policy/control.py\<close>. \<open>Control_Panel\<close> is the abstract panel that the
    override rows implement (\<open>command_refines\<close>): the contract's commands as a table
    (\<open>panel_allows\<close>) and three rules (\<open>panel_step\<close>), which the code's parsers are shown to
    agree with (\<open>allowed_draft\<close>, \<open>step_is_command\<close>). \<open>Override_Safety\<close> is the invariant of the rows,
    \<open>Control_Theorems\<close> their properties.
  \<^item> \<open>Mqtt_Topics\<close>, \<open>Mqtt_Discovery\<close>, \<open>Mqtt_Client\<close>: \<^verbatim>\<open>topics.py\<close>, \<^verbatim>\<open>discovery.py\<close> and \<^verbatim>\<open>client.py\<close> of
    \<^verbatim>\<open>app/mqtt\<close>; the client's calls and callbacks are a step relation.
  \<^item> \<open>Settings\<close>: \<^verbatim>\<open>app/settings.py\<close>. \<open>System_State\<close>: \<^verbatim>\<open>app/system/state.py\<close>.
  \<^item> \<open>Runtime\<close>: \<^verbatim>\<open>app/runtime.py\<close>, with the step relation of its rounds, commands and callbacks.
    \<open>Runtime_Invariants\<close>: the locale \<open>runtime_invariant\<close> lifts an invariant of the database
    services to every run of the runtime, and is interpreted for the override rows and for the
    intent versions. \<open>Service_Runs\<close>: the runs of the whole service, with HTTP requests and the
    transactions of a command as steps; the locale carries the invariants over to them.
    \<open>Lifecycle\<close>: the handlers, the jobs of the MQTT client's executor (each a step of the service)
    and the application's lifespan. \<open>Client_Theorems\<close>, \<open>Runtime_Theorems\<close>: the properties of the edges and of
    the runtime. \<open>Service_Theorems\<close>: the invariants of the runs of the service.
    \<open>Published_Decisions\<close>: after an evaluation, the messages last published for a room show the
    decision over the rows that were read (\<open>decision\<close>), which refers to them by the digest that the
    service stores (\<open>digest_determines_messages\<close> says what it covers).
  \<^item> \<open>Adapter_States\<close>: \<^verbatim>\<open>app/mqtt/schemas.py\<close>, what adapters report. \<open>Discovery_Contract\<close>: the fields
    that the templates of the discovery documents read are those of the published states, except
    for the reported mode of a room whose report leaves the climate out.
  \<^item> \<open>Dashboard\<close>: \<^verbatim>\<open>app/dashboard/generator.py\<close>, and which announced entities its cards show.
  \<^item> \<open>Api_Routes\<close>, \<open>Api_Theorems\<close>: \<^verbatim>\<open>app/api/routes.py\<close>, each endpoint as a function of the runtime and
    its world, and the dispatch of a request behind its dependencies.
  \<^item> \<open>Schema\<close>, \<open>Schema_Laws\<close>: relational schemas with their rows, the operations of Alembic on
    PostgreSQL, and which of them undo each other. \<open>Migrations\<close>: \<^verbatim>\<open>migrations/versions\<close> and the
    tables that \<^verbatim>\<open>app/persistence/models.py\<close> declares. \<open>Migration_Theorems\<close>, \<open>Session_Schema\<close>: that
    these agree, that downgrades undo upgrades, and that the session's checks are the constraints
    of the migrated tables.

  \<^bold>\<open>Parameters.\<close> What is not in the repository is an argument: the time zone database, the
  bus client, the paho client and the HTTP client with its retry decorator, SHA-256 over the
  canonical JSON text, the jitter of the retry delay (any value between its bounds), the text
  conversions of Python values (\<open>py_text\<close>), \<^verbatim>\<open>uuid4\<close>, the clocks. Seconds given as floats (timeouts, delays, the skew) are rationals
  and become a timedelta by rounding to microseconds with ties to even, as the library does.

  \<^bold>\<open>Loops and fuel.\<close> Every loop of the modelled code is structural over a list or over a
  counter of remaining attempts, except the page loop of the poll, which has no bound: it is
  a partial function, \<open>poll_succeeds_iff\<close> characterises when it returns a result, and
  \<open>poll_never_returns_on_endless_cursors\<close> when it does not. No definition takes fuel but
  \<open>upgrade_from\<close>, which follows the revisions for as many steps as there are migrations; the
  chain has no gap and no cycle (\<open>upgrade_to_head_chain\<close>), so that is enough.

  \<^bold>\<open>Concurrency.\<close> The worker serialises deliveries with a lock, so a run is a list of
  deliveries (\<open>apply_intents\<close>). Outbox workers interleave between transactions; the
  properties of claims and late results order the transactions explicitly. The runtime's rounds
  contain no await, apart from the poll of the Clock client, so a round is a step and a poll is
  two: it is stored later, after any other steps. A command is handled on a thread of the MQTT
  client: in the runs of the runtime it is one step, in the runs of the service
  (\<open>service_step\<close>) its two transactions are steps of their own, so rounds, requests and other
  commands can come between them. A transaction is atomic in every run, and an outbox pass is one
  step; \<open>outbox_lifecycle\<close> takes its transactions apart.

  \<^bold>\<open>Not modelled.\<close> Reading and writing files (the YAML loading of \<^verbatim>\<open>app/config_loader.py\<close>, whose
  results the registry, policy and settings constructors check, and \<^verbatim>\<open>tools/generate_dashboard.py\<close>),
  the construction of the FastAPI application and of the database engine, Alembic's environment,
  the parsing of requests, the collations and lock waits of PostgreSQL and the lengths of its
  columns, foreign keys in the session model (the schema model has them), credentials and TLS of
  the MQTT client, and the cancellation of asyncio tasks.
\<close>

end
